(* ===== verification/Prelude.thy ===== *)
theory Prelude
  imports Complex_Main "HOL-Library.Char_ord" "HOL-Library.List_Lexorder"
begin

text \<open>
  Shared vocabulary of the development.

  \<^item> Results: a call that may raise is a value of \<open>'e + 'a\<close> (\<open>Inl\<close> the exception);
    \<open>rbind\<close>, \<open>raise_if\<close> and \<open>mapM\<close> sequence such calls in source order.
  \<^item> Stateful calls: a method that reads and writes an object is a function
    \<open>'s \<Rightarrow> ('e + 'a) \<times> 's\<close>; \<open>bindS\<close>, \<open>tryS\<close> and \<open>transaction\<close> are its sequencing,
    its exception handler and its \<open>BEGIN .. COMMIT/ROLLBACK\<close> bracket, and
    \<open>preserves I m\<close> says that \<open>m\<close> keeps the invariant \<open>I\<close> whether or not it raises.
  \<^item> Text: a Python \<open>str\<close> is modelled by its UTF-8 encoding, a HOL \<open>string\<close> whose
    characters are bytes. \<open>py_len\<close> counts code points as Python's \<open>len\<close> does and
    \<open>length\<close> counts the bytes of \<open>.encode()\<close>; the byte order of UTF-8 is Python's code
    point order, so \<open>sort\<close> on strings is Python's \<open>sorted\<close>.
  \<^item> Tables: a SQL table is the list of its rows, with \<open>lookup_by\<close>, \<open>update_where\<close> and
    \<open>delete_where\<close> for \<open>SELECT\<close>, \<open>UPDATE\<close> and \<open>DELETE\<close>.
  \<^item> The locale \<open>invariant_machine\<close> lifts a one-step invariant to every run.
\<close>

named_theorems res_simps \<open>unfolding rules of the exception and state combinators\<close>
named_theorems keeps \<open>closure rules of \<open>preserves\<close>\<close>

type_synonym str = string

section \<open>Results\<close>

definition rbind :: "'e + 'a \<Rightarrow> ('a \<Rightarrow> 'e + 'b) \<Rightarrow> 'e + 'b" where
  "rbind m f = (case m of Inl e \<Rightarrow> Inl e | Inr x \<Rightarrow> f x)"

definition raise_if :: "bool \<Rightarrow> 'e \<Rightarrow> 'e + unit" where
  "raise_if c e = (if c then Inl e else Inr ())"

fun mapM :: "('a \<Rightarrow> 'e + 'b) \<Rightarrow> 'a list \<Rightarrow> 'e + 'b list" where
  "mapM f [] = Inr []"
| "mapM f (x # xs) = rbind (f x) (\<lambda>y. rbind (mapM f xs) (\<lambda>ys. Inr (y # ys)))"

lemma mapM_cong [fundef_cong]:
  "xs = ys \<Longrightarrow> (\<And>x. x \<in> set ys \<Longrightarrow> f x = g x) \<Longrightarrow> mapM f xs = mapM g ys"
proof (induction xs arbitrary: ys)
  case (Cons x xs)
  then show ?case by (cases ys) auto
qed simp

definition is_ok :: "'e + 'a \<Rightarrow> bool" where
  "is_ok r = (case r of Inl _ \<Rightarrow> False | Inr _ \<Rightarrow> True)"

lemma rbind_Inl [simp]: "rbind (Inl e) f = Inl e"
  by (simp add: rbind_def)

lemma rbind_Inr [simp]: "rbind (Inr x) f = f x"
  by (simp add: rbind_def)

lemma rbind_eq_Inr: "rbind m f = Inr y \<longleftrightarrow> (\<exists>x. m = Inr x \<and> f x = Inr y)"
  by (cases m) auto

lemma rbind_eq_Inl: "rbind m f = Inl e \<longleftrightarrow> m = Inl e \<or> (\<exists>x. m = Inr x \<and> f x = Inl e)"
  by (cases m) auto

lemma raise_if_True [simp]: "raise_if True e = Inl e"
  by (simp add: raise_if_def)

lemma raise_if_False [simp]: "raise_if False e = Inr ()"
  by (simp add: raise_if_def)

lemma raise_if_eq_Inr [simp]: "raise_if c e = Inr u \<longleftrightarrow> \<not> c"
  by (simp add: raise_if_def)

lemma raise_if_eq_Inl [simp]: "raise_if c e = Inl e' \<longleftrightarrow> c \<and> e' = e"
  by (auto simp: raise_if_def)

lemma rbind_raise_if: "rbind (raise_if c e) f = (if c then Inl e else f ())"
  by (simp add: raise_if_def)

lemma is_ok_simps [simp]: "is_ok (Inl e) = False" "is_ok (Inr x) = True"
  by (simp_all add: is_ok_def)

lemma is_ok_iff: "is_ok r \<longleftrightarrow> (\<exists>x. r = Inr x)"
  by (cases r) auto

lemma mapM_ok_iff: "is_ok (mapM f xs) \<longleftrightarrow> (\<forall>x \<in> set xs. is_ok (f x))"
proof (induction xs)
  case (Cons x xs)
  then show ?case by (cases "f x"; cases "mapM f xs") auto
qed simp

lemma mapM_length: "mapM f xs = Inr ys \<Longrightarrow> length ys = length xs"
  by (induction xs arbitrary: ys) (auto simp: rbind_eq_Inr)

lemma mapM_set: "mapM f xs = Inr ys \<Longrightarrow> y \<in> set ys \<Longrightarrow> \<exists>x \<in> set xs. f x = Inr y"
  by (induction xs arbitrary: ys) (auto simp: rbind_eq_Inr)

lemma mapM_all_Inr: "(\<And>x. x \<in> set xs \<Longrightarrow> f x = Inr (g x)) \<Longrightarrow> mapM f xs = Inr (map g xs)"
  by (induction xs) auto

lemma mapM_Inr_nth: "mapM f xs = Inr ys \<Longrightarrow> i < length xs \<Longrightarrow> f (xs ! i) = Inr (ys ! i)"
proof (induction xs arbitrary: ys i)
  case (Cons x xs)
  then show ?case by (cases i) (auto simp: rbind_eq_Inr)
qed simp

lemma rbind_case_prod: "rbind m (\<lambda>(a, b). f a b) = Inr y \<longleftrightarrow> (\<exists>a b. m = Inr (a, b) \<and> f a b = Inr y)"
  by (cases m) (auto split: prod.splits)

lemma rbindE: "rbind m f = Inr y \<Longrightarrow> (\<And>x. m = Inr x \<Longrightarrow> f x = Inr y \<Longrightarrow> P) \<Longrightarrow> P"
  by (cases m) auto

lemma rbind_prodE: "rbind m (\<lambda>(a, b). f a b) = Inr y \<Longrightarrow> (\<And>a b. m = Inr (a, b) \<Longrightarrow> f a b = Inr y \<Longrightarrow> P) \<Longrightarrow> P"
  by (cases m) auto

lemma mapM_raise_if_ok: "mapM (\<lambda>x. raise_if (\<not> P x) e) xs = Inr us \<Longrightarrow> x \<in> set xs \<Longrightarrow> P x"
proof -
  assume "mapM (\<lambda>x. raise_if (\<not> P x) e) xs = Inr us" and x: "x \<in> set xs"
  then have "is_ok (mapM (\<lambda>x. raise_if (\<not> P x) e) xs)" by simp
  with x have "is_ok (raise_if (\<not> P x) e)" by (auto simp: mapM_ok_iff)
  then show "P x" by (simp add: raise_if_def split: if_splits)
qed

lemmas res_case_simps = rbind_eq_Inr rbind_eq_Inl rbind_raise_if
declare res_case_simps [res_simps]

text \<open>\<open>enumerate(xs, n)\<close>.\<close>

definition enumerate_from :: "nat \<Rightarrow> 'a list \<Rightarrow> (nat \<times> 'a) list" where
  "enumerate_from n xs = zip [n..<n + length xs] xs"

lemma length_enumerate_from [simp]: "length (enumerate_from n xs) = length xs"
  by (simp add: enumerate_from_def)

lemma nth_enumerate_from [simp]: "i < length xs \<Longrightarrow> enumerate_from n xs ! i = (n + i, xs ! i)"
  by (simp add: enumerate_from_def)

lemma set_enumerate_from: "(i, x) \<in> set (enumerate_from n xs) \<Longrightarrow> x \<in> set xs"
  by (auto simp: enumerate_from_def dest: set_zip_rightD)

section \<open>Stateful calls\<close>

definition retS :: "'a \<Rightarrow> 's \<Rightarrow> ('e + 'a) \<times> 's" where
  "retS x s = (Inr x, s)"

definition raiseS :: "'e \<Rightarrow> 's \<Rightarrow> ('e + 'a) \<times> 's" where
  "raiseS e s = (Inl e, s)"

definition bindS ::
  "('s \<Rightarrow> ('e + 'a) \<times> 's) \<Rightarrow> ('a \<Rightarrow> 's \<Rightarrow> ('e + 'b) \<times> 's) \<Rightarrow> 's \<Rightarrow> ('e + 'b) \<times> 's" where
  "bindS m f s = (case m s of (Inl e, s') \<Rightarrow> (Inl e, s') | (Inr x, s') \<Rightarrow> f x s')"

definition readS :: "('s \<Rightarrow> 'e + 'a) \<Rightarrow> 's \<Rightarrow> ('e + 'a) \<times> 's" where
  "readS f s = (f s, s)"

definition modifyS :: "('s \<Rightarrow> 's) \<Rightarrow> 's \<Rightarrow> ('e + unit) \<times> 's" where
  "modifyS f s = (Inr (), f s)"

definition tryS ::
  "('s \<Rightarrow> ('e + 'a) \<times> 's) \<Rightarrow> ('e \<Rightarrow> 's \<Rightarrow> ('e + 'a) \<times> 's) \<Rightarrow> 's \<Rightarrow> ('e + 'a) \<times> 's" where
  "tryS m h s = (case m s of (Inl e, s') \<Rightarrow> h e s' | (Inr x, s') \<Rightarrow> (Inr x, s'))"

text \<open>\<open>BEGIN IMMEDIATE .. COMMIT\<close> with \<open>ROLLBACK\<close> on an exception, which is raised again.\<close>

definition transaction :: "('s \<Rightarrow> ('e + 'a) \<times> 's) \<Rightarrow> 's \<Rightarrow> ('e + 'a) \<times> 's" where
  "transaction m s = (case m s of (Inl e, _) \<Rightarrow> (Inl e, s) | (Inr x, s') \<Rightarrow> (Inr x, s'))"

fun forS :: "('a \<Rightarrow> 's \<Rightarrow> ('e + unit) \<times> 's) \<Rightarrow> 'a list \<Rightarrow> 's \<Rightarrow> ('e + unit) \<times> 's" where
  "forS f [] s = (Inr (), s)"
| "forS f (x # xs) s = bindS (f x) (\<lambda>_. forS f xs) s"

definition preserves :: "('s \<Rightarrow> bool) \<Rightarrow> ('s \<Rightarrow> ('e + 'a) \<times> 's) \<Rightarrow> bool" where
  "preserves I m \<longleftrightarrow> (\<forall>s. I s \<longrightarrow> I (snd (m s)))"

lemmas stateful_defs = retS_def raiseS_def bindS_def readS_def modifyS_def tryS_def transaction_def

lemma bindS_Inr:
  "bindS m f w = (Inr y, w') \<longleftrightarrow> (\<exists>x w1. m w = (Inr x, w1) \<and> f x w1 = (Inr y, w'))"
  by (auto simp: bindS_def split: prod.splits sum.splits)

lemma preservesI [intro]: "(\<And>s. I s \<Longrightarrow> I (snd (m s))) \<Longrightarrow> preserves I m"
  by (simp add: preserves_def)

lemma preservesD: "preserves I m \<Longrightarrow> I s \<Longrightarrow> I (snd (m s))"
  by (simp add: preserves_def)

lemma preserves_retS [keeps]: "preserves I (retS x)"
  by (auto simp: retS_def)

lemma preserves_raiseS [keeps]: "preserves I (raiseS e)"
  by (auto simp: raiseS_def)

lemma preserves_readS [keeps]: "preserves I (readS f)"
  by (auto simp: readS_def)

lemma preserves_modifyS: "(\<And>s. I s \<Longrightarrow> I (f s)) \<Longrightarrow> preserves I (modifyS f)"
  by (auto simp: modifyS_def)

lemma preserves_bindS [keeps]:
  assumes "preserves I m" and "\<And>x. preserves I (f x)"
  shows "preserves I (bindS m f)"
proof
  fix s assume "I s"
  with assms(1) have "I (snd (m s))" by (rule preservesD)
  with assms(2) show "I (snd (bindS m f s))"
    by (auto simp: bindS_def preserves_def split: prod.splits sum.splits)
qed

lemma preserves_tryS [keeps]:
  assumes "preserves I m" and "\<And>e. preserves I (h e)"
  shows "preserves I (tryS m h)"
proof
  fix s assume "I s"
  with assms(1) have "I (snd (m s))" by (rule preservesD)
  with assms(2) show "I (snd (tryS m h s))"
    by (auto simp: tryS_def preserves_def split: prod.splits sum.splits)
qed

lemma preserves_transaction [keeps]:
  assumes "preserves I m"
  shows "preserves I (transaction m)"
proof
  fix s assume s: "I s"
  with assms have "I (snd (m s))" by (rule preservesD)
  with s show "I (snd (transaction m s))"
    by (auto simp: transaction_def split: prod.splits sum.splits)
qed

lemma preserves_forS [keeps]:
  assumes "\<And>x. preserves I (f x)"
  shows "preserves I (forS f xs)"
proof
  fix s show "I s \<Longrightarrow> I (snd (forS f xs s))"
  proof (induction xs arbitrary: s)
    case (Cons x xs)
    from assms Cons.prems have "I (snd (f x s))" by (rule preservesD)
    with Cons.IH show ?case by (auto simp: bindS_def split: prod.splits sum.splits)
  qed simp
qed

lemma transaction_Inl_unchanged: "fst (transaction m s) = Inl e \<Longrightarrow> snd (transaction m s) = s"
  by (auto simp: transaction_def split: prod.splits sum.splits)

section \<open>Text\<close>

text \<open>A continuation byte of UTF-8 has the form \<open>10xxxxxx\<close>; every other byte starts a code point.\<close>

fun cont_byte :: "char \<Rightarrow> bool" where
  "cont_byte (Char b0 b1 b2 b3 b4 b5 b6 b7) \<longleftrightarrow> b7 \<and> \<not> b6"

definition py_len :: "str \<Rightarrow> nat" where
  "py_len s = length (filter (\<lambda>c. \<not> cont_byte c) s)"

text \<open>\<open>py_take n s\<close> is the slice \<open>s[:n]\<close>, \<open>n\<close> counted in code points.\<close>

fun py_take :: "nat \<Rightarrow> str \<Rightarrow> str" where
  "py_take n [] = []"
| "py_take n (c # s) =
     (if cont_byte c then c # py_take n s
      else case n of 0 \<Rightarrow> [] | Suc m \<Rightarrow> c # py_take m s)"

lemma py_len_le_length: "py_len s \<le> length s"
  by (simp add: py_len_def)

lemma py_len_simps [simp]:
  "py_len [] = 0"
  "py_len (c # s) = (if cont_byte c then py_len s else Suc (py_len s))"
  "py_len (s @ t) = py_len s + py_len t"
  by (simp_all add: py_len_def)

lemma py_len_replicate [simp]: "py_len (replicate n c) = (if cont_byte c then 0 else n)"
  by (simp add: py_len_def)

lemma py_len_ascii: "(\<And>c. c \<in> set s \<Longrightarrow> \<not> cont_byte c) \<Longrightarrow> py_len s = length s"
  by (simp add: py_len_def)

lemma py_take_bound: "py_len (py_take n s) \<le> n"
proof (induction n s rule: py_take.induct)
  case (2 n c s)
  then show ?case by (cases n) auto
qed simp

lemma py_take_all: "py_len s \<le> n \<Longrightarrow> py_take n s = s"
proof (induction n s rule: py_take.induct)
  case (2 n c s)
  then show ?case by (cases n) (auto split: if_splits)
qed simp

lemma py_take_prefix: "\<exists>t. s = py_take n s @ t"
proof (induction n s rule: py_take.induct)
  case (2 n c s)
  then show ?case by (cases n) auto
qed simp

text \<open>\<open>s.startswith(p)\<close> and \<open>s.replace(pat, rep)\<close> (left to right, not overlapping).\<close>

fun starts_with :: "str \<Rightarrow> str \<Rightarrow> bool" where
  "starts_with [] s \<longleftrightarrow> True"
| "starts_with (p # ps) [] \<longleftrightarrow> False"
| "starts_with (p # ps) (c # s) \<longleftrightarrow> p = c \<and> starts_with ps s"

lemma starts_with_iff: "starts_with p s \<longleftrightarrow> (\<exists>t. s = p @ t)"
  by (induction p s rule: starts_with.induct) auto

lemma starts_with_append [simp]: "starts_with p (p @ t)"
  by (simp add: starts_with_iff)

function py_replace :: "str \<Rightarrow> str \<Rightarrow> str \<Rightarrow> str" where
  "py_replace pat rep s =
     (case s of [] \<Rightarrow> []
      | c # cs \<Rightarrow>
          if pat \<noteq> [] \<and> starts_with pat s
          then rep @ py_replace pat rep (drop (length pat) s)
          else c # py_replace pat rep cs)"
  by pat_completeness auto
termination
  by (relation "measure (\<lambda>(pat, rep, s). length s)") auto

declare py_replace.simps [simp del]

lemma py_replace_Nil [simp]: "py_replace pat rep [] = []"
  by (subst py_replace.simps) simp

lemma py_replace_Cons:
  "py_replace pat rep (c # cs) =
     (if pat \<noteq> [] \<and> starts_with pat (c # cs)
      then rep @ py_replace pat rep (drop (length pat) (c # cs))
      else c # py_replace pat rep cs)"
  by (subst py_replace.simps) simp

lemma py_replace_single [simp]:
  "py_replace [x] rep (c # cs) = (if c = x then rep else [c]) @ py_replace [x] rep cs"
  by (auto simp: py_replace_Cons)

lemma py_replace_single_concat: "py_replace [x] rep s = concat (map (\<lambda>c. if c = x then rep else [c]) s)"
  by (induction s) auto

definition occurs_in :: "str \<Rightarrow> str \<Rightarrow> bool" where
  "occurs_in p s \<longleftrightarrow> (\<exists>u v. s = u @ p @ v)"

lemma occurs_in_code [code]: "occurs_in p s \<longleftrightarrow> starts_with p s \<or> (case s of [] \<Rightarrow> False | _ # t \<Rightarrow> occurs_in p t)"
proof (cases s)
  case (Cons c t)
  then show ?thesis
    by (auto simp: occurs_in_def starts_with_iff Cons_eq_append_conv)
qed (auto simp: occurs_in_def starts_with_iff)

lemma py_replace_absent: "\<not> occurs_in pat s \<Longrightarrow> py_replace pat rep s = s"
proof (induction s)
  case (Cons c cs)
  from Cons.prems have "\<not> starts_with pat (c # cs)" and "\<not> occurs_in pat cs"
    by (auto simp: occurs_in_code [of pat "c # cs"])
  with Cons.IH show ?case by (simp add: py_replace_Cons)
qed simp

text \<open>\<open>sep.join(parts)\<close>.\<close>

fun join :: "str \<Rightarrow> str list \<Rightarrow> str" where
  "join sep [] = []"
| "join sep [x] = x"
| "join sep (x # y # zs) = x @ sep @ join sep (y # zs)"

lemma join_Cons: "join sep (x # xs) = x @ concat (map (\<lambda>y. sep @ y) xs)"
  by (induction xs arbitrary: x) auto

text \<open>Decimal rendering of integers, Python's \<open>str(n)\<close>.\<close>

definition digit_char :: "nat \<Rightarrow> char" where
  "digit_char d = ''0123456789'' ! d"

fun nat_str :: "nat \<Rightarrow> str" where
  "nat_str n = (if n < 10 then [digit_char n] else nat_str (n div 10) @ [digit_char (n mod 10)])"

declare nat_str.simps [simp del]

definition int_str :: "int \<Rightarrow> str" where
  "int_str i = (if i < 0 then CHR ''-'' # nat_str (nat (- i)) else nat_str (nat i))"

section \<open>Character classes\<close>

definition is_digit :: "char \<Rightarrow> bool" where
  "is_digit c \<longleftrightarrow> CHR ''0'' \<le> c \<and> c \<le> CHR ''9''"

definition is_upper :: "char \<Rightarrow> bool" where
  "is_upper c \<longleftrightarrow> CHR ''A'' \<le> c \<and> c \<le> CHR ''Z''"

definition is_lower :: "char \<Rightarrow> bool" where
  "is_lower c \<longleftrightarrow> CHR ''a'' \<le> c \<and> c \<le> CHR ''z''"

definition is_alnum :: "char \<Rightarrow> bool" where
  "is_alnum c \<longleftrightarrow> is_digit c \<or> is_upper c \<or> is_lower c"

definition is_lower_hex :: "char \<Rightarrow> bool" where
  "is_lower_hex c \<longleftrightarrow> is_digit c \<or> CHR ''a'' \<le> c \<and> c \<le> CHR ''f''"

lemmas char_class_defs = is_digit_def is_upper_def is_lower_def is_alnum_def is_lower_hex_def

lemma is_digit_digit_char: "d < 10 \<Longrightarrow> is_digit (digit_char d)"
  by (auto simp: digit_char_def is_digit_def less_Suc_eq numeral_eq_Suc)

lemma nat_str_digits: "list_all is_digit (nat_str n)"
proof (induction n rule: nat_str.induct)
  case (1 n)
  show ?case
    by (subst nat_str.simps) (use 1 in \<open>auto simp: is_digit_digit_char\<close>)
qed

lemma nat_str_nonempty [simp]: "nat_str n \<noteq> []"
  by (subst nat_str.simps) simp

section \<open>Rows\<close>

definition lookup_by :: "('r \<Rightarrow> 'k) \<Rightarrow> 'k \<Rightarrow> 'r list \<Rightarrow> 'r option" where
  "lookup_by key k rows = find (\<lambda>r. key r = k) rows"

definition update_where :: "('r \<Rightarrow> bool) \<Rightarrow> ('r \<Rightarrow> 'r) \<Rightarrow> 'r list \<Rightarrow> 'r list" where
  "update_where P f rows = map (\<lambda>r. if P r then f r else r) rows"

definition delete_where :: "('r \<Rightarrow> bool) \<Rightarrow> 'r list \<Rightarrow> 'r list" where
  "delete_where P rows = filter (\<lambda>r. \<not> P r) rows"

lemma lookup_by_Some: "lookup_by key k rows = Some r \<Longrightarrow> r \<in> set rows \<and> key r = k"
  by (auto simp: lookup_by_def find_Some_iff)

lemma lookup_by_None: "lookup_by key k rows = None \<longleftrightarrow> k \<notin> key ` set rows"
  by (auto simp: lookup_by_def find_None_iff)

lemma lookup_by_simps [simp]:
  "lookup_by key k [] = None"
  "lookup_by key k (r # rows) = (if key r = k then Some r else lookup_by key k rows)"
  by (simp_all add: lookup_by_def)

lemma lookup_by_append [simp]:
  "lookup_by key k (xs @ ys) = (case lookup_by key k xs of None \<Rightarrow> lookup_by key k ys | Some r \<Rightarrow> Some r)"
  by (induction xs) auto

lemma lookup_by_unique:
  "distinct (map key rows) \<Longrightarrow> r \<in> set rows \<Longrightarrow> lookup_by key (key r) rows = Some r"
  by (induction rows) auto

lemma lookup_by_update:
  assumes "\<And>r. key (f r) = key r"
  shows "lookup_by key k (update_where P f rows)
    = map_option (\<lambda>r. if P r then f r else r) (lookup_by key k rows)"
  by (induction rows) (auto simp: update_where_def assms)

lemma map_update_where:
  assumes "\<And>r. g (f r) = g r"
  shows "map g (update_where P f rows) = map g rows"
  by (simp add: update_where_def assms comp_def if_distrib cong: if_cong)

lemma length_update_where [simp]: "length (update_where P f rows) = length rows"
  by (simp add: update_where_def)

lemma set_update_where: "set (update_where P f rows) = (\<lambda>r. if P r then f r else r) ` set rows"
  by (simp add: update_where_def)

lemma set_delete_where [simp]: "set (delete_where P rows) = {r \<in> set rows. \<not> P r}"
  by (auto simp: delete_where_def)

lemma length_delete_where: "length (delete_where P rows) \<le> length rows"
  by (simp add: delete_where_def)

lemma distinct_map_delete_where: "distinct (map f rows) \<Longrightarrow> distinct (map f (delete_where P rows))"
  by (simp add: delete_where_def distinct_map_filter)

section \<open>Sorted sets of identifiers\<close>

text \<open>\<open>sorted(set(xs))\<close>.\<close>

definition sorted_set :: "'a::linorder list \<Rightarrow> 'a list" where
  "sorted_set xs = sort (remdups xs)"

lemma set_sorted_set [simp]: "set (sorted_set xs) = set xs"
  by (simp add: sorted_set_def)

lemma distinct_sorted_set [simp]: "distinct (sorted_set xs)"
  by (simp add: sorted_set_def)

lemma sorted_sorted_set [simp]: "sorted (sorted_set xs)"
  by (simp add: sorted_set_def)

lemma length_sorted_set: "length (sorted_set xs) \<le> length xs"
  by (simp add: sorted_set_def length_remdups_leq)

lemma sorted_set_empty [simp]: "sorted_set xs = [] \<longleftrightarrow> xs = []"
  by (metis set_empty set_sorted_set)

lemma sorted_set_cong: "set xs = set ys \<Longrightarrow> sorted_set xs = sorted_set ys"
  by (metis distinct_sorted_set set_sorted_set sorted_distinct_set_unique sorted_sorted_set)

section \<open>Runs of a step relation\<close>

locale invariant_machine =
  fixes init :: "'s \<Rightarrow> bool" and step :: "'s \<Rightarrow> 's \<Rightarrow> bool" and inv :: "'s \<Rightarrow> bool"
  assumes inv_init: "init s \<Longrightarrow> inv s"
    and inv_step: "inv s \<Longrightarrow> step s t \<Longrightarrow> inv t"
begin

lemma inv_run:
  assumes "step\<^sup>*\<^sup>* s t" and "inv s"
  shows "inv t"
  using assms by (induction rule: rtranclp_induct) (auto intro: inv_step)

lemma inv_reachable: "init s \<Longrightarrow> step\<^sup>*\<^sup>* s t \<Longrightarrow> inv t"
  by (blast intro: inv_run inv_init)

end

end
