(* ===== verification/Errors.thy ===== *)
theory Errors
  imports Prelude
begin

text \<open>
  The error values of the Analysis plugin (\<open>errors.py\<close>) and its frozen identities and hard
  ceilings (\<open>constants.py\<close>).

  An exception is a value of \<open>exn\<close>. \<open>Analysis\<close> carries the four fields of the
  \<open>AnalysisError\<close> dataclass and the class it was raised as, because handlers distinguish
  \<open>UnsafeOutput\<close> from its base class. The remaining constructors are the exceptions of
  libraries that the source lets escape or catches as \<open>Exception\<close>: pydantic's
  \<open>ValidationError\<close>, sqlite's \<open>IntegrityError\<close>, and \<open>ValueError\<close>, \<open>KeyError\<close>,
  \<open>TypeError\<close>, \<open>AttributeError\<close>, \<open>OSError\<close>, \<open>IndexError\<close>,
  \<open>UnicodeDecodeError\<close> and \<open>AssertionError\<close> of the language.
\<close>

section \<open>Exceptions\<close>

datatype err_class =
  AnalysisErrorC | ProviderUnavailableC | MCPUnavailableC | PeerUnavailableC | UnsafeOutputC

record analysis_error =
  err_class :: err_class
  err_code :: str
  err_message :: str
  err_http_status :: int
  err_retryable :: bool

datatype exn =
  Analysis analysis_error
| ValidationError
| IntegrityError
| ValueError
| KeyError
| TypeError
| AttributeError
| OSError
| IndexError
| UnicodeDecodeError
| AssertionError

definition AnalysisErrorR :: "str \<Rightarrow> str \<Rightarrow> int \<Rightarrow> bool \<Rightarrow> exn" where
  "AnalysisErrorR code message status retryable =
     Analysis \<lparr>err_class = AnalysisErrorC, err_code = code, err_message = message,
       err_http_status = status, err_retryable = retryable\<rparr>"

text \<open>The dataclass default \<open>retryable = False\<close>.\<close>

definition AnalysisError :: "str \<Rightarrow> str \<Rightarrow> int \<Rightarrow> exn" where
  "AnalysisError code message status = AnalysisErrorR code message status False"

definition error_str :: "analysis_error \<Rightarrow> str" where
  "error_str e = err_code e @ '': '' @ err_message e"

definition ProviderUnavailable :: "str \<Rightarrow> exn" where
  "ProviderUnavailable message =
     Analysis \<lparr>err_class = ProviderUnavailableC, err_code = ''PROVIDER_UNAVAILABLE'',
       err_message = message, err_http_status = 503, err_retryable = True\<rparr>"

definition MCPUnavailable :: "str \<Rightarrow> exn" where
  "MCPUnavailable message =
     Analysis \<lparr>err_class = MCPUnavailableC, err_code = ''MCP_UNAVAILABLE'',
       err_message = message, err_http_status = 503, err_retryable = True\<rparr>"

definition PeerUnavailable :: "str \<Rightarrow> exn" where
  "PeerUnavailable message =
     Analysis \<lparr>err_class = PeerUnavailableC, err_code = ''PEER_UNAVAILABLE'',
       err_message = message, err_http_status = 503, err_retryable = True\<rparr>"

definition UnsafeOutput :: "str \<Rightarrow> exn" where
  "UnsafeOutput message =
     Analysis \<lparr>err_class = UnsafeOutputC, err_code = ''UNSAFE_OUTPUT'',
       err_message = message, err_http_status = 422, err_retryable = False\<rparr>"

text \<open>\<open>except AnalysisError\<close> and \<open>except UnsafeOutput\<close>.\<close>

fun is_analysis_error :: "exn \<Rightarrow> bool" where
  "is_analysis_error (Analysis e) \<longleftrightarrow> True"
| "is_analysis_error _ \<longleftrightarrow> False"

fun is_unsafe_output :: "exn \<Rightarrow> bool" where
  "is_unsafe_output (Analysis e) \<longleftrightarrow> err_class e = UnsafeOutputC"
| "is_unsafe_output _ \<longleftrightarrow> False"

fun exn_code :: "exn \<Rightarrow> str option" where
  "exn_code (Analysis e) = Some (err_code e)"
| "exn_code _ = None"

lemmas raised_defs =
  AnalysisErrorR_def AnalysisError_def ProviderUnavailable_def MCPUnavailable_def
  PeerUnavailable_def UnsafeOutput_def

lemma is_analysis_error_raised [simp]:
  "is_analysis_error (AnalysisErrorR c m st r)" "is_analysis_error (AnalysisError c m st)"
  "is_analysis_error (ProviderUnavailable m)" "is_analysis_error (MCPUnavailable m)"
  "is_analysis_error (PeerUnavailable m)" "is_analysis_error (UnsafeOutput m)"
  by (simp_all add: raised_defs)

lemma is_unsafe_output_raised [simp]:
  "\<not> is_unsafe_output (AnalysisErrorR c m st r)" "\<not> is_unsafe_output (AnalysisError c m st)"
  "\<not> is_unsafe_output (ProviderUnavailable m)" "\<not> is_unsafe_output (MCPUnavailable m)"
  "\<not> is_unsafe_output (PeerUnavailable m)" "is_unsafe_output (UnsafeOutput m)"
  by (simp_all add: raised_defs)

lemma exn_code_raised [simp]:
  "exn_code (AnalysisErrorR c m st r) = Some c" "exn_code (AnalysisError c m st) = Some c"
  "exn_code (ProviderUnavailable m) = Some ''PROVIDER_UNAVAILABLE''"
  "exn_code (MCPUnavailable m) = Some ''MCP_UNAVAILABLE''"
  "exn_code (PeerUnavailable m) = Some ''PEER_UNAVAILABLE''"
  "exn_code (UnsafeOutput m) = Some ''UNSAFE_OUTPUT''"
  by (simp_all add: raised_defs)

lemma exn_code_analysis: "is_analysis_error e \<longleftrightarrow> (\<exists>c. exn_code e = Some c)"
  by (cases e) auto

section \<open>Frozen identities and hard ceilings\<close>

definition PLUGIN_ID :: str where "PLUGIN_ID = ''masi.analysis.langgraph''"
definition VERSION :: str where "VERSION = ''1.0.0''"
definition A2A_VERSION :: str where "A2A_VERSION = ''1.0''"
definition INPUT_SCHEMA :: str where "INPUT_SCHEMA = ''masi-analysis-input/v1''"
definition ARTIFACT_SCHEMA :: str where "ARTIFACT_SCHEMA = ''masi-analysis-artifact/v1''"
definition GRAPH_VERSION :: str where "GRAPH_VERSION = ''masi-analysis-graph/v1''"
definition MCP_PROFILE :: str where "MCP_PROFILE = ''masi-mcp-readonly/v1''"
definition MCP_VERSION :: str where "MCP_VERSION = ''2025-11-25''"
definition PROVIDER_PROFILE :: str where "PROVIDER_PROFILE = ''analysis-provider/v1''"

definition SKILLS :: "str list" where
  "SKILLS = [''analyze_nids_incident'', ''compare_event_windows'',
     ''draft_mitigation_advice'', ''generate_incident_content'']"

definition HARD_LLM_CALLS :: int where "HARD_LLM_CALLS = 2"
definition HARD_MCP_ROUNDS :: int where "HARD_MCP_ROUNDS = 2"
definition HARD_TOOL_CALLS :: int where "HARD_TOOL_CALLS = 6"
definition HARD_TOOL_PARALLELISM :: int where "HARD_TOOL_PARALLELISM = 4"
definition HARD_TOOL_TIMEOUT_MS :: int where "HARD_TOOL_TIMEOUT_MS = 5000"
definition HARD_TOOL_RESPONSE_BYTES :: int where "HARD_TOOL_RESPONSE_BYTES = 65536"
definition HARD_TOOL_TOTAL_RESPONSE_BYTES :: int where "HARD_TOOL_TOTAL_RESPONSE_BYTES = 262144"
definition HARD_LLM_TIMEOUT_MS :: int where "HARD_LLM_TIMEOUT_MS = 6000"
definition HARD_RESULT_BUDGET_MS :: int where "HARD_RESULT_BUDGET_MS = 8000"
definition HARD_GRAPH_DEADLINE_MS :: int where "HARD_GRAPH_DEADLINE_MS = 30000"
definition HARD_ARTIFACT_BYTES :: int where "HARD_ARTIFACT_BYTES = 65536"
definition HARD_A2A_DELEGATIONS :: int where "HARD_A2A_DELEGATIONS = 2"
definition HARD_A2A_DEPTH :: int where "HARD_A2A_DEPTH = 1"
definition HARD_A2A_POLLS :: int where "HARD_A2A_POLLS = 3"
definition HARD_A2A_RESPONSE_BYTES :: int where "HARD_A2A_RESPONSE_BYTES = 131072"

lemmas hard_defs =
  HARD_LLM_CALLS_def HARD_MCP_ROUNDS_def HARD_TOOL_CALLS_def HARD_TOOL_PARALLELISM_def
  HARD_TOOL_TIMEOUT_MS_def HARD_TOOL_RESPONSE_BYTES_def HARD_TOOL_TOTAL_RESPONSE_BYTES_def
  HARD_LLM_TIMEOUT_MS_def HARD_RESULT_BUDGET_MS_def HARD_GRAPH_DEADLINE_MS_def
  HARD_ARTIFACT_BYTES_def HARD_A2A_DELEGATIONS_def HARD_A2A_DEPTH_def HARD_A2A_POLLS_def
  HARD_A2A_RESPONSE_BYTES_def

datatype ref_kind = EventRef | IncidentRef | EvidenceRef | RuntimeRef

definition TOOL_ARGUMENT_FIELDS :: "(str \<times> (str \<times> ref_kind)) list" where
  "TOOL_ARGUMENT_FIELDS =
     [(''masi.events.get'', (''event_id'', EventRef)),
      (''masi.incidents.get'', (''incident_id'', IncidentRef)),
      (''masi.evidence.get'', (''evidence_id'', EvidenceRef)),
      (''masi.targets.get'', (''target_id'', RuntimeRef))]"

definition RESOURCE_URIS :: "(str \<times> str) list" where
  "RESOURCE_URIS =
     [(''masi.incidents.open'', ''masi://incidents/open''),
      (''masi.evidence.recent'', ''masi://evidence/recent'')]"

text \<open>The task states: the six named by \<open>constants.py\<close> and the two further ones of the contract.\<close>

datatype task_state =
  TASK_SUBMITTED | TASK_WORKING | TASK_COMPLETED | TASK_FAILED | TASK_CANCELED | TASK_REJECTED
| TASK_INPUT_REQUIRED | TASK_AUTH_REQUIRED

fun task_state_str :: "task_state \<Rightarrow> str" where
  "task_state_str TASK_SUBMITTED = ''TASK_STATE_SUBMITTED''"
| "task_state_str TASK_WORKING = ''TASK_STATE_WORKING''"
| "task_state_str TASK_COMPLETED = ''TASK_STATE_COMPLETED''"
| "task_state_str TASK_FAILED = ''TASK_STATE_FAILED''"
| "task_state_str TASK_CANCELED = ''TASK_STATE_CANCELED''"
| "task_state_str TASK_REJECTED = ''TASK_STATE_REJECTED''"
| "task_state_str TASK_INPUT_REQUIRED = ''TASK_STATE_INPUT_REQUIRED''"
| "task_state_str TASK_AUTH_REQUIRED = ''TASK_STATE_AUTH_REQUIRED''"

end
