(* ===== verification/Models.thy ===== *)
theory Models
  imports Canonical
begin

text \<open>
  The contract records of \<open>models.py\<close>.

  A pydantic class is a record; its \<open>X_ok\<close> is the conjunction of the constraints its fields
  declare and of its \<open>model_validator\<close>; \<open>dump_X\<close> is \<open>model_dump(mode="json")\<close>, the fields in
  declaration order. \<open>construct X_ok x\<close> is the constructor call, which raises
  \<open>ValidationError\<close> when a declared constraint fails; \<open>model_copy(update=..)\<close>, which does not
  validate, is a plain record update. A field typed \<open>Literal\<close> over strings stays a string with
  a membership constraint; the task state is the enumeration \<open>task_state\<close>.

  Decoding bytes into a model (\<open>model_validate_json\<close>, pydantic's own JSON reader) is code
  outside the repository: it is a parameter of the definitions that use it.
\<close>

section \<open>Constrained types\<close>

definition Identity_ok :: "str \<Rightarrow> bool" where
  "Identity_ok s \<longleftrightarrow>
     1 \<le> py_len s \<and> py_len s \<le> 128
   \<and> (case s of [] \<Rightarrow> False
      | c # cs \<Rightarrow> is_alnum c \<and> list_all (\<lambda>d. is_alnum d \<or> d \<in> set ''._:-'') cs)"

definition Digest_ok :: "str \<Rightarrow> bool" where
  "Digest_ok s \<longleftrightarrow>
     starts_with ''sha256:'' s \<and> length (drop 7 s) = 64 \<and> list_all is_lower_hex (drop 7 s)"

definition Revision_ok :: "str \<Rightarrow> bool" where
  "Revision_ok s \<longleftrightarrow> length s = 40 \<and> list_all is_lower_hex s"

definition ReasonCode_ok :: "str \<Rightarrow> bool" where
  "ReasonCode_ok s \<longleftrightarrow>
     (case s of [] \<Rightarrow> False
      | c # cs \<Rightarrow> is_upper c \<and> length cs \<le> 63
          \<and> list_all (\<lambda>d. is_upper d \<or> is_digit d \<or> d = CHR ''_'') cs)"

text \<open>\<open>Field(min_length, max_length)\<close> on text and on lists, \<open>Field(ge, le)\<close> on integers and on floats.\<close>

definition str_len :: "nat \<Rightarrow> nat \<Rightarrow> str \<Rightarrow> bool" where
  "str_len lo hi s \<longleftrightarrow> lo \<le> py_len s \<and> py_len s \<le> hi"

definition items_len :: "nat \<Rightarrow> nat \<Rightarrow> 'a list \<Rightarrow> bool" where
  "items_len lo hi xs \<longleftrightarrow> lo \<le> length xs \<and> length xs \<le> hi"

definition in_range :: "int \<Rightarrow> int \<Rightarrow> int \<Rightarrow> bool" where
  "in_range lo hi i \<longleftrightarrow> lo \<le> i \<and> i \<le> hi"

definition unit_interval :: "pyfloat \<Rightarrow> bool" where
  "unit_interval f \<longleftrightarrow> (case f of FFin q \<Rightarrow> 0 \<le> q \<and> q \<le> 1 | _ \<Rightarrow> False)"

lemmas field_defs = str_len_def items_len_def in_range_def unit_interval_def

definition construct :: "('a \<Rightarrow> bool) \<Rightarrow> 'a \<Rightarrow> exn + 'a" where
  "construct ok x = (if ok x then Inr x else Inl ValidationError)"

definition opt_json :: "str option \<Rightarrow> json" where
  "opt_json s = (case s of None \<Rightarrow> JNull | Some t \<Rightarrow> JStr t)"

lemma construct_eq_Inr [simp]: "construct ok x = Inr y \<longleftrightarrow> ok x \<and> y = x"
  by (auto simp: construct_def)

lemma construct_eq_Inl [simp]: "construct ok x = Inl e \<longleftrightarrow> \<not> ok x \<and> e = ValidationError"
  by (auto simp: construct_def)

section \<open>Records\<close>

subsection \<open>\<open>FactRef\<close>\<close>

record fact_ref =
  fr_id :: str
  fr_digest :: str

definition FactRef_ok :: "fact_ref \<Rightarrow> bool" where
  "FactRef_ok x \<longleftrightarrow>
     Identity_ok (fr_id x)
   \<and> Digest_ok (fr_digest x)"

definition dump_FactRef :: "fact_ref \<Rightarrow> json" where
  "dump_FactRef x = JObj
     [(''id'', JStr (fr_id x)),
      (''digest'', JStr (fr_digest x))]"

subsection \<open>\<open>AnalysisBudgets\<close>\<close>

record analysis_budgets =
  bg_llm_calls :: int
  bg_mcp_rounds :: int
  bg_tool_calls :: int
  bg_tool_parallelism :: int
  bg_tool_timeout_ms :: int
  bg_tool_response_bytes :: int
  bg_tool_total_response_bytes :: int
  bg_llm_timeout_ms :: int
  bg_result_budget_ms :: int
  bg_graph_deadline_ms :: int
  bg_artifact_bytes :: int
  bg_outbound_delegations :: int
  bg_delegation_depth :: int
  bg_polls_per_task :: int
  bg_a2a_response_bytes :: int

definition AnalysisBudgets_ok :: "analysis_budgets \<Rightarrow> bool" where
  "AnalysisBudgets_ok x \<longleftrightarrow>
     in_range 0 HARD_LLM_CALLS (bg_llm_calls x)
   \<and> in_range 0 HARD_MCP_ROUNDS (bg_mcp_rounds x)
   \<and> in_range 0 HARD_TOOL_CALLS (bg_tool_calls x)
   \<and> in_range 1 HARD_TOOL_PARALLELISM (bg_tool_parallelism x)
   \<and> in_range 1 HARD_TOOL_TIMEOUT_MS (bg_tool_timeout_ms x)
   \<and> in_range 1 HARD_TOOL_RESPONSE_BYTES (bg_tool_response_bytes x)
   \<and> in_range 1 HARD_TOOL_TOTAL_RESPONSE_BYTES (bg_tool_total_response_bytes x)
   \<and> in_range 1 HARD_LLM_TIMEOUT_MS (bg_llm_timeout_ms x)
   \<and> in_range 1 HARD_RESULT_BUDGET_MS (bg_result_budget_ms x)
   \<and> in_range 1 HARD_GRAPH_DEADLINE_MS (bg_graph_deadline_ms x)
   \<and> in_range 1024 HARD_ARTIFACT_BYTES (bg_artifact_bytes x)
   \<and> in_range 0 HARD_A2A_DELEGATIONS (bg_outbound_delegations x)
   \<and> in_range 0 HARD_A2A_DEPTH (bg_delegation_depth x)
   \<and> in_range 0 HARD_A2A_POLLS (bg_polls_per_task x)
   \<and> in_range 1024 HARD_A2A_RESPONSE_BYTES (bg_a2a_response_bytes x)"

definition dump_AnalysisBudgets :: "analysis_budgets \<Rightarrow> json" where
  "dump_AnalysisBudgets x = JObj
     [(''llm_calls'', JInt (bg_llm_calls x)),
      (''mcp_rounds'', JInt (bg_mcp_rounds x)),
      (''tool_calls'', JInt (bg_tool_calls x)),
      (''tool_parallelism'', JInt (bg_tool_parallelism x)),
      (''tool_timeout_ms'', JInt (bg_tool_timeout_ms x)),
      (''tool_response_bytes'', JInt (bg_tool_response_bytes x)),
      (''tool_total_response_bytes'', JInt (bg_tool_total_response_bytes x)),
      (''llm_timeout_ms'', JInt (bg_llm_timeout_ms x)),
      (''result_budget_ms'', JInt (bg_result_budget_ms x)),
      (''graph_deadline_ms'', JInt (bg_graph_deadline_ms x)),
      (''artifact_bytes'', JInt (bg_artifact_bytes x)),
      (''outbound_delegations'', JInt (bg_outbound_delegations x)),
      (''delegation_depth'', JInt (bg_delegation_depth x)),
      (''polls_per_task'', JInt (bg_polls_per_task x)),
      (''a2a_response_bytes'', JInt (bg_a2a_response_bytes x))]"

subsection \<open>\<open>FrozenInput\<close>\<close>

record frozen_input =
  fi_schema_version :: str
  fi_task_id :: str
  fi_run_id :: str
  fi_skill :: str
  fi_plugin_id :: str
  fi_plugin_revision :: str
  fi_config_digest :: str
  fi_binding_generation :: int
  fi_scope :: str
  fi_target_set_digest :: str
  fi_event_refs :: "fact_ref list"
  fi_incident_refs :: "fact_ref list"
  fi_evidence_refs :: "fact_ref list"
  fi_runtime_refs :: "fact_ref list"
  fi_model_result_evidence_refs :: "str list"
  fi_model_explanation_evidence_refs :: "str list"
  fi_quality :: str
  fi_provider_profile_digest :: str
  fi_prompt_profile_digest :: str
  fi_tool_policy_digest :: str
  fi_redaction_profile_digest :: str
  fi_provenance_digest :: str
  fi_budgets :: analysis_budgets
  fi_input_digest :: str
  fi_deadline_unix_ms :: int
  fi_expires_at_unix_ms :: int
  fi_locale :: str
  fi_content_request :: str
  fi_idempotency_key :: str
  fi_delegation_path :: "str list"
  fi_trace_id :: str

text \<open>The model validator \<open>validate_semantics\<close>.\<close>

definition validate_semantics :: "frozen_input \<Rightarrow> bool" where
  "validate_semantics x \<longleftrightarrow>
     (fi_event_refs x \<noteq> [] \<or> fi_incident_refs x \<noteq> [] \<or> fi_evidence_refs x \<noteq> [])
   \<and> list_all (\<lambda>grp. distinct (map fr_id grp))
        [fi_event_refs x, fi_incident_refs x, fi_evidence_refs x, fi_runtime_refs x]
   \<and> set (fi_model_result_evidence_refs x) \<subseteq> set (map fr_id (fi_evidence_refs x))
   \<and> set (fi_model_explanation_evidence_refs x) \<subseteq> set (map fr_id (fi_evidence_refs x))
   \<and> \<not> (\<not> distinct (fi_delegation_path x) \<or> PLUGIN_ID \<in> set (fi_delegation_path x))
   \<and> \<not> (fi_deadline_unix_ms x > fi_expires_at_unix_ms x)"

definition FrozenInput_ok :: "frozen_input \<Rightarrow> bool" where
  "FrozenInput_ok x \<longleftrightarrow>
     fi_schema_version x = ''masi-analysis-input/v1''
   \<and> Identity_ok (fi_task_id x)
   \<and> Identity_ok (fi_run_id x)
   \<and> fi_skill x \<in> set [''analyze_nids_incident'', ''compare_event_windows'', ''draft_mitigation_advice'', ''generate_incident_content'']
   \<and> fi_plugin_id x = ''masi.analysis.langgraph''
   \<and> Revision_ok (fi_plugin_revision x)
   \<and> Digest_ok (fi_config_digest x)
   \<and> fi_binding_generation x \<ge> 1
   \<and> str_len 1 256 (fi_scope x)
   \<and> Digest_ok (fi_target_set_digest x)
   \<and> items_len 0 128 (fi_event_refs x) \<and> list_all FactRef_ok (fi_event_refs x)
   \<and> items_len 0 32 (fi_incident_refs x) \<and> list_all FactRef_ok (fi_incident_refs x)
   \<and> items_len 0 128 (fi_evidence_refs x) \<and> list_all FactRef_ok (fi_evidence_refs x)
   \<and> items_len 0 64 (fi_runtime_refs x) \<and> list_all FactRef_ok (fi_runtime_refs x)
   \<and> items_len 0 128 (fi_model_result_evidence_refs x) \<and> list_all Identity_ok (fi_model_result_evidence_refs x)
   \<and> items_len 0 128 (fi_model_explanation_evidence_refs x) \<and> list_all Identity_ok (fi_model_explanation_evidence_refs x)
   \<and> fi_quality x \<in> set [''valid'', ''partial'', ''low'', ''stale'', ''invalid'']
   \<and> Digest_ok (fi_provider_profile_digest x)
   \<and> Digest_ok (fi_prompt_profile_digest x)
   \<and> Digest_ok (fi_tool_policy_digest x)
   \<and> Digest_ok (fi_redaction_profile_digest x)
   \<and> Digest_ok (fi_provenance_digest x)
   \<and> AnalysisBudgets_ok (fi_budgets x)
   \<and> Digest_ok (fi_input_digest x)
   \<and> fi_deadline_unix_ms x \<ge> 1
   \<and> fi_expires_at_unix_ms x \<ge> 1
   \<and> str_len 1 32 (fi_locale x)
   \<and> str_len 0 2048 (fi_content_request x)
   \<and> Identity_ok (fi_idempotency_key x)
   \<and> items_len 0 2 (fi_delegation_path x) \<and> list_all Identity_ok (fi_delegation_path x)
   \<and> Identity_ok (fi_trace_id x)
   \<and> validate_semantics x"

definition dump_FrozenInput :: "frozen_input \<Rightarrow> json" where
  "dump_FrozenInput x = JObj
     [(''schema_version'', JStr (fi_schema_version x)),
      (''task_id'', JStr (fi_task_id x)),
      (''run_id'', JStr (fi_run_id x)),
      (''skill'', JStr (fi_skill x)),
      (''plugin_id'', JStr (fi_plugin_id x)),
      (''plugin_revision'', JStr (fi_plugin_revision x)),
      (''config_digest'', JStr (fi_config_digest x)),
      (''binding_generation'', JInt (fi_binding_generation x)),
      (''scope'', JStr (fi_scope x)),
      (''target_set_digest'', JStr (fi_target_set_digest x)),
      (''event_refs'', JArr (map dump_FactRef (fi_event_refs x))),
      (''incident_refs'', JArr (map dump_FactRef (fi_incident_refs x))),
      (''evidence_refs'', JArr (map dump_FactRef (fi_evidence_refs x))),
      (''runtime_refs'', JArr (map dump_FactRef (fi_runtime_refs x))),
      (''model_result_evidence_refs'', JArr (map JStr (fi_model_result_evidence_refs x))),
      (''model_explanation_evidence_refs'', JArr (map JStr (fi_model_explanation_evidence_refs x))),
      (''quality'', JStr (fi_quality x)),
      (''provider_profile_digest'', JStr (fi_provider_profile_digest x)),
      (''prompt_profile_digest'', JStr (fi_prompt_profile_digest x)),
      (''tool_policy_digest'', JStr (fi_tool_policy_digest x)),
      (''redaction_profile_digest'', JStr (fi_redaction_profile_digest x)),
      (''provenance_digest'', JStr (fi_provenance_digest x)),
      (''budgets'', dump_AnalysisBudgets (fi_budgets x)),
      (''input_digest'', JStr (fi_input_digest x)),
      (''deadline_unix_ms'', JInt (fi_deadline_unix_ms x)),
      (''expires_at_unix_ms'', JInt (fi_expires_at_unix_ms x)),
      (''locale'', JStr (fi_locale x)),
      (''content_request'', JStr (fi_content_request x)),
      (''idempotency_key'', JStr (fi_idempotency_key x)),
      (''delegation_path'', JArr (map JStr (fi_delegation_path x))),
      (''trace_id'', JStr (fi_trace_id x))]"

subsection \<open>\<open>GroundedClaim\<close>\<close>

record grounded_claim =
  gc_claim :: str
  gc_evidence_refs :: "str list"

definition GroundedClaim_ok :: "grounded_claim \<Rightarrow> bool" where
  "GroundedClaim_ok x \<longleftrightarrow>
     str_len 1 4096 (gc_claim x)
   \<and> items_len 1 32 (gc_evidence_refs x) \<and> list_all Identity_ok (gc_evidence_refs x)"

definition dump_GroundedClaim :: "grounded_claim \<Rightarrow> json" where
  "dump_GroundedClaim x = JObj
     [(''claim'', JStr (gc_claim x)),
      (''evidence_refs'', JArr (map JStr (gc_evidence_refs x)))]"

subsection \<open>\<open>ModelExplanationFact\<close>\<close>

record model_explanation_fact =
  mx_claim :: str
  mx_evidence_refs :: "str list"
  mx_method :: str
  mx_background_digest :: "str option"
  mx_model_digest :: str
  mx_scaler_digest :: "str option"
  mx_sample_digest :: str
  mx_coverage :: pyfloat
  mx_truncated :: bool
  mx_limitations :: "str list"

definition ModelExplanationFact_ok :: "model_explanation_fact \<Rightarrow> bool" where
  "ModelExplanationFact_ok x \<longleftrightarrow>
     str_len 1 4096 (mx_claim x)
   \<and> items_len 1 32 (mx_evidence_refs x) \<and> list_all Identity_ok (mx_evidence_refs x)
   \<and> mx_method x \<in> set [''logistic-contribution'', ''tree-shap'', ''reconstruction-residual'', ''other-qualified'']
   \<and> pred_option Digest_ok (mx_background_digest x)
   \<and> Digest_ok (mx_model_digest x)
   \<and> pred_option Digest_ok (mx_scaler_digest x)
   \<and> Digest_ok (mx_sample_digest x)
   \<and> unit_interval (mx_coverage x)
   \<and> items_len 0 32 (mx_limitations x)"

definition dump_ModelExplanationFact :: "model_explanation_fact \<Rightarrow> json" where
  "dump_ModelExplanationFact x = JObj
     [(''claim'', JStr (mx_claim x)),
      (''evidence_refs'', JArr (map JStr (mx_evidence_refs x))),
      (''method'', JStr (mx_method x)),
      (''background_digest'', opt_json (mx_background_digest x)),
      (''model_digest'', JStr (mx_model_digest x)),
      (''scaler_digest'', opt_json (mx_scaler_digest x)),
      (''sample_digest'', JStr (mx_sample_digest x)),
      (''coverage'', JFloat (mx_coverage x)),
      (''truncated'', JBool (mx_truncated x)),
      (''limitations'', JArr (map JStr (mx_limitations x)))]"

subsection \<open>\<open>Recommendation\<close>\<close>

record recommendation =
  rc_text :: str
  rc_risk :: str
  rc_preconditions :: "str list"
  rc_expires_at_unix_ms :: int
  rc_evidence_refs :: "str list"

definition Recommendation_ok :: "recommendation \<Rightarrow> bool" where
  "Recommendation_ok x \<longleftrightarrow>
     str_len 1 4096 (rc_text x)
   \<and> str_len 1 128 (rc_risk x)
   \<and> items_len 0 32 (rc_preconditions x)
   \<and> rc_expires_at_unix_ms x \<ge> 1
   \<and> items_len 0 32 (rc_evidence_refs x) \<and> list_all Identity_ok (rc_evidence_refs x)"

definition dump_Recommendation :: "recommendation \<Rightarrow> json" where
  "dump_Recommendation x = JObj
     [(''text'', JStr (rc_text x)),
      (''risk'', JStr (rc_risk x)),
      (''preconditions'', JArr (map JStr (rc_preconditions x))),
      (''expires_at_unix_ms'', JInt (rc_expires_at_unix_ms x)),
      (''evidence_refs'', JArr (map JStr (rc_evidence_refs x)))]"

subsection \<open>\<open>GeneratedContent\<close>\<close>

record generated_content =
  gn_media_type :: str
  gn_body :: str

definition GeneratedContent_ok :: "generated_content \<Rightarrow> bool" where
  "GeneratedContent_ok x \<longleftrightarrow>
     gn_media_type x \<in> set [''application/json'', ''text/markdown'']
   \<and> str_len 0 32768 (gn_body x)"

definition dump_GeneratedContent :: "generated_content \<Rightarrow> json" where
  "dump_GeneratedContent x = JObj
     [(''media_type'', JStr (gn_media_type x)),
      (''body'', JStr (gn_body x))]"

subsection \<open>\<open>ProviderMetadata\<close>\<close>

record provider_metadata =
  pm_provider_id :: str
  pm_model_id :: str
  pm_provider_digest :: str

definition ProviderMetadata_ok :: "provider_metadata \<Rightarrow> bool" where
  "ProviderMetadata_ok x \<longleftrightarrow>
     Identity_ok (pm_provider_id x)
   \<and> Identity_ok (pm_model_id x)
   \<and> Digest_ok (pm_provider_digest x)"

definition dump_ProviderMetadata :: "provider_metadata \<Rightarrow> json" where
  "dump_ProviderMetadata x = JObj
     [(''provider_id'', JStr (pm_provider_id x)),
      (''model_id'', JStr (pm_model_id x)),
      (''provider_digest'', JStr (pm_provider_digest x))]"

subsection \<open>\<open>AnalysisArtifact\<close>\<close>

record analysis_artifact =
  aa_schema_version :: str
  aa_artifact_id :: str
  aa_artifact_digest :: str
  aa_task_id :: str
  aa_run_id :: str
  aa_plugin_id :: str
  aa_plugin_revision :: str
  aa_config_digest :: str
  aa_binding_generation :: int
  aa_input_digest :: str
  aa_analysis_outcome :: str
  aa_quality :: str
  aa_source_fact_refs :: "str list"
  aa_observed_claims :: "grounded_claim list"
  aa_model_result_facts :: "grounded_claim list"
  aa_model_explanation_facts :: "model_explanation_fact list"
  aa_inferred_claims :: "str list"
  aa_llm_interpretations :: "str list"
  aa_uncertainties :: "str list"
  aa_limitations :: "str list"
  aa_missing_evidence :: "str list"
  aa_recommendations :: "recommendation list"
  aa_generated_content :: "generated_content list"
  aa_provider_metadata :: provider_metadata
  aa_tool_trajectory_digest :: str
  aa_graph_version :: str
  aa_topology_digest :: str
  aa_trace_id :: str
  aa_trace_digest :: str
  aa_produced_at_unix_ms :: int
  aa_expires_at_unix_ms :: int
  aa_media_type :: str
  aa_non_executable :: bool
  aa_deployment_eligible :: bool

definition AnalysisArtifact_ok :: "analysis_artifact \<Rightarrow> bool" where
  "AnalysisArtifact_ok x \<longleftrightarrow>
     aa_schema_version x = ''masi-analysis-artifact/v1''
   \<and> Identity_ok (aa_artifact_id x)
   \<and> Digest_ok (aa_artifact_digest x)
   \<and> Identity_ok (aa_task_id x)
   \<and> Identity_ok (aa_run_id x)
   \<and> aa_plugin_id x = ''masi.analysis.langgraph''
   \<and> Revision_ok (aa_plugin_revision x)
   \<and> Digest_ok (aa_config_digest x)
   \<and> aa_binding_generation x \<ge> 1
   \<and> Digest_ok (aa_input_digest x)
   \<and> aa_analysis_outcome x \<in> set [''succeeded'', ''limited'', ''insufficient_evidence'', ''failed'']
   \<and> aa_quality x \<in> set [''valid'', ''limited'', ''low'', ''invalid'']
   \<and> items_len 0 352 (aa_source_fact_refs x) \<and> list_all Identity_ok (aa_source_fact_refs x)
   \<and> items_len 0 128 (aa_observed_claims x) \<and> list_all GroundedClaim_ok (aa_observed_claims x)
   \<and> items_len 0 64 (aa_model_result_facts x) \<and> list_all GroundedClaim_ok (aa_model_result_facts x)
   \<and> items_len 0 64 (aa_model_explanation_facts x) \<and> list_all ModelExplanationFact_ok (aa_model_explanation_facts x)
   \<and> items_len 0 128 (aa_inferred_claims x)
   \<and> items_len 0 128 (aa_llm_interpretations x)
   \<and> items_len 0 128 (aa_uncertainties x)
   \<and> items_len 0 128 (aa_limitations x)
   \<and> items_len 0 128 (aa_missing_evidence x)
   \<and> items_len 0 64 (aa_recommendations x) \<and> list_all Recommendation_ok (aa_recommendations x)
   \<and> items_len 0 16 (aa_generated_content x) \<and> list_all GeneratedContent_ok (aa_generated_content x)
   \<and> ProviderMetadata_ok (aa_provider_metadata x)
   \<and> Digest_ok (aa_tool_trajectory_digest x)
   \<and> aa_graph_version x = ''masi-analysis-graph/v1''
   \<and> Digest_ok (aa_topology_digest x)
   \<and> Identity_ok (aa_trace_id x)
   \<and> Digest_ok (aa_trace_digest x)
   \<and> aa_produced_at_unix_ms x \<ge> 1
   \<and> aa_expires_at_unix_ms x \<ge> 1
   \<and> aa_media_type x \<in> set [''application/json'', ''text/markdown'']
   \<and> aa_non_executable x
   \<and> \<not> aa_deployment_eligible x"

definition dump_AnalysisArtifact :: "analysis_artifact \<Rightarrow> json" where
  "dump_AnalysisArtifact x = JObj
     [(''schema_version'', JStr (aa_schema_version x)),
      (''artifact_id'', JStr (aa_artifact_id x)),
      (''artifact_digest'', JStr (aa_artifact_digest x)),
      (''task_id'', JStr (aa_task_id x)),
      (''run_id'', JStr (aa_run_id x)),
      (''plugin_id'', JStr (aa_plugin_id x)),
      (''plugin_revision'', JStr (aa_plugin_revision x)),
      (''config_digest'', JStr (aa_config_digest x)),
      (''binding_generation'', JInt (aa_binding_generation x)),
      (''input_digest'', JStr (aa_input_digest x)),
      (''analysis_outcome'', JStr (aa_analysis_outcome x)),
      (''quality'', JStr (aa_quality x)),
      (''source_fact_refs'', JArr (map JStr (aa_source_fact_refs x))),
      (''observed_claims'', JArr (map dump_GroundedClaim (aa_observed_claims x))),
      (''model_result_facts'', JArr (map dump_GroundedClaim (aa_model_result_facts x))),
      (''model_explanation_facts'', JArr (map dump_ModelExplanationFact (aa_model_explanation_facts x))),
      (''inferred_claims'', JArr (map JStr (aa_inferred_claims x))),
      (''llm_interpretations'', JArr (map JStr (aa_llm_interpretations x))),
      (''uncertainties'', JArr (map JStr (aa_uncertainties x))),
      (''limitations'', JArr (map JStr (aa_limitations x))),
      (''missing_evidence'', JArr (map JStr (aa_missing_evidence x))),
      (''recommendations'', JArr (map dump_Recommendation (aa_recommendations x))),
      (''generated_content'', JArr (map dump_GeneratedContent (aa_generated_content x))),
      (''provider_metadata'', dump_ProviderMetadata (aa_provider_metadata x)),
      (''tool_trajectory_digest'', JStr (aa_tool_trajectory_digest x)),
      (''graph_version'', JStr (aa_graph_version x)),
      (''topology_digest'', JStr (aa_topology_digest x)),
      (''trace_id'', JStr (aa_trace_id x)),
      (''trace_digest'', JStr (aa_trace_digest x)),
      (''produced_at_unix_ms'', JInt (aa_produced_at_unix_ms x)),
      (''expires_at_unix_ms'', JInt (aa_expires_at_unix_ms x)),
      (''media_type'', JStr (aa_media_type x)),
      (''non_executable'', JBool (aa_non_executable x)),
      (''deployment_eligible'', JBool (aa_deployment_eligible x))]"

subsection \<open>\<open>A2AInputPart\<close>\<close>

record a2a_input_part =
  ip_data :: frozen_input
  ip_media_type :: str

definition A2AInputPart_ok :: "a2a_input_part \<Rightarrow> bool" where
  "A2AInputPart_ok x \<longleftrightarrow>
     FrozenInput_ok (ip_data x)
   \<and> ip_media_type x = ''application/json''"

subsection \<open>\<open>A2AMessageMetadata\<close>\<close>

record a2a_message_metadata =
  mm_schema_version :: str
  mm_input_digest :: str
  mm_plugin_id :: str
  mm_binding_generation :: int
  mm_deadline_unix_ms :: int

definition A2AMessageMetadata_ok :: "a2a_message_metadata \<Rightarrow> bool" where
  "A2AMessageMetadata_ok x \<longleftrightarrow>
     mm_schema_version x = ''masi-analysis-input/v1''
   \<and> Digest_ok (mm_input_digest x)
   \<and> mm_plugin_id x = ''masi.analysis.langgraph''
   \<and> mm_binding_generation x \<ge> 1
   \<and> mm_deadline_unix_ms x \<ge> 1"

subsection \<open>\<open>A2AMessage\<close>\<close>

record a2a_message =
  am_message_id :: str
  am_role :: str
  am_parts :: "a2a_input_part list"
  am_metadata :: a2a_message_metadata

definition A2AMessage_ok :: "a2a_message \<Rightarrow> bool" where
  "A2AMessage_ok x \<longleftrightarrow>
     Identity_ok (am_message_id x)
   \<and> am_role x = ''ROLE_USER''
   \<and> items_len 1 1 (am_parts x) \<and> list_all A2AInputPart_ok (am_parts x)
   \<and> A2AMessageMetadata_ok (am_metadata x)"

subsection \<open>\<open>A2AConfiguration\<close>\<close>

record a2a_configuration =
  cf_accepted_output_modes :: "str list"

definition A2AConfiguration_ok :: "a2a_configuration \<Rightarrow> bool" where
  "A2AConfiguration_ok x \<longleftrightarrow>
     items_len 1 1 (cf_accepted_output_modes x) \<and> list_all (\<lambda>m. m = ''application/json'') (cf_accepted_output_modes x)"

subsection \<open>\<open>A2ARequestMetadata\<close>\<close>

record a2a_request_metadata =
  rm_trace_id :: str
  rm_no_push :: bool
  rm_no_streaming :: bool
  rm_delegation_depth :: int
  rm_delegation_path :: "str list"

definition A2ARequestMetadata_ok :: "a2a_request_metadata \<Rightarrow> bool" where
  "A2ARequestMetadata_ok x \<longleftrightarrow>
     Identity_ok (rm_trace_id x)
   \<and> rm_no_push x
   \<and> rm_no_streaming x
   \<and> in_range 0 1 (rm_delegation_depth x)
   \<and> items_len 0 2 (rm_delegation_path x) \<and> list_all Identity_ok (rm_delegation_path x)"

subsection \<open>\<open>A2ASendRequest\<close>\<close>

record a2a_send_request =
  sr_message :: a2a_message
  sr_configuration :: a2a_configuration
  sr_metadata :: a2a_request_metadata

text \<open>The model validator \<open>match_input\<close>.\<close>

definition match_input :: "a2a_send_request \<Rightarrow> bool" where
  "match_input x \<longleftrightarrow>
     (let input_bundle = ip_data (hd (am_parts (sr_message x))); metadata = am_metadata (sr_message x) in
      \<not> (mm_input_digest metadata \<noteq> fi_input_digest input_bundle
         \<or> mm_binding_generation metadata \<noteq> fi_binding_generation input_bundle
         \<or> mm_deadline_unix_ms metadata \<noteq> fi_deadline_unix_ms input_bundle
         \<or> rm_trace_id (sr_metadata x) \<noteq> fi_trace_id input_bundle
         \<or> rm_delegation_depth (sr_metadata x) \<noteq> bg_delegation_depth (fi_budgets input_bundle)
         \<or> rm_delegation_path (sr_metadata x) \<noteq> fi_delegation_path input_bundle))"

definition A2ASendRequest_ok :: "a2a_send_request \<Rightarrow> bool" where
  "A2ASendRequest_ok x \<longleftrightarrow>
     A2AMessage_ok (sr_message x)
   \<and> A2AConfiguration_ok (sr_configuration x)
   \<and> A2ARequestMetadata_ok (sr_metadata x)
   \<and> match_input x"

subsection \<open>\<open>PeerArtifactData\<close>\<close>

record peer_artifact_data =
  pd_schema_version :: str
  pd_summary :: str
  pd_source_refs :: "fact_ref list"
  pd_content_digest :: str

definition PeerArtifactData_ok :: "peer_artifact_data \<Rightarrow> bool" where
  "PeerArtifactData_ok x \<longleftrightarrow>
     pd_schema_version x = ''masi-analysis-peer-artifact/v1''
   \<and> str_len 1 2048 (pd_summary x)
   \<and> items_len 0 32 (pd_source_refs x) \<and> list_all FactRef_ok (pd_source_refs x)
   \<and> Digest_ok (pd_content_digest x)"

definition dump_PeerArtifactData :: "peer_artifact_data \<Rightarrow> json" where
  "dump_PeerArtifactData x = JObj
     [(''schema_version'', JStr (pd_schema_version x)),
      (''summary'', JStr (pd_summary x)),
      (''source_refs'', JArr (map dump_FactRef (pd_source_refs x))),
      (''content_digest'', JStr (pd_content_digest x))]"

subsection \<open>\<open>PeerArtifactPart\<close>\<close>

record peer_artifact_part =
  pp_data :: peer_artifact_data
  pp_media_type :: str

definition PeerArtifactPart_ok :: "peer_artifact_part \<Rightarrow> bool" where
  "PeerArtifactPart_ok x \<longleftrightarrow>
     PeerArtifactData_ok (pp_data x)
   \<and> pp_media_type x = ''application/json''"

subsection \<open>\<open>PeerArtifactMetadata\<close>\<close>

record peer_artifact_metadata =
  pam_content_digest :: str
  pam_non_executable :: bool

definition PeerArtifactMetadata_ok :: "peer_artifact_metadata \<Rightarrow> bool" where
  "PeerArtifactMetadata_ok x \<longleftrightarrow>
     Digest_ok (pam_content_digest x)
   \<and> pam_non_executable x"

subsection \<open>\<open>PeerTaskArtifact\<close>\<close>

record peer_task_artifact =
  pta_artifact_id :: str
  pta_name :: str
  pta_description :: str
  pta_parts :: "peer_artifact_part list"
  pta_metadata :: peer_artifact_metadata

definition PeerTaskArtifact_ok :: "peer_task_artifact \<Rightarrow> bool" where
  "PeerTaskArtifact_ok x \<longleftrightarrow>
     Identity_ok (pta_artifact_id x)
   \<and> str_len 1 128 (pta_name x)
   \<and> str_len 0 512 (pta_description x)
   \<and> items_len 1 1 (pta_parts x) \<and> list_all PeerArtifactPart_ok (pta_parts x)
   \<and> PeerArtifactMetadata_ok (pta_metadata x)"

subsection \<open>\<open>PeerTaskStatus\<close>\<close>

record peer_task_status =
  pts_state :: task_state
  pts_timestamp :: str

definition PeerTaskStatus_ok :: "peer_task_status \<Rightarrow> bool" where
  "PeerTaskStatus_ok x \<longleftrightarrow>
     str_len 20 40 (pts_timestamp x)"

subsection \<open>\<open>PeerTaskMetadata\<close>\<close>

record peer_task_metadata =
  ptm_schema_version :: str
  ptm_plugin_id :: str
  ptm_binding_generation :: int
  ptm_input_digest :: str
  ptm_trace_id :: str
  ptm_reason_code :: str

definition PeerTaskMetadata_ok :: "peer_task_metadata \<Rightarrow> bool" where
  "PeerTaskMetadata_ok x \<longleftrightarrow>
     ptm_schema_version x = ''masi-analysis-peer-task/v1''
   \<and> Identity_ok (ptm_plugin_id x)
   \<and> ptm_binding_generation x \<ge> 1
   \<and> Digest_ok (ptm_input_digest x)
   \<and> Identity_ok (ptm_trace_id x)
   \<and> ReasonCode_ok (ptm_reason_code x)"

subsection \<open>\<open>PeerTask\<close>\<close>

record peer_task =
  pt_task_id :: str
  pt_context_id :: str
  pt_status :: peer_task_status
  pt_artifacts :: "peer_task_artifact list"
  pt_history :: "(str \<times> json) list list"
  pt_metadata :: peer_task_metadata

text \<open>The model validator \<open>terminal_artifact_semantics\<close>.\<close>

definition terminal_artifact_semantics :: "peer_task \<Rightarrow> bool" where
  "terminal_artifact_semantics x \<longleftrightarrow>
     pt_history x = []
   \<and> (if pts_state (pt_status x) = TASK_COMPLETED then pt_artifacts x \<noteq> [] else pt_artifacts x = [])"

definition PeerTask_ok :: "peer_task \<Rightarrow> bool" where
  "PeerTask_ok x \<longleftrightarrow>
     Identity_ok (pt_task_id x)
   \<and> Identity_ok (pt_context_id x)
   \<and> PeerTaskStatus_ok (pt_status x)
   \<and> items_len 0 8 (pt_artifacts x) \<and> list_all PeerTaskArtifact_ok (pt_artifacts x)
   \<and> items_len 0 8 (pt_history x)
   \<and> PeerTaskMetadata_ok (pt_metadata x)
   \<and> terminal_artifact_semantics x"

subsection \<open>\<open>PeerTaskResponse\<close>\<close>

record peer_task_response =
  pr_resp_task :: peer_task

definition PeerTaskResponse_ok :: "peer_task_response \<Rightarrow> bool" where
  "PeerTaskResponse_ok x \<longleftrightarrow>
     PeerTask_ok (pr_resp_task x)"

subsection \<open>\<open>ProviderFact\<close>\<close>

record provider_fact =
  pf_id :: str
  pf_digest :: str
  pf_kind :: str
  pf_summary :: "str option"

definition ProviderFact_ok :: "provider_fact \<Rightarrow> bool" where
  "ProviderFact_ok x \<longleftrightarrow>
     Identity_ok (pf_id x)
   \<and> Digest_ok (pf_digest x)
   \<and> pf_kind x \<in> set [''event'', ''incident'', ''evidence'', ''runtime'', ''tool-result'', ''peer-result'']
   \<and> pred_option (str_len 0 2048) (pf_summary x)"

definition dump_ProviderFact :: "provider_fact \<Rightarrow> json" where
  "dump_ProviderFact x = JObj
     [(''id'', JStr (pf_id x)),
      (''digest'', JStr (pf_digest x)),
      (''kind'', JStr (pf_kind x)),
      (''summary'', opt_json (pf_summary x))]"

subsection \<open>\<open>RemainingBudget\<close>\<close>

record remaining_budget =
  rb_llm_calls :: int
  rb_mcp_rounds :: int
  rb_tool_calls :: int
  rb_outbound_delegations :: int
  rb_deadline_unix_ms :: int

definition RemainingBudget_ok :: "remaining_budget \<Rightarrow> bool" where
  "RemainingBudget_ok x \<longleftrightarrow>
     in_range 0 2 (rb_llm_calls x)
   \<and> in_range 0 2 (rb_mcp_rounds x)
   \<and> in_range 0 6 (rb_tool_calls x)
   \<and> in_range 0 2 (rb_outbound_delegations x)
   \<and> rb_deadline_unix_ms x \<ge> 1"

definition dump_RemainingBudget :: "remaining_budget \<Rightarrow> json" where
  "dump_RemainingBudget x = JObj
     [(''llm_calls'', JInt (rb_llm_calls x)),
      (''mcp_rounds'', JInt (rb_mcp_rounds x)),
      (''tool_calls'', JInt (rb_tool_calls x)),
      (''outbound_delegations'', JInt (rb_outbound_delegations x)),
      (''deadline_unix_ms'', JInt (rb_deadline_unix_ms x))]"

subsection \<open>\<open>ProviderRequest\<close>\<close>

record provider_request =
  pq_schema_version :: str
  pq_request_id :: str
  pq_phase :: str
  pq_task_id :: str
  pq_run_id :: str
  pq_skill :: str
  pq_input_digest :: str
  pq_locale :: str
  pq_system_policy_id :: str
  pq_facts :: "provider_fact list"
  pq_tool_results :: "provider_fact list"
  pq_peer_results :: "provider_fact list"
  pq_untrusted_content_request :: str
  pq_remaining_budget :: remaining_budget
  pq_trace_id :: str
  pq_request_digest :: str

definition ProviderRequest_ok :: "provider_request \<Rightarrow> bool" where
  "ProviderRequest_ok x \<longleftrightarrow>
     pq_schema_version x = ''masi-analysis-provider-request/v1''
   \<and> Identity_ok (pq_request_id x)
   \<and> pq_phase x \<in> set [''hypothesis'', ''synthesis'']
   \<and> Identity_ok (pq_task_id x)
   \<and> Identity_ok (pq_run_id x)
   \<and> Digest_ok (pq_input_digest x)
   \<and> str_len 1 32 (pq_locale x)
   \<and> pq_system_policy_id x = ''analysis-system-policy/v1''
   \<and> items_len 0 352 (pq_facts x) \<and> list_all ProviderFact_ok (pq_facts x)
   \<and> items_len 0 6 (pq_tool_results x) \<and> list_all ProviderFact_ok (pq_tool_results x)
   \<and> items_len 0 2 (pq_peer_results x) \<and> list_all ProviderFact_ok (pq_peer_results x)
   \<and> str_len 0 2048 (pq_untrusted_content_request x)
   \<and> RemainingBudget_ok (pq_remaining_budget x)
   \<and> Identity_ok (pq_trace_id x)
   \<and> Digest_ok (pq_request_digest x)"

definition dump_ProviderRequest :: "provider_request \<Rightarrow> json" where
  "dump_ProviderRequest x = JObj
     [(''schema_version'', JStr (pq_schema_version x)),
      (''request_id'', JStr (pq_request_id x)),
      (''phase'', JStr (pq_phase x)),
      (''task_id'', JStr (pq_task_id x)),
      (''run_id'', JStr (pq_run_id x)),
      (''skill'', JStr (pq_skill x)),
      (''input_digest'', JStr (pq_input_digest x)),
      (''locale'', JStr (pq_locale x)),
      (''system_policy_id'', JStr (pq_system_policy_id x)),
      (''facts'', JArr (map dump_ProviderFact (pq_facts x))),
      (''tool_results'', JArr (map dump_ProviderFact (pq_tool_results x))),
      (''peer_results'', JArr (map dump_ProviderFact (pq_peer_results x))),
      (''untrusted_content_request'', JStr (pq_untrusted_content_request x)),
      (''remaining_budget'', dump_RemainingBudget (pq_remaining_budget x)),
      (''trace_id'', JStr (pq_trace_id x)),
      (''request_digest'', JStr (pq_request_digest x))]"

subsection \<open>\<open>ProviderToolRequest\<close>\<close>

record provider_tool_request =
  tq_kind :: str
  tq_name :: str
  tq_arguments :: "(str \<times> json) list"

definition ProviderToolRequest_ok :: "provider_tool_request \<Rightarrow> bool" where
  "ProviderToolRequest_ok x \<longleftrightarrow>
     tq_kind x \<in> set [''tool'', ''resource'']
   \<and> Identity_ok (tq_name x)
   \<and> items_len 0 8 (tq_arguments x)"

definition dump_ProviderToolRequest :: "provider_tool_request \<Rightarrow> json" where
  "dump_ProviderToolRequest x = JObj
     [(''kind'', JStr (tq_kind x)),
      (''name'', JStr (tq_name x)),
      (''arguments'', JObj (tq_arguments x))]"

subsection \<open>\<open>ProviderDelegation\<close>\<close>

record provider_delegation =
  dl_peer_id :: str
  dl_question :: str

definition ProviderDelegation_ok :: "provider_delegation \<Rightarrow> bool" where
  "ProviderDelegation_ok x \<longleftrightarrow>
     Identity_ok (dl_peer_id x)
   \<and> str_len 1 1024 (dl_question x)"

definition dump_ProviderDelegation :: "provider_delegation \<Rightarrow> json" where
  "dump_ProviderDelegation x = JObj
     [(''peer_id'', JStr (dl_peer_id x)),
      (''question'', JStr (dl_question x))]"

subsection \<open>\<open>ProviderResponse\<close>\<close>

record provider_response =
  ps_schema_version :: str
  ps_request_id :: str
  ps_input_digest :: str
  ps_outcome_hint :: str
  ps_observed_claims :: "grounded_claim list"
  ps_model_result_facts :: "grounded_claim list"
  ps_model_explanation_facts :: "grounded_claim list"
  ps_inferred_claims :: "str list"
  ps_uncertainties :: "str list"
  ps_limitations :: "str list"
  ps_missing_evidence :: "str list"
  ps_recommendations :: "str list"
  ps_generated_content :: "str list"
  ps_tool_requests :: "provider_tool_request list"
  ps_delegations :: "provider_delegation list"
  ps_response_digest :: str

definition ProviderResponse_ok :: "provider_response \<Rightarrow> bool" where
  "ProviderResponse_ok x \<longleftrightarrow>
     ps_schema_version x = ''masi-analysis-provider-response/v1''
   \<and> Identity_ok (ps_request_id x)
   \<and> Digest_ok (ps_input_digest x)
   \<and> ps_outcome_hint x \<in> set [''succeeded'', ''limited'', ''insufficient_evidence'']
   \<and> items_len 0 64 (ps_observed_claims x) \<and> list_all GroundedClaim_ok (ps_observed_claims x)
   \<and> items_len 0 32 (ps_model_result_facts x) \<and> list_all GroundedClaim_ok (ps_model_result_facts x)
   \<and> items_len 0 32 (ps_model_explanation_facts x) \<and> list_all GroundedClaim_ok (ps_model_explanation_facts x)
   \<and> items_len 0 64 (ps_inferred_claims x)
   \<and> items_len 0 64 (ps_uncertainties x)
   \<and> items_len 0 64 (ps_limitations x)
   \<and> items_len 0 64 (ps_missing_evidence x)
   \<and> items_len 0 64 (ps_recommendations x)
   \<and> items_len 0 64 (ps_generated_content x)
   \<and> items_len 0 6 (ps_tool_requests x) \<and> list_all ProviderToolRequest_ok (ps_tool_requests x)
   \<and> items_len 0 2 (ps_delegations x) \<and> list_all ProviderDelegation_ok (ps_delegations x)
   \<and> Digest_ok (ps_response_digest x)"

definition dump_ProviderResponse :: "provider_response \<Rightarrow> json" where
  "dump_ProviderResponse x = JObj
     [(''schema_version'', JStr (ps_schema_version x)),
      (''request_id'', JStr (ps_request_id x)),
      (''input_digest'', JStr (ps_input_digest x)),
      (''outcome_hint'', JStr (ps_outcome_hint x)),
      (''observed_claims'', JArr (map dump_GroundedClaim (ps_observed_claims x))),
      (''model_result_facts'', JArr (map dump_GroundedClaim (ps_model_result_facts x))),
      (''model_explanation_facts'', JArr (map dump_GroundedClaim (ps_model_explanation_facts x))),
      (''inferred_claims'', JArr (map JStr (ps_inferred_claims x))),
      (''uncertainties'', JArr (map JStr (ps_uncertainties x))),
      (''limitations'', JArr (map JStr (ps_limitations x))),
      (''missing_evidence'', JArr (map JStr (ps_missing_evidence x))),
      (''recommendations'', JArr (map JStr (ps_recommendations x))),
      (''generated_content'', JArr (map JStr (ps_generated_content x))),
      (''tool_requests'', JArr (map dump_ProviderToolRequest (ps_tool_requests x))),
      (''delegations'', JArr (map dump_ProviderDelegation (ps_delegations x))),
      (''response_digest'', JStr (ps_response_digest x))]"

subsection \<open>\<open>BindingObservation\<close>\<close>

record binding_observation =
  bo_schema_version :: str
  bo_plugin_id :: str
  bo_plugin_revision :: str
  bo_manifest_digest :: str
  bo_manifest_content_digest :: str
  bo_config_digest :: str
  bo_capability_digest :: str
  bo_resource_profile_digest :: str
  bo_qualification_digest :: str
  bo_binding_generation :: int
  bo_scope :: str
  bo_activation_state :: str
  bo_qualification_status :: str
  bo_skill_ids :: "str list"
  bo_tool_allowlist :: "str list"
  bo_resource_allowlist :: "str list"
  bo_a2a_peer_allowlist :: "str list"
  bo_provider_profile_digest :: str
  bo_prompt_profile_digest :: str
  bo_tool_policy_digest :: str
  bo_redaction_profile_digest :: str
  bo_issued_at_unix_ms :: int
  bo_expires_at_unix_ms :: int
  bo_manager_identity :: str
  bo_binding_digest :: str

text \<open>The model validator \<open>exact_skills\<close>.\<close>

definition exact_skills :: "binding_observation \<Rightarrow> bool" where
  "exact_skills x \<longleftrightarrow>
     sort (bo_skill_ids x) = sort SKILLS"

definition BindingObservation_ok :: "binding_observation \<Rightarrow> bool" where
  "BindingObservation_ok x \<longleftrightarrow>
     bo_schema_version x = ''masi-analysis-binding/v1''
   \<and> bo_plugin_id x = ''masi.analysis.langgraph''
   \<and> Revision_ok (bo_plugin_revision x)
   \<and> Digest_ok (bo_manifest_digest x)
   \<and> Digest_ok (bo_manifest_content_digest x)
   \<and> Digest_ok (bo_config_digest x)
   \<and> Digest_ok (bo_capability_digest x)
   \<and> Digest_ok (bo_resource_profile_digest x)
   \<and> Digest_ok (bo_qualification_digest x)
   \<and> bo_binding_generation x \<ge> 1
   \<and> str_len 1 256 (bo_scope x)
   \<and> bo_activation_state x \<in> set [''active'', ''draining'', ''disabled'', ''revoked'', ''expired'']
   \<and> bo_qualification_status x \<in> set [''qualified'', ''unqualified'', ''hold'']
   \<and> items_len 4 4 (bo_skill_ids x)
   \<and> items_len 0 64 (bo_tool_allowlist x) \<and> list_all Identity_ok (bo_tool_allowlist x)
   \<and> items_len 0 64 (bo_resource_allowlist x) \<and> list_all Identity_ok (bo_resource_allowlist x)
   \<and> items_len 0 8 (bo_a2a_peer_allowlist x) \<and> list_all Identity_ok (bo_a2a_peer_allowlist x)
   \<and> Digest_ok (bo_provider_profile_digest x)
   \<and> Digest_ok (bo_prompt_profile_digest x)
   \<and> Digest_ok (bo_tool_policy_digest x)
   \<and> Digest_ok (bo_redaction_profile_digest x)
   \<and> bo_issued_at_unix_ms x \<ge> 1
   \<and> bo_expires_at_unix_ms x \<ge> 1
   \<and> Identity_ok (bo_manager_identity x)
   \<and> Digest_ok (bo_binding_digest x)
   \<and> exact_skills x"

subsection \<open>\<open>TLSConfig\<close>\<close>

record tls_config =
  tls_enabled :: bool
  tls_cert_file :: "str option"
  tls_key_file :: "str option"
  tls_client_ca_file :: "str option"
  tls_allowed_client_sans :: "str list"

definition TLSConfig_ok :: "tls_config \<Rightarrow> bool" where
  "TLSConfig_ok x \<longleftrightarrow>
     items_len 1 32 (tls_allowed_client_sans x)"

subsection \<open>\<open>ListenConfig\<close>\<close>

record listen_config =
  ls_host :: str
  ls_port :: int

definition ListenConfig_ok :: "listen_config \<Rightarrow> bool" where
  "ListenConfig_ok x \<longleftrightarrow>
     str_len 1 253 (ls_host x)
   \<and> in_range 1024 65535 (ls_port x)"

subsection \<open>\<open>RuntimeLimits\<close>\<close>

record runtime_limits =
  lim_request_bytes :: int
  lim_response_bytes :: int
  lim_artifact_bytes :: int
  lim_queue_depth :: int
  lim_concurrency :: int
  lim_task_retention_seconds :: int
  lim_max_tasks :: int
  lim_max_trace_events_per_task :: int
  lim_shutdown_grace_ms :: int

definition RuntimeLimits_ok :: "runtime_limits \<Rightarrow> bool" where
  "RuntimeLimits_ok x \<longleftrightarrow>
     in_range 1024 65536 (lim_request_bytes x)
   \<and> in_range 1024 131072 (lim_response_bytes x)
   \<and> in_range 1024 65536 (lim_artifact_bytes x)
   \<and> in_range 1 64 (lim_queue_depth x)
   \<and> in_range 1 16 (lim_concurrency x)
   \<and> in_range 1 2592000 (lim_task_retention_seconds x)
   \<and> in_range 16 100000 (lim_max_tasks x)
   \<and> in_range 8 128 (lim_max_trace_events_per_task x)
   \<and> in_range 100 30000 (lim_shutdown_grace_ms x)"

subsection \<open>\<open>OutboundTLS\<close>\<close>

record outbound_tls =
  ob_base_url :: str
  ob_allowed_ips :: "str list"
  ob_server_name :: str
  ob_ca_file :: "str option"
  ob_cert_file :: "str option"
  ob_key_file :: "str option"

definition OutboundTLS_fields_ok :: "'a outbound_tls_scheme \<Rightarrow> bool" where
  "OutboundTLS_fields_ok x \<longleftrightarrow>
     str_len 0 512 (ob_base_url x)
   \<and> items_len 1 16 (ob_allowed_ips x)
   \<and> str_len 1 253 (ob_server_name x)"

subsection \<open>\<open>MCPConfig\<close>\<close>

record mcp_config = outbound_tls +
  mcpc_profile_id :: str
  mcpc_profile_digest :: str
  mcpc_origin :: str
  mcpc_tool_allowlist :: "str list"
  mcpc_resource_allowlist :: "str list"

definition MCPConfig_ok :: "mcp_config \<Rightarrow> bool" where
  "MCPConfig_ok x \<longleftrightarrow>
     OutboundTLS_fields_ok x
   \<and> mcpc_profile_id x = ''masi-mcp-readonly/v1''
   \<and> Digest_ok (mcpc_profile_digest x)
   \<and> str_len 0 512 (mcpc_origin x)
   \<and> items_len 0 64 (mcpc_tool_allowlist x) \<and> list_all Identity_ok (mcpc_tool_allowlist x)
   \<and> items_len 0 64 (mcpc_resource_allowlist x) \<and> list_all Identity_ok (mcpc_resource_allowlist x)"

subsection \<open>\<open>ProviderConfig\<close>\<close>

record provider_config = outbound_tls +
  prc_profile_id :: str
  prc_profile_digest :: str
  prc_provider_id :: str
  prc_model_id :: str
  prc_auth_secret_file :: "str option"

definition ProviderConfig_ok :: "provider_config \<Rightarrow> bool" where
  "ProviderConfig_ok x \<longleftrightarrow>
     OutboundTLS_fields_ok x
   \<and> prc_profile_id x = ''analysis-provider/v1''
   \<and> Digest_ok (prc_profile_digest x)
   \<and> Identity_ok (prc_provider_id x)
   \<and> Identity_ok (prc_model_id x)"

subsection \<open>\<open>PeerConfig\<close>\<close>

record peer_config = outbound_tls +
  pec_peer_id :: str
  pec_plugin_id :: str
  pec_binding_generation :: int

definition PeerConfig_ok :: "peer_config \<Rightarrow> bool" where
  "PeerConfig_ok x \<longleftrightarrow>
     OutboundTLS_fields_ok x
   \<and> Identity_ok (pec_peer_id x)
   \<and> Identity_ok (pec_plugin_id x)
   \<and> pec_binding_generation x \<ge> 1"

subsection \<open>\<open>AnalysisConfig\<close>\<close>

record analysis_config =
  ac_schema_version :: str
  ac_runtime_profile :: str
  ac_plugin_id :: str
  ac_contract_root :: str
  ac_manifest_path :: str
  ac_binding_path :: str
  ac_store_path :: str
  ac_health_state_path :: str
  ac_listen :: listen_config
  ac_tls :: tls_config
  ac_limits :: runtime_limits
  ac_mcp :: mcp_config
  ac_provider :: provider_config
  ac_a2a_peers :: "peer_config list"
  ac_public_agent_card_url :: str
  ac_config_id :: str

definition AnalysisConfig_ok :: "analysis_config \<Rightarrow> bool" where
  "AnalysisConfig_ok x \<longleftrightarrow>
     ac_schema_version x = ''masi-analysis-config/v1''
   \<and> ac_runtime_profile x \<in> set [''acceptance'', ''production'']
   \<and> ac_plugin_id x = ''masi.analysis.langgraph''
   \<and> ListenConfig_ok (ac_listen x)
   \<and> TLSConfig_ok (ac_tls x)
   \<and> RuntimeLimits_ok (ac_limits x)
   \<and> MCPConfig_ok (ac_mcp x)
   \<and> ProviderConfig_ok (ac_provider x)
   \<and> items_len 0 8 (ac_a2a_peers x) \<and> list_all PeerConfig_ok (ac_a2a_peers x)
   \<and> str_len 0 512 (ac_public_agent_card_url x)
   \<and> Identity_ok (ac_config_id x)"

end
