(* ===== verification/Samples.thy ===== *)
theory Samples
  imports Models
begin

text \<open>
  Concrete contract records on which the theorems of the development are instantiated: a frozen
  input with one event and one evidence reference, the Manager binding that admits it, a provider
  answer that requests one tool and one delegation, and a runtime configuration.
\<close>

definition dig :: "char \<Rightarrow> str" where
  "dig c = ''sha256:'' @ replicate 64 c"

definition sample_budgets :: analysis_budgets where
  "sample_budgets = \<lparr>bg_llm_calls = 2, bg_mcp_rounds = 1, bg_tool_calls = 2, bg_tool_parallelism = 2,
     bg_tool_timeout_ms = 1000, bg_tool_response_bytes = 4096, bg_tool_total_response_bytes = 8192,
     bg_llm_timeout_ms = 2000, bg_result_budget_ms = 4000, bg_graph_deadline_ms = 10000,
     bg_artifact_bytes = 65536, bg_outbound_delegations = 1, bg_delegation_depth = 0,
     bg_polls_per_task = 2, bg_a2a_response_bytes = 65536\<rparr>"

definition sample_input :: frozen_input where
  "sample_input = \<lparr>fi_schema_version = ''masi-analysis-input/v1'', fi_task_id = ''task-1'',
     fi_run_id = ''run-1'', fi_skill = ''analyze_nids_incident'',
     fi_plugin_id = ''masi.analysis.langgraph'', fi_plugin_revision = replicate 40 CHR ''a'',
     fi_config_digest = dig CHR ''1'', fi_binding_generation = 3, fi_scope = ''site-a'',
     fi_target_set_digest = dig CHR ''2'',
     fi_event_refs = [\<lparr>fr_id = ''ev-1'', fr_digest = dig CHR ''3''\<rparr>],
     fi_incident_refs = [],
     fi_evidence_refs = [\<lparr>fr_id = ''e-1'', fr_digest = dig CHR ''4''\<rparr>,
       \<lparr>fr_id = ''e-0'', fr_digest = dig CHR ''5''\<rparr>],
     fi_runtime_refs = [], fi_model_result_evidence_refs = [''e-1''],
     fi_model_explanation_evidence_refs = [], fi_quality = ''valid'',
     fi_provider_profile_digest = dig CHR ''6'', fi_prompt_profile_digest = dig CHR ''7'',
     fi_tool_policy_digest = dig CHR ''8'', fi_redaction_profile_digest = dig CHR ''9'',
     fi_provenance_digest = dig CHR ''a'', fi_budgets = sample_budgets,
     fi_input_digest = dig CHR ''0'', fi_deadline_unix_ms = 9000, fi_expires_at_unix_ms = 20000,
     fi_locale = ''en'', fi_content_request = '''', fi_idempotency_key = ''key-1'',
     fi_delegation_path = [], fi_trace_id = ''trace-1''\<rparr>"

definition sample_binding :: binding_observation where
  "sample_binding = \<lparr>bo_schema_version = ''masi-analysis-binding/v1'',
     bo_plugin_id = ''masi.analysis.langgraph'', bo_plugin_revision = replicate 40 CHR ''a'',
     bo_manifest_digest = dig CHR ''b'', bo_manifest_content_digest = dig CHR ''c'',
     bo_config_digest = dig CHR ''1'', bo_capability_digest = dig CHR ''d'',
     bo_resource_profile_digest = dig CHR ''e'', bo_qualification_digest = dig CHR ''f'',
     bo_binding_generation = 3, bo_scope = ''site-a'', bo_activation_state = ''active'',
     bo_qualification_status = ''qualified'', bo_skill_ids = SKILLS,
     bo_tool_allowlist = [''masi.evidence.get''], bo_resource_allowlist = [''masi.evidence.recent''],
     bo_a2a_peer_allowlist = [''peer-1''], bo_provider_profile_digest = dig CHR ''6'',
     bo_prompt_profile_digest = dig CHR ''7'', bo_tool_policy_digest = dig CHR ''8'',
     bo_redaction_profile_digest = dig CHR ''9'', bo_issued_at_unix_ms = 1,
     bo_expires_at_unix_ms = 50000, bo_manager_identity = ''manager-1'',
     bo_binding_digest = dig CHR ''0''\<rparr>"

definition sample_tls :: outbound_tls where
  "sample_tls = \<lparr>ob_base_url = ''https://mcp.example'', ob_allowed_ips = [''10.0.0.2''],
     ob_server_name = ''mcp.example'', ob_ca_file = Some ''ca'', ob_cert_file = Some ''crt'',
     ob_key_file = Some ''key''\<rparr>"

definition sample_mcp :: mcp_config where
  "sample_mcp = outbound_tls.extend sample_tls
     (mcp_config.fields ''masi-mcp-readonly/v1'' (dig CHR ''1'') ''https://origin.example''
       [''masi.evidence.get''] [''masi.evidence.recent''])"

definition sample_provider :: provider_config where
  "sample_provider = outbound_tls.extend sample_tls
     (provider_config.fields ''analysis-provider/v1'' (dig CHR ''6'') ''provider-1'' ''model-1'' None)"

definition sample_peer :: peer_config where
  "sample_peer = outbound_tls.extend sample_tls
     (peer_config.fields ''peer-1'' ''masi.peer.helper'' 5)"

definition sample_config :: analysis_config where
  "sample_config = \<lparr>ac_schema_version = ''masi-analysis-config/v1'',
     ac_runtime_profile = ''acceptance'', ac_plugin_id = ''masi.analysis.langgraph'',
     ac_contract_root = ''/c'', ac_manifest_path = ''/m'', ac_binding_path = ''/b'',
     ac_store_path = ''/s/db'', ac_health_state_path = ''/s/h'',
     ac_listen = \<lparr>ls_host = ''localhost'', ls_port = 8443\<rparr>,
     ac_tls = \<lparr>tls_enabled = False, tls_cert_file = None, tls_key_file = None,
       tls_client_ca_file = None, tls_allowed_client_sans = [''go-a2a'']\<rparr>,
     ac_limits = \<lparr>lim_request_bytes = 65536, lim_response_bytes = 131072, lim_artifact_bytes = 65536,
       lim_queue_depth = 1, lim_concurrency = 1, lim_task_retention_seconds = 60, lim_max_tasks = 16,
       lim_max_trace_events_per_task = 16, lim_shutdown_grace_ms = 1000\<rparr>,
     ac_mcp = sample_mcp, ac_provider = sample_provider, ac_a2a_peers = [sample_peer],
     ac_public_agent_card_url = ''https://a.example/.well-known/agent-card.json'',
     ac_config_id = ''cfg-1''\<rparr>"

definition sample_response :: provider_response where
  "sample_response = \<lparr>ps_schema_version = ''masi-analysis-provider-response/v1'',
     ps_request_id = ''provider-run-1-hypothesis'', ps_input_digest = dig CHR ''0'',
     ps_outcome_hint = ''succeeded'',
     ps_observed_claims = [\<lparr>gc_claim = ''port scan seen'', gc_evidence_refs = [''e-1'', ''e-0'', ''e-1'']\<rparr>],
     ps_model_result_facts = [\<lparr>gc_claim = ''score is high'', gc_evidence_refs = [''e-1'']\<rparr>],
     ps_model_explanation_facts = [], ps_inferred_claims = [''likely a scan''],
     ps_uncertainties = [], ps_limitations = [], ps_missing_evidence = [],
     ps_recommendations = [''review the host''], ps_generated_content = [],
     ps_tool_requests = [\<lparr>tq_kind = ''tool'', tq_name = ''masi.evidence.get'',
       tq_arguments = [(''evidence_id'', JStr ''e-1'')]\<rparr>],
     ps_delegations = [\<lparr>dl_peer_id = ''peer-1'', dl_question = ''seen elsewhere?''\<rparr>],
     ps_response_digest = dig CHR ''0''\<rparr>"

definition sample_artifact :: analysis_artifact where
  "sample_artifact = \<lparr>aa_schema_version = ''masi-analysis-artifact/v1'', aa_artifact_id = ''artifact-1'',
     aa_artifact_digest = dig CHR ''0'', aa_task_id = ''task-1'', aa_run_id = ''run-1'',
     aa_plugin_id = ''masi.analysis.langgraph'', aa_plugin_revision = replicate 40 CHR ''a'',
     aa_config_digest = dig CHR ''1'', aa_binding_generation = 3, aa_input_digest = dig CHR ''0'',
     aa_analysis_outcome = ''limited'', aa_quality = ''limited'', aa_source_fact_refs = [''e-0'', ''e-1''],
     aa_observed_claims = [\<lparr>gc_claim = ''port scan seen'', gc_evidence_refs = [''e-1'']\<rparr>],
     aa_model_result_facts = [], aa_model_explanation_facts = [], aa_inferred_claims = [],
     aa_llm_interpretations = [], aa_uncertainties = [], aa_limitations = [''none''],
     aa_missing_evidence = [''none''], aa_recommendations = [], aa_generated_content = [],
     aa_provider_metadata = \<lparr>pm_provider_id = ''provider-1'', pm_model_id = ''model-1'',
       pm_provider_digest = dig CHR ''6''\<rparr>,
     aa_tool_trajectory_digest = dig CHR ''0'', aa_graph_version = ''masi-analysis-graph/v1'',
     aa_topology_digest = dig CHR ''0'', aa_trace_id = ''trace-1'', aa_trace_digest = dig CHR ''0'',
     aa_produced_at_unix_ms = 5000, aa_expires_at_unix_ms = 20000,
     aa_media_type = ''application/json'', aa_non_executable = True, aa_deployment_eligible = False\<rparr>"

lemma zero_digests:
  "\<not> has_nonfinite v \<Longrightarrow> canonical_digest zero_env v = Inr (dig CHR ''0'')"
  by (simp add: canonical_digest_eq sha256_digest_def zero_env_def dig_def)

lemma sample_artifact_ok: "AnalysisArtifact_ok sample_artifact"
  by code_simp

lemma sample_input_ok: "FrozenInput_ok sample_input"
  by code_simp

lemma sample_binding_ok: "BindingObservation_ok sample_binding"
  by code_simp

lemma sample_config_ok: "AnalysisConfig_ok sample_config"
  by code_simp

lemma sample_response_ok: "ProviderResponse_ok sample_response"
  by code_simp

end
