(* ===== verification/Canonical_Injective.thy ===== *)
theory Canonical_Injective
  imports Canonical
begin

text \<open>
  Injectivity of the canonical encodings of \<open>canonical.py\<close> on float-free values.

  \<open>go_escape\<close> rewrites the finished JSON text, so the argument first pushes it into the string
  literals (\<open>go_text\<close>), then reads a literal back (\<open>lex_body\<close> is a left inverse of the escaped
  body, up to the closing quote) and finally shows that two texts that agree up to a delimiter
  come from the same value.
\<close>

section \<open>Replacing inside a concatenation\<close>

lemma starts_with_append_cut:
  assumes "b = [] \<or> hd b \<notin> set pat"
  shows "starts_with pat (a @ b) \<longleftrightarrow> starts_with pat a"
  using assms
proof (induction pat a rule: starts_with.induct)
  case (2 p ps)
  then show ?case by (cases b) auto
qed auto

lemma starts_with_length: "starts_with pat a \<Longrightarrow> length pat \<le> length a"
  by (auto simp: starts_with_iff)

lemma py_replace_append_cut:
  assumes "b = [] \<or> hd b \<notin> set pat"
  shows "py_replace pat rep (a @ b) = py_replace pat rep a @ py_replace pat rep b"
proof (induction a rule: length_induct)
  case (1 a)
  show ?case
  proof (cases a)
    case (Cons c cs)
    have sw: "starts_with pat (c # cs @ b) = starts_with pat (c # cs)"
      using starts_with_append_cut [OF assms, of "c # cs"] by simp
    show ?thesis
    proof (cases "pat \<noteq> [] \<and> starts_with pat (c # cs)")
      case True
      then have "length pat \<le> length (c # cs)" by (blast intro: starts_with_length)
      moreover have "py_replace pat rep (drop (length pat) (c # cs) @ b)
        = py_replace pat rep (drop (length pat) (c # cs)) @ py_replace pat rep b"
        using 1 True Cons by simp
      ultimately show ?thesis
        using Cons True sw py_replace_Cons [of pat rep c "cs @ b"] py_replace_Cons [of pat rep c cs]
        by (simp flip: append_Cons)
    next
      case False
      then show ?thesis
        using Cons sw 1 py_replace_Cons [of pat rep c "cs @ b"] py_replace_Cons [of pat rep c cs]
        by auto
    qed
  qed simp
qed

lemma py_replace_skip: "c \<noteq> p \<Longrightarrow> py_replace (p # ps) rep (c # t) = c # py_replace (p # ps) rep t"
  by (simp add: py_replace_Cons)

lemma py_replace_hit: "pat \<noteq> [] \<Longrightarrow> py_replace pat rep (pat @ t) = rep @ py_replace pat rep t"
  by (cases pat) (simp_all add: py_replace_Cons)

section \<open>Escaping, literal by literal\<close>

definition cut :: "str \<Rightarrow> bool" where
  "cut b \<longleftrightarrow> b = [] \<or> hd b \<notin> {CHR 0xE2, CHR 0x80, CHR 0xA8, CHR 0xA9}"

definition html_escape :: "str \<Rightarrow> str" where
  "html_escape raw = py_replace ''>'' (backslash # ''u003e'')
     (py_replace ''<'' (backslash # ''u003c'') (py_replace ''&'' (backslash # ''u0026'') raw))"

definition sep_escape :: "str \<Rightarrow> str" where
  "sep_escape raw =
     py_replace PARA_SEP (backslash # ''u2029'') (py_replace LINE_SEP (backslash # ''u2028'') raw)"

lemma go_escape_split: "go_escape raw = sep_escape (html_escape raw)"
  by (simp add: go_escape_def sep_escape_def html_escape_def)

lemma html_escape_append: "html_escape (a @ b) = html_escape a @ html_escape b"
  by (simp add: html_escape_def py_replace_single_concat)

lemma html_escape_Nil [simp]: "html_escape [] = []"
  by (simp add: html_escape_def)

lemma html_escape_Cons:
  "html_escape (c # s) =
     (if c = CHR ''&'' then backslash # ''u0026''
      else if c = CHR ''<'' then backslash # ''u003c''
      else if c = CHR ''>'' then backslash # ''u003e'' else [c]) @ html_escape s"
  by (simp add: html_escape_def py_replace_single_concat backslash_def)

lemma cut_html_escape: "cut b \<Longrightarrow> cut (html_escape b)"
  by (cases b) (auto simp: cut_def html_escape_Cons backslash_def)

lemma cut_line_replace: "cut b \<Longrightarrow> cut (py_replace LINE_SEP (backslash # ''u2028'') b)"
  by (cases b) (auto simp: cut_def py_replace_Cons backslash_def)

lemma sep_escape_append: "cut b \<Longrightarrow> sep_escape (a @ b) = sep_escape a @ sep_escape b"
proof -
  assume b: "cut b"
  then have "py_replace LINE_SEP (backslash # ''u2028'') (a @ b)
    = py_replace LINE_SEP (backslash # ''u2028'') a @ py_replace LINE_SEP (backslash # ''u2028'') b"
    by (intro py_replace_append_cut) (auto simp: cut_def LINE_SEP_def)
  then show ?thesis
    using cut_line_replace [OF b] py_replace_append_cut [of _ PARA_SEP]
    by (auto simp: sep_escape_def cut_def PARA_SEP_def)
qed

lemma go_escape_append: "cut b \<Longrightarrow> go_escape (a @ b) = go_escape a @ go_escape b"
  by (simp add: go_escape_split html_escape_append sep_escape_append cut_html_escape)

lemma go_escape_Nil [simp]: "go_escape [] = []"
  by (simp add: go_escape_def)

lemma sep_escape_Nil [simp]: "sep_escape [] = []"
  by (simp add: sep_escape_def)

lemma sep_escape_skip: "c \<noteq> CHR 0xE2 \<Longrightarrow> sep_escape (c # t) = c # sep_escape t"
  by (simp add: sep_escape_def LINE_SEP_def PARA_SEP_def py_replace_skip)

lemma sep_escape_line: "sep_escape (LINE_SEP @ t) = backslash # ''u2028'' @ sep_escape t"
proof -
  have "py_replace LINE_SEP (backslash # ''u2028'') (LINE_SEP @ t)
    = (backslash # ''u2028'') @ py_replace LINE_SEP (backslash # ''u2028'') t"
    by (rule py_replace_hit) (simp add: LINE_SEP_def)
  then show ?thesis
    by (simp add: sep_escape_def PARA_SEP_def py_replace_skip backslash_def)
qed

lemma sep_escape_lead:
  assumes "\<not> starts_with LINE_SEP (CHR 0xE2 # t)" and "\<not> starts_with PARA_SEP (CHR 0xE2 # t)"
  shows "sep_escape (CHR 0xE2 # t) = CHR 0xE2 # sep_escape t"
proof -
  let ?L = "py_replace LINE_SEP (backslash # ''u2028'')"
  have L: "?L (CHR 0xE2 # t) = CHR 0xE2 # ?L t"
    using assms(1) py_replace_Cons [of LINE_SEP _ "CHR 0xE2" t] by simp
  have "\<not> starts_with PARA_SEP (CHR 0xE2 # ?L t)"
  proof
    assume "starts_with PARA_SEP (CHR 0xE2 # ?L t)"
    then obtain u where u: "?L t = CHR 0x80 # CHR 0xA9 # u"
      by (auto simp: PARA_SEP_def starts_with_iff)
    then obtain c t1 where t: "t = c # t1" by (cases t) auto
    with u have "\<not> starts_with LINE_SEP t"
      by (auto simp: py_replace_Cons LINE_SEP_def backslash_def split: if_splits)
    with u t have c: "c = CHR 0x80" and u1: "?L t1 = CHR 0xA9 # u"
      by (auto simp: py_replace_Cons split: if_splits)
    then obtain d t2 where t1: "t1 = d # t2" by (cases t1) auto
    with u1 have "\<not> starts_with LINE_SEP t1"
      by (auto simp: py_replace_Cons LINE_SEP_def backslash_def split: if_splits)
    with u1 t1 have "d = CHR 0xA9"
      by (auto simp: py_replace_Cons split: if_splits)
    with t c t1 assms(2) show False by (simp add: PARA_SEP_def)
  qed
  with L show ?thesis
    using py_replace_Cons [of PARA_SEP "backslash # ''u2029''" "CHR 0xE2" "?L t"]
    by (simp add: sep_escape_def)
qed

lemma sep_escape_para: "sep_escape (PARA_SEP @ t) = backslash # ''u2029'' @ sep_escape t"
proof -
  let ?L = "py_replace LINE_SEP (backslash # ''u2028'')"
  have "?L (PARA_SEP @ t) = PARA_SEP @ ?L t"
    by (simp add: PARA_SEP_def LINE_SEP_def py_replace_Cons)
  moreover have "py_replace PARA_SEP (backslash # ''u2029'') (PARA_SEP @ ?L t)
    = (backslash # ''u2029'') @ py_replace PARA_SEP (backslash # ''u2029'') (?L t)"
    by (rule py_replace_hit) (simp add: PARA_SEP_def)
  ultimately show ?thesis by (simp add: sep_escape_def)
qed

definition raw_body :: "str \<Rightarrow> str" where
  "raw_body s = html_escape (concat (map json_escape_char s))"

definition go_body :: "str \<Rightarrow> str" where
  "go_body s = sep_escape (raw_body s)"

definition char_piece :: "char \<Rightarrow> str" where
  "char_piece c = html_escape (json_escape_char c)"

lemma raw_body_Nil [simp]: "raw_body [] = []"
  by (simp add: raw_body_def)

lemma raw_body_Cons: "raw_body (c # s) = char_piece c @ raw_body s"
  by (simp add: raw_body_def char_piece_def html_escape_append)

section \<open>Reading a literal back\<close>

definition simple_escape :: "char \<Rightarrow> char" where
  "simple_escape x =
     (if x = CHR ''b'' then CHR 0x08 else if x = CHR ''f'' then CHR 0x0C
      else if x = CHR ''n'' then CHR 0x0A else if x = CHR ''r'' then CHR 0x0D
      else if x = CHR ''t'' then CHR 0x09 else x)"

definition hex_val :: "char \<Rightarrow> nat" where
  "hex_val c = (if is_digit c then of_char c - 48 else of_char c - 87)"

definition uni_escape :: "char \<Rightarrow> char \<Rightarrow> char \<Rightarrow> char \<Rightarrow> str" where
  "uni_escape a b c d =
     (if [a, b, c, d] = ''2028'' then LINE_SEP else if [a, b, c, d] = ''2029'' then PARA_SEP
      else [char_of (hex_val c * 16 + hex_val d)])"

function lex_body :: "str \<Rightarrow> (str \<times> str) option" where
  "lex_body t =
     (case t of [] \<Rightarrow> None
      | c # u \<Rightarrow>
          if c = quote then Some ([], u)
          else if c = backslash then
            (case u of [] \<Rightarrow> None
             | x # w \<Rightarrow>
                 if x = CHR ''u'' then
                   (case w of a # b # d # e # v \<Rightarrow>
                      map_option (\<lambda>(s, r). (uni_escape a b d e @ s, r)) (lex_body v) | _ \<Rightarrow> None)
                 else map_option (\<lambda>(s, r). (simple_escape x # s, r)) (lex_body w))
          else map_option (\<lambda>(s, r). (c # s, r)) (lex_body u))"
  by pat_completeness auto
termination
  by (relation "measure length") auto

declare lex_body.simps [simp del]

lemma lex_quote: "lex_body (quote # u) = Some ([], u)"
  by (subst lex_body.simps) simp

lemma lex_simple:
  "x \<noteq> CHR ''u'' \<Longrightarrow>
   lex_body (backslash # x # w) = map_option (\<lambda>(s, r). (simple_escape x # s, r)) (lex_body w)"
  by (subst lex_body.simps) (simp add: quote_def backslash_def)

lemma lex_uni:
  "lex_body (backslash # CHR ''u'' # a # b # c # d # w)
     = map_option (\<lambda>(s, r). (uni_escape a b c d @ s, r)) (lex_body w)"
  by (subst lex_body.simps) (simp add: quote_def backslash_def)

lemma lex_plain:
  "c \<noteq> quote \<Longrightarrow> c \<noteq> backslash \<Longrightarrow>
   lex_body (c # u) = map_option (\<lambda>(s, r). (c # s, r)) (lex_body u)"
  by (subst lex_body.simps) simp

lemma hex_char_all: "list_all P ''0123456789abcdef'' \<Longrightarrow> n < 16 \<Longrightarrow> P (hex_char n)"
  by (simp only: hex_char_def list_all_length) simp

definition inert :: "char \<Rightarrow> bool" where
  "inert c \<longleftrightarrow> c \<noteq> CHR ''&'' \<and> c \<noteq> CHR ''<'' \<and> c \<noteq> CHR ''>'' \<and> c \<noteq> CHR 0xE2"

lemma hex_char_inert: "n < 16 \<Longrightarrow> inert (hex_char n)"
  by (rule hex_char_all) (simp_all add: inert_def)

lemma html_escape_inert: "inert c \<Longrightarrow> html_escape (c # s) = c # html_escape s"
  by (simp add: html_escape_Cons inert_def)

lemma hex_val_hex_char: "n < 16 \<Longrightarrow> hex_val (hex_char n) = n"
proof -
  have "\<forall>n \<in> set [0..<16]. hex_val (hex_char n) = n" by code_simp
  then show "n < 16 \<Longrightarrow> hex_val (hex_char n) = n" by simp
qed

lemma uni_escape_control:
  assumes "c < CHR 0x20"
  shows "uni_escape CHR ''0'' CHR ''0'' (hex_char (of_char c div 16)) (hex_char (of_char c mod 16)) = [c]"
proof -
  from assms have n: "(of_char c :: nat) < 32" by (simp add: less_char_def)
  then have "hex_val (hex_char (of_char c div 16)) * 16 + hex_val (hex_char (of_char c mod 16))
    = (of_char c :: nat)"
    using hex_val_hex_char [of "of_char c div 16"] hex_val_hex_char [of "of_char c mod 16"] by simp
  then show ?thesis by (simp add: uni_escape_def)
qed

text \<open>The bytes that one byte of a string becomes.\<close>

lemma char_piece_cases:
  obtains (simple) x where "char_piece c = [backslash, x]" and "simple_escape x = c"
      and "x \<noteq> CHR ''u''" and "x \<noteq> CHR 0xE2"
  | (uni) a b d e where "char_piece c = [backslash, CHR ''u'', a, b, d, e]"
      and "uni_escape a b d e = [c]" and "CHR 0xE2 \<notin> {a, b, d, e}"
  | (plain) "char_piece c = [c]" and "c \<noteq> quote" and "c \<noteq> backslash"
proof -
  note defs = char_piece_def json_escape_char_def html_escape_Cons simple_escape_def
  note chars = backslash_def quote_def
  consider (s) "c \<in> {backslash, quote, CHR 0x08, CHR 0x0C, CHR 0x0A, CHR 0x0D, CHR 0x09}"
    | (u) "c \<notin> {backslash, quote, CHR 0x08, CHR 0x0C, CHR 0x0A, CHR 0x0D, CHR 0x09}" and "c < CHR 0x20"
    | (h) "c \<in> {CHR ''&'', CHR ''<'', CHR ''>''}"
    | (p) "c \<notin> {backslash, quote, CHR 0x08, CHR 0x0C, CHR 0x0A, CHR 0x0D, CHR 0x09}"
        and "\<not> c < CHR 0x20" and "c \<notin> {CHR ''&'', CHR ''<'', CHR ''>''}"
    by blast
  then show thesis
  proof cases
    case s
    then show ?thesis
      by (intro simple [of "json_escape_char c ! 1"]) (auto simp: defs chars)
  next
    case u
    let ?h = "[CHR ''0'', CHR ''0'', hex_char (of_char c div 16), hex_char (of_char c mod 16)]"
    from u(2) have "(of_char c :: nat) < 32" by (simp add: less_char_def)
    then have hx: "inert (hex_char (of_char c div 16))" "inert (hex_char (of_char c mod 16))"
      by (auto intro: hex_char_inert)
    have "json_escape_char c = backslash # CHR ''u'' # ?h"
      using u by (simp add: json_escape_char_def)
    moreover have "inert backslash" "inert (CHR ''u'')" "inert (CHR ''0'')"
      by (simp_all add: inert_def backslash_def)
    ultimately have "char_piece c = backslash # CHR ''u'' # ?h"
      using hx by (simp add: char_piece_def html_escape_inert)
    moreover have "CHR 0xE2 \<notin> set ?h" using hx by (auto simp: inert_def)
    ultimately show ?thesis using uni_escape_control [OF u(2)] by (intro uni) auto
  next
    case h
    have "char_piece CHR ''&'' = backslash # CHR ''u'' # ''0026''"
      "char_piece CHR ''<'' = backslash # CHR ''u'' # ''003c''"
      "char_piece CHR ''>'' = backslash # CHR ''u'' # ''003e''"
      "uni_escape CHR ''0'' CHR ''0'' CHR ''2'' CHR ''6'' = [CHR ''&'']"
      "uni_escape CHR ''0'' CHR ''0'' CHR ''3'' CHR ''c'' = [CHR ''<'']"
      "uni_escape CHR ''0'' CHR ''0'' CHR ''3'' CHR ''e'' = [CHR ''>'']"
      by code_simp+
    with h show ?thesis
      by (elim insertE emptyE) (rule uni, auto)+
  next
    case p
    then show ?thesis
      by (intro plain) (auto simp: char_piece_def json_escape_char_def html_escape_Cons)
  qed
qed

lemma lex_piece: "lex_body (char_piece c @ X) = map_option (\<lambda>(s, r). (c # s, r)) (lex_body X)"
proof (cases c rule: char_piece_cases)
  case (simple x)
  then show ?thesis by (simp add: lex_simple)
next
  case (uni a b d e)
  then show ?thesis by (simp add: lex_uni)
next
  case plain
  then show ?thesis by (simp add: lex_plain)
qed


lemma sep_escape_prefix: "CHR 0xE2 \<notin> set a \<Longrightarrow> sep_escape (a @ t) = a @ sep_escape t"
  by (induction a) (auto simp: sep_escape_skip)

lemma char_piece_no_lead: "c \<noteq> CHR 0xE2 \<Longrightarrow> CHR 0xE2 \<notin> set (char_piece c)"
  by (cases c rule: char_piece_cases) (auto simp: backslash_def)

lemma char_piece_high: "char_piece (CHR 0xE2) = [CHR 0xE2]" "char_piece (CHR 0x80) = [CHR 0x80]"
  "char_piece (CHR 0xA8) = [CHR 0xA8]" "char_piece (CHR 0xA9) = [CHR 0xA9]"
  by code_simp+

lemma char_piece_head: "char_piece c = x # t \<Longrightarrow> x \<noteq> backslash \<Longrightarrow> x = c \<and> t = []"
  by (cases c rule: char_piece_cases) auto

lemma raw_body_head:
  assumes "raw_body s = x # t" and "x \<noteq> backslash"
  shows "\<exists>s'. s = x # s' \<and> t = raw_body s'"
proof (cases s)
  case (Cons c s')
  then obtain y u where y: "char_piece c = y # u" by (cases c rule: char_piece_cases) auto
  with assms Cons have "y = x" by (simp add: raw_body_Cons)
  with y assms(2) have "x = c \<and> u = []" by (auto dest: char_piece_head)
  with assms(1) Cons y show ?thesis by (simp add: raw_body_Cons)
qed (use assms in simp)

lemma raw_body_starts:
  assumes "starts_with (CHR 0xE2 # CHR 0x80 # z # []) (CHR 0xE2 # raw_body s)" and "z \<noteq> backslash"
  shows "\<exists>s'. s = CHR 0x80 # z # s'"
proof -
  from assms(1) obtain t where "raw_body s = CHR 0x80 # z # t" by (auto simp: starts_with_iff)
  then obtain s1 where s: "s = CHR 0x80 # s1" and "raw_body s1 = z # t"
    using raw_body_head [of s] by (force simp: backslash_def)
  then obtain s2 where "s1 = z # s2" using raw_body_head [of s1] assms(2) by force
  with s show ?thesis by simp
qed

lemma lex_go_body: "lex_body (go_body s @ quote # r) = Some (s, r)"
proof (induction s rule: length_induct)
  case (1 s)
  show ?case
  proof (cases s)
    case Nil
    then show ?thesis by (simp add: go_body_def lex_quote)
  next
    case (Cons c t)
    consider (line) u where "s = LINE_SEP @ u" | (para) u where "s = PARA_SEP @ u"
      | (lead) "c = CHR 0xE2" "\<not> starts_with LINE_SEP s" "\<not> starts_with PARA_SEP s"
      | (other) "c \<noteq> CHR 0xE2"
      by (auto simp: starts_with_iff)
    then show ?thesis
    proof cases
      case line
      then have "go_body s = backslash # ''u2028'' @ go_body u"
        by (simp add: go_body_def LINE_SEP_def raw_body_Cons char_piece_high sep_escape_line [unfolded LINE_SEP_def, simplified])
      moreover have "lex_body (go_body u @ quote # r) = Some (u, r)"
        using 1 line by (simp add: LINE_SEP_def)
      ultimately show ?thesis using line by (simp add: lex_uni uni_escape_def)
    next
      case para
      then have "go_body s = backslash # ''u2029'' @ go_body u"
        by (simp add: go_body_def PARA_SEP_def raw_body_Cons char_piece_high sep_escape_para [unfolded PARA_SEP_def, simplified])
      moreover have "lex_body (go_body u @ quote # r) = Some (u, r)"
        using 1 para by (simp add: PARA_SEP_def)
      ultimately show ?thesis using para by (simp add: lex_uni uni_escape_def)
    next
      case lead
      have "\<not> starts_with LINE_SEP (CHR 0xE2 # raw_body t)" "\<not> starts_with PARA_SEP (CHR 0xE2 # raw_body t)"
        using lead Cons raw_body_starts [of "CHR 0xA8" t] raw_body_starts [of "CHR 0xA9" t]
        by (auto simp: LINE_SEP_def PARA_SEP_def backslash_def)
      then have "go_body s = CHR 0xE2 # go_body t"
        using Cons lead by (simp add: go_body_def raw_body_Cons char_piece_high sep_escape_lead)
      moreover have "lex_body (go_body t @ quote # r) = Some (t, r)" using 1 Cons by simp
      ultimately show ?thesis using Cons lead by (simp add: lex_plain quote_def backslash_def)
    next
      case other
      then have "go_body s = char_piece c @ go_body t"
        using Cons by (simp add: go_body_def raw_body_Cons sep_escape_prefix char_piece_no_lead)
      moreover have "lex_body (go_body t @ quote # r) = Some (t, r)" using 1 Cons by simp
      ultimately show ?thesis using Cons by (simp add: lex_piece)
    qed
  qed
qed

section \<open>The escaped text of a value\<close>

definition go_str :: "str \<Rightarrow> str" where
  "go_str s = quote # go_body s @ [quote]"

fun go_text :: "json \<Rightarrow> str" where
  "go_text JNull = ''null''"
| "go_text (JBool b) = (if b then ''true'' else ''false'')"
| "go_text (JInt i) = int_str i"
| "go_text (JFloat f) = []"
| "go_text (JStr s) = go_str s"
| "go_text (JArr vs) = CHR ''['' # join '','' (map go_text vs) @ '']''"
| "go_text (JObj kvs) =
     CHR ''{'' # join '','' (map (\<lambda>kv. go_str (fst kv) @ CHR '':'' # go_text (snd kv)) kvs) @ ''}''"

lemma go_escape_inert: "inert c \<Longrightarrow> go_escape (c # t) = c # go_escape t"
  by (simp add: go_escape_split html_escape_inert sep_escape_skip inert_def)

lemma go_escape_all_inert: "list_all inert s \<Longrightarrow> go_escape s = s"
  by (induction s) (auto simp: go_escape_inert)

lemma inert_consts [simp]:
  "inert quote" "inert (CHR '','')" "inert (CHR '':'')" "inert (CHR ''['')" "inert (CHR '']'')"
  "inert (CHR ''{'')" "inert (CHR ''}'')"
  by (simp_all add: inert_def quote_def)

lemma cut_inert_Cons: "c \<in> {quote, CHR '','', CHR '':'', CHR '']'', CHR ''}''} \<Longrightarrow> cut (c # t)"
  by (auto simp: cut_def quote_def)

lemma go_escape_before:
  "c \<in> {quote, CHR '','', CHR '':'', CHR '']'', CHR ''}''} \<Longrightarrow>
   go_escape (a @ c # t) = go_escape a @ c # go_escape t"
  by (auto simp: go_escape_append cut_inert_Cons go_escape_inert)

lemma go_escape_join: "go_escape (join '','' xs) = join '','' (map go_escape xs)"
  by (induction "'',''" xs rule: join.induct) (auto simp: go_escape_before)

lemma go_escape_json_str: "go_escape (json_str s @ t) = go_str s @ go_escape t" if "cut t"
proof -
  have "go_escape (json_str s) = go_str s"
    by (simp add: json_str_def go_escape_inert go_escape_before go_str_def go_body_def raw_body_def
          flip: go_escape_split)
  with that show ?thesis by (simp add: go_escape_append)
qed

lemma int_str_inert: "list_all inert (int_str i)"
proof -
  have "is_digit c \<Longrightarrow> inert c" for c by (auto simp: is_digit_def inert_def)
  then have "list_all inert (nat_str n)" for n
    using nat_str_digits [of n] by (auto simp: list_all_iff)
  then show ?thesis by (simp add: int_str_def inert_def)
qed

lemma go_escape_json_text: "float_free v \<Longrightarrow> go_escape (json_text env v) = go_text v"
proof (induction v rule: float_free.induct)
  case (2 vs)
  then have "\<And>v. v \<in> set vs \<Longrightarrow> go_escape (json_text env v) = go_text v" by (auto simp: list_all_iff)
  then show ?case by (simp add: go_escape_inert go_escape_before go_escape_join cong: map_cong)
next
  case (3 kvs)
  have "go_escape (json_str (fst kv) @ CHR '':'' # json_text env (snd kv))
    = go_str (fst kv) @ CHR '':'' # go_text (snd kv)" if "kv \<in> set kvs" for kv
    using 3 that by (simp add: list_all_iff go_escape_json_str cut_inert_Cons go_escape_inert)
  then show ?case by (simp add: go_escape_inert go_escape_before go_escape_join cong: map_cong)
next
  case (6 i)
  then show ?case by (simp add: go_escape_all_inert int_str_inert)
next
  case (7 s)
  then show ?case using go_escape_json_str [of "[]" s] by (simp add: cut_def)
qed (simp_all add: go_escape_all_inert inert_def)

section \<open>Unique reading\<close>

definition delim :: "str \<Rightarrow> bool" where
  "delim r \<longleftrightarrow> r = [] \<or> hd r \<in> {CHR '','', CHR '']'', CHR ''}''}"

fun nat_of_str :: "str \<Rightarrow> nat" where
  "nat_of_str s = foldl (\<lambda>n c. 10 * n + (of_char c - 48)) 0 s"

lemma digit_char_value: "d < 10 \<Longrightarrow> of_char (digit_char d) - 48 = d"
proof -
  have "\<forall>d \<in> set [0..<10]. of_char (digit_char d) - 48 = (d :: nat)" by code_simp
  then show "d < 10 \<Longrightarrow> of_char (digit_char d) - 48 = d" by simp
qed

lemma nat_of_nat_str: "nat_of_str (nat_str n) = n"
proof (induction n rule: nat_str.induct)
  case (1 n)
  show ?case
  proof (cases "n < 10")
    case True
    then show ?thesis by (simp add: nat_str.simps [of n] digit_char_value)
  next
    case False
    with 1 show ?thesis by (simp add: nat_str.simps [of n] digit_char_value)
  qed
qed

lemma nat_str_inject [simp]: "nat_str m = nat_str n \<longleftrightarrow> m = n"
  by (metis nat_of_nat_str)

lemma nat_str_not_minus: "nat_str n \<noteq> CHR ''-'' # t"
  using nat_str_digits [of n] by (auto simp: is_digit_def)

lemma int_str_inject [simp]: "int_str i = int_str j \<longleftrightarrow> i = j"
  using nat_str_not_minus [symmetric] by (auto simp: int_str_def nat_str_not_minus)

definition int_char :: "char \<Rightarrow> bool" where
  "int_char c \<longleftrightarrow> is_digit c \<or> c = CHR ''-''"

lemma int_str_chars: "list_all int_char (int_str i)"
proof -
  have "list_all int_char (nat_str n)" for n
    using nat_str_digits [of n] by (auto simp: list_all_iff int_char_def)
  then show ?thesis by (simp add: int_str_def int_char_def)
qed

lemma int_str_nonempty: "int_str i \<noteq> []"
  by (simp add: int_str_def)

lemma int_str_unique:
  assumes "int_str i @ r = int_str j @ r'" and "delim r" and "delim r'"
  shows "i = j \<and> r = r'"
proof -
  have span: "takeWhile int_char (int_str k @ q) = int_str k" if "delim q" for k q
    using that int_str_chars [of k]
    by (cases q) (auto simp: delim_def int_char_def is_digit_def list_all_iff takeWhile_append)
  from span [OF assms(2), of i] span [OF assms(3), of j] assms(1) have "int_str i = int_str j" by simp
  with assms(1) show ?thesis by simp
qed

fun lead_ok :: "json \<Rightarrow> char \<Rightarrow> bool" where
  "lead_ok JNull c \<longleftrightarrow> c = CHR ''n''"
| "lead_ok (JBool b) c \<longleftrightarrow> c = (if b then CHR ''t'' else CHR ''f'')"
| "lead_ok (JInt i) c \<longleftrightarrow> int_char c"
| "lead_ok (JFloat f) c \<longleftrightarrow> False"
| "lead_ok (JStr s) c \<longleftrightarrow> c = quote"
| "lead_ok (JArr vs) c \<longleftrightarrow> c = CHR ''[''"
| "lead_ok (JObj kvs) c \<longleftrightarrow> c = CHR ''{''"

lemma go_text_lead: "float_free v \<Longrightarrow> \<exists>c t. go_text v = c # t \<and> lead_ok v c"
proof (cases v)
  case (JInt i)
  then show ?thesis
    using int_str_nonempty [of i] int_str_chars [of i] by (cases "int_str i") auto
qed (auto simp: go_str_def)

lemma lead_not_delim: "lead_ok v c \<Longrightarrow> c \<notin> {CHR '','', CHR '']'', CHR ''}''}"
  by (cases v) (auto simp: int_char_def is_digit_def quote_def split: if_splits)

lemma tail_unique:
  assumes "\<And>x y r r'. x \<in> set xs \<Longrightarrow> y \<in> set ys \<Longrightarrow> T x @ r = T y @ r' \<Longrightarrow> delim r \<Longrightarrow> delim r' \<Longrightarrow> x = y \<and> r = r'"
    and "e \<in> {CHR '']'', CHR ''}''}"
    and "concat (map (\<lambda>x. CHR '','' # T x) xs) @ e # r = concat (map (\<lambda>x. CHR '','' # T x) ys) @ e # r'"
  shows "xs = ys \<and> r = r'"
  using assms(1,3)
proof (induction xs arbitrary: ys)
  case Nil
  then show ?case using assms(2) by (cases ys) auto
next
  case (Cons x xs)
  show ?case
  proof (cases ys)
    case Nil
    with Cons.prems(2) assms(2) show ?thesis by auto
  next
    case (Cons y zs)
    have dl: "delim (concat (map (\<lambda>x. CHR '','' # T x) us) @ e # q)" for us q
      using assms(2) by (cases us) (auto simp: delim_def)
    from Cons Cons.prems(2) have "x = y \<and> concat (map (\<lambda>x. CHR '','' # T x) xs) @ e # r
      = concat (map (\<lambda>x. CHR '','' # T x) zs) @ e # r'"
      by (intro Cons.prems(1)) (auto intro: dl)
    moreover from this have "xs = zs \<and> r = r'"
      using Cons Cons.prems(1) by (intro Cons.IH) auto
    ultimately show ?thesis using Cons by simp
  qed
qed

lemma join_unique:
  assumes U: "\<And>x y r r'. x \<in> set xs \<Longrightarrow> y \<in> set ys \<Longrightarrow> T x @ r = T y @ r' \<Longrightarrow> delim r \<Longrightarrow> delim r' \<Longrightarrow> x = y \<and> r = r'"
    and e: "e \<in> {CHR '']'', CHR ''}''}"
    and lead: "\<And>x. x \<in> set xs \<union> set ys \<Longrightarrow> \<exists>c t. T x = c # t \<and> c \<noteq> e"
    and eq: "join '','' (map T xs) @ e # r = join '','' (map T ys) @ e # r'"
  shows "xs = ys \<and> r = r'"
proof (cases xs)
  case Nil
  then show ?thesis
    using eq lead by (cases ys) (force simp: join_Cons)+
next
  case (Cons x xs')
  note xs = Cons
  show ?thesis
  proof (cases ys)
    case Nil
    then show ?thesis using eq lead xs by (force simp: join_Cons)
  next
    case (Cons y ys')
    have dl: "delim (concat (map (\<lambda>x. CHR '','' # T x) us) @ e # q)" for us q
      using e by (cases us) (auto simp: delim_def)
    from eq xs Cons have "x = y \<and> concat (map (\<lambda>x. CHR '','' # T x) xs') @ e # r
      = concat (map (\<lambda>x. CHR '','' # T x) ys') @ e # r'"
      by (intro U) (auto simp: join_Cons comp_def intro: dl)
    moreover from this have "xs' = ys' \<and> r = r'"
      using U xs Cons by (intro tail_unique [where T = T, OF _ e]) auto
    ultimately show ?thesis using xs Cons by simp
  qed
qed

lemma go_str_unique: "go_str k @ r = go_str k' @ r' \<Longrightarrow> k = k' \<and> r = r'"
proof -
  assume "go_str k @ r = go_str k' @ r'"
  then have "lex_body (go_body k @ quote # r) = lex_body (go_body k' @ quote # r')"
    by (simp add: go_str_def)
  then show ?thesis by (simp add: lex_go_body)
qed

lemma go_text_unique:
  "float_free v \<Longrightarrow> float_free w \<Longrightarrow> go_text v @ r = go_text w @ r' \<Longrightarrow> delim r \<Longrightarrow> delim r' \<Longrightarrow>
   v = w \<and> r = r'"
proof (induction v arbitrary: w r r' rule: float_free.induct)
  case (2 vs)
  from go_text_lead [OF "2.prems"(2)] "2.prems"(3) have "lead_ok w (CHR ''['')" by auto
  then obtain ws where w: "w = JArr ws"
    by (cases w) (auto simp: int_char_def is_digit_def quote_def split: if_splits)
  have "vs = ws \<and> r = r'"
  proof (rule join_unique [where T = go_text and e = "CHR '']''"])
    show "join '','' (map go_text vs) @ CHR '']'' # r = join '','' (map go_text ws) @ CHR '']'' # r'"
      using "2.prems"(3) w by simp
    show "\<exists>c t. go_text x = c # t \<and> c \<noteq> CHR '']''" if "x \<in> set vs \<union> set ws" for x
      using that "2.prems"(1,2) w go_text_lead [of x] lead_not_delim by (auto simp: list_all_iff)
  qed (use 2 w in \<open>auto simp: list_all_iff\<close>)
  with w show ?case by simp
next
  case (3 kvs)
  let ?T = "\<lambda>kv. go_str (fst kv) @ CHR '':'' # go_text (snd kv)"
  from go_text_lead [OF "3.prems"(2)] "3.prems"(3) have "lead_ok w (CHR ''{'')" by auto
  then obtain kws where w: "w = JObj kws"
    by (cases w) (auto simp: int_char_def is_digit_def quote_def split: if_splits)
  have "kvs = kws \<and> r = r'"
  proof (rule join_unique [where T = ?T and e = "CHR ''}''"])
    show "join '','' (map ?T kvs) @ CHR ''}'' # r = join '','' (map ?T kws) @ CHR ''}'' # r'"
      using "3.prems"(3) w by simp
    show "x = y \<and> q = q'"
      if "x \<in> set kvs" "y \<in> set kws" and eq: "?T x @ q = ?T y @ q'" and "delim q" "delim q'" for x y q q'
    proof -
      from eq have "fst x = fst y \<and> CHR '':'' # go_text (snd x) @ q = CHR '':'' # go_text (snd y) @ q'"
        by (intro go_str_unique) simp
      moreover from this have "snd x = snd y \<and> q = q'"
        using that "3.prems"(1,2) w by (intro "3.IH") (auto simp: list_all_iff)
      ultimately show ?thesis by (simp add: prod_eq_iff)
    qed
  qed (auto simp: go_str_def quote_def)
  with w show ?case by simp
next
  case (6 i)
  from go_text_lead [OF "6.prems"(2)] int_str_nonempty [of i] int_str_chars [of i] "6.prems"(3)
  obtain c where "lead_ok w c" "int_char c" by (cases "int_str i") auto
  then obtain j where "w = JInt j"
    by (cases w) (auto simp: int_char_def is_digit_def quote_def split: if_splits)
  with "6.prems" int_str_unique show ?case by auto
next
  case (7 s)
  from go_text_lead [OF "7.prems"(2)] "7.prems"(3) have "lead_ok w quote" by (auto simp: go_str_def)
  then obtain t where "w = JStr t"
    by (cases w) (auto simp: int_char_def is_digit_def quote_def split: if_splits)
  with "7.prems"(3) go_str_unique [of s r t r'] show ?case by simp
next
  case 4
  from go_text_lead [OF "4.prems"(2)] "4.prems"(3) have "lead_ok w (CHR ''n'')" by auto
  then have "w = JNull"
    by (cases w) (auto simp: int_char_def is_digit_def quote_def split: if_splits)
  with "4.prems"(3) show ?case by simp
next
  case (5 b)
  from go_text_lead [OF "5.prems"(2)] obtain c t where ct: "go_text w = c # t" "lead_ok w c" by blast
  with "5.prems"(3) have "c = (if b then CHR ''t'' else CHR ''f'')" by (cases b) simp_all
  with ct(2) have "lead_ok w (if b then CHR ''t'' else CHR ''f'')" by simp
  then have "w = JBool b"
    by (cases w) (auto simp: int_char_def is_digit_def quote_def split: if_splits)
  with "5.prems"(3) show ?case by simp
qed simp

lemma go_text_inject: "float_free v \<Longrightarrow> float_free w \<Longrightarrow> go_text v = go_text w \<longleftrightarrow> v = w"
  using go_text_unique [of v w "[]" "[]"] by (auto simp: delim_def)


section \<open>What a digest commits to\<close>

lemma sort_json_float_free: "float_free v \<Longrightarrow> float_free (sort_json v)"
  by (induction v rule: float_free.induct) (auto simp: list_all_iff)

lemma go_json_bytes_inject:
  assumes "float_free v" and "float_free w" and "go_json_bytes env v = go_json_bytes env w"
  shows "v = w"
proof -
  from assms have "go_text v = go_text w"
    using go_escape_json_text [of v env] go_escape_json_text [of w env] by (simp add: go_json_bytes_eq)
  with assms(1,2) show ?thesis by (simp add: go_text_inject)
qed

lemma sorted_json_bytes_inject:
  assumes "float_free v" and "float_free w" and "sorted_json_bytes env v = sorted_json_bytes env w"
  shows "sort_json v = sort_json w"
proof -
  from assms have "go_text (sort_json v) = go_text (sort_json w)"
    by (auto simp: sorted_json_bytes_eq go_escape_json_text sort_json_float_free)
  with assms(1,2) show ?thesis by (simp add: go_text_inject sort_json_float_free)
qed

text \<open>
  A payload digest computed over \<open>go_json_bytes\<close> (the frozen input and the artifact) commits to
  the payload: when SHA-256 has no collision on the two encodings, equal digests mean equal payloads,
  field for field and in the same order.
\<close>

theorem go_json_digest_commits:
  assumes "float_free v" and "float_free w"
    and "go_json_bytes env v = Inr raw" and "go_json_bytes env w = Inr raw'"
    and "hexdigest env raw = hexdigest env raw' \<Longrightarrow> raw = raw'"
    and "sha256_digest env raw = sha256_digest env raw'"
  shows "v = w"
proof -
  from assms(5,6) have "raw = raw'" by (simp add: sha256_digest_def)
  with assms(1-4) show ?thesis by (intro go_json_bytes_inject [where env = env]) simp_all
qed

theorem go_json_digest_commits_witness:
  "JObj [(''a'', JStr ''<&>'')] = JObj [(''a'', JStr ''<&>'')]
   \<and> is_ok (go_json_bytes id_env (JObj [(''a'', JStr ''<&>'')]))"
proof -
  let ?v = "JObj [(''a'', JStr ''<&>'')]"
  have "go_json_bytes id_env ?v = Inr (go_escape (json_text id_env ?v))"
    by (simp add: go_json_bytes_eq)
  then show ?thesis
    using go_json_digest_commits [of ?v ?v id_env] by simp
qed

text \<open>
  A canonical digest (sorted keys: bindings, provider requests and responses, delegations, peer
  artifacts) commits to the sorted form of its record: without a collision, equal digests mean that
  the two records have the same keys with the same values.
\<close>

theorem canonical_digest_commits:
  assumes "float_free v" and "float_free w"
    and "sorted_json_bytes env v = Inr raw" and "sorted_json_bytes env w = Inr raw'"
    and "hexdigest env raw = hexdigest env raw' \<Longrightarrow> raw = raw'"
    and "canonical_digest env v = canonical_digest env w"
  shows "sort_json v = sort_json w"
proof -
  from assms(3-6) have "raw = raw'" by (simp add: canonical_digest_def sha256_digest_def)
  with assms(1-4) show ?thesis by (intro sorted_json_bytes_inject [where env = env]) simp_all
qed

theorem canonical_digest_commits_witness:
  "sort_json (JObj [(''b'', JInt 7), (''a'', JNull)]) = sort_json (JObj [(''a'', JNull), (''b'', JInt 7)])"
proof (rule canonical_digest_commits [where env = id_env])
  let ?v = "JObj [(''b'', JInt 7), (''a'', JNull)]" and ?w = "JObj [(''a'', JNull), (''b'', JInt 7)]"
  show "sorted_json_bytes id_env ?v = Inr (go_escape (json_text id_env (sort_json ?v)))"
    "sorted_json_bytes id_env ?w = Inr (go_escape (json_text id_env (sort_json ?w)))"
    by (simp_all add: sorted_json_bytes_eq)
  show "canonical_digest id_env ?v = canonical_digest id_env ?w" by (simp add: canonical_digest_eq)
qed (simp_all add: id_env_def)

end
