(* ===== verification/Regex.thy ===== *)
theory Regex
  imports Canonical
begin

text \<open>
  The fragment of Python's \<open>re\<close> that the plugin's patterns use: character classes, greedy
  repetition of a class, optional characters, groups of literal alternatives, word boundaries and
  top-level alternation. A string is matched character by character: \<open>chunks\<close> cuts its UTF-8
  bytes into the encodings of its characters, so a class is a predicate on the bytes of one
  character.

  \<open>rx_ends\<close> enumerates the ends of all matches at a position in the order in which the
  backtracking matcher of \<open>re\<close> tries them; the first one is Python's match. \<open>rx_search\<close> and
  \<open>rx_sub\<close> are \<open>pattern.search\<close> (as a truth value) and \<open>pattern.sub\<close> with a literal
  replacement.
\<close>

section \<open>Characters\<close>

function (sequential) chunks :: "str \<Rightarrow> str list" where
  "chunks [] = []"
| "chunks (c # s) = (c # takeWhile cont_byte s) # chunks (dropWhile cont_byte s)"
  by pat_completeness auto
termination
  by (relation "measure length") (auto simp: le_imp_less_Suc length_dropWhile_le)

lemma concat_chunks [simp]: "concat (chunks s) = s"
  by (induction s rule: chunks.induct) auto

lemma length_chunks: "length (chunks s) \<le> length s"
proof (induction s rule: chunks.induct)
  case (2 c s)
  then show ?case using length_dropWhile_le [of cont_byte s] by simp
qed simp

lemma chunks_nonempty: "x \<in> set (chunks s) \<Longrightarrow> x \<noteq> []"
  by (induction s rule: chunks.induct) auto

section \<open>Patterns\<close>

type_synonym cls = "str \<Rightarrow> bool"

datatype atom = One cls | Opt cls | Rep nat cls | OneOf "cls list list" | Bnd

type_synonym rx = "atom list list"

definition char_in :: "str \<Rightarrow> cls" where
  "char_in cs x \<longleftrightarrow> (\<exists>c \<in> set cs. x = [c])"

definition ascii_cls :: "(char \<Rightarrow> bool) \<Rightarrow> cls" where
  "ascii_cls P x \<longleftrightarrow> (case x of [c] \<Rightarrow> P c | _ \<Rightarrow> False)"

text \<open>
  A letter under \<open>IGNORECASE\<close>: both cases, and the characters outside ASCII that \<open>re\<close> folds onto
  it (dotted and dotless i, long s, the Kelvin sign).
\<close>

definition fold_extra :: "char \<Rightarrow> str list" where
  "fold_extra c =
     (if c = CHR ''i'' then [[CHR 0xC4, CHR 0xB0], [CHR 0xC4, CHR 0xB1]]
      else if c = CHR ''s'' then [[CHR 0xC5, CHR 0xBF]]
      else if c = CHR ''k'' then [[CHR 0xE2, CHR 0x84, CHR 0xAA]]
      else [])"

definition lower_char :: "char \<Rightarrow> char" where
  "lower_char c = (if is_upper c then char_of (of_char c + (32 :: nat)) else c)"

definition char_ci :: "char \<Rightarrow> cls" where
  "char_ci c x \<longleftrightarrow> (case x of [d] \<Rightarrow> lower_char d = lower_char c | _ \<Rightarrow> x \<in> set (fold_extra (lower_char c)))"

definition lit :: "str \<Rightarrow> atom list" where
  "lit s = map (\<lambda>x. One (\<lambda>y. y = x)) (chunks s)"

definition lit_ci :: "str \<Rightarrow> atom list" where
  "lit_ci s = map (\<lambda>c. One (char_ci c)) s"

definition word_ci :: "str \<Rightarrow> cls list" where
  "word_ci s = map char_ci s"

text \<open>\<open>\s\<close> on text: the ASCII and the Unicode white space that \<open>str.isspace\<close> accepts.\<close>

definition unicode_spaces :: "str list" where
  "unicode_spaces =
     [[CHR 0xC2, CHR 0x85], [CHR 0xC2, CHR 0xA0], [CHR 0xE1, CHR 0x9A, CHR 0x80]]
     @ map (\<lambda>b. [CHR 0xE2, CHR 0x80, b])
         [CHR 0x80, CHR 0x81, CHR 0x82, CHR 0x83, CHR 0x84, CHR 0x85, CHR 0x86, CHR 0x87, CHR 0x88,
          CHR 0x89, CHR 0x8A, CHR 0xA8, CHR 0xA9, CHR 0xAF]
     @ [[CHR 0xE2, CHR 0x81, CHR 0x9F], [CHR 0xE3, CHR 0x80, CHR 0x80]]"

definition py_space :: cls where
  "py_space x \<longleftrightarrow>
     ascii_cls (\<lambda>c. c = CHR '' '' \<or> CHR 0x09 \<le> c \<and> c \<le> CHR 0x0D \<or> CHR 0x1C \<le> c \<and> c \<le> CHR 0x1F) x
   \<or> x \<in> set unicode_spaces"

text \<open>\<open>\w\<close>: alphanumeric or underscore.\<close>

definition py_alnum :: "pyenv \<Rightarrow> cls" where
  "py_alnum env x \<longleftrightarrow> (case x of [c] \<Rightarrow> is_alnum c | _ \<Rightarrow> uni_alnum env x)"

definition word_chunk :: "pyenv \<Rightarrow> cls" where
  "word_chunk env x \<longleftrightarrow> x = ''_'' \<or> py_alnum env x"

definition at_boundary :: "pyenv \<Rightarrow> str option \<Rightarrow> str list \<Rightarrow> bool" where
  "at_boundary env p s \<longleftrightarrow>
     (case p of None \<Rightarrow> False | Some x \<Rightarrow> word_chunk env x)
     \<noteq> (case s of [] \<Rightarrow> False | x # _ \<Rightarrow> word_chunk env x)"

text \<open>\<open>str.strip()\<close>, and the validity of UTF-8 that \<open>bytes.decode()\<close> checks.\<close>

definition py_strip :: "str \<Rightarrow> str" where
  "py_strip s = concat (rev (dropWhile py_space (rev (dropWhile py_space (chunks s)))))"

definition utf8_chunk :: "str \<Rightarrow> bool" where
  "utf8_chunk x =
     (case map of_char x :: nat list of
        [a] \<Rightarrow> a < 0x80
      | [a, b] \<Rightarrow> 0xC2 \<le> a \<and> a \<le> 0xDF
      | [a, b, c] \<Rightarrow> 0xE0 \<le> a \<and> a \<le> 0xEF \<and> (a = 0xE0 \<longrightarrow> 0xA0 \<le> b) \<and> (a = 0xED \<longrightarrow> b \<le> 0x9F)
      | [a, b, c, d] \<Rightarrow> 0xF0 \<le> a \<and> a \<le> 0xF4 \<and> (a = 0xF0 \<longrightarrow> 0x90 \<le> b) \<and> (a = 0xF4 \<longrightarrow> b \<le> 0x8F)
      | _ \<Rightarrow> False)"

definition utf8_valid :: "str \<Rightarrow> bool" where
  "utf8_valid s \<longleftrightarrow> list_all utf8_chunk (chunks s)"

section \<open>Matching\<close>

text \<open>A position: the character before it, if any, and the characters after it.\<close>

type_synonym pos = "str option \<times> str list"

text \<open>The character before the position reached by consuming \<open>k\<close> characters.\<close>

definition before :: "nat \<Rightarrow> str option \<Rightarrow> str list \<Rightarrow> str option" where
  "before k p s = (if k = 0 then p else Some (s ! (k - 1)))"

definition all_match :: "cls list \<Rightarrow> str list \<Rightarrow> bool" where
  "all_match cs s \<longleftrightarrow> length cs \<le> length s \<and> list_all (\<lambda>(c, x). c x) (zip cs s)"

fun rx_ends :: "pyenv \<Rightarrow> atom list \<Rightarrow> str option \<Rightarrow> str list \<Rightarrow> pos list" where
  "rx_ends env [] p s = [(p, s)]"
| "rx_ends env (One c # r) p s =
     (case s of [] \<Rightarrow> [] | x # xs \<Rightarrow> if c x then rx_ends env r (Some x) xs else [])"
| "rx_ends env (Opt c # r) p s =
     (case s of [] \<Rightarrow> [] | x # xs \<Rightarrow> if c x then rx_ends env r (Some x) xs else []) @ rx_ends env r p s"
| "rx_ends env (Rep n c # r) p s =
     concat (map (\<lambda>k. rx_ends env r (before k p s) (drop k s))
       (rev [n..<Suc (length (takeWhile c s))]))"
| "rx_ends env (OneOf alts # r) p s =
     concat (map (\<lambda>alt. if all_match alt s
                        then rx_ends env r (before (length alt) p s) (drop (length alt) s) else [])
       alts)"
| "rx_ends env (Bnd # r) p s = (if at_boundary env p s then rx_ends env r p s else [])"

definition match_at :: "pyenv \<Rightarrow> rx \<Rightarrow> str option \<Rightarrow> str list \<Rightarrow> pos list" where
  "match_at env pat p s = concat (map (\<lambda>alt. rx_ends env alt p s) pat)"

fun search_from :: "pyenv \<Rightarrow> rx \<Rightarrow> str option \<Rightarrow> str list \<Rightarrow> bool" where
  "search_from env pat p [] \<longleftrightarrow> match_at env pat p [] \<noteq> []"
| "search_from env pat p (x # xs) \<longleftrightarrow> match_at env pat p (x # xs) \<noteq> [] \<or> search_from env pat (Some x) xs"

definition rx_search :: "pyenv \<Rightarrow> rx \<Rightarrow> str \<Rightarrow> bool" where
  "rx_search env pat s = search_from env pat None (chunks s)"

text \<open>
  \<open>sub\<close> continues after the match; every pattern of the plugin consumes a character
  (\<open>rx_consumes\<close> below), so the guard against an empty match is never used.
\<close>

function sub_from :: "pyenv \<Rightarrow> rx \<Rightarrow> str \<Rightarrow> str option \<Rightarrow> str list \<Rightarrow> str" where
  "sub_from env pat rep p s =
     (case s of [] \<Rightarrow> []
      | x # xs \<Rightarrow>
          (case match_at env pat p s of
             [] \<Rightarrow> x @ sub_from env pat rep (Some x) xs
           | (p', s') # _ \<Rightarrow>
               if length s' < length s then rep @ sub_from env pat rep p' s'
               else x @ sub_from env pat rep (Some x) xs))"
  by pat_completeness auto
termination
  by (relation "measure (\<lambda>(env, pat, rep, p, s). length s)") auto

declare sub_from.simps [simp del]

definition rx_sub :: "pyenv \<Rightarrow> rx \<Rightarrow> str \<Rightarrow> str \<Rightarrow> str" where
  "rx_sub env pat rep s = sub_from env pat rep None (chunks s)"

section \<open>Every match of a consuming pattern is a proper suffix\<close>

fun atom_min :: "atom \<Rightarrow> nat" where
  "atom_min (One c) = 1"
| "atom_min (Opt c) = 0"
| "atom_min (Rep n c) = n"
| "atom_min (OneOf alts) = (if alts = [] then 0 else Min (set (map length alts)))"
| "atom_min Bnd = 0"

definition rx_consumes :: "rx \<Rightarrow> bool" where
  "rx_consumes pat \<longleftrightarrow> list_all (\<lambda>alt. 0 < sum_list (map atom_min alt)) pat"

lemma rx_ends_suffix:
  "(p', s') \<in> set (rx_ends env r p s) \<Longrightarrow>
   \<exists>k. k \<le> length s \<and> sum_list (map atom_min r) \<le> k \<and> s' = drop k s"
proof (induction env r p s arbitrary: p' s' rule: rx_ends.induct)
  case (2 env c r p s)
  then obtain x xs where s: "s = x # xs" and "(p', s') \<in> set (rx_ends env r (Some x) xs)"
    by (auto split: list.splits if_splits)
  with 2(1) [of x xs p' s'] 2(2) obtain k
    where "k \<le> length xs" "sum_list (map atom_min r) \<le> k" "s' = drop k xs"
    by (auto split: if_splits)
  with s show ?case by (intro exI [of _ "Suc k"]) simp
next
  case (3 env c r p s)
  then consider x xs where "s = x # xs" "c x" "(p', s') \<in> set (rx_ends env r (Some x) xs)"
    | "(p', s') \<in> set (rx_ends env r p s)"
    by (auto split: list.splits if_splits)
  then show ?case
  proof cases
    case 1
    with 3(1) [of x xs p' s'] obtain k
      where "k \<le> length xs" "sum_list (map atom_min r) \<le> k" "s' = drop k xs" by auto
    with 1 show ?thesis by (intro exI [of _ "Suc k"]) simp
  qed (use 3(2) in auto)
next
  case (4 env n c r p s)
  then obtain j where j: "n \<le> j" "j \<le> length (takeWhile c s)"
    and "(p', s') \<in> set (rx_ends env r (before j p s) (drop j s))"
    by (auto simp del: upt_Suc)
  moreover from j have "j \<in> set (rev [n..<Suc (length (takeWhile c s))])" by auto
  ultimately obtain k where "k \<le> length (drop j s)" "sum_list (map atom_min r) \<le> k" "s' = drop k (drop j s)"
    using 4(1) by blast
  moreover have "j \<le> length s" using j(2) length_takeWhile_le [of c s] by linarith
  ultimately show ?case using j by (intro exI [of _ "k + j"]) (auto simp: add.commute)
next
  case (5 env alts r p s)
  then obtain alt where alt: "alt \<in> set alts" "all_match alt s"
    and "(p', s') \<in> set (rx_ends env r (before (length alt) p s) (drop (length alt) s))"
    by (auto split: if_splits)
  then obtain k where "k \<le> length (drop (length alt) s)" "sum_list (map atom_min r) \<le> k"
    "s' = drop k (drop (length alt) s)"
    using 5(1) by blast
  moreover have "atom_min (OneOf alts) \<le> length alt" using alt(1) Min_le [of "length ` set alts" "length alt"] by auto
  moreover have "length alt \<le> length s" using alt(2) by (simp add: all_match_def)
  ultimately have "k + length alt \<le> length s" "s' = drop (k + length alt) s"
    "sum_list (map atom_min (OneOf alts # r)) \<le> k + length alt"
    by (auto simp del: atom_min.simps simp: add.commute)
  then show ?case by blast
qed (auto split: if_splits)

lemma match_at_suffix:
  assumes "(p', s') \<in> set (match_at env pat p s)"
  shows "\<exists>k. k \<le> length s \<and> s' = drop k s \<and> (rx_consumes pat \<longrightarrow> 0 < k)"
  using assms by (fastforce simp: match_at_def rx_consumes_def list_all_iff dest: rx_ends_suffix)

section \<open>Substitution does not create text\<close>

text \<open>
  Substituting a literal for the matches of a pattern cannot make a marker appear when the marker
  does not occur in the text and shares no character with the ends of the replacement: an occurrence
  in the result would lie inside a part of the text that was kept, or inside the replacement.
\<close>

definition fenced :: "str \<Rightarrow> str \<Rightarrow> bool" where
  "fenced m rep \<longleftrightarrow> m \<noteq> [] \<and> rep \<noteq> [] \<and> hd rep \<notin> set m \<and> last rep \<notin> set m \<and> \<not> occurs_in m rep"

lemma occurs_in_append_cases:
  assumes "occurs_in m (u @ v)"
  shows "occurs_in m u \<or> occurs_in m v \<or>
    (\<exists>a b. m = a @ b \<and> a \<noteq> [] \<and> b \<noteq> [] \<and> (\<exists>u'. u = u' @ a) \<and> (\<exists>v'. v = b @ v'))"
proof -
  from assms obtain x y where "u @ v = x @ m @ y" by (auto simp: occurs_in_def)
  then consider z where "u = x @ z" "z @ v = m @ y" | z where "u @ z = x" "v = z @ m @ y"
    by (auto simp: append_eq_append_conv2)
  then show ?thesis
  proof cases
    case 1
    then consider w where "z = m @ w" | w where "z @ w = m" "v = w @ y"
      by (auto simp: append_eq_append_conv2)
    then show ?thesis
    proof cases
      case 1
      with \<open>u = x @ z\<close> show ?thesis by (auto simp: occurs_in_def)
    next
      case 2
      show ?thesis
      proof (cases "z = [] \<or> w = []")
        case True
        with 2 \<open>u = x @ z\<close> have "occurs_in m v \<or> occurs_in m u"
          unfolding occurs_in_def by (metis append_Nil append_Nil2)
        then show ?thesis by blast
      next
        case False
        with 2 \<open>u = x @ z\<close> show ?thesis by blast
      qed
    qed
  next
    case 2
    then show ?thesis by (auto simp: occurs_in_def)
  qed
qed

lemma occurs_in_fence:
  assumes "fenced m rep" and "\<not> occurs_in m u" and "\<not> occurs_in m v"
  shows "\<not> occurs_in m (u @ rep @ v)"
proof
  assume occ: "occurs_in m (u @ rep @ v)"
  from assms(1) have "rep \<noteq> []" and h: "hd rep \<notin> set m" and l: "last rep \<notin> set m" and "\<not> occurs_in m rep"
    by (simp_all add: fenced_def)
  have "\<not> occurs_in m (rep @ v)"
  proof
    assume "occurs_in m (rep @ v)"
    with \<open>\<not> occurs_in m rep\<close> assms(3) obtain a b r
      where "m = a @ b" "a \<noteq> []" "rep = r @ a" by (metis occurs_in_append_cases)
    with l show False by (simp add: last_append)
  qed
  with occ assms(2) obtain a b v' where "m = a @ b" "b \<noteq> []" "rep @ v = b @ v'"
    by (metis occurs_in_append_cases)
  with h \<open>rep \<noteq> []\<close> show False by (cases rep; cases b) auto
qed

lemma occurs_in_cut: "\<not> occurs_in m (u @ v) \<Longrightarrow> \<not> occurs_in m u \<and> \<not> occurs_in m v"
  unfolding occurs_in_def by (metis append.assoc)

lemma sub_from_keeps_absent:
  assumes "fenced m rep"
  shows "\<not> occurs_in m (u @ concat s) \<Longrightarrow> \<not> occurs_in m (u @ sub_from env pat rep p s)"
proof (induction "length s" arbitrary: u p s rule: less_induct)
  case less
  show ?case
  proof (cases s)
    case Nil
    with less.prems show ?thesis by (subst sub_from.simps) simp
  next
    case (Cons x xs)
    from less.prems Cons have keep: "\<not> occurs_in m (u @ x @ sub_from env pat rep (Some x) xs)"
      using less.hyps [of xs "u @ x" "Some x"] by simp
    show ?thesis
    proof (cases "\<exists>p' s' ms. match_at env pat p s = (p', s') # ms \<and> length s' < length s")
      case True
      then obtain p' s' ms where m: "match_at env pat p s = (p', s') # ms" "length s' < length s" by blast
      then obtain k where "s' = drop k s" using match_at_suffix [of p' s' env pat p s] by auto
      then have "concat s = concat (take k s) @ concat s'" by (metis append_take_drop_id concat_append)
      with less.prems have "\<not> occurs_in m u" "\<not> occurs_in m (concat s')"
        by (metis append.assoc occurs_in_cut)+
      with less.hyps [of s' "[]" p'] m have "\<not> occurs_in m (sub_from env pat rep p' s')" by simp
      with assms \<open>\<not> occurs_in m u\<close> have "\<not> occurs_in m (u @ rep @ sub_from env pat rep p' s')"
        by (intro occurs_in_fence)
      with m Cons show ?thesis by (subst sub_from.simps) simp
    next
      case False
      with Cons keep show ?thesis
        by (subst sub_from.simps) (auto split: list.splits prod.splits)
    qed
  qed
qed

lemma rx_sub_keeps_absent:
  "fenced m rep \<Longrightarrow> \<not> occurs_in m s \<Longrightarrow> \<not> occurs_in m (rx_sub env pat rep s)"
  using sub_from_keeps_absent [of m rep "[]" "chunks s"] by (simp add: rx_sub_def)

lemma occurs_in_starts: "starts_with m s \<Longrightarrow> occurs_in m s"
  by (auto simp: occurs_in_code [of m s])

text \<open>Replacing a marker leaves no occurrence of it.\<close>

lemma py_replace_removes:
  assumes "fenced m rep"
  shows "\<not> occurs_in m (py_replace m rep s)"
proof -
  have "\<not> occurs_in m (u @ py_replace m rep s)"
    if "\<And>v. starts_with v s \<Longrightarrow> occurs_in m (u @ v) \<Longrightarrow> occurs_in m v" and "\<not> occurs_in m u" for u
    using that
  proof (induction "length s" arbitrary: u s rule: less_induct)
    case less
    show ?case
    proof (cases s)
      case Nil
      with less.prems show ?thesis by simp
    next
      case (Cons c cs)
      show ?thesis
      proof (cases "starts_with m s")
        case True
        from assms have "m \<noteq> []" by (simp add: fenced_def)
        with Cons have "length (drop (length m) s) < length s" by (cases m) auto
        then have "\<not> occurs_in m ([] @ py_replace m rep (drop (length m) s))"
          using less.hyps [of "drop (length m) s" "[]"] \<open>m \<noteq> []\<close> by (auto simp: occurs_in_def)
        with assms less.prems(2) have "\<not> occurs_in m (u @ rep @ py_replace m rep (drop (length m) s))"
          by (intro occurs_in_fence) simp_all
        with True Cons \<open>m \<noteq> []\<close> show ?thesis by (simp add: py_replace_Cons)
      next
        case False
        have "\<not> occurs_in m ((u @ [c]) @ py_replace m rep cs)"
        proof (rule less.hyps)
          show "length cs < length s" using Cons by simp
          show "\<not> occurs_in m (u @ [c])"
          proof
            assume "occurs_in m (u @ [c])"
            with less.prems(1) [of "[c]"] Cons have "occurs_in m [c]" by simp
            with False Cons assms show False
              by (auto simp: occurs_in_def fenced_def Cons_eq_append_conv append_eq_Cons_conv)
          qed
          fix v assume v: "starts_with v cs" "occurs_in m ((u @ [c]) @ v)"
          with less.prems(1) [of "c # v"] Cons have "occurs_in m (c # v)" by simp
          moreover have "\<not> starts_with m (c # v)"
            using False v(1) Cons unfolding starts_with_iff by (metis append.assoc append_Cons)
          ultimately show "occurs_in m v" by (simp add: occurs_in_code [of m "c # v"])
        qed
        with False Cons show ?thesis by (simp add: py_replace_Cons)
      qed
    qed
  qed
  from this [of "[]"] assms show ?thesis by (auto simp: occurs_in_def fenced_def)
qed

lemma py_replace_keeps_absent:
  assumes "fenced m rep"
  shows "\<not> occurs_in m (u @ s) \<Longrightarrow> \<not> occurs_in m (u @ py_replace pat rep s)"
proof (induction "length s" arbitrary: u s rule: less_induct)
  case less
  show ?case
  proof (cases s)
    case Nil
    with less.prems show ?thesis by simp
  next
    case (Cons c cs)
    show ?thesis
    proof (cases "pat \<noteq> [] \<and> starts_with pat s")
      case True
      let ?t = "drop (length pat) s"
      from True Cons have "length ?t < length s" by (cases pat) auto
      moreover from less.prems have "\<not> occurs_in m u" "\<not> occurs_in m ?t"
        by (metis append.assoc append_take_drop_id occurs_in_cut)+
      ultimately have "\<not> occurs_in m (py_replace pat rep ?t)" using less.hyps [of ?t "[]"] by simp
      with assms \<open>\<not> occurs_in m u\<close> have "\<not> occurs_in m (u @ rep @ py_replace pat rep ?t)"
        by (intro occurs_in_fence)
      with True Cons show ?thesis by (simp add: py_replace_Cons)
    next
      case False
      have "\<not> occurs_in m ((u @ [c]) @ py_replace pat rep cs)"
        using less.hyps [of cs "u @ [c]"] less.prems Cons by simp
      with False Cons show ?thesis by (auto simp: py_replace_Cons)
    qed
  qed
qed

end
