(* ===== verification/Security.thy ===== *)
theory Security
  imports Regex
begin

unbundle bit_operations_syntax

text \<open>
  Redaction, output safety, file and endpoint admission (\<open>security.py\<close>).

  The operating system is a parameter: \<open>os_env\<close> holds the results of \<open>lstat\<close>, \<open>stat\<close>,
  reading a file, the effective user and \<open>getaddrinfo\<close> at the time of the call, and the library
  functions \<open>urlsplit\<close> and \<open>ipaddress.ip_address\<close>. The construction of TLS contexts is not
  modelled beyond the check of their arguments.

  The lemmas show that a configured secret does not survive redaction when it shares no bracket
  with the replacement, that accepted output matches no forbidden pattern and is bounded, and that
  an outbound endpoint is accepted only inside its static address allowlist.
\<close>

section \<open>Patterns\<close>

definition token_ci :: cls where
  "token_ci x \<longleftrightarrow>
     ascii_cls (\<lambda>c. is_alnum c \<or> c \<in> set ''._~+/-'') x
   \<or> x \<in> set (fold_extra CHR ''i'' @ fold_extra CHR ''s'' @ fold_extra CHR ''k'')"

definition exactly :: "str \<Rightarrow> cls list" where
  "exactly s = map (\<lambda>c x. x = [c]) s"

definition SECRET_PATTERNS :: "rx list" where
  "SECRET_PATTERNS =
     [[lit_ci ''authorization'' @ [Rep 0 py_space, One (char_in '':=''), Rep 0 py_space,
         Rep 1 (\<lambda>x. \<not> py_space x \<and> \<not> char_in '',;'' x)]],
      [lit_ci ''bearer'' @ [Rep 1 py_space, Rep 8 token_ci]],
      [[Bnd, OneOf [exactly ''sk'', exactly ''pk'', exactly ''api''], One (char_in ''-_''),
         Rep 8 (ascii_cls (\<lambda>c. is_alnum c \<or> c \<in> set ''_-'')), Bnd]],
      [lit ''-----BEGIN '' @ [Rep 0 (ascii_cls (\<lambda>c. is_upper c \<or> c = CHR '' ''))]
         @ lit ''PRIVATE KEY-----'']]"

definition FORBIDDEN_OUTPUT :: "rx list" where
  "FORBIDDEN_OUTPUT =
     [[[Bnd] @ lit_ci ''P4Runtime'' @ [Bnd]],
      [[Bnd] @ lit_ci ''TableEntry'' @ [Bnd]],
      [[Bnd] @ lit_ci ''effect'' @ [Opt (char_in ''_ -'')] @ lit_ci ''intent'' @ [Bnd]],
      [[Bnd] @ lit_ci ''approval'' @ [Opt (char_in ''_ -'')] @ lit_ci ''token'' @ [Bnd]],
      [[Bnd, OneOf [word_ci ''deploy'', word_ci ''approve'', word_ci ''rollback'', word_ci ''execute''],
         Rep 0 py_space, OneOf [word_ci ''now'', word_ci ''automatically''], Bnd]],
      [[One (char_in ''<''), Rep 0 py_space,
         OneOf [word_ci ''script'', word_ci ''iframe'', word_ci ''object'', word_ci ''svg''], Bnd]],
      [lit_ci ''javascript'' @ [Rep 0 py_space, One (char_in '':'')]],
      [lit ''http'' @ [Opt (char_in ''s'')] @ lit ''://'']]"

section \<open>Redaction\<close>

definition REDACTED :: str where "REDACTED = ''[REDACTED]''"

definition redact_text :: "pyenv \<Rightarrow> str \<Rightarrow> str list \<Rightarrow> str" where
  "redact_text env value secret_values =
     fold (\<lambda>pattern clean. rx_sub env pattern REDACTED clean) SECRET_PATTERNS
       (fold (\<lambda>marker clean. if marker \<noteq> [] then py_replace marker REDACTED clean else clean)
          secret_values value)"

definition require_safe_output :: "pyenv \<Rightarrow> str \<Rightarrow> str list \<Rightarrow> exn + str" where
  "require_safe_output env value secret_values =
     (let clean = redact_text env value secret_values in
      if list_ex (\<lambda>pattern. rx_search env pattern clean) FORBIDDEN_OUTPUT
      then Inl (UnsafeOutput ''unsafe provider output rejected'')
      else if length clean > 4096 then Inl (UnsafeOutput ''provider text exceeds the per-field bound'')
      else Inr clean)"

section \<open>Files\<close>

record file_stat =
  st_mode :: int
  st_size :: int
  st_uid :: int

record url_parts =
  url_scheme :: str
  url_username :: "str option"
  url_password :: "str option"
  url_hostname :: "str option"
  url_port :: "int option"
  url_path :: str
  url_query :: str
  url_fragment :: str

record os_env =
  os_lstat :: "str \<Rightarrow> file_stat option"
  os_stat :: "str \<Rightarrow> file_stat option"
  os_read :: "str \<Rightarrow> str"
  os_euid :: int
  os_getaddrinfo :: "str \<Rightarrow> int \<Rightarrow> str list option"
  os_urlsplit :: "str \<Rightarrow> url_parts"
  os_ip_str :: "str \<Rightarrow> str option"
  os_loopback :: "str \<Rightarrow> bool"

definition S_IFMT :: "int \<Rightarrow> int" where "S_IFMT m = m AND 0xF000"
definition S_ISLNK :: "int \<Rightarrow> bool" where "S_ISLNK m \<longleftrightarrow> S_IFMT m = 0xA000"
definition S_ISREG :: "int \<Rightarrow> bool" where "S_ISREG m \<longleftrightarrow> S_IFMT m = 0x8000"
definition S_ISDIR :: "int \<Rightarrow> bool" where "S_ISDIR m \<longleftrightarrow> S_IFMT m = 0x4000"

definition read_bounded_regular_file :: "os_env \<Rightarrow> str \<Rightarrow> int \<Rightarrow> bool \<Rightarrow> exn + str" where
  "read_bounded_regular_file os path max_bytes secret =
     (case os_lstat os path of
        None \<Rightarrow> Inl (AnalysisError ''FILE_UNAVAILABLE'' ''required runtime file unavailable'' 503)
      | Some info \<Rightarrow>
          if S_ISLNK (st_mode info) \<or> \<not> S_ISREG (st_mode info) \<or> st_size info > max_bytes
          then Inl (AnalysisError ''FILE_REJECTED'' ''runtime file must be bounded, regular, and no-symlink'' 503)
          else if st_mode info AND 0x2 \<noteq> 0
          then Inl (AnalysisError ''FILE_REJECTED'' ''world-writable runtime file rejected'' 503)
          else if secret \<and> st_mode info AND 0x24 \<noteq> 0
          then Inl (AnalysisError ''SECRET_MODE_REJECTED'' ''secret file permissions are too broad'' 503)
          else Inr (os_read os path))"

text \<open>
  \<open>Path.is_absolute\<close> and \<open>Path.parent\<close> of a POSIX path: empty and \<open>.\<close> components are dropped
  when the path is parsed.
\<close>

fun split_slash :: "str \<Rightarrow> str list" where
  "split_slash [] = [[]]"
| "split_slash (c # s) =
     (if c = CHR ''/'' then [] # split_slash s
      else case split_slash s of [] \<Rightarrow> [[c]] | p # ps \<Rightarrow> (c # p) # ps)"

definition path_parts :: "str \<Rightarrow> str list" where
  "path_parts path = filter (\<lambda>p. p \<noteq> [] \<and> p \<noteq> ''.'') (split_slash path)"

definition path_root :: "str \<Rightarrow> str" where
  "path_root path =
     (if starts_with ''//'' path \<and> \<not> starts_with ''///'' path then ''//''
      else if starts_with ''/'' path then ''/'' else '''')"

definition path_is_absolute :: "str \<Rightarrow> bool" where
  "path_is_absolute path \<longleftrightarrow> starts_with ''/'' path"

definition path_text :: "str \<Rightarrow> str list \<Rightarrow> str" where
  "path_text anchor parts = (if anchor = [] \<and> parts = [] then ''.'' else anchor @ join ''/'' parts)"

definition path_parent :: "str \<Rightarrow> str" where
  "path_parent path = path_text (path_root path) (butlast (path_parts path))"

definition private_to :: "os_env \<Rightarrow> file_stat \<Rightarrow> bool" where
  "private_to os info \<longleftrightarrow> \<not> (st_uid info \<noteq> os_euid os \<or> st_mode info AND 0x3F \<noteq> 0)"

text \<open>\<open>exists\<close>, \<open>is_dir\<close> and \<open>is_file\<close> follow links; \<open>is_symlink\<close> does not.\<close>

definition is_symlink :: "os_env \<Rightarrow> str \<Rightarrow> bool" where
  "is_symlink os path \<longleftrightarrow> (case os_lstat os path of None \<Rightarrow> False | Some i \<Rightarrow> S_ISLNK (st_mode i))"

definition validate_storage_path :: "os_env \<Rightarrow> str \<Rightarrow> bool \<Rightarrow> exn + str" where
  "validate_storage_path os path production =
     (let parent = path_parent path in
      rbind (raise_if (production \<and> \<not> path_is_absolute path)
        (AnalysisError ''STORE_PATH_REJECTED'' ''production store path must be absolute'' 503)) (\<lambda>_.
      case os_stat os parent of
        None \<Rightarrow> Inl (AnalysisError ''STORE_PATH_REJECTED''
                 ''store parent must be an existing ordinary directory'' 503)
      | Some parent_info \<Rightarrow>
      rbind (raise_if (is_symlink os parent \<or> \<not> S_ISDIR (st_mode parent_info))
        (AnalysisError ''STORE_PATH_REJECTED''
           ''store parent must be an existing ordinary directory'' 503)) (\<lambda>_.
      rbind (raise_if (production \<and> \<not> private_to os parent_info)
        (AnalysisError ''STORE_PATH_REJECTED''
           ''production store parent must be private and owned by the runtime identity'' 503)) (\<lambda>_.
      case os_stat os path of
        None \<Rightarrow> Inr path
      | Some info \<Rightarrow>
      rbind (raise_if (is_symlink os path \<or> \<not> S_ISREG (st_mode info))
        (AnalysisError ''STORE_PATH_REJECTED'' ''store must be a regular no-symlink file'' 503)) (\<lambda>_.
      rbind (raise_if (\<not> private_to os info)
        (AnalysisError ''STORE_PATH_REJECTED''
           ''store file must be private and owned by the runtime identity'' 503)) (\<lambda>_.
      Inr path))))))"

section \<open>Endpoints\<close>

text \<open>\<open>str(ipaddress.ip_address(item))\<close>, which raises \<open>ValueError\<close> on text that is no address.\<close>

definition ip_str :: "os_env \<Rightarrow> str \<Rightarrow> exn + str" where
  "ip_str os item = (case os_ip_str os item of None \<Rightarrow> Inl ValueError | Some a \<Rightarrow> Inr a)"

definition nonempty_opt :: "str option \<Rightarrow> bool" where
  "nonempty_opt s \<longleftrightarrow> (case s of None \<Rightarrow> False | Some t \<Rightarrow> t \<noteq> [])"

definition endpoint_port :: "url_parts \<Rightarrow> int" where
  "endpoint_port parsed =
     (case url_port parsed of
        Some p \<Rightarrow> if p \<noteq> 0 then p else if url_scheme parsed = ''https'' then 443 else 80
      | None \<Rightarrow> if url_scheme parsed = ''https'' then 443 else 80)"

definition validate_outbound_url :: "os_env \<Rightarrow> str \<Rightarrow> str list \<Rightarrow> bool \<Rightarrow> exn + str \<times> int" where
  "validate_outbound_url os url allowed_ips production =
     (let parsed = os_urlsplit os url in
      rbind (raise_if (nonempty_opt (url_username parsed) \<or> nonempty_opt (url_password parsed)
          \<or> url_query parsed \<noteq> [] \<or> url_fragment parsed \<noteq> [] \<or> url_path parsed \<notin> set [[], ''/''])
        (AnalysisError ''ENDPOINT_REJECTED'' ''outbound endpoint contains forbidden components'' 503)) (\<lambda>_.
      rbind (raise_if (url_scheme parsed \<notin> set (if production then [''https''] else [''http'', ''https''])
          \<or> \<not> nonempty_opt (url_hostname parsed))
        (AnalysisError ''ENDPOINT_REJECTED'' ''outbound endpoint scheme or host rejected'' 503)) (\<lambda>_.
      let port = endpoint_port parsed; host = the (url_hostname parsed) in
      rbind (mapM (ip_str os) allowed_ips) (\<lambda>allowed.
      case os_getaddrinfo os host port of
        None \<Rightarrow> Inl (AnalysisErrorR ''ENDPOINT_DNS_FAILED'' ''outbound endpoint resolution failed'' 503 True)
      | Some items \<Rightarrow>
      rbind (mapM (ip_str os) items) (\<lambda>resolved.
      rbind (raise_if (resolved = [] \<or> \<not> set resolved \<subseteq> set allowed)
        (AnalysisError ''ENDPOINT_IP_REJECTED''
           ''outbound endpoint resolved outside the static allowlist'' 503)) (\<lambda>_.
      rbind (raise_if (production \<and> list_ex (os_loopback os) resolved)
        (AnalysisError ''ENDPOINT_IP_REJECTED''
           ''production outbound endpoint must not be loopback'' 503)) (\<lambda>_.
      Inr (host, port))))))))"

text \<open>The check of \<open>client_ssl_context\<close>: no file at all means no context, otherwise all three are required.\<close>

definition client_ssl_context :: "str option \<Rightarrow> str option \<Rightarrow> str option \<Rightarrow> exn + bool" where
  "client_ssl_context ca_file cert_file key_file =
     (if ca_file = None \<and> cert_file = None \<and> key_file = None then Inr False
      else if \<not> nonempty_opt ca_file \<or> \<not> nonempty_opt cert_file \<or> \<not> nonempty_opt key_file
      then Inl (AnalysisError ''TLS_CONFIG_REJECTED'' ''outbound TLS requires CA, certificate, and key'' 503)
      else Inr True)"

text \<open>The subject alternative names of the peer certificate; no TLS object or no certificate gives none.\<close>

definition peer_sans :: "(str \<times> str) list option \<Rightarrow> str list" where
  "peer_sans cert_sans =
     (case cert_sans of None \<Rightarrow> []
      | Some sans \<Rightarrow> remdups (map snd (filter (\<lambda>(kind, value). kind \<in> set [''DNS'', ''URI'']) sans)))"

section \<open>Redaction removes configured secrets\<close>

text \<open>A secret that contains no bracket and is no part of the replacement text.\<close>

definition plain_secret :: "str \<Rightarrow> bool" where
  "plain_secret m \<longleftrightarrow> m \<noteq> [] \<and> CHR ''['' \<notin> set m \<and> CHR '']'' \<notin> set m \<and> \<not> occurs_in m REDACTED"

lemma fenced_plain_secret: "plain_secret m \<Longrightarrow> fenced m REDACTED"
  by (simp add: plain_secret_def fenced_def REDACTED_def)

lemma fold_keeps_absent:
  assumes "\<And>x v. x \<in> set xs \<Longrightarrow> \<not> occurs_in m v \<Longrightarrow> \<not> occurs_in m (f x v)" and "\<not> occurs_in m v"
  shows "\<not> occurs_in m (fold f xs v)"
  using assms by (induction xs arbitrary: v) auto

definition mask_marker :: "str \<Rightarrow> str \<Rightarrow> str" where
  "mask_marker marker clean = (if marker \<noteq> [] then py_replace marker REDACTED clean else clean)"

lemma mask_markers_remove:
  assumes "plain_secret m" and "m \<in> set secrets"
  shows "\<not> occurs_in m (fold mask_marker secrets v)"
  using assms(2)
proof (induction secrets arbitrary: v)
  case (Cons x xs)
  show ?case
  proof (cases "m \<in> set xs")
    case True
    with Cons.IH show ?thesis by simp
  next
    case False
    with Cons.prems have "x = m" by simp
    with assms(1) have "\<not> occurs_in m (mask_marker x v)"
      by (simp add: mask_marker_def plain_secret_def py_replace_removes fenced_plain_secret assms(1))
    then have "\<not> occurs_in m (fold mask_marker xs (mask_marker x v))"
      by (rule fold_keeps_absent [rotated])
        (use py_replace_keeps_absent [OF fenced_plain_secret [OF assms(1)], of "[]"] in
          \<open>auto simp: mask_marker_def\<close>)
    then show ?thesis by simp
  qed
qed simp

lemma redact_text_mask:
  "redact_text env value secrets =
     fold (\<lambda>pattern clean. rx_sub env pattern REDACTED clean) SECRET_PATTERNS (fold mask_marker secrets value)"
  by (simp add: redact_text_def mask_marker_def [abs_def])

lemma redact_removes:
  assumes "plain_secret m" and "m \<in> set secrets"
  shows "\<not> occurs_in m (redact_text env value secrets)"
  unfolding redact_text_mask
proof (rule fold_keeps_absent)
  show "\<not> occurs_in m (fold mask_marker secrets value)" using assms by (rule mask_markers_remove)
qed (rule rx_sub_keeps_absent [OF fenced_plain_secret [OF assms(1)]])



text \<open>The texts the shipped tests use, evaluated.\<close>

lemma require_safe_output_examples:
  "require_safe_output zero_env ''token secret-value seen'' [''secret-value''] = Inr ''token [REDACTED] seen''"
  "\<not> is_ok (require_safe_output zero_env ''please Deploy  NOW'' [])"
  "\<not> is_ok (require_safe_output zero_env ''see http://x'' [])"
  "redact_text zero_env ''key sk-abcdefgh1 end'' [] = ''key [REDACTED] end''"
  "redact_text zero_env ''use bearer abcdefghij'' [] = ''use [REDACTED]''"
  by code_simp+


section \<open>Admission of endpoints and files\<close>

lemma mapM_ip_str_set:
  "mapM (ip_str os) xs = Inr ys \<Longrightarrow> set ys = {a. \<exists>x \<in> set xs. os_ip_str os x = Some a}"
  by (induction xs arbitrary: ys) (auto simp: res_simps ip_str_def split: option.splits)

text \<open>
  An outbound endpoint is admitted only if every address its host resolves to is one of the
  statically allowed addresses, with at least one address; the URL carries no credentials, query,
  fragment or path; and in production the scheme is \<open>https\<close> and no resolved address is a loopback
  address.
\<close>

theorem outbound_endpoint_pinned:
  assumes "validate_outbound_url os url allowed_ips production = Inr (host, port)"
  shows "\<exists>items. os_getaddrinfo os host port = Some items \<and> items \<noteq> []
     \<and> (\<forall>i \<in> set items. \<exists>a. os_ip_str os i = Some a
          \<and> (\<exists>b \<in> set allowed_ips. os_ip_str os b = Some a)
          \<and> (production \<longrightarrow> \<not> os_loopback os a))
     \<and> (production \<longrightarrow> url_scheme (os_urlsplit os url) = ''https'')
     \<and> url_hostname (os_urlsplit os url) = Some host
     \<and> \<not> nonempty_opt (url_username (os_urlsplit os url))
     \<and> \<not> nonempty_opt (url_password (os_urlsplit os url))
     \<and> url_query (os_urlsplit os url) = [] \<and> url_fragment (os_urlsplit os url) = []"
proof -
  from assms obtain allowed items resolved where
    hp: "host = the (url_hostname (os_urlsplit os url))" "port = endpoint_port (os_urlsplit os url)"
    and al: "mapM (ip_str os) allowed_ips = Inr allowed"
    and it: "os_getaddrinfo os host port = Some items"
    and re: "mapM (ip_str os) items = Inr resolved"
    and ok: "resolved \<noteq> []" "set resolved \<subseteq> set allowed" "production \<longrightarrow> \<not> list_ex (os_loopback os) resolved"
    and url: "\<not> nonempty_opt (url_username (os_urlsplit os url))"
      "\<not> nonempty_opt (url_password (os_urlsplit os url))"
      "url_query (os_urlsplit os url) = []" "url_fragment (os_urlsplit os url) = []"
      "production \<longrightarrow> url_scheme (os_urlsplit os url) = ''https''"
      "nonempty_opt (url_hostname (os_urlsplit os url))"
    by (auto simp: validate_outbound_url_def Let_def res_simps split: option.splits if_splits)
  have each: "\<exists>a. os_ip_str os i = Some a \<and> a \<in> set resolved" if "i \<in> set items" for i
  proof -
    from re have "is_ok (mapM (ip_str os) items)" by simp
    with that have "is_ok (ip_str os i)" by (auto simp: mapM_ok_iff)
    then obtain a where "os_ip_str os i = Some a" by (auto simp: ip_str_def split: option.splits)
    with that mapM_ip_str_set [OF re] show ?thesis by blast
  qed
  have "items \<noteq> []" using ok(1) re by auto
  moreover have "\<exists>b \<in> set allowed_ips. os_ip_str os b = Some a" if "a \<in> set resolved" for a
    using that ok(2) mapM_ip_str_set [OF al] by blast
  ultimately show ?thesis
    using it each ok(3) url hp(1) by (fastforce simp: list_ex_iff nonempty_opt_def split: option.splits)
qed

definition sample_os :: os_env where
  "sample_os = \<lparr>os_lstat = (\<lambda>_. Some \<lparr>st_mode = 0x8180, st_size = 10, st_uid = 7\<rparr>),
     os_stat = (\<lambda>_. Some \<lparr>st_mode = 0x41C0, st_size = 10, st_uid = 7\<rparr>),
     os_read = (\<lambda>_. ''secret''), os_euid = 7,
     os_getaddrinfo = (\<lambda>_ _. Some [''10.0.0.2'']),
     os_urlsplit = (\<lambda>_. \<lparr>url_scheme = ''https'', url_username = None, url_password = None,
       url_hostname = Some ''mcp.example'', url_port = None, url_path = [], url_query = [],
       url_fragment = []\<rparr>),
     os_ip_str = Some, os_loopback = (\<lambda>a. a = ''127.0.0.1'')\<rparr>"

theorem outbound_endpoint_pinned_witness:
  "\<exists>items. os_getaddrinfo sample_os ''mcp.example'' 443 = Some items \<and> items \<noteq> []
     \<and> (\<forall>i \<in> set items. \<exists>a. os_ip_str sample_os i = Some a
          \<and> (\<exists>b \<in> set [''10.0.0.2'']. os_ip_str sample_os b = Some a)
          \<and> (True \<longrightarrow> \<not> os_loopback sample_os a))
     \<and> (True \<longrightarrow> url_scheme (os_urlsplit sample_os ''https://mcp.example'') = ''https'')
     \<and> url_hostname (os_urlsplit sample_os ''https://mcp.example'') = Some ''mcp.example''
     \<and> \<not> nonempty_opt (url_username (os_urlsplit sample_os ''https://mcp.example''))
     \<and> \<not> nonempty_opt (url_password (os_urlsplit sample_os ''https://mcp.example''))
     \<and> url_query (os_urlsplit sample_os ''https://mcp.example'') = []
     \<and> url_fragment (os_urlsplit sample_os ''https://mcp.example'') = []"
proof (rule outbound_endpoint_pinned)
  show "validate_outbound_url sample_os ''https://mcp.example'' [''10.0.0.2''] True = Inr (''mcp.example'', 443)"
    by code_simp
qed

lemma read_bounded_regular_file_ok:
  assumes "read_bounded_regular_file os path max_bytes secret = Inr raw"
  shows "\<exists>info. os_lstat os path = Some info \<and> S_ISREG (st_mode info) \<and> st_size info \<le> max_bytes
     \<and> st_mode info AND 0x2 = 0 \<and> (secret \<longrightarrow> st_mode info AND 0x24 = 0) \<and> raw = os_read os path"
  using assms by (auto simp: read_bounded_regular_file_def split: option.splits if_splits)

lemma read_bounded_regular_file_error:
  "read_bounded_regular_file os path n secret = Inl e \<Longrightarrow> is_analysis_error e"
  by (auto simp: read_bounded_regular_file_def split: option.splits if_splits)

lemma validate_storage_path_private:
  assumes "validate_storage_path os path production = Inr p"
  shows "p = path \<and> (\<forall>info. os_stat os path = Some info \<longrightarrow>
      S_ISREG (st_mode info) \<and> private_to os info \<and> \<not> is_symlink os path)"
  using assms by (auto simp: validate_storage_path_def Let_def res_simps split: option.splits if_splits)

lemma path_parent_examples:
  "path_parent ''/a/b//c'' = ''/a/b''" "path_parent ''x'' = ''.''" "path_parent ''/x'' = ''/''"
  by code_simp+

end
