(* ===== verification/Store.thy ===== *)
theory Store
  imports Digests Security
begin

text \<open>
  The private task store (\<open>store.py\<close>).

  The SQLite database is a record of its three tables, each the list of its rows in insertion
  order, and \<open>store_config\<close> holds the three bounds of \<open>TaskStore\<close> with the interpreter functions
  and pydantic's decoders of the stored blobs (\<open>None\<close> for \<open>ValidationError\<close>). A method is a stateful
  call on the tables; the re-entrant lock makes each method one step. \<open>BEGIN IMMEDIATE .. COMMIT\<close>
  with its \<open>ROLLBACK\<close> handler is \<open>transaction\<close>. The clock reading of a method is its argument
  \<open>now_ms\<close>. \<open>INSERT\<close> raises \<open>IntegrityError\<close> when a key, uniqueness or foreign-key constraint of
  the schema fails.
\<close>

section \<open>Tables\<close>

record task_row =
  tk_task_id :: str
  tk_context_id :: str
  tk_requester_identity :: str
  tk_idempotency_key :: str
  tk_request_digest :: str
  tk_input_digest :: str
  tk_plugin_id :: str
  tk_binding_generation :: int
  tk_state :: task_state
  tk_reason_code :: str
  tk_input_json :: str
  tk_created_at_unix_ms :: int
  tk_updated_at_unix_ms :: int

record artifact_row =
  ar_artifact_id :: str
  ar_task_id :: str
  ar_artifact_digest :: str
  ar_body :: str
  ar_created_at_unix_ms :: int

text \<open>\<open>TraceRecord\<close> has the columns of the trace table.\<close>

record trace_row =
  te_task_id :: str
  te_sequence :: int
  te_code :: str
  te_occurred_at_unix_ms :: int
  te_detail_digest :: str

record store =
  tasks :: "task_row list"
  artifacts :: "artifact_row list"
  trace_events :: "trace_row list"

record store_config =
  sc_max_tasks :: int
  sc_retention_ms :: int
  sc_max_trace_events :: int
  sc_py :: pyenv
  sc_dec_input :: "str \<Rightarrow> frozen_input option"
  sc_dec_artifact :: "str \<Rightarrow> analysis_artifact option"

record task_record =
  tr_task_id :: str
  tr_context_id :: str
  tr_requester_identity :: str
  tr_idempotency_key :: str
  tr_request_digest :: str
  tr_input_digest :: str
  tr_plugin_id :: str
  tr_binding_generation :: int
  tr_state :: task_state
  tr_reason_code :: str
  tr_input_bundle :: frozen_input
  tr_artifact :: "analysis_artifact option"
  tr_created_at_unix_ms :: int
  tr_updated_at_unix_ms :: int

type_synonym 'a store_call = "store \<Rightarrow> (exn + 'a) \<times> store"

definition TERMINAL :: "task_state list" where
  "TERMINAL = [TASK_COMPLETED, TASK_FAILED, TASK_CANCELED, TASK_REJECTED, TASK_INPUT_REQUIRED,
     TASK_AUTH_REQUIRED]"

abbreviation terminal :: "task_state \<Rightarrow> bool" where
  "terminal s \<equiv> s \<in> set TERMINAL"

definition TASK_NOT_FOUND :: exn where
  "TASK_NOT_FOUND = AnalysisError ''TASK_NOT_FOUND'' ''task not found'' 404"

section \<open>Reading\<close>

definition lift_opt :: "'e \<Rightarrow> 'a option \<Rightarrow> 'e + 'a" where
  "lift_opt e r = (case r of None \<Rightarrow> Inl e | Some x \<Rightarrow> Inr x)"

definition PRIVATE_STATE_INVALID :: "str \<Rightarrow> exn" where
  "PRIVATE_STATE_INVALID message = AnalysisError ''PRIVATE_STATE_INVALID'' message 503"

definition get_locked :: "store_config \<Rightarrow> str \<Rightarrow> store \<Rightarrow> exn + task_record" where
  "get_locked sc task_id st =
     rbind (lift_opt TASK_NOT_FOUND (lookup_by tk_task_id task_id (tasks st))) (\<lambda>row.
     let artifact_row = lookup_by ar_task_id task_id (artifacts st);
         invalid = PRIVATE_STATE_INVALID ''private task state failed contract validation'' in
     rbind (lift_opt invalid (sc_dec_input sc (tk_input_json row))) (\<lambda>input_bundle.
     rbind (case artifact_row of None \<Rightarrow> Inr None
            | Some a \<Rightarrow> rbind (lift_opt invalid (sc_dec_artifact sc (ar_body a))) (\<lambda>art. Inr (Some art))) (\<lambda>artifact.
     rbind (compute_input_digest (sc_py sc) input_bundle) (\<lambda>input_digest.
     rbind (raise_if (tk_input_digest row \<noteq> fi_input_digest input_bundle
         \<or> input_digest \<noteq> fi_input_digest input_bundle)
       (PRIVATE_STATE_INVALID ''private frozen input digest mismatch'')) (\<lambda>_.
     rbind (case (artifact, artifact_row) of
         (Some art, Some a) \<Rightarrow>
           rbind (compute_artifact_digest (sc_py sc) art) (\<lambda>artifact_digest.
           raise_if (ar_artifact_digest a \<noteq> aa_artifact_digest art
               \<or> artifact_digest \<noteq> aa_artifact_digest art)
             (PRIVATE_STATE_INVALID ''private Artifact digest mismatch''))
       | _ \<Rightarrow> Inr ()) (\<lambda>_.
     Inr \<lparr>tr_task_id = tk_task_id row, tr_context_id = tk_context_id row,
       tr_requester_identity = tk_requester_identity row,
       tr_idempotency_key = tk_idempotency_key row, tr_request_digest = tk_request_digest row,
       tr_input_digest = tk_input_digest row, tr_plugin_id = tk_plugin_id row,
       tr_binding_generation = tk_binding_generation row, tr_state = tk_state row,
       tr_reason_code = tk_reason_code row, tr_input_bundle = input_bundle, tr_artifact = artifact,
       tr_created_at_unix_ms = tk_created_at_unix_ms row,
       tr_updated_at_unix_ms = tk_updated_at_unix_ms row\<rparr>))))))"

definition authorize_locked :: "str \<Rightarrow> str \<Rightarrow> store \<Rightarrow> exn + unit" where
  "authorize_locked task_id requester_identity st =
     (case lookup_by tk_task_id task_id (tasks st) of
        None \<Rightarrow> Inl TASK_NOT_FOUND
      | Some row \<Rightarrow> raise_if (tk_requester_identity row \<noteq> requester_identity) TASK_NOT_FOUND)"

definition store_get :: "store_config \<Rightarrow> str \<Rightarrow> store \<Rightarrow> exn + task_record" where
  "store_get sc task_id st = get_locked sc task_id st"

definition get_for_requester :: "store_config \<Rightarrow> str \<Rightarrow> str \<Rightarrow> store \<Rightarrow> exn + task_record" where
  "get_for_requester sc task_id requester_identity st =
     rbind (authorize_locked task_id requester_identity st) (\<lambda>_. get_locked sc task_id st)"

text \<open>\<open>ORDER BY sequence LIMIT max_trace_events\<close>.\<close>

definition traces :: "store_config \<Rightarrow> str \<Rightarrow> store \<Rightarrow> trace_row list" where
  "traces sc task_id st =
     take (nat (sc_max_trace_events sc))
       (sort_key te_sequence (filter (\<lambda>r. te_task_id r = task_id) (trace_events st)))"

definition traces_for_requester :: "store_config \<Rightarrow> str \<Rightarrow> str \<Rightarrow> store \<Rightarrow> exn + trace_row list" where
  "traces_for_requester sc task_id requester_identity st =
     rbind (authorize_locked task_id requester_identity st) (\<lambda>_. Inr (traces sc task_id st))"

definition counts :: "store \<Rightarrow> (task_state \<times> int) list" where
  "counts st = map (\<lambda>s. (s, int (length (filter (\<lambda>r. tk_state r = s) (tasks st)))))
     (remdups (map tk_state (tasks st)))"

section \<open>Writing\<close>

definition recover_incomplete :: "int \<Rightarrow> store \<Rightarrow> store" where
  "recover_incomplete now_ms st = st\<lparr>tasks :=
     update_where (\<lambda>r. \<not> terminal (tk_state r))
       (\<lambda>r. r\<lparr>tk_state := TASK_FAILED, tk_reason_code := ''RECOVERED_INCOMPLETE'',
         tk_updated_at_unix_ms := now_ms\<rparr>) (tasks st)\<rparr>"

definition delete_task :: "str \<Rightarrow> store \<Rightarrow> store" where
  "delete_task task_id st =
     \<lparr>tasks = delete_where (\<lambda>r. tk_task_id r = task_id) (tasks st),
      artifacts = delete_where (\<lambda>r. ar_task_id r = task_id) (artifacts st),
      trace_events = delete_where (\<lambda>r. te_task_id r = task_id) (trace_events st)\<rparr>"

text \<open>\<open>ORDER BY updated_at_unix_ms LIMIT 512\<close>.\<close>

definition purge_expired :: "store_config \<Rightarrow> int \<Rightarrow> store \<Rightarrow> store" where
  "purge_expired sc now_ms st =
     (let cutoff = now_ms - sc_retention_ms sc;
          rows = take 512 (sort_key tk_updated_at_unix_ms
            (filter (\<lambda>r. tk_updated_at_unix_ms r < cutoff \<and> terminal (tk_state r)) (tasks st)))
      in fold (\<lambda>row. delete_task (tk_task_id row)) rows st)"

definition insert_task :: "task_row \<Rightarrow> unit store_call" where
  "insert_task row st =
     (if lookup_by tk_task_id (tk_task_id row) (tasks st) \<noteq> None
       \<or> lookup_by tk_idempotency_key (tk_idempotency_key row) (tasks st) \<noteq> None
       \<or> \<not> tk_binding_generation row \<ge> 1
      then (Inl IntegrityError, st)
      else (Inr (), st\<lparr>tasks := tasks st @ [row]\<rparr>))"

definition insert_artifact :: "artifact_row \<Rightarrow> unit store_call" where
  "insert_artifact row st =
     (if lookup_by ar_artifact_id (ar_artifact_id row) (artifacts st) \<noteq> None
       \<or> lookup_by ar_task_id (ar_task_id row) (artifacts st) \<noteq> None
       \<or> lookup_by ar_artifact_digest (ar_artifact_digest row) (artifacts st) \<noteq> None
       \<or> lookup_by tk_task_id (ar_task_id row) (tasks st) = None
      then (Inl IntegrityError, st)
      else (Inr (), st\<lparr>artifacts := artifacts st @ [row]\<rparr>))"

definition insert_trace :: "trace_row \<Rightarrow> unit store_call" where
  "insert_trace row st =
     (if lookup_by (\<lambda>r. (te_task_id r, te_sequence r)) (te_task_id row, te_sequence row) (trace_events st) \<noteq> None
       \<or> lookup_by tk_task_id (te_task_id row) (tasks st) = None
      then (Inl IntegrityError, st)
      else (Inr (), st\<lparr>trace_events := trace_events st @ [row]\<rparr>))"

definition new_task_row ::
  "frozen_input \<Rightarrow> str \<Rightarrow> str \<Rightarrow> str \<Rightarrow> str \<Rightarrow> int \<Rightarrow> task_row" where
  "new_task_row input_bundle request_digest context_id requester_identity input_raw now_ms =
     \<lparr>tk_task_id = fi_task_id input_bundle, tk_context_id = context_id,
      tk_requester_identity = requester_identity,
      tk_idempotency_key = fi_idempotency_key input_bundle, tk_request_digest = request_digest,
      tk_input_digest = fi_input_digest input_bundle, tk_plugin_id = fi_plugin_id input_bundle,
      tk_binding_generation = fi_binding_generation input_bundle, tk_state = TASK_SUBMITTED,
      tk_reason_code = ''A2A_SUBMITTED'', tk_input_json = input_raw,
      tk_created_at_unix_ms = now_ms, tk_updated_at_unix_ms = now_ms\<rparr>"

text \<open>
  The transaction of \<open>submit\<close>: \<open>Some record\<close> for a task that is already there, \<open>None\<close> after the
  insertion of a new one.
\<close>

definition submit_body ::
  "store_config \<Rightarrow> frozen_input \<Rightarrow> str \<Rightarrow> str \<Rightarrow> str \<Rightarrow> str \<Rightarrow> int \<Rightarrow> task_record option store_call" where
  "submit_body sc input_bundle request_digest context_id requester_identity input_raw now_ms =
     bindS (modifyS (purge_expired sc now_ms)) (\<lambda>_ st.
     case find (\<lambda>r. tk_idempotency_key r = fi_idempotency_key input_bundle
                  \<or> tk_task_id r = fi_task_id input_bundle) (tasks st) of
       Some existing \<Rightarrow>
         bindS (readS (get_locked sc (tk_task_id existing))) (\<lambda>record.
         if tr_requester_identity record \<noteq> requester_identity then raiseS TASK_NOT_FOUND
         else if tr_task_id record \<noteq> fi_task_id input_bundle
           \<or> tr_idempotency_key record \<noteq> fi_idempotency_key input_bundle
           \<or> tr_request_digest record \<noteq> request_digest
           \<or> tr_input_digest record \<noteq> fi_input_digest input_bundle
         then raiseS (AnalysisError ''IDEMPOTENCY_CONFLICT'' ''task identity was reused with different input'' 409)
         else retS (Some record)) st
     | None \<Rightarrow>
         if int (length (tasks st)) \<ge> sc_max_tasks sc
         then raiseS (AnalysisErrorR ''RESOURCE_EXHAUSTED'' ''private task store reached its bound'' 429 True) st
         else bindS (insert_task (new_task_row input_bundle request_digest context_id requester_identity
                       input_raw now_ms)) (\<lambda>_. retS None) st)"

definition submit ::
  "store_config \<Rightarrow> frozen_input \<Rightarrow> str \<Rightarrow> str \<Rightarrow> str \<Rightarrow> int \<Rightarrow> (task_record \<times> bool) store_call" where
  "submit sc input_bundle request_digest context_id requester_identity now_ms =
     (if requester_identity = [] \<or> py_len requester_identity > 253
      then raiseS (AnalysisError ''IDENTITY_MISMATCH'' ''requester identity rejected'' 401)
      else case go_json_bytes (sc_py sc) (dump_FrozenInput input_bundle) of
        Inl e \<Rightarrow> raiseS e
      | Inr input_raw \<Rightarrow>
          bindS (transaction (submit_body sc input_bundle request_digest context_id requester_identity
                   input_raw now_ms)) (\<lambda>existing.
          case existing of
            Some record \<Rightarrow> retS (record, False)
          | None \<Rightarrow> bindS (readS (store_get sc (fi_task_id input_bundle))) (\<lambda>record. retS (record, True))))"

definition set_state :: "store_config \<Rightarrow> str \<Rightarrow> task_state \<Rightarrow> str \<Rightarrow> int \<Rightarrow> task_record store_call" where
  "set_state sc task_id state reason_code now_ms =
     bindS (\<lambda>st. if lookup_by tk_task_id task_id (tasks st) = None then (Inl TASK_NOT_FOUND, st)
       else (Inr (), st\<lparr>tasks := update_where (\<lambda>r. tk_task_id r = task_id)
              (\<lambda>r. r\<lparr>tk_state := state, tk_reason_code := reason_code, tk_updated_at_unix_ms := now_ms\<rparr>)
              (tasks st)\<rparr>)) (\<lambda>_.
     readS (get_locked sc task_id))"

definition upper_char :: "char \<Rightarrow> char" where
  "upper_char c = (if is_lower c then char_of (of_char c - (32 :: nat)) else c)"

text \<open>The transaction of \<open>complete\<close>.\<close>

definition complete_body ::
  "str \<Rightarrow> analysis_artifact \<Rightarrow> str \<Rightarrow> int \<Rightarrow> unit store_call" where
  "complete_body task_id artifact body now_ms st =
     (case lookup_by tk_task_id task_id (tasks st) of
        None \<Rightarrow> raiseS TASK_NOT_FOUND st
      | Some row \<Rightarrow>
          if terminal (tk_state row) then
            (case lookup_by ar_task_id task_id (artifacts st) of
               Some existing \<Rightarrow>
                 if ar_artifact_digest existing \<noteq> aa_artifact_digest artifact
                 then raiseS (AnalysisError ''IDEMPOTENCY_CONFLICT'' ''terminal task cannot be overwritten'' 409) st
                 else retS () st
             | None \<Rightarrow> raiseS (AnalysisError ''IDEMPOTENCY_CONFLICT'' ''terminal task cannot be overwritten'' 409) st)
          else
            bindS (insert_artifact \<lparr>ar_artifact_id = aa_artifact_id artifact, ar_task_id = task_id,
                ar_artifact_digest = aa_artifact_digest artifact, ar_body = body,
                ar_created_at_unix_ms = now_ms\<rparr>) (\<lambda>_.
            modifyS (\<lambda>st'. st'\<lparr>tasks := update_where (\<lambda>r. tk_task_id r = task_id)
              (\<lambda>r. r\<lparr>tk_state := TASK_COMPLETED,
                 tk_reason_code := ''ANALYSIS_'' @ map upper_char (aa_analysis_outcome artifact),
                 tk_updated_at_unix_ms := now_ms\<rparr>) (tasks st')\<rparr>)) st)"

definition complete :: "store_config \<Rightarrow> str \<Rightarrow> analysis_artifact \<Rightarrow> int \<Rightarrow> task_record store_call" where
  "complete sc task_id artifact now_ms =
     (case go_json_bytes (sc_py sc) (dump_AnalysisArtifact artifact) of
        Inl e \<Rightarrow> raiseS e
      | Inr body \<Rightarrow>
          bindS (transaction (complete_body task_id artifact body now_ms)) (\<lambda>_.
          readS (store_get sc task_id)))"

definition next_sequence :: "str \<Rightarrow> store \<Rightarrow> int" where
  "next_sequence task_id st =
     (case map te_sequence (filter (\<lambda>r. te_task_id r = task_id) (trace_events st)) of
        [] \<Rightarrow> 1 | ss \<Rightarrow> Max (set ss) + 1)"

definition append_trace :: "store_config \<Rightarrow> str \<Rightarrow> str \<Rightarrow> str \<Rightarrow> int \<Rightarrow> trace_row store_call" where
  "append_trace sc task_id code detail now_ms st =
     (let sequence = next_sequence task_id st in
      if sequence > sc_max_trace_events sc
      then raiseS (AnalysisError ''RESOURCE_EXHAUSTED'' ''task trace event bound reached'' 429) st
      else let row = \<lparr>te_task_id = task_id, te_sequence = sequence, te_code = code,
                 te_occurred_at_unix_ms = now_ms, te_detail_digest = file_digest (sc_py sc) detail\<rparr>
           in bindS (insert_trace row) (\<lambda>_. retS row) st)"

section \<open>Opening\<close>

text \<open>The file checks around the database and the recovery that opening performs.\<close>

definition verify_private_file :: "os_env \<Rightarrow> str \<Rightarrow> exn + unit" where
  "verify_private_file os path =
     (case os_lstat os path of
        None \<Rightarrow> Inl (AnalysisError ''STORE_PATH_REJECTED'' ''private task store unavailable'' 503)
      | Some info \<Rightarrow> raise_if (\<not> S_ISREG (st_mode info) \<or> S_ISLNK (st_mode info) \<or> \<not> private_to os info)
          (AnalysisError ''STORE_PATH_REJECTED'' ''private task store owner, mode, or file type rejected'' 503))"

text \<open>\<open>os.open\<close> with \<open>O_CREAT | O_EXCL | O_NOFOLLOW\<close>: a new file, \<open>FileExistsError\<close>, or another \<open>OSError\<close>.\<close>

datatype open_outcome = Created | Exists | OpenFailed

definition prepare_private_file :: "os_env \<Rightarrow> open_outcome \<Rightarrow> str \<Rightarrow> exn + unit" where
  "prepare_private_file os outcome path =
     (case outcome of
        Exists \<Rightarrow> verify_private_file os path
      | OpenFailed \<Rightarrow> Inl (AnalysisError ''STORE_PATH_REJECTED'' ''private task store could not be created safely'' 503)
      | Created \<Rightarrow> verify_private_file os path)"

definition open_store :: "os_env \<Rightarrow> open_outcome \<Rightarrow> str \<Rightarrow> bool \<Rightarrow> int \<Rightarrow> store \<Rightarrow> exn + store" where
  "open_store os outcome path has_requester_column now_ms st =
     rbind (prepare_private_file os outcome path) (\<lambda>_.
     rbind (raise_if (\<not> has_requester_column)
       (AnalysisError ''PRIVATE_STATE_VERSION_UNSUPPORTED''
          ''private task schema predates requester isolation'' 503)) (\<lambda>_.
     rbind (verify_private_file os path) (\<lambda>_. Inr (recover_incomplete now_ms st))))"

section \<open>The invariant\<close>

definition seqs :: "str \<Rightarrow> store \<Rightarrow> int list" where
  "seqs task_id st = map te_sequence (filter (\<lambda>r. te_task_id r = task_id) (trace_events st))"

definition keys_ok :: "store \<Rightarrow> bool" where
  "keys_ok st \<longleftrightarrow>
     distinct (map tk_task_id (tasks st)) \<and> distinct (map tk_idempotency_key (tasks st))
   \<and> distinct (map ar_artifact_id (artifacts st)) \<and> distinct (map ar_task_id (artifacts st))
   \<and> distinct (map ar_artifact_digest (artifacts st))"

definition refs_ok :: "store \<Rightarrow> bool" where
  "refs_ok st \<longleftrightarrow>
     set (map ar_task_id (artifacts st)) \<subseteq> set (map tk_task_id (tasks st))
   \<and> set (map te_task_id (trace_events st)) \<subseteq> set (map tk_task_id (tasks st))"

definition traces_ok :: "store_config \<Rightarrow> store \<Rightarrow> bool" where
  "traces_ok sc st \<longleftrightarrow>
     (\<forall>task_id. seqs task_id st = [1..int (length (seqs task_id st))]
        \<and> length (seqs task_id st) \<le> nat (sc_max_trace_events sc))"

definition store_inv :: "store_config \<Rightarrow> store \<Rightarrow> bool" where
  "store_inv sc st \<longleftrightarrow>
     keys_ok st \<and> refs_ok st \<and> traces_ok sc st \<and> length (tasks st) \<le> nat (sc_max_tasks sc)"

definition empty_store :: store where
  "empty_store = \<lparr>tasks = [], artifacts = [], trace_events = []\<rparr>"

lemmas store_inv_defs = store_inv_def keys_ok_def refs_ok_def traces_ok_def seqs_def

lemma store_inv_empty: "store_inv sc empty_store"
  by (simp add: store_inv_defs empty_store_def)

text \<open>Updates of task rows that keep the keys keep the invariant.\<close>

lemma store_inv_update_tasks:
  assumes "store_inv sc st" and "\<And>r. tk_task_id (f r) = tk_task_id r"
    and "\<And>r. tk_idempotency_key (f r) = tk_idempotency_key r"
  shows "store_inv sc (st\<lparr>tasks := update_where P f (tasks st)\<rparr>)"
  using assms(1) map_update_where [of tk_task_id f P "tasks st", OF assms(2)]
    map_update_where [of tk_idempotency_key f P "tasks st", OF assms(3)]
  by (simp add: store_inv_defs del: set_map)

lemma store_inv_delete_task:
  assumes "store_inv sc st"
  shows "store_inv sc (delete_task task_id st)"
proof -
  let ?st = "delete_task task_id st"
  have "seqs t ?st = (if t = task_id then [] else seqs t st)" for t
    by (auto simp: seqs_def delete_task_def delete_where_def intro!: arg_cong [where f = "map te_sequence"]
        filter_cong)
  then have "traces_ok sc ?st" using assms by (simp add: store_inv_def traces_ok_def)
  moreover have "keys_ok ?st" using assms
    by (simp add: store_inv_def keys_ok_def delete_task_def distinct_map_delete_where)
  moreover have "refs_ok ?st" using assms by (auto simp: store_inv_def refs_ok_def delete_task_def)
  moreover have "length (tasks ?st) \<le> nat (sc_max_tasks sc)"
    using assms length_delete_where [of _ "tasks st"]
    by (auto simp: store_inv_def delete_task_def intro: le_trans)
  ultimately show ?thesis by (simp add: store_inv_def)
qed

lemma store_inv_fold_delete: "store_inv sc st \<Longrightarrow> store_inv sc (fold (\<lambda>row. delete_task (key row)) rows st)"
  by (induction rows arbitrary: st) (simp_all add: store_inv_delete_task)

lemma store_inv_purge: "store_inv sc st \<Longrightarrow> store_inv sc (purge_expired sc now_ms st)"
  by (simp add: purge_expired_def Let_def store_inv_fold_delete)

lemma store_inv_recover: "store_inv sc st \<Longrightarrow> store_inv sc (recover_incomplete now_ms st)"
  unfolding recover_incomplete_def by (rule store_inv_update_tasks) simp_all

lemma store_inv_insert_artifact [keeps]: "preserves (store_inv sc) (insert_artifact row)"
  by (rule preservesI) (auto simp: insert_artifact_def store_inv_defs lookup_by_None)

lemma store_inv_append_task:
  assumes "store_inv sc st" and "int (length (tasks st)) < sc_max_tasks sc"
  shows "store_inv sc (snd (insert_task row st))"
  using assms by (auto simp: insert_task_def store_inv_defs lookup_by_None)

lemma next_sequence_eq: "next_sequence task_id st = (if seqs task_id st = [] then 1 else Max (set (seqs task_id st)) + 1)"
  by (cases "seqs task_id st") (simp_all add: next_sequence_def seqs_def)

lemma next_sequence_seqs:
  assumes "store_inv sc st"
  shows "next_sequence task_id st = int (length (seqs task_id st)) + 1"
proof -
  let ?n = "int (length (seqs task_id st))"
  from assms have up: "seqs task_id st = [1..?n]" by (simp add: store_inv_def traces_ok_def)
  have "Max (set [1..?n]) = ?n" if "1 \<le> ?n" using that by (intro Max_eqI) auto
  then show ?thesis
    using up by (cases "seqs task_id st = []") (auto simp: next_sequence_eq Suc_le_eq)
qed

lemma seqs_append_trace:
  "seqs t (st\<lparr>trace_events := trace_events st @ [row]\<rparr>)
     = (if t = te_task_id row then seqs t st @ [te_sequence row] else seqs t st)"
  by (simp add: seqs_def)

definition new_trace_row :: "store_config \<Rightarrow> str \<Rightarrow> str \<Rightarrow> str \<Rightarrow> int \<Rightarrow> store \<Rightarrow> trace_row" where
  "new_trace_row sc task_id code detail now_ms st =
     \<lparr>te_task_id = task_id, te_sequence = int (length (seqs task_id st)) + 1, te_code = code,
      te_occurred_at_unix_ms = now_ms, te_detail_digest = file_digest (sc_py sc) detail\<rparr>"

lemma append_trace_eq:
  assumes inv: "store_inv sc st"
  shows "append_trace sc task_id code detail now_ms st =
    (if int (length (seqs task_id st)) \<ge> sc_max_trace_events sc
     then (Inl (AnalysisError ''RESOURCE_EXHAUSTED'' ''task trace event bound reached'' 429), st)
     else if task_id \<notin> tk_task_id ` set (tasks st) then (Inl IntegrityError, st)
     else (Inr (new_trace_row sc task_id code detail now_ms st),
           st\<lparr>trace_events := trace_events st @ [new_trace_row sc task_id code detail now_ms st]\<rparr>))"
proof -
  let ?n = "int (length (seqs task_id st))"
  have "set (seqs task_id st) = {1..?n}"
    using inv by (metis set_upto store_inv_def traces_ok_def)
  moreover have "te_sequence r \<in> set (seqs task_id st)" if "r \<in> set (trace_events st)" "te_task_id r = task_id" for r
    using that by (auto simp: seqs_def)
  ultimately have "te_sequence r \<noteq> ?n + 1" if "r \<in> set (trace_events st)" "te_task_id r = task_id" for r
    using that by fastforce
  then have "lookup_by (\<lambda>r. (te_task_id r, te_sequence r)) (task_id, ?n + 1) (trace_events st) = None"
    unfolding lookup_by_None by (metis (mono_tags, lifting) fst_conv imageE snd_conv)
  then show ?thesis
    by (simp add: append_trace_def insert_trace_def next_sequence_seqs [OF inv] Let_def stateful_defs
        new_trace_row_def lookup_by_None)
qed

lemma store_inv_append_trace [keeps]: "preserves (store_inv sc) (append_trace sc task_id code detail now_ms)"
proof (rule preservesI)
  fix st assume inv: "store_inv sc st"
  let ?n = "int (length (seqs task_id st))" and ?row = "new_trace_row sc task_id code detail now_ms st"
  let ?st = "st\<lparr>trace_events := trace_events st @ [?row]\<rparr>"
  have "store_inv sc ?st" if "?n < sc_max_trace_events sc" and known: "task_id \<in> tk_task_id ` set (tasks st)"
  proof -
    have "traces_ok sc ?st"
      unfolding traces_ok_def
    proof (intro allI)
      fix t
      from inv have t: "seqs t st = [1..int (length (seqs t st))]" "length (seqs t st) \<le> nat (sc_max_trace_events sc)"
        by (auto simp: store_inv_def traces_ok_def)
      moreover have "[1..?n] @ [?n + 1] = [1..?n + 1]" by (simp add: upto_rec2)
      ultimately show "seqs t ?st = [1..int (length (seqs t ?st))] \<and> length (seqs t ?st) \<le> nat (sc_max_trace_events sc)"
        using that(1) by (auto simp: seqs_append_trace new_trace_row_def add.commute)
    qed
    moreover have "refs_ok ?st"
      using inv known by (auto simp: store_inv_def refs_ok_def new_trace_row_def)
    ultimately show ?thesis using inv by (simp add: store_inv_def keys_ok_def)
  qed
  with inv show "store_inv sc (snd (append_trace sc task_id code detail now_ms st))"
    by (simp add: append_trace_eq [OF inv])
qed

lemma store_inv_submit_body [keeps]:
  "preserves (store_inv sc) (submit_body sc input_bundle rd cid req raw now_ms)"
proof (rule preservesI)
  fix st assume "store_inv sc st"
  then have inv: "store_inv sc (purge_expired sc now_ms st)" by (rule store_inv_purge)
  show "store_inv sc (snd (submit_body sc input_bundle rd cid req raw now_ms st))"
    using inv store_inv_append_task [OF inv]
    by (auto simp: submit_body_def stateful_defs split: option.splits prod.splits sum.splits if_splits)
       (metis snd_conv)+
qed

lemma store_inv_submit [keeps]: "preserves (store_inv sc) (submit sc input_bundle rd cid req now_ms)"
  unfolding submit_def
  by (auto intro!: keeps split: sum.splits option.splits)

lemma store_inv_set_state [keeps]: "preserves (store_inv sc) (set_state sc task_id state reason now_ms)"
  unfolding set_state_def
  by (intro keeps preservesI) (auto intro: store_inv_update_tasks)

lemma store_inv_complete_body [keeps]: "preserves (store_inv sc) (complete_body task_id artifact body now_ms)"
proof -
  let ?set = "\<lambda>st'. st'\<lparr>tasks := update_where (\<lambda>r. tk_task_id r = task_id)
      (\<lambda>r. r\<lparr>tk_state := TASK_COMPLETED, tk_reason_code := ''ANALYSIS_'' @ map upper_char (aa_analysis_outcome artifact),
        tk_updated_at_unix_ms := now_ms\<rparr>) (tasks st')\<rparr>"
  have "preserves (store_inv sc) (bindS (insert_artifact row) (\<lambda>_. modifyS ?set))" for row
    by (intro keeps preserves_modifyS store_inv_update_tasks) simp_all
  then show ?thesis
    by (intro preservesI)
       (auto simp: complete_body_def raiseS_def retS_def dest: preservesD split: option.splits)
qed

lemma store_inv_complete [keeps]: "preserves (store_inv sc) (complete sc task_id artifact now_ms)"
  unfolding complete_def by (auto intro!: keeps split: sum.splits)

text \<open>Every public operation of the store, with any arguments, as one step.\<close>

inductive store_step :: "store_config \<Rightarrow> store \<Rightarrow> store \<Rightarrow> bool" for sc where
  step_submit: "store_step sc st (snd (submit sc input_bundle rd cid req now_ms st))"
| step_set_state: "store_step sc st (snd (set_state sc task_id state reason now_ms st))"
| step_complete: "store_step sc st (snd (complete sc task_id artifact now_ms st))"
| step_append_trace: "store_step sc st (snd (append_trace sc task_id code detail now_ms st))"
| step_restart: "store_step sc st (recover_incomplete now_ms st)"

lemma store_inv_step: "store_inv sc st \<Longrightarrow> store_step sc st st' \<Longrightarrow> store_inv sc st'"
  by (erule store_step.cases)
     (auto intro: store_inv_recover preservesD [OF store_inv_submit] preservesD [OF store_inv_set_state]
        preservesD [OF store_inv_complete] preservesD [OF store_inv_append_trace])

interpretation stores: invariant_machine "\<lambda>st. st = empty_store" "store_step sc" "store_inv sc" for sc
  by unfold_locales (auto intro: store_inv_empty store_inv_step)

text \<open>
  C1: in every state the store can reach from an empty database, through any sequence of submissions,
  state changes, completions, trace appends and restarts with any arguments (failing calls included),
  task identities and idempotency keys are unique, every artifact and trace event belongs to a stored
  task and no task has two artifacts, the number of tasks is within its bound, and the trace of each
  task is numbered 1, 2, 3, .. without gap, in the order it was appended, up to its bound.
\<close>

theorem store_reachable_invariant:
  assumes "(store_step sc)\<^sup>*\<^sup>* empty_store st"
  shows "distinct (map tk_task_id (tasks st)) \<and> distinct (map tk_idempotency_key (tasks st))
    \<and> distinct (map ar_task_id (artifacts st))
    \<and> ar_task_id ` set (artifacts st) \<subseteq> tk_task_id ` set (tasks st)
    \<and> te_task_id ` set (trace_events st) \<subseteq> tk_task_id ` set (tasks st)
    \<and> length (tasks st) \<le> nat (sc_max_tasks sc)
    \<and> (\<forall>t. map te_sequence (filter (\<lambda>r. te_task_id r = t) (trace_events st))
           = [1..int (length (filter (\<lambda>r. te_task_id r = t) (trace_events st)))]
         \<and> length (filter (\<lambda>r. te_task_id r = t) (trace_events st)) \<le> nat (sc_max_trace_events sc))"
proof -
  have "store_inv sc st" by (rule stores.inv_reachable [OF refl assms])
  then show ?thesis by (simp add: store_inv_defs)
qed

section \<open>Purging\<close>

lemma fold_delete_task:
  "fold (\<lambda>row. delete_task (tk_task_id row)) rows st =
     \<lparr>tasks = filter (\<lambda>r. tk_task_id r \<notin> tk_task_id ` set rows) (tasks st),
      artifacts = filter (\<lambda>r. ar_task_id r \<notin> tk_task_id ` set rows) (artifacts st),
      trace_events = filter (\<lambda>r. te_task_id r \<notin> tk_task_id ` set rows) (trace_events st)\<rparr>"
  by (induction rows arbitrary: st) (auto simp: delete_task_def delete_where_def intro!: filter_cong)

text \<open>The rows that one call of \<open>_purge_expired\<close> selects.\<close>

definition purged :: "store_config \<Rightarrow> int \<Rightarrow> store \<Rightarrow> task_row set" where
  "purged sc now_ms st = set (take 512 (sort_key tk_updated_at_unix_ms
     (filter (\<lambda>r. tk_updated_at_unix_ms r < now_ms - sc_retention_ms sc \<and> terminal (tk_state r)) (tasks st))))"

lemma purged_old_terminal:
  "r \<in> purged sc now_ms st \<Longrightarrow>
   r \<in> set (tasks st) \<and> tk_updated_at_unix_ms r < now_ms - sc_retention_ms sc \<and> terminal (tk_state r)"
  by (auto simp: purged_def dest: in_set_takeD)

lemma purge_expired_eq:
  "purge_expired sc now_ms st =
     \<lparr>tasks = filter (\<lambda>r. tk_task_id r \<notin> tk_task_id ` purged sc now_ms st) (tasks st),
      artifacts = filter (\<lambda>r. ar_task_id r \<notin> tk_task_id ` purged sc now_ms st) (artifacts st),
      trace_events = filter (\<lambda>r. te_task_id r \<notin> tk_task_id ` purged sc now_ms st) (trace_events st)\<rparr>"
  by (simp add: purge_expired_def Let_def fold_delete_task purged_def)

lemma lookup_by_filter_key:
  "lookup_by key k (filter (\<lambda>r. key r \<notin> K) rows) = (if k \<in> K then None else lookup_by key k rows)"
  by (induction rows) auto

lemma lookup_by_filter_row:
  assumes "distinct (map key rows)"
  shows "lookup_by key k (filter P rows) =
    (case lookup_by key k rows of Some r \<Rightarrow> if P r then Some r else None | None \<Rightarrow> None)"
  using assms
proof (induction rows)
  case (Cons r rows)
  then have "lookup_by key (key r) rows = None" by (auto simp: lookup_by_None)
  with Cons show ?case by (auto split: option.splits)
qed simp

text \<open>A task that is live, or young, survives a purge with its artifact and trace.\<close>

lemma purge_keeps:
  assumes "store_inv sc st" and "lookup_by tk_task_id t (tasks st) = Some r"
    and "\<not> (tk_updated_at_unix_ms r < now_ms - sc_retention_ms sc \<and> terminal (tk_state r))"
  shows "lookup_by tk_task_id t (tasks (purge_expired sc now_ms st)) = Some r"
    and "lookup_by ar_task_id t (artifacts (purge_expired sc now_ms st)) = lookup_by ar_task_id t (artifacts st)"
proof -
  have "t \<notin> tk_task_id ` purged sc now_ms st"
  proof
    assume "t \<in> tk_task_id ` purged sc now_ms st"
    then obtain q where q: "q \<in> purged sc now_ms st" "tk_task_id q = t" by blast
    from purged_old_terminal [OF q(1)] have "lookup_by tk_task_id t (tasks st) = Some q"
      using assms(1) q(2) by (auto simp: store_inv_def keys_ok_def intro: lookup_by_unique)
    with assms(2,3) purged_old_terminal [OF q(1)] show False by simp
  qed
  with assms(2) show "lookup_by tk_task_id t (tasks (purge_expired sc now_ms st)) = Some r"
    and "lookup_by ar_task_id t (artifacts (purge_expired sc now_ms st)) = lookup_by ar_task_id t (artifacts st)"
    by (simp_all add: purge_expired_eq lookup_by_filter_key)
qed

lemma get_locked_cong:
  "lookup_by tk_task_id t (tasks st) = lookup_by tk_task_id t (tasks st') \<Longrightarrow>
   lookup_by ar_task_id t (artifacts st) = lookup_by ar_task_id t (artifacts st') \<Longrightarrow>
   get_locked sc t st = get_locked sc t st'"
  by (simp add: get_locked_def)

section \<open>Requester isolation\<close>

text \<open>
  A read that a requester makes sees only that requester's part of the store. \<open>requester_view\<close> is
  the interface: a projection \<open>view r\<close> of the state and a read that factors through it, on states
  that satisfy the invariant.
\<close>

locale requester_view =
  fixes inv :: "'s \<Rightarrow> bool" and view :: "'r \<Rightarrow> 's \<Rightarrow> 's" and read :: "'k \<Rightarrow> 'r \<Rightarrow> 's \<Rightarrow> 'a"
  assumes read_view: "inv s \<Longrightarrow> read k r s = read k r (view r s)"
begin

lemma noninterference:
  assumes "inv s" and "inv t" and "view r s = view r t"
  shows "read k r s = read k r t"
  using assms read_view by metis

end

definition visible :: "str \<Rightarrow> store \<Rightarrow> store" where
  "visible requester st =
     (let mine = filter (\<lambda>r. tk_requester_identity r = requester) (tasks st);
          ids = set (map tk_task_id mine)
      in \<lparr>tasks = mine, artifacts = filter (\<lambda>r. ar_task_id r \<in> ids) (artifacts st),
          trace_events = filter (\<lambda>r. te_task_id r \<in> ids) (trace_events st)\<rparr>)"

lemma lookup_by_filter_in:
  "lookup_by key k (filter (\<lambda>r. key r \<in> K) rows) = (if k \<in> K then lookup_by key k rows else None)"
  by (induction rows) auto

lemma visible_lookup:
  assumes "store_inv sc st"
  shows "lookup_by tk_task_id t (tasks (visible req st)) =
    (case lookup_by tk_task_id t (tasks st) of
       Some r \<Rightarrow> if tk_requester_identity r = req then Some r else None | None \<Rightarrow> None)"
  using assms by (simp add: visible_def Let_def lookup_by_filter_row store_inv_def keys_ok_def)

lemma visible_owned:
  assumes "lookup_by tk_task_id t (tasks st) = Some r" and "tk_requester_identity r = req"
  shows "lookup_by ar_task_id t (artifacts (visible req st)) = lookup_by ar_task_id t (artifacts st)"
    and "traces sc t (visible req st) = traces sc t st"
proof -
  have owned: "t \<in> set (map tk_task_id (filter (\<lambda>r. tk_requester_identity r = req) (tasks st)))"
    using assms lookup_by_Some [OF assms(1)] by auto
  then show "lookup_by ar_task_id t (artifacts (visible req st)) = lookup_by ar_task_id t (artifacts st)"
    by (simp add: visible_def Let_def lookup_by_filter_in)
  have "filter (\<lambda>r. te_task_id r = t) (trace_events (visible req st))
      = filter (\<lambda>r. te_task_id r = t) (trace_events st)"
    using owned by (auto simp: visible_def Let_def intro!: filter_cong)
  then show "traces sc t (visible req st) = traces sc t st" by (simp add: traces_def)
qed

interpretation task_view: requester_view "store_inv sc" visible "get_for_requester sc" for sc
proof unfold_locales
  fix s t req assume inv: "store_inv sc s"
  show "get_for_requester sc t req s = get_for_requester sc t req (visible req s)"
  proof (cases "lookup_by tk_task_id t (tasks s)")
    case None
    then show ?thesis by (simp add: get_for_requester_def authorize_locked_def visible_lookup [OF inv])
  next
    case (Some r)
    have "get_locked sc t s = get_locked sc t (visible req s)" if "tk_requester_identity r = req"
      using that Some visible_owned(1) [OF Some that]
      by (intro get_locked_cong) (simp_all add: visible_lookup [OF inv])
    with Some show ?thesis
      by (simp add: get_for_requester_def authorize_locked_def visible_lookup [OF inv] raise_if_def)
  qed
qed

interpretation trace_view: requester_view "store_inv sc" visible "traces_for_requester sc" for sc
proof unfold_locales
  fix s t req assume inv: "store_inv sc s"
  show "traces_for_requester sc t req s = traces_for_requester sc t req (visible req s)"
  proof (cases "lookup_by tk_task_id t (tasks s)")
    case None
    then show ?thesis by (simp add: traces_for_requester_def authorize_locked_def visible_lookup [OF inv])
  next
    case (Some r)
    with visible_owned(2) [OF Some] show ?thesis
      by (simp add: traces_for_requester_def authorize_locked_def visible_lookup [OF inv] raise_if_def)
  qed
qed

text \<open>
  C2: what a requester can read depends only on that requester's own tasks. In any two reachable
  stores that hold the same tasks, artifacts and traces for a requester, whatever the others have
  submitted, every task read and every trace read by that requester gives the same result; and a task
  of another requester is answered exactly like a task that does not exist.
\<close>

theorem requester_isolation:
  assumes "(store_step sc)\<^sup>*\<^sup>* empty_store st" and "(store_step sc)\<^sup>*\<^sup>* empty_store st'"
    and "visible requester st = visible requester st'"
  shows "get_for_requester sc t requester st = get_for_requester sc t requester st'
    \<and> traces_for_requester sc t requester st = traces_for_requester sc t requester st'
    \<and> (t \<notin> tk_task_id ` set (tasks (visible requester st)) \<longrightarrow>
         get_for_requester sc t requester st = Inl TASK_NOT_FOUND
       \<and> traces_for_requester sc t requester st = Inl TASK_NOT_FOUND)"
proof -
  from assms(1,2) have inv: "store_inv sc st" "store_inv sc st'"
    by (simp_all add: stores.inv_reachable [OF refl])
  have hidden: "get_for_requester sc t requester st = Inl TASK_NOT_FOUND
      \<and> traces_for_requester sc t requester st = Inl TASK_NOT_FOUND"
    if "t \<notin> tk_task_id ` set (tasks (visible requester st))"
  proof -
    from that have "authorize_locked t requester (visible requester st) = Inl TASK_NOT_FOUND"
      by (simp add: authorize_locked_def flip: lookup_by_None)
    then show ?thesis
      unfolding task_view.read_view [OF inv(1), of t requester] trace_view.read_view [OF inv(1), of t requester]
      by (simp add: get_for_requester_def traces_for_requester_def)
  qed
  show ?thesis
    using task_view.noninterference [OF inv assms(3)] trace_view.noninterference [OF inv assms(3)] hidden
    by blast
qed

section \<open>Submission\<close>

lemma find_unique:
  assumes "r \<in> set xs" and "P r" and "\<And>q. q \<in> set xs \<Longrightarrow> P q \<Longrightarrow> q = r"
  shows "find P xs = Some r"
  using assms(1,3)
proof (induction xs)
  case (Cons x xs)
  show ?case
  proof (cases "P x")
    case True
    with Cons.prems(2) [of x] show ?thesis by simp
  next
    case False
    with Cons.prems(1) assms(2) have "r \<in> set xs" by auto
    with Cons.IH Cons.prems(2) False show ?thesis by simp
  qed
qed simp

lemma get_locked_fields:
  assumes "get_locked sc t st = Inr rec"
  shows "\<exists>row. lookup_by tk_task_id t (tasks st) = Some row \<and> tr_task_id rec = tk_task_id row
    \<and> tr_requester_identity rec = tk_requester_identity row
    \<and> tr_idempotency_key rec = tk_idempotency_key row \<and> tr_request_digest rec = tk_request_digest row
    \<and> tr_input_digest rec = tk_input_digest row \<and> tr_state rec = tk_state row
    \<and> tr_reason_code rec = tk_reason_code row \<and> tr_context_id rec = tk_context_id row"
  using assms by (auto simp: get_locked_def rbind_eq_Inr Let_def lift_opt_def split: option.splits)

lemma submit_created:
  assumes inv: "store_inv sc st" and "submit sc i rd cid req now_ms st = (Inr (rec, True), st1)"
  shows "\<exists>raw row. row = new_task_row i rd cid req raw now_ms
    \<and> st1 = (purge_expired sc now_ms st)\<lparr>tasks := tasks (purge_expired sc now_ms st) @ [row]\<rparr>
    \<and> get_locked sc (fi_task_id i) st1 = Inr rec
    \<and> fi_task_id i \<notin> tk_task_id ` set (tasks (purge_expired sc now_ms st))
    \<and> req \<noteq> [] \<and> py_len req \<le> 253 \<and> go_json_bytes (sc_py sc) (dump_FrozenInput i) = Inr raw"
  using assms(2)
  by (auto simp: submit_def submit_body_def stateful_defs insert_task_def store_get_def lookup_by_None
      new_task_row_def split: sum.splits option.splits if_splits prod.splits)

lemma get_locked_retained:
  assumes "store_inv sc st" and "get_locked sc t st = Inr rec" and "\<not> terminal (tr_state rec)"
  shows "get_locked sc t (purge_expired sc now_ms st) = Inr rec"
proof -
  from get_locked_fields [OF assms(2)] obtain row where row: "lookup_by tk_task_id t (tasks st) = Some row"
    and "tr_state rec = tk_state row" by blast
  with assms(3) have "\<not> (tk_updated_at_unix_ms row < now_ms - sc_retention_ms sc \<and> terminal (tk_state row))" by simp
  from purge_keeps [OF assms(1) row this] row have "get_locked sc t (purge_expired sc now_ms st) = get_locked sc t st"
    by (intro get_locked_cong) simp_all
  with assms(2) show ?thesis by simp
qed

text \<open>A task that is stored and live answers every further submission of its identity.\<close>

lemma submit_existing:
  assumes inv: "store_inv sc st" and get: "get_locked sc (fi_task_id i) st = Inr rec"
    and live: "\<not> terminal (tr_state rec)" and key: "tr_idempotency_key rec = fi_idempotency_key i"
    and req: "req \<noteq> []" "py_len req \<le> 253"
  shows "submit sc i rd cid req now_ms st =
    (if tr_requester_identity rec \<noteq> req then (Inl TASK_NOT_FOUND, st)
     else if tr_request_digest rec \<noteq> rd \<or> tr_input_digest rec \<noteq> fi_input_digest i
     then (Inl (AnalysisError ''IDEMPOTENCY_CONFLICT'' ''task identity was reused with different input'' 409), st)
     else (Inr (rec, False), purge_expired sc now_ms st))"
proof -
  let ?p = "purge_expired sc now_ms st"
  have get_p: "get_locked sc (fi_task_id i) ?p = Inr rec" by (rule get_locked_retained [OF inv get live])
  from get_locked_fields [OF get_p] obtain row where
    row: "lookup_by tk_task_id (fi_task_id i) (tasks ?p) = Some row" "tr_task_id rec = tk_task_id row"
    and "tr_idempotency_key rec = tk_idempotency_key row" by blast
  with key have rkey: "tk_idempotency_key row = fi_idempotency_key i" by simp
  from lookup_by_Some [OF row(1)] have mem: "row \<in> set (tasks ?p)" "tk_task_id row = fi_task_id i" by simp_all
  from store_inv_purge [OF inv] have inj: "inj_on tk_task_id (set (tasks ?p))" "inj_on tk_idempotency_key (set (tasks ?p))"
    by (auto simp: store_inv_def keys_ok_def distinct_map)
  have same: "q = row" if "q \<in> set (tasks ?p)" "tk_idempotency_key q = fi_idempotency_key i \<or> tk_task_id q = fi_task_id i" for q
    using that mem rkey inj_onD [OF inj(1), of q row] inj_onD [OF inj(2), of q row] by auto
  have found: "find (\<lambda>r. tk_idempotency_key r = fi_idempotency_key i \<or> tk_task_id r = fi_task_id i) (tasks ?p) = Some row"
  proof (rule find_unique)
    show "row \<in> set (tasks ?p)" by (fact mem(1))
    show "tk_idempotency_key row = fi_idempotency_key i \<or> tk_task_id row = fi_task_id i" using mem(2) by simp
  qed (rule same)
  have "\<exists>raw. go_json_bytes (sc_py sc) (dump_FrozenInput i) = Inr raw" by (simp add: go_json_bytes_eq)
  with found get_p req mem row(2) key show ?thesis
    by (auto simp: submit_def submit_body_def stateful_defs)
qed

text \<open>
  C3: submission is idempotent. After a submission that created a task, submitting the same frozen
  input with the same request bytes for the same requester, at any time, returns the same record and
  creates nothing; the same task identity from another requester is answered as unknown, and with
  different request bytes is refused as a conflict, and neither changes the store.
\<close>

theorem submit_idempotent:
  assumes "store_inv sc st" and "submit sc i rd cid req now_ms st = (Inr (rec, True), st1)"
  shows "submit sc i rd cid' req now' st1 = (Inr (rec, False), purge_expired sc now' st1)
    \<and> (other \<noteq> req \<longrightarrow> other \<noteq> [] \<longrightarrow> py_len other \<le> 253 \<longrightarrow>
         submit sc i rd' cid' other now' st1 = (Inl TASK_NOT_FOUND, st1))
    \<and> (rd' \<noteq> rd \<longrightarrow> (\<exists>e. submit sc i rd' cid' req now' st1 = (Inl e, st1) \<and> exn_code e = Some ''IDEMPOTENCY_CONFLICT''))"
proof -
  from submit_created [OF assms] obtain raw row where row: "row = new_task_row i rd cid req raw now_ms"
    and st1: "st1 = (purge_expired sc now_ms st)\<lparr>tasks := tasks (purge_expired sc now_ms st) @ [row]\<rparr>"
    and get: "get_locked sc (fi_task_id i) st1 = Inr rec"
    and new: "fi_task_id i \<notin> tk_task_id ` set (tasks (purge_expired sc now_ms st))"
    and req: "req \<noteq> []" "py_len req \<le> 253" by blast
  have inv1: "store_inv sc st1" using preservesD [OF store_inv_submit assms(1)] assms(2) by (metis snd_conv)
  from new have "lookup_by tk_task_id (fi_task_id i) (tasks (purge_expired sc now_ms st)) = None"
    by (simp add: lookup_by_None)
  then have "lookup_by tk_task_id (fi_task_id i) (tasks st1) = Some row"
    by (simp add: st1 row new_task_row_def)
  with get_locked_fields [OF get] have rec: "tr_requester_identity rec = req" "tr_request_digest rec = rd"
    "tr_input_digest rec = fi_input_digest i" "\<not> terminal (tr_state rec)" "tr_idempotency_key rec = fi_idempotency_key i"
    by (auto simp: row new_task_row_def TERMINAL_def)
  show ?thesis
    using submit_existing [OF inv1 get rec(4,5)] req rec by (simp add: exn_code_raised)
qed

section \<open>Completion and recovery\<close>

lemma complete_terminal_unchanged:
  assumes "lookup_by tk_task_id t (tasks st) = Some row" and "terminal (tk_state row)"
  shows "snd (complete sc t art now_ms st) = st"
  using assms by (auto simp: complete_def complete_body_def stateful_defs split: sum.splits option.splits)

lemma complete_live:
  assumes "lookup_by tk_task_id t (tasks st) = Some row" and "\<not> terminal (tk_state row)"
    and "complete sc t art now_ms st = (Inr rec, st1)"
  shows "\<exists>a. lookup_by tk_task_id t (tasks st1) = Some (row\<lparr>tk_state := TASK_COMPLETED,
        tk_reason_code := ''ANALYSIS_'' @ map upper_char (aa_analysis_outcome art), tk_updated_at_unix_ms := now_ms\<rparr>)
    \<and> lookup_by ar_task_id t (artifacts st1) = Some a \<and> ar_artifact_digest a = aa_artifact_digest art
    \<and> get_locked sc t st1 = Inr rec"
proof -
  have "tk_task_id row = t" using lookup_by_Some [OF assms(1)] by simp
  with assms show ?thesis
    by (auto simp: complete_def complete_body_def insert_artifact_def store_get_def stateful_defs lookup_by_update
        split: sum.splits option.splits if_splits prod.splits)
qed

text \<open>
  C4: a task is completed once. When \<open>complete\<close> succeeds on a live task, the task is
  \<open>TASK_STATE_COMPLETED\<close>; after that no call of \<open>complete\<close> changes the store, a repetition with the
  same artifact digest returns the same record, and an artifact with another digest is refused with
  \<open>IDEMPOTENCY_CONFLICT\<close>.
\<close>

theorem complete_once:
  assumes "lookup_by tk_task_id t (tasks st) = Some row" and "\<not> terminal (tk_state row)"
    and "complete sc t art now_ms st = (Inr rec, st1)"
    and "go_json_bytes (sc_py sc) (dump_AnalysisArtifact art') = Inr body"
  shows "tr_state rec = TASK_COMPLETED \<and> snd (complete sc t art' now' st1) = st1
    \<and> (aa_artifact_digest art' = aa_artifact_digest art \<longrightarrow> fst (complete sc t art' now' st1) = Inr rec)
    \<and> (aa_artifact_digest art' \<noteq> aa_artifact_digest art \<longrightarrow>
         (\<exists>e. fst (complete sc t art' now' st1) = Inl e \<and> exn_code e = Some ''IDEMPOTENCY_CONFLICT''))"
proof -
  from complete_live [OF assms(1-3)] obtain a where
    row1: "lookup_by tk_task_id t (tasks st1) = Some (row\<lparr>tk_state := TASK_COMPLETED,
        tk_reason_code := ''ANALYSIS_'' @ map upper_char (aa_analysis_outcome art), tk_updated_at_unix_ms := now_ms\<rparr>)"
    and a: "lookup_by ar_task_id t (artifacts st1) = Some a" "ar_artifact_digest a = aa_artifact_digest art"
    and get: "get_locked sc t st1 = Inr rec" by blast
  have completed: "terminal TASK_COMPLETED" by (simp add: TERMINAL_def)
  from get_locked_fields [OF get] row1 have "tr_state rec = TASK_COMPLETED" by auto
  moreover have "snd (complete sc t art' now' st1) = st1"
    by (rule complete_terminal_unchanged [OF row1]) (simp add: TERMINAL_def)
  moreover have "fst (complete sc t art' now' st1) = (if aa_artifact_digest art' = aa_artifact_digest art then Inr rec
      else Inl (AnalysisError ''IDEMPOTENCY_CONFLICT'' ''terminal task cannot be overwritten'' 409))"
    using row1 a get assms(4) completed
    by (simp add: complete_def complete_body_def store_get_def stateful_defs)
  ultimately show ?thesis by simp
qed

lemma recover_terminal:
  assumes "list_all (\<lambda>r. terminal (tk_state r)) (tasks st)"
  shows "recover_incomplete now_ms st = st"
proof -
  from assms have "update_where (\<lambda>r. \<not> terminal (tk_state r)) f (tasks st) = tasks st" for f
    by (simp add: update_where_def list_all_iff map_idI)
  then show ?thesis by (simp add: recover_incomplete_def)
qed

text \<open>
  Opening the store fails every interrupted task and touches nothing else. After recovery every
  task is in a terminal state; a task that was terminal is unchanged; a live one keeps its identity,
  input and creation time and is \<open>TASK_STATE_FAILED\<close> with reason \<open>RECOVERED_INCOMPLETE\<close>; artifacts and
  traces are untouched; and a second recovery changes nothing.
\<close>

theorem recovery_fails_interrupted:
  "list_all (\<lambda>r. terminal (tk_state r)) (tasks (recover_incomplete now_ms st))
   \<and> lookup_by tk_task_id t (tasks (recover_incomplete now_ms st))
       = map_option (\<lambda>r. if terminal (tk_state r) then r
           else r\<lparr>tk_state := TASK_FAILED, tk_reason_code := ''RECOVERED_INCOMPLETE'', tk_updated_at_unix_ms := now_ms\<rparr>)
           (lookup_by tk_task_id t (tasks st))
   \<and> artifacts (recover_incomplete now_ms st) = artifacts st
   \<and> trace_events (recover_incomplete now_ms st) = trace_events st
   \<and> recover_incomplete now' (recover_incomplete now_ms st) = recover_incomplete now_ms st"
proof -
  have "list_all (\<lambda>r. terminal (tk_state r)) (tasks (recover_incomplete now_ms st))"
    by (auto simp: recover_incomplete_def list_all_iff set_update_where TERMINAL_def)
  moreover have "lookup_by tk_task_id t (tasks (recover_incomplete now_ms st))
       = map_option (\<lambda>r. if terminal (tk_state r) then r
           else r\<lparr>tk_state := TASK_FAILED, tk_reason_code := ''RECOVERED_INCOMPLETE'', tk_updated_at_unix_ms := now_ms\<rparr>)
           (lookup_by tk_task_id t (tasks st))"
    by (cases "lookup_by tk_task_id t (tasks st)") (simp_all add: recover_incomplete_def lookup_by_update)
  moreover have "artifacts (recover_incomplete now_ms st) = artifacts st"
    "trace_events (recover_incomplete now_ms st) = trace_events st"
    by (simp_all add: recover_incomplete_def)
  ultimately show ?thesis using recover_terminal by blast
qed

section \<open>Concrete instances\<close>

definition sample_store_config :: store_config where
  "sample_store_config = \<lparr>sc_max_tasks = 16, sc_retention_ms = 60000, sc_max_trace_events = 16,
     sc_py = zero_env, sc_dec_input = (\<lambda>_. Some sample_input), sc_dec_artifact = (\<lambda>_. Some sample_artifact)\<rparr>"

lemma sample_digests [simp]:
  "compute_input_digest zero_env x = Inr (dig CHR ''0'')"
  "sc_py sample_store_config = zero_env" "sc_dec_input sample_store_config raw = Some sample_input"
  "sc_dec_artifact sample_store_config raw = Some sample_artifact"
  "sc_max_tasks sample_store_config = 16" "sc_max_trace_events sample_store_config = 16"
  by (simp_all add: sample_store_config_def compute_input_digest_ok sha256_digest_def zero_env_def dig_def)

lemma finite_dump_sample_artifact: "\<not> has_nonfinite (dump_AnalysisArtifact sample_artifact)"
  by code_simp

lemma sample_artifact_digest [simp]: "compute_artifact_digest zero_env sample_artifact = Inr (dig CHR ''0'')"
proof -
  have "\<not> has_nonfinite (dump_AnalysisArtifact (sample_artifact\<lparr>aa_artifact_digest := []\<rparr>))" by code_simp
  then show ?thesis
    by (simp add: compute_artifact_digest_def artifact_payload_def go_json_bytes_eq sha256_digest_def zero_env_def dig_def)
qed

definition sample_row :: "str \<Rightarrow> task_row" where
  "sample_row req = new_task_row sample_input (dig CHR ''5'') ''context-1'' req
     (go_escape (json_text zero_env (dump_FrozenInput sample_input))) 100"

definition sample_store :: "str \<Rightarrow> store" where
  "sample_store req = \<lparr>tasks = [sample_row req], artifacts = [], trace_events = []\<rparr>"

lemma sample_fields [simp]:
  "fi_task_id sample_input = ''task-1''" "fi_idempotency_key sample_input = ''key-1''"
  "fi_input_digest sample_input = dig CHR ''0''" "fi_binding_generation sample_input = 3"
  "aa_artifact_digest sample_artifact = dig CHR ''0''" "aa_artifact_id sample_artifact = ''artifact-1''"
  by (simp_all add: sample_input_def sample_artifact_def)

lemma sample_submit_created:
  assumes "req \<noteq> []" and "py_len req \<le> 253"
  shows "\<exists>rec. submit sample_store_config sample_input (dig CHR ''5'') ''context-1'' req 100 empty_store
    = (Inr (rec, True), sample_store req)"
  using assms
  by (auto simp: submit_def submit_body_def stateful_defs go_json_bytes_eq purge_expired_def empty_store_def
      insert_task_def new_task_row_def store_get_def get_locked_def Let_def lift_opt_def
      sample_store_def sample_row_def)

theorem store_reachable_invariant_witness:
  "(store_step sample_store_config)\<^sup>*\<^sup>* empty_store (sample_store ''go-a2a'')
   \<and> length (tasks (sample_store ''go-a2a'')) \<le> 16"
proof -
  from sample_submit_created [of "''go-a2a''"] have
    "snd (submit sample_store_config sample_input (dig CHR ''5'') ''context-1'' ''go-a2a'' 100 empty_store) = sample_store ''go-a2a''"
    by auto
  then have run: "(store_step sample_store_config)\<^sup>*\<^sup>* empty_store (sample_store ''go-a2a'')"
    by (metis r_into_rtranclp step_submit)
  with store_reachable_invariant [OF run] show ?thesis by simp
qed

theorem requester_isolation_witness:
  "get_for_requester sample_store_config ''task-1'' ''go-a2a'' (sample_store ''other'') = Inl TASK_NOT_FOUND
   \<and> get_for_requester sample_store_config ''task-1'' ''go-a2a'' empty_store = Inl TASK_NOT_FOUND"
proof -
  from sample_submit_created [of "''other''"] have
    "snd (submit sample_store_config sample_input (dig CHR ''5'') ''context-1'' ''other'' 100 empty_store) = sample_store ''other''"
    by auto
  then have run: "(store_step sample_store_config)\<^sup>*\<^sup>* empty_store (sample_store ''other'')"
    by (metis r_into_rtranclp step_submit)
  have same: "visible ''go-a2a'' (sample_store ''other'') = visible ''go-a2a'' empty_store"
    by (simp add: visible_def sample_store_def sample_row_def new_task_row_def empty_store_def)
  have "''task-1'' \<notin> tk_task_id ` set (tasks (visible ''go-a2a'' (sample_store ''other'')))"
    by (simp add: same) (simp add: visible_def empty_store_def)
  with requester_isolation [OF run rtranclp.rtrancl_refl same, of "''task-1''"] show ?thesis by metis
qed

theorem submit_idempotent_witness:
  "\<exists>rec. submit sample_store_config sample_input (dig CHR ''5'') ''context-2'' ''go-a2a'' 200 (sample_store ''go-a2a'')
     = (Inr (rec, False), purge_expired sample_store_config 200 (sample_store ''go-a2a''))"
proof -
  from sample_submit_created [of "''go-a2a''"] obtain rec where
    "submit sample_store_config sample_input (dig CHR ''5'') ''context-1'' ''go-a2a'' 100 empty_store
      = (Inr (rec, True), sample_store ''go-a2a'')" by auto
  from submit_idempotent [OF store_inv_empty this] show ?thesis by blast
qed

theorem complete_once_witness:
  "\<exists>rec st1. complete sample_store_config ''task-1'' sample_artifact 300 (sample_store ''go-a2a'') = (Inr rec, st1)
     \<and> tr_state rec = TASK_COMPLETED
     \<and> snd (complete sample_store_config ''task-1'' sample_artifact 400 st1) = st1"
proof -
  let ?st = "sample_store ''go-a2a''"
  have row: "lookup_by tk_task_id ''task-1'' (tasks ?st) = Some (sample_row ''go-a2a'')"
    "\<not> terminal (tk_state (sample_row ''go-a2a''))"
    by (simp_all add: sample_store_def sample_row_def new_task_row_def TERMINAL_def)
  have body: "go_json_bytes zero_env (dump_AnalysisArtifact sample_artifact)
      = Inr (go_escape (json_text zero_env (norm_json (dump_AnalysisArtifact sample_artifact))))"
    using finite_dump_sample_artifact by (simp add: go_json_bytes_eq)
  have "\<exists>rec st1. complete sample_store_config ''task-1'' sample_artifact 300 ?st = (Inr rec, st1)"
    using row body
    by (simp add: complete_def complete_body_def insert_artifact_def store_get_def get_locked_def Let_def lift_opt_def
        stateful_defs lookup_by_update) (simp add: sample_store_def sample_row_def new_task_row_def)
  then obtain rec st1 where c: "complete sample_store_config ''task-1'' sample_artifact 300 ?st = (Inr rec, st1)" by blast
  from complete_once [OF row c, of sample_artifact] body c show ?thesis by auto
qed

end
