(* ===== verification/Config.thy ===== *)
theory Config
  imports Security Digests
begin

text \<open>
  Loading of the runtime material and the observed binding (\<open>config.py\<close>).

  The JSON reader, the JSON-schema validator and pydantic's decoder are parameters, the fields of
  \<open>config_env\<close>: \<open>ce_loads\<close> is \<open>json.loads\<close> (\<open>None\<close> for a decoding error), \<open>ce_schema_error\<close>
  gives the location of the first error of an instance against a schema, and \<open>ce_config\<close> and
  \<open>ce_binding\<close> decode a JSON object into a model (\<open>None\<close> for \<open>ValidationError\<close>).

  \<open>BindingState\<close> holds one \<open>runtime_material\<close>; \<open>reload\<close> replaces it under the fence that the
  generation does not regress and that content of one generation does not drift while active.
  The lemmas show what loaded material guarantees and what the fence preserves over any number of
  reloads.
\<close>

record config_env =
  ce_os :: os_env
  ce_py :: pyenv
  ce_loads :: "str \<Rightarrow> json option"
  ce_schema_error :: "(str \<times> json) list \<Rightarrow> (str \<times> json) list \<Rightarrow> str option"
  ce_config :: "(str \<times> json) list \<Rightarrow> analysis_config option"
  ce_binding :: "(str \<times> json) list \<Rightarrow> binding_observation option"

section \<open>Documents\<close>

definition decode_json :: "config_env \<Rightarrow> str \<Rightarrow> str \<Rightarrow> exn + (str \<times> json) list" where
  "decode_json env raw label =
     (case ce_loads env raw of
        None \<Rightarrow> Inl (AnalysisError ''CONFIG_MALFORMED'' (label @ '' is not strict JSON'') 503)
      | Some (JObj kvs) \<Rightarrow> Inr kvs
      | Some _ \<Rightarrow> Inl (AnalysisError ''CONFIG_MALFORMED'' (label @ '' must be a JSON object'') 503))"

text \<open>\<open>str(contract_root / relative)\<close>.\<close>

definition path_join :: "str \<Rightarrow> str \<Rightarrow> str" where
  "path_join base relative = path_text (path_root base) (path_parts base @ path_parts relative)"

definition schema_doc :: "config_env \<Rightarrow> str \<Rightarrow> str \<Rightarrow> exn + (str \<times> json) list" where
  "schema_doc env contract_root relative =
     rbind (read_bounded_regular_file (ce_os env) (path_join contract_root relative) (512 * 1024) False)
       (\<lambda>raw. decode_json env raw relative)"

definition validate_schema ::
  "config_env \<Rightarrow> (str \<times> json) list \<Rightarrow> (str \<times> json) list \<Rightarrow> str \<Rightarrow> exn + unit" where
  "validate_schema env inst schema label =
     (case ce_schema_error env inst schema of
        None \<Rightarrow> Inr ()
      | Some location \<Rightarrow> Inl (AnalysisError ''CONFIG_SCHEMA_REJECTED''
          (label @ '' rejected at '' @ (if location \<noteq> [] then location else ''/'')) 503))"

section \<open>Cross validation\<close>

record runtime_material =
  rt_config :: analysis_config
  rt_config_digest :: str
  rt_manifest :: "(str \<times> json) list"
  rt_manifest_content_digest :: str
  rt_binding :: binding_observation
  rt_contract_root :: str
  rt_store_path :: str

text \<open>
  \<open>manifest.get(key, [])\<close> read as a collection of strings; the manifest schema, validated before,
  admits an array of strings only, any other value raises here.
\<close>

fun json_as_str :: "json \<Rightarrow> exn + str" where
  "json_as_str (JStr s) = Inr s"
| "json_as_str _ = Inl TypeError"

definition manifest_strs :: "(str \<times> json) list \<Rightarrow> str \<Rightarrow> exn + str list" where
  "manifest_strs manifest key =
     (case json_get manifest key of
        None \<Rightarrow> Inr []
      | Some (JArr vs) \<Rightarrow> mapM json_as_str vs
      | Some _ \<Rightarrow> Inl TypeError)"

definition expected_manifest :: "binding_observation \<Rightarrow> (str \<times> str) list" where
  "expected_manifest binding =
     [(''plugin_id'', PLUGIN_ID),
      (''plugin_revision'', bo_plugin_revision binding),
      (''manifest_digest'', bo_manifest_digest binding),
      (''kind'', ''analysis-agent''),
      (''scope'', bo_scope binding),
      (''signature_status'', ''signed''),
      (''runtime_profile'', ''grpc-service/v1'')]"

definition check_expected :: "(str \<times> json) list \<Rightarrow> str \<times> str \<Rightarrow> exn + unit" where
  "check_expected manifest fv =
     raise_if (json_get manifest (fst fv) \<noteq> Some (JStr (snd fv)))
       (AnalysisError ''MANIFEST_BINDING_MISMATCH''
         (''manifest field '' @ fst fv @ '' differs from binding'') 503)"

text \<open>The set of \<open>(capability_id, capability_kind)\<close> of the declared capabilities.\<close>

fun declared_capability :: "json \<Rightarrow> (json option \<times> json option) list" where
  "declared_capability (JObj kvs) =
     (if json_get kvs ''declared'' = Some (JBool True)
      then [(json_get kvs ''capability_id'', json_get kvs ''capability_kind'')] else [])"
| "declared_capability _ = []"

definition manifest_capabilities ::
  "(str \<times> json) list \<Rightarrow> exn + (json option \<times> json option) list" where
  "manifest_capabilities manifest =
     (case json_get manifest ''capabilities'' of
        None \<Rightarrow> Inr []
      | Some (JArr vs) \<Rightarrow> Inr (concat (map declared_capability vs))
      | Some (JStr _) \<Rightarrow> Inr []
      | Some (JObj _) \<Rightarrow> Inr []
      | Some _ \<Rightarrow> Inl TypeError)"

definition has_capability :: "(json option \<times> json option) list \<Rightarrow> str \<Rightarrow> str \<Rightarrow> bool" where
  "has_capability capabilities cid kind \<longleftrightarrow> (Some (JStr cid), Some (JStr kind)) \<in> set capabilities"

definition cross_validate ::
  "analysis_config \<Rightarrow> str \<Rightarrow> (str \<times> json) list \<Rightarrow> str \<Rightarrow> binding_observation \<Rightarrow> exn + unit" where
  "cross_validate config config_digest manifest manifest_content_digest binding =
     rbind (raise_if (ac_plugin_id config \<noteq> PLUGIN_ID \<or> bo_plugin_id binding \<noteq> PLUGIN_ID)
       (AnalysisError ''PLUGIN_IDENTITY_MISMATCH'' ''plugin identity mismatch'' 503)) (\<lambda>_.
     rbind (raise_if (bo_config_digest binding \<noteq> config_digest
         \<or> bo_manifest_content_digest binding \<noteq> manifest_content_digest)
       (AnalysisError ''BINDING_DIGEST_MISMATCH''
          ''binding does not cover exact config and manifest bytes'' 503)) (\<lambda>_.
     rbind (mapM (check_expected manifest) (expected_manifest binding)) (\<lambda>_.
     rbind (manifest_strs manifest ''skill_ids'') (\<lambda>skill_ids.
     rbind (raise_if (sort skill_ids \<noteq> sort SKILLS)
       (AnalysisError ''MANIFEST_CAPABILITY_MISMATCH''
          ''manifest does not declare exactly the qualified skills'' 503)) (\<lambda>_.
     rbind (manifest_capabilities manifest) (\<lambda>capabilities.
     rbind (raise_if (\<not> has_capability capabilities ''analysis-a2a/v1'' ''a2a-agent'')
       (AnalysisError ''MANIFEST_CAPABILITY_MISMATCH'' ''analysis-a2a/v1 capability missing'' 503)) (\<lambda>_.
     rbind (mapM (\<lambda>tool. raise_if (\<not> has_capability capabilities tool ''mcp-tool'')
       (AnalysisError ''MANIFEST_CAPABILITY_MISMATCH'' ''binding tool exceeds manifest capability'' 503))
       (bo_tool_allowlist binding)) (\<lambda>_.
     rbind (mapM (\<lambda>res. raise_if (\<not> has_capability capabilities res ''mcp-resource'')
       (AnalysisError ''MANIFEST_CAPABILITY_MISMATCH'' ''binding resource exceeds manifest capability'' 503))
       (bo_resource_allowlist binding)) (\<lambda>_.
     rbind (raise_if (\<not> set (bo_tool_allowlist binding) \<subseteq> set (mcpc_tool_allowlist (ac_mcp config)))
       (AnalysisError ''CONFIG_CAPABILITY_MISMATCH'' ''binding tool exceeds runtime config allowlist'' 503)) (\<lambda>_.
     rbind (raise_if (\<not> set (bo_resource_allowlist binding) \<subseteq> set (mcpc_resource_allowlist (ac_mcp config)))
       (AnalysisError ''CONFIG_CAPABILITY_MISMATCH'' ''binding resource exceeds runtime config allowlist'' 503)) (\<lambda>_.
     rbind (raise_if (\<not> set (bo_a2a_peer_allowlist binding) \<subseteq> set (map pec_peer_id (ac_a2a_peers config)))
       (AnalysisError ''CONFIG_CAPABILITY_MISMATCH'' ''binding A2A peer exceeds runtime config allowlist'' 503)) (\<lambda>_.
     rbind (manifest_strs manifest ''a2a_peer_ids'') (\<lambda>a2a_peer_ids.
     rbind (raise_if (\<not> set (bo_a2a_peer_allowlist binding) \<subseteq> set a2a_peer_ids)
       (AnalysisError ''MANIFEST_CAPABILITY_MISMATCH'' ''binding A2A peer exceeds manifest allowlist'' 503)) (\<lambda>_.
     raise_if (bo_provider_profile_digest binding \<noteq> prc_profile_digest (ac_provider config))
       (AnalysisError ''PROVIDER_PROFILE_MISMATCH'' ''binding/provider profile mismatch'' 503)))))))))))))))"

section \<open>Loading\<close>

definition is_dir :: "os_env \<Rightarrow> str \<Rightarrow> bool" where
  "is_dir os path \<longleftrightarrow> (case os_stat os path of None \<Rightarrow> False | Some i \<Rightarrow> S_ISDIR (st_mode i))"

definition tls_files_given :: "tls_config \<Rightarrow> bool" where
  "tls_files_given tls \<longleftrightarrow>
     nonempty_opt (tls_cert_file tls) \<and> nonempty_opt (tls_key_file tls) \<and> nonempty_opt (tls_client_ca_file tls)"

text \<open>The configuration part of \<open>load_runtime_material\<close>: the decoded configuration and its digest.\<close>

definition load_config :: "config_env \<Rightarrow> str \<Rightarrow> exn + analysis_config \<times> str" where
  "load_config env config_path =
     rbind (read_bounded_regular_file (ce_os env) config_path (256 * 1024) False) (\<lambda>config_raw.
     rbind (decode_json env config_raw ''analysis config'') (\<lambda>config_doc.
     case ce_config env config_doc of
       None \<Rightarrow> Inl (AnalysisError ''CONFIG_SCHEMA_REJECTED'' ''analysis config failed strict validation'' 503)
     | Some config \<Rightarrow>
     rbind (raise_if (\<not> path_is_absolute (ac_contract_root config)
         \<or> is_symlink (ce_os env) (ac_contract_root config) \<or> \<not> is_dir (ce_os env) (ac_contract_root config))
       (AnalysisError ''CONTRACT_ROOT_REJECTED'' ''contract root must be an absolute ordinary directory'' 503)) (\<lambda>_.
     rbind (schema_doc env (ac_contract_root config) ''analysis/config/v1/schema.json'') (\<lambda>schema.
     rbind (validate_schema env config_doc schema ''analysis config'') (\<lambda>_.
     let production = (ac_runtime_profile config = ''production'') in
     rbind (raise_if (production \<and> \<not> tls_enabled (ac_tls config))
       (AnalysisError ''TLS_CONFIG_REJECTED'' ''production A2A requires mTLS'' 503)) (\<lambda>_.
     rbind (raise_if (tls_enabled (ac_tls config) \<and> \<not> tls_files_given (ac_tls config))
       (AnalysisError ''TLS_CONFIG_REJECTED'' ''enabled A2A TLS requires cert, key, and client CA'' 503)) (\<lambda>_.
     rbind (validate_outbound_url (ce_os env) (ob_base_url (ac_mcp config))
       (ob_allowed_ips (ac_mcp config)) production) (\<lambda>_.
     rbind (validate_outbound_url (ce_os env) (ob_base_url (ac_provider config))
       (ob_allowed_ips (ac_provider config)) production) (\<lambda>_.
     rbind (mapM (\<lambda>peer. validate_outbound_url (ce_os env) (ob_base_url peer) (ob_allowed_ips peer) production)
       (ac_a2a_peers config)) (\<lambda>_.
     Inr (config, file_digest (ce_py env) config_raw)))))))))))"

definition load_manifest :: "config_env \<Rightarrow> analysis_config \<Rightarrow> exn + (str \<times> json) list \<times> str" where
  "load_manifest env config =
     rbind (read_bounded_regular_file (ce_os env) (ac_manifest_path config) (512 * 1024) False) (\<lambda>manifest_raw.
     rbind (decode_json env manifest_raw ''plugin manifest'') (\<lambda>manifest.
     rbind (schema_doc env (ac_contract_root config) ''plugin/manifest/v1/schema.json'') (\<lambda>schema.
     rbind (validate_schema env manifest schema ''plugin manifest'') (\<lambda>_.
     Inr (manifest, file_digest (ce_py env) manifest_raw)))))"

definition load_binding :: "config_env \<Rightarrow> analysis_config \<Rightarrow> exn + binding_observation" where
  "load_binding env config =
     rbind (read_bounded_regular_file (ce_os env) (ac_binding_path config) (256 * 1024) False) (\<lambda>binding_raw.
     rbind (decode_json env binding_raw ''analysis binding'') (\<lambda>binding_doc.
     rbind (schema_doc env (ac_contract_root config) ''analysis/binding/v1/schema.json'') (\<lambda>schema.
     rbind (validate_schema env binding_doc schema ''analysis binding'') (\<lambda>_.
     case ce_binding env binding_doc of
       None \<Rightarrow> Inl (AnalysisError ''BINDING_REJECTED'' ''analysis binding failed strict validation'' 503)
     | Some binding \<Rightarrow>
     rbind (canonical_digest (ce_py env) (JObj (without_key binding_doc ''binding_digest''))) (\<lambda>d.
     rbind (raise_if (d \<noteq> bo_binding_digest binding)
       (AnalysisError ''BINDING_DIGEST_MISMATCH'' ''analysis binding digest mismatch'' 503)) (\<lambda>_.
     Inr binding))))))"

definition load_runtime_material :: "config_env \<Rightarrow> str \<Rightarrow> exn + runtime_material" where
  "load_runtime_material env config_path =
     rbind (load_config env config_path) (\<lambda>(config, config_digest).
     rbind (load_manifest env config) (\<lambda>(manifest, manifest_content_digest).
     rbind (load_binding env config) (\<lambda>binding.
     rbind (cross_validate config config_digest manifest manifest_content_digest binding) (\<lambda>_.
     let production = (ac_runtime_profile config = ''production'') in
     rbind (validate_storage_path (ce_os env) (ac_store_path config) production) (\<lambda>store_path.
     rbind (validate_storage_path (ce_os env) (ac_health_state_path config) production) (\<lambda>_.
     Inr \<lparr>rt_config = config, rt_config_digest = config_digest, rt_manifest = manifest,
       rt_manifest_content_digest = manifest_content_digest, rt_binding = binding,
       rt_contract_root = ac_contract_root config, rt_store_path = store_path\<rparr>))))))"

section \<open>The observed binding\<close>

text \<open>The state of \<open>BindingState\<close> is its material; \<open>snapshot\<close> and \<open>matches_input\<close> only read it.\<close>

definition snapshot :: "runtime_material \<Rightarrow> int \<Rightarrow> exn + binding_observation" where
  "snapshot st now_ms =
     (let binding = rt_binding st in
      if bo_expires_at_unix_ms binding \<le> now_ms
      then Inl (AnalysisError ''BINDING_UNAVAILABLE'' ''binding observation expired'' 503)
      else if bo_activation_state binding \<noteq> ''active'' \<or> bo_qualification_status binding \<noteq> ''qualified''
      then Inl (AnalysisError ''BINDING_UNAVAILABLE'' ''exact qualified active binding unavailable'' 503)
      else Inr binding)"

text \<open>The fence of \<open>reload\<close>: may \<open>current\<close> replace \<open>previous\<close>?\<close>

definition reload_fence :: "binding_observation \<Rightarrow> binding_observation \<Rightarrow> exn + unit" where
  "reload_fence previous current =
     rbind (raise_if (bo_plugin_id current \<noteq> bo_plugin_id previous \<or> bo_scope current \<noteq> bo_scope previous)
       (AnalysisError ''BINDING_FENCED'' ''binding reload changed immutable plugin scope'' 503)) (\<lambda>_.
     rbind (raise_if (bo_binding_generation current < bo_binding_generation previous)
       (AnalysisError ''BINDING_FENCED'' ''binding generation regressed'' 503)) (\<lambda>_.
     raise_if (bo_binding_generation current = bo_binding_generation previous
         \<and> bo_binding_digest current \<noteq> bo_binding_digest previous
         \<and> \<not> (bo_activation_state previous = ''active''
              \<and> bo_activation_state current \<in> set [''draining'', ''disabled'', ''revoked'', ''expired'']))
       (AnalysisError ''BINDING_FENCED'' ''same generation binding content drifted'' 503)))"

definition reload ::
  "config_env \<Rightarrow> str \<Rightarrow> runtime_material \<Rightarrow> (exn + binding_observation) \<times> runtime_material" where
  "reload env config_path st =
     (case load_runtime_material env config_path of
        Inl e \<Rightarrow> (Inl e, st)
      | Inr replacement \<Rightarrow>
          (case reload_fence (rt_binding st) (rt_binding replacement) of
             Inl e \<Rightarrow> (Inl e, st)
           | Inr _ \<Rightarrow> (Inr (rt_binding replacement), replacement)))"

definition input_matches :: "frozen_input \<Rightarrow> binding_observation \<Rightarrow> bool" where
  "input_matches input_bundle binding \<longleftrightarrow>
     \<not> (fi_plugin_id input_bundle \<noteq> bo_plugin_id binding
      \<or> fi_plugin_revision input_bundle \<noteq> bo_plugin_revision binding
      \<or> fi_config_digest input_bundle \<noteq> bo_config_digest binding
      \<or> fi_binding_generation input_bundle \<noteq> bo_binding_generation binding
      \<or> fi_scope input_bundle \<noteq> bo_scope binding
      \<or> fi_skill input_bundle \<notin> set (bo_skill_ids binding)
      \<or> fi_provider_profile_digest input_bundle \<noteq> bo_provider_profile_digest binding
      \<or> fi_prompt_profile_digest input_bundle \<noteq> bo_prompt_profile_digest binding
      \<or> fi_tool_policy_digest input_bundle \<noteq> bo_tool_policy_digest binding
      \<or> fi_redaction_profile_digest input_bundle \<noteq> bo_redaction_profile_digest binding)"

definition matches_input :: "runtime_material \<Rightarrow> frozen_input \<Rightarrow> int \<Rightarrow> exn + binding_observation" where
  "matches_input st input_bundle now_ms =
     rbind (snapshot st now_ms) (\<lambda>binding.
     if \<not> input_matches input_bundle binding
     then Inl (AnalysisError ''BINDING_FENCED'' ''task does not match exact active binding'' 409)
     else Inr binding)"

section \<open>What loaded material guarantees\<close>

lemma load_parts:
  assumes "load_runtime_material env path = Inr m"
  shows "load_config env path = Inr (rt_config m, rt_config_digest m)"
    and "load_manifest env (rt_config m) = Inr (rt_manifest m, rt_manifest_content_digest m)"
    and "load_binding env (rt_config m) = Inr (rt_binding m)"
    and "cross_validate (rt_config m) (rt_config_digest m) (rt_manifest m) (rt_manifest_content_digest m)
           (rt_binding m) = Inr ()"
  using assms by (auto simp: load_runtime_material_def rbind_case_prod rbind_eq_Inr Let_def)

lemma cross_validate_ok:
  assumes "cross_validate config config_digest manifest manifest_digest binding = Inr ()"
  shows "bo_plugin_id binding = PLUGIN_ID" "ac_plugin_id config = PLUGIN_ID"
    "bo_config_digest binding = config_digest" "bo_manifest_content_digest binding = manifest_digest"
    "set (bo_tool_allowlist binding) \<subseteq> set (mcpc_tool_allowlist (ac_mcp config))"
    "set (bo_resource_allowlist binding) \<subseteq> set (mcpc_resource_allowlist (ac_mcp config))"
    "set (bo_a2a_peer_allowlist binding) \<subseteq> pec_peer_id ` set (ac_a2a_peers config)"
    "bo_provider_profile_digest binding = prc_profile_digest (ac_provider config)"
  using assms by (auto simp: cross_validate_def rbind_eq_Inr)

lemma cross_validate_capabilities:
  assumes "cross_validate config config_digest manifest manifest_digest binding = Inr ()"
  shows "\<exists>caps. manifest_capabilities manifest = Inr caps
     \<and> (\<forall>t \<in> set (bo_tool_allowlist binding). has_capability caps t ''mcp-tool'')
     \<and> (\<forall>r \<in> set (bo_resource_allowlist binding). has_capability caps r ''mcp-resource'')"
proof -
  from assms obtain caps us vs where caps: "manifest_capabilities manifest = Inr caps"
    and tools: "mapM (\<lambda>tool. raise_if (\<not> has_capability caps tool ''mcp-tool'')
       (AnalysisError ''MANIFEST_CAPABILITY_MISMATCH'' ''binding tool exceeds manifest capability'' 503))
       (bo_tool_allowlist binding) = Inr us"
    and resources: "mapM (\<lambda>res. raise_if (\<not> has_capability caps res ''mcp-resource'')
       (AnalysisError ''MANIFEST_CAPABILITY_MISMATCH'' ''binding resource exceeds manifest capability'' 503))
       (bo_resource_allowlist binding) = Inr vs"
    unfolding cross_validate_def rbind_eq_Inr by (elim exE conjE) (rule that)
  show ?thesis
    using caps mapM_raise_if_ok [where P = "\<lambda>t. has_capability caps t ''mcp-tool''", OF tools]
      mapM_raise_if_ok [where P = "\<lambda>r. has_capability caps r ''mcp-resource''", OF resources]
    by auto
qed

lemma load_config_tls:
  "load_config env path = Inr (config, d) \<Longrightarrow> ac_runtime_profile config = ''production'' \<Longrightarrow>
   tls_enabled (ac_tls config) \<and> tls_files_given (ac_tls config)"
  by (auto simp: load_config_def rbind_eq_Inr Let_def split: option.splits)

lemma load_binding_digest:
  "load_binding env config = Inr b \<Longrightarrow>
   \<exists>doc. ce_binding env doc = Some b
     \<and> canonical_digest (ce_py env) (JObj (without_key doc ''binding_digest'')) = Inr (bo_binding_digest b)"
  by (auto simp: load_binding_def res_simps split: option.splits if_splits)

text \<open>
  C18: material that loads is closed under authority. The binding belongs to this plugin, its digest is
  the canonical digest of the document it was decoded from, it names the digests of the exact
  configuration and manifest bytes that were read, its tools, resources and peers are contained in
  the runtime configuration, its tools and resources are declared capabilities of the manifest, its
  provider profile is the configured one, and a production configuration has complete mutual TLS.
\<close>

theorem loaded_material_closed:
  assumes "load_runtime_material env path = Inr m"
  shows "bo_plugin_id (rt_binding m) = PLUGIN_ID
    \<and> bo_config_digest (rt_binding m) = rt_config_digest m
    \<and> bo_manifest_content_digest (rt_binding m) = rt_manifest_content_digest m
    \<and> (\<exists>doc. ce_binding env doc = Some (rt_binding m)
         \<and> canonical_digest (ce_py env) (JObj (without_key doc ''binding_digest''))
             = Inr (bo_binding_digest (rt_binding m)))
    \<and> set (bo_tool_allowlist (rt_binding m)) \<subseteq> set (mcpc_tool_allowlist (ac_mcp (rt_config m)))
    \<and> set (bo_resource_allowlist (rt_binding m)) \<subseteq> set (mcpc_resource_allowlist (ac_mcp (rt_config m)))
    \<and> set (bo_a2a_peer_allowlist (rt_binding m)) \<subseteq> pec_peer_id ` set (ac_a2a_peers (rt_config m))
    \<and> (\<exists>caps. manifest_capabilities (rt_manifest m) = Inr caps
         \<and> (\<forall>t \<in> set (bo_tool_allowlist (rt_binding m)). has_capability caps t ''mcp-tool'')
         \<and> (\<forall>r \<in> set (bo_resource_allowlist (rt_binding m)). has_capability caps r ''mcp-resource''))
    \<and> bo_provider_profile_digest (rt_binding m) = prc_profile_digest (ac_provider (rt_config m))
    \<and> (ac_runtime_profile (rt_config m) = ''production'' \<longrightarrow>
         tls_enabled (ac_tls (rt_config m)) \<and> tls_files_given (ac_tls (rt_config m)))"
  using cross_validate_ok [OF load_parts(4) [OF assms]]
    cross_validate_capabilities [OF load_parts(4) [OF assms]]
    load_binding_digest [OF load_parts(3) [OF assms]] load_config_tls [OF load_parts(1) [OF assms]]
  by blast

text \<open>A concrete environment in which material loads.\<close>

definition sample_manifest :: "(str \<times> json) list" where
  "sample_manifest =
     [(''plugin_id'', JStr PLUGIN_ID), (''plugin_revision'', JStr (replicate 40 CHR ''a'')),
      (''manifest_digest'', JStr (dig CHR ''b'')), (''kind'', JStr ''analysis-agent''),
      (''scope'', JStr ''site-a''), (''signature_status'', JStr ''signed''),
      (''runtime_profile'', JStr ''grpc-service/v1''), (''skill_ids'', JArr (map JStr SKILLS)),
      (''capabilities'', JArr (map (\<lambda>(i, k). JObj [(''capability_id'', JStr i),
         (''capability_kind'', JStr k), (''declared'', JBool True)])
         [(''analysis-a2a/v1'', ''a2a-agent''), (''masi.evidence.get'', ''mcp-tool''),
          (''masi.evidence.recent'', ''mcp-resource'')])),
      (''a2a_peer_ids'', JArr [JStr ''peer-1''])]"

definition sample_py :: "char \<Rightarrow> pyenv" where
  "sample_py c = zero_env\<lparr>hexdigest := (\<lambda>raw. replicate 64
     (if raw = ''config'' then CHR ''1'' else if raw = ''manifest'' then CHR ''c'' else c))\<rparr>"

definition sample_files :: os_env where
  "sample_files = sample_os\<lparr>
     os_stat := (\<lambda>p. if p = ''/s/db'' \<or> p = ''/s/h'' then None else Some \<lparr>st_mode = 0x41C0, st_size = 10, st_uid = 7\<rparr>),
     os_read := (\<lambda>p. if p = ''/m'' then ''manifest'' else if p = ''/b'' then ''binding'' else ''config'')\<rparr>"

definition sample_config_env :: "binding_observation \<Rightarrow> char \<Rightarrow> config_env" where
  "sample_config_env b c = \<lparr>ce_os = sample_files, ce_py = sample_py c,
     ce_loads = (\<lambda>raw. if raw = ''manifest'' then Some (JObj sample_manifest) else Some (JObj [])),
     ce_schema_error = (\<lambda>_ _. None), ce_config = (\<lambda>_. Some sample_config),
     ce_binding = (\<lambda>_. Some b)\<rparr>"

definition sample_material :: "binding_observation \<Rightarrow> runtime_material" where
  "sample_material b = \<lparr>rt_config = sample_config, rt_config_digest = dig CHR ''1'',
     rt_manifest = sample_manifest, rt_manifest_content_digest = dig CHR ''c'', rt_binding = b,
     rt_contract_root = ''/c'', rt_store_path = ''/s/db''\<rparr>"

lemma sample_loads: "load_runtime_material (sample_config_env sample_binding CHR ''0'') ''/cfg'' = Inr (sample_material sample_binding)"
  by code_simp

theorem loaded_material_closed_witness:
  "bo_plugin_id (rt_binding (sample_material sample_binding)) = PLUGIN_ID
    \<and> set (bo_tool_allowlist (rt_binding (sample_material sample_binding))) \<subseteq> {''masi.evidence.get''}"
  using loaded_material_closed [OF sample_loads]
  by (simp add: sample_material_def sample_config_def sample_mcp_def sample_tls_def
    outbound_tls.defs mcp_config.defs)

section \<open>The reload fence\<close>

text \<open>
  \<open>reload_step E\<close> is one call of \<open>reload\<close>, successful or not, in some environment of \<open>E\<close>, and
  \<open>digest_faithful E\<close> says that among all bindings that load in those environments equal binding
  digests mean equal bindings (no collision of the canonical digest).
\<close>

definition loadable :: "config_env set \<Rightarrow> runtime_material \<Rightarrow> bool" where
  "loadable E m \<longleftrightarrow> (\<exists>env \<in> E. \<exists>path. load_runtime_material env path = Inr m)"

definition digest_faithful :: "config_env set \<Rightarrow> bool" where
  "digest_faithful E \<longleftrightarrow>
     (\<forall>m m'. loadable E m \<longrightarrow> loadable E m' \<longrightarrow>
        bo_binding_digest (rt_binding m) = bo_binding_digest (rt_binding m') \<longrightarrow> rt_binding m = rt_binding m')"

inductive reload_step :: "config_env set \<Rightarrow> runtime_material \<Rightarrow> runtime_material \<Rightarrow> bool" for E where
  reload_call: "env \<in> E \<Longrightarrow> m' = snd (reload env path m) \<Longrightarrow> reload_step E m m'"

definition reload_inv :: "config_env set \<Rightarrow> runtime_material \<Rightarrow> runtime_material \<Rightarrow> bool" where
  "reload_inv E m0 m \<longleftrightarrow>
     digest_faithful E \<and> loadable E m
   \<and> bo_plugin_id (rt_binding m) = bo_plugin_id (rt_binding m0)
   \<and> bo_scope (rt_binding m) = bo_scope (rt_binding m0)
   \<and> bo_binding_generation (rt_binding m0) \<le> bo_binding_generation (rt_binding m)
   \<and> (bo_binding_generation (rt_binding m) = bo_binding_generation (rt_binding m0) \<longrightarrow>
        rt_binding m = rt_binding m0 \<or> bo_activation_state (rt_binding m) \<noteq> ''active'')"

lemma reload_fence_ok:
  "reload_fence p c = Inr u \<longleftrightarrow>
     bo_plugin_id c = bo_plugin_id p \<and> bo_scope c = bo_scope p
   \<and> bo_binding_generation p \<le> bo_binding_generation c
   \<and> (bo_binding_generation c = bo_binding_generation p \<longrightarrow>
        bo_binding_digest c = bo_binding_digest p
      \<or> bo_activation_state p = ''active''
        \<and> bo_activation_state c \<in> set [''draining'', ''disabled'', ''revoked'', ''expired''])"
  by (auto simp: reload_fence_def res_simps)

lemma reload_cases:
  assumes "snd (reload env path m) = m'"
  shows "m' = m \<or> load_runtime_material env path = Inr m' \<and> reload_fence (rt_binding m) (rt_binding m') = Inr ()"
  using assms by (auto simp: reload_def split: sum.splits)

lemma reload_inv_step:
  assumes inv: "reload_inv E m0 m" and step: "reload_step E m m'"
  shows "reload_inv E m0 m'"
proof -
  from step obtain env path where env: "env \<in> E" "snd (reload env path m) = m'"
    by (auto simp: reload_step.simps)
  consider "m' = m" | "load_runtime_material env path = Inr m'" "reload_fence (rt_binding m) (rt_binding m') = Inr ()"
    using reload_cases [OF env(2)] by blast
  then show ?thesis
  proof cases
    case 2
    then have "loadable E m'" using env(1) by (auto simp: loadable_def)
    moreover from inv have "digest_faithful E" "loadable E m" by (simp_all add: reload_inv_def)
    ultimately have same: "rt_binding m' = rt_binding m"
      if "bo_binding_digest (rt_binding m') = bo_binding_digest (rt_binding m)"
      using that unfolding digest_faithful_def by blast
    show ?thesis
      using inv 2(2) same \<open>loadable E m'\<close> unfolding reload_inv_def reload_fence_ok by fastforce
  qed (use inv in simp)
qed

lemma reload_inv_init: "digest_faithful E \<Longrightarrow> loadable E m0 \<Longrightarrow> reload_inv E m0 m0"
  by (simp add: reload_inv_def)

interpretation reloads: invariant_machine
  "\<lambda>m. digest_faithful E \<and> loadable E m0 \<and> m = m0" "reload_step E" "reload_inv E m0" for E m0
  by unfold_locales (blast intro: reload_inv_init reload_inv_step)+

text \<open>
  C19: over any sequence of reload attempts, in any environments, the plugin identity and scope of the
  observed binding never change and its generation never regresses; and whenever the binding is usable
  (\<open>snapshot\<close> returns it) at two moments with the same generation, it is the same binding: a
  binding that left its generation's active content cannot come back, changed or not, before the
  generation increases.
\<close>

theorem reload_never_regresses:
  assumes "digest_faithful E" and "loadable E m0" and "(reload_step E)\<^sup>*\<^sup>* m0 m"
  shows "bo_plugin_id (rt_binding m) = bo_plugin_id (rt_binding m0)
    \<and> bo_scope (rt_binding m) = bo_scope (rt_binding m0)
    \<and> bo_binding_generation (rt_binding m0) \<le> bo_binding_generation (rt_binding m)
    \<and> (\<forall>t0 t b0 b. snapshot m0 t0 = Inr b0 \<longrightarrow> snapshot m t = Inr b \<longrightarrow>
         bo_binding_generation b = bo_binding_generation b0 \<longrightarrow> b = b0)"
proof -
  have "reload_inv E m0 m" by (rule reloads.inv_reachable [OF _ assms(3)]) (use assms in simp)
  then show ?thesis
    by (auto simp: reload_inv_def snapshot_def Let_def split: if_splits)
qed

definition drained_binding :: binding_observation where
  "drained_binding = sample_binding\<lparr>bo_activation_state := ''draining'', bo_binding_digest := dig CHR ''e''\<rparr>"

lemma drained_loads:
  "load_runtime_material (sample_config_env drained_binding CHR ''e'') ''/cfg'' = Inr (sample_material drained_binding)"
  by code_simp

lemma sample_load_binding:
  "load_runtime_material (sample_config_env b c) path = Inr m \<Longrightarrow> rt_binding m = b"
  using load_binding_digest [OF load_parts(3), of "sample_config_env b c" path m]
  by (auto simp: sample_config_env_def)

theorem reload_never_regresses_witness:
  "bo_binding_generation (rt_binding (sample_material sample_binding))
     \<le> bo_binding_generation (rt_binding (sample_material drained_binding))
   \<and> fst (reload (sample_config_env drained_binding CHR ''e'') ''/cfg'' (sample_material sample_binding))
       = Inr drained_binding"
proof -
  let ?e = "sample_config_env sample_binding CHR ''0''" and ?d = "sample_config_env drained_binding CHR ''e''"
  let ?m = "sample_material sample_binding" and ?m' = "sample_material drained_binding"
  have "loadable {?e, ?d} ?m" using sample_loads by (auto simp: loadable_def)
  moreover have differ: "bo_binding_digest sample_binding \<noteq> bo_binding_digest drained_binding" by code_simp
  have "digest_faithful {?e, ?d}"
    using differ by (auto simp: digest_faithful_def loadable_def dest!: sample_load_binding)
  moreover have "reload_fence sample_binding drained_binding = Inr ()" by code_simp
  then have call: "reload ?d ''/cfg'' ?m = (Inr drained_binding, ?m')"
    by (simp add: reload_def drained_loads sample_material_def)
  then have "(reload_step {?e, ?d})\<^sup>*\<^sup>* ?m ?m'"
    by (intro r_into_rtranclp reload_call [of ?d _ _ "''/cfg''"]) simp_all
  ultimately have "bo_binding_generation (rt_binding ?m) \<le> bo_binding_generation (rt_binding ?m')"
    using reload_never_regresses [of "{?e, ?d}" ?m ?m'] by blast
  with call show ?thesis by simp
qed

end
