(* ===== verification/Transport.thy ===== *)
theory Transport
  imports Security
begin

text \<open>
  The bounded outbound HTTP client (\<open>transport.py\<close>).

  The outside world is the record \<open>world\<close>. \<open>w_sent\<close> is the log of the requests handed to the HTTP
  library, in order; it is the only part a call changes beside the status fields of the adapters. The
  other fields are oracles: the reply to the last request of a log, the wall clock and the time
  elapsed since the graph started as functions of the log, which of several concurrent failures is
  seen first, and whether the two enclosing timeouts fire. \<open>httpx\<close> itself is the oracle: a reply is a
  transport failure (or timeout), or a status, headers and the chunks of the body.

  A client is pinned when it is constructed: the address that every later request goes to is fixed
  then, and is one of the statically allowed addresses even if the name resolves differently between
  the validation and the pinning.
\<close>

section \<open>The outside world\<close>

record http_request =
  hr_method :: str
  hr_url :: str
  hr_headers :: "(str \<times> str) list"
  hr_body :: "str option"
  hr_sni :: str
  hr_timeout_ms :: int

datatype net_reply = NetFailure | NetReply int "(str \<times> str) list" "str list"

record world =
  w_sent :: "http_request list"
  w_reply :: "http_request list \<Rightarrow> net_reply"
  w_now_ms :: "http_request list \<Rightarrow> int"
  w_elapsed_ms :: "http_request list \<Rightarrow> int"
  w_pick :: "exn list \<Rightarrow> nat"
  w_gather_timeout :: bool
  w_graph_timeout :: bool
  w_provider_status :: "str \<times> int"
  w_mcp_status :: "str \<times> int"
  w_peer_status :: "str \<times> int"

type_synonym 'a world_call = "world \<Rightarrow> (exn + 'a) \<times> world"

definition now_ms :: "world \<Rightarrow> int" where
  "now_ms w = w_now_ms w (w_sent w)"

text \<open>
  \<open>asyncio.gather\<close> of calls that do not depend on each other: all run, and when some fail the
  failure that happens first is raised. The calls are run in index order; another interleaving is
  another reply oracle.
\<close>

fun run_all :: "'a world_call list \<Rightarrow> world \<Rightarrow> (exn + 'a) list \<times> world" where
  "run_all [] w = ([], w)"
| "run_all (c # cs) w =
     (case c w of (r, w1) \<Rightarrow> case run_all cs w1 of (rs, w2) \<Rightarrow> (r # rs, w2))"

definition failures :: "(exn + 'a) list \<Rightarrow> exn list" where
  "failures rs = concat (map (\<lambda>r. case r of Inl e \<Rightarrow> [e] | Inr _ \<Rightarrow> []) rs)"

definition successes :: "(exn + 'a) list \<Rightarrow> 'a list" where
  "successes rs = concat (map (\<lambda>r. case r of Inl _ \<Rightarrow> [] | Inr x \<Rightarrow> [x]) rs)"

definition gather :: "'a world_call list \<Rightarrow> 'a list world_call" where
  "gather cs w =
     (case run_all cs w of
        (rs, w') \<Rightarrow>
          (let es = failures rs in
           if es = [] then (Inr (successes rs), w')
           else (Inl (es ! (w_pick w' es mod length es)), w')))"

section \<open>Headers\<close>

text \<open>\<open>httpx.Headers.get\<close>: the names compare without case.\<close>

definition lower_str :: "str \<Rightarrow> str" where
  "lower_str s = map lower_char s"

definition header_get :: "(str \<times> str) list \<Rightarrow> str \<Rightarrow> str option" where
  "header_get headers name =
     map_option snd (find (\<lambda>h. lower_str (fst h) = lower_str name) headers)"

text \<open>\<open>headers.get("Content-Type", "").split(";", 1)[0].strip().lower()\<close>.\<close>

definition media_type :: "(str \<times> str) list \<Rightarrow> str" where
  "media_type headers =
     (let v = (case header_get headers ''Content-Type'' of None \<Rightarrow> [] | Some t \<Rightarrow> t)
      in lower_str (py_strip (takeWhile (\<lambda>c. c \<noteq> CHR '';'') v)))"

section \<open>The pinned client\<close>

record bounded_response =
  br_status_code :: int
  br_headers :: "(str \<times> str) list"
  br_body :: str

definition json_object :: "(str \<Rightarrow> json option) \<Rightarrow> bounded_response \<Rightarrow> exn + (str \<times> json) list" where
  "json_object loads resp =
     (case loads (br_body resp) of
        None \<Rightarrow> Inl (AnalysisErrorR ''OUTBOUND_MALFORMED'' ''outbound response is not strict JSON'' 503 True)
      | Some (JObj kvs) \<Rightarrow> Inr kvs
      | Some _ \<Rightarrow> Inl (AnalysisErrorR ''OUTBOUND_MALFORMED'' ''outbound response must be a JSON object'' 503 True))"

record pinned_client =
  pc_scheme :: str
  pc_host :: str
  pc_port :: int
  pc_ip :: str
  pc_server_name :: str

text \<open>
  The constructor; \<open>os\<close> answers the validation and \<open>os'\<close> the second resolution.
\<close>

definition new_pinned_client ::
  "os_env \<Rightarrow> os_env \<Rightarrow> str \<Rightarrow> str list \<Rightarrow> str \<Rightarrow> bool \<Rightarrow> exn + pinned_client" where
  "new_pinned_client os os' base_url allowed_ips server_name production =
     rbind (validate_outbound_url os base_url allowed_ips production) (\<lambda>(host, port).
     rbind (mapM (ip_str os') allowed_ips) (\<lambda>allowed.
     case os_getaddrinfo os' host port of
       None \<Rightarrow> Inl OSError
     | Some items \<Rightarrow>
     rbind (mapM (ip_str os') items) (\<lambda>addresses.
     let resolved = sorted_set (filter (\<lambda>a. a \<in> set allowed) addresses) in
     if resolved = []
     then Inl (AnalysisError ''ENDPOINT_IP_REJECTED'' ''no pinned outbound address remains'' 503)
     else Inr \<lparr>pc_scheme = url_scheme (os_urlsplit os base_url), pc_host = host, pc_port = port,
                pc_ip = hd resolved, pc_server_name = server_name\<rparr>)))"

definition pinned_url :: "pinned_client \<Rightarrow> str \<Rightarrow> exn + str" where
  "pinned_url client path =
     (if \<not> starts_with ''/'' path \<or> CHR ''?'' \<in> set path \<or> CHR ''#'' \<in> set path
      then Inl (AnalysisError ''ENDPOINT_PATH_REJECTED'' ''outbound request path rejected'' 500)
      else Inr (pc_scheme client @ ''://'' @ pc_ip client @ '':'' @ int_str (pc_port client) @ path))"

definition host_header :: "pinned_client \<Rightarrow> str" where
  "host_header client =
     (let default_port = (if pc_scheme client = ''https'' then 443 else 80)
      in if pc_port client = default_port then pc_host client
         else pc_host client @ '':'' @ int_str (pc_port client))"

text \<open>\<open>request_headers["Host"] = ..\<close> on a copy of the headers.\<close>

definition with_host :: "(str \<times> str) list \<Rightarrow> str \<Rightarrow> (str \<times> str) list" where
  "with_host headers host = filter (\<lambda>h. fst h \<noteq> ''Host'') headers @ [(''Host'', host)]"

fun read_chunks :: "int \<Rightarrow> str \<Rightarrow> str list \<Rightarrow> exn + str" where
  "read_chunks max_bytes acc [] = Inr acc"
| "read_chunks max_bytes acc (chunk # rest) =
     (if int (length acc + length chunk) > max_bytes
      then Inl (AnalysisError ''OUTBOUND_RESPONSE_TOO_LARGE'' ''outbound response exceeded bound'' 503)
      else read_chunks max_bytes (acc @ chunk) rest)"

definition send :: "http_request \<Rightarrow> net_reply world_call" where
  "send rq w = (let log = w_sent w @ [rq] in (Inr (w_reply w log), w\<lparr>w_sent := log\<rparr>))"

definition receive :: "net_reply \<Rightarrow> int \<Rightarrow> bool \<Rightarrow> exn + bounded_response" where
  "receive reply max_response_bytes allow_empty =
     (case reply of
        NetFailure \<Rightarrow> Inl (AnalysisErrorR ''OUTBOUND_UNAVAILABLE'' ''bounded outbound request failed'' 503 True)
      | NetReply status headers parts \<Rightarrow>
          if 300 \<le> status \<and> status < 400
          then Inl (AnalysisError ''OUTBOUND_REDIRECT_REJECTED'' ''outbound redirect rejected'' 503)
          else rbind (read_chunks max_response_bytes [] parts) (\<lambda>raw.
            if raw = [] \<and> \<not> allow_empty
            then Inl (AnalysisErrorR ''OUTBOUND_MALFORMED'' ''outbound response was empty'' 503 True)
            else Inr \<lparr>br_status_code = status, br_headers = headers, br_body = raw\<rparr>))"

definition http_call ::
  "pinned_client \<Rightarrow> str \<Rightarrow> str \<Rightarrow> (str \<times> str) list \<Rightarrow> str option \<Rightarrow> int \<Rightarrow> int \<Rightarrow> bool \<Rightarrow> bounded_response world_call" where
  "http_call client method path headers body timeout_ms max_response_bytes allow_empty =
     (if timeout_ms < 1 \<or> max_response_bytes < 1
      then raiseS (AnalysisError ''OUTBOUND_BOUND_REJECTED'' ''outbound bounds invalid'' 500)
      else case pinned_url client path of
        Inl e \<Rightarrow> raiseS e
      | Inr url \<Rightarrow>
          bindS (send \<lparr>hr_method = method, hr_url = url,
              hr_headers = with_host headers (host_header client), hr_body = body,
              hr_sni = pc_server_name client, hr_timeout_ms = timeout_ms\<rparr>) (\<lambda>reply.
          readS (\<lambda>_. receive reply max_response_bytes allow_empty)))"

section \<open>Bounds and pinning\<close>

lemma read_chunks_bound: "read_chunks n acc parts = Inr raw \<Longrightarrow> int (length acc) \<le> n \<Longrightarrow> int (length raw) \<le> n"
  by (induction n acc parts rule: read_chunks.induct) (auto split: if_splits)

lemma read_chunks_concat: "read_chunks n acc parts = Inr raw \<Longrightarrow> raw = acc @ concat parts"
  by (induction n acc parts rule: read_chunks.induct) (auto split: if_splits)

lemma receive_ok:
  assumes "receive reply n allow_empty = Inr resp" and "0 \<le> n"
  shows "\<exists>parts. reply = NetReply (br_status_code resp) (br_headers resp) parts
    \<and> br_body resp = concat parts \<and> int (length (br_body resp)) \<le> n
    \<and> \<not> (300 \<le> br_status_code resp \<and> br_status_code resp < 400) \<and> (br_body resp = [] \<longrightarrow> allow_empty)"
  using assms
  by (auto simp: receive_def rbind_eq_Inr dest: read_chunks_bound read_chunks_concat
      split: net_reply.splits if_splits)

lemma receive_error: "receive reply n a = Inl e \<Longrightarrow> is_analysis_error e"
proof -
  have "read_chunks n acc parts = Inl e \<Longrightarrow> is_analysis_error e" for n acc parts
    by (induction n acc parts rule: read_chunks.induct) (auto split: if_splits)
  then show "receive reply n a = Inl e \<Longrightarrow> is_analysis_error e"
    by (auto simp: receive_def rbind_eq_Inl split: net_reply.splits if_splits)
qed

lemma pinned_ip_allowed:
  assumes "new_pinned_client os os' base_url allowed_ips server_name production = Inr c"
  shows "\<exists>b \<in> set allowed_ips. os_ip_str os' b = Some (pc_ip c)" and "pc_server_name c = server_name"
proof -
  from assms obtain host port allowed items addresses where
    al: "mapM (ip_str os') allowed_ips = Inr allowed" and
    ne: "sorted_set (filter (\<lambda>a. a \<in> set allowed) addresses) \<noteq> []" and
    c: "c = \<lparr>pc_scheme = url_scheme (os_urlsplit os base_url), pc_host = host, pc_port = port,
                pc_ip = hd (sorted_set (filter (\<lambda>a. a \<in> set allowed) addresses)), pc_server_name = server_name\<rparr>"
    by (auto simp: new_pinned_client_def rbind_case_prod rbind_eq_Inr Let_def split: option.splits if_splits)
  from hd_in_set [OF ne] have "hd (sorted_set (filter (\<lambda>a. a \<in> set allowed) addresses)) \<in> set allowed" by auto
  with c mapM_ip_str_set [OF al] show "\<exists>b \<in> set allowed_ips. os_ip_str os' b = Some (pc_ip c)" by auto
  from c show "pc_server_name c = server_name" by simp
qed

lemma http_call_cases:
  assumes "http_call c meth path headers body t n allow_empty w = (r, w')"
  shows "w' = w \<and> (\<exists>e. r = Inl e \<and> is_analysis_error e)
    \<or> 1 \<le> t \<and> 1 \<le> n \<and> (\<exists>url rq. pinned_url c path = Inr url \<and>
         rq = \<lparr>hr_method = meth, hr_url = url, hr_headers = with_host headers (host_header c), hr_body = body,
               hr_sni = pc_server_name c, hr_timeout_ms = t\<rparr>
       \<and> w' = w\<lparr>w_sent := w_sent w @ [rq]\<rparr> \<and> r = receive (w_reply w (w_sent w @ [rq])) n allow_empty)"
  using assms
  by (auto simp: http_call_def stateful_defs send_def Let_def pinned_url_def split: if_splits)

lemma http_call_sends:
  assumes "pinned_url c path = Inr url" and "1 \<le> t" and "1 \<le> n"
  shows "http_call c meth path headers body t n a w =
    (let rq = \<lparr>hr_method = meth, hr_url = url, hr_headers = with_host headers (host_header c), hr_body = body,
               hr_sni = pc_server_name c, hr_timeout_ms = t\<rparr>
     in (receive (w_reply w (w_sent w @ [rq])) n a, w\<lparr>w_sent := w_sent w @ [rq]\<rparr>))"
  using assms by (simp add: http_call_def stateful_defs send_def Let_def)


definition sample_world :: "(http_request list \<Rightarrow> net_reply) \<Rightarrow> world" where
  "sample_world reply = \<lparr>w_sent = [], w_reply = reply, w_now_ms = (\<lambda>_. 1000), w_elapsed_ms = (\<lambda>_. 5),
     w_pick = (\<lambda>_. 0), w_gather_timeout = False, w_graph_timeout = False,
     w_provider_status = (''not_called'', 0), w_mcp_status = (''not_called'', 0),
     w_peer_status = (''not_called'', 0)\<rparr>"

definition sample_client :: pinned_client where
  "sample_client = \<lparr>pc_scheme = ''https'', pc_host = ''mcp.example'', pc_port = 443, pc_ip = ''10.0.0.2'',
     pc_server_name = ''mcp.example''\<rparr>"

lemma sample_client_pinned:
  "new_pinned_client sample_os sample_os ''https://mcp.example'' [''10.0.0.2''] ''mcp.example'' True = Inr sample_client"
  by code_simp


text \<open>
  The authority of a pinned URL is the bare address and port: for an IPv6 address, which the
  allowlist admits, it has no brackets, so the URL does not denote that address.
\<close>

lemma pinned_url_ipv6_unbracketed:
  "pinned_url (sample_client\<lparr>pc_ip := ''2001:db8::1''\<rparr>) ''/mcp'' = Inr ''https://2001:db8::1:443/mcp''"
  by code_simp

section \<open>Request budgets\<close>

text \<open>
  \<open>budgeted P k m\<close>: whatever the oracles answer, \<open>m\<close> only appends to the log of requests, at most
  \<open>k\<close> of them, each satisfying \<open>P\<close>, and leaves the oracles alone. The rules compute the budget of a
  composed call.
\<close>

named_theorems budget \<open>budget rules of outbound calls\<close>

definition log_ext :: "(http_request \<Rightarrow> bool) \<Rightarrow> nat \<Rightarrow> world \<Rightarrow> world \<Rightarrow> bool" where
  "log_ext P k w w' \<longleftrightarrow>
     (\<exists>new. w_sent w' = w_sent w @ new \<and> length new \<le> k \<and> list_all P new)
   \<and> w_now_ms w' = w_now_ms w \<and> w_elapsed_ms w' = w_elapsed_ms w \<and> w_reply w' = w_reply w"

definition budgeted :: "(http_request \<Rightarrow> bool) \<Rightarrow> nat \<Rightarrow> 'a world_call \<Rightarrow> bool" where
  "budgeted P k m \<longleftrightarrow> (\<forall>w. log_ext P k w (snd (m w)))"

lemma log_ext_refl [simp]: "log_ext P k w w"
  by (simp add: log_ext_def)

lemma log_ext_trans: "log_ext P j u v \<Longrightarrow> log_ext P k v w \<Longrightarrow> log_ext P (j + k) u w"
  unfolding log_ext_def by (metis (no_types, lifting) add_mono append.assoc length_append list_all_append)

lemma log_ext_mono: "log_ext P j u v \<Longrightarrow> j \<le> k \<Longrightarrow> log_ext P k u v"
  unfolding log_ext_def by (metis le_trans)

lemma budgetedI: "(\<And>w. log_ext P k w (snd (m w))) \<Longrightarrow> budgeted P k m"
  by (simp add: budgeted_def)

lemma budgetedD: "budgeted P k m \<Longrightarrow> log_ext P k w (snd (m w))"
  by (simp add: budgeted_def)

lemma budgeted_mono: "budgeted P j m \<Longrightarrow> j \<le> k \<Longrightarrow> budgeted P k m"
  by (auto simp: budgeted_def intro: log_ext_mono)

lemma budgeted_pure [budget]: "budgeted P k (retS x)" "budgeted P k (raiseS e)" "budgeted P k (readS f)"
  by (simp_all add: budgeted_def stateful_defs)

lemma budgeted_bindS:
  assumes "budgeted P j m" and "\<And>x. budgeted P k (f x)"
  shows "budgeted P (j + k) (bindS m f)"
proof (rule budgetedI)
  fix w
  have 1: "log_ext P j w (snd (m w))" using assms(1) by (rule budgetedD)
  then show "log_ext P (j + k) w (snd (bindS m f w))"
    using assms(2) unfolding bindS_def budgeted_def
    by (auto split: prod.splits sum.splits intro: log_ext_trans log_ext_mono)
qed

lemma budgeted_tryS:
  assumes "budgeted P j m" and "\<And>e. budgeted P k (h e)"
  shows "budgeted P (j + k) (tryS m h)"
proof (rule budgetedI)
  fix w
  have 1: "log_ext P j w (snd (m w))" using assms(1) by (rule budgetedD)
  then show "log_ext P (j + k) w (snd (tryS m h w))"
    using assms(2) unfolding tryS_def budgeted_def
    by (auto split: prod.splits sum.splits intro: log_ext_trans log_ext_mono)
qed

lemma budgeted_bind_readS:
  assumes "\<And>w x. f w = Inr x \<Longrightarrow> budgeted P k (g x)"
  shows "budgeted P k (bindS (readS f) g)"
proof (rule budgetedI)
  fix w show "log_ext P k w (snd (bindS (readS f) g w))"
    using assms by (auto simp: bindS_def readS_def budgeted_def split: sum.splits)
qed

lemma budgeted_bind_pure:
  assumes "budgeted P k m" and "\<And>x. budgeted P 0 (f x)"
  shows "budgeted P k (bindS m f)"
  using budgeted_bindS [OF assms] by simp

lemma budgeted_weaken: "budgeted P k m \<Longrightarrow> (\<And>rq. P rq \<Longrightarrow> Q rq) \<Longrightarrow> budgeted Q k m"
  unfolding budgeted_def log_ext_def by (meson list_all_iff)

lemma budgeted_bind_post:
  assumes "budgeted P j m" and "\<And>w x w'. m w = (Inr x, w') \<Longrightarrow> budgeted P k (f x)"
  shows "budgeted P (j + k) (bindS m f)"
proof (rule budgetedI)
  fix w
  have 1: "log_ext P j w (snd (m w))" using assms(1) by (rule budgetedD)
  then show "log_ext P (j + k) w (snd (bindS m f w))"
    using assms(2) [of w] unfolding bindS_def budgeted_def
    by (auto split: prod.splits sum.splits intro: log_ext_trans log_ext_mono)
qed

lemma budgeted_http_call:
  assumes "\<And>url. pinned_url c path = Inr url \<Longrightarrow> 1 \<le> t \<Longrightarrow> P \<lparr>hr_method = meth, hr_url = url,
      hr_headers = with_host headers (host_header c), hr_body = body, hr_sni = pc_server_name c, hr_timeout_ms = t\<rparr>"
  shows "budgeted P 1 (http_call c meth path headers body t n a)"
proof (rule budgetedI)
  fix w
  from http_call_cases [of c meth path headers body t n a w] assms
  show "log_ext P 1 w (snd (http_call c meth path headers body t n a w))"
    by (cases "http_call c meth path headers body t n a w") (auto simp: log_ext_def)
qed

lemma run_all_log:
  assumes "\<And>c. c \<in> set cs \<Longrightarrow> budgeted P k c"
  shows "log_ext P (length cs * k) w (snd (run_all cs w))"
  using assms
proof (induction cs arbitrary: w)
  case (Cons c cs)
  obtain r w1 where c: "c w = (r, w1)" by fastforce
  obtain rs w2 where cs: "run_all cs w1 = (rs, w2)" by fastforce
  from Cons.prems [of c] c have "log_ext P k w w1" by (auto dest: budgetedD [of P k c w])
  moreover from Cons.IH [of w1] Cons.prems cs have "log_ext P (length cs * k) w1 w2" by auto
  ultimately show ?case using c cs log_ext_trans by (auto simp: mult.commute)
qed simp

lemma budgeted_gather:
  assumes "\<And>c. c \<in> set cs \<Longrightarrow> budgeted P k c"
  shows "budgeted P (length cs * k) (gather cs)"
proof (rule budgetedI)
  fix w show "log_ext P (length cs * k) w (snd (gather cs w))"
    using run_all_log [of cs P k w] assms by (auto simp: gather_def Let_def split: prod.splits)
qed

lemma failures_Nil_iff: "failures rs = [] \<longleftrightarrow> (\<exists>xs. rs = map Inr xs)"
proof (induction rs)
  case (Cons r rs)
  then show ?case by (cases r) (auto simp: failures_def Cons_eq_map_conv)
qed (simp add: failures_def)

lemma successes_map_Inr [simp]: "successes (map Inr xs) = xs"
  by (induction xs) (simp_all add: successes_def)

lemma run_all_nth:
  assumes "run_all cs w = (rs, w')"
  shows "length rs = length cs \<and> (\<forall>i < length cs. \<exists>u v. (cs ! i) u = (rs ! i, v))"
  using assms
proof (induction cs arbitrary: w rs w')
  case (Cons c cs)
  obtain r w1 where c: "c w = (r, w1)" by fastforce
  obtain rs2 w2 where cs: "run_all cs w1 = (rs2, w2)" by fastforce
  from Cons.prems c cs have rs: "rs = r # rs2" by simp
  from Cons.IH [OF cs] c rs show ?case by (auto simp: nth_Cons split: nat.splits)
qed simp

lemma gather_Inr:
  assumes "gather cs w = (Inr xs, w')"
  shows "length xs = length cs \<and> (\<forall>i < length cs. \<exists>u v. (cs ! i) u = (Inr (xs ! i), v))"
proof -
  obtain rs w1 where rs: "run_all cs w = (rs, w1)" by fastforce
  with assms have "failures rs = []" and xs: "xs = successes rs"
    by (auto simp: gather_def Let_def split: if_splits)
  then obtain ys where "rs = map Inr ys" by (auto simp: failures_Nil_iff)
  with run_all_nth [OF rs] xs show ?thesis by auto
qed

lemma gather_error:
  assumes "gather cs w = (Inl e, w')"
  shows "\<exists>i < length cs. \<exists>u v. (cs ! i) u = (Inl e, v)"
proof -
  obtain rs w1 where rs: "run_all cs w = (rs, w1)" by fastforce
  with assms have ne: "failures rs \<noteq> []" and "e \<in> set (failures rs)"
    by (auto simp: gather_def Let_def split: if_splits intro!: nth_mem)
  then obtain i where "i < length rs" "rs ! i = Inl e"
    by (auto simp: failures_def in_set_conv_nth split: sum.splits)
  with run_all_nth [OF rs] show ?thesis by (metis)
qed

end
