(* ===== verification/Provider.thy ===== *)
theory Provider
  imports Transport Digests
begin

text \<open>
  The provider adapter (\<open>provider.py\<close>). \<open>pydantic\<close>'s decoder of the response body is the parameter
  \<open>dec\<close>. A response is returned only after its identity and its self-digest were checked against
  the request; every call sends at most one request, to the pinned provider.
\<close>

record provider_adapter =
  pa_client :: pinned_client
  pa_config :: provider_config
  pa_secret :: str

definition load_secret :: "os_env \<Rightarrow> provider_config \<Rightarrow> exn + str" where
  "load_secret os config =
     (if \<not> nonempty_opt (prc_auth_secret_file config) then Inr []
      else rbind (read_bounded_regular_file os (the (prc_auth_secret_file config)) 4096 True) (\<lambda>raw.
        if \<not> utf8_valid raw
        then Inl (AnalysisError ''SECRET_REJECTED'' ''provider secret is not UTF-8'' 503)
        else let secret = py_strip raw in
          if secret = [] \<or> py_len secret > 2048
          then Inl (AnalysisError ''SECRET_REJECTED'' ''provider secret length rejected'' 503)
          else Inr secret))"

definition new_provider_adapter :: "os_env \<Rightarrow> os_env \<Rightarrow> provider_config \<Rightarrow> bool \<Rightarrow> exn + provider_adapter" where
  "new_provider_adapter os os' config production =
     rbind (client_ssl_context (ob_ca_file config) (ob_cert_file config) (ob_key_file config)) (\<lambda>_.
     rbind (new_pinned_client os os' (ob_base_url config) (ob_allowed_ips config) (ob_server_name config)
       production) (\<lambda>client.
     rbind (load_secret os config) (\<lambda>secret.
     Inr \<lparr>pa_client = client, pa_config = config, pa_secret = secret\<rparr>)))"

definition secret_values :: "provider_adapter \<Rightarrow> str list" where
  "secret_values a = (if pa_secret a \<noteq> [] then [pa_secret a] else [])"

definition provider_headers :: "provider_adapter \<Rightarrow> provider_request \<Rightarrow> (str \<times> str) list" where
  "provider_headers a request =
     [(''Content-Type'', ''application/json''), (''Accept'', ''application/json''),
      (''X-MASI-Provider-Profile'', ''analysis-provider/v1''),
      (''X-MASI-Request-Digest'', pq_request_digest request)]
     @ (if pa_secret a \<noteq> [] then [(''Authorization'', ''Bearer '' @ pa_secret a)] else [])"

text \<open>The checks on the provider's answer.\<close>

definition accept_response ::
  "pyenv \<Rightarrow> (str \<Rightarrow> provider_response option) \<Rightarrow> provider_request \<Rightarrow> bounded_response \<Rightarrow> exn + provider_response" where
  "accept_response env dec request response =
     rbind (raise_if (br_status_code response \<noteq> 200)
       (ProviderUnavailable (''provider returned status '' @ int_str (br_status_code response)))) (\<lambda>_.
     rbind (raise_if (media_type (br_headers response) \<noteq> ''application/json'')
       (ProviderUnavailable ''provider content type rejected'')) (\<lambda>_.
     case dec (br_body response) of
       None \<Rightarrow> Inl (ProviderUnavailable ''provider response failed strict schema'')
     | Some decoded \<Rightarrow>
     rbind (raise_if (ps_request_id decoded \<noteq> pq_request_id request
         \<or> ps_input_digest decoded \<noteq> pq_input_digest request)
       (ProviderUnavailable ''provider response identity mismatch'')) (\<lambda>_.
     rbind (compute_provider_response_digest env decoded) (\<lambda>d.
     rbind (raise_if (d \<noteq> ps_response_digest decoded)
       (ProviderUnavailable ''provider response digest mismatch'')) (\<lambda>_.
     Inr decoded)))))"

definition set_provider_status :: "str \<Rightarrow> unit world_call" where
  "set_provider_status status = modifyS (\<lambda>w. w\<lparr>w_provider_status := (status, now_ms w)\<rparr>)"

definition analyze_try ::
  "pyenv \<Rightarrow> (str \<Rightarrow> provider_response option) \<Rightarrow> provider_adapter \<Rightarrow> provider_request \<Rightarrow> int \<Rightarrow> int
     \<Rightarrow> provider_response world_call" where
  "analyze_try env dec a request timeout_ms response_bytes =
     bindS (readS (\<lambda>_. go_json_bytes env (dump_ProviderRequest request))) (\<lambda>body.
     bindS (http_call (pa_client a) ''POST'' ''/v1/analyze'' (provider_headers a request) (Some body)
       timeout_ms response_bytes False) (\<lambda>response.
     bindS (readS (\<lambda>_. accept_response env dec request response)) (\<lambda>decoded.
     bindS (set_provider_status ''ok'') (\<lambda>_. retS decoded))))"

definition analyze ::
  "pyenv \<Rightarrow> (str \<Rightarrow> provider_response option) \<Rightarrow> provider_adapter \<Rightarrow> provider_request \<Rightarrow> int \<Rightarrow> int
     \<Rightarrow> provider_response world_call" where
  "analyze env dec a request timeout_ms response_bytes =
     bindS (readS (\<lambda>_. compute_provider_request_digest env request)) (\<lambda>d.
     if d \<noteq> pq_request_digest request
     then raiseS (AnalysisError ''PROVIDER_REQUEST_DIGEST_MISMATCH'' ''provider request digest mismatch'' 500)
     else tryS (analyze_try env dec a request timeout_ms response_bytes)
       (\<lambda>e. if is_analysis_error e then bindS (set_provider_status ''unavailable'') (\<lambda>_. raiseS e) else raiseS e))"

definition provider_response_bytes :: "pyenv \<Rightarrow> provider_response \<Rightarrow> str" where
  "provider_response_bytes env response = json_text env (dump_ProviderResponse response)"

section \<open>Verified answers\<close>

definition provider_call :: "provider_adapter \<Rightarrow> http_request \<Rightarrow> bool" where
  "provider_call a rq \<longleftrightarrow> hr_method rq = ''POST'' \<and> pinned_url (pa_client a) ''/v1/analyze'' = Inr (hr_url rq)"

lemma budgeted_set_provider_status [budget]: "budgeted P k (set_provider_status s)"
  by (simp add: budgeted_def set_provider_status_def stateful_defs log_ext_def)

lemma budgeted_analyze: "budgeted (provider_call a) 1 (analyze env dec a request t n)"
proof -
  have call: "budgeted (provider_call a) 1 (http_call (pa_client a) ''POST'' ''/v1/analyze''
      (provider_headers a request) body t n False)" for body
    by (rule budgeted_http_call) (simp add: provider_call_def)
  have tail: "budgeted P 0 (bindS (readS f) (\<lambda>decoded. bindS (set_provider_status s) (\<lambda>_. retS decoded)))"
    for P f s
    by (rule budgeted_mono, (rule budgeted_bindS budget)+) simp
  have "budgeted (provider_call a) (0 + (1 + 0)) (analyze_try env dec a request t n)"
    unfolding analyze_try_def by (intro budgeted_bindS call tail budget)
  then have trial: "budgeted (provider_call a) 1 (analyze_try env dec a request t n)" by simp
  have handler: "budgeted P 0 (if is_analysis_error e then bindS (set_provider_status s) (\<lambda>_. raiseS e) else raiseS e)"
    for P s and e :: exn
    by (auto intro: budget budgeted_mono [OF budgeted_bindS [of _ 0 _ 0]])
  have body: "budgeted (provider_call a) (1 + 0) (tryS (analyze_try env dec a request t n)
      (\<lambda>e. if is_analysis_error e then bindS (set_provider_status ''unavailable'') (\<lambda>_. raiseS e) else raiseS e))"
    by (intro budgeted_tryS trial handler)
  have "budgeted (provider_call a) (0 + 1) (analyze env dec a request t n)"
    unfolding analyze_def
    by (rule budgeted_bindS) (use body in \<open>auto intro: budget\<close>)
  then show ?thesis by simp
qed

lemma accept_response_ok:
  assumes "accept_response env dec request response = Inr resp"
  shows "dec (br_body response) = Some resp" "ps_request_id resp = pq_request_id request"
    "ps_input_digest resp = pq_input_digest request"
    "compute_provider_response_digest env resp = Inr (ps_response_digest resp)"
    "br_status_code response = 200"
  using assms by (auto simp: accept_response_def rbind_eq_Inr split: option.splits)

lemma analyze_ok:
  assumes "analyze env dec a request t n w = (Inr resp, w')"
  shows "compute_provider_request_digest env request = Inr (pq_request_digest request)
    \<and> (\<exists>response. accept_response env dec request response = Inr resp)
    \<and> fst (w_provider_status w') = ''ok''"
proof -
  from assms have "compute_provider_request_digest env request = Inr (pq_request_digest request)"
    and "tryS (analyze_try env dec a request t n)
       (\<lambda>e. if is_analysis_error e then bindS (set_provider_status ''unavailable'') (\<lambda>_. raiseS e) else raiseS e) w
       = (Inr resp, w')"
    by (auto simp: analyze_def bindS_Inr readS_def raiseS_def split: if_splits)
  moreover from this(2) have "analyze_try env dec a request t n w = (Inr resp, w')"
    by (auto simp: tryS_def set_provider_status_def stateful_defs split: prod.splits sum.splits if_splits)
  then have "(\<exists>response. accept_response env dec request response = Inr resp) \<and> fst (w_provider_status w') = ''ok''"
    by (auto simp: analyze_try_def bindS_Inr readS_def retS_def set_provider_status_def modifyS_def)
  ultimately show ?thesis by blast
qed

text \<open>
  The adapter returns only verified answers, at the cost of one request. Whatever the network
  replies, \<open>analyze\<close> sends at most one request, a \<open>POST\<close> to the pinned analysis endpoint; when it
  returns an answer, the request carried its own canonical digest, and the answer was decoded from the
  response body, names the request identity and input digest of the request, and carries its own
  canonical digest.
\<close>

theorem provider_answer_verified:
  assumes "analyze env dec a request timeout_ms response_bytes w = (r, w')"
  shows "(\<exists>new. w_sent w' = w_sent w @ new \<and> length new \<le> 1 \<and> list_all (provider_call a) new)
    \<and> (\<forall>resp. r = Inr resp \<longrightarrow>
         compute_provider_request_digest env request = Inr (pq_request_digest request)
       \<and> (\<exists>raw. dec raw = Some resp)
       \<and> ps_request_id resp = pq_request_id request
       \<and> ps_input_digest resp = pq_input_digest request
       \<and> compute_provider_response_digest env resp = Inr (ps_response_digest resp)
       \<and> fst (w_provider_status w') = ''ok'')"
proof -
  have "log_ext (provider_call a) 1 w (snd (analyze env dec a request timeout_ms response_bytes w))"
    by (rule budgetedD [OF budgeted_analyze])
  moreover have "compute_provider_request_digest env request = Inr (pq_request_digest request)
       \<and> (\<exists>raw. dec raw = Some resp) \<and> ps_request_id resp = pq_request_id request
       \<and> ps_input_digest resp = pq_input_digest request
       \<and> compute_provider_response_digest env resp = Inr (ps_response_digest resp)
       \<and> fst (w_provider_status w') = ''ok''" if "r = Inr resp" for resp
    using analyze_ok [of env dec a request timeout_ms response_bytes w resp w'] assms that
    by (auto dest: accept_response_ok)
  ultimately show ?thesis using assms by (auto simp: log_ext_def)
qed

definition sample_adapter :: provider_adapter where
  "sample_adapter = \<lparr>pa_client = sample_client, pa_config = sample_provider, pa_secret = ''secret-value''\<rparr>"

definition sample_request :: provider_request where
  "sample_request = \<lparr>pq_schema_version = ''masi-analysis-provider-request/v1'',
     pq_request_id = ''provider-run-1-hypothesis'', pq_phase = ''hypothesis'', pq_task_id = ''task-1'',
     pq_run_id = ''run-1'', pq_skill = ''analyze_nids_incident'', pq_input_digest = dig CHR ''0'',
     pq_locale = ''en'', pq_system_policy_id = ''analysis-system-policy/v1'', pq_facts = [],
     pq_tool_results = [], pq_peer_results = [], pq_untrusted_content_request = [],
     pq_remaining_budget = \<lparr>rb_llm_calls = 2, rb_mcp_rounds = 1, rb_tool_calls = 2,
       rb_outbound_delegations = 1, rb_deadline_unix_ms = 9000\<rparr>,
     pq_trace_id = ''trace-1'', pq_request_digest = dig CHR ''0''\<rparr>"

definition json_reply :: "str \<Rightarrow> net_reply" where
  "json_reply ctype = NetReply 200 [(''content-type'', ctype)] [''{}'']"

lemma sample_response_digest: "compute_provider_response_digest zero_env sample_response = Inr (dig CHR ''0'')"
proof -
  have "\<not> has_nonfinite (JObj (without_key (json_fields (dump_ProviderResponse sample_response)) ''response_digest''))"
    by code_simp
  then show ?thesis by (simp add: compute_provider_response_digest_def zero_digests)
qed

lemma sample_request_digest: "compute_provider_request_digest zero_env sample_request = Inr (dig CHR ''0'')"
proof -
  have "\<not> has_nonfinite (JObj (without_key (json_fields (dump_ProviderRequest sample_request)) ''request_digest''))"
    by code_simp
  then show ?thesis by (simp add: compute_provider_request_digest_def zero_digests)
qed

lemma sample_accept:
  "accept_response zero_env (\<lambda>_. Some sample_response) sample_request
     \<lparr>br_status_code = 200, br_headers = [(''content-type'', ''application/json'')], br_body = ''{}''\<rparr> = Inr sample_response"
proof -
  have "media_type [(''content-type'', ''application/json'')] = ''application/json''" by code_simp
  then show ?thesis
    by (simp add: accept_response_def sample_response_digest)
       (simp add: sample_response_def sample_request_def)
qed

theorem provider_answer_verified_witness:
  "fst (analyze zero_env (\<lambda>_. Some sample_response) sample_adapter sample_request 500 4096
       (sample_world (\<lambda>_. json_reply ''application/json''))) = Inr sample_response
   \<and> ps_request_id sample_response = pq_request_id sample_request"
proof -
  let ?w = "sample_world (\<lambda>_. json_reply ''application/json'')"
  obtain r w' where rw: "analyze zero_env (\<lambda>_. Some sample_response) sample_adapter sample_request 500 4096 ?w = (r, w')"
    by fastforce
  have url: "pinned_url sample_client ''/v1/analyze'' = Inr ''https://10.0.0.2:443/v1/analyze''" by code_simp
  have d: "pq_request_digest sample_request = dig CHR ''0''" by (simp add: sample_request_def)
  have "r = Inr sample_response"
    using rw url sample_accept
    by (auto simp: analyze_def analyze_try_def sample_request_digest d stateful_defs http_call_def send_def
        receive_def json_reply_def sample_world_def Let_def sample_adapter_def set_provider_status_def
        go_json_bytes_eq)
  with provider_answer_verified [OF rw] show ?thesis by (simp add: rw)
qed

end
