(* ===== verification/Mcp.thy ===== *)
theory Mcp
  imports Transport Digests
begin

text \<open>
  The restricted MCP client (\<open>mcp.py\<close>). The MCP SDK's envelope validators and \<open>json.loads\<close> are
  parameters, the fields of \<open>mcp_env\<close>.

  The lemmas show that, whatever the provider asked for and the server replies, the client sends at
  most one initialisation, one notification, the budgeted number of calls and one session release,
  and that every tool call names an allowlisted tool on an object of the frozen input.
\<close>

section \<open>Results and environment\<close>

record tool_result =
  tl_request_id :: str
  tl_kind :: str
  tl_name :: str
  tl_target_ref :: str
  tl_status :: str
  tl_content_digest :: str
  tl_observed_at_unix_ms :: int
  tl_quality :: str
  tl_truncated :: bool
  tl_structured :: "(str \<times> json) list"

definition tool_trajectory_record :: "tool_result \<Rightarrow> json" where
  "tool_trajectory_record r = JObj
     [(''request_id'', JStr (tl_request_id r)), (''kind'', JStr (tl_kind r)), (''name'', JStr (tl_name r)),
      (''target_ref'', JStr (tl_target_ref r)), (''status'', JStr (tl_status r)),
      (''content_digest'', JStr (tl_content_digest r)),
      (''observed_at_unix_ms'', JInt (tl_observed_at_unix_ms r)), (''quality'', JStr (tl_quality r)),
      (''truncated'', JBool (tl_truncated r))]"

record mcp_client =
  mc_client :: pinned_client
  mc_config :: mcp_config

record mcp_env =
  me_py :: pyenv
  me_loads :: "str \<Rightarrow> json option"
  me_request_ok :: "json \<Rightarrow> bool"
  me_notification_ok :: "json \<Rightarrow> bool"
  me_error_ok :: "json \<Rightarrow> bool"
  me_response_ok :: "json \<Rightarrow> bool"

definition new_mcp_client :: "os_env \<Rightarrow> os_env \<Rightarrow> mcp_config \<Rightarrow> bool \<Rightarrow> exn + mcp_client" where
  "new_mcp_client os os' config production =
     rbind (client_ssl_context (ob_ca_file config) (ob_cert_file config) (ob_key_file config)) (\<lambda>_.
     rbind (new_pinned_client os os' (ob_base_url config) (ob_allowed_ips config) (ob_server_name config)
       production) (\<lambda>client. Inr \<lparr>mc_client = client, mc_config = config\<rparr>))"

definition mcp_headers ::
  "mcp_client \<Rightarrow> frozen_input \<Rightarrow> binding_observation \<Rightarrow> int \<Rightarrow> str option \<Rightarrow> (str \<times> str) list" where
  "mcp_headers c input_bundle binding round_number session_id =
     [(''Content-Type'', ''application/json''), (''Accept'', ''application/json, text/event-stream''),
      (''MCP-Protocol-Version'', MCP_VERSION), (''Origin'', mcpc_origin (mc_config c)),
      (''X-MASI-Plugin-ID'', fi_plugin_id input_bundle),
      (''X-MASI-Binding-Generation'', int_str (bo_binding_generation binding)),
      (''X-MASI-MCP-Round'', int_str round_number), (''X-MASI-Trace-ID'', fi_trace_id input_bundle)]
     @ (if nonempty_opt session_id then [(''MCP-Session-Id'', the session_id)] else [])
     @ (if fi_plugin_id input_bundle = ''masi.analysis.langgraph''
           \<and> starts_with ''http://'' (ob_base_url (mc_config c))
        then [(''X-MASI-Test-Plugin-ID'', fi_plugin_id input_bundle)] else [])"

section \<open>One remote call\<close>

text \<open>\<open>str.splitlines()\<close>: the line boundaries of text, \<open>\r\n\<close> counted once.\<close>

definition line_end :: cls where
  "line_end x \<longleftrightarrow>
     ascii_cls (\<lambda>c. CHR 0x0A \<le> c \<and> c \<le> CHR 0x0D \<or> CHR 0x1C \<le> c \<and> c \<le> CHR 0x1E) x
   \<or> x \<in> set [[CHR 0xC2, CHR 0x85], LINE_SEP, PARA_SEP]"

fun lines_from :: "str \<Rightarrow> str list \<Rightarrow> str list" where
  "lines_from acc [] = (if acc = [] then [] else [acc])"
| "lines_from acc [x] = (if line_end x then [acc] else [acc @ x])"
| "lines_from acc (x # y # zs) =
     (if x = [CHR 0x0D] \<and> y = [CHR 0x0A] then acc # lines_from [] zs
      else if line_end x then acc # lines_from [] (y # zs)
      else lines_from (acc @ x) (y # zs))"

definition splitlines :: "str \<Rightarrow> str list" where
  "splitlines s = lines_from [] (chunks s)"

definition sse_data_lines :: "str \<Rightarrow> str list" where
  "sse_data_lines body =
     map (\<lambda>line. py_strip (drop 5 line)) (filter (starts_with ''data:'') (splitlines body))"

text \<open>The body of the answer: the single \<open>data\<close> line of an event stream, or the JSON body itself.\<close>

definition mcp_body :: "bounded_response \<Rightarrow> exn + str" where
  "mcp_body response =
     (let media = media_type (br_headers response) in
      if media = ''text/event-stream'' then
        if \<not> utf8_valid (br_body response) then Inl UnicodeDecodeError
        else (case sse_data_lines (br_body response) of
                [line] \<Rightarrow> Inr line
              | _ \<Rightarrow> Inl (MCPUnavailable ''MCP SSE response framing rejected''))
      else if media \<noteq> ''application/json'' then Inl (MCPUnavailable ''MCP response content type rejected'')
      else Inr (br_body response))"

definition error_message :: "pyenv \<Rightarrow> json option \<Rightarrow> str" where
  "error_message env err =
     (case err of
        Some (JObj kvs) \<Rightarrow>
          (case json_get kvs ''message'' of
             None \<Rightarrow> ''MCP error'' | Some (JStr s) \<Rightarrow> s | Some v \<Rightarrow> value_str env v)
      | _ \<Rightarrow> ''MCP error'')"

definition mcp_envelope :: "mcp_env \<Rightarrow> str \<Rightarrow> exn + (str \<times> json) list" where
  "mcp_envelope env body =
     (case me_loads env body of
        None \<Rightarrow> Inl (MCPUnavailable ''MCP response JSON malformed'')
      | Some (JObj kvs) \<Rightarrow>
          if json_get kvs ''jsonrpc'' \<noteq> Some (JStr ''2.0'')
            \<or> (json_get kvs ''result'' \<noteq> None) = (json_get kvs ''error'' \<noteq> None)
          then Inl (MCPUnavailable ''MCP response envelope malformed'')
          else if json_get kvs ''error'' \<noteq> None then
            if \<not> me_error_ok env (JObj kvs) then Inl (MCPUnavailable ''MCP SDK rejected the error envelope'')
            else Inl (MCPUnavailable (py_take 128 (error_message (me_py env) (json_get kvs ''error''))))
          else if \<not> me_response_ok env (JObj kvs) then Inl (MCPUnavailable ''MCP SDK rejected the result envelope'')
          else Inr kvs
      | Some _ \<Rightarrow> Inl (MCPUnavailable ''MCP response envelope malformed''))"

definition rpc_result :: "mcp_env \<Rightarrow> bounded_response \<Rightarrow> exn + (str \<times> json) list option \<times> str option" where
  "rpc_result env response =
     (if br_status_code response \<noteq> 200 \<and> br_status_code response \<noteq> 202
      then Inl (MCPUnavailable (''MCP returned status '' @ int_str (br_status_code response)))
      else let session_id = header_get (br_headers response) ''MCP-Session-Id'' in
        if br_status_code response = 202 \<and> br_body response = [] then Inr (None, session_id)
        else rbind (mcp_body response) (\<lambda>body.
             rbind (mcp_envelope env body) (\<lambda>kvs. Inr (Some kvs, session_id))))"

definition rpc ::
  "mcp_env \<Rightarrow> mcp_client \<Rightarrow> (str \<times> json) list \<Rightarrow> (str \<times> str) list \<Rightarrow> int \<Rightarrow> int \<Rightarrow> bool
     \<Rightarrow> ((str \<times> json) list option \<times> str option) world_call" where
  "rpc env c request headers timeout_ms response_bytes allow_empty =
     (if (json_get request ''id'' \<noteq> None \<and> \<not> me_request_ok env (JObj request))
        \<or> (json_get request ''id'' = None \<and> \<not> me_notification_ok env (JObj request))
      then raiseS (AnalysisError ''MCP_REQUEST_REJECTED'' ''MCP SDK rejected the outbound envelope'' 500)
      else bindS (readS (\<lambda>_. go_json_bytes (me_py env) (JObj request))) (\<lambda>body.
           bindS (http_call (mc_client c) ''POST'' ''/mcp'' headers (Some body) timeout_ms response_bytes
             allow_empty) (\<lambda>response.
           readS (\<lambda>_. rpc_result env response))))"

section \<open>One requested tool or resource\<close>

definition refs_of :: "frozen_input \<Rightarrow> ref_kind \<Rightarrow> fact_ref list" where
  "refs_of input_bundle kind =
     (case kind of
        EventRef \<Rightarrow> fi_event_refs input_bundle
      | IncidentRef \<Rightarrow> fi_incident_refs input_bundle
      | EvidenceRef \<Rightarrow> fi_evidence_refs input_bundle
      | RuntimeRef \<Rightarrow> fi_runtime_refs input_bundle)"

text \<open>The admission of a request: its target, method and parameters, or the denial.\<close>

definition tool_denied :: "str \<Rightarrow> exn" where
  "tool_denied message = AnalysisError ''MCP_TOOL_DENIED'' message 422"

definition resource_denied :: "str \<Rightarrow> exn" where
  "resource_denied message = AnalysisError ''MCP_RESOURCE_DENIED'' message 422"

definition admit_tool ::
  "provider_tool_request \<Rightarrow> frozen_input \<Rightarrow> binding_observation \<Rightarrow> exn + str \<times> str \<times> json" where
  "admit_tool requested input_bundle binding =
     (if tq_kind requested = ''tool'' then
        case map_of TOOL_ARGUMENT_FIELDS (tq_name requested) of
          None \<Rightarrow> Inl (tool_denied ''provider requested a non-allowlisted tool'')
        | Some (argument_field, ref_kind) \<Rightarrow>
            if tq_name requested \<notin> set (bo_tool_allowlist binding)
            then Inl (tool_denied ''provider requested a non-allowlisted tool'')
            else (case (set (map fst (tq_arguments requested)) = {argument_field},
                        json_get (tq_arguments requested) argument_field) of
                    (True, Some (JStr target_ref)) \<Rightarrow>
                      if target_ref \<notin> set (map fr_id (refs_of input_bundle ref_kind))
                      then Inl (tool_denied ''provider tool target is outside frozen input'')
                      else Inr (target_ref, ''tools/call'',
                        JObj [(''name'', JStr (tq_name requested)), (''arguments'', JObj (tq_arguments requested))])
                  | _ \<Rightarrow> Inl (tool_denied ''provider tool arguments rejected''))
      else
        case map_of RESOURCE_URIS (tq_name requested) of
          None \<Rightarrow> Inl (resource_denied ''provider requested a non-allowlisted resource'')
        | Some uri \<Rightarrow>
            if tq_name requested \<notin> set (bo_resource_allowlist binding)
            then Inl (resource_denied ''provider requested a non-allowlisted resource'')
            else if tq_arguments requested \<noteq> []
            then Inl (resource_denied ''resource request arguments rejected'')
            else Inr (tq_name requested, ''resources/read'', JObj [(''uri'', JStr uri)]))"

definition tool_request_id :: "frozen_input \<Rightarrow> nat \<Rightarrow> str" where
  "tool_request_id input_bundle index = ''tool-'' @ fi_run_id input_bundle @ ''-'' @ nat_str index"

definition rpc_request :: "str \<Rightarrow> str \<Rightarrow> json \<Rightarrow> (str \<times> json) list" where
  "rpc_request request_id meth params =
     [(''jsonrpc'', JStr ''2.0''), (''id'', JStr request_id), (''method'', JStr meth), (''params'', params)]"

definition tool_result_of ::
  "pyenv \<Rightarrow> str \<Rightarrow> provider_tool_request \<Rightarrow> str \<Rightarrow> int \<Rightarrow> (str \<times> json) list option \<Rightarrow> exn + tool_result" where
  "tool_result_of env request_id requested target_ref now response =
     (case response of
        Some kvs \<Rightarrow>
          (case (json_get kvs ''id'' = Some (JStr request_id), json_get kvs ''result'') of
             (True, Some (JObj result)) \<Rightarrow>
               let failed = (json_get result ''isError'' = Some (JBool True));
                   structured = (case json_get result ''structuredContent'' of
                                   Some (JObj s) \<Rightarrow> s | _ \<Rightarrow> result) in
               rbind (canonical_digest env (JObj structured)) (\<lambda>content_digest.
               Inr \<lparr>tl_request_id = request_id, tl_kind = tq_kind requested, tl_name = tq_name requested,
                 tl_target_ref = target_ref, tl_status = (if failed then ''failed'' else ''succeeded''),
                 tl_content_digest = content_digest, tl_observed_at_unix_ms = now,
                 tl_quality = (if failed then ''invalid'' else ''valid''), tl_truncated = False,
                 tl_structured = structured\<rparr>)
           | _ \<Rightarrow> Inl (MCPUnavailable ''MCP result identity mismatch''))
      | None \<Rightarrow> Inl (MCPUnavailable ''MCP result identity mismatch''))"

definition execute_one ::
  "mcp_env \<Rightarrow> mcp_client \<Rightarrow> nat \<Rightarrow> provider_tool_request \<Rightarrow> frozen_input \<Rightarrow> binding_observation
     \<Rightarrow> str option \<Rightarrow> int \<Rightarrow> tool_result world_call" where
  "execute_one env c index requested input_bundle binding session_id round_number =
     bindS (readS (\<lambda>_. admit_tool requested input_bundle binding)) (\<lambda>(target_ref, meth, params).
     bindS (rpc env c (rpc_request (tool_request_id input_bundle index) meth params)
         (mcp_headers c input_bundle binding round_number session_id)
         (bg_tool_timeout_ms (fi_budgets input_bundle)) (bg_tool_response_bytes (fi_budgets input_bundle))
         False) (\<lambda>(response, _).
     readS (\<lambda>w. tool_result_of (me_py env) (tool_request_id input_bundle index) requested target_ref (now_ms w) response)))"

section \<open>The session\<close>

definition init_request :: "frozen_input \<Rightarrow> (str \<times> json) list" where
  "init_request input_bundle =
     [(''jsonrpc'', JStr ''2.0''), (''id'', JStr (''init-'' @ fi_run_id input_bundle)),
      (''method'', JStr ''initialize''),
      (''params'', JObj [(''protocolVersion'', JStr MCP_VERSION), (''capabilities'', JObj []),
         (''clientInfo'', JObj [(''name'', JStr ''masi-analysis''), (''version'', JStr ''1.0.0'')])])]"

definition initialized_notification :: "(str \<times> json) list" where
  "initialized_notification =
     [(''jsonrpc'', JStr ''2.0''), (''method'', JStr ''notifications/initialized''), (''params'', JObj [])]"

text \<open>\<open>init_response.get("result", {}).get("protocolVersion")\<close>.\<close>

definition init_version :: "(str \<times> json) list \<Rightarrow> exn + json option" where
  "init_version kvs =
     (case json_get kvs ''result'' of
        None \<Rightarrow> Inr None
      | Some (JObj result) \<Rightarrow> Inr (json_get result ''protocolVersion'')
      | Some _ \<Rightarrow> Inl AttributeError)"

definition check_init :: "(str \<times> json) list option \<Rightarrow> str option \<Rightarrow> exn + unit" where
  "check_init init_response session_id =
     (let mismatch = MCPUnavailable ''MCP initialization identity mismatch'' in
      if \<not> nonempty_opt session_id then Inl mismatch
      else case init_response of
        None \<Rightarrow> Inl mismatch
      | Some kvs \<Rightarrow> if kvs = [] then Inl mismatch
          else rbind (init_version kvs) (\<lambda>v. raise_if (v \<noteq> Some (JStr MCP_VERSION)) mismatch))"

definition total_bytes :: "pyenv \<Rightarrow> tool_result list \<Rightarrow> exn + int" where
  "total_bytes env results =
     rbind (mapM (\<lambda>r. go_json_bytes env (JObj (tl_structured r))) results) (\<lambda>raws.
     Inr (sum_list (map (\<lambda>raw. int (length raw)) raws)))"

definition set_mcp_status :: "str \<Rightarrow> unit world_call" where
  "set_mcp_status status = modifyS (\<lambda>w. w\<lparr>w_mcp_status := (status, now_ms w)\<rparr>)"

definition mcp_failed :: "exn \<Rightarrow> 'a world_call" where
  "mcp_failed e = (if is_analysis_error e then bindS (set_mcp_status ''unavailable'') (\<lambda>_. raiseS e) else raiseS e)"

definition session_calls ::
  "mcp_env \<Rightarrow> mcp_client \<Rightarrow> provider_tool_request list \<Rightarrow> frozen_input \<Rightarrow> binding_observation \<Rightarrow> int
     \<Rightarrow> (str \<times> json) list option \<Rightarrow> str option \<Rightarrow> tool_result list world_call" where
  "session_calls env c bounded input_bundle binding round_number init_response session_id =
     bindS (readS (\<lambda>_. check_init init_response session_id)) (\<lambda>_.
     bindS (rpc env c initialized_notification (mcp_headers c input_bundle binding round_number session_id)
       (bg_tool_timeout_ms (fi_budgets input_bundle)) 1024 True) (\<lambda>_.
     bindS (gather (map (\<lambda>(index, requested).
         execute_one env c index requested input_bundle binding session_id round_number)
         (enumerate_from 1 bounded))) (\<lambda>results.
     bindS (readS (\<lambda>_. total_bytes (me_py env) results)) (\<lambda>total.
     if total > bg_tool_total_response_bytes (fi_budgets input_bundle)
     then raiseS (MCPUnavailable ''MCP total response byte budget exceeded'')
     else bindS (set_mcp_status ''ok'') (\<lambda>_. retS results)))))"

text \<open>The \<open>finally\<close> clause: the session is released, and a failure of the release is ignored.\<close>

definition release_session ::
  "mcp_client \<Rightarrow> frozen_input \<Rightarrow> binding_observation \<Rightarrow> int \<Rightarrow> str option \<Rightarrow> unit world_call" where
  "release_session c input_bundle binding round_number session_id =
     (if \<not> nonempty_opt session_id then retS ()
      else tryS (bindS (http_call (mc_client c) ''DELETE'' ''/mcp''
               (mcp_headers c input_bundle binding round_number session_id) None
               (bg_tool_timeout_ms (fi_budgets input_bundle)) 1024 True) (\<lambda>_. retS ()))
             (\<lambda>e. if is_analysis_error e then retS () else raiseS e))"

definition run_session ::
  "mcp_env \<Rightarrow> mcp_client \<Rightarrow> provider_tool_request list \<Rightarrow> frozen_input \<Rightarrow> binding_observation \<Rightarrow> int
     \<Rightarrow> (str \<times> json) list option \<times> str option \<Rightarrow> tool_result list world_call" where
  "run_session env c bounded input_bundle binding round_number opened w =
     (case tryS (session_calls env c bounded input_bundle binding round_number (fst opened) (snd opened))
             mcp_failed w of
        (r, w1) \<Rightarrow>
          (case release_session c input_bundle binding round_number (snd opened) w1 of
             (Inl e, w2) \<Rightarrow> (Inl e, w2)
           | (Inr _, w2) \<Rightarrow> (r, w2)))"

definition execute ::
  "mcp_env \<Rightarrow> mcp_client \<Rightarrow> provider_tool_request list \<Rightarrow> frozen_input \<Rightarrow> binding_observation \<Rightarrow> int
     \<Rightarrow> tool_result list world_call" where
  "execute env c requests input_bundle binding round_number =
     (if requests = [] then retS []
      else if round_number < 1 \<or> round_number > bg_mcp_rounds (fi_budgets input_bundle)
      then raiseS (AnalysisError ''MCP_BUDGET_EXHAUSTED'' ''MCP round budget exhausted'' 422)
      else let bounded = take (nat (bg_tool_calls (fi_budgets input_bundle))) requests in
        bindS (tryS (rpc env c (init_request input_bundle)
            (mcp_headers c input_bundle binding round_number None)
            (bg_tool_timeout_ms (fi_budgets input_bundle))
            (bg_tool_response_bytes (fi_budgets input_bundle)) False) mcp_failed)
          (run_session env c bounded input_bundle binding round_number))"

definition trajectory_digest :: "pyenv \<Rightarrow> tool_result list \<Rightarrow> exn + str" where
  "trajectory_digest env results = canonical_digest env (JArr (map tool_trajectory_record results))"

section \<open>Authority and budget\<close>

lemma admit_tool_ok:
  assumes "admit_tool requested input_bundle binding = Inr (target_ref, meth, params)"
  shows "tq_kind requested = ''tool'' \<and> meth = ''tools/call'' \<and> tq_name requested \<in> set (bo_tool_allowlist binding)
      \<and> (\<exists>field kind. map_of TOOL_ARGUMENT_FIELDS (tq_name requested) = Some (field, kind)
           \<and> set (map fst (tq_arguments requested)) = {field}
           \<and> json_get (tq_arguments requested) field = Some (JStr target_ref)
           \<and> target_ref \<in> set (map fr_id (refs_of input_bundle kind)))
      \<and> params = JObj [(''name'', JStr (tq_name requested)), (''arguments'', JObj (tq_arguments requested))]
    \<or> tq_kind requested \<noteq> ''tool'' \<and> meth = ''resources/read'' \<and> target_ref = tq_name requested
      \<and> tq_name requested \<in> set (bo_resource_allowlist binding) \<and> tq_arguments requested = []
      \<and> (\<exists>uri. map_of RESOURCE_URIS (tq_name requested) = Some uri \<and> params = JObj [(''uri'', JStr uri)])"
  using assms
  by (auto simp: admit_tool_def tool_denied_def resource_denied_def
      split: if_splits option.splits prod.splits bool.splits json.splits)

text \<open>
  A request the client may send: the release of the session, the initialisation, the notification, or
  the call of a tool or resource that the provider requested and the admission let through.
\<close>

definition mcp_permitted ::
  "mcp_env \<Rightarrow> mcp_client \<Rightarrow> provider_tool_request list \<Rightarrow> frozen_input \<Rightarrow> binding_observation
     \<Rightarrow> http_request \<Rightarrow> bool" where
  "mcp_permitted env c requests input_bundle binding rq \<longleftrightarrow>
     pinned_url (mc_client c) ''/mcp'' = Inr (hr_url rq)
   \<and> (hr_method rq = ''DELETE'' \<and> hr_body rq = None
      \<or> hr_method rq = ''POST'' \<and> (\<exists>request raw. hr_body rq = Some raw
          \<and> go_json_bytes (me_py env) (JObj request) = Inr raw
          \<and> (request = init_request input_bundle \<or> request = initialized_notification
             \<or> (\<exists>requested \<in> set requests. \<exists>index target_ref meth params.
                  admit_tool requested input_bundle binding = Inr (target_ref, meth, params)
                \<and> request = rpc_request (tool_request_id input_bundle index) meth params))))"

lemma budgeted_rpc:
  assumes "\<And>raw url. go_json_bytes (me_py env) (JObj request) = Inr raw \<Longrightarrow> pinned_url (mc_client c) ''/mcp'' = Inr url \<Longrightarrow>
      P \<lparr>hr_method = ''POST'', hr_url = url, hr_headers = with_host headers (host_header (mc_client c)),
         hr_body = Some raw, hr_sni = pc_server_name (mc_client c), hr_timeout_ms = t\<rparr>"
  shows "budgeted P 1 (rpc env c request headers t n a)"
proof (cases "go_json_bytes (me_py env) (JObj request)")
  case (Inl e)
  then show ?thesis by (simp add: rpc_def budgeted_def stateful_defs)
next
  case (Inr raw)
  have "budgeted P 1 (http_call (mc_client c) ''POST'' ''/mcp'' headers (Some raw) t n a)"
    by (rule budgeted_http_call) (rule assms [OF Inr])
  then have "budgeted P (1 + 0) (bindS (http_call (mc_client c) ''POST'' ''/mcp'' headers (Some raw) t n a)
      (\<lambda>response. readS (\<lambda>_. rpc_result env response)))"
    by (intro budgeted_bindS budget)
  with Inr show ?thesis by (simp add: rpc_def budgeted_def stateful_defs)
qed

lemma budgeted_execute_one:
  assumes "requested \<in> set requests"
  shows "budgeted (mcp_permitted env c requests input_bundle binding) 1
    (execute_one env c index requested input_bundle binding session_id round_number)"
proof (cases "admit_tool requested input_bundle binding")
  case (Inl e)
  then show ?thesis by (simp add: execute_one_def budgeted_def stateful_defs)
next
  case (Inr tmp)
  obtain target_ref meth params where tmp: "tmp = (target_ref, meth, params)" by (cases tmp) auto
  let ?rq = "rpc_request (tool_request_id input_bundle index) meth params"
  have "budgeted (mcp_permitted env c requests input_bundle binding) 1 (rpc env c ?rq h t n a)" for h t n a
  proof (rule budgeted_rpc)
    fix raw url
    assume "go_json_bytes (me_py env) (JObj ?rq) = Inr raw" "pinned_url (mc_client c) ''/mcp'' = Inr url"
    with assms Inr tmp show "mcp_permitted env c requests input_bundle binding \<lparr>hr_method = ''POST'', hr_url = url,
        hr_headers = with_host h (host_header (mc_client c)), hr_body = Some raw,
        hr_sni = pc_server_name (mc_client c), hr_timeout_ms = t\<rparr>"
      unfolding mcp_permitted_def by simp blast
  qed
  then have "budgeted (mcp_permitted env c requests input_bundle binding) (1 + 0)
      (bindS (rpc env c ?rq h t n a) (\<lambda>(response, _). readS (f response)))" for h t n a f
    by (intro budgeted_bindS) (auto intro: budget split: prod.splits)
  then show ?thesis
    by (simp add: execute_one_def budgeted_def Inr tmp bindS_def [of "readS _"] readS_def [of _ "_ :: world"])
qed

lemma budgeted_set_mcp_status [budget]: "budgeted P k (set_mcp_status s)"
  by (simp add: budgeted_def set_mcp_status_def stateful_defs log_ext_def)

lemma budgeted_mcp_failed [budget]: "budgeted P 0 (mcp_failed e :: 'a world_call)"
proof -
  have "budgeted P (0 + 0) (bindS (set_mcp_status ''unavailable'') (\<lambda>_. raiseS e :: 'a world_call))"
    by (intro budgeted_bindS budget)
  then show ?thesis by (simp add: mcp_failed_def budget)
qed

lemma budgeted_session_calls:
  assumes "set bounded \<subseteq> set requests"
  shows "budgeted (mcp_permitted env c requests input_bundle binding) (1 + length bounded)
    (session_calls env c bounded input_bundle binding round_number init_response session_id)"
proof -
  let ?P = "mcp_permitted env c requests input_bundle binding"
  let ?calls = "map (\<lambda>(index, requested). execute_one env c index requested input_bundle binding session_id round_number)
      (enumerate_from 1 bounded)"
  have len: "length ?calls = length bounded" by simp
  have "budgeted ?P 1 call" if "call \<in> set ?calls" for call
    using that assms by (auto simp del: One_nat_def intro!: budgeted_execute_one dest!: set_enumerate_from)
  from budgeted_gather [OF this] len have calls: "budgeted ?P (length bounded) (gather ?calls)"
    by (metis (no_types, lifting) mult.right_neutral)
  have notif: "budgeted ?P 1 (rpc env c initialized_notification h t n a)" for h t n a
    by (rule budgeted_rpc) (auto simp: mcp_permitted_def)
  have tail: "budgeted ?P 0 (bindS (readS f) (\<lambda>total. if total > m then raiseS e
      else bindS (set_mcp_status s) (\<lambda>_. retS results)))" for f m e s and results :: "tool_result list"
    by (rule budgeted_mono [OF budgeted_bindS [of _ 0 _ 0]])
       (auto intro: budget budgeted_mono [OF budgeted_bindS [of _ 0 _ 0]])
  have "budgeted ?P (0 + (1 + (length bounded + 0)))
      (session_calls env c bounded input_bundle binding round_number init_response session_id)"
    unfolding session_calls_def by (intro budgeted_bindS calls notif tail budget)
  then show ?thesis by simp
qed

lemma budgeted_release_session:
  "budgeted (mcp_permitted env c requests input_bundle binding) 1 (release_session c input_bundle binding r s)"
proof -
  let ?P = "mcp_permitted env c requests input_bundle binding"
  have "budgeted ?P 1 (http_call (mc_client c) ''DELETE'' ''/mcp'' h None t n a)" for h t n a
    by (rule budgeted_http_call) (simp add: mcp_permitted_def)
  then have "budgeted ?P (1 + 0 + 0) (tryS (bindS (http_call (mc_client c) ''DELETE'' ''/mcp'' h None t n a) (\<lambda>_. retS ()))
      (\<lambda>e. if is_analysis_error e then retS () else raiseS e))" for h t n a
    by (intro budgeted_tryS budgeted_bindS) (auto intro: budget)
  then show ?thesis by (auto simp: release_session_def intro: budget)
qed

lemma budgeted_execute:
  "budgeted (mcp_permitted env c requests input_bundle binding)
     (3 + nat (bg_tool_calls (fi_budgets input_bundle)))
     (execute env c requests input_bundle binding round_number)"
proof -
  let ?P = "mcp_permitted env c requests input_bundle binding"
  let ?k = "nat (bg_tool_calls (fi_budgets input_bundle))"
  let ?bounded = "take ?k requests"
  have init: "budgeted ?P (1 + 0) (tryS (rpc env c (init_request input_bundle) h t n a) mcp_failed)" for h t n a
    by (intro budgeted_tryS budget, rule budgeted_rpc) (auto simp: mcp_permitted_def)
  have calls: "budgeted ?P (1 + ?k) (tryS (session_calls env c ?bounded input_bundle binding round_number i s) mcp_failed)" for i s
    by (rule budgeted_mono [OF budgeted_tryS [OF budgeted_session_calls budgeted_mcp_failed]])
       (auto dest: in_set_takeD)
  have rest: "budgeted ?P (1 + ?k + 1) (run_session env c ?bounded input_bundle binding round_number opened)" for opened
  proof (rule budgetedI)
    fix w
    obtain r w1 where a: "tryS (session_calls env c ?bounded input_bundle binding round_number (fst opened) (snd opened))
        mcp_failed w = (r, w1)" by fastforce
    obtain q w2 where b: "release_session c input_bundle binding round_number (snd opened) w1 = (q, w2)" by fastforce
    from budgetedD [OF calls, of w "fst opened" "snd opened"] a have "log_ext ?P (1 + ?k) w w1" by simp
    moreover from budgetedD [OF budgeted_release_session, of env c requests input_bundle binding w1 round_number "snd opened"] b
    have "log_ext ?P 1 w1 w2" by simp
    ultimately have "log_ext ?P (1 + ?k + 1) w w2" by (rule log_ext_trans)
    with a b show "log_ext ?P (1 + ?k + 1) w (snd (run_session env c ?bounded input_bundle binding round_number opened w))"
      by (simp add: run_session_def split: sum.splits)
  qed
  have "budgeted ?P (1 + 0 + (1 + ?k + 1)) (bindS (tryS (rpc env c (init_request input_bundle) h t n a) mcp_failed)
      (run_session env c ?bounded input_bundle binding round_number))" for h t n a
    by (intro budgeted_bindS init rest)
  then show ?thesis
    by (auto simp: execute_def Let_def numeral_3_eq_3 intro: budget)
qed

text \<open>
  The call of a requested tool on the binding's allowlist, with exactly the one argument the tool takes,
  naming an object of the matching reference group of the frozen input; and the read of a requested
  allowlisted resource without arguments.
\<close>

definition allowed_tool_call ::
  "provider_tool_request list \<Rightarrow> frozen_input \<Rightarrow> binding_observation \<Rightarrow> (str \<times> json) list \<Rightarrow> bool" where
  "allowed_tool_call requests input_bundle binding request \<longleftrightarrow>
     (\<exists>q \<in> set requests. \<exists>index target field kind. tq_name q \<in> set (bo_tool_allowlist binding)
        \<and> map_of TOOL_ARGUMENT_FIELDS (tq_name q) = Some (field, kind)
        \<and> set (map fst (tq_arguments q)) = {field}
        \<and> json_get (tq_arguments q) field = Some (JStr target)
        \<and> target \<in> set (map fr_id (refs_of input_bundle kind))
        \<and> request = rpc_request (tool_request_id input_bundle index) ''tools/call''
            (JObj [(''name'', JStr (tq_name q)), (''arguments'', JObj (tq_arguments q))]))"

definition allowed_resource_read ::
  "provider_tool_request list \<Rightarrow> frozen_input \<Rightarrow> binding_observation \<Rightarrow> (str \<times> json) list \<Rightarrow> bool" where
  "allowed_resource_read requests input_bundle binding request \<longleftrightarrow>
     (\<exists>q \<in> set requests. \<exists>index uri. tq_name q \<in> set (bo_resource_allowlist binding)
        \<and> tq_arguments q = [] \<and> map_of RESOURCE_URIS (tq_name q) = Some uri
        \<and> request = rpc_request (tool_request_id input_bundle index) ''resources/read'' (JObj [(''uri'', JStr uri)]))"

lemma admitted_allowed:
  assumes "q \<in> set requests" and "admit_tool q input_bundle binding = Inr (target, meth, params)"
    and "request = rpc_request (tool_request_id input_bundle index) meth params"
  shows "allowed_tool_call requests input_bundle binding request \<or> allowed_resource_read requests input_bundle binding request"
  using admit_tool_ok [OF assms(2)]
proof
  assume "tq_kind q = ''tool'' \<and> meth = ''tools/call'' \<and> tq_name q \<in> set (bo_tool_allowlist binding)
      \<and> (\<exists>field kind. map_of TOOL_ARGUMENT_FIELDS (tq_name q) = Some (field, kind)
           \<and> set (map fst (tq_arguments q)) = {field} \<and> json_get (tq_arguments q) field = Some (JStr target)
           \<and> target \<in> set (map fr_id (refs_of input_bundle kind)))
      \<and> params = JObj [(''name'', JStr (tq_name q)), (''arguments'', JObj (tq_arguments q))]"
  then have "allowed_tool_call requests input_bundle binding request"
    unfolding allowed_tool_call_def using assms(1,3) by blast
  then show ?thesis ..
next
  assume "tq_kind q \<noteq> ''tool'' \<and> meth = ''resources/read'' \<and> target = tq_name q
      \<and> tq_name q \<in> set (bo_resource_allowlist binding) \<and> tq_arguments q = []
      \<and> (\<exists>uri. map_of RESOURCE_URIS (tq_name q) = Some uri \<and> params = JObj [(''uri'', JStr uri)])"
  then have "allowed_resource_read requests input_bundle binding request"
    unfolding allowed_resource_read_def using assms(1,3) by blast
  then show ?thesis ..
qed

lemma permitted_allowed:
  assumes "mcp_permitted env c requests input_bundle binding rq"
  shows "pinned_url (mc_client c) ''/mcp'' = Inr (hr_url rq)
    \<and> (hr_method rq = ''DELETE'' \<and> hr_body rq = None
       \<or> hr_method rq = ''POST'' \<and> (\<exists>request raw. hr_body rq = Some raw
           \<and> go_json_bytes (me_py env) (JObj request) = Inr raw
           \<and> (request = init_request input_bundle \<or> request = initialized_notification
              \<or> allowed_tool_call requests input_bundle binding request
              \<or> allowed_resource_read requests input_bundle binding request)))"
  using assms unfolding mcp_permitted_def by (blast dest: admitted_allowed)

text \<open>
  C22: the MCP client stays inside the authority of the binding and the frozen input, whatever the
  provider asks for and the server replies. It sends at most three requests beyond the budgeted number
  of calls, all to the pinned endpoint; besides initialisation, notification and session release, each
  is the call of a requested tool that is on the binding's allowlist, with exactly the one argument the
  tool takes, naming an object of the matching reference group of the frozen input, or the read of a
  requested allowlisted resource without arguments.
\<close>

theorem mcp_calls_authorised:
  assumes "execute env c requests input_bundle binding round_number w = (r, w')"
  shows "\<exists>new. w_sent w' = w_sent w @ new
    \<and> length new \<le> 3 + nat (bg_tool_calls (fi_budgets input_bundle))
    \<and> (\<forall>rq \<in> set new. pinned_url (mc_client c) ''/mcp'' = Inr (hr_url rq)
       \<and> (hr_method rq = ''DELETE'' \<and> hr_body rq = None
          \<or> hr_method rq = ''POST'' \<and> (\<exists>request raw. hr_body rq = Some raw
              \<and> go_json_bytes (me_py env) (JObj request) = Inr raw
              \<and> (request = init_request input_bundle \<or> request = initialized_notification
                 \<or> allowed_tool_call requests input_bundle binding request
                 \<or> allowed_resource_read requests input_bundle binding request))))"
proof -
  from budgetedD [OF budgeted_execute, of env c requests input_bundle binding w round_number] assms
  obtain new where new: "w_sent w' = w_sent w @ new" "length new \<le> 3 + nat (bg_tool_calls (fi_budgets input_bundle))"
    and permitted: "\<And>rq. rq \<in> set new \<Longrightarrow> mcp_permitted env c requests input_bundle binding rq"
    by (auto simp: log_ext_def list_all_iff)
  show ?thesis
    by (intro exI [of _ new] conjI [OF new(1) conjI [OF new(2)]] ballI permitted_allowed permitted)
qed

section \<open>Results\<close>

lemma tool_result_of_ok:
  assumes "tool_result_of env request_id requested target_ref now response = Inr res"
  shows "tl_request_id res = request_id \<and> tl_kind res = tq_kind requested \<and> tl_name res = tq_name requested
    \<and> tl_target_ref res = target_ref
    \<and> canonical_digest env (JObj (tl_structured res)) = Inr (tl_content_digest res)"
proof -
  from assms obtain kvs result where "response = Some kvs" "json_get kvs ''id'' = Some (JStr request_id)"
    "json_get kvs ''result'' = Some (JObj result)"
    by (auto simp: tool_result_of_def split: option.split_asm bool.split_asm json.split_asm)
  with assms show ?thesis by (auto simp: tool_result_of_def rbind_eq_Inr Let_def)
qed

lemma execute_one_ok:
  assumes "execute_one env c index requested input_bundle binding session_id round_number u = (Inr res, v)"
  shows "tl_request_id res = tool_request_id input_bundle index \<and> tl_kind res = tq_kind requested
    \<and> tl_name res = tq_name requested
    \<and> canonical_digest (me_py env) (JObj (tl_structured res)) = Inr (tl_content_digest res)
    \<and> (\<exists>meth params. admit_tool requested input_bundle binding = Inr (tl_target_ref res, meth, params))"
  using assms
  by (auto simp: execute_one_def bindS_Inr readS_def dest: tool_result_of_ok)

lemma session_calls_ok:
  assumes "session_calls env c bounded input_bundle binding round_number i s w = (Inr results, w')"
  shows "(\<exists>u v. gather (map (\<lambda>(index, requested).
         execute_one env c index requested input_bundle binding s round_number) (enumerate_from 1 bounded)) u
           = (Inr results, v))
    \<and> (\<exists>total. total_bytes (me_py env) results = Inr total \<and> total \<le> bg_tool_total_response_bytes (fi_budgets input_bundle))"
  using assms
  by (auto simp: session_calls_def bindS_Inr readS_def retS_def raiseS_def set_mcp_status_def modifyS_def
      split: if_splits)

lemma mcp_failed_Inr: "mcp_failed e w \<noteq> (Inr x, w')"
  by (auto simp: mcp_failed_def stateful_defs set_mcp_status_def)

lemma execute_ok:
  assumes "execute env c requests input_bundle binding round_number w = (Inr results, w')" and "requests \<noteq> []"
  shows "\<exists>i s u v. session_calls env c (take (nat (bg_tool_calls (fi_budgets input_bundle))) requests)
    input_bundle binding round_number i s u = (Inr results, v)"
proof -
  from assms obtain opened u where
    "run_session env c (take (nat (bg_tool_calls (fi_budgets input_bundle))) requests) input_bundle binding
       round_number opened u = (Inr results, w')"
    by (auto simp: execute_def Let_def bindS_Inr raiseS_def split: if_splits)
  then obtain v where "tryS (session_calls env c (take (nat (bg_tool_calls (fi_budgets input_bundle))) requests)
      input_bundle binding round_number (fst opened) (snd opened)) mcp_failed u = (Inr results, v)"
    by (auto simp: run_session_def split: prod.splits sum.splits)
  then have "session_calls env c (take (nat (bg_tool_calls (fi_budgets input_bundle))) requests)
      input_bundle binding round_number (fst opened) (snd opened) u = (Inr results, v)"
    by (auto simp: tryS_def mcp_failed_Inr split: prod.splits sum.splits)
  then show ?thesis by blast
qed

text \<open>
  What the MCP client returns is what was asked for, verified and bounded: one result for each of
  the first budgeted requests, in order, with the request identity of its position, the name of its
  request and an admitted target, the canonical digest of its structured content, and together no more
  bytes than the total response budget.
\<close>

theorem mcp_results_verified:
  assumes "execute env c requests input_bundle binding round_number w = (Inr results, w')"
  shows "length results = min (length requests) (nat (bg_tool_calls (fi_budgets input_bundle)))
    \<and> (\<forall>i < length results. tl_request_id (results ! i) = tool_request_id input_bundle (Suc i)
         \<and> tl_name (results ! i) = tq_name (requests ! i)
         \<and> canonical_digest (me_py env) (JObj (tl_structured (results ! i))) = Inr (tl_content_digest (results ! i))
         \<and> (\<exists>meth params. admit_tool (requests ! i) input_bundle binding = Inr (tl_target_ref (results ! i), meth, params)))
    \<and> (requests \<noteq> [] \<longrightarrow> (\<exists>total. total_bytes (me_py env) results = Inr total
         \<and> total \<le> bg_tool_total_response_bytes (fi_budgets input_bundle)))"
proof (cases "requests = []")
  case True
  with assms show ?thesis by (simp add: execute_def retS_def)
next
  case False
  let ?bounded = "take (nat (bg_tool_calls (fi_budgets input_bundle))) requests"
  from execute_ok [OF assms False] obtain i s u v where
    "session_calls env c ?bounded input_bundle binding round_number i s u = (Inr results, v)" by blast
  from session_calls_ok [OF this] obtain u' v' where g: "gather (map (\<lambda>(index, requested).
         execute_one env c index requested input_bundle binding s round_number) (enumerate_from 1 ?bounded)) u'
           = (Inr results, v')"
    and total: "\<exists>total. total_bytes (me_py env) results = Inr total \<and> total \<le> bg_tool_total_response_bytes (fi_budgets input_bundle)"
    by blast
  from gather_Inr [OF g] have len: "length results = length ?bounded"
    and each: "\<And>j. j < length ?bounded \<Longrightarrow> \<exists>p q. execute_one env c (1 + j) (?bounded ! j) input_bundle binding s round_number p
      = (Inr (results ! j), q)"
    by auto
  have "tl_request_id (results ! j) = tool_request_id input_bundle (Suc j)
         \<and> tl_name (results ! j) = tq_name (requests ! j)
         \<and> canonical_digest (me_py env) (JObj (tl_structured (results ! j))) = Inr (tl_content_digest (results ! j))
         \<and> (\<exists>meth params. admit_tool (requests ! j) input_bundle binding = Inr (tl_target_ref (results ! j), meth, params))"
    if "j < length results" for j
    using each [of j] that len by (auto dest!: execute_one_ok)
  with len total show ?thesis by (auto simp: min.commute)
qed

section \<open>A concrete session\<close>

definition sample_mcp_env :: mcp_env where
  "sample_mcp_env = \<lparr>me_py = zero_env,
     me_loads = (\<lambda>raw.
       if raw = ''init'' then Some (JObj [(''jsonrpc'', JStr ''2.0''), (''id'', JStr ''init-run-1''),
         (''result'', JObj [(''protocolVersion'', JStr MCP_VERSION)])])
       else Some (JObj [(''jsonrpc'', JStr ''2.0''), (''id'', JStr ''tool-run-1-1''),
         (''result'', JObj [(''structuredContent'', JObj [(''severity'', JInt 3)])])])),
     me_request_ok = (\<lambda>_. True), me_notification_ok = (\<lambda>_. True), me_error_ok = (\<lambda>_. True),
     me_response_ok = (\<lambda>_. True)\<rparr>"

definition sample_mcp_client :: mcp_client where
  "sample_mcp_client = \<lparr>mc_client = sample_client, mc_config = sample_mcp\<rparr>"

definition sample_mcp_reply :: "http_request list \<Rightarrow> net_reply" where
  "sample_mcp_reply sent =
     (if length sent = 1 then NetReply 200 [(''content-type'', ''application/json''), (''mcp-session-id'', ''s1'')] [''init'']
      else if length sent = 2 then NetReply 202 [] []
      else if length sent = 3 then NetReply 200 [(''content-type'', ''application/json'')] [''tool'']
      else NetReply 200 [] [])"

definition sample_mcp_run :: "(exn + tool_result list) \<times> world" where
  "sample_mcp_run = execute sample_mcp_env sample_mcp_client (ps_tool_requests sample_response) sample_input
     sample_binding 1 (sample_world sample_mcp_reply)"

lemma sample_mcp_run_ok:
  "map_sum id (map tl_target_ref) (fst sample_mcp_run) = Inr [''e-1''] \<and> length (w_sent (snd sample_mcp_run)) = 4"
  by code_simp

theorem mcp_calls_authorised_witness:
  "length (w_sent (snd sample_mcp_run)) = 4 \<and> 4 \<le> 3 + nat (bg_tool_calls (fi_budgets sample_input))"
proof -
  obtain r w' where run: "execute sample_mcp_env sample_mcp_client (ps_tool_requests sample_response) sample_input
     sample_binding 1 (sample_world sample_mcp_reply) = (r, w')" by fastforce
  from mcp_calls_authorised [OF run] obtain new where "w_sent w' = new"
    "length new \<le> 3 + nat (bg_tool_calls (fi_budgets sample_input))"
    by (auto simp: sample_world_def)
  with run sample_mcp_run_ok show ?thesis by (simp add: sample_mcp_run_def)
qed

theorem mcp_results_verified_witness:
  "\<exists>results w'. execute sample_mcp_env sample_mcp_client (ps_tool_requests sample_response) sample_input
     sample_binding 1 (sample_world sample_mcp_reply) = (Inr results, w') \<and> length results = 1"
proof -
  obtain r w' where run: "execute sample_mcp_env sample_mcp_client (ps_tool_requests sample_response) sample_input
     sample_binding 1 (sample_world sample_mcp_reply) = (r, w')" by fastforce
  with sample_mcp_run_ok obtain results where r: "r = Inr results"
    by (cases r) (auto simp: sample_mcp_run_def)
  have "bg_tool_calls (fi_budgets sample_input) = 2" "length (ps_tool_requests sample_response) = 1"
    by (simp_all add: sample_input_def sample_budgets_def sample_response_def)
  with mcp_results_verified [of sample_mcp_env sample_mcp_client "ps_tool_requests sample_response" sample_input
      sample_binding 1 "sample_world sample_mcp_reply" results w'] run r
  show ?thesis by auto
qed

end
