(* ===== verification/Peer.thy ===== *)
theory Peer
  imports Transport Digests
begin

text \<open>
  The A2A peer client (\<open>peer.py\<close>). \<open>pydantic\<close>'s decoder of a peer response is the parameter
  \<open>dec\<close>. A delegation sends one message and polls a bounded number of times; its result is accepted
  only with matching identities and content digest.
\<close>

record peer_result =
  pl_peer_id :: str
  pl_remote_task_id :: str
  pl_content_digest :: str
  pl_summary :: str
  pl_status :: str
  pl_observed_at_unix_ms :: int

definition peer_trajectory_record :: "peer_result \<Rightarrow> json" where
  "peer_trajectory_record r = JObj
     [(''peer_id'', JStr (pl_peer_id r)), (''remote_task_id'', JStr (pl_remote_task_id r)),
      (''content_digest'', JStr (pl_content_digest r)), (''status'', JStr (pl_status r)),
      (''observed_at_unix_ms'', JInt (pl_observed_at_unix_ms r))]"

text \<open>\<open>self._peers\<close>: the configured peers in configuration order, by identity.\<close>

type_synonym peer_table = "(str \<times> (peer_config \<times> pinned_client)) list"

fun new_peer_client :: "os_env \<Rightarrow> os_env \<Rightarrow> bool \<Rightarrow> peer_table \<Rightarrow> peer_config list \<Rightarrow> exn + peer_table" where
  "new_peer_client os os' production peers [] = Inr peers"
| "new_peer_client os os' production peers (config # configs) =
     (if map_of peers (pec_peer_id config) \<noteq> None
      then Inl (AnalysisError ''PEER_CONFIG_REJECTED'' ''duplicate peer identity'' 503)
      else rbind (client_ssl_context (ob_ca_file config) (ob_cert_file config) (ob_key_file config)) (\<lambda>_.
           rbind (new_pinned_client os os' (ob_base_url config) (ob_allowed_ips config)
             (ob_server_name config) production) (\<lambda>client.
           new_peer_client os os' production (peers @ [(pec_peer_id config, (config, client))]) configs)))"

section \<open>Admission\<close>

fun check_delegations :: "str list \<Rightarrow> str list \<Rightarrow> str list \<Rightarrow> provider_delegation list \<Rightarrow> exn + unit" where
  "check_delegations allowed_peer_ids path seen [] = Inr ()"
| "check_delegations allowed_peer_ids path seen (requested # rest) =
     (if dl_peer_id requested \<notin> set allowed_peer_ids
      then Inl (AnalysisError ''PEER_CAPABILITY_DENIED'' ''provider requested a peer outside the exact binding'' 422)
      else if dl_peer_id requested \<in> set seen \<or> dl_peer_id requested \<in> set path
      then Inl (AnalysisError ''LOOP_DETECTED'' ''duplicate or cyclic A2A delegation'' 422)
      else check_delegations allowed_peer_ids path (dl_peer_id requested # seen) rest)"

section \<open>One delegation\<close>

definition remaining_timeout_ms :: "frozen_input \<Rightarrow> world \<Rightarrow> exn + int" where
  "remaining_timeout_ms input_bundle w =
     (let remaining = fi_deadline_unix_ms input_bundle - now_ms w in
      if remaining \<le> 0 then Inl (PeerUnavailable ''A2A parent deadline elapsed'')
      else Inr (min (min remaining (bg_graph_deadline_ms (fi_budgets input_bundle))) 5000))"

definition decode_task_response ::
  "(str \<Rightarrow> peer_task option) \<Rightarrow> bounded_response \<Rightarrow> str \<Rightarrow> int \<Rightarrow> str \<Rightarrow> str \<Rightarrow> exn + peer_task" where
  "decode_task_response dec response plugin_id binding_generation input_digest trace_id =
     rbind (raise_if (br_status_code response \<noteq> 200
         \<or> header_get (br_headers response) ''A2A-Version'' \<noteq> Some A2A_VERSION)
       (PeerUnavailable ''A2A peer status or version rejected'')) (\<lambda>_.
     rbind (raise_if (media_type (br_headers response) \<noteq> ''application/a2a+json'')
       (PeerUnavailable ''A2A peer content type rejected'')) (\<lambda>_.
     case dec (br_body response) of
       None \<Rightarrow> Inl (PeerUnavailable ''A2A peer response failed the strict task contract'')
     | Some task \<Rightarrow>
         let metadata = pt_metadata task in
         if ptm_plugin_id metadata \<noteq> plugin_id \<or> ptm_binding_generation metadata \<noteq> binding_generation
           \<or> ptm_input_digest metadata \<noteq> input_digest \<or> ptm_trace_id metadata \<noteq> trace_id
         then Inl (PeerUnavailable ''A2A peer task binding or input identity mismatch'')
         else Inr task))"

definition delegation_fields :: "frozen_input \<Rightarrow> nat \<Rightarrow> str \<Rightarrow> (str \<times> json) list" where
  "delegation_fields input_bundle index question =
     [(''schema_version'', JStr ''masi-analysis-delegation/v1''),
      (''request_id'', JStr (''delegate-'' @ fi_run_id input_bundle @ ''-'' @ nat_str index)),
      (''parent_task_id'', JStr (fi_task_id input_bundle)),
      (''parent_input_digest'', JStr (fi_input_digest input_bundle)),
      (''question'', JStr question),
      (''evidence_refs'', JArr (map dump_FactRef (fi_evidence_refs input_bundle))),
      (''delegation_depth'', JInt 1),
      (''delegation_path'', JArr (map JStr (fi_delegation_path input_bundle @ [PLUGIN_ID]))),
      (''deadline_unix_ms'', JInt (fi_deadline_unix_ms input_bundle)),
      (''trace_id'', JStr (fi_trace_id input_bundle))]"

definition delegation_message :: "frozen_input \<Rightarrow> nat \<Rightarrow> str \<Rightarrow> str \<Rightarrow> str \<Rightarrow> json" where
  "delegation_message input_bundle index question request_digest plugin_id = JObj
     [(''message'', JObj
        [(''messageId'', JStr (''msg-delegate-'' @ fi_run_id input_bundle @ ''-'' @ nat_str index)),
         (''role'', JStr ''ROLE_USER''),
         (''parts'', JArr [JObj [(''data'', JObj (delegation_fields input_bundle index question
              @ [(''request_digest'', JStr request_digest)])), (''mediaType'', JStr ''application/json'')]]),
         (''metadata'', JObj
           [(''schemaVersion'', JStr ''masi-analysis-delegation/v1''),
            (''inputDigest'', JStr request_digest),
            (''pluginId'', JStr plugin_id),
            (''bindingGeneration'', JInt (fi_binding_generation input_bundle)),
            (''deadlineUnixMs'', JInt (fi_deadline_unix_ms input_bundle))])]),
      (''configuration'', JObj [(''acceptedOutputModes'', JArr [JStr ''application/json''])]),
      (''metadata'', JObj
        [(''traceId'', JStr (fi_trace_id input_bundle)), (''noPush'', JBool True), (''noStreaming'', JBool True),
         (''delegationDepth'', JInt 1),
         (''delegationPath'', JArr (map JStr (fi_delegation_path input_bundle @ [PLUGIN_ID])))])]"

text \<open>One exchange with the peer: the remaining time, the request, and the decoded task.\<close>

definition peer_exchange ::
  "(str \<Rightarrow> peer_task option) \<Rightarrow> pinned_client \<Rightarrow> peer_config \<Rightarrow> frozen_input \<Rightarrow> str \<Rightarrow> str \<Rightarrow> str
     \<Rightarrow> (str \<times> str) list \<Rightarrow> str option \<Rightarrow> peer_task world_call" where
  "peer_exchange dec client config input_bundle request_digest meth path headers body =
     bindS (readS (remaining_timeout_ms input_bundle)) (\<lambda>t.
     bindS (http_call client meth path headers body t (bg_a2a_response_bytes (fi_budgets input_bundle)) False)
       (\<lambda>response.
     readS (\<lambda>_. decode_task_response dec response (pec_plugin_id config) (pec_binding_generation config)
       request_digest (fi_trace_id input_bundle))))"

definition poll_headers :: "(str \<times> str) list" where
  "poll_headers = [(''A2A-Version'', A2A_VERSION), (''Accept'', ''application/a2a+json'')]"

definition send_headers :: "(str \<times> str) list" where
  "send_headers = [(''A2A-Version'', A2A_VERSION), (''Content-Type'', ''application/a2a+json''),
     (''Accept'', ''application/a2a+json'')]"

definition live_state :: "task_state \<Rightarrow> bool" where
  "live_state s \<longleftrightarrow> s = TASK_SUBMITTED \<or> s = TASK_WORKING"

text \<open>The polling loop, at most \<open>polls_per_task\<close> times.\<close>

fun poll ::
  "(str \<Rightarrow> peer_task option) \<Rightarrow> pinned_client \<Rightarrow> peer_config \<Rightarrow> frozen_input \<Rightarrow> str \<Rightarrow> str \<Rightarrow> str \<Rightarrow> nat
     \<Rightarrow> peer_task \<Rightarrow> peer_task world_call" where
  "poll dec client config input_bundle request_digest remote_id remote_context_id 0 task = retS task"
| "poll dec client config input_bundle request_digest remote_id remote_context_id (Suc n) task =
     (if \<not> live_state (pts_state (pt_status task)) then retS task
      else bindS (peer_exchange dec client config input_bundle request_digest ''GET'' (''/tasks/'' @ remote_id)
             poll_headers None) (\<lambda>polled.
           if pt_task_id polled \<noteq> remote_id \<or> pt_context_id polled \<noteq> remote_context_id
           then raiseS (PeerUnavailable ''A2A peer task identity changed during polling'')
           else poll dec client config input_bundle request_digest remote_id remote_context_id n polled))"

definition accept_peer_artifact ::
  "pyenv \<Rightarrow> peer_config \<Rightarrow> str list \<Rightarrow> str \<Rightarrow> int \<Rightarrow> peer_task \<Rightarrow> exn + peer_result" where
  "accept_peer_artifact env config secrets remote_id now task =
     rbind (raise_if (pts_state (pt_status task) \<noteq> TASK_COMPLETED)
       (PeerUnavailable ''A2A peer did not complete within the polling budget'')) (\<lambda>_.
     case pt_artifacts task of
       [] \<Rightarrow> Inl IndexError
     | artifact # _ \<Rightarrow>
     (case pta_parts artifact of
       [] \<Rightarrow> Inl IndexError
     | part # _ \<Rightarrow>
     let data = pp_data part in
     rbind (canonical_digest env (JObj (without_key (json_fields (dump_PeerArtifactData data)) ''content_digest'')))
       (\<lambda>content_digest.
     rbind (raise_if (content_digest \<noteq> pd_content_digest data
         \<or> pam_content_digest (pta_metadata artifact) \<noteq> pd_content_digest data)
       (PeerUnavailable ''A2A peer Artifact content digest mismatch'')) (\<lambda>_.
     rbind (require_safe_output env (pd_summary data) secrets) (\<lambda>summary.
     Inr \<lparr>pl_peer_id = pec_peer_id config, pl_remote_task_id = remote_id,
       pl_content_digest = pd_content_digest data, pl_summary = summary, pl_status = ''succeeded'',
       pl_observed_at_unix_ms = now\<rparr>)))))"

definition delegate_one ::
  "pyenv \<Rightarrow> (str \<Rightarrow> peer_task option) \<Rightarrow> peer_table \<Rightarrow> nat \<Rightarrow> provider_delegation \<Rightarrow> frozen_input
     \<Rightarrow> str list \<Rightarrow> peer_result world_call" where
  "delegate_one env dec peers index requested input_bundle secrets =
     (case map_of peers (dl_peer_id requested) of
        None \<Rightarrow> raiseS (PeerUnavailable ''provider requested an undeclared A2A peer'')
      | Some (config, client) \<Rightarrow>
          bindS (readS (\<lambda>_. require_safe_output env (dl_question requested) secrets)) (\<lambda>question.
          bindS (readS (\<lambda>_. canonical_digest env (JObj (delegation_fields input_bundle index question)))) (\<lambda>request_digest.
          bindS (readS (\<lambda>_. go_json_bytes env
              (delegation_message input_bundle index question request_digest (pec_plugin_id config)))) (\<lambda>body.
          bindS (peer_exchange dec client config input_bundle request_digest ''POST'' ''/message:send''
              send_headers (Some body)) (\<lambda>task.
          bindS (poll dec client config input_bundle request_digest (pt_task_id task) (pt_context_id task)
              (nat (bg_polls_per_task (fi_budgets input_bundle))) task) (\<lambda>final.
          readS (\<lambda>w. accept_peer_artifact env config secrets (pt_task_id task) (now_ms w) final)))))))"

section \<open>All delegations\<close>

definition set_peer_status :: "str \<Rightarrow> unit world_call" where
  "set_peer_status status = modifyS (\<lambda>w. w\<lparr>w_peer_status := (status, now_ms w)\<rparr>)"

definition delegate ::
  "pyenv \<Rightarrow> (str \<Rightarrow> peer_task option) \<Rightarrow> peer_table \<Rightarrow> provider_delegation list \<Rightarrow> frozen_input
     \<Rightarrow> str list \<Rightarrow> str list \<Rightarrow> peer_result list world_call" where
  "delegate env dec peers requests input_bundle allowed_peer_ids secrets =
     (if requests = [] then retS []
      else if bg_delegation_depth (fi_budgets input_bundle) \<ge> 1
      then raiseS (AnalysisError ''LOOP_DETECTED'' ''delegation depth exhausted'' 422)
      else let bounded = take (nat (bg_outbound_delegations (fi_budgets input_bundle))) requests in
        bindS (readS (\<lambda>_. check_delegations allowed_peer_ids (fi_delegation_path input_bundle) [] bounded)) (\<lambda>_.
        tryS (bindS (gather (map (\<lambda>(index, requested).
                delegate_one env dec peers index requested input_bundle secrets) (enumerate_from 1 bounded))) (\<lambda>results.
              bindS (set_peer_status ''ok'') (\<lambda>_. retS results)))
          (\<lambda>e. if is_analysis_error e then bindS (set_peer_status ''unavailable'') (\<lambda>_. raiseS e) else raiseS e)))"

definition peer_trajectory_digest :: "pyenv \<Rightarrow> peer_result list \<Rightarrow> exn + str" where
  "peer_trajectory_digest env results = canonical_digest env (JArr (map peer_trajectory_record results))"

section \<open>Authority and budget\<close>

lemma check_delegations_ok:
  assumes "check_delegations allowed path seen requests = Inr ()"
  shows "(\<forall>q \<in> set requests. dl_peer_id q \<in> set allowed \<and> dl_peer_id q \<notin> set path \<and> dl_peer_id q \<notin> set seen)
    \<and> distinct (map dl_peer_id requests)"
  using assms
proof (induction requests arbitrary: seen)
  case (Cons q rest)
  let ?p = "dl_peer_id q"
  from Cons.prems have ok: "?p \<in> set allowed" "?p \<notin> set seen" "?p \<notin> set path"
    and "check_delegations allowed path (?p # seen) rest = Inr ()"
    by (simp_all only: check_delegations.simps sum.distinct de_Morgan_disj not_False_eq_True split: if_splits)
  from Cons.IH [OF this(4)] ok show ?case by auto
qed simp

lemma remaining_timeout_bounds:
  "remaining_timeout_ms input_bundle w = Inr t \<Longrightarrow>
     t \<le> 5000 \<and> t \<le> bg_graph_deadline_ms (fi_budgets input_bundle) \<and> t \<le> fi_deadline_unix_ms input_bundle - now_ms w"
  by (auto simp: remaining_timeout_ms_def Let_def split: if_splits)

text \<open>
  A request the client may send: to the pinned address of a requested peer that the binding allows and
  that is not already on the delegation path; either the delegation of the parent's frozen input with a
  redacted question, or a poll of a task; with a timeout within the parent's budget.
\<close>

definition peer_permitted ::
  "pyenv \<Rightarrow> peer_table \<Rightarrow> provider_delegation list \<Rightarrow> frozen_input \<Rightarrow> str list \<Rightarrow> str list \<Rightarrow> http_request \<Rightarrow> bool" where
  "peer_permitted env peers requests input_bundle allowed secrets rq \<longleftrightarrow>
     1 \<le> hr_timeout_ms rq \<and> hr_timeout_ms rq \<le> 5000 \<and> hr_timeout_ms rq \<le> bg_graph_deadline_ms (fi_budgets input_bundle)
   \<and> (\<exists>q \<in> set requests. \<exists>config client path. dl_peer_id q \<in> set allowed \<and> dl_peer_id q \<notin> set (fi_delegation_path input_bundle)
        \<and> map_of peers (dl_peer_id q) = Some (config, client) \<and> pinned_url client path = Inr (hr_url rq)
        \<and> (hr_method rq = ''GET'' \<and> hr_body rq = None \<and> (\<exists>remote_id. path = ''/tasks/'' @ remote_id)
           \<or> hr_method rq = ''POST'' \<and> path = ''/message:send''
             \<and> (\<exists>index question digest raw. hr_body rq = Some raw
                 \<and> require_safe_output env (dl_question q) secrets = Inr question
                 \<and> canonical_digest env (JObj (delegation_fields input_bundle index question)) = Inr digest
                 \<and> go_json_bytes env (delegation_message input_bundle index question digest (pec_plugin_id config)) = Inr raw)))"

lemma budgeted_peer_exchange:
  assumes "\<And>url t. pinned_url client path = Inr url \<Longrightarrow> 1 \<le> t \<Longrightarrow> t \<le> 5000 \<Longrightarrow> t \<le> bg_graph_deadline_ms (fi_budgets input_bundle) \<Longrightarrow>
      P \<lparr>hr_method = meth, hr_url = url, hr_headers = with_host headers (host_header client), hr_body = body,
         hr_sni = pc_server_name client, hr_timeout_ms = t\<rparr>"
  shows "budgeted P 1 (peer_exchange dec client config input_bundle digest meth path headers body)"
  unfolding peer_exchange_def
proof (rule budgeted_bind_readS)
  fix w t assume "remaining_timeout_ms input_bundle w = Inr t"
  from remaining_timeout_bounds [OF this]
  show "budgeted P 1 (bindS (http_call client meth path headers body t (bg_a2a_response_bytes (fi_budgets input_bundle)) False)
       (\<lambda>response. readS (\<lambda>_. decode_task_response dec response (pec_plugin_id config) (pec_binding_generation config)
          digest (fi_trace_id input_bundle))))"
    by (intro budgeted_bind_pure budgeted_http_call budget assms) auto
qed

lemma budgeted_poll:
  assumes "\<And>url t remote. pinned_url client (''/tasks/'' @ remote) = Inr url \<Longrightarrow> 1 \<le> t \<Longrightarrow> t \<le> 5000 \<Longrightarrow>
      t \<le> bg_graph_deadline_ms (fi_budgets input_bundle) \<Longrightarrow>
      P \<lparr>hr_method = ''GET'', hr_url = url, hr_headers = with_host poll_headers (host_header client), hr_body = None,
         hr_sni = pc_server_name client, hr_timeout_ms = t\<rparr>"
  shows "budgeted P n (poll dec client config input_bundle digest remote ctx n task)"
proof (induction n arbitrary: task)
  case 0
  then show ?case by (simp add: budget)
next
  case (Suc n)
  have x: "budgeted P 1 (peer_exchange dec client config input_bundle digest ''GET'' (''/tasks/'' @ remote) poll_headers None)"
    by (rule budgeted_peer_exchange) (rule assms)
  have "budgeted P (1 + n) (bindS (peer_exchange dec client config input_bundle digest ''GET'' (''/tasks/'' @ remote) poll_headers None)
     (\<lambda>polled. if pt_task_id polled \<noteq> remote \<or> pt_context_id polled \<noteq> ctx
           then raiseS (PeerUnavailable ''A2A peer task identity changed during polling'')
           else poll dec client config input_bundle digest remote ctx n polled))"
    by (rule budgeted_bindS [OF x]) (use Suc.IH in \<open>auto intro: budget\<close>)
  then show ?case by (simp add: budget)
qed

lemma budgeted_delegate_one:
  assumes "q \<in> set requests" and "dl_peer_id q \<in> set allowed" and "dl_peer_id q \<notin> set (fi_delegation_path input_bundle)"
  shows "budgeted (peer_permitted env peers requests input_bundle allowed secrets)
    (1 + nat (bg_polls_per_task (fi_budgets input_bundle))) (delegate_one env dec peers index q input_bundle secrets)"
proof (cases "map_of peers (dl_peer_id q)")
  case None
  then show ?thesis by (simp add: delegate_one_def budget)
next
  case (Some cc)
  obtain config client where cc: "cc = (config, client)" by fastforce
  let ?P = "peer_permitted env peers requests input_bundle allowed secrets"
  let ?n = "nat (bg_polls_per_task (fi_budgets input_bundle))"
  have poll: "budgeted ?P ?n (poll dec client config input_bundle d r c ?n t)" for d r c t
  proof (rule budgeted_poll)
    fix url t remote
    assume "pinned_url client (''/tasks/'' @ remote) = Inr url" "1 \<le> t" "t \<le> 5000"
      "t \<le> bg_graph_deadline_ms (fi_budgets input_bundle)"
    then show "?P \<lparr>hr_method = ''GET'', hr_url = url, hr_headers = with_host poll_headers (host_header client),
        hr_body = None, hr_sni = pc_server_name client, hr_timeout_ms = t\<rparr>"
      unfolding peer_permitted_def http_request.simps using assms Some cc by blast
  qed
  have rest: "budgeted ?P ?n (bindS (poll dec client config input_bundle d r c ?n t)
      (\<lambda>final. readS (\<lambda>w. accept_peer_artifact env config secrets r (now_ms w) final)))" for d r c t
    by (intro budgeted_bind_pure poll budget)
  have send: "budgeted ?P 1 (peer_exchange dec client config input_bundle digest ''POST'' ''/message:send'' send_headers (Some raw))"
    if "require_safe_output env (dl_question q) secrets = Inr question"
      and "canonical_digest env (JObj (delegation_fields input_bundle index question)) = Inr digest"
      and "go_json_bytes env (delegation_message input_bundle index question digest (pec_plugin_id config)) = Inr raw"
    for question digest raw
  proof (rule budgeted_peer_exchange)
    fix url t
    assume "pinned_url client ''/message:send'' = Inr url" "1 \<le> t" "t \<le> 5000"
      "t \<le> bg_graph_deadline_ms (fi_budgets input_bundle)"
    with assms Some cc that
    show "?P \<lparr>hr_method = ''POST'', hr_url = url, hr_headers = with_host send_headers (host_header client),
        hr_body = Some raw, hr_sni = pc_server_name client, hr_timeout_ms = t\<rparr>"
      unfolding peer_permitted_def http_request.simps by blast
  qed
  show ?thesis
    unfolding delegate_one_def Some cc option.case prod.case
    by (intro budgeted_bind_readS budgeted_bindS send rest)
qed

lemma budgeted_set_peer_status [budget]: "budgeted P k (set_peer_status s)"
  by (simp add: budgeted_def set_peer_status_def stateful_defs log_ext_def)

lemma budgeted_delegate:
  "budgeted (peer_permitted env peers requests input_bundle allowed secrets)
     (nat (bg_outbound_delegations (fi_budgets input_bundle)) * (1 + nat (bg_polls_per_task (fi_budgets input_bundle))))
     (delegate env dec peers requests input_bundle allowed secrets)"
proof -
  let ?P = "peer_permitted env peers requests input_bundle allowed secrets"
  let ?d = "nat (bg_outbound_delegations (fi_budgets input_bundle))"
  let ?n = "1 + nat (bg_polls_per_task (fi_budgets input_bundle))"
  let ?bounded = "take ?d requests"
  let ?calls = "map (\<lambda>(index, requested). delegate_one env dec peers index requested input_bundle secrets) (enumerate_from 1 ?bounded)"
  have inner: "budgeted ?P (?d * ?n) (tryS (bindS (gather ?calls) (\<lambda>results. bindS (set_peer_status ''ok'') (\<lambda>_. retS results)))
          (\<lambda>e. if is_analysis_error e then bindS (set_peer_status ''unavailable'') (\<lambda>_. raiseS e) else raiseS e))"
    if "check_delegations allowed (fi_delegation_path input_bundle) [] ?bounded = Inr u" for u
  proof -
    have ok: "dl_peer_id q \<in> set allowed \<and> dl_peer_id q \<notin> set (fi_delegation_path input_bundle) \<and> q \<in> set requests"
      if "q \<in> set ?bounded" for q
      using check_delegations_ok [of allowed "fi_delegation_path input_bundle" "[]" ?bounded]
        \<open>check_delegations allowed (fi_delegation_path input_bundle) [] ?bounded = Inr u\<close> that
      by (auto dest: in_set_takeD)
    have "budgeted ?P ?n call" if "call \<in> set ?calls" for call
      using that ok by (auto intro!: budgeted_delegate_one [simplified] dest!: set_enumerate_from)
    from budgeted_gather [OF this] have "budgeted ?P (length ?calls * ?n) (gather ?calls)" .
    moreover have "length ?calls * ?n \<le> ?d * ?n" by (intro mult_right_mono) simp_all
    ultimately have g: "budgeted ?P (?d * ?n) (gather ?calls)" by (rule budgeted_mono)
    have "budgeted ?P (?d * ?n + 0) (tryS (bindS (gather ?calls) (\<lambda>results. bindS (set_peer_status ''ok'') (\<lambda>_. retS results)))
          (\<lambda>e. if is_analysis_error e then bindS (set_peer_status ''unavailable'') (\<lambda>_. raiseS e) else raiseS e))"
      by (intro budgeted_tryS budgeted_bind_pure g) (auto intro!: budgeted_bind_pure budget)
    then show ?thesis by simp
  qed
  then show ?thesis
    by (auto simp: delegate_def Let_def intro!: budgeted_bind_readS budget)
qed

text \<open>
  C23: outbound delegation stays inside the binding and the budget. Whatever the provider requested and
  whatever the peers answer, a delegation round only appends to the log of requests, at most
  \<open>outbound_delegations * (1 + polls_per_task)\<close> of them, and every one goes to the pinned address of a
  requested peer that the binding allows and that is not already on the delegation path: it is the
  delegation message with a question that passed the output guard, or a poll, and its timeout is within the
  graph deadline and five seconds. When the parent is itself a delegation nothing is sent.
\<close>

theorem peer_delegations_authorised:
  assumes "delegate env dec peers requests input_bundle allowed secrets w = (r, w')"
  shows "\<exists>new. w_sent w' = w_sent w @ new
    \<and> length new \<le> nat (bg_outbound_delegations (fi_budgets input_bundle)) * (1 + nat (bg_polls_per_task (fi_budgets input_bundle)))
    \<and> (\<forall>rq \<in> set new. peer_permitted env peers requests input_bundle allowed secrets rq)
    \<and> (bg_delegation_depth (fi_budgets input_bundle) \<ge> 1 \<longrightarrow> new = [])"
proof -
  from budgetedD [OF budgeted_delegate [of env peers requests input_bundle allowed secrets dec], of w] assms
  obtain new where new: "w_sent w' = w_sent w @ new"
    "length new \<le> nat (bg_outbound_delegations (fi_budgets input_bundle)) * (1 + nat (bg_polls_per_task (fi_budgets input_bundle)))"
    "list_all (peer_permitted env peers requests input_bundle allowed secrets) new"
    by (auto simp: log_ext_def)
  have "w' = w" if "bg_delegation_depth (fi_budgets input_bundle) \<ge> 1"
    using assms that by (auto simp: delegate_def stateful_defs split: if_splits)
  with new show ?thesis by (auto simp: list_all_iff)
qed

section \<open>Accepted results\<close>

text \<open>A task with the identities that a delegation to \<open>config\<close> demands.\<close>

definition identified_task :: "peer_config \<Rightarrow> str \<Rightarrow> str \<Rightarrow> peer_task \<Rightarrow> bool" where
  "identified_task config digest trace_id task \<longleftrightarrow>
     ptm_plugin_id (pt_metadata task) = pec_plugin_id config
   \<and> ptm_binding_generation (pt_metadata task) = pec_binding_generation config
   \<and> ptm_input_digest (pt_metadata task) = digest \<and> ptm_trace_id (pt_metadata task) = trace_id"

lemma decode_task_response_ok:
  assumes "decode_task_response dec response (pec_plugin_id config) (pec_binding_generation config) digest trace_id = Inr task"
  shows "identified_task config digest trace_id task \<and> br_status_code response = 200"
  using assms
  by (auto simp: decode_task_response_def identified_task_def rbind_raise_if Let_def split: if_splits option.splits)

lemma peer_exchange_ok:
  assumes "peer_exchange dec client config input_bundle digest meth path headers body w = (Inr task, w')"
  shows "identified_task config digest (fi_trace_id input_bundle) task"
  using assms by (auto simp: peer_exchange_def bindS_Inr readS_def dest!: decode_task_response_ok)

lemma poll_ok:
  assumes "poll dec client config input_bundle digest remote ctx n task w = (Inr final, w')"
    and "identified_task config digest (fi_trace_id input_bundle) task" and "pt_task_id task = remote"
  shows "identified_task config digest (fi_trace_id input_bundle) final \<and> pt_task_id final = remote"
  using assms
proof (induction n arbitrary: task w)
  case 0
  then show ?case by (simp add: retS_def)
next
  case (Suc n)
  show ?case
  proof (cases "live_state (pts_state (pt_status task))")
    case False
    with Suc.prems show ?thesis by (simp add: retS_def)
  next
    case True
    with Suc.prems(1) obtain polled u where
      x: "peer_exchange dec client config input_bundle digest ''GET'' (''/tasks/'' @ remote) poll_headers None w = (Inr polled, u)"
      and p: "(if pt_task_id polled \<noteq> remote \<or> pt_context_id polled \<noteq> ctx
           then raiseS (PeerUnavailable ''A2A peer task identity changed during polling'')
           else poll dec client config input_bundle digest remote ctx n polled) u = (Inr final, w')"
      unfolding poll.simps by (simp only: not_True_eq_False if_False bindS_Inr) blast
    from p have "pt_task_id polled = remote" and "poll dec client config input_bundle digest remote ctx n polled u = (Inr final, w')"
      by (auto simp: raiseS_def split: if_splits)
    with Suc.IH peer_exchange_ok [OF x] show ?thesis by blast
  qed
qed

text \<open>
  A result that may enter the analysis: it comes from a completed task of that peer with the identities
  demanded of it, its artifact has the digest it states (twice), and its summary passed the output guard.
\<close>

definition verified_peer_result ::
  "pyenv \<Rightarrow> peer_config \<Rightarrow> frozen_input \<Rightarrow> str list \<Rightarrow> str \<Rightarrow> peer_result \<Rightarrow> bool" where
  "verified_peer_result env config input_bundle secrets digest r \<longleftrightarrow>
     pl_peer_id r = pec_peer_id config
   \<and> (\<exists>task artifact part. identified_task config digest (fi_trace_id input_bundle) task
        \<and> pt_task_id task = pl_remote_task_id r \<and> pts_state (pt_status task) = TASK_COMPLETED
        \<and> artifact \<in> set (pt_artifacts task) \<and> part \<in> set (pta_parts artifact)
        \<and> canonical_digest env (JObj (without_key (json_fields (dump_PeerArtifactData (pp_data part))) ''content_digest''))
            = Inr (pl_content_digest r)
        \<and> pd_content_digest (pp_data part) = pl_content_digest r
        \<and> pam_content_digest (pta_metadata artifact) = pl_content_digest r
        \<and> require_safe_output env (pd_summary (pp_data part)) secrets = Inr (pl_summary r))"

lemma accept_peer_artifact_ok:
  assumes "accept_peer_artifact env config secrets remote_id now task = Inr r"
    and "identified_task config digest (fi_trace_id input_bundle) task" and "pt_task_id task = remote_id"
  shows "verified_peer_result env config input_bundle secrets digest r"
proof -
  from assms(1) obtain artifact as part ps summary where
    a: "pts_state (pt_status task) = TASK_COMPLETED" "pt_artifacts task = artifact # as" "pta_parts artifact = part # ps"
      "canonical_digest env (JObj (without_key (json_fields (dump_PeerArtifactData (pp_data part))) ''content_digest''))
         = Inr (pd_content_digest (pp_data part))"
      "pam_content_digest (pta_metadata artifact) = pd_content_digest (pp_data part)"
      "require_safe_output env (pd_summary (pp_data part)) secrets = Inr summary"
    and r: "r = \<lparr>pl_peer_id = pec_peer_id config, pl_remote_task_id = remote_id,
       pl_content_digest = pd_content_digest (pp_data part), pl_summary = summary, pl_status = ''succeeded'',
       pl_observed_at_unix_ms = now\<rparr>"
    by (auto simp: accept_peer_artifact_def rbind_eq_Inr Let_def split: list.splits)
  show ?thesis
    unfolding verified_peer_result_def r peer_result.simps using a assms(2,3)
    by (intro conjI exI [of _ task] exI [of _ artifact] exI [of _ part]) simp_all
qed

lemma delegate_one_ok:
  assumes "delegate_one env dec peers index q input_bundle secrets w = (Inr r, w')"
  shows "\<exists>config client question digest. map_of peers (dl_peer_id q) = Some (config, client)
    \<and> require_safe_output env (dl_question q) secrets = Inr question
    \<and> canonical_digest env (JObj (delegation_fields input_bundle index question)) = Inr digest
    \<and> verified_peer_result env config input_bundle secrets digest r"
proof -
  from assms obtain config client where cc: "map_of peers (dl_peer_id q) = Some (config, client)"
    by (auto simp: delegate_one_def raiseS_def split: option.splits)
  from assms obtain question digest raw task u1 u2 final u3 u4 where
    q: "require_safe_output env (dl_question q) secrets = Inr question"
    "canonical_digest env (JObj (delegation_fields input_bundle index question)) = Inr digest" and
    x: "peer_exchange dec client config input_bundle digest ''POST'' ''/message:send'' send_headers (Some raw) u1 = (Inr task, u2)" and
    p: "poll dec client config input_bundle digest (pt_task_id task) (pt_context_id task)
          (nat (bg_polls_per_task (fi_budgets input_bundle))) task u2 = (Inr final, u3)" and
    a: "accept_peer_artifact env config secrets (pt_task_id task) (now_ms u4) final = Inr r"
    unfolding delegate_one_def cc option.case prod.case bindS_Inr readS_def by auto
  from poll_ok [OF p peer_exchange_ok [OF x] refl] accept_peer_artifact_ok [OF a] cc q show ?thesis by blast
qed

text \<open>
  Only verified peer results enter the analysis. When a delegation round returns, it has one result
  per bounded delegation, the peers are pairwise different, and each result comes from a completed task of
  the peer the provider named, bound to the digest of the very delegation that was sent, whose artifact
  content hashes to the digest it carries and whose summary passed the output guard.
\<close>

theorem peer_results_verified:
  assumes "delegate env dec peers requests input_bundle allowed secrets w = (Inr results, w')"
  shows "length results = min (length requests) (nat (bg_outbound_delegations (fi_budgets input_bundle)))
    \<and> distinct (map dl_peer_id (take (length results) requests))
    \<and> (\<forall>j < length results. \<exists>config client question digest. map_of peers (dl_peer_id (requests ! j)) = Some (config, client)
         \<and> require_safe_output env (dl_question (requests ! j)) secrets = Inr question
         \<and> canonical_digest env (JObj (delegation_fields input_bundle (Suc j) question)) = Inr digest
         \<and> verified_peer_result env config input_bundle secrets digest (results ! j))"
proof (cases "requests = []")
  case True
  with assms show ?thesis by (simp add: delegate_def retS_def)
next
  case False
  let ?d = "nat (bg_outbound_delegations (fi_budgets input_bundle))"
  let ?bounded = "take ?d requests"
  let ?calls = "map (\<lambda>(index, requested). delegate_one env dec peers index requested input_bundle secrets) (enumerate_from 1 ?bounded)"
  from assms False obtain u v where g: "gather ?calls u = (Inr results, v)"
    and chk: "check_delegations allowed (fi_delegation_path input_bundle) [] ?bounded = Inr ()"
    by (auto simp: delegate_def Let_def bindS_Inr readS_def raiseS_def tryS_def retS_def split: if_splits prod.splits sum.splits)
  from gather_Inr [OF g] have len: "length results = length ?bounded"
    and each: "\<And>j. j < length ?bounded \<Longrightarrow> \<exists>p q. delegate_one env dec peers (1 + j) (?bounded ! j) input_bundle secrets p
      = (Inr (results ! j), q)"
    by auto
  from check_delegations_ok [OF chk] have "distinct (map dl_peer_id ?bounded)" by blast
  with len have "distinct (map dl_peer_id (take (length results) requests))" by (simp add: min_def split: if_splits)
  moreover have "\<exists>config client question digest. map_of peers (dl_peer_id (requests ! j)) = Some (config, client)
         \<and> require_safe_output env (dl_question (requests ! j)) secrets = Inr question
         \<and> canonical_digest env (JObj (delegation_fields input_bundle (Suc j) question)) = Inr digest
         \<and> verified_peer_result env config input_bundle secrets digest (results ! j)" if "j < length results" for j
    using each [of j] that len by (auto dest: delegate_one_ok)
  ultimately show ?thesis using len by (simp add: min.commute)
qed

section \<open>A concrete delegation\<close>

definition sample_peer_task :: "task_state \<Rightarrow> peer_task" where
  "sample_peer_task state = \<lparr>pt_task_id = ''rt-1'', pt_context_id = ''rc-1'',
     pt_status = \<lparr>pts_state = state, pts_timestamp = ''''\<rparr>,
     pt_artifacts = (if state = TASK_COMPLETED then [\<lparr>pta_artifact_id = ''a-1'', pta_name = '''', pta_description = '''',
       pta_parts = [\<lparr>pp_data = \<lparr>pd_schema_version = ''masi-analysis-delegation-result/v1'', pd_summary = ''no'',
         pd_source_refs = [], pd_content_digest = dig CHR ''0''\<rparr>, pp_media_type = ''application/json''\<rparr>],
       pta_metadata = \<lparr>pam_content_digest = dig CHR ''0'', pam_non_executable = True\<rparr>\<rparr>] else []),
     pt_history = [],
     pt_metadata = \<lparr>ptm_schema_version = ''masi-analysis-delegation/v1'', ptm_plugin_id = ''masi.peer.helper'',
       ptm_binding_generation = 5, ptm_input_digest = dig CHR ''0'', ptm_trace_id = ''trace-1'', ptm_reason_code = ''''\<rparr>\<rparr>"

definition sample_peer_dec :: "str \<Rightarrow> peer_task option" where
  "sample_peer_dec raw = Some (sample_peer_task (if raw = ''done'' then TASK_COMPLETED else TASK_WORKING))"

definition sample_peer_reply :: "http_request list \<Rightarrow> net_reply" where
  "sample_peer_reply sent = NetReply 200 [(''A2A-Version'', ''1.0''), (''Content-Type'', ''application/a2a+json'')]
     [if length sent = 1 then ''working'' else ''done'']"

definition sample_peers :: peer_table where
  "sample_peers = [(''peer-1'', (sample_peer, sample_client))]"

definition sample_peer_run :: "(exn + peer_result list) \<times> world" where
  "sample_peer_run = delegate zero_env sample_peer_dec sample_peers (ps_delegations sample_response) sample_input
     (bo_a2a_peer_allowlist sample_binding) [] (sample_world sample_peer_reply)"

lemma sample_peer_decode:
  "decode_task_response sample_peer_dec \<lparr>br_status_code = 200,
      br_headers = [(''A2A-Version'', ''1.0''), (''Content-Type'', ''application/a2a+json'')], br_body = raw\<rparr>
      (pec_plugin_id sample_peer) (pec_binding_generation sample_peer) (dig CHR ''0'') ''trace-1''
    = Inr (sample_peer_task (if raw = ''done'' then TASK_COMPLETED else TASK_WORKING))"
proof -
  let ?h = "[(''A2A-Version'', ''1.0''), (''Content-Type'', ''application/a2a+json'')]"
  have "header_get ?h ''A2A-Version'' = Some A2A_VERSION" by code_simp
  moreover have "media_type ?h = ''application/a2a+json''" by code_simp
  ultimately show ?thesis
    by (simp add: decode_task_response_def sample_peer_dec_def sample_peer_task_def sample_peer_def
        peer_config.defs outbound_tls.defs)
qed

lemma sample_peer_exchange:
  assumes "pinned_url sample_client path = Inr url"
  shows "peer_exchange sample_peer_dec sample_client sample_peer sample_input (dig CHR ''0'') meth path headers body
      (sample_world sample_peer_reply\<lparr>w_sent := sent\<rparr>)
    = (Inr (sample_peer_task (if sent = [] then TASK_WORKING else TASK_COMPLETED)),
       sample_world sample_peer_reply\<lparr>w_sent := sent @ [\<lparr>hr_method = meth, hr_url = url,
         hr_headers = with_host headers (host_header sample_client), hr_body = body,
         hr_sni = pc_server_name sample_client, hr_timeout_ms = 5000\<rparr>]\<rparr>)"
proof -
  have t: "remaining_timeout_ms sample_input (sample_world sample_peer_reply\<lparr>w_sent := sent\<rparr>) = Inr 5000"
    by (simp add: remaining_timeout_ms_def now_ms_def sample_world_def sample_input_def sample_budgets_def)
  have trace: "fi_trace_id sample_input = ''trace-1''" "bg_a2a_response_bytes (fi_budgets sample_input) = 65536"
    by (simp_all add: sample_input_def sample_budgets_def)
  have reply: "w_reply (sample_world sample_peer_reply) = sample_peer_reply" by (simp add: sample_world_def)
  show ?thesis
    by (simp add: peer_exchange_def bindS_def readS_def t trace http_call_sends [OF assms] Let_def
        reply sample_peer_reply_def receive_def sample_peer_decode)
qed

lemma sample_peer_delegate_one:
  "\<exists>sent. delegate_one zero_env sample_peer_dec sample_peers 1 \<lparr>dl_peer_id = ''peer-1'', dl_question = ''seen elsewhere?''\<rparr>
      sample_input [] (sample_world sample_peer_reply)
    = (Inr \<lparr>pl_peer_id = ''peer-1'', pl_remote_task_id = ''rt-1'', pl_content_digest = dig CHR ''0'', pl_summary = ''no'',
        pl_status = ''succeeded'', pl_observed_at_unix_ms = 1000\<rparr>, sample_world sample_peer_reply\<lparr>w_sent := sent\<rparr>)
    \<and> length sent = 2"
proof -
  have q: "require_safe_output zero_env ''seen elsewhere?'' [] = Inr ''seen elsewhere?''"
    "require_safe_output zero_env ''no'' [] = Inr ''no''" by code_simp+
  have d: "canonical_digest zero_env (JObj (delegation_fields sample_input 1 q)) = Inr (dig CHR ''0'')" for q
    by (rule zero_digests, rule finite_float_free) (simp add: delegation_fields_def)
  have "float_free (delegation_message sample_input 1 q d p)" for q d p
    by (simp add: delegation_message_def delegation_fields_def)
  then have b: "\<exists>raw. go_json_bytes zero_env (delegation_message sample_input 1 q d p) = Inr raw" for q d p
    by (simp add: go_json_bytes_eq)
  have url: "pinned_url sample_client ''/message:send'' = Inr ''https://10.0.0.2:443/message:send''"
    "pinned_url sample_client ''/tasks/rt-1'' = Inr ''https://10.0.0.2:443/tasks/rt-1''" by code_simp+
  let ?p = "pec_plugin_id sample_peer"
  obtain raw where raw: "go_json_bytes zero_env (delegation_message sample_input 1 ''seen elsewhere?'' (dig CHR ''0'') ?p) = Inr raw"
    using b by blast
  have w: "sample_world sample_peer_reply = sample_world sample_peer_reply\<lparr>w_sent := []\<rparr>" by (simp add: sample_world_def)
  have n: "nat (bg_polls_per_task (fi_budgets sample_input)) = Suc (Suc 0)"
    by (simp add: sample_input_def sample_budgets_def)
  have p: "map_of sample_peers ''peer-1'' = Some (sample_peer, sample_client)" "pec_peer_id sample_peer = ''peer-1''"
    by (simp_all add: sample_peers_def sample_peer_def peer_config.defs outbound_tls.defs)
  have t: "pt_task_id (sample_peer_task s) = ''rt-1''" "pt_context_id (sample_peer_task s) = ''rc-1''"
    "pts_state (pt_status (sample_peer_task s)) = s" for s
    by (simp_all add: sample_peer_task_def)
  have a: "accept_peer_artifact zero_env sample_peer [] ''rt-1'' 1000 (sample_peer_task TASK_COMPLETED)
    = Inr \<lparr>pl_peer_id = ''peer-1'', pl_remote_task_id = ''rt-1'', pl_content_digest = dig CHR ''0'', pl_summary = ''no'',
        pl_status = ''succeeded'', pl_observed_at_unix_ms = 1000\<rparr>"
    by (simp add: accept_peer_artifact_def sample_peer_task_def p zero_digests q dump_PeerArtifactData_def
        json_fields_def without_key_def)
  have now: "now_ms (sample_world sample_peer_reply\<lparr>w_sent := s\<rparr>) = 1000" for s
    by (simp add: now_ms_def sample_world_def)
  show ?thesis
    by (subst w) (simp add: delegate_one_def p bindS_def readS_def q d raw sample_peer_exchange [OF url(1)]
        sample_peer_exchange [OF url(2)] t n live_state_def retS_def a now del: One_nat_def,
      rule exI, rule conjI [OF refl], simp)
qed

lemma sample_peer_run_ok:
  "fst sample_peer_run = Inr [\<lparr>pl_peer_id = ''peer-1'', pl_remote_task_id = ''rt-1'', pl_content_digest = dig CHR ''0'',
      pl_summary = ''no'', pl_status = ''succeeded'', pl_observed_at_unix_ms = 1000\<rparr>]"
  "length (w_sent (snd sample_peer_run)) = 2"
proof -
  obtain sent where one: "delegate_one zero_env sample_peer_dec sample_peers 1
      \<lparr>dl_peer_id = ''peer-1'', dl_question = ''seen elsewhere?''\<rparr> sample_input [] (sample_world sample_peer_reply)
    = (Inr \<lparr>pl_peer_id = ''peer-1'', pl_remote_task_id = ''rt-1'', pl_content_digest = dig CHR ''0'', pl_summary = ''no'',
        pl_status = ''succeeded'', pl_observed_at_unix_ms = 1000\<rparr>, sample_world sample_peer_reply\<lparr>w_sent := sent\<rparr>)"
    and sent: "length sent = 2"
    using sample_peer_delegate_one by blast
  have i: "bg_delegation_depth (fi_budgets sample_input) = 0" "bg_outbound_delegations (fi_budgets sample_input) = 1"
    "fi_delegation_path sample_input = []" "bo_a2a_peer_allowlist sample_binding = [''peer-1'']"
    "ps_delegations sample_response = [\<lparr>dl_peer_id = ''peer-1'', dl_question = ''seen elsewhere?''\<rparr>]"
    by (simp_all add: sample_input_def sample_budgets_def sample_binding_def sample_response_def)
  show "fst sample_peer_run = Inr [\<lparr>pl_peer_id = ''peer-1'', pl_remote_task_id = ''rt-1'', pl_content_digest = dig CHR ''0'',
      pl_summary = ''no'', pl_status = ''succeeded'', pl_observed_at_unix_ms = 1000\<rparr>]"
    "length (w_sent (snd sample_peer_run)) = 2"
    using sent
    by (simp_all add: sample_peer_run_def delegate_def i Let_def bindS_def readS_def tryS_def gather_def enumerate_from_def
        one [simplified] failures_def successes_def set_peer_status_def modifyS_def retS_def)
qed

theorem peer_delegations_authorised_witness:
  "length (w_sent (snd sample_peer_run)) = 2
   \<and> list_all (peer_permitted zero_env sample_peers (ps_delegations sample_response) sample_input
        (bo_a2a_peer_allowlist sample_binding) []) (w_sent (snd sample_peer_run))"
proof -
  obtain r w' where run: "sample_peer_run = (r, w')" by fastforce
  then have w': "w_sent (snd sample_peer_run) = w_sent w'" by (metis snd_conv)
  show ?thesis
    using peer_delegations_authorised [OF run [unfolded sample_peer_run_def]] sample_peer_run_ok(2)
    unfolding w' by (auto simp: sample_world_def list_all_iff)
qed

theorem peer_results_verified_witness:
  "\<exists>r. fst sample_peer_run = Inr [r] \<and> verified_peer_result zero_env sample_peer sample_input [] (dig CHR ''0'') r"
proof -
  obtain r where r: "fst sample_peer_run = Inr [r]" using sample_peer_run_ok(1) by blast
  then obtain w' where run: "sample_peer_run = (Inr [r], w')" by (metis prod.collapse)
  from peer_results_verified [OF run [unfolded sample_peer_run_def]]
  obtain config client question digest where
    v: "map_of sample_peers (dl_peer_id (ps_delegations sample_response ! 0)) = Some (config, client)"
    "canonical_digest zero_env (JObj (delegation_fields sample_input (Suc 0) question)) = Inr digest"
    "verified_peer_result zero_env config sample_input [] digest r"
    by auto
  have "config = sample_peer" using v(1) by (simp add: sample_peers_def sample_response_def)
  moreover have "digest = dig CHR ''0''"
  proof -
    have "float_free (JObj (delegation_fields sample_input (Suc 0) question))" by (simp add: delegation_fields_def)
    from zero_digests [OF finite_float_free [OF this]] v(2) show ?thesis by simp
  qed
  ultimately show ?thesis using v(3) r by blast
qed

end
