(* ===== verification/Encoding_Bound.thy ===== *)
theory Encoding_Bound
  imports Canonical
begin

text \<open>
  The length of an encoding. \<open>json_weight\<close> bounds the bytes of \<open>go_json_bytes\<close> and
  \<open>sorted_json_bytes\<close> by the lengths of the strings in the value: every byte of text becomes at most
  six bytes, whichever of the two escaping passes it meets. The bound is what lets a size check be
  discharged without evaluating the encoding.
\<close>

text \<open>The length that the escaping of \<open>&\<close>, \<open><\<close>, \<open>>\<close> and of the two separators can make of a byte.\<close>

definition byte_weight :: "char \<Rightarrow> nat" where
  "byte_weight c = (if c \<in> set ''&<>'' then 6 else if c = CHR 0xE2 then 4 else 1)"

definition text_weight :: "str \<Rightarrow> nat" where
  "text_weight s = sum_list (map byte_weight s)"

lemma text_weight_simps [simp]:
  "text_weight [] = 0" "text_weight (c # s) = byte_weight c + text_weight s"
  "text_weight (s @ t) = text_weight s + text_weight t"
  by (simp_all add: text_weight_def)

lemma text_weight_concat: "text_weight (concat xs) = sum_list (map text_weight xs)"
  by (induction xs) simp_all

lemma length_le_text_weight: "length s \<le> text_weight s"
  by (induction s) (auto simp: byte_weight_def)

lemma py_replace_weight:
  assumes "text_weight rep \<le> text_weight pat"
  shows "text_weight (py_replace pat rep s) \<le> text_weight s"
proof (induction "length s" arbitrary: s rule: less_induct)
  case less
  show ?case
  proof (cases s)
    case (Cons c cs)
    show ?thesis
    proof (cases "pat \<noteq> [] \<and> starts_with pat s")
      case True
      then obtain t where t: "s = pat @ t" by (auto simp: starts_with_iff)
      with True have "text_weight (py_replace pat rep t) \<le> text_weight t" by (intro less) simp
      moreover have "py_replace pat rep s = rep @ py_replace pat rep t"
      proof -
        have "drop (length pat) (c # cs) = t" using t Cons by (metis append_eq_conv_conj)
        then show ?thesis using True Cons by (simp only: py_replace_Cons if_True simp_thms)
      qed
      ultimately show ?thesis using assms t by simp
    next
      case False
      have "text_weight (py_replace pat rep cs) \<le> text_weight cs" by (rule less) (simp add: Cons)
      with False Cons show ?thesis by (auto simp: py_replace_Cons)
    qed
  qed simp
qed

lemma go_escape_weight: "text_weight (go_escape s) \<le> text_weight s"
  unfolding go_escape_def
  by (intro order.trans [OF py_replace_weight] order.refl)
     (simp_all add: byte_weight_def LINE_SEP_def PARA_SEP_def backslash_def)

lemma digit_weight: "is_digit c \<Longrightarrow> byte_weight c = 1"
  by (auto simp: is_digit_def byte_weight_def)

lemma text_weight_digits: "list_all is_digit s \<Longrightarrow> text_weight s = length s"
  by (induction s) (auto simp: digit_weight)

lemma nat_str_length: "n < 10 ^ Suc k \<Longrightarrow> length (nat_str n) \<le> Suc k"
proof (induction k arbitrary: n)
  case 0
  then show ?case by (subst nat_str.simps) simp
next
  case (Suc k)
  show ?case
  proof (cases "n < 10")
    case True
    then show ?thesis by (subst nat_str.simps) simp
  next
    case False
    from Suc.prems have "n div 10 < 10 ^ Suc k" by (simp add: less_mult_imp_div_less)
    with Suc.IH False show ?thesis by (subst nat_str.simps) simp
  qed
qed

lemma hex_char_weight: "n < 16 \<Longrightarrow> byte_weight (hex_char n) = 1"
  by (auto simp: hex_char_def byte_weight_def less_Suc_eq numeral_eq_Suc)

lemma json_escape_char_weight: "text_weight (json_escape_char c) \<le> 6"
proof -
  have "(of_char c :: nat) div 16 < 16" using nat_of_char_less_256 [of c] by linarith
  then show ?thesis
    by (simp add: json_escape_char_def hex_char_weight) (simp add: byte_weight_def backslash_def quote_def)
qed

lemma json_str_weight: "text_weight (json_str s) \<le> 6 * length s + 2"
proof -
  have "text_weight (concat (map json_escape_char s)) \<le> 6 * length s"
    using json_escape_char_weight by (induction s) (simp_all add: add_mono)
  then show ?thesis by (simp add: json_str_def byte_weight_def quote_def)
qed

text \<open>Six for every byte of text, computed in binary.\<close>

fun str_cost :: "str \<Rightarrow> int" where
  "str_cost [] = 0"
| "str_cost (c # s) = 6 + str_cost s"

lemma str_cost_length: "str_cost s = 6 * int (length s)"
  by (induction s) simp_all

text \<open>A bound on the number of digits that two comparisons decide for every integer in use.\<close>

definition digits_bound :: "int \<Rightarrow> int" where
  "digits_bound n = (if n < 10 ^ 6 then 6 else if n < 10 ^ 20 then 20 else int (length (nat_str (nat n))))"

lemma digits_bound: "0 \<le> n \<Longrightarrow> int (length (nat_str (nat n))) \<le> digits_bound n"
  using nat_str_length [of "nat n" 5] nat_str_length [of "nat n" 19]
  by (auto simp: digits_bound_def nat_less_iff)

fun json_weight :: "json \<Rightarrow> int" where
  "json_weight JNull = 4"
| "json_weight (JBool b) = 5"
| "json_weight (JInt i) = 1 + digits_bound \<bar>i\<bar>"
| "json_weight (JFloat f) = 0"
| "json_weight (JStr s) = str_cost s + 2"
| "json_weight (JArr vs) = 2 + sum_list (map (\<lambda>v. 1 + json_weight v) vs)"
| "json_weight (JObj kvs) = 2 + sum_list (map (\<lambda>kv. str_cost (fst kv) + 4 + json_weight (snd kv)) kvs)"

lemma join_weight: "int (text_weight (join '','' xs)) \<le> sum_list (map (\<lambda>x. 1 + int (text_weight x)) xs)"
  by (induction "'',''" xs rule: join.induct) (auto simp: byte_weight_def)

lemma json_text_weight: "float_free v \<Longrightarrow> int (text_weight (json_text env v)) \<le> json_weight v"
proof (induction v rule: float_free.induct)
  case (2 vs)
  have "sum_list (map (\<lambda>x. 1 + int (text_weight x)) (map (json_text env) vs)) \<le> sum_list (map (\<lambda>v. 1 + json_weight v) vs)"
    using 2 unfolding map_map by (intro sum_list_mono) (auto simp: list_all_iff)
  then have "int (text_weight (join '','' (map (json_text env) vs))) \<le> sum_list (map (\<lambda>v. 1 + json_weight v) vs)"
    by (rule order.trans [OF join_weight])
  then show ?case by (simp add: byte_weight_def)
next
  case (3 kvs)
  let ?f = "\<lambda>kv. json_str (fst kv) @ '':'' @ json_text env (snd kv)"
  have "1 + int (text_weight (?f kv)) \<le> str_cost (fst kv) + 4 + json_weight (snd kv)" if "kv \<in> set kvs" for kv
  proof -
    have "int (text_weight (json_text env (snd kv))) \<le> json_weight (snd kv)"
      by (rule "3.IH") (use that "3.prems" in \<open>auto simp: list_all_iff\<close>)
    with json_str_weight [of "fst kv"] show ?thesis by (simp add: byte_weight_def str_cost_length)
  qed
  then have "sum_list (map (\<lambda>x. 1 + int (text_weight x)) (map ?f kvs))
      \<le> sum_list (map (\<lambda>kv. str_cost (fst kv) + 4 + json_weight (snd kv)) kvs)"
    unfolding map_map by (intro sum_list_mono) simp
  then have "int (text_weight (join '','' (map ?f kvs))) \<le> sum_list (map (\<lambda>kv. str_cost (fst kv) + 4 + json_weight (snd kv)) kvs)"
    by (rule order.trans [OF join_weight])
  then show ?case by (simp add: byte_weight_def)
next
  case (6 i)
  have "int (length (nat_str (nat \<bar>i\<bar>))) \<le> digits_bound \<bar>i\<bar>" by (rule digits_bound) simp
  then show ?case by (simp add: int_str_def text_weight_digits [OF nat_str_digits] byte_weight_def abs_if split: if_splits)
next
  case (7 s)
  then show ?case using json_str_weight [of s] by (simp add: str_cost_length)
qed (auto simp: byte_weight_def)

lemma go_json_bytes_length:
  assumes "float_free v"
  shows "\<exists>raw. go_json_bytes env v = Inr raw \<and> int (length raw) \<le> json_weight v"
proof -
  have "length (go_escape (json_text env v)) \<le> text_weight (json_text env v)"
    using length_le_text_weight go_escape_weight by (meson order.trans)
  with json_text_weight [OF assms, of env] have "int (length (go_escape (json_text env v))) \<le> json_weight v" by linarith
  with assms show ?thesis by (simp add: go_json_bytes_eq)
qed

end
