(* ===== verification/Graph.thy ===== *)
theory Graph
  imports Config Provider Mcp Peer Encoding_Bound
begin

text \<open>
  The fixed analysis plan (\<open>graph.py\<close>): context, hypothesis, bounded evidence, synthesis, grounding and
  artifact. A node takes the graph state and the outside world and returns the state with its updates
  merged; \<open>graph_nodes\<close> is the compiled plan and \<open>graph_run\<close> the entry point.

  The decoders of \<open>pydantic\<close> are parameters, the fields of \<open>graph_env\<close>: the provider's answer, the peer's
  task and the explanation metadata of a tool result. The two timeouts are fields of the world; a
  cancelled evidence round is modelled with the requests it would have sent had it gone on, so the
  log of requests is an upper bound.

  Theory \<open>Graph_Sound\<close> shows what an artifact can contain and what a run can send, theory
  \<open>Graph_Outage\<close> that a run without its dependencies still ends with a limited artifact.
\<close>

section \<open>State\<close>

record graph_env =
  ge_mcp :: mcp_env
  ge_provider_dec :: "str \<Rightarrow> provider_response option"
  ge_peer_dec :: "str \<Rightarrow> peer_task option"
  ge_explanation :: "(str \<times> json) list \<Rightarrow> model_explanation_fact option"

abbreviation ge_py :: "graph_env \<Rightarrow> pyenv" where
  "ge_py env \<equiv> me_py (ge_mcp env)"

record analysis_graph =
  ag_binding_state :: runtime_material
  ag_provider :: provider_adapter
  ag_mcp :: mcp_client
  ag_peers :: peer_table

record grounded =
  gd_observed_claims :: "grounded_claim list"
  gd_model_result_facts :: "grounded_claim list"
  gd_model_explanation_facts :: "model_explanation_fact list"
  gd_inferred_claims :: "str list"
  gd_llm_interpretations :: "str list"
  gd_uncertainties :: "str list"
  gd_limitations :: "str list"
  gd_missing_evidence :: "str list"
  gd_rejected :: nat

record graph_state =
  gs_input :: frozen_input
  gs_context :: "json option"
  gs_provider_response :: "provider_response option"
  gs_tool_results :: "tool_result list"
  gs_peer_results :: "peer_result list"
  gs_external_errors :: "str list"
  gs_trace_codes :: "str list"
  gs_grounded :: "grounded option"
  gs_artifact :: "analysis_artifact option"

definition add_trace :: "str \<Rightarrow> graph_state \<Rightarrow> graph_state" where
  "add_trace code st = st\<lparr>gs_trace_codes := gs_trace_codes st @ [code]\<rparr>"

definition add_error :: "str \<Rightarrow> graph_state \<Rightarrow> graph_state" where
  "add_error code st = st\<lparr>gs_external_errors := gs_external_errors st @ [code]\<rparr>"

definition initial_state :: "frozen_input \<Rightarrow> graph_state" where
  "initial_state input_bundle = \<lparr>gs_input = input_bundle, gs_context = None, gs_provider_response = None,
     gs_tool_results = [], gs_peer_results = [], gs_external_errors = [], gs_trace_codes = [''GRAPH_STARTED''],
     gs_grounded = None, gs_artifact = None\<rparr>"

definition CAUSAL :: rx where
  "CAUSAL =
     [[Bnd, OneOf [word_ci ''cause'', word_ci ''caused'', word_ci ''root cause'', word_ci ''because of''], Bnd],
      lit [CHR 0xE5, CHR 0xAF, CHR 0xBC, CHR 0xE8, CHR 0x87, CHR 0xB4],
      lit [CHR 0xE6, CHR 0xA0, CHR 0xB9, CHR 0xE5, CHR 0x9B, CHR 0xA0],
      lit [CHR 0xE5, CHR 0xBC, CHR 0x95, CHR 0xE5, CHR 0x8F, CHR 0x91]]"

definition ZERO_DIGEST :: str where
  "ZERO_DIGEST = ''sha256:'' @ replicate 64 CHR ''0''"

definition TOPOLOGY :: json where
  "TOPOLOGY = JObj
     [(''version'', JStr GRAPH_VERSION),
      (''nodes'', JArr (map JStr [''context'', ''hypothesis'', ''bounded_evidence'', ''synthesis'', ''grounding'', ''artifact''])),
      (''edges'', JArr (map (\<lambda>(a, b). JArr [JStr a, JStr b])
        [(''START'', ''context''), (''context'', ''hypothesis''), (''hypothesis'', ''bounded_evidence|grounding''),
         (''bounded_evidence'', ''synthesis''), (''synthesis'', ''grounding''), (''grounding'', ''artifact''),
         (''artifact'', ''END'')]))]"

definition TOPOLOGY_DIGEST :: "pyenv \<Rightarrow> exn + str" where
  "TOPOLOGY_DIGEST env = canonical_digest env TOPOLOGY"

section \<open>Context and provider request\<close>

definition context_node :: "pyenv \<Rightarrow> graph_state \<Rightarrow> exn + graph_state" where
  "context_node env st =
     (let input_bundle = gs_input st in
      rbind (canonical_digest env (JArr (map dump_FactRef (fi_runtime_refs input_bundle)))) (\<lambda>runtime_digest.
      rbind (canonical_digest env (JArr (map dump_FactRef (fi_evidence_refs input_bundle)))) (\<lambda>evidence_digest.
      Inr (add_trace ''DETERMINISTIC_CONTEXT_BUILT'' (st\<lparr>gs_context := Some (JObj
        [(''rate_and_impact'', JObj
           [(''event_count'', JInt (int (length (fi_event_refs input_bundle)))),
            (''incident_count'', JInt (int (length (fi_incident_refs input_bundle)))),
            (''target_set_digest'', JStr (fi_target_set_digest input_bundle))]),
         (''quality_and_provenance'', JObj
           [(''quality'', JStr (fi_quality input_bundle)),
            (''provenance_digest'', JStr (fi_provenance_digest input_bundle)),
            (''redaction_profile_digest'', JStr (fi_redaction_profile_digest input_bundle))]),
         (''runtime_and_p4_read_context'', JObj
           [(''runtime_ref_count'', JInt (int (length (fi_runtime_refs input_bundle)))),
            (''runtime_digest'', JStr runtime_digest)]),
         (''incident_and_replay_context'', JObj
           [(''evidence_ref_count'', JInt (int (length (fi_evidence_refs input_bundle)))),
            (''evidence_digest'', JStr evidence_digest)])])\<rparr>)))))"

definition fact_of :: "str \<Rightarrow> fact_ref \<Rightarrow> exn + provider_fact" where
  "fact_of kind item = construct ProviderFact_ok
     \<lparr>pf_id = fr_id item, pf_digest = fr_digest item, pf_kind = kind, pf_summary = None\<rparr>"

definition tool_fact :: "pyenv \<Rightarrow> str list \<Rightarrow> tool_result \<Rightarrow> exn + provider_fact" where
  "tool_fact env secrets result =
     rbind (require_safe_output env (py_take 2048 (value_str env (JObj (tl_structured result)))) secrets) (\<lambda>summary.
     construct ProviderFact_ok \<lparr>pf_id = ''mcp-'' @ tl_request_id result, pf_digest = tl_content_digest result,
       pf_kind = ''tool-result'', pf_summary = Some summary\<rparr>)"

definition peer_fact :: "peer_result \<Rightarrow> exn + provider_fact" where
  "peer_fact result = construct ProviderFact_ok \<lparr>pf_id = ''peer-'' @ pl_peer_id result,
     pf_digest = pl_content_digest result, pf_kind = ''peer-result'', pf_summary = Some (pl_summary result)\<rparr>"

definition remaining_budget_of :: "graph_state \<Rightarrow> str \<Rightarrow> remaining_budget" where
  "remaining_budget_of st phase =
     (let b = fi_budgets (gs_input st); used_llm = (if phase = ''hypothesis'' then 0 else 1) in
      \<lparr>rb_llm_calls = max 0 (bg_llm_calls b - used_llm),
       rb_mcp_rounds = max 0 (bg_mcp_rounds b - (if gs_tool_results st \<noteq> [] then 1 else 0)),
       rb_tool_calls = max 0 (bg_tool_calls b - int (length (gs_tool_results st))),
       rb_outbound_delegations = max 0 (bg_outbound_delegations b - int (length (gs_peer_results st))),
       rb_deadline_unix_ms = fi_deadline_unix_ms (gs_input st)\<rparr>)"

definition provider_request_id :: "frozen_input \<Rightarrow> str \<Rightarrow> str" where
  "provider_request_id input_bundle phase = ''provider-'' @ fi_run_id input_bundle @ ''-'' @ phase"

definition provider_request_of :: "pyenv \<Rightarrow> str list \<Rightarrow> graph_state \<Rightarrow> str \<Rightarrow> exn + provider_request" where
  "provider_request_of env secrets st phase =
     (let input_bundle = gs_input st in
      rbind (mapM (fact_of ''event'') (fi_event_refs input_bundle)) (\<lambda>events.
      rbind (mapM (fact_of ''incident'') (fi_incident_refs input_bundle)) (\<lambda>incidents.
      rbind (mapM (fact_of ''evidence'') (fi_evidence_refs input_bundle)) (\<lambda>evidence.
      rbind (mapM (fact_of ''runtime'') (fi_runtime_refs input_bundle)) (\<lambda>runtimes.
      rbind (mapM (tool_fact env secrets) (gs_tool_results st)) (\<lambda>tool_facts.
      rbind (mapM peer_fact (gs_peer_results st)) (\<lambda>peer_facts.
      rbind (construct RemainingBudget_ok (remaining_budget_of st phase)) (\<lambda>remaining.
      rbind (construct ProviderRequest_ok
        \<lparr>pq_schema_version = ''masi-analysis-provider-request/v1'',
         pq_request_id = provider_request_id input_bundle phase, pq_phase = phase,
         pq_task_id = fi_task_id input_bundle, pq_run_id = fi_run_id input_bundle, pq_skill = fi_skill input_bundle,
         pq_input_digest = fi_input_digest input_bundle, pq_locale = fi_locale input_bundle,
         pq_system_policy_id = ''analysis-system-policy/v1'',
         pq_facts = events @ incidents @ evidence @ runtimes, pq_tool_results = tool_facts,
         pq_peer_results = peer_facts, pq_untrusted_content_request = fi_content_request input_bundle,
         pq_remaining_budget = remaining, pq_trace_id = fi_trace_id input_bundle,
         pq_request_digest = ZERO_DIGEST\<rparr>) (\<lambda>request.
      rbind (compute_provider_request_digest env request) (\<lambda>digest.
      Inr (request\<lparr>pq_request_digest := digest\<rparr>)))))))))))"

section \<open>Hypothesis, evidence and synthesis\<close>

definition remaining_result_ms :: "graph_state \<Rightarrow> world \<Rightarrow> int" where
  "remaining_result_ms st w =
     max 0 (bg_result_budget_ms (fi_budgets (gs_input st)) - w_elapsed_ms w (w_sent w))"

text \<open>One provider call of a phase, with what is left of the result budget.\<close>

definition provider_phase :: "graph_env \<Rightarrow> analysis_graph \<Rightarrow> graph_state \<Rightarrow> str \<Rightarrow> exn \<Rightarrow> provider_response world_call" where
  "provider_phase env g st phase exhausted =
     bindS (readS (\<lambda>w. Inr (remaining_result_ms st w))) (\<lambda>remaining_ms.
     if remaining_ms \<le> 0 then raiseS exhausted
     else bindS (readS (\<lambda>_. provider_request_of (ge_py env) (secret_values (ag_provider g)) st phase)) (\<lambda>request.
       analyze (ge_py env) (ge_provider_dec env) (ag_provider g) request
         (min (bg_llm_timeout_ms (fi_budgets (gs_input st))) remaining_ms)
         (bg_artifact_bytes (fi_budgets (gs_input st)))))"

text \<open>\<open>except AnalysisError as exc\<close>, recovering with the error code.\<close>

definition recover :: "(str \<Rightarrow> graph_state) \<Rightarrow> exn \<Rightarrow> graph_state world_call" where
  "recover f e = (case exn_code e of Some code \<Rightarrow> retS (f code) | None \<Rightarrow> raiseS e)"

definition hypothesis_node :: "graph_env \<Rightarrow> analysis_graph \<Rightarrow> graph_state \<Rightarrow> graph_state world_call" where
  "hypothesis_node env g st =
     (if bg_llm_calls (fi_budgets (gs_input st)) = 0
      then retS (add_trace ''PROVIDER_SKIPPED'' (add_error ''PROVIDER_DISABLED_BY_BUDGET'' st))
      else tryS
        (bindS (provider_phase env g st ''hypothesis''
            (AnalysisError ''RESULT_BUDGET_EXHAUSTED'' ''result budget exhausted before provider call'' 408))
          (\<lambda>response. retS (add_trace ''HYPOTHESIS_COMPLETED'' (st\<lparr>gs_provider_response := Some response\<rparr>))))
        (recover (\<lambda>code. add_trace ''HYPOTHESIS_LIMITED'' (add_error code (st\<lparr>gs_provider_response := None\<rparr>)))))"

definition evidence_route :: "graph_state \<Rightarrow> bool" where
  "evidence_route st =
     (case gs_provider_response st of
        None \<Rightarrow> False
      | Some response \<Rightarrow> ps_tool_requests response \<noteq> [] \<or> ps_delegations response \<noteq> [])"

text \<open>An outcome of \<open>gather(.., return_exceptions=True)\<close>: the results, or an error code.\<close>

definition gathered :: "str \<Rightarrow> exn + 'a list \<Rightarrow> str list \<times> 'a list" where
  "gathered unavailable r =
     (case r of
        Inr xs \<Rightarrow> ([], xs)
      | Inl e \<Rightarrow> ([case exn_code e of Some code \<Rightarrow> code | None \<Rightarrow> unavailable], []))"

definition evidence_round ::
  "graph_env \<Rightarrow> analysis_graph \<Rightarrow> binding_observation \<Rightarrow> provider_response \<Rightarrow> graph_state \<Rightarrow> graph_state world_call" where
  "evidence_round env g binding response st w =
     (case execute (ge_mcp env) (ag_mcp g) (ps_tool_requests response) (gs_input st) binding 1 w of
        (tools, w1) \<Rightarrow>
      (case delegate (ge_py env) (ge_peer_dec env) (ag_peers g) (ps_delegations response) (gs_input st)
              (bo_a2a_peer_allowlist binding) (secret_values (ag_provider g)) w1 of
        (peers, w2) \<Rightarrow>
          if w_gather_timeout w2
          then (Inr (add_trace ''BOUNDED_EVIDENCE_TIMED_OUT'' (add_error ''RESULT_BUDGET_EXHAUSTED''
                  (st\<lparr>gs_tool_results := [], gs_peer_results := []\<rparr>))), w2)
          else let (tool_errors, tool_results) = gathered ''MCP_UNAVAILABLE'' tools;
                   (peer_errors, peer_results) = gathered ''PEER_UNAVAILABLE'' peers in
            (Inr (add_trace ''BOUNDED_EVIDENCE_COMPLETED''
               (st\<lparr>gs_tool_results := tool_results, gs_peer_results := peer_results,
                   gs_external_errors := gs_external_errors st @ tool_errors @ peer_errors\<rparr>)), w2)))"

definition bounded_evidence_node :: "graph_env \<Rightarrow> analysis_graph \<Rightarrow> graph_state \<Rightarrow> graph_state world_call" where
  "bounded_evidence_node env g st =
     bindS (readS (\<lambda>w. matches_input (ag_binding_state g) (gs_input st) (now_ms w))) (\<lambda>binding.
     case gs_provider_response st of
       None \<Rightarrow> retS st
     | Some response \<Rightarrow>
         bindS (readS (\<lambda>w. Inr (remaining_result_ms st w))) (\<lambda>remaining_ms.
         if remaining_ms \<le> 0
         then retS (add_trace ''BOUNDED_EVIDENCE_SKIPPED'' (add_error ''RESULT_BUDGET_EXHAUSTED'' st))
         else evidence_round env g binding response st))"

definition synthesis_node :: "graph_env \<Rightarrow> analysis_graph \<Rightarrow> graph_state \<Rightarrow> graph_state world_call" where
  "synthesis_node env g st =
     (if bg_llm_calls (fi_budgets (gs_input st)) < 2 \<or> gs_tool_results st = [] \<and> gs_peer_results st = []
      then retS (add_trace ''SYNTHESIS_NOT_REQUIRED'' st)
      else tryS
        (bindS (provider_phase env g st ''synthesis''
            (AnalysisError ''RESULT_BUDGET_EXHAUSTED'' ''result budget exhausted before synthesis'' 408))
          (\<lambda>response. retS
            (if ps_tool_requests response \<noteq> [] \<or> ps_delegations response \<noteq> []
             then add_trace ''SYNTHESIS_BOUNDED'' (add_error ''SECOND_ROUND_REQUEST_NOT_SYNTHESIZED''
               (st\<lparr>gs_provider_response := Some (response\<lparr>ps_tool_requests := [], ps_delegations := []\<rparr>)\<rparr>))
             else add_trace ''SYNTHESIS_COMPLETED'' (st\<lparr>gs_provider_response := Some response\<rparr>))))
        (recover (\<lambda>code. add_trace ''SYNTHESIS_LIMITED'' (add_error code st))))"

section \<open>Grounding\<close>

text \<open>
  The loops of \<open>_grounding\<close> return what they accept and how many statements they reject, the increments
  of \<open>rejected\<close>.
\<close>

fun claims :: "pyenv \<Rightarrow> str list \<Rightarrow> str list \<Rightarrow> grounded_claim list \<Rightarrow> exn + grounded_claim list \<times> nat" where
  "claims env secrets allowed [] = Inr ([], 0)"
| "claims env secrets allowed (value # values) =
     (case require_safe_output env (gc_claim value) secrets of
        Inl e \<Rightarrow> if is_unsafe_output e
                 then rbind (claims env secrets allowed values) (\<lambda>(accepted, n). Inr (accepted, Suc n)) else Inl e
      | Inr clean \<Rightarrow>
          if \<not> set (gc_evidence_refs value) \<subseteq> set allowed
          then rbind (claims env secrets allowed values) (\<lambda>(accepted, n). Inr (accepted, Suc n))
          else rbind (construct GroundedClaim_ok
                 \<lparr>gc_claim = clean, gc_evidence_refs = sorted_set (gc_evidence_refs value)\<rparr>) (\<lambda>c.
               rbind (claims env secrets allowed values) (\<lambda>(accepted, n). Inr (c # accepted, n))))"

definition explanation_required :: "str list" where
  "explanation_required = [''method'', ''model_digest'', ''sample_digest'', ''coverage'', ''truncated'', ''limitations'']"

text \<open>
  The metadata of the first tool result with a qualified explanation of one of the references. The
  constructor call on the untyped values is the parameter \<open>construct_explanation\<close>.
\<close>

fun explanation_metadata ::
  "((str \<times> json) list \<Rightarrow> model_explanation_fact option) \<Rightarrow> tool_result list \<Rightarrow> str list \<Rightarrow> model_explanation_fact option" where
  "explanation_metadata construct_explanation [] refs = None"
| "explanation_metadata construct_explanation (result # results) refs =
     (case json_get (tl_structured result) ''explanation'' of
        Some (JObj value) \<Rightarrow>
          (case json_get value ''evidence_id'' of
             Some (JStr evidence_id) \<Rightarrow>
               if evidence_id \<notin> set refs \<or> \<not> set explanation_required \<subseteq> set (map fst value)
               then explanation_metadata construct_explanation results refs
               else (case construct_explanation value of
                       None \<Rightarrow> explanation_metadata construct_explanation results refs
                     | Some candidate \<Rightarrow> Some candidate)
           | _ \<Rightarrow> explanation_metadata construct_explanation results refs)
      | _ \<Rightarrow> explanation_metadata construct_explanation results refs)"

fun explanations ::
  "graph_env \<Rightarrow> tool_result list \<Rightarrow> grounded_claim list \<Rightarrow> exn + model_explanation_fact list \<times> nat" where
  "explanations env results [] = Inr ([], 0)"
| "explanations env results (claim # rest) =
     (if rx_search (ge_py env) CAUSAL (gc_claim claim)
      then rbind (explanations env results rest) (\<lambda>(accepted, n). Inr (accepted, Suc n))
      else case explanation_metadata (ge_explanation env) results (gc_evidence_refs claim) of
        None \<Rightarrow> rbind (explanations env results rest) (\<lambda>(accepted, n). Inr (accepted, Suc n))
      | Some metadata \<Rightarrow>
          rbind (construct ModelExplanationFact_ok
            (metadata\<lparr>mx_claim := gc_claim claim, mx_evidence_refs := gc_evidence_refs claim\<rparr>)) (\<lambda>x.
          rbind (explanations env results rest) (\<lambda>(accepted, n). Inr (x # accepted, n))))"

fun safe_texts :: "pyenv \<Rightarrow> str list \<Rightarrow> str list \<Rightarrow> exn + str list \<times> nat" where
  "safe_texts env secrets [] = Inr ([], 0)"
| "safe_texts env secrets (value # values) =
     (case require_safe_output env value secrets of
        Inl e \<Rightarrow> if is_unsafe_output e
                 then rbind (safe_texts env secrets values) (\<lambda>(accepted, n). Inr (accepted, Suc n)) else Inl e
      | Inr clean \<Rightarrow> rbind (safe_texts env secrets values) (\<lambda>(accepted, n). Inr (clean # accepted, n)))"

definition fallback_claim :: "frozen_input \<Rightarrow> grounded_claim list \<Rightarrow> exn + grounded_claim list" where
  "fallback_claim input_bundle observed =
     (case fi_evidence_refs input_bundle of
        first # _ \<Rightarrow>
          if observed = [] then
            rbind (construct GroundedClaim_ok
              \<lparr>gc_claim = ''The frozen analysis input contains an authorized evidence reference.'',
               gc_evidence_refs = [fr_id first]\<rparr>) (\<lambda>c. Inr [c])
          else Inr observed
      | [] \<Rightarrow> Inr observed)"

definition response_list :: "(provider_response \<Rightarrow> 'a list) \<Rightarrow> graph_state \<Rightarrow> 'a list" where
  "response_list f st = (case gs_provider_response st of None \<Rightarrow> [] | Some response \<Rightarrow> f response)"

definition added_limitations ::
  "graph_state \<Rightarrow> grounded_claim list \<Rightarrow> model_explanation_fact list \<Rightarrow> nat \<Rightarrow> str list" where
  "added_limitations st model_results explained rejected =
     (if fi_model_result_evidence_refs (gs_input st) \<noteq> [] \<and> model_results = []
      then [''Model result references were present, but no grounded model-result statement was accepted.''] else [])
   @ (if fi_model_explanation_evidence_refs (gs_input st) \<noteq> [] \<and> explained = []
      then [''No qualified model-native explanation metadata was available; attribution was not guessed.''] else [])
   @ (if rejected \<noteq> 0
      then [''One or more ungrounded, unsafe, causal, or incomplete provider statements were rejected.''] else [])
   @ (if gs_external_errors st \<noteq> []
      then [''One or more bounded external analysis dependencies were unavailable or rejected.''] else [])"

definition grounding_node :: "graph_env \<Rightarrow> str list \<Rightarrow> graph_state \<Rightarrow> exn + graph_state" where
  "grounding_node env secrets st =
     (let input_bundle = gs_input st; py = ge_py env in
      rbind (claims py secrets (map fr_id (fi_evidence_refs input_bundle)) (response_list ps_observed_claims st))
        (\<lambda>(observed, n1).
      rbind (claims py secrets (fi_model_result_evidence_refs input_bundle) (response_list ps_model_result_facts st))
        (\<lambda>(model_results, n2).
      rbind (claims py secrets (fi_model_explanation_evidence_refs input_bundle)
          (response_list ps_model_explanation_facts st)) (\<lambda>(explanation_claims, n3).
      rbind (explanations env (gs_tool_results st) explanation_claims) (\<lambda>(explained, n4).
      rbind (fallback_claim input_bundle observed) (\<lambda>observed'.
      rbind (safe_texts py secrets (response_list ps_inferred_claims st)) (\<lambda>(inferred, n5).
      rbind (safe_texts py secrets (response_list ps_inferred_claims st)) (\<lambda>(interpretations, n6).
      rbind (safe_texts py secrets (response_list ps_uncertainties st)) (\<lambda>(uncertain, n7).
      rbind (safe_texts py secrets (response_list ps_limitations st)) (\<lambda>(limits, n8).
      rbind (safe_texts py secrets (response_list ps_missing_evidence st)) (\<lambda>(missing, n9).
      let rejected = n1 + n2 + n3 + n4 + n5 + n6 + n7 + n8 + n9 in
      Inr (add_trace ''GROUNDING_VALIDATED'' (st\<lparr>gs_grounded := Some
        \<lparr>gd_observed_claims = observed', gd_model_result_facts = model_results,
         gd_model_explanation_facts = explained, gd_inferred_claims = inferred,
         gd_llm_interpretations = interpretations, gd_uncertainties = uncertain,
         gd_limitations = limits @ added_limitations st model_results explained rejected,
         gd_missing_evidence = missing, gd_rejected = rejected\<rparr>\<rparr>)))))))))))))"

section \<open>Artifact\<close>

definition outcome_and_quality :: "graph_state \<Rightarrow> grounded \<Rightarrow> str \<times> str" where
  "outcome_and_quality st gd =
     (let input_bundle = gs_input st in
      if fi_evidence_refs input_bundle = [] then (''insufficient_evidence'', ''limited'')
      else if fi_quality input_bundle \<in> set [''low'', ''partial''] \<or> gs_external_errors st \<noteq> [] \<or> gd_rejected gd \<noteq> 0
      then (''limited'', if fi_quality input_bundle = ''low'' then ''low'' else ''limited'')
      else case gs_provider_response st of
        None \<Rightarrow> (''insufficient_evidence'', ''limited'')
      | Some response \<Rightarrow> (ps_outcome_hint response, if ps_outcome_hint response = ''succeeded'' then ''valid'' else ''limited''))"

text \<open>The two loops that build the recommendations and the generated content; unsafe text is skipped.\<close>

fun safe_build :: "pyenv \<Rightarrow> str list \<Rightarrow> (str \<Rightarrow> exn + 'a) \<Rightarrow> str list \<Rightarrow> exn + 'a list" where
  "safe_build env secrets build [] = Inr []"
| "safe_build env secrets build (value # values) =
     (case require_safe_output env value secrets of
        Inl e \<Rightarrow> if is_unsafe_output e then safe_build env secrets build values else Inl e
      | Inr clean \<Rightarrow> rbind (build clean) (\<lambda>x. rbind (safe_build env secrets build values) (\<lambda>xs. Inr (x # xs))))"

definition recommendation_of :: "frozen_input \<Rightarrow> str list \<Rightarrow> str \<Rightarrow> exn + recommendation" where
  "recommendation_of input_bundle refs clean = construct Recommendation_ok
     \<lparr>rc_text = clean, rc_risk = ''human-review-required'',
      rc_preconditions = [''Re-read current Go-owned facts before any separate proposal.''],
      rc_expires_at_unix_ms = fi_expires_at_unix_ms input_bundle, rc_evidence_refs = refs\<rparr>"

definition content_of :: "str \<Rightarrow> exn + generated_content" where
  "content_of clean = construct GeneratedContent_ok \<lparr>gn_media_type = ''text/markdown'', gn_body = clean\<rparr>"

definition generated_of :: "pyenv \<Rightarrow> str list \<Rightarrow> graph_state \<Rightarrow> exn + generated_content list" where
  "generated_of env secrets st =
     rbind (safe_build env secrets content_of (response_list ps_generated_content st)) (\<lambda>generated.
     if fi_skill (gs_input st) = ''generate_incident_content'' \<and> generated = []
     then rbind (content_of ''Analysis content is limited because no grounded provider content was accepted.'') (\<lambda>c. Inr [c])
     else Inr generated)"

definition recommendation_refs :: "grounded \<Rightarrow> str list" where
  "recommendation_refs gd = take 32 (sorted_set (concat (map gc_evidence_refs (gd_observed_claims gd))))"

definition source_refs :: "frozen_input \<Rightarrow> str list" where
  "source_refs input_bundle = sorted_set (map fr_id (fi_event_refs input_bundle @ fi_incident_refs input_bundle
     @ fi_evidence_refs input_bundle @ fi_runtime_refs input_bundle))"

definition or_default :: "str list \<Rightarrow> str \<Rightarrow> str list" where
  "or_default xs d = (if xs = [] then [d] else xs)"

definition trajectory :: "graph_state \<Rightarrow> json" where
  "trajectory st = JObj
     [(''tools'', JArr (map tool_trajectory_record (gs_tool_results st))),
      (''peers'', JArr (map peer_trajectory_record (gs_peer_results st)))]"

definition metadata_of :: "provider_adapter \<Rightarrow> exn + provider_metadata" where
  "metadata_of a = construct ProviderMetadata_ok \<lparr>pm_provider_id = prc_provider_id (pa_config a),
     pm_model_id = prc_model_id (pa_config a), pm_provider_digest = prc_profile_digest (pa_config a)\<rparr>"

definition artifact_node :: "pyenv \<Rightarrow> provider_adapter \<Rightarrow> graph_state \<Rightarrow> int \<Rightarrow> exn + graph_state" where
  "artifact_node env a st produced_ms =
     (case gs_grounded st of
        None \<Rightarrow> Inl (AnalysisError ''INTERNAL_UNAVAILABLE'' ''grounding state missing'' 500)
      | Some gd \<Rightarrow>
      let input_bundle = gs_input st; secrets = secret_values a;
          (outcome, quality) = outcome_and_quality st gd;
          trace_codes = gs_trace_codes st @ [''ARTIFACT_ASSEMBLED''] in
      rbind (safe_build env secrets (recommendation_of input_bundle (recommendation_refs gd))
        (response_list ps_recommendations st)) (\<lambda>recommendations.
      rbind (generated_of env secrets st) (\<lambda>generated.
      rbind (canonical_digest env (JObj [(''task'', JStr (fi_task_id input_bundle)),
        (''input'', JStr (fi_input_digest input_bundle))])) (\<lambda>id_digest.
      rbind (metadata_of a) (\<lambda>metadata.
      rbind (canonical_digest env (trajectory st)) (\<lambda>trajectory_digest.
      rbind (TOPOLOGY_DIGEST env) (\<lambda>topology_digest.
      rbind (canonical_digest env (JArr (map JStr trace_codes))) (\<lambda>trace_digest.
      rbind (construct AnalysisArtifact_ok
        \<lparr>aa_schema_version = ARTIFACT_SCHEMA, aa_artifact_id = ''artifact-'' @ take 32 (drop 7 id_digest),
         aa_artifact_digest = ZERO_DIGEST, aa_task_id = fi_task_id input_bundle, aa_run_id = fi_run_id input_bundle,
         aa_plugin_id = PLUGIN_ID, aa_plugin_revision = fi_plugin_revision input_bundle,
         aa_config_digest = fi_config_digest input_bundle, aa_binding_generation = fi_binding_generation input_bundle,
         aa_input_digest = fi_input_digest input_bundle, aa_analysis_outcome = outcome, aa_quality = quality,
         aa_source_fact_refs = source_refs input_bundle, aa_observed_claims = gd_observed_claims gd,
         aa_model_result_facts = gd_model_result_facts gd,
         aa_model_explanation_facts = gd_model_explanation_facts gd, aa_inferred_claims = gd_inferred_claims gd,
         aa_llm_interpretations = gd_llm_interpretations gd, aa_uncertainties = gd_uncertainties gd,
         aa_limitations = or_default (gd_limitations gd) ''No additional limitation was reported.'',
         aa_missing_evidence = or_default (gd_missing_evidence gd) ''No additional evidence gap was reported.'',
         aa_recommendations = recommendations, aa_generated_content = generated, aa_provider_metadata = metadata,
         aa_tool_trajectory_digest = trajectory_digest, aa_graph_version = GRAPH_VERSION,
         aa_topology_digest = topology_digest, aa_trace_id = fi_trace_id input_bundle, aa_trace_digest = trace_digest,
         aa_produced_at_unix_ms = produced_ms, aa_expires_at_unix_ms = fi_expires_at_unix_ms input_bundle,
         aa_media_type = ''application/json'', aa_non_executable = True, aa_deployment_eligible = False\<rparr>) (\<lambda>unsigned.
      rbind (compute_artifact_digest env unsigned) (\<lambda>digest.
      let artifact = unsigned\<lparr>aa_artifact_digest := digest\<rparr> in
      rbind (go_json_bytes env (dump_AnalysisArtifact artifact)) (\<lambda>raw.
      if int (length raw) > min (bg_artifact_bytes (fi_budgets input_bundle)) 65536
      then Inl (AnalysisError ''RESOURCE_EXHAUSTED'' ''analysis artifact exceeded the exact task bound'' 422)
      else Inr (st\<lparr>gs_artifact := Some artifact, gs_trace_codes := trace_codes\<rparr>))))))))))))"

section \<open>The plan\<close>

definition evidence_branch :: "graph_env \<Rightarrow> analysis_graph \<Rightarrow> graph_state \<Rightarrow> graph_state world_call" where
  "evidence_branch env g st =
     (if evidence_route st then bindS (bounded_evidence_node env g st) (synthesis_node env g) else retS st)"

definition graph_nodes :: "graph_env \<Rightarrow> analysis_graph \<Rightarrow> frozen_input \<Rightarrow> graph_state world_call" where
  "graph_nodes env g input_bundle =
     bindS (readS (\<lambda>_. context_node (ge_py env) (initial_state input_bundle))) (\<lambda>st.
     bindS (hypothesis_node env g st) (\<lambda>st.
     bindS (evidence_branch env g st) (\<lambda>st.
     bindS (readS (\<lambda>_. grounding_node env (secret_values (ag_provider g)) st)) (\<lambda>st.
     readS (\<lambda>w. artifact_node (ge_py env) (ag_provider g) st (now_ms w))))))"

definition graph_run :: "graph_env \<Rightarrow> analysis_graph \<Rightarrow> frozen_input \<Rightarrow> (analysis_artifact \<times> str list) world_call" where
  "graph_run env g input_bundle w =
     (case graph_nodes env g input_bundle w of
        (r, w') \<Rightarrow>
          if w_graph_timeout w'
          then (Inl (AnalysisErrorR ''DEADLINE_EXCEEDED'' ''analysis graph exceeded its hard deadline'' 408 True), w')
          else (rbind r (\<lambda>st. case gs_artifact st of
                  None \<Rightarrow> Inl (AnalysisError ''INTERNAL_UNAVAILABLE'' ''analysis graph produced no artifact'' 500)
                | Some artifact \<Rightarrow> Inr (artifact, gs_trace_codes st)), w'))"

end
