(* ===== verification/Graph_Sound.thy ===== *)
theory Graph_Sound
  imports Graph
begin

text \<open>
  What a run of the analysis plan can produce: the statements grounding accepts, the artifact that is
  assembled from them, the traces a run can take, and the requests it can send.
\<close>

section \<open>What grounding accepts\<close>

text \<open>Text that came through the output guard.\<close>

definition guarded :: "pyenv \<Rightarrow> str list \<Rightarrow> str \<Rightarrow> bool" where
  "guarded env secrets t \<longleftrightarrow> (\<exists>orig. require_safe_output env orig secrets = Inr t)"

definition grounded_in :: "pyenv \<Rightarrow> str list \<Rightarrow> str list \<Rightarrow> grounded_claim \<Rightarrow> bool" where
  "grounded_in env secrets allowed c \<longleftrightarrow>
     GroundedClaim_ok c \<and> set (gc_evidence_refs c) \<subseteq> set allowed \<and> guarded env secrets (gc_claim c)"

lemma claims_ok:
  assumes "claims env secrets allowed vs = Inr (accepted, n)"
  shows "list_all (grounded_in env secrets allowed) accepted \<and> length accepted + n = length vs"
  using assms
proof (induction env secrets allowed vs arbitrary: accepted n rule: claims.induct)
  case (2 env secrets allowed v vs)
  show ?case
  proof (cases "require_safe_output env (gc_claim v) secrets")
    case (Inl e)
    with "2.prems" obtain m where "n = Suc m" "claims env secrets allowed vs = Inr (accepted, m)" "is_unsafe_output e"
      by (auto simp: rbind_case_prod split: if_splits)
    with "2.IH"(1) [OF Inl] show ?thesis by auto
  next
    case (Inr clean)
    show ?thesis
    proof (cases "set (gc_evidence_refs v) \<subseteq> set allowed")
      case False
      with "2.prems" Inr obtain m where "n = Suc m" "claims env secrets allowed vs = Inr (accepted, m)"
        by (auto simp: rbind_case_prod)
      with "2.IH"(2) [OF Inr] False show ?thesis by auto
    next
      case True
      let ?c = "\<lparr>gc_claim = clean, gc_evidence_refs = sorted_set (gc_evidence_refs v)\<rparr>"
      from "2.prems" Inr True obtain rest where r: "accepted = ?c # rest" "claims env secrets allowed vs = Inr (rest, n)"
        and ok: "GroundedClaim_ok ?c"
        by (auto simp: rbind_eq_Inr rbind_case_prod)
      have "grounded_in env secrets allowed ?c" using ok True Inr by (auto simp: grounded_in_def guarded_def)
      with "2.IH"(3) [OF Inr] True r show ?thesis by auto
    qed
  qed
qed auto

lemma safe_texts_ok:
  assumes "safe_texts env secrets vs = Inr (accepted, n)"
  shows "list_all (guarded env secrets) accepted \<and> length accepted + n = length vs"
  using assms
proof (induction env secrets vs arbitrary: accepted n rule: safe_texts.induct)
  case (2 env secrets v vs)
  show ?case
  proof (cases "require_safe_output env v secrets")
    case (Inl e)
    with "2.prems" obtain m where "n = Suc m" "safe_texts env secrets vs = Inr (accepted, m)" "is_unsafe_output e"
      by (auto simp: rbind_case_prod split: if_splits)
    with "2.IH"(1) [OF Inl] show ?thesis by auto
  next
    case (Inr clean)
    with "2.prems" obtain rest where "accepted = clean # rest" "safe_texts env secrets vs = Inr (rest, n)"
      by (auto simp: rbind_case_prod)
    with "2.IH"(2) [OF Inr] Inr show ?thesis by (auto simp: guarded_def)
  qed
qed auto

text \<open>An explanation that does not claim causality, with the text and references of a grounded claim.\<close>

definition explained_in :: "pyenv \<Rightarrow> str list \<Rightarrow> str list \<Rightarrow> model_explanation_fact \<Rightarrow> bool" where
  "explained_in env secrets allowed x \<longleftrightarrow>
     ModelExplanationFact_ok x \<and> set (mx_evidence_refs x) \<subseteq> set allowed \<and> guarded env secrets (mx_claim x)
   \<and> \<not> rx_search env CAUSAL (mx_claim x)"

lemma explanations_ok:
  assumes "explanations env results cs = Inr (accepted, n)" and "list_all (grounded_in (ge_py env) secrets allowed) cs"
  shows "list_all (explained_in (ge_py env) secrets allowed) accepted \<and> length accepted + n = length cs"
  using assms
proof (induction env results cs arbitrary: accepted n rule: explanations.induct)
  case (2 env results c cs)
  show ?case
  proof (cases "rx_search (ge_py env) CAUSAL (gc_claim c)")
    case True
    with "2.prems" obtain m where "n = Suc m" "explanations env results cs = Inr (accepted, m)"
      by (auto simp: rbind_case_prod)
    with "2.IH"(1) [OF True] "2.prems"(2) show ?thesis by auto
  next
    case False
    show ?thesis
    proof (cases "explanation_metadata (ge_explanation env) results (gc_evidence_refs c)")
      case None
      with False "2.prems" obtain m where "n = Suc m" "explanations env results cs = Inr (accepted, m)"
        by (auto simp: rbind_case_prod)
      with "2.IH"(2) [OF False None] "2.prems"(2) show ?thesis by auto
    next
      case (Some metadata)
      let ?x = "metadata\<lparr>mx_claim := gc_claim c, mx_evidence_refs := gc_evidence_refs c\<rparr>"
      from False Some "2.prems"(1) obtain rest where
        r: "accepted = ?x # rest" "explanations env results cs = Inr (rest, n)" "ModelExplanationFact_ok ?x"
        by (auto simp: rbind_eq_Inr rbind_case_prod)
      have "explained_in (ge_py env) secrets allowed ?x"
        using r(3) False "2.prems"(2) by (auto simp: explained_in_def grounded_in_def)
      with "2.IH"(3) [OF False Some] "2.prems"(2) r show ?thesis by auto
    qed
  qed
qed auto

text \<open>The invariant of the grounded statements of a state.\<close>

definition fallback_text :: str where
  "fallback_text = ''The frozen analysis input contains an authorized evidence reference.''"

definition grounded_ok :: "graph_env \<Rightarrow> str list \<Rightarrow> frozen_input \<Rightarrow> grounded \<Rightarrow> bool" where
  "grounded_ok env secrets input_bundle gd \<longleftrightarrow>
     list_all (\<lambda>c. GroundedClaim_ok c \<and> set (gc_evidence_refs c) \<subseteq> fr_id ` set (fi_evidence_refs input_bundle)
        \<and> (guarded (ge_py env) secrets (gc_claim c) \<or> gc_claim c = fallback_text)) (gd_observed_claims gd)
   \<and> list_all (grounded_in (ge_py env) secrets (fi_model_result_evidence_refs input_bundle)) (gd_model_result_facts gd)
   \<and> list_all (explained_in (ge_py env) secrets (fi_model_explanation_evidence_refs input_bundle)) (gd_model_explanation_facts gd)
   \<and> list_all (guarded (ge_py env) secrets)
        (gd_inferred_claims gd @ gd_llm_interpretations gd @ gd_uncertainties gd @ gd_missing_evidence gd)"

lemma fallback_claim_ok:
  assumes "fallback_claim input_bundle observed = Inr observed'"
    and "list_all (grounded_in env secrets (map fr_id (fi_evidence_refs input_bundle))) observed"
  shows "list_all (\<lambda>c. GroundedClaim_ok c \<and> set (gc_evidence_refs c) \<subseteq> fr_id ` set (fi_evidence_refs input_bundle)
        \<and> (guarded env secrets (gc_claim c) \<or> gc_claim c = fallback_text)) observed'"
proof -
  have old: "list_all (\<lambda>c. GroundedClaim_ok c \<and> set (gc_evidence_refs c) \<subseteq> fr_id ` set (fi_evidence_refs input_bundle)
        \<and> (guarded env secrets (gc_claim c) \<or> gc_claim c = fallback_text)) observed"
    using assms(2) by (auto simp: list_all_iff grounded_in_def)
  show ?thesis
  proof (cases "fi_evidence_refs input_bundle")
    case Nil
    with assms(1) old show ?thesis by (simp add: fallback_claim_def)
  next
    case (Cons first rest)
    show ?thesis
    proof (cases "observed = []")
      case True
      with assms(1) Cons obtain c where "observed' = [c]" "GroundedClaim_ok c" "gc_claim c = fallback_text"
        "gc_evidence_refs c = [fr_id first]"
        by (auto simp: fallback_claim_def fallback_text_def rbind_eq_Inr)
      with Cons show ?thesis by simp
    next
      case False
      with assms(1) Cons old show ?thesis by (simp add: fallback_claim_def)
    qed
  qed
qed

lemma grounding_node_ok:
  assumes "grounding_node env secrets st = Inr st'"
  shows "\<exists>gd. st' = add_trace ''GROUNDING_VALIDATED'' (st\<lparr>gs_grounded := Some gd\<rparr>)
    \<and> grounded_ok env secrets (gs_input st) gd
    \<and> (gd_rejected gd \<noteq> 0 \<or> gs_external_errors st \<noteq> [] \<longrightarrow> gd_limitations gd \<noteq> [])"
proof -
  let ?py = "ge_py env"
  let ?i = "gs_input st"
  from assms obtain observed n1 model_results n2 ec n3 explained n4 observed' inferred n5 interp n6 uncertain n7 limits n8 missing n9
    where c1: "claims ?py secrets (map fr_id (fi_evidence_refs ?i)) (response_list ps_observed_claims st) = Inr (observed, n1)"
      and c2: "claims ?py secrets (fi_model_result_evidence_refs ?i) (response_list ps_model_result_facts st) = Inr (model_results, n2)"
      and c3: "claims ?py secrets (fi_model_explanation_evidence_refs ?i) (response_list ps_model_explanation_facts st) = Inr (ec, n3)"
      and c4: "explanations env (gs_tool_results st) ec = Inr (explained, n4)"
      and c5: "fallback_claim ?i observed = Inr observed'"
      and t5: "safe_texts ?py secrets (response_list ps_inferred_claims st) = Inr (inferred, n5)"
      and t6: "safe_texts ?py secrets (response_list ps_inferred_claims st) = Inr (interp, n6)"
      and t7: "safe_texts ?py secrets (response_list ps_uncertainties st) = Inr (uncertain, n7)"
      and t8: "safe_texts ?py secrets (response_list ps_limitations st) = Inr (limits, n8)"
      and t9: "safe_texts ?py secrets (response_list ps_missing_evidence st) = Inr (missing, n9)"
      and st': "st' = add_trace ''GROUNDING_VALIDATED'' (st\<lparr>gs_grounded := Some
        \<lparr>gd_observed_claims = observed', gd_model_result_facts = model_results,
         gd_model_explanation_facts = explained, gd_inferred_claims = inferred,
         gd_llm_interpretations = interp, gd_uncertainties = uncertain,
         gd_limitations = limits @ added_limitations st model_results explained (n1 + n2 + n3 + n4 + n5 + n6 + n7 + n8 + n9),
         gd_missing_evidence = missing, gd_rejected = n1 + n2 + n3 + n4 + n5 + n6 + n7 + n8 + n9\<rparr>\<rparr>)"
    unfolding grounding_node_def Let_def by (elim rbind_prodE rbindE) (blast dest: sum.inject(2) [THEN iffD1, OF sym])
  let ?gd = "\<lparr>gd_observed_claims = observed', gd_model_result_facts = model_results,
         gd_model_explanation_facts = explained, gd_inferred_claims = inferred,
         gd_llm_interpretations = interp, gd_uncertainties = uncertain,
         gd_limitations = limits @ added_limitations st model_results explained (n1 + n2 + n3 + n4 + n5 + n6 + n7 + n8 + n9),
         gd_missing_evidence = missing, gd_rejected = n1 + n2 + n3 + n4 + n5 + n6 + n7 + n8 + n9\<rparr>"
  have "grounded_ok env secrets ?i ?gd"
    using fallback_claim_ok [OF c5 claims_ok [OF c1, THEN conjunct1]] claims_ok [OF c2]
      explanations_ok [OF c4 claims_ok [OF c3, THEN conjunct1]]
      safe_texts_ok [OF t5] safe_texts_ok [OF t6] safe_texts_ok [OF t7] safe_texts_ok [OF t9]
    by (simp add: grounded_ok_def)
  moreover have "gd_rejected ?gd \<noteq> 0 \<or> gs_external_errors st \<noteq> [] \<longrightarrow> gd_limitations ?gd \<noteq> []"
    by (auto simp: added_limitations_def)
  ultimately show ?thesis using st' by blast
qed

section \<open>What an artifact states\<close>

lemma safe_build_ok:
  assumes "safe_build env secrets build vs = Inr xs"
  shows "list_all (\<lambda>x. \<exists>t. guarded env secrets t \<and> build t = Inr x) xs"
  using assms
proof (induction env secrets build vs arbitrary: xs rule: safe_build.induct)
  case (2 env secrets build v vs)
  show ?case
  proof (cases "require_safe_output env v secrets")
    case (Inl e)
    with "2.prems" "2.IH"(1) [OF Inl] show ?thesis by (auto split: if_splits)
  next
    case (Inr clean)
    with "2.prems" obtain x rest where "xs = x # rest" "build clean = Inr x" "safe_build env secrets build vs = Inr rest"
      by (auto simp: rbind_eq_Inr)
    with "2.IH"(2) [OF Inr] Inr show ?thesis by (auto simp: guarded_def)
  qed
qed auto

definition content_fallback :: str where
  "content_fallback = ''Analysis content is limited because no grounded provider content was accepted.''"

lemma generated_of_ok:
  assumes "generated_of env secrets st = Inr xs"
  shows "list_all (\<lambda>x. guarded env secrets (gn_body x) \<or> gn_body x = content_fallback) xs"
proof -
  from assms obtain generated where g: "safe_build env secrets content_of (response_list ps_generated_content st) = Inr generated"
    and x: "xs = generated \<or> (\<exists>c. xs = [c] \<and> gn_body c = content_fallback)"
    by (auto simp: generated_of_def content_of_def content_fallback_def rbind_eq_Inr split: if_splits)
  from safe_build_ok [OF g] have "list_all (\<lambda>x. guarded env secrets (gn_body x)) generated"
    by (auto simp: list_all_iff content_of_def)
  with x show ?thesis by (auto simp: list_all_iff)
qed

text \<open>Everything the artifact takes over from the state, and its digest and size.\<close>

definition artifact_of_state :: "pyenv \<Rightarrow> provider_adapter \<Rightarrow> graph_state \<Rightarrow> grounded \<Rightarrow> analysis_artifact \<Rightarrow> bool" where
  "artifact_of_state env a st gd x \<longleftrightarrow>
     AnalysisArtifact_ok (x\<lparr>aa_artifact_digest := ZERO_DIGEST\<rparr>)
   \<and> compute_artifact_digest env x = Inr (aa_artifact_digest x)
   \<and> (\<exists>raw. go_json_bytes env (dump_AnalysisArtifact x) = Inr raw
        \<and> int (length raw) \<le> min (bg_artifact_bytes (fi_budgets (gs_input st))) 65536)
   \<and> aa_task_id x = fi_task_id (gs_input st) \<and> aa_run_id x = fi_run_id (gs_input st)
   \<and> aa_input_digest x = fi_input_digest (gs_input st) \<and> aa_config_digest x = fi_config_digest (gs_input st)
   \<and> aa_binding_generation x = fi_binding_generation (gs_input st)
   \<and> aa_plugin_revision x = fi_plugin_revision (gs_input st)
   \<and> aa_expires_at_unix_ms x = fi_expires_at_unix_ms (gs_input st)
   \<and> set (aa_source_fact_refs x) = fr_id ` set (fi_event_refs (gs_input st) @ fi_incident_refs (gs_input st)
        @ fi_evidence_refs (gs_input st) @ fi_runtime_refs (gs_input st))
   \<and> (aa_analysis_outcome x, aa_quality x) = outcome_and_quality st gd
   \<and> aa_observed_claims x = gd_observed_claims gd \<and> aa_model_result_facts x = gd_model_result_facts gd
   \<and> aa_model_explanation_facts x = gd_model_explanation_facts gd
   \<and> aa_inferred_claims x = gd_inferred_claims gd \<and> aa_llm_interpretations x = gd_llm_interpretations gd
   \<and> aa_uncertainties x = gd_uncertainties gd
   \<and> aa_limitations x = or_default (gd_limitations gd) ''No additional limitation was reported.''
   \<and> canonical_digest env (JArr (map JStr (gs_trace_codes st @ [''ARTIFACT_ASSEMBLED'']))) = Inr (aa_trace_digest x)
   \<and> canonical_digest env (trajectory st) = Inr (aa_tool_trajectory_digest x)
   \<and> list_all (\<lambda>r. guarded env (secret_values a) (rc_text r) \<and> rc_risk r = ''human-review-required''
        \<and> set (rc_evidence_refs r) \<subseteq> (\<Union>c \<in> set (gd_observed_claims gd). set (gc_evidence_refs c))) (aa_recommendations x)
   \<and> list_all (\<lambda>c. guarded env (secret_values a) (gn_body c) \<or> gn_body c = content_fallback) (aa_generated_content x)"

lemma recommendations_ok:
  assumes "safe_build env secrets (recommendation_of input_bundle (recommendation_refs gd)) vs = Inr rs"
  shows "list_all (\<lambda>r. guarded env secrets (rc_text r) \<and> rc_risk r = ''human-review-required''
        \<and> set (rc_evidence_refs r) \<subseteq> (\<Union>c \<in> set (gd_observed_claims gd). set (gc_evidence_refs c))) rs"
proof -
  have "set (recommendation_refs gd) \<subseteq> (\<Union>c \<in> set (gd_observed_claims gd). set (gc_evidence_refs c))"
    using set_take_subset [of 32 "sorted_set (concat (map gc_evidence_refs (gd_observed_claims gd)))"]
    by (auto simp: recommendation_refs_def)
  with safe_build_ok [OF assms] show ?thesis by (fastforce simp: list_all_iff recommendation_of_def)
qed

lemma compute_artifact_digest_field_free [simp]:
  "compute_artifact_digest env (x\<lparr>aa_artifact_digest := d\<rparr>) = compute_artifact_digest env x"
  by (simp add: compute_artifact_digest_def)

lemma artifact_node_ok:
  assumes "artifact_node env a st now = Inr st'"
  shows "\<exists>gd x. gs_grounded st = Some gd \<and> gs_artifact st' = Some x \<and> artifact_of_state env a st gd x
    \<and> gs_trace_codes st' = gs_trace_codes st @ [''ARTIFACT_ASSEMBLED'']"
proof -
  from assms obtain gd where gd: "gs_grounded st = Some gd" by (auto simp: artifact_node_def split: option.splits)
  obtain outcome quality where oq: "outcome_and_quality st gd = (outcome, quality)" by fastforce
  note step = assms [unfolded artifact_node_def gd option.case oq prod.case Let_def rbind_eq_Inr]
  from step obtain rs gen d1 md d2 d3 d4 u d5 raw where
    rs: "safe_build env (secret_values a) (recommendation_of (gs_input st) (recommendation_refs gd))
        (response_list ps_recommendations st) = Inr rs"
    and gen: "generated_of env (secret_values a) st = Inr gen"
    and d2: "canonical_digest env (trajectory st) = Inr d2"
    and d4: "canonical_digest env (JArr (map JStr (gs_trace_codes st @ [''ARTIFACT_ASSEMBLED'']))) = Inr d4"
    and u: "construct AnalysisArtifact_ok
        \<lparr>aa_schema_version = ARTIFACT_SCHEMA, aa_artifact_id = ''artifact-'' @ take 32 (drop 7 d1),
         aa_artifact_digest = ZERO_DIGEST, aa_task_id = fi_task_id (gs_input st), aa_run_id = fi_run_id (gs_input st),
         aa_plugin_id = PLUGIN_ID, aa_plugin_revision = fi_plugin_revision (gs_input st),
         aa_config_digest = fi_config_digest (gs_input st), aa_binding_generation = fi_binding_generation (gs_input st),
         aa_input_digest = fi_input_digest (gs_input st), aa_analysis_outcome = outcome, aa_quality = quality,
         aa_source_fact_refs = source_refs (gs_input st), aa_observed_claims = gd_observed_claims gd,
         aa_model_result_facts = gd_model_result_facts gd,
         aa_model_explanation_facts = gd_model_explanation_facts gd, aa_inferred_claims = gd_inferred_claims gd,
         aa_llm_interpretations = gd_llm_interpretations gd, aa_uncertainties = gd_uncertainties gd,
         aa_limitations = or_default (gd_limitations gd) ''No additional limitation was reported.'',
         aa_missing_evidence = or_default (gd_missing_evidence gd) ''No additional evidence gap was reported.'',
         aa_recommendations = rs, aa_generated_content = gen, aa_provider_metadata = md,
         aa_tool_trajectory_digest = d2, aa_graph_version = GRAPH_VERSION,
         aa_topology_digest = d3, aa_trace_id = fi_trace_id (gs_input st), aa_trace_digest = d4,
         aa_produced_at_unix_ms = now, aa_expires_at_unix_ms = fi_expires_at_unix_ms (gs_input st),
         aa_media_type = ''application/json'', aa_non_executable = True, aa_deployment_eligible = False\<rparr> = Inr u"
    and d5: "compute_artifact_digest env u = Inr d5"
    and raw: "go_json_bytes env (dump_AnalysisArtifact (u\<lparr>aa_artifact_digest := d5\<rparr>)) = Inr raw"
    and fin: "(if int (length raw) > min (bg_artifact_bytes (fi_budgets (gs_input st))) 65536
      then Inl (AnalysisError ''RESOURCE_EXHAUSTED'' ''analysis artifact exceeded the exact task bound'' 422)
      else Inr (st\<lparr>gs_artifact := Some (u\<lparr>aa_artifact_digest := d5\<rparr>),
        gs_trace_codes := gs_trace_codes st @ [''ARTIFACT_ASSEMBLED'']\<rparr>)) = Inr st'"
    by blast
  from fin have len: "int (length raw) \<le> min (bg_artifact_bytes (fi_budgets (gs_input st))) 65536"
    and st': "st' = st\<lparr>gs_artifact := Some (u\<lparr>aa_artifact_digest := d5\<rparr>),
        gs_trace_codes := gs_trace_codes st @ [''ARTIFACT_ASSEMBLED'']\<rparr>"
    by (auto split: if_splits)
  from u have ok: "AnalysisArtifact_ok u" and zero: "u\<lparr>aa_artifact_digest := ZERO_DIGEST\<rparr> = u"
    and fields: "aa_task_id u = fi_task_id (gs_input st)" "aa_run_id u = fi_run_id (gs_input st)"
      "aa_input_digest u = fi_input_digest (gs_input st)" "aa_config_digest u = fi_config_digest (gs_input st)"
      "aa_binding_generation u = fi_binding_generation (gs_input st)"
      "aa_plugin_revision u = fi_plugin_revision (gs_input st)"
      "aa_expires_at_unix_ms u = fi_expires_at_unix_ms (gs_input st)"
      "aa_source_fact_refs u = source_refs (gs_input st)" "aa_analysis_outcome u = outcome" "aa_quality u = quality"
      "aa_observed_claims u = gd_observed_claims gd" "aa_model_result_facts u = gd_model_result_facts gd"
      "aa_model_explanation_facts u = gd_model_explanation_facts gd" "aa_inferred_claims u = gd_inferred_claims gd"
      "aa_llm_interpretations u = gd_llm_interpretations gd" "aa_uncertainties u = gd_uncertainties gd"
      "aa_limitations u = or_default (gd_limitations gd) ''No additional limitation was reported.''"
      "aa_trace_digest u = d4" "aa_tool_trajectory_digest u = d2" "aa_recommendations u = rs" "aa_generated_content u = gen"
    unfolding construct_eq_Inr by simp_all
  have src: "set (source_refs (gs_input st)) = fr_id ` set (fi_event_refs (gs_input st) @ fi_incident_refs (gs_input st)
        @ fi_evidence_refs (gs_input st) @ fi_runtime_refs (gs_input st))"
    by (auto simp: source_refs_def)
  have "artifact_of_state env a st gd (u\<lparr>aa_artifact_digest := d5\<rparr>)"
    unfolding artifact_of_state_def
    using raw len recommendations_ok [OF rs] generated_of_ok [OF gen]
    by (simp add: ok zero fields d2 d4 [simplified] d5 oq src)
  with gd st' show ?thesis by auto
qed

section \<open>The course of a run\<close>

lemma tryS_recover_Inr:
  assumes "tryS (bindS m (\<lambda>x. retS (f x))) (recover h) w = (Inr st', w')"
  shows "(\<exists>x. m w = (Inr x, w') \<and> st' = f x) \<or> (\<exists>e code. m w = (Inl e, w') \<and> exn_code e = Some code \<and> st' = h code)"
  using assms
  by (auto simp: tryS_def bindS_def retS_def recover_def raiseS_def split: prod.splits sum.splits option.splits)

lemma hypothesis_node_cases:
  assumes "hypothesis_node env g st w = (Inr st', w')"
  shows "st' = add_trace ''PROVIDER_SKIPPED'' (add_error ''PROVIDER_DISABLED_BY_BUDGET'' st)
    \<or> (\<exists>response. st' = add_trace ''HYPOTHESIS_COMPLETED'' (st\<lparr>gs_provider_response := Some response\<rparr>))
    \<or> (\<exists>code. st' = add_trace ''HYPOTHESIS_LIMITED'' (add_error code (st\<lparr>gs_provider_response := None\<rparr>)))"
  using assms by (auto simp: hypothesis_node_def retS_def split: if_splits dest!: tryS_recover_Inr)

lemma evidence_round_cases:
  assumes "evidence_round env g binding response st w = (Inr st', w')"
  shows "\<exists>tools peers errors. st' = add_trace ''BOUNDED_EVIDENCE_TIMED_OUT'' (add_error ''RESULT_BUDGET_EXHAUSTED''
                  (st\<lparr>gs_tool_results := [], gs_peer_results := []\<rparr>))
      \<or> st' = add_trace ''BOUNDED_EVIDENCE_COMPLETED'' (st\<lparr>gs_tool_results := tools, gs_peer_results := peers,
                   gs_external_errors := gs_external_errors st @ errors\<rparr>)"
  using assms by (auto simp: evidence_round_def Let_def split: prod.splits if_splits)

lemma bounded_evidence_cases:
  assumes "bounded_evidence_node env g st w = (Inr st', w')" and "gs_provider_response st \<noteq> None"
  shows "\<exists>tools peers errors. st' = add_trace ''BOUNDED_EVIDENCE_SKIPPED'' (add_error ''RESULT_BUDGET_EXHAUSTED'' st)
      \<or> st' = add_trace ''BOUNDED_EVIDENCE_TIMED_OUT'' (add_error ''RESULT_BUDGET_EXHAUSTED''
                  (st\<lparr>gs_tool_results := [], gs_peer_results := []\<rparr>))
      \<or> st' = add_trace ''BOUNDED_EVIDENCE_COMPLETED'' (st\<lparr>gs_tool_results := tools, gs_peer_results := peers,
                   gs_external_errors := gs_external_errors st @ errors\<rparr>)"
proof -
  from assms obtain binding response where
    "(if remaining_result_ms st w \<le> 0 then retS (add_trace ''BOUNDED_EVIDENCE_SKIPPED'' (add_error ''RESULT_BUDGET_EXHAUSTED'' st))
      else evidence_round env g binding response st) w = (Inr st', w')"
    by (auto simp: bounded_evidence_node_def bindS_Inr readS_def)
  then show ?thesis by (auto simp: retS_def split: if_splits dest: evidence_round_cases)
qed

lemma synthesis_node_cases:
  assumes "synthesis_node env g st w = (Inr st', w')"
  shows "st' = add_trace ''SYNTHESIS_NOT_REQUIRED'' st
    \<or> (\<exists>response. st' = add_trace ''SYNTHESIS_BOUNDED'' (add_error ''SECOND_ROUND_REQUEST_NOT_SYNTHESIZED''
               (st\<lparr>gs_provider_response := Some response\<rparr>)))
    \<or> (\<exists>response. st' = add_trace ''SYNTHESIS_COMPLETED'' (st\<lparr>gs_provider_response := Some response\<rparr>))
    \<or> (\<exists>code. st' = add_trace ''SYNTHESIS_LIMITED'' (add_error code st))"
  using assms by (auto simp: synthesis_node_def retS_def split: if_splits dest!: tryS_recover_Inr)

text \<open>
  The states that reach grounding: the input is untouched, the trace names the branch taken, and without
  an external error the provider answered and the evidence round, if any, completed.
\<close>

definition clean_traces :: "str list list" where
  "clean_traces = [[''HYPOTHESIS_COMPLETED''],
     [''HYPOTHESIS_COMPLETED'', ''BOUNDED_EVIDENCE_COMPLETED'', ''SYNTHESIS_NOT_REQUIRED''],
     [''HYPOTHESIS_COMPLETED'', ''BOUNDED_EVIDENCE_COMPLETED'', ''SYNTHESIS_COMPLETED'']]"

definition plan_state :: "frozen_input \<Rightarrow> graph_state \<Rightarrow> bool" where
  "plan_state input_bundle st \<longleftrightarrow>
     gs_input st = input_bundle
   \<and> (\<exists>mid. gs_trace_codes st = [''GRAPH_STARTED'', ''DETERMINISTIC_CONTEXT_BUILT''] @ mid \<and> length mid \<le> 3
        \<and> (gs_external_errors st = [] \<longrightarrow> mid \<in> set clean_traces \<and> gs_provider_response st \<noteq> None))"

lemmas node_simps = add_trace_def add_error_def initial_state_def

lemma hypothesis_plan:
  assumes "context_node py (initial_state input_bundle) = Inr st0" and "hypothesis_node env g st0 w = (Inr st1, w1)"
  shows "gs_input st1 = input_bundle \<and> (\<exists>h. gs_trace_codes st1 = [''GRAPH_STARTED'', ''DETERMINISTIC_CONTEXT_BUILT'', h]
    \<and> (gs_external_errors st1 = [] \<longrightarrow> h = ''HYPOTHESIS_COMPLETED'' \<and> gs_provider_response st1 \<noteq> None))"
proof -
  from assms(1) have "gs_input st0 = input_bundle" "gs_external_errors st0 = []"
    "gs_trace_codes st0 = [''GRAPH_STARTED'', ''DETERMINISTIC_CONTEXT_BUILT'']"
    by (auto simp: context_node_def Let_def node_simps elim!: rbindE)
  with hypothesis_node_cases [OF assms(2)] show ?thesis by (auto simp: node_simps)
qed

lemma evidence_branch_plan:
  assumes "evidence_branch env g st1 w1 = (Inr st2, w2)" and "gs_input st1 = input_bundle"
    and "gs_trace_codes st1 = [''GRAPH_STARTED'', ''DETERMINISTIC_CONTEXT_BUILT'', h]"
    and "gs_external_errors st1 = [] \<longrightarrow> h = ''HYPOTHESIS_COMPLETED'' \<and> gs_provider_response st1 \<noteq> None"
  shows "plan_state input_bundle st2"
proof (cases "evidence_route st1")
  case False
  with assms show ?thesis by (auto simp: evidence_branch_def retS_def plan_state_def clean_traces_def)
next
  case True
  then have p: "gs_provider_response st1 \<noteq> None" by (auto simp: evidence_route_def split: option.splits)
  from True assms(1) obtain st u where b: "bounded_evidence_node env g st1 w1 = (Inr st, u)"
    and s: "synthesis_node env g st u = (Inr st2, w2)"
    by (auto simp: evidence_branch_def bindS_Inr)
  from bounded_evidence_cases [OF b p] assms(2-4) have
    "gs_input st = input_bundle \<and> (\<exists>c. gs_trace_codes st = [''GRAPH_STARTED'', ''DETERMINISTIC_CONTEXT_BUILT'', h, c]
      \<and> (gs_external_errors st = [] \<longrightarrow> h = ''HYPOTHESIS_COMPLETED'' \<and> c = ''BOUNDED_EVIDENCE_COMPLETED'' \<and> gs_provider_response st \<noteq> None))"
    by (auto simp: node_simps)
  with synthesis_node_cases [OF s] show ?thesis
    by (auto simp: node_simps plan_state_def clean_traces_def)
qed

lemma graph_run_ok:
  assumes "graph_run env g input_bundle w = (Inr (x, codes), w')"
  shows "\<exists>st gd. plan_state input_bundle st \<and> grounded_ok env (secret_values (ag_provider g)) input_bundle gd
    \<and> (gd_rejected gd \<noteq> 0 \<or> gs_external_errors st \<noteq> [] \<longrightarrow> gd_limitations gd \<noteq> [])
    \<and> codes = gs_trace_codes st @ [''GROUNDING_VALIDATED'', ''ARTIFACT_ASSEMBLED'']
    \<and> artifact_of_state (ge_py env) (ag_provider g)
        (add_trace ''GROUNDING_VALIDATED'' (st\<lparr>gs_grounded := Some gd\<rparr>)) gd x"
proof -
  from assms obtain st5 where "graph_nodes env g input_bundle w = (Inr st5, w')"
    and x: "gs_artifact st5 = Some x" "codes = gs_trace_codes st5"
    by (auto simp: graph_run_def rbind_eq_Inr split: prod.splits if_splits option.splits)
  then obtain st0 st1 w1 st2 w2 st3 where
    c: "context_node (ge_py env) (initial_state input_bundle) = Inr st0" and
    h: "hypothesis_node env g st0 w = (Inr st1, w1)" and
    e: "evidence_branch env g st1 w1 = (Inr st2, w2)" and
    gr: "grounding_node env (secret_values (ag_provider g)) st2 = Inr st3" and
    a: "artifact_node (ge_py env) (ag_provider g) st3 (now_ms w2) = Inr st5"
    unfolding graph_nodes_def bindS_Inr readS_def by auto
  from hypothesis_plan [OF c h] evidence_branch_plan [OF e] have p: "plan_state input_bundle st2" by blast
  then have i: "gs_input st2 = input_bundle" by (simp add: plan_state_def)
  from grounding_node_ok [OF gr, unfolded i] obtain gd where
    gd: "st3 = add_trace ''GROUNDING_VALIDATED'' (st2\<lparr>gs_grounded := Some gd\<rparr>)"
    "grounded_ok env (secret_values (ag_provider g)) input_bundle gd"
    "gd_rejected gd \<noteq> 0 \<or> gs_external_errors st2 \<noteq> [] \<longrightarrow> gd_limitations gd \<noteq> []"
    by blast
  from artifact_node_ok [OF a] x gd(1) have "artifact_of_state (ge_py env) (ag_provider g) st3 gd x"
    "codes = gs_trace_codes st2 @ [''GROUNDING_VALIDATED'', ''ARTIFACT_ASSEMBLED'']"
    by (auto simp: add_trace_def)
  with p gd show ?thesis by blast
qed


text \<open>The documented output of \<open>hashlib.sha256(..).hexdigest()\<close>: 64 lower-case hexadecimal digits.\<close>

definition hexdigest_spec :: "pyenv \<Rightarrow> bool" where
  "hexdigest_spec env \<longleftrightarrow> (\<forall>raw. length (hexdigest env raw) = 64 \<and> list_all is_lower_hex (hexdigest env raw))"

lemma Digest_ok_sha256: "hexdigest_spec env \<Longrightarrow> Digest_ok (sha256_digest env raw)"
  by (simp add: hexdigest_spec_def Digest_ok_def sha256_digest_def starts_with_iff)

lemma Digest_ok_canonical: "hexdigest_spec env \<Longrightarrow> canonical_digest env v = Inr d \<Longrightarrow> Digest_ok d"
  by (auto simp: canonical_digest_eq Digest_ok_sha256 split: if_splits)

lemma AnalysisArtifact_ok_digest:
  "AnalysisArtifact_ok (x\<lparr>aa_artifact_digest := d\<rparr>) \<Longrightarrow> Digest_ok (aa_artifact_digest x) \<Longrightarrow> AnalysisArtifact_ok x"
  by (simp add: AnalysisArtifact_ok_def)

text \<open>
  C13: every artifact is a well-formed, self-digested, non-executable record of its task. A returned
  artifact satisfies the contract model, carries its own digest and the digest of the trace that is
  returned with it, encodes to at most the task's byte budget and 64 KiB, is marked non-executable and
  not deployable, and repeats the identities, the revision, the configuration, the binding generation and
  the expiry of the frozen input.
\<close>

theorem graph_artifact_contract:
  assumes "graph_run env g input_bundle w = (Inr (x, codes), w')" and "hexdigest_spec (ge_py env)"
  shows "AnalysisArtifact_ok x \<and> aa_non_executable x \<and> \<not> aa_deployment_eligible x
    \<and> compute_artifact_digest (ge_py env) x = Inr (aa_artifact_digest x)
    \<and> canonical_digest (ge_py env) (JArr (map JStr codes)) = Inr (aa_trace_digest x)
    \<and> (\<exists>raw. go_json_bytes (ge_py env) (dump_AnalysisArtifact x) = Inr raw
         \<and> int (length raw) \<le> min (bg_artifact_bytes (fi_budgets input_bundle)) 65536)
    \<and> aa_task_id x = fi_task_id input_bundle \<and> aa_run_id x = fi_run_id input_bundle
    \<and> aa_input_digest x = fi_input_digest input_bundle \<and> aa_config_digest x = fi_config_digest input_bundle
    \<and> aa_plugin_revision x = fi_plugin_revision input_bundle
    \<and> aa_binding_generation x = fi_binding_generation input_bundle
    \<and> aa_expires_at_unix_ms x = fi_expires_at_unix_ms input_bundle"
proof -
  from graph_run_ok [OF assms(1)] obtain st gd where
    p: "plan_state input_bundle st" and codes: "codes = gs_trace_codes st @ [''GROUNDING_VALIDATED'', ''ARTIFACT_ASSEMBLED'']" and
    a: "artifact_of_state (ge_py env) (ag_provider g) (add_trace ''GROUNDING_VALIDATED'' (st\<lparr>gs_grounded := Some gd\<rparr>)) gd x"
    by blast
  have i: "gs_input st = input_bundle" using p by (simp add: plan_state_def)
  note facts = a [unfolded artifact_of_state_def]
  have dig: "compute_artifact_digest (ge_py env) x = Inr (aa_artifact_digest x)"
    and zero: "AnalysisArtifact_ok (x\<lparr>aa_artifact_digest := ZERO_DIGEST\<rparr>)" using facts by blast+
  from dig obtain raw where "aa_artifact_digest x = sha256_digest (ge_py env) raw"
    unfolding compute_artifact_digest_def by (elim rbindE) (metis Inr_inject)
  then have "Digest_ok (aa_artifact_digest x)" using Digest_ok_sha256 [OF assms(2)] by simp
  with zero have ok: "AnalysisArtifact_ok x" by (rule AnalysisArtifact_ok_digest)
  then have "aa_non_executable x" "\<not> aa_deployment_eligible x" by (simp_all add: AnalysisArtifact_ok_def)
  with ok dig facts codes i show ?thesis by (simp add: add_trace_def)
qed


section \<open>Requests of a run\<close>

text \<open>
  A request of a run: a provider call, or a request that the tool or delegation rules permit
  under a binding that matched the frozen input.
\<close>

definition graph_permitted :: "graph_env \<Rightarrow> analysis_graph \<Rightarrow> frozen_input \<Rightarrow> http_request \<Rightarrow> bool" where
  "graph_permitted env g input_bundle rq \<longleftrightarrow>
     provider_call (ag_provider g) rq
   \<or> (\<exists>now binding. matches_input (ag_binding_state g) input_bundle now = Inr binding
        \<and> ((\<exists>requests. mcp_permitted (ge_mcp env) (ag_mcp g) requests input_bundle binding rq)
           \<or> (\<exists>delegations. peer_permitted (ge_py env) (ag_peers g) delegations input_bundle
                (bo_a2a_peer_allowlist binding) (secret_values (ag_provider g)) rq)))"

lemma budgeted_recover [budget]: "budgeted P 0 (recover f e)"
  by (auto simp: recover_def intro: budget split: option.splits)

lemma budgeted_provider_phase: "budgeted (graph_permitted env g i) 1 (provider_phase env g st phase exhausted)"
proof -
  have "budgeted (graph_permitted env g i) 1 (analyze py dec (ag_provider g) request t n)" for py dec request t n
    by (rule budgeted_weaken [OF budgeted_analyze]) (simp add: graph_permitted_def)
  then show ?thesis
    unfolding provider_phase_def by (intro budgeted_bind_readS) (auto intro: budget budgeted_bind_readS)
qed

lemma budgeted_try_phase:
  assumes "\<And>x. budgeted P 0 (k x)" and "\<And>e. budgeted P 0 (h e)" and "budgeted P 1 m"
  shows "budgeted P 1 (tryS (bindS m k) h)"
  using budgeted_tryS [OF budgeted_bind_pure [OF assms(3) assms(1)] assms(2)] by simp

lemma budgeted_hypothesis:
  "budgeted (graph_permitted env g i) (if bg_llm_calls (fi_budgets (gs_input st)) = 0 then 0 else 1) (hypothesis_node env g st)"
  unfolding hypothesis_node_def by (auto intro!: budgeted_try_phase [simplified] budgeted_provider_phase [simplified] budget)

lemma budgeted_synthesis:
  "budgeted (graph_permitted env g i) (if bg_llm_calls (fi_budgets (gs_input st)) < 2 then 0 else 1) (synthesis_node env g st)"
  unfolding synthesis_node_def by (auto intro!: budgeted_try_phase [simplified] budgeted_provider_phase [simplified] budget)

abbreviation evidence_budget :: "frozen_input \<Rightarrow> nat" where
  "evidence_budget i \<equiv> 3 + nat (bg_tool_calls (fi_budgets i))
     + nat (bg_outbound_delegations (fi_budgets i)) * (1 + nat (bg_polls_per_task (fi_budgets i)))"

lemma budgeted_evidence_round:
  assumes "matches_input (ag_binding_state g) (gs_input st) now = Inr binding"
  shows "budgeted (graph_permitted env g (gs_input st)) (evidence_budget (gs_input st)) (evidence_round env g binding response st)"
proof (rule budgetedI)
  fix w
  let ?P = "graph_permitted env g (gs_input st)"
  let ?i = "gs_input st"
  let ?x = "execute (ge_mcp env) (ag_mcp g) (ps_tool_requests response) ?i binding 1"
  let ?d = "delegate (ge_py env) (ge_peer_dec env) (ag_peers g) (ps_delegations response) ?i
              (bo_a2a_peer_allowlist binding) (secret_values (ag_provider g))"
  have x: "budgeted ?P (3 + nat (bg_tool_calls (fi_budgets ?i))) ?x"
    by (rule budgeted_weaken [OF budgeted_execute]) (use assms in \<open>auto simp: graph_permitted_def\<close>)
  have d: "budgeted ?P (nat (bg_outbound_delegations (fi_budgets ?i)) * (1 + nat (bg_polls_per_task (fi_budgets ?i)))) ?d"
    by (rule budgeted_weaken [OF budgeted_delegate]) (use assms in \<open>auto simp: graph_permitted_def\<close>)
  obtain t w1 where 1: "?x w = (t, w1)" by fastforce
  obtain p w2 where 2: "?d w1 = (p, w2)" by fastforce
  from budgetedD [OF x, of w] budgetedD [OF d, of w1] 1 2 have "log_ext ?P (evidence_budget ?i) w w2"
    by (auto intro: log_ext_trans)
  moreover have "snd (evidence_round env g binding response st w) = w2"
    by (simp add: evidence_round_def 1 2 split: prod.splits)
  ultimately show "log_ext ?P (evidence_budget ?i) w (snd (evidence_round env g binding response st w))" by simp
qed

lemma budgeted_bounded_evidence:
  "budgeted (graph_permitted env g (gs_input st)) (evidence_budget (gs_input st)) (bounded_evidence_node env g st)"
proof -
  have "budgeted (graph_permitted env g (gs_input st)) (evidence_budget (gs_input st))
     (bindS (readS (\<lambda>w. Inr (remaining_result_ms st w))) (\<lambda>remaining_ms.
         if remaining_ms \<le> 0
         then retS (add_trace ''BOUNDED_EVIDENCE_SKIPPED'' (add_error ''RESULT_BUDGET_EXHAUSTED'' st))
         else evidence_round env g binding response st))"
    if "matches_input (ag_binding_state g) (gs_input st) now = Inr binding" for now binding response
    by (rule budgeted_bind_readS) (use budgeted_evidence_round [OF that] in \<open>auto intro: budget\<close>)
  then show ?thesis
    unfolding bounded_evidence_node_def
    by (intro budgeted_bind_readS) (auto split: option.split intro: budget)
qed

lemma bounded_evidence_input:
  assumes "bounded_evidence_node env g st w = (Inr st', w')"
  shows "gs_input st' = gs_input st"
proof (cases "gs_provider_response st")
  case None
  with assms show ?thesis by (auto simp: bounded_evidence_node_def bindS_Inr readS_def retS_def)
next
  case (Some r)
  with bounded_evidence_cases [OF assms] show ?thesis by (auto simp: node_simps)
qed

lemma budgeted_evidence_branch:
  "budgeted (graph_permitted env g (gs_input st))
     (evidence_budget (gs_input st) + (if bg_llm_calls (fi_budgets (gs_input st)) < 2 then 0 else 1)) (evidence_branch env g st)"
proof -
  have "budgeted (graph_permitted env g (gs_input st))
     (evidence_budget (gs_input st) + (if bg_llm_calls (fi_budgets (gs_input st)) < 2 then 0 else 1))
     (bindS (bounded_evidence_node env g st) (synthesis_node env g))"
  proof (rule budgeted_bind_post [OF budgeted_bounded_evidence])
    fix w st' w' assume "bounded_evidence_node env g st w = (Inr st', w')"
    then have "gs_input st' = gs_input st" by (rule bounded_evidence_input)
    then show "budgeted (graph_permitted env g (gs_input st)) (if bg_llm_calls (fi_budgets (gs_input st)) < 2 then 0 else 1)
        (synthesis_node env g st')"
      using budgeted_synthesis [of env g "gs_input st" st'] by simp
  qed
  then show ?thesis by (simp add: evidence_branch_def budget)
qed

lemma budgeted_graph_nodes:
  assumes "0 \<le> bg_llm_calls (fi_budgets i)"
  shows "budgeted (graph_permitted env g i) (nat (bg_llm_calls (fi_budgets i)) + evidence_budget i) (graph_nodes env g i)"
proof -
  let ?P = "graph_permitted env g i"
  let ?h = "if bg_llm_calls (fi_budgets i) = 0 then 0 else 1 :: nat"
  let ?s = "if bg_llm_calls (fi_budgets i) < 2 then 0 else 1 :: nat"
  have tail: "budgeted ?P 0 (bindS (readS f) (\<lambda>st. readS (k st)))" for f :: "world \<Rightarrow> exn + graph_state"
      and k :: "graph_state \<Rightarrow> world \<Rightarrow> exn + graph_state"
    by (intro budgeted_bind_pure budget)
  have branch: "budgeted ?P (evidence_budget i + ?s + 0) (bindS (evidence_branch env g st) (\<lambda>st. bindS (readS (f st)) (\<lambda>st. readS (k st))))"
    if "gs_input st = i" for st and f :: "graph_state \<Rightarrow> world \<Rightarrow> exn + graph_state"
      and k :: "graph_state \<Rightarrow> world \<Rightarrow> exn + graph_state"
    using budgeted_evidence_branch [of env g st] that by (intro budgeted_bindS tail) simp
  have hyp: "budgeted ?P (?h + (evidence_budget i + ?s + 0)) (bindS (hypothesis_node env g st) (\<lambda>st. bindS (evidence_branch env g st)
        (\<lambda>st. bindS (readS (f st)) (\<lambda>st. readS (k st)))))"
    if "gs_input st = i" for st and f :: "graph_state \<Rightarrow> world \<Rightarrow> exn + graph_state"
      and k :: "graph_state \<Rightarrow> world \<Rightarrow> exn + graph_state"
  proof (rule budgeted_bind_post)
    show "budgeted ?P ?h (hypothesis_node env g st)" using budgeted_hypothesis [of env g i st] that by simp
    fix w st' w' assume "hypothesis_node env g st w = (Inr st', w')"
    from hypothesis_node_cases [OF this] that have "gs_input st' = i" by (auto simp: node_simps)
    then show "budgeted ?P (evidence_budget i + ?s + 0) (bindS (evidence_branch env g st')
        (\<lambda>st. bindS (readS (f st)) (\<lambda>st. readS (k st))))" by (rule branch)
  qed
  have "budgeted ?P (?h + (evidence_budget i + ?s + 0)) (graph_nodes env g i)"
    unfolding graph_nodes_def
  proof (rule budgeted_bind_readS)
    fix w st assume "context_node (ge_py env) (initial_state i) = Inr st"
    then have "gs_input st = i" by (auto simp: context_node_def Let_def node_simps elim!: rbindE)
    then show "budgeted ?P (?h + (evidence_budget i + ?s + 0)) (bindS (hypothesis_node env g st) (\<lambda>st. bindS (evidence_branch env g st)
        (\<lambda>st. bindS (readS (\<lambda>_. grounding_node env (secret_values (ag_provider g)) st))
          (\<lambda>st. readS (\<lambda>w. artifact_node (ge_py env) (ag_provider g) st (now_ms w))))))" by (rule hyp)
  qed
  moreover have "?h + (evidence_budget i + ?s + 0) \<le> nat (bg_llm_calls (fi_budgets i)) + evidence_budget i"
    using assms by auto
  ultimately show ?thesis by (rule budgeted_mono)
qed

text \<open>
  C15: a run is bounded and stays inside its authority. For every valid frozen input, whatever the
  outside world answers and however the run ends, the requests it sends are at most its model calls plus
  the evidence round (three session requests, the tool budget, and one send and the polls per delegation),
  and each is a call of the pinned provider or a tool call, resource read or delegation that the
  binding observed active for exactly this input permits. The hard ceilings of the contract make
  that at most 19 requests.
\<close>

theorem graph_requests_bounded:
  assumes "FrozenInput_ok input_bundle" and "graph_run env g input_bundle w = (r, w')"
  shows "\<exists>new. w_sent w' = w_sent w @ new
    \<and> length new \<le> nat (bg_llm_calls (fi_budgets input_bundle)) + evidence_budget input_bundle
    \<and> length new \<le> 19
    \<and> (\<forall>rq \<in> set new. graph_permitted env g input_bundle rq)"
proof -
  have b: "AnalysisBudgets_ok (fi_budgets input_bundle)" using assms(1) by (simp add: FrozenInput_ok_def)
  then have llm: "0 \<le> bg_llm_calls (fi_budgets input_bundle)" by (simp add: AnalysisBudgets_ok_def in_range_def)
  have "snd (graph_nodes env g input_bundle w) = w'"
    using assms(2) by (auto simp: graph_run_def split: prod.splits if_splits)
  with budgetedD [OF budgeted_graph_nodes [OF llm], of env g w] obtain new where
    new: "w_sent w' = w_sent w @ new" "length new \<le> nat (bg_llm_calls (fi_budgets input_bundle)) + evidence_budget input_bundle"
    "list_all (graph_permitted env g input_bundle) new"
    by (auto simp: log_ext_def)
  from b have c: "nat (bg_llm_calls (fi_budgets input_bundle)) \<le> 2" "nat (bg_tool_calls (fi_budgets input_bundle)) \<le> 6"
    "nat (bg_outbound_delegations (fi_budgets input_bundle)) \<le> 2" "nat (bg_polls_per_task (fi_budgets input_bundle)) \<le> 3"
    by (auto simp: AnalysisBudgets_ok_def in_range_def hard_defs)
  from c(3,4) have "nat (bg_outbound_delegations (fi_budgets input_bundle)) * (1 + nat (bg_polls_per_task (fi_budgets input_bundle))) \<le> 2 * 4"
    by (intro mult_le_mono) simp_all
  with new c show ?thesis by (auto simp: list_all_iff)
qed

end
