(* ===== verification/Graph_Outage.thy ===== *)
theory Graph_Outage
  imports Graph_Sound
begin

text \<open>
  A run whose dependencies do not answer: the plan still assembles a limited artifact. The identifiers
  it derives from the run identity are the one thing that can keep it from doing so.
\<close>

section \<open>A run without a provider\<close>

lemma canonical_digest_total: "float_free v \<Longrightarrow> \<exists>d. canonical_digest env v = Inr d"
  unfolding canonical_digest_eq using finite_float_free [of v] by (simp only: if_False) blast

lemma hex_chars: "is_lower_hex c \<Longrightarrow> is_alnum c \<and> \<not> cont_byte c"
proof -
  assume "is_lower_hex c"
  then have "is_alnum c" and le: "c \<le> CHR ''f''"
    by (auto simp: is_lower_hex_def is_alnum_def is_digit_def is_lower_def less_eq_char_def)
  have "\<not> cont_byte c"
  proof
    assume "cont_byte c"
    then have "CHR 0x7F < c"
      by (cases c) (auto simp: less_char_def less_eq_char_def of_char_Char split: if_splits)
    with le show False by (simp add: less_char_def less_eq_char_def)
  qed
  with \<open>is_alnum c\<close> show ?thesis by blast
qed

lemma artifact_id_ok:
  assumes "hexdigest_spec env" and "canonical_digest env v = Inr d"
  shows "Identity_ok (''artifact-'' @ take 32 (drop 7 d))"
proof -
  from assms(2) obtain raw where d: "drop 7 d = hexdigest env raw"
    by (auto simp: canonical_digest_eq sha256_digest_def split: if_splits)
  from assms(1) have h: "list_all is_lower_hex (take 32 (drop 7 d))" "length (take 32 (drop 7 d)) = 32"
    unfolding d hexdigest_spec_def by (auto simp: list_all_iff dest: in_set_takeD)
  then have "py_len (take 32 (drop 7 d)) = 32" by (subst py_len_ascii) (auto simp: list_all_iff hex_chars)
  moreover have "list_all is_alnum (take 32 (drop 7 d))" using h(1) by (auto simp: list_all_iff hex_chars)
  ultimately show ?thesis
    by (auto simp: Identity_ok_def list_all_iff is_alnum_def is_lower_def)
qed

lemma zero_digest_ok: "Digest_ok ZERO_DIGEST"
  by (simp add: ZERO_DIGEST_def Digest_ok_def starts_with_iff is_lower_hex_def is_digit_def list_all_iff)

lemma compute_provider_request_digest_field_free:
  "compute_provider_request_digest env (request\<lparr>pq_request_digest := d\<rparr>) = compute_provider_request_digest env request"
  by (simp add: compute_provider_request_digest_def dump_ProviderRequest_def json_fields_def without_key_def)

lemma compute_provider_request_digest_total: "\<exists>d. compute_provider_request_digest env request = Inr d"
proof -
  have "float_free (dump_ProviderRequest request)" by simp
  then have "float_free (JObj (without_key (json_fields (dump_ProviderRequest request)) ''request_digest''))"
    by (cases "dump_ProviderRequest request") (auto simp: json_fields_def without_key_def list_all_iff)
  then show ?thesis unfolding compute_provider_request_digest_def by (rule canonical_digest_total)
qed

lemma fallback_texts_ok:
  "str_len 1 4096 fallback_text" "str_len 0 32768 content_fallback"
  by (simp_all add: str_len_def fallback_text_def content_fallback_def)

lemma FrozenInput_refs:
  assumes "FrozenInput_ok i"
  shows "list_all FactRef_ok (fi_event_refs i @ fi_incident_refs i @ fi_evidence_refs i @ fi_runtime_refs i)"
    and "length (fi_event_refs i @ fi_incident_refs i @ fi_evidence_refs i @ fi_runtime_refs i) \<le> 352"
  using assms by (auto simp: FrozenInput_ok_def items_len_def)

lemma source_refs_ok:
  assumes "FrozenInput_ok i"
  shows "items_len 0 352 (source_refs i) \<and> list_all Identity_ok (source_refs i)"
proof -
  have "length (source_refs i) \<le> 352"
    using length_sorted_set [of "map fr_id (fi_event_refs i @ fi_incident_refs i @ fi_evidence_refs i @ fi_runtime_refs i)"]
      FrozenInput_refs(2) [OF assms]
    by (simp add: source_refs_def)
  moreover have "list_all Identity_ok (source_refs i)"
    using FrozenInput_refs(1) [OF assms] by (auto simp: source_refs_def list_all_iff FactRef_ok_def)
  ultimately show ?thesis by (simp add: items_len_def)
qed

text \<open>A state that reaches grounding without a provider answer: there is nothing to reject.\<close>

definition unanswered :: "frozen_input \<Rightarrow> graph_state \<Rightarrow> bool" where
  "unanswered i st \<longleftrightarrow> gs_input st = i \<and> gs_provider_response st = None \<and> gs_tool_results st = []
     \<and> gs_peer_results st = [] \<and> gs_external_errors st \<noteq> []"

definition outage_limitation :: str where
  "outage_limitation = ''One or more bounded external analysis dependencies were unavailable or rejected.''"

lemma grounding_unanswered:
  assumes "FrozenInput_ok i" and "unanswered i st"
  shows "\<exists>gd. grounding_node env secrets st = Inr (add_trace ''GROUNDING_VALIDATED'' (st\<lparr>gs_grounded := Some gd\<rparr>))
    \<and> gd_rejected gd = 0 \<and> outage_limitation \<in> set (gd_limitations gd) \<and> length (gd_limitations gd) \<le> 3
    \<and> list_all GroundedClaim_ok (gd_observed_claims gd) \<and> length (gd_observed_claims gd) \<le> 1
    \<and> gd_model_result_facts gd = [] \<and> gd_model_explanation_facts gd = [] \<and> gd_inferred_claims gd = []
    \<and> gd_llm_interpretations gd = [] \<and> gd_uncertainties gd = [] \<and> gd_missing_evidence gd = []"
proof -
  have r: "response_list f st = []" for f :: "provider_response \<Rightarrow> 'b list"
    using assms(2) by (simp add: response_list_def unanswered_def)
  have i: "gs_input st = i" "gs_tool_results st = []" "gs_external_errors st \<noteq> []"
    using assms(2) by (auto simp: unanswered_def)
  have "\<exists>observed. fallback_claim i [] = Inr observed \<and> list_all GroundedClaim_ok observed \<and> length observed \<le> 1"
  proof (cases "fi_evidence_refs i")
    case Nil
    then show ?thesis by (simp add: fallback_claim_def)
  next
    case (Cons first rest)
    with FrozenInput_refs(1) [OF assms(1)] have "Identity_ok (fr_id first)" by (simp add: FactRef_ok_def)
    with Cons fallback_texts_ok(1) show ?thesis
      by (simp add: fallback_claim_def construct_def GroundedClaim_ok_def items_len_def fallback_text_def [symmetric])
  qed
  then obtain observed where o: "fallback_claim i [] = Inr observed" "list_all GroundedClaim_ok observed" "length observed \<le> 1"
    by blast
  let ?gd = "\<lparr>gd_observed_claims = observed, gd_model_result_facts = [], gd_model_explanation_facts = [], gd_inferred_claims = [],
     gd_llm_interpretations = [], gd_uncertainties = [], gd_limitations = added_limitations st [] [] 0,
     gd_missing_evidence = [], gd_rejected = 0\<rparr>"
  have "grounding_node env secrets st = Inr (add_trace ''GROUNDING_VALIDATED'' (st\<lparr>gs_grounded := Some ?gd\<rparr>))"
    by (simp add: grounding_node_def Let_def i(1,2) r o(1))
  moreover have "outage_limitation \<in> set (gd_limitations ?gd)" "length (gd_limitations ?gd) \<le> 3"
    using i(3) by (auto simp: added_limitations_def outage_limitation_def)
  ultimately show ?thesis using o(2,3) by (intro exI [of _ ?gd]) simp
qed

lemma finite_dumps [simp]:
  "float_free (dump_GroundedClaim c)" "float_free (dump_Recommendation r)" "float_free (dump_GeneratedContent b)"
  "float_free (dump_ProviderMetadata m)" "float_free (tool_trajectory_record t)" "float_free (peer_trajectory_record p)"
  by (simp_all add: dump_GroundedClaim_def dump_Recommendation_def dump_GeneratedContent_def dump_ProviderMetadata_def
      tool_trajectory_record_def peer_trajectory_record_def)

lemma explanation_dump_finite: "unit_interval (mx_coverage e) \<Longrightarrow> \<not> has_nonfinite (dump_ModelExplanationFact e)"
  by (auto simp: dump_ModelExplanationFact_def unit_interval_def list_ex_iff opt_json_def split: pyfloat.splits option.splits)

lemma list_ex_float_free: "(\<And>x. x \<in> set xs \<Longrightarrow> \<not> has_nonfinite (f x)) \<Longrightarrow> \<not> list_ex has_nonfinite (map f xs)"
  by (auto simp: list_ex_iff)

lemma artifact_dump_finite:
  assumes "list_all (\<lambda>e. unit_interval (mx_coverage e)) (aa_model_explanation_facts x)"
  shows "\<not> has_nonfinite (dump_AnalysisArtifact x)"
proof -
  have "\<not> list_ex has_nonfinite (map dump_ModelExplanationFact (aa_model_explanation_facts x))"
    by (rule list_ex_float_free) (use assms in \<open>auto simp: list_all_iff explanation_dump_finite\<close>)
  moreover have "\<not> list_ex has_nonfinite (map JStr ss)" "\<not> list_ex has_nonfinite (map dump_GroundedClaim cs)"
    "\<not> list_ex has_nonfinite (map dump_Recommendation rs)" "\<not> list_ex has_nonfinite (map dump_GeneratedContent gs)"
    for ss cs rs gs
    by (rule list_ex_float_free; simp)+
  ultimately show ?thesis by (simp add: dump_AnalysisArtifact_def)
qed

lemma artifact_encodings:
  assumes "AnalysisArtifact_ok x"
  shows "\<exists>digest raw. compute_artifact_digest env x = Inr digest
    \<and> go_json_bytes env (dump_AnalysisArtifact (x\<lparr>aa_artifact_digest := digest\<rparr>)) = Inr raw"
proof -
  have "\<not> has_nonfinite (dump_AnalysisArtifact (x\<lparr>aa_artifact_digest := d\<rparr>))" for d
    by (rule artifact_dump_finite) (use assms in \<open>auto simp: AnalysisArtifact_ok_def ModelExplanationFact_ok_def list_all_iff\<close>)
  then show ?thesis by (simp add: compute_artifact_digest_def artifact_payload_def go_json_bytes_eq)
qed

lemma trajectory_digest_ok: "\<exists>d. canonical_digest env (trajectory st) = Inr d"
  by (rule canonical_digest_total) (simp add: trajectory_def list_all_iff)

lemma topology_digest_ok: "\<exists>d. TOPOLOGY_DIGEST env = Inr d"
  unfolding TOPOLOGY_DIGEST_def by (rule canonical_digest_total) (simp add: TOPOLOGY_def)

lemma strs_digest_ok: "\<exists>d. canonical_digest env (JArr (map JStr ss)) = Inr d"
  by (rule canonical_digest_total) simp

lemma outcome_unanswered:
  assumes "gs_provider_response st = None" and "outcome_and_quality st gd = (outcome, quality)"
  shows "outcome \<in> {''limited'', ''insufficient_evidence''} \<and> quality \<in> {''limited'', ''low''}"
  using assms by (auto simp: outcome_and_quality_def Let_def split: if_splits)

lemma generated_unanswered:
  assumes "gs_provider_response st = None"
  shows "\<exists>gen. generated_of env secrets st = Inr gen \<and> length gen \<le> 1 \<and> list_all GeneratedContent_ok gen"
proof -
  have "GeneratedContent_ok \<lparr>gn_media_type = ''text/markdown'', gn_body = content_fallback\<rparr>"
    using fallback_texts_ok(2) by (simp add: GeneratedContent_ok_def)
  then show ?thesis
    using assms by (cases "fi_skill (gs_input st) = ''generate_incident_content''")
      (simp_all add: generated_of_def response_list_def content_of_def construct_def content_fallback_def [symmetric])
qed

definition size_error :: exn where
  "size_error = AnalysisError ''RESOURCE_EXHAUSTED'' ''analysis artifact exceeded the exact task bound'' 422"

lemma artifact_unanswered:
  assumes i: "FrozenInput_ok i" and h: "hexdigest_spec env" and pc: "ProviderConfig_ok (pa_config a)" and now: "1 \<le> now"
    and st: "gs_input st = i" "gs_provider_response st = None" "gs_grounded st = Some gd"
    and gd: "list_all GroundedClaim_ok (gd_observed_claims gd)" "length (gd_observed_claims gd) \<le> 1"
      "length (gd_limitations gd) \<le> 3" "gd_limitations gd \<noteq> []"
      "gd_model_result_facts gd = []" "gd_model_explanation_facts gd = []" "gd_inferred_claims gd = []"
      "gd_llm_interpretations gd = []" "gd_uncertainties gd = []" "gd_missing_evidence gd = []"
  shows "artifact_node env a st now = Inl size_error \<or> (\<exists>st'. artifact_node env a st now = Inr st')"
proof -
  obtain outcome quality where oq: "outcome_and_quality st gd = (outcome, quality)" by fastforce
  from outcome_unanswered [OF st(2) oq] have o: "outcome \<in> {''limited'', ''insufficient_evidence''}" "quality \<in> {''limited'', ''low''}"
    by auto
  have r: "response_list f st = []" for f :: "provider_response \<Rightarrow> 'b list"
    using st(2) by (simp add: response_list_def)
  obtain gen where gen: "generated_of env (secret_values a) st = Inr gen" "length gen \<le> 1" "list_all GeneratedContent_ok gen"
    using generated_unanswered [OF st(2)] by blast
  let ?id = "JObj [(''task'', JStr (fi_task_id i)), (''input'', JStr (fi_input_digest i))]"
  obtain d1 where d1: "canonical_digest env ?id = Inr d1" by (simp add: canonical_digest_eq)
  obtain d2 where d2: "canonical_digest env (trajectory st) = Inr d2" using trajectory_digest_ok by blast
  obtain d3 where d3: "TOPOLOGY_DIGEST env = Inr d3" using topology_digest_ok by blast
  obtain d4 where d4: "canonical_digest env (JArr (map JStr (gs_trace_codes st @ [''ARTIFACT_ASSEMBLED'']))) = Inr d4"
    using strs_digest_ok by blast
  let ?md = "\<lparr>pm_provider_id = prc_provider_id (pa_config a), pm_model_id = prc_model_id (pa_config a),
     pm_provider_digest = prc_profile_digest (pa_config a)\<rparr>"
  have md: "ProviderMetadata_ok ?md" using pc by (simp add: ProviderConfig_ok_def ProviderMetadata_ok_def)
  let ?u = "\<lparr>aa_schema_version = ARTIFACT_SCHEMA, aa_artifact_id = ''artifact-'' @ take 32 (drop 7 d1),
         aa_artifact_digest = ZERO_DIGEST, aa_task_id = fi_task_id i, aa_run_id = fi_run_id i,
         aa_plugin_id = PLUGIN_ID, aa_plugin_revision = fi_plugin_revision i,
         aa_config_digest = fi_config_digest i, aa_binding_generation = fi_binding_generation i,
         aa_input_digest = fi_input_digest i, aa_analysis_outcome = outcome, aa_quality = quality,
         aa_source_fact_refs = source_refs i, aa_observed_claims = gd_observed_claims gd,
         aa_model_result_facts = [], aa_model_explanation_facts = [], aa_inferred_claims = [],
         aa_llm_interpretations = [], aa_uncertainties = [],
         aa_limitations = or_default (gd_limitations gd) ''No additional limitation was reported.'',
         aa_missing_evidence = or_default [] ''No additional evidence gap was reported.'',
         aa_recommendations = [], aa_generated_content = gen, aa_provider_metadata = ?md,
         aa_tool_trajectory_digest = d2, aa_graph_version = GRAPH_VERSION,
         aa_topology_digest = d3, aa_trace_id = fi_trace_id i, aa_trace_digest = d4,
         aa_produced_at_unix_ms = now, aa_expires_at_unix_ms = fi_expires_at_unix_ms i,
         aa_media_type = ''application/json'', aa_non_executable = True, aa_deployment_eligible = False\<rparr>"
  have fields: "Identity_ok (fi_task_id i)" "Identity_ok (fi_run_id i)" "Revision_ok (fi_plugin_revision i)"
    "Digest_ok (fi_config_digest i)" "1 \<le> fi_binding_generation i" "Digest_ok (fi_input_digest i)"
    "Identity_ok (fi_trace_id i)" "1 \<le> fi_expires_at_unix_ms i"
    using i by (simp_all add: FrozenInput_ok_def)
  have "AnalysisArtifact_ok ?u"
    using artifact_id_ok [OF h d1] zero_digest_ok fields o source_refs_ok [OF i] gd gen md now
      Digest_ok_canonical [OF h d2] Digest_ok_canonical [OF h d3 [unfolded TOPOLOGY_DIGEST_def]] Digest_ok_canonical [OF h d4]
    by (auto simp: AnalysisArtifact_ok_def ARTIFACT_SCHEMA_def PLUGIN_ID_def GRAPH_VERSION_def items_len_def or_default_def)
  moreover from artifact_encodings [OF this] obtain d5 raw where
    "compute_artifact_digest env ?u = Inr d5" "go_json_bytes env (dump_AnalysisArtifact (?u\<lparr>aa_artifact_digest := d5\<rparr>)) = Inr raw"
    by blast
  ultimately show ?thesis
    using d1 gen(1) d2 d3 d4 md
    unfolding artifact_node_def st(3) option.case oq prod.case Let_def st(1) r gd(5-10) metadata_of_def
    by (simp add: construct_def size_error_def del: map_append)
qed

lemma fact_of_ok:
  assumes "FactRef_ok r" and "kind \<in> {''event'', ''incident'', ''evidence'', ''runtime''}"
  shows "\<exists>f. fact_of kind r = Inr f \<and> ProviderFact_ok f"
  using assms by (auto simp: fact_of_def construct_def ProviderFact_ok_def FactRef_ok_def)

lemma facts_ok:
  assumes "list_all FactRef_ok rs" and "kind \<in> {''event'', ''incident'', ''evidence'', ''runtime''}"
  shows "\<exists>fs. mapM (fact_of kind) rs = Inr fs \<and> length fs = length rs \<and> list_all ProviderFact_ok fs"
  using assms(1)
proof (induction rs)
  case (Cons r rs)
  then obtain fs where "mapM (fact_of kind) rs = Inr fs" "length fs = length rs" "list_all ProviderFact_ok fs" by auto
  moreover obtain f where "fact_of kind r = Inr f" "ProviderFact_ok f" using Cons.prems fact_of_ok [OF _ assms(2)] by auto
  ultimately show ?case by simp
qed simp

lemma Identity_ok_provider:
  assumes "Identity_ok run_id" and "py_len run_id \<le> 108"
  shows "Identity_ok (''provider-'' @ run_id @ ''-'' @ ''hypothesis'')"
proof -
  have "list_all (\<lambda>d. is_alnum d \<or> d \<in> set ''._:-'') run_id"
    using assms(1) by (auto simp: Identity_ok_def split: list.splits)
  then show ?thesis using assms(2) by (auto simp: Identity_ok_def is_alnum_def is_lower_def)
qed

lemma hypothesis_request_ok:
  assumes i: "FrozenInput_ok i" and run: "py_len (fi_run_id i) \<le> 108"
    and st: "gs_input st = i" "gs_tool_results st = []" "gs_peer_results st = []"
  shows "\<exists>request. provider_request_of env secrets st ''hypothesis'' = Inr request
    \<and> compute_provider_request_digest env request = Inr (pq_request_digest request)
    \<and> pq_request_id request = provider_request_id i ''hypothesis'' \<and> pq_input_digest request = fi_input_digest i"
proof -
  have refs: "list_all FactRef_ok (fi_event_refs i)" "list_all FactRef_ok (fi_incident_refs i)"
    "list_all FactRef_ok (fi_evidence_refs i)" "list_all FactRef_ok (fi_runtime_refs i)"
    using FrozenInput_refs(1) [OF i] by simp_all
  obtain f1 where f1: "mapM (fact_of ''event'') (fi_event_refs i) = Inr f1" "length f1 = length (fi_event_refs i)" "list_all ProviderFact_ok f1"
    using facts_ok [OF refs(1), of "''event''"] by auto
  obtain f2 where f2: "mapM (fact_of ''incident'') (fi_incident_refs i) = Inr f2" "length f2 = length (fi_incident_refs i)" "list_all ProviderFact_ok f2"
    using facts_ok [OF refs(2), of "''incident''"] by auto
  obtain f3 where f3: "mapM (fact_of ''evidence'') (fi_evidence_refs i) = Inr f3" "length f3 = length (fi_evidence_refs i)" "list_all ProviderFact_ok f3"
    using facts_ok [OF refs(3), of "''evidence''"] by auto
  obtain f4 where f4: "mapM (fact_of ''runtime'') (fi_runtime_refs i) = Inr f4" "length f4 = length (fi_runtime_refs i)" "list_all ProviderFact_ok f4"
    using facts_ok [OF refs(4), of "''runtime''"] by auto
  let ?rb = "remaining_budget_of st ''hypothesis''"
  have rb: "RemainingBudget_ok ?rb"
    using i st by (auto simp: RemainingBudget_ok_def remaining_budget_of_def Let_def FrozenInput_ok_def AnalysisBudgets_ok_def
        in_range_def hard_defs)
  let ?rq = "\<lparr>pq_schema_version = ''masi-analysis-provider-request/v1'',
         pq_request_id = provider_request_id i ''hypothesis'', pq_phase = ''hypothesis'',
         pq_task_id = fi_task_id i, pq_run_id = fi_run_id i, pq_skill = fi_skill i,
         pq_input_digest = fi_input_digest i, pq_locale = fi_locale i,
         pq_system_policy_id = ''analysis-system-policy/v1'',
         pq_facts = f1 @ f2 @ f3 @ f4, pq_tool_results = [],
         pq_peer_results = [], pq_untrusted_content_request = fi_content_request i,
         pq_remaining_budget = ?rb, pq_trace_id = fi_trace_id i, pq_request_digest = ZERO_DIGEST\<rparr>"

  have len: "length (f1 @ f2 @ f3 @ f4) \<le> 352" using FrozenInput_refs(2) [OF i] f1(2) f2(2) f3(2) f4(2) by simp
  have fields: "Identity_ok (fi_task_id i)" "Identity_ok (fi_run_id i)" "Digest_ok (fi_input_digest i)"
    "str_len 1 32 (fi_locale i)" "str_len 0 2048 (fi_content_request i)" "Identity_ok (fi_trace_id i)"
    using i by (simp_all add: FrozenInput_ok_def)
  have "ProviderRequest_ok ?rq"
    unfolding ProviderRequest_ok_def
    using fields rb zero_digest_ok len f1(3) f2(3) f3(3) f4(3) Identity_ok_provider [OF fields(2) run]
    by (simp add: items_len_def provider_request_id_def)
  then have rq: "construct ProviderRequest_ok ?rq = Inr ?rq" by simp
  obtain d where d: "compute_provider_request_digest env ?rq = Inr d" using compute_provider_request_digest_total by blast
  show ?thesis
  proof (intro exI conjI)
    show "provider_request_of env secrets st ''hypothesis'' = Inr (?rq\<lparr>pq_request_digest := d\<rparr>)"
      unfolding provider_request_of_def Let_def st by (simp add: f1(1) f2(1) f3(1) f4(1) rb construct_def rq [unfolded construct_def] d)
    show "compute_provider_request_digest env (?rq\<lparr>pq_request_digest := d\<rparr>) = Inr (pq_request_digest (?rq\<lparr>pq_request_digest := d\<rparr>))"
      using d by (simp only: compute_provider_request_digest_field_free) simp
  qed simp_all
qed

text \<open>The fields of the world that no call changes.\<close>

definition same_oracles :: "world \<Rightarrow> world \<Rightarrow> bool" where
  "same_oracles w w' \<longleftrightarrow> w_reply w' = w_reply w \<and> w_now_ms w' = w_now_ms w \<and> w_graph_timeout w' = w_graph_timeout w"

lemma analyze_outage:
  assumes "\<And>sent. w_reply w sent = NetFailure"
    and d: "compute_provider_request_digest env request = Inr (pq_request_digest request)"
  shows "\<exists>e w'. analyze env dec a request t n w = (Inl e, w') \<and> is_analysis_error e \<and> same_oracles w w'"
proof -
  have "float_free (dump_ProviderRequest request)" by simp
  then obtain body where body: "go_json_bytes env (dump_ProviderRequest request) = Inr body" by (simp add: go_json_bytes_eq)
  obtain r w1 where call: "http_call (pa_client a) ''POST'' ''/v1/analyze'' (provider_headers a request) (Some body) t n False w = (r, w1)"
    by fastforce
  from http_call_cases [OF call] assms(1) have "\<exists>e. r = Inl e \<and> is_analysis_error e" and "same_oracles w w1"
    by (auto simp: receive_def same_oracles_def)
  then obtain e where e: "r = Inl e" "is_analysis_error e" by blast
  have "analyze_try env dec a request t n w = (Inl e, w1)"
    by (simp add: analyze_try_def bindS_def readS_def body call e)
  with d e(2) \<open>same_oracles w w1\<close> show ?thesis
    by (auto simp: analyze_def bindS_def readS_def tryS_def set_provider_status_def modifyS_def raiseS_def same_oracles_def)
qed

lemma hypothesis_outage:
  assumes i: "FrozenInput_ok i" and run: "py_len (fi_run_id i) \<le> 108" and "\<And>sent. w_reply w sent = NetFailure"
    and st: "gs_input st = i" "gs_tool_results st = []" "gs_peer_results st = []" "gs_provider_response st = None"
  shows "\<exists>st' w'. hypothesis_node env g st w = (Inr st', w') \<and> unanswered i st' \<and> same_oracles w w'"
proof (cases "bg_llm_calls (fi_budgets i) = 0")
  case True
  with st show ?thesis by (simp add: hypothesis_node_def retS_def unanswered_def node_simps same_oracles_def)
next
  case False
  let ?x = "AnalysisError ''RESULT_BUDGET_EXHAUSTED'' ''result budget exhausted before provider call'' 408"
  have "\<exists>e w'. provider_phase env g st ''hypothesis'' ?x w = (Inl e, w') \<and> is_analysis_error e \<and> same_oracles w w'"
  proof (cases "remaining_result_ms st w \<le> 0")
    case True
    then show ?thesis by (simp add: provider_phase_def bindS_def readS_def raiseS_def same_oracles_def)
  next
    case False
    obtain request where rq: "provider_request_of (ge_py env) (secret_values (ag_provider g)) st ''hypothesis'' = Inr request"
      and d: "compute_provider_request_digest (ge_py env) request = Inr (pq_request_digest request)"
      using hypothesis_request_ok [OF i run st(1-3)] by blast
    from False rq analyze_outage [OF assms(3) d] show ?thesis
      by (simp add: provider_phase_def bindS_def readS_def)
  qed
  then obtain e w' where "provider_phase env g st ''hypothesis'' ?x w = (Inl e, w')" and e: "is_analysis_error e" and w': "same_oracles w w'"
    by blast
  moreover obtain code where "exn_code e = Some code" using e by (auto simp: exn_code_analysis)
  ultimately show ?thesis
    using False st by (simp add: hypothesis_node_def tryS_def bindS_def recover_def retS_def unanswered_def node_simps)
qed

text \<open>
  C16: an outage of the network does not keep a task from ending. When no request is ever answered and the
  run is not cancelled, a valid input with a run identity of at most 108 characters always gets an
  artifact (or the explicit size error when the source references alone exceed the byte budget); its
  outcome is \<open>limited\<close> or \<open>insufficient_evidence\<close> and it says that dependencies were unavailable.
\<close>

theorem outage_still_answers:
  assumes "FrozenInput_ok i" and "py_len (fi_run_id i) \<le> 108"
    and "ProviderConfig_ok (pa_config (ag_provider g))" and "hexdigest_spec (ge_py env)"
    and "\<forall>sent. w_reply w sent = NetFailure" and "\<forall>sent. 1 \<le> w_now_ms w sent" and "\<not> w_graph_timeout w"
  shows "fst (graph_run env g i w) = Inl size_error
    \<or> (\<exists>x codes. fst (graph_run env g i w) = Inr (x, codes)
         \<and> aa_analysis_outcome x \<in> {''limited'', ''insufficient_evidence''} \<and> outage_limitation \<in> set (aa_limitations x))"
proof -
  obtain d1 d2 where "canonical_digest (ge_py env) (JArr (map dump_FactRef (fi_runtime_refs i))) = Inr d1"
    "canonical_digest (ge_py env) (JArr (map dump_FactRef (fi_evidence_refs i))) = Inr d2"
    using canonical_digest_total [of "JArr (map dump_FactRef _)"] by (metis float_free.simps(2) float_free_refs)
  then obtain st0 where c: "context_node (ge_py env) (initial_state i) = Inr st0" and st0: "gs_input st0 = i"
    "gs_tool_results st0 = []" "gs_peer_results st0 = []" "gs_provider_response st0 = None"
    by (simp add: context_node_def Let_def node_simps)
  obtain st1 w1 where h: "hypothesis_node env g st0 w = (Inr st1, w1)" and u: "unanswered i st1" and w1: "same_oracles w w1"
    using hypothesis_outage [OF assms(1,2) _ st0, of w env g] assms(5) by blast
  have b: "evidence_branch env g st1 w1 = (Inr st1, w1)"
    using u by (simp add: evidence_branch_def evidence_route_def unanswered_def retS_def)
  obtain gd where gr: "grounding_node env (secret_values (ag_provider g)) st1
      = Inr (add_trace ''GROUNDING_VALIDATED'' (st1\<lparr>gs_grounded := Some gd\<rparr>))"
    and gd: "outage_limitation \<in> set (gd_limitations gd)" "length (gd_limitations gd) \<le> 3"
      "list_all GroundedClaim_ok (gd_observed_claims gd)" "length (gd_observed_claims gd) \<le> 1"
      "gd_model_result_facts gd = []" "gd_model_explanation_facts gd = []" "gd_inferred_claims gd = []"
      "gd_llm_interpretations gd = []" "gd_uncertainties gd = []" "gd_missing_evidence gd = []"
    using grounding_unanswered [OF assms(1) u] by blast
  let ?st = "add_trace ''GROUNDING_VALIDATED'' (st1\<lparr>gs_grounded := Some gd\<rparr>)"
  have st: "gs_input ?st = i" "gs_provider_response ?st = None" "gs_grounded ?st = Some gd"
    using u by (simp_all add: unanswered_def add_trace_def)
  have now: "1 \<le> now_ms w1" using w1 assms(6) by (simp add: same_oracles_def now_ms_def)
  have nodes: "graph_nodes env g i w = (artifact_node (ge_py env) (ag_provider g) ?st (now_ms w1), w1)"
    by (simp add: graph_nodes_def bindS_def readS_def c h b gr)
  have t: "\<not> w_graph_timeout w1" using w1 assms(7) by (simp add: same_oracles_def)
  from gd(1) have "gd_limitations gd \<noteq> []" by auto
  from artifact_unanswered [OF assms(1,4,3) now st gd(3,4,2) this gd(5-10)] show ?thesis
  proof
    assume "artifact_node (ge_py env) (ag_provider g) ?st (now_ms w1) = Inl size_error"
    with nodes t show ?thesis by (simp add: graph_run_def)
  next
    assume "\<exists>st'. artifact_node (ge_py env) (ag_provider g) ?st (now_ms w1) = Inr st'"
    then obtain st' where st': "artifact_node (ge_py env) (ag_provider g) ?st (now_ms w1) = Inr st'" by blast
    from artifact_node_ok [OF this] st(3) obtain x where x: "gs_artifact st' = Some x" "artifact_of_state (ge_py env) (ag_provider g) ?st gd x"
      by auto
    from x(2) have "(aa_analysis_outcome x, aa_quality x) = outcome_and_quality ?st gd"
      "aa_limitations x = or_default (gd_limitations gd) ''No additional limitation was reported.''"
      unfolding artifact_of_state_def by blast+
    with outcome_unanswered [OF st(2)] gd(1) have "aa_analysis_outcome x \<in> {''limited'', ''insufficient_evidence''}"
      "outage_limitation \<in> set (aa_limitations x)"
      by (metis, auto simp: or_default_def)
    with nodes t st' x(1) show ?thesis by (simp add: graph_run_def)
  qed
qed

text \<open>
  C17: a run identity of more than 108 characters, which the input contract admits up to 128, makes every
  run that calls the provider fail: the request identity derived from it does not fit its own type, and the
  validation error is not one the plan recovers from.
\<close>

theorem long_run_id_fails:
  assumes "FrozenInput_ok i" and "108 < py_len (fi_run_id i)" and "bg_llm_calls (fi_budgets i) \<noteq> 0"
    and "w_elapsed_ms w (w_sent w) < bg_result_budget_ms (fi_budgets i)" and "\<not> w_graph_timeout w"
  shows "graph_run env g i w = (Inl ValidationError, w)"
proof -
  obtain d1 d2 where "canonical_digest (ge_py env) (JArr (map dump_FactRef (fi_runtime_refs i))) = Inr d1"
    "canonical_digest (ge_py env) (JArr (map dump_FactRef (fi_evidence_refs i))) = Inr d2"
    using canonical_digest_total [of "JArr (map dump_FactRef _)"] by (metis float_free.simps(2) float_free_refs)
  then obtain st0 where c: "context_node (ge_py env) (initial_state i) = Inr st0" and st0: "gs_input st0 = i"
    "gs_tool_results st0 = []" "gs_peer_results st0 = []"
    by (simp add: context_node_def Let_def node_simps)
  have "\<not> Identity_ok (provider_request_id i ''hypothesis'')"
    using assms(2) by (simp add: Identity_ok_def provider_request_id_def)
  then have "provider_request_of (ge_py env) (secret_values (ag_provider g)) st0 ''hypothesis'' = Inl ValidationError"
    using facts_ok [of "fi_event_refs i" "''event''"] facts_ok [of "fi_incident_refs i" "''incident''"]
      facts_ok [of "fi_evidence_refs i" "''evidence''"] facts_ok [of "fi_runtime_refs i" "''runtime''"]
      FrozenInput_refs(1) [OF assms(1)]
    by (auto simp: provider_request_of_def Let_def st0 construct_def ProviderRequest_ok_def)
  then have p: "provider_phase env g st0 ''hypothesis'' e w = (Inl ValidationError, w)" for e
    using assms(4) st0 by (simp add: provider_phase_def bindS_def readS_def remaining_result_ms_def)
  have "hypothesis_node env g st0 w = (Inl ValidationError, w)"
    using assms(3) st0 by (simp add: hypothesis_node_def tryS_def bindS_def p recover_def raiseS_def)
  with assms(5) show ?thesis
    by (simp add: graph_run_def graph_nodes_def bindS_def readS_def c)
qed

end
