(* ===== verification/Graph_Sample.thy ===== *)
theory Graph_Sample
  imports Graph_Outage
begin

text \<open>
  Concrete runs of the plan: one in which the provider answers without asking for evidence, and one in
  which nothing answers. They instantiate the theorems on runs.
\<close>

section \<open>An answered run\<close>

definition sample_answer :: provider_response where
  "sample_answer = sample_response\<lparr>ps_tool_requests := [], ps_delegations := []\<rparr>"

definition sample_graph_env :: graph_env where
  "sample_graph_env = \<lparr>ge_mcp = sample_mcp_env, ge_provider_dec = (\<lambda>_. Some sample_answer),
     ge_peer_dec = sample_peer_dec, ge_explanation = (\<lambda>_. None)\<rparr>"

definition sample_graph :: analysis_graph where
  "sample_graph = \<lparr>ag_binding_state = sample_material sample_binding, ag_provider = sample_adapter, ag_mcp = sample_mcp_client,
     ag_peers = sample_peers\<rparr>"

lemma sample_graph_simps [simp]:
  "ge_py sample_graph_env = zero_env" "ag_provider sample_graph = sample_adapter"
  "ge_provider_dec sample_graph_env = (\<lambda>_. Some sample_answer)"
  "secret_values sample_adapter = [''secret-value'']"
  by (simp_all add: sample_graph_env_def sample_mcp_env_def sample_graph_def secret_values_def sample_adapter_def)

lemma zero_env_hexdigest: "hexdigest_spec zero_env"
  by (simp add: hexdigest_spec_def zero_env_def is_lower_hex_def is_digit_def list_all_iff)

abbreviation sample_answered_world :: world where
  "sample_answered_world \<equiv> sample_world (\<lambda>_. json_reply ''application/json'')"

lemma sample_guarded:
  "require_safe_output zero_env ''port scan seen'' [''secret-value''] = Inr ''port scan seen''"
  "require_safe_output zero_env ''score is high'' [''secret-value''] = Inr ''score is high''"
  "require_safe_output zero_env ''likely a scan'' [''secret-value''] = Inr ''likely a scan''"
  "require_safe_output zero_env ''review the host'' [''secret-value''] = Inr ''review the host''"
  by code_simp+

lemma sample_answer_digest: "compute_provider_response_digest zero_env sample_answer = Inr (dig CHR ''0'')"
proof -
  have "\<not> has_nonfinite (JObj (without_key (json_fields (dump_ProviderResponse sample_answer)) ''response_digest''))"
    by code_simp
  then show ?thesis by (simp add: compute_provider_response_digest_def zero_digests)
qed

lemma sample_analyze:
  assumes "compute_provider_request_digest zero_env request = Inr (pq_request_digest request)"
    and "pq_request_id request = ''provider-run-1-hypothesis''" and "pq_input_digest request = dig CHR ''0''"
    and "1 \<le> t" and "2 \<le> n"
  shows "\<exists>w'. analyze zero_env (\<lambda>_. Some sample_answer) sample_adapter request t n sample_answered_world = (Inr sample_answer, w')
    \<and> now_ms w' = 1000 \<and> \<not> w_graph_timeout w' \<and> length (w_sent w') = 1"
proof -
  have body: "\<exists>body. go_json_bytes zero_env (dump_ProviderRequest request) = Inr body"
    using go_json_bytes_length [of "dump_ProviderRequest request" zero_env] by auto
  have url: "pinned_url sample_client ''/v1/analyze'' = Inr ''https://10.0.0.2:443/v1/analyze''" by code_simp
  have media: "media_type [(''content-type'', ''application/json'')] = ''application/json''" by code_simp
  have ids: "ps_request_id sample_answer = ''provider-run-1-hypothesis''" "ps_input_digest sample_answer = dig CHR ''0''"
    "ps_response_digest sample_answer = dig CHR ''0''"
    by (simp_all add: sample_answer_def sample_response_def)
  have "accept_response zero_env (\<lambda>_. Some sample_answer) request
     \<lparr>br_status_code = 200, br_headers = [(''content-type'', ''application/json'')], br_body = ''{}''\<rparr> = Inr sample_answer"
    by (simp add: accept_response_def media ids assms(2,3) sample_answer_digest)
  moreover have "w_reply sample_answered_world = (\<lambda>_. json_reply ''application/json'')" "w_sent sample_answered_world = []"
    "\<not> w_graph_timeout sample_answered_world" "w_now_ms sample_answered_world = (\<lambda>_. 1000)"
    by (simp_all add: sample_world_def)
  ultimately show ?thesis
    using body assms(1,4,5) url
    by (auto simp: analyze_def analyze_try_def bindS_def readS_def tryS_def http_call_sends sample_adapter_def json_reply_def
        receive_def set_provider_status_def modifyS_def retS_def Let_def now_ms_def)
qed

definition sample_grounded :: grounded where
  "sample_grounded = \<lparr>
     gd_observed_claims = [\<lparr>gc_claim = ''port scan seen'', gc_evidence_refs = [''e-0'', ''e-1'']\<rparr>],
     gd_model_result_facts = [\<lparr>gc_claim = ''score is high'', gc_evidence_refs = [''e-1'']\<rparr>],
     gd_model_explanation_facts = [], gd_inferred_claims = [''likely a scan''], gd_llm_interpretations = [''likely a scan''],
     gd_uncertainties = [], gd_limitations = [], gd_missing_evidence = [], gd_rejected = 0\<rparr>"

lemma sample_claims:
  "claims zero_env [''secret-value''] (map fr_id (fi_evidence_refs sample_input)) (ps_observed_claims sample_answer)
     = Inr (gd_observed_claims sample_grounded, 0)"
  "claims zero_env [''secret-value''] (fi_model_result_evidence_refs sample_input) (ps_model_result_facts sample_answer)
     = Inr (gd_model_result_facts sample_grounded, 0)"
proof -
  have c: "GroundedClaim_ok \<lparr>gc_claim = ''port scan seen'', gc_evidence_refs = [''e-0'', ''e-1'']\<rparr>"
    "GroundedClaim_ok \<lparr>gc_claim = ''score is high'', gc_evidence_refs = [''e-1'']\<rparr>" by code_simp+
  have s: "sorted_set [''e-1'', ''e-0'', ''e-1''] = [''e-0'', ''e-1'']" "sorted_set [''e-1''] = [''e-1'']" by code_simp+
  show "claims zero_env [''secret-value''] (map fr_id (fi_evidence_refs sample_input)) (ps_observed_claims sample_answer)
     = Inr (gd_observed_claims sample_grounded, 0)"
    by (simp add: sample_input_def sample_answer_def sample_response_def sample_guarded s construct_def c sample_grounded_def)
  show "claims zero_env [''secret-value''] (fi_model_result_evidence_refs sample_input) (ps_model_result_facts sample_answer)
     = Inr (gd_model_result_facts sample_grounded, 0)"
    by (simp add: sample_input_def sample_answer_def sample_response_def sample_guarded s construct_def c sample_grounded_def)
qed

definition sample_answered_state :: "json option \<Rightarrow> graph_state" where
  "sample_answered_state c = \<lparr>gs_input = sample_input, gs_context = c, gs_provider_response = Some sample_answer,
     gs_tool_results = [], gs_peer_results = [], gs_external_errors = [],
     gs_trace_codes = [''GRAPH_STARTED'', ''DETERMINISTIC_CONTEXT_BUILT'', ''HYPOTHESIS_COMPLETED''],
     gs_grounded = None, gs_artifact = None\<rparr>"

lemma sample_grounding:
  "grounding_node sample_graph_env [''secret-value''] (sample_answered_state c)
     = Inr (add_trace ''GROUNDING_VALIDATED'' (sample_answered_state c\<lparr>gs_grounded := Some sample_grounded\<rparr>))"
proof -
  have r: "response_list f (sample_answered_state c) = f sample_answer" for f :: "provider_response \<Rightarrow> 'b list"
    by (simp add: response_list_def sample_answered_state_def)
  have st: "gs_input (sample_answered_state c) = sample_input" "gs_tool_results (sample_answered_state c) = []"
    "gs_external_errors (sample_answered_state c) = []"
    by (simp_all add: sample_answered_state_def)
  have l: "ps_model_explanation_facts sample_answer = []" "ps_inferred_claims sample_answer = [''likely a scan'']"
    "ps_uncertainties sample_answer = []" "ps_limitations sample_answer = []" "ps_missing_evidence sample_answer = []"
    by (simp_all add: sample_answer_def sample_response_def)
  have f: "fallback_claim sample_input (gd_observed_claims sample_grounded) = Inr (gd_observed_claims sample_grounded)"
    by (simp add: fallback_claim_def sample_input_def sample_grounded_def)
  have a: "added_limitations (sample_answered_state c) (gd_model_result_facts sample_grounded) [] 0 = []"
    by (simp add: added_limitations_def st sample_grounded_def sample_input_def)
  have g: "\<lparr>gd_observed_claims = gd_observed_claims sample_grounded, gd_model_result_facts = gd_model_result_facts sample_grounded,
     gd_model_explanation_facts = [], gd_inferred_claims = [''likely a scan''], gd_llm_interpretations = [''likely a scan''],
     gd_uncertainties = [], gd_limitations = [], gd_missing_evidence = [], gd_rejected = 0\<rparr> = sample_grounded"
    by (simp add: sample_grounded_def)
  show ?thesis
    unfolding grounding_node_def Let_def r st sample_graph_simps sample_claims l
    by (simp add: sample_claims l sample_guarded f a g)
qed

definition sample_run_artifact :: analysis_artifact where
  "sample_run_artifact = \<lparr>aa_schema_version = ''masi-analysis-artifact/v1'',
     aa_artifact_id = ''artifact-'' @ replicate 32 CHR ''0'', aa_artifact_digest = dig CHR ''0'', aa_task_id = ''task-1'', aa_run_id = ''run-1'',
     aa_plugin_id = ''masi.analysis.langgraph'', aa_plugin_revision = replicate 40 CHR ''a'',
     aa_config_digest = dig CHR ''1'', aa_binding_generation = 3, aa_input_digest = dig CHR ''0'',
     aa_analysis_outcome = ''succeeded'', aa_quality = ''valid'', aa_source_fact_refs = [''e-0'', ''e-1'', ''ev-1''],
     aa_observed_claims = gd_observed_claims sample_grounded, aa_model_result_facts = gd_model_result_facts sample_grounded,
     aa_model_explanation_facts = [], aa_inferred_claims = [''likely a scan''], aa_llm_interpretations = [''likely a scan''],
     aa_uncertainties = [], aa_limitations = [''No additional limitation was reported.''],
     aa_missing_evidence = [''No additional evidence gap was reported.''],
     aa_recommendations = [\<lparr>rc_text = ''review the host'', rc_risk = ''human-review-required'',
       rc_preconditions = [''Re-read current Go-owned facts before any separate proposal.''],
       rc_expires_at_unix_ms = 20000, rc_evidence_refs = [''e-0'', ''e-1'']\<rparr>],
     aa_generated_content = [],
     aa_provider_metadata = \<lparr>pm_provider_id = ''provider-1'', pm_model_id = ''model-1'', pm_provider_digest = dig CHR ''6''\<rparr>,
     aa_tool_trajectory_digest = dig CHR ''0'', aa_graph_version = ''masi-analysis-graph/v1'',
     aa_topology_digest = dig CHR ''0'', aa_trace_id = ''trace-1'', aa_trace_digest = dig CHR ''0'',
     aa_produced_at_unix_ms = 1000, aa_expires_at_unix_ms = 20000,
     aa_media_type = ''application/json'', aa_non_executable = True, aa_deployment_eligible = False\<rparr>"

lemma sample_run_artifact_ok: "AnalysisArtifact_ok sample_run_artifact"
  by code_simp

lemma sample_run_artifact_size:
  "\<exists>raw. go_json_bytes zero_env (dump_AnalysisArtifact sample_run_artifact) = Inr raw \<and> int (length raw) \<le> 65536"
proof -
  have "json_weight (dump_AnalysisArtifact sample_run_artifact) \<le> 65536" by code_simp
  moreover have "float_free (dump_AnalysisArtifact sample_run_artifact)" by code_simp
  ultimately show ?thesis using go_json_bytes_length [of "dump_AnalysisArtifact sample_run_artifact" zero_env] by force
qed

lemma sample_artifact_node:
  "artifact_node zero_env sample_adapter
     (add_trace ''GROUNDING_VALIDATED'' (sample_answered_state c\<lparr>gs_grounded := Some sample_grounded\<rparr>)) 1000
   = Inr (add_trace ''GROUNDING_VALIDATED'' (sample_answered_state c\<lparr>gs_grounded := Some sample_grounded\<rparr>)
       \<lparr>gs_artifact := Some sample_run_artifact,
        gs_trace_codes := [''GRAPH_STARTED'', ''DETERMINISTIC_CONTEXT_BUILT'', ''HYPOTHESIS_COMPLETED'',
          ''GROUNDING_VALIDATED'', ''ARTIFACT_ASSEMBLED'']\<rparr>)"
proof -
  let ?st = "add_trace ''GROUNDING_VALIDATED'' (sample_answered_state c\<lparr>gs_grounded := Some sample_grounded\<rparr>)"
  have st: "gs_grounded ?st = Some sample_grounded" "gs_input ?st = sample_input"
    "response_list f ?st = f sample_answer"
    "gs_trace_codes ?st @ [''ARTIFACT_ASSEMBLED''] = [''GRAPH_STARTED'', ''DETERMINISTIC_CONTEXT_BUILT'', ''HYPOTHESIS_COMPLETED'',
          ''GROUNDING_VALIDATED'', ''ARTIFACT_ASSEMBLED'']" for f :: "provider_response \<Rightarrow> 'b list"
    by (simp_all add: add_trace_def sample_answered_state_def response_list_def)
  have oq: "outcome_and_quality ?st sample_grounded = (''succeeded'', ''valid'')"
    by (simp add: outcome_and_quality_def Let_def add_trace_def sample_answered_state_def sample_input_def sample_grounded_def
        sample_answer_def sample_response_def)
  have refs: "recommendation_refs sample_grounded = [''e-0'', ''e-1'']" "source_refs sample_input = [''e-0'', ''e-1'', ''ev-1'']"
    by code_simp+
  let ?r = "\<lparr>rc_text = ''review the host'', rc_risk = ''human-review-required'',
       rc_preconditions = [''Re-read current Go-owned facts before any separate proposal.''],
       rc_expires_at_unix_ms = 20000, rc_evidence_refs = [''e-0'', ''e-1'']\<rparr>"
  have "Recommendation_ok ?r" by code_simp
  then have rec: "safe_build zero_env [''secret-value''] (recommendation_of sample_input [''e-0'', ''e-1'']) (ps_recommendations sample_answer) = Inr [?r]"
    by (simp add: sample_answer_def sample_response_def sample_guarded recommendation_of_def construct_def sample_input_def)
  have gen: "generated_of zero_env [''secret-value''] ?st = Inr []"
    by (simp add: generated_of_def st(2,3)) (simp add: sample_answer_def sample_response_def sample_input_def)
  have z: "float_free v \<Longrightarrow> canonical_digest zero_env v = Inr (dig CHR ''0'')" for v
    by (rule zero_digests [OF finite_float_free])
  have d: "canonical_digest zero_env (JObj [(''task'', JStr t), (''input'', JStr u)]) = Inr (dig CHR ''0'')"
    "canonical_digest zero_env (trajectory s) = Inr (dig CHR ''0'')" "TOPOLOGY_DIGEST zero_env = Inr (dig CHR ''0'')"
    "canonical_digest zero_env (JArr (map JStr ss)) = Inr (dig CHR ''0'')" for t u s ss
    unfolding TOPOLOGY_DIGEST_def by (rule z, simp add: trajectory_def TOPOLOGY_def list_all_iff)+
  have md: "metadata_of sample_adapter = Inr \<lparr>pm_provider_id = ''provider-1'', pm_model_id = ''model-1'', pm_provider_digest = dig CHR ''6''\<rparr>"
    by code_simp
  have dig: "take 32 (drop 7 (dig CHR ''0'')) = replicate 32 CHR ''0''" "ZERO_DIGEST = dig CHR ''0''"
    by (simp_all add: dig_def ZERO_DIGEST_def)
  have u: "compute_artifact_digest zero_env sample_run_artifact = Inr (dig CHR ''0'')"
    using artifact_encodings [OF sample_run_artifact_ok, of zero_env]
    by (auto simp: compute_artifact_digest_def sha256_digest_def zero_env_def dig_def elim!: rbindE)
  obtain raw where raw: "go_json_bytes zero_env (dump_AnalysisArtifact sample_run_artifact) = Inr raw" "int (length raw) \<le> 65536"
    using sample_run_artifact_size by blast
  have self: "sample_run_artifact\<lparr>aa_artifact_digest := dig CHR ''0''\<rparr> = sample_run_artifact" by (simp add: sample_run_artifact_def)
  have b: "bg_artifact_bytes (fi_budgets sample_input) = 65536" by (simp add: sample_input_def sample_budgets_def)
  have i: "fi_task_id sample_input = ''task-1''" "fi_run_id sample_input = ''run-1''" "fi_trace_id sample_input = ''trace-1''"
    "fi_plugin_revision sample_input = replicate 40 CHR ''a''" "fi_config_digest sample_input = dig CHR ''1''"
    "fi_binding_generation sample_input = 3" "fi_input_digest sample_input = dig CHR ''0''"
    "fi_expires_at_unix_ms sample_input = 20000"
    by (simp_all add: sample_input_def)
  have con: "construct AnalysisArtifact_ok sample_run_artifact = Inr sample_run_artifact" using sample_run_artifact_ok by simp
  have eq: "\<lparr>aa_schema_version = ARTIFACT_SCHEMA, aa_artifact_id = ''artifact-'' @ replicate 32 CHR ''0'',
         aa_artifact_digest = dig CHR ''0'', aa_task_id = ''task-1'', aa_run_id = ''run-1'',
         aa_plugin_id = PLUGIN_ID, aa_plugin_revision = replicate 40 CHR ''a'',
         aa_config_digest = dig CHR ''1'', aa_binding_generation = 3,
         aa_input_digest = dig CHR ''0'', aa_analysis_outcome = ''succeeded'', aa_quality = ''valid'',
         aa_source_fact_refs = [''e-0'', ''e-1'', ''ev-1''], aa_observed_claims = gd_observed_claims sample_grounded,
         aa_model_result_facts = gd_model_result_facts sample_grounded,
         aa_model_explanation_facts = gd_model_explanation_facts sample_grounded, aa_inferred_claims = gd_inferred_claims sample_grounded,
         aa_llm_interpretations = gd_llm_interpretations sample_grounded, aa_uncertainties = gd_uncertainties sample_grounded,
         aa_limitations = or_default (gd_limitations sample_grounded) ''No additional limitation was reported.'',
         aa_missing_evidence = or_default (gd_missing_evidence sample_grounded) ''No additional evidence gap was reported.'',
         aa_recommendations = [?r], aa_generated_content = [], aa_provider_metadata =
           \<lparr>pm_provider_id = ''provider-1'', pm_model_id = ''model-1'', pm_provider_digest = dig CHR ''6''\<rparr>,
         aa_tool_trajectory_digest = dig CHR ''0'', aa_graph_version = GRAPH_VERSION,
         aa_topology_digest = dig CHR ''0'', aa_trace_id = ''trace-1'', aa_trace_digest = dig CHR ''0'',
         aa_produced_at_unix_ms = 1000, aa_expires_at_unix_ms = 20000,
         aa_media_type = ''application/json'', aa_non_executable = True, aa_deployment_eligible = False\<rparr> = sample_run_artifact"
    by (simp add: sample_run_artifact_def sample_grounded_def or_default_def ARTIFACT_SCHEMA_def PLUGIN_ID_def GRAPH_VERSION_def)
  show ?thesis
    unfolding artifact_node_def st(1) option.case Let_def oq prod.case st(2) st(3) st(4) refs sample_graph_simps
    by (simp only: rec gen d md dig i eq con rbind_Inr u self raw(1) b) (use raw(2) in simp)
qed


lemma sample_context:
  "\<exists>c. context_node zero_env (initial_state sample_input) = Inr (sample_answered_state (Some c)
     \<lparr>gs_provider_response := None, gs_trace_codes := [''GRAPH_STARTED'', ''DETERMINISTIC_CONTEXT_BUILT'']\<rparr>)"
  using canonical_digest_total [of "JArr (map dump_FactRef _)" zero_env]
  by (auto simp: context_node_def Let_def initial_state_def sample_answered_state_def add_trace_def zero_digests [OF finite_float_free])

lemma sample_run:
  "\<exists>w'. graph_run sample_graph_env sample_graph sample_input sample_answered_world
     = (Inr (sample_run_artifact, [''GRAPH_STARTED'', ''DETERMINISTIC_CONTEXT_BUILT'', ''HYPOTHESIS_COMPLETED'',
          ''GROUNDING_VALIDATED'', ''ARTIFACT_ASSEMBLED'']), w')"
proof -
  obtain c where c: "context_node zero_env (initial_state sample_input) = Inr (sample_answered_state (Some c)
     \<lparr>gs_provider_response := None, gs_trace_codes := [''GRAPH_STARTED'', ''DETERMINISTIC_CONTEXT_BUILT'']\<rparr>)" (is "_ = Inr ?st0")
    using sample_context by blast
  have st0: "gs_input ?st0 = sample_input" "gs_tool_results ?st0 = []" "gs_peer_results ?st0 = []"
    by (simp_all add: sample_answered_state_def)
  have run: "py_len (fi_run_id sample_input) \<le> 108" by code_simp
  obtain request where rq: "provider_request_of zero_env [''secret-value''] ?st0 ''hypothesis'' = Inr request"
    and d: "compute_provider_request_digest zero_env request = Inr (pq_request_digest request)"
    and id: "pq_request_id request = ''provider-run-1-hypothesis''" "pq_input_digest request = dig CHR ''0''"
    using hypothesis_request_ok [OF sample_input_ok run st0, of zero_env "[''secret-value'']"]
    by (auto simp: provider_request_id_def sample_input_def)
  have b: "bg_llm_timeout_ms (fi_budgets sample_input) = 2000" "bg_artifact_bytes (fi_budgets sample_input) = 65536"
    "bg_llm_calls (fi_budgets sample_input) = 2"
    "remaining_result_ms ?st0 sample_answered_world = 3995"
    by (simp_all add: sample_input_def sample_budgets_def remaining_result_ms_def st0 sample_world_def)
  obtain w' where a: "analyze zero_env (\<lambda>_. Some sample_answer) sample_adapter request 2000 65536 sample_answered_world = (Inr sample_answer, w')"
    and w': "now_ms w' = 1000" "\<not> w_graph_timeout w'"
    using sample_analyze [OF d id, of 2000 65536] by auto
  have p: "provider_phase sample_graph_env sample_graph ?st0 ''hypothesis'' e sample_answered_world = (Inr sample_answer, w')" for e
    by (simp add: provider_phase_def bindS_def readS_def rq b st0 a)
  have "add_trace ''HYPOTHESIS_COMPLETED'' (?st0\<lparr>gs_provider_response := Some sample_answer\<rparr>) = sample_answered_state (Some c)"
    by (simp add: add_trace_def sample_answered_state_def)
  then have h: "hypothesis_node sample_graph_env sample_graph ?st0 sample_answered_world = (Inr (sample_answered_state (Some c)), w')"
    by (simp add: hypothesis_node_def st0 b tryS_def bindS_def p retS_def)
  have e: "evidence_branch sample_graph_env sample_graph (sample_answered_state (Some c)) w' = (Inr (sample_answered_state (Some c)), w')"
    by (simp add: evidence_branch_def evidence_route_def sample_answered_state_def sample_answer_def retS_def)
  have "graph_nodes sample_graph_env sample_graph sample_input sample_answered_world
    = (Inr (add_trace ''GROUNDING_VALIDATED'' (sample_answered_state (Some c)\<lparr>gs_grounded := Some sample_grounded\<rparr>)
       \<lparr>gs_artifact := Some sample_run_artifact,
        gs_trace_codes := [''GRAPH_STARTED'', ''DETERMINISTIC_CONTEXT_BUILT'', ''HYPOTHESIS_COMPLETED'',
          ''GROUNDING_VALIDATED'', ''ARTIFACT_ASSEMBLED'']\<rparr>), w')"
    by (simp add: graph_nodes_def bindS_def readS_def c h e sample_grounding sample_artifact_node w'(1))
  with w'(2) show ?thesis by (simp add: graph_run_def)
qed


theorem graph_artifact_contract_witness:
  "AnalysisArtifact_ok sample_run_artifact \<and> compute_artifact_digest zero_env sample_run_artifact = Inr (aa_artifact_digest sample_run_artifact)"
proof -
  obtain w' where "graph_run sample_graph_env sample_graph sample_input sample_answered_world
     = (Inr (sample_run_artifact, [''GRAPH_STARTED'', ''DETERMINISTIC_CONTEXT_BUILT'', ''HYPOTHESIS_COMPLETED'',
          ''GROUNDING_VALIDATED'', ''ARTIFACT_ASSEMBLED'']), w')"
    using sample_run by blast
  from graph_artifact_contract [OF this] zero_env_hexdigest show ?thesis by simp
qed


theorem graph_requests_bounded_witness:
  "\<exists>x codes w'. graph_run sample_graph_env sample_graph sample_input sample_answered_world = (Inr (x, codes), w')
     \<and> length (w_sent w') \<le> 19"
proof -
  obtain w' where r: "graph_run sample_graph_env sample_graph sample_input sample_answered_world
     = (Inr (sample_run_artifact, [''GRAPH_STARTED'', ''DETERMINISTIC_CONTEXT_BUILT'', ''HYPOTHESIS_COMPLETED'',
          ''GROUNDING_VALIDATED'', ''ARTIFACT_ASSEMBLED'']), w')"
    using sample_run by blast
  from graph_requests_bounded [OF sample_input_ok this] have "length (w_sent w') \<le> 19" by (auto simp: sample_world_def)
  with r show ?thesis by blast
qed

section \<open>An outage, and a run identity that is too long\<close>

theorem outage_still_answers_witness:
  "fst (graph_run sample_graph_env sample_graph sample_input (sample_world (\<lambda>_. NetFailure))) = Inl size_error
    \<or> (\<exists>x codes. fst (graph_run sample_graph_env sample_graph sample_input (sample_world (\<lambda>_. NetFailure))) = Inr (x, codes)
         \<and> aa_analysis_outcome x \<in> {''limited'', ''insufficient_evidence''} \<and> outage_limitation \<in> set (aa_limitations x))"
proof -
  have "py_len (fi_run_id sample_input) \<le> 108" "ProviderConfig_ok (pa_config (ag_provider sample_graph))" by code_simp+
  moreover have "hexdigest_spec (ge_py sample_graph_env)" using zero_env_hexdigest by simp
  ultimately show ?thesis
    by (intro outage_still_answers sample_input_ok) (simp_all add: sample_world_def)
qed

theorem long_run_id_fails_witness:
  "graph_run sample_graph_env sample_graph (sample_input\<lparr>fi_run_id := replicate 120 CHR ''r''\<rparr>) sample_answered_world
    = (Inl ValidationError, sample_answered_world)"
proof (rule long_run_id_fails)
  show "FrozenInput_ok (sample_input\<lparr>fi_run_id := replicate 120 CHR ''r''\<rparr>)" by code_simp
  show "108 < py_len (fi_run_id (sample_input\<lparr>fi_run_id := replicate 120 CHR ''r''\<rparr>))" by code_simp
qed (simp_all add: sample_input_def sample_budgets_def sample_world_def)

end
