(* ===== verification/Metrics.thy ===== *)
theory Metrics
  imports Regex "HOL-Library.Product_Lexorder"
begin

text \<open>
  The in-process metrics (\<open>metrics.py\<close>): counters by metric and label, latency sums and counts by
  operation, and their text rendering.

  A \<open>Counter\<close> and a \<open>defaultdict\<close> are association lists with distinct keys in insertion order. A float is
  the rational it denotes; \<open>rounded\<close> is the rounding of IEEE addition and \<open>fixed3\<close> the format \<open>.3f\<close>, both
  arguments of the operations that use them. The clock readings of the process are in \<open>mt_started\<close> and
  in the argument \<open>now\<close>. The lemmas show that the counters count, and that a rendered page has one line per
  counter whatever the labels contain.
\<close>

section \<open>State and operations\<close>

record metrics =
  mt_counters :: "((str \<times> str) \<times> int) list"
  mt_latency_sum_ms :: "(str \<times> rat) list"
  mt_latency_count :: "(str \<times> int) list"
  mt_started :: rat

definition new_metrics :: "rat \<Rightarrow> metrics" where
  "new_metrics now = \<lparr>mt_counters = [], mt_latency_sum_ms = [], mt_latency_count = [], mt_started = now\<rparr>"

text \<open>\<open>d[key] = f(d[key])\<close> on a dictionary whose missing keys read as \<open>z\<close>.\<close>

fun upsert :: "'v \<Rightarrow> ('v \<Rightarrow> 'v) \<Rightarrow> 'k \<Rightarrow> ('k \<times> 'v) list \<Rightarrow> ('k \<times> 'v) list" where
  "upsert z f k [] = [(k, f z)]"
| "upsert z f k ((k', v) # kvs) = (if k' = k then (k, f v) # kvs else (k', v) # upsert z f k kvs)"

definition dict_get :: "'v \<Rightarrow> 'k \<Rightarrow> ('k \<times> 'v) list \<Rightarrow> 'v" where
  "dict_get z k kvs = (case map_of kvs k of None \<Rightarrow> z | Some v \<Rightarrow> v)"

definition increment :: "str \<Rightarrow> str \<Rightarrow> int \<Rightarrow> metrics \<Rightarrow> metrics" where
  "increment metric label amount m =
     m\<lparr>mt_counters := upsert 0 (\<lambda>v. v + amount) (metric, label) (mt_counters m)\<rparr>"

definition observe_ms :: "(rat \<Rightarrow> rat) \<Rightarrow> str \<Rightarrow> rat \<Rightarrow> metrics \<Rightarrow> metrics" where
  "observe_ms rounded operation milliseconds m =
     m\<lparr>mt_latency_sum_ms := upsert 0 (\<lambda>v. rounded (v + milliseconds)) operation (mt_latency_sum_ms m),
       mt_latency_count := upsert 0 (\<lambda>v. v + 1) operation (mt_latency_count m)\<rparr>"

definition safe_name :: "pyenv \<Rightarrow> str \<Rightarrow> str \<Rightarrow> str" where
  "safe_name env extra s =
     concat (map (\<lambda>x. if uni_alnum env x \<or> (\<exists>c \<in> set extra. x = [c]) then x else ''_'') (chunks s))"

definition counter_line :: "pyenv \<Rightarrow> (str \<times> str) \<times> int \<Rightarrow> str" where
  "counter_line env kv = (case kv of ((metric, label), v) \<Rightarrow>
     ''masi_analysis_'' @ safe_name env ''_'' metric @ ''_total{result='' @ [CHR 0x22] @ safe_name env ''_-'' label
       @ [CHR 0x22] @ ''} '' @ int_str v)"

definition latency_lines :: "pyenv \<Rightarrow> metrics \<Rightarrow> str \<Rightarrow> str list" where
  "latency_lines env m operation =
     [''masi_analysis_operation_latency_ms_sum{operation='' @ [CHR 0x22] @ operation @ [CHR 0x22] @ ''} ''
        @ float_repr env (dict_get 0 operation (mt_latency_sum_ms m)),
      ''masi_analysis_operation_latency_ms_count{operation='' @ [CHR 0x22] @ operation @ [CHR 0x22] @ ''} ''
        @ int_str (dict_get 0 operation (mt_latency_count m))]"

definition render_lines :: "pyenv \<Rightarrow> (rat \<Rightarrow> str) \<Rightarrow> rat \<Rightarrow> int \<Rightarrow> int \<Rightarrow> metrics \<Rightarrow> str list" where
  "render_lines env fixed3 now queue_depth in_flight m =
     [''# TYPE masi_analysis_uptime_seconds gauge'',
      ''masi_analysis_uptime_seconds '' @ fixed3 (now - mt_started m),
      ''# TYPE masi_analysis_queue_depth gauge'',
      ''masi_analysis_queue_depth '' @ int_str queue_depth,
      ''# TYPE masi_analysis_in_flight gauge'',
      ''masi_analysis_in_flight '' @ int_str in_flight]
   @ map (counter_line env) (sort_key fst (mt_counters m))
   @ concat (map (latency_lines env m) (sort (map fst (mt_latency_count m))))"

definition render :: "pyenv \<Rightarrow> (rat \<Rightarrow> str) \<Rightarrow> rat \<Rightarrow> int \<Rightarrow> int \<Rightarrow> metrics \<Rightarrow> str" where
  "render env fixed3 now queue_depth in_flight m =
     join [CHR 0x0A] (render_lines env fixed3 now queue_depth in_flight m) @ [CHR 0x0A]"

section \<open>The counters count\<close>

lemma dict_get_upsert:
  "dict_get z k (upsert z f k' kvs) = (if k = k' then f (dict_get z k kvs) else dict_get z k kvs)"
  by (induction kvs) (auto simp: dict_get_def)

lemma keys_upsert: "fst ` set (upsert z f k kvs) = insert k (fst ` set kvs)"
proof (induction kvs)
  case (Cons kv kvs)
  then show ?case by (cases kv) (simp add: insert_commute)
qed simp

lemma distinct_upsert: "distinct (map fst kvs) \<Longrightarrow> distinct (map fst (upsert z f k kvs))"
proof (induction kvs)
  case (Cons kv kvs)
  then have "fst kv \<notin> fst ` set (upsert z f k kvs)" if "fst kv \<noteq> k" using that by (auto simp: keys_upsert)
  with Cons show ?case by (cases kv) auto
qed simp

definition metrics_inv :: "metrics \<Rightarrow> bool" where
  "metrics_inv m \<longleftrightarrow> distinct (map fst (mt_counters m)) \<and> distinct (map fst (mt_latency_count m))
     \<and> map fst (mt_latency_sum_ms m) = map fst (mt_latency_count m)"

lemma map_fst_upsert: "map fst kvs = map fst kvs' \<Longrightarrow> map fst (upsert z f k kvs) = map fst (upsert z' f' k kvs')"
proof (induction kvs arbitrary: kvs')
  case (Cons kv kvs)
  then show ?case by (cases kvs'; cases kv) auto
qed simp

lemma metrics_inv_new: "metrics_inv (new_metrics now)"
  by (simp add: metrics_inv_def new_metrics_def)

lemma metrics_inv_increment: "metrics_inv m \<Longrightarrow> metrics_inv (increment metric label amount m)"
  by (simp add: metrics_inv_def increment_def distinct_upsert)

lemma metrics_inv_observe: "metrics_inv m \<Longrightarrow> metrics_inv (observe_ms rounded operation ms m)"
  by (auto simp: metrics_inv_def observe_ms_def distinct_upsert intro: map_fst_upsert)

definition counter :: "metrics \<Rightarrow> str \<Rightarrow> str \<Rightarrow> int" where
  "counter m metric label = dict_get 0 (metric, label) (mt_counters m)"

lemma counter_increment [simp]:
  "counter (increment metric label amount m) metric' label'
     = counter m metric' label' + (if metric' = metric \<and> label' = label then amount else 0)"
  by (auto simp: counter_def increment_def dict_get_upsert)

lemma counter_observe [simp]: "counter (observe_ms rounded operation ms m) metric label = counter m metric label"
  by (simp add: counter_def observe_ms_def)

section \<open>Rendering\<close>

text \<open>
  The lines of a page do not depend on what a metric or a label contains: no character of them can
  close the quotes or start a line, when no alphanumeric character is a quote or contains a line break.
\<close>

definition alnum_plain :: "pyenv \<Rightarrow> bool" where
  "alnum_plain env \<longleftrightarrow> (\<forall>x. uni_alnum env x \<longrightarrow> CHR 0x0A \<notin> set x \<and> CHR 0x22 \<notin> set x)"

lemma safe_name_plain:
  assumes "alnum_plain env" and "set extra \<subseteq> set ''_-''" and "c \<in> set (safe_name env extra s)"
  shows "c \<noteq> CHR 0x0A \<and> c \<noteq> CHR 0x22"
  using assms by (auto simp: safe_name_def alnum_plain_def split: if_splits)

lemma int_str_plain: "c \<in> set (int_str i) \<Longrightarrow> is_digit c \<or> c = CHR ''-''"
  using nat_str_digits by (auto simp: int_str_def list_all_iff split: if_splits)

lemma counter_line_plain:
  assumes "alnum_plain env"
  shows "CHR 0x0A \<notin> set (counter_line env kv)"
    and "length (filter (\<lambda>c. c = CHR 0x22) (counter_line env kv)) = 2"
proof -
  obtain metric label v where kv: "kv = ((metric, label), v)" by (metis prod.collapse)
  have "c \<noteq> CHR 0x0A \<and> c \<noteq> CHR 0x22"
    if "c \<in> set (safe_name env ''_'' metric) \<union> set (safe_name env ''_-'' label) \<union> set (int_str v)" for c
    using that safe_name_plain [OF assms, of "''_''" c metric] safe_name_plain [OF assms, of "''_-''" c label]
      int_str_plain [of c v] by (auto simp: is_digit_def)
  then have *: "CHR 0x0A \<notin> set (safe_name env ''_'' metric)" "CHR 0x0A \<notin> set (safe_name env ''_-'' label)"
    "CHR 0x0A \<notin> set (int_str v)"
    "filter (\<lambda>c. c = CHR 0x22) (safe_name env ''_'' metric) = []"
    "filter (\<lambda>c. c = CHR 0x22) (safe_name env ''_-'' label) = []" "filter (\<lambda>c. c = CHR 0x22) (int_str v) = []"
    by (auto simp: filter_empty_conv)
  then show "CHR 0x0A \<notin> set (counter_line env kv)"
    and "length (filter (\<lambda>c. c = CHR 0x22) (counter_line env kv)) = 2"
    by (simp_all add: counter_line_def kv)
qed

lemma length_render_lines:
  "length (render_lines env fixed3 now q f m) = 6 + length (mt_counters m) + 2 * length (mt_latency_count m)"
proof -
  have "length (concat (map (latency_lines env m) xs)) = 2 * length xs" for xs
    by (induction xs) (simp_all add: latency_lines_def)
  then show ?thesis by (simp add: render_lines_def)
qed

section \<open>Refinement of the event log\<close>

text \<open>The abstract specification: the log of the events, from which every number of a page is computed.\<close>

datatype metric_event = Counted str str int | Observed str rat

fun record_event :: "(rat \<Rightarrow> rat) \<Rightarrow> metric_event \<Rightarrow> metrics \<Rightarrow> metrics" where
  "record_event rounded (Counted metric label amount) m = increment metric label amount m"
| "record_event rounded (Observed operation ms) m = observe_ms rounded operation ms m"

fun event_amount :: "str \<Rightarrow> str \<Rightarrow> metric_event \<Rightarrow> int" where
  "event_amount metric label (Counted metric' label' amount) = (if metric' = metric \<and> label' = label then amount else 0)"
| "event_amount metric label (Observed _ _) = 0"

fun event_counters :: "metric_event \<Rightarrow> (str \<times> str) set" where
  "event_counters (Counted metric label amount) = {(metric, label)}"
| "event_counters (Observed _ _) = {}"

fun event_operations :: "metric_event \<Rightarrow> str set" where
  "event_operations (Observed operation ms) = {operation}"
| "event_operations (Counted _ _ _) = {}"

abbreviation counter_keys :: "metrics \<Rightarrow> (str \<times> str) set" where
  "counter_keys m \<equiv> fst ` set (mt_counters m)"

abbreviation operation_keys :: "metrics \<Rightarrow> str set" where
  "operation_keys m \<equiv> fst ` set (mt_latency_count m)"

lemma record_event_step:
  assumes "metrics_inv m"
  shows "metrics_inv (record_event rounded e m)"
    and "counter (record_event rounded e m) metric label = counter m metric label + event_amount metric label e"
    and "counter_keys (record_event rounded e m) = counter_keys m \<union> event_counters e"
    and "operation_keys (record_event rounded e m) = operation_keys m \<union> event_operations e"
proof -
  show "metrics_inv (record_event rounded e m)"
    using assms by (cases e) (simp_all add: metrics_inv_increment metrics_inv_observe)
  show "counter (record_event rounded e m) metric label = counter m metric label + event_amount metric label e"
    by (cases e) auto
  show "counter_keys (record_event rounded e m) = counter_keys m \<union> event_counters e"
    "operation_keys (record_event rounded e m) = operation_keys m \<union> event_operations e"
    by (cases e; simp add: increment_def observe_ms_def keys_upsert)+
qed

lemma length_distinct_keys: "distinct (map fst kvs) \<Longrightarrow> length kvs = card (fst ` set kvs)"
  by (metis distinct_card length_map set_map)

definition recorded :: "(rat \<Rightarrow> rat) \<Rightarrow> rat \<Rightarrow> metric_event list \<Rightarrow> metrics" where
  "recorded rounded started es = fold (record_event rounded) es (new_metrics started)"

lemma record_events:
  assumes "metrics_inv m"
  shows "metrics_inv (fold (record_event rounded) es m)
    \<and> counter (fold (record_event rounded) es m) metric label
        = counter m metric label + sum_list (map (event_amount metric label) es)
    \<and> counter_keys (fold (record_event rounded) es m) = counter_keys m \<union> (\<Union>e\<in>set es. event_counters e)
    \<and> operation_keys (fold (record_event rounded) es m) = operation_keys m \<union> (\<Union>e\<in>set es. event_operations e)"
  using assms by (induction es arbitrary: m) (auto simp: record_event_step)

text \<open>
  The metrics are the numbers of the event log. After any sequence of \<open>increment\<close> and \<open>observe_ms\<close>
  calls every counter is the sum of the amounts counted under its metric and label, and a rendered page
  has the six fixed lines, one line for each metric and label that was counted and two for each operation
  that was observed.
\<close>

theorem metrics_refine_log:
  "counter (recorded rounded started es) metric label = sum_list (map (event_amount metric label) es)
    \<and> length (render_lines env fixed3 now queue_depth in_flight (recorded rounded started es))
        = 6 + card (\<Union>e\<in>set es. event_counters e) + 2 * card (\<Union>e\<in>set es. event_operations e)"
proof -
  note run = record_events [OF metrics_inv_new [of started], of rounded es metric label]
  have empty: "counter (new_metrics started) metric label = 0" "counter_keys (new_metrics started) = {}"
    "operation_keys (new_metrics started) = {}"
    by (simp_all add: counter_def new_metrics_def dict_get_def)
  show ?thesis unfolding recorded_def length_render_lines using run empty by (simp add: metrics_inv_def length_distinct_keys)
qed

end
