(* ===== verification/Service.thy ===== *)
theory Service
  imports Graph_Outage Store Metrics
begin

text \<open>
  The application service (\<open>service.py\<close>): admission, the bounded queue, the workers, reload, shutdown and
  health.

  The process is one \<open>asyncio\<close> loop, so the code between two \<open>await\<close>s is one step and everything else can
  happen at an \<open>await\<close>. \<open>service_submit\<close>, \<open>reload_binding\<close> and \<open>health\<close> have none. A worker has two segments,
  \<open>worker_begin\<close> from \<open>queue.get\<close> to \<open>graph.run\<close> and \<open>worker_end\<close> from there to the next \<open>queue.get\<close>; \<open>sv_running\<close>
  holds the items whose worker is suspended in \<open>graph.run\<close>. \<open>drain_and_close\<close> has \<open>drain_begin\<close> and \<open>drain_end\<close>
  around \<open>queue.join\<close>. The successive clock readings of a segment are the argument \<open>clk\<close>.

  An exception that escapes the handlers of a worker ends that worker: \<open>sv_workers\<close> counts the live ones.
\<close>

section \<open>State\<close>

record service_env =
  se_graph :: graph_env
  se_sc :: store_config
  se_maxsize :: int
  se_concurrency :: nat
  se_dec_request :: "str \<Rightarrow> a2a_send_request option"
  se_rounded :: "rat \<Rightarrow> rat"

abbreviation se_py :: "service_env \<Rightarrow> pyenv" where
  "se_py env \<equiv> sc_py (se_sc env)"

record clock =
  ck_ms :: "nat \<Rightarrow> int"
  ck_mono :: "nat \<Rightarrow> rat"

record work_item =
  wi_input_bundle :: frozen_input
  wi_request_digest :: str

abbreviation wi_task_id :: "work_item \<Rightarrow> str" where
  "wi_task_id item \<equiv> fi_task_id (wi_input_bundle item)"

record service =
  sv_material :: runtime_material
  sv_binding_state :: runtime_material
  sv_store :: store
  sv_metrics :: metrics
  sv_queue :: "work_item list"
  sv_running :: "(work_item \<times> rat) list"
  sv_workers :: nat
  sv_draining :: bool
  sv_admission_error :: str
  sv_stopping :: bool
  sv_started :: bool
  sv_in_flight :: int
  sv_last_progress_monotonic :: rat

type_synonym 'a service_call = "service \<Rightarrow> (exn + 'a) \<times> service"

definition new_service :: "clock \<Rightarrow> runtime_material \<Rightarrow> store \<Rightarrow> service" where
  "new_service clk material st = \<lparr>sv_material = material, sv_binding_state = material, sv_store = st,
     sv_metrics = new_metrics (ck_mono clk 0), sv_queue = [], sv_running = [], sv_workers = 0, sv_draining = False,
     sv_admission_error = ''DRAINING'', sv_stopping = False, sv_started = False, sv_in_flight = 0,
     sv_last_progress_monotonic = ck_mono clk 1\<rparr>"

definition service_start :: "service_env \<Rightarrow> clock \<Rightarrow> unit service_call" where
  "service_start env clk =
     bindS (readS (\<lambda>s. snapshot (sv_binding_state s) (ck_ms clk 0))) (\<lambda>_.
     modifyS (\<lambda>s. s\<lparr>sv_workers := se_concurrency env, sv_started := True, sv_last_progress_monotonic := ck_mono clk 0\<rparr>))"

definition on_store :: "'a store_call \<Rightarrow> 'a service_call" where
  "on_store m s = (case m (sv_store s) of (r, st) \<Rightarrow> (r, s\<lparr>sv_store := st\<rparr>))"

definition count :: "str \<Rightarrow> str \<Rightarrow> service \<Rightarrow> service" where
  "count metric label s = s\<lparr>sv_metrics := increment metric label 1 (sv_metrics s)\<rparr>"

section \<open>Submission\<close>

definition admission_message :: "str \<Rightarrow> str" where
  "admission_message admission_error =
     (if admission_error = ''BINDING_UNAVAILABLE'' then ''exact active binding unavailable'' else ''analysis plugin is draining'')"

text \<open>The checks of \<open>submit\<close> up to the binding, and the frozen input they admit.\<close>

definition admit :: "service_env \<Rightarrow> int \<Rightarrow> str \<Rightarrow> service \<Rightarrow> exn + frozen_input" where
  "admit env now raw s =
     rbind (raise_if (sv_draining s \<or> sv_stopping s)
       (AnalysisErrorR (sv_admission_error s) (admission_message (sv_admission_error s)) 503 True)) (\<lambda>_.
     rbind (lift_opt (AnalysisError ''MALFORMED_REQUEST'' ''A2A request failed strict schema'' 400)
       (se_dec_request env raw)) (\<lambda>request.
     rbind (case am_parts (sr_message request) of [] \<Rightarrow> Inl IndexError | part # _ \<Rightarrow> Inr (ip_data part)) (\<lambda>input_bundle.
     rbind (compute_input_digest (se_py env) input_bundle) (\<lambda>digest.
     rbind (raise_if (digest \<noteq> fi_input_digest input_bundle)
       (AnalysisError ''DIGEST_MISMATCH'' ''frozen input digest mismatch'' 400)) (\<lambda>_.
     rbind (raise_if (fi_deadline_unix_ms input_bundle \<le> now \<or> fi_expires_at_unix_ms input_bundle \<le> now)
       (AnalysisError ''DEADLINE_EXCEEDED'' ''analysis task deadline or expiry elapsed'' 408)) (\<lambda>_.
     rbind (raise_if (fi_deadline_unix_ms input_bundle - now > bg_graph_deadline_ms (fi_budgets input_bundle))
       (AnalysisError ''MALFORMED_REQUEST'' ''task deadline exceeds its declared graph budget'' 400)) (\<lambda>_.
     rbind (raise_if (fi_quality input_bundle \<in> set [''stale'', ''invalid''])
       (AnalysisError ''MALFORMED_REQUEST'' ''stale or invalid frozen input rejected before graph execution'' 422)) (\<lambda>_.
     rbind (matches_input (sv_binding_state s) input_bundle now) (\<lambda>_.
     Inr input_bundle)))))))))"

text \<open>\<open>asyncio.Queue.full\<close>: a queue with \<open>maxsize\<close> zero or less is unbounded.\<close>

definition queue_full :: "service_env \<Rightarrow> service \<Rightarrow> bool" where
  "queue_full env s \<longleftrightarrow> se_maxsize env > 0 \<and> int (length (sv_queue s)) \<ge> se_maxsize env"

definition context_id :: "str \<Rightarrow> str" where
  "context_id request_digest = ''context-'' @ take 32 (drop 7 request_digest)"

text \<open>What follows the creation of a task: its trace and its place in the queue.\<close>

definition enqueue :: "service_env \<Rightarrow> clock \<Rightarrow> frozen_input \<Rightarrow> str \<Rightarrow> task_record service_call" where
  "enqueue env clk input_bundle request_digest =
     (let sc = se_sc env; task_id = fi_task_id input_bundle in
      bindS (on_store (append_trace sc task_id ''A2A_ADMITTED'' request_digest (ck_ms clk 2))) (\<lambda>_ s.
      if queue_full env s
      then bindS (modifyS (count ''submissions'' ''resource_exhausted'')) (\<lambda>_.
           bindS (on_store (append_trace sc task_id ''QUEUE_REJECTED'' [] (ck_ms clk 3))) (\<lambda>_.
           on_store (set_state sc task_id TASK_REJECTED ''RESOURCE_EXHAUSTED'' (ck_ms clk 4)))) s
      else bindS (modifyS (\<lambda>s. (count ''submissions'' ''accepted''
             (s\<lparr>sv_queue := sv_queue s @ [\<lparr>wi_input_bundle = input_bundle, wi_request_digest = request_digest\<rparr>]\<rparr>))
             \<lparr>sv_last_progress_monotonic := ck_mono clk 0\<rparr>)) (\<lambda>_.
           readS (\<lambda>s. store_get sc task_id (sv_store s))) s))"

definition service_submit :: "service_env \<Rightarrow> clock \<Rightarrow> str \<Rightarrow> str \<Rightarrow> task_record service_call" where
  "service_submit env clk raw requester_identity =
     bindS (readS (admit env (ck_ms clk 0) raw)) (\<lambda>input_bundle.
     let request_digest = file_digest (se_py env) raw in
     bindS (on_store (submit (se_sc env) input_bundle request_digest (context_id request_digest) requester_identity
       (ck_ms clk 1))) (\<lambda>(record, created).
     if \<not> created then bindS (modifyS (count ''submissions'' ''idempotent'')) (\<lambda>_. retS record)
     else enqueue env clk input_bundle request_digest))"

definition service_get :: "service_env \<Rightarrow> str \<Rightarrow> str \<Rightarrow> service \<Rightarrow> exn + task_record" where
  "service_get env task_id requester_identity s = get_for_requester (se_sc env) task_id requester_identity (sv_store s)"

section \<open>Workers\<close>

text \<open>The \<open>finally\<close> clause. \<open>task_done\<close> is the length of \<open>sv_running\<close>, which the segments keep.\<close>

definition worker_finally :: "service_env \<Rightarrow> clock \<Rightarrow> rat \<Rightarrow> service \<Rightarrow> service" where
  "worker_finally env clk started s =
     s\<lparr>sv_metrics := observe_ms (se_rounded env) ''task'' ((ck_mono clk 2 - started) * 1000) (sv_metrics s),
       sv_in_flight := sv_in_flight s - 1, sv_last_progress_monotonic := ck_mono clk 3\<rparr>"

text \<open>\<open>append_trace\<close> and \<open>set_state\<close> inside \<open>try .. except AnalysisError: pass\<close>.\<close>

definition settle :: "service_env \<Rightarrow> clock \<Rightarrow> str \<Rightarrow> task_state \<Rightarrow> str \<Rightarrow> unit service_call" where
  "settle env clk task_id state reason =
     tryS (bindS (on_store (append_trace (se_sc env) task_id reason [] (ck_ms clk 20))) (\<lambda>_.
           bindS (on_store (set_state (se_sc env) task_id state reason (ck_ms clk 21))) (\<lambda>_. retS ())))
       (\<lambda>e. if is_analysis_error e then retS () else raiseS e)"

definition failure_reason :: "str \<Rightarrow> str" where
  "failure_reason code = (if code \<in> set [''BINDING_FENCED'', ''BINDING_UNAVAILABLE''] then ''BINDING_FENCED'' else code)"

definition worker_except :: "service_env \<Rightarrow> clock \<Rightarrow> str \<Rightarrow> exn \<Rightarrow> unit service_call" where
  "worker_except env clk task_id e =
     (case exn_code e of
        Some code \<Rightarrow>
          let reason = failure_reason code; state = (if reason = ''BINDING_FENCED'' then TASK_REJECTED else TASK_FAILED) in
          bindS (settle env clk task_id state reason) (\<lambda>_. modifyS (count ''tasks'' (lower_str reason)))
      | None \<Rightarrow>
          bindS (settle env clk task_id TASK_FAILED ''INTERNAL_UNAVAILABLE'') (\<lambda>_.
          modifyS (count ''tasks'' ''internal_unavailable'')))"

text \<open>The handlers and the \<open>finally\<close> clause around an outcome of the \<open>try\<close> block.\<close>

definition worker_close :: "service_env \<Rightarrow> clock \<Rightarrow> str \<Rightarrow> rat \<Rightarrow> (exn + unit) \<times> service \<Rightarrow> service" where
  "worker_close env clk task_id started r =
     (case r of
        (Inr _, s) \<Rightarrow> worker_finally env clk started s
      | (Inl e, s) \<Rightarrow>
          (case worker_except env clk task_id e s of
             (Inr _, s') \<Rightarrow> worker_finally env clk started s'
           | (Inl _, s') \<Rightarrow> (worker_finally env clk started s')\<lparr>sv_workers := sv_workers s' - 1\<rparr>))"

text \<open>The \<open>try\<close> block before \<open>graph.run\<close>: \<open>True\<close> when the worker goes on to run the graph.\<close>

definition dispatch :: "service_env \<Rightarrow> clock \<Rightarrow> work_item \<Rightarrow> bool service_call" where
  "dispatch env clk item s =
     (let sc = se_sc env; task_id = wi_task_id item in
      if sv_stopping s
      then bindS (on_store (set_state sc task_id TASK_REJECTED ''DRAINING'' (ck_ms clk 0))) (\<lambda>_. retS False) s
      else bindS (readS (\<lambda>s. matches_input (sv_binding_state s) (wi_input_bundle item) (ck_ms clk 0))) (\<lambda>_.
           bindS (on_store (set_state sc task_id TASK_WORKING ''GRAPH_RUNNING'' (ck_ms clk 1))) (\<lambda>_.
           bindS (on_store (append_trace sc task_id ''GRAPH_DISPATCHED'' [] (ck_ms clk 2))) (\<lambda>_. retS True))) s)"

definition worker_begin :: "service_env \<Rightarrow> clock \<Rightarrow> service \<Rightarrow> service" where
  "worker_begin env clk s =
     (case sv_queue s of
        [] \<Rightarrow> s
      | item # rest \<Rightarrow>
          let started = ck_mono clk 1;
              s1 = s\<lparr>sv_queue := rest, sv_in_flight := sv_in_flight s + 1, sv_last_progress_monotonic := ck_mono clk 0\<rparr> in
          (case dispatch env clk item s1 of
             (Inr True, s2) \<Rightarrow> s2\<lparr>sv_running := sv_running s2 @ [(item, started)]\<rparr>
           | (Inr False, s2) \<Rightarrow> worker_close env clk (wi_task_id item) started (Inr (), s2)
           | (Inl e, s2) \<Rightarrow> worker_close env clk (wi_task_id item) started (Inl e, s2)))"

text \<open>The \<open>try\<close> block after \<open>graph.run\<close>.\<close>

definition conclude ::
  "service_env \<Rightarrow> clock \<Rightarrow> work_item \<Rightarrow> exn + analysis_artifact \<times> str list \<Rightarrow> unit service_call" where
  "conclude env clk item outcome =
     (let sc = se_sc env; task_id = wi_task_id item in
      bindS (readS (\<lambda>_. outcome)) (\<lambda>(artifact, trace_codes).
      bindS (readS (\<lambda>s. matches_input (sv_binding_state s) (wi_input_bundle item) (ck_ms clk 0))) (\<lambda>_.
      bindS (forS (\<lambda>(n, code). bindS (on_store (append_trace sc task_id code [] (ck_ms clk n))) (\<lambda>_. retS ()))
        (enumerate_from 1 trace_codes)) (\<lambda>_.
      bindS (on_store (complete sc task_id artifact (ck_ms clk 19))) (\<lambda>record.
      modifyS (count ''tasks'' (case tr_artifact record of Some a \<Rightarrow> aa_analysis_outcome a | None \<Rightarrow> ''failed'')))))))"

fun drop_nth :: "nat \<Rightarrow> 'a list \<Rightarrow> 'a list" where
  "drop_nth n [] = []"
| "drop_nth 0 (x # xs) = xs"
| "drop_nth (Suc n) (x # xs) = x # drop_nth n xs"

definition worker_end :: "service_env \<Rightarrow> clock \<Rightarrow> nat \<Rightarrow> exn + analysis_artifact \<times> str list \<Rightarrow> service \<Rightarrow> service" where
  "worker_end env clk i outcome s =
     (case sv_running s ! i of (item, started) \<Rightarrow>
      worker_close env clk (wi_task_id item) started
        (conclude env clk item outcome (s\<lparr>sv_running := drop_nth i (sv_running s)\<rparr>)))"

section \<open>Reload, shutdown and health\<close>

definition reload_binding :: "config_env \<Rightarrow> clock \<Rightarrow> str \<Rightarrow> unit service_call" where
  "reload_binding cfg clk config_path s =
     (case reload cfg config_path (sv_binding_state s) of
        (Inl e, m) \<Rightarrow> (Inl e, s\<lparr>sv_binding_state := m\<rparr>)
      | (Inr binding, m) \<Rightarrow>
          let s1 = s\<lparr>sv_binding_state := m, sv_material := m\<rparr>;
              s2 = (if bo_activation_state binding \<noteq> ''active'' \<or> bo_qualification_status binding \<noteq> ''qualified''
                    then s1\<lparr>sv_draining := True, sv_admission_error := ''BINDING_UNAVAILABLE''\<rparr> else s1) in
          (Inr (), (count ''binding_reload'' (bo_activation_state binding) s2)\<lparr>sv_last_progress_monotonic := ck_mono clk 0\<rparr>))"

definition drain_begin :: "service \<Rightarrow> service" where
  "drain_begin s = s\<lparr>sv_draining := True, sv_admission_error := ''DRAINING'', sv_stopping := True\<rparr>"

text \<open>The items left in the queue when the grace period is over; an exception ends the loop.\<close>

fun reject_queued :: "service_env \<Rightarrow> clock \<Rightarrow> nat \<Rightarrow> work_item list \<Rightarrow> unit service_call" where
  "reject_queued env clk n [] s = (Inr (), s\<lparr>sv_queue := []\<rparr>)"
| "reject_queued env clk n (item # items) s =
     bindS (on_store (set_state (se_sc env) (wi_task_id item) TASK_REJECTED ''DRAIN_TIMEOUT'' (ck_ms clk n)))
       (\<lambda>_. reject_queued env clk (Suc n) items) (s\<lparr>sv_queue := items\<rparr>)"

text \<open>
  The cancelled workers: \<open>CancelledError\<close> is no \<open>Exception\<close>, so only \<open>finally\<close> runs and a task whose graph was
  running keeps its state.
\<close>

definition cancel_workers :: "service_env \<Rightarrow> clock \<Rightarrow> service \<Rightarrow> service" where
  "cancel_workers env clk s =
     (fold (\<lambda>(item, started). worker_finally env clk started) (sv_running s) s)\<lparr>sv_running := [], sv_workers := 0\<rparr>"

definition drain_end :: "service_env \<Rightarrow> clock \<Rightarrow> bool \<Rightarrow> unit service_call" where
  "drain_end env clk timed_out =
     bindS (\<lambda>s. if timed_out then reject_queued env clk 0 (sv_queue s) s else (Inr (), s)) (\<lambda>_.
     modifyS (\<lambda>s. (cancel_workers env clk s)\<lparr>sv_started := False\<rparr>))"

definition health :: "clock \<Rightarrow> world \<Rightarrow> service \<Rightarrow> (str \<times> json) list" where
  "health clk w s =
     (let (binding_status, generation) =
            (case snapshot (sv_binding_state s) (ck_ms clk 0) of
               Inr binding \<Rightarrow> (''active'', bo_binding_generation binding)
             | Inl _ \<Rightarrow> (''unavailable'', 0));
          worker_progress = (ck_mono clk 0 - sv_last_progress_monotonic s \<le> 10);
          ready = (sv_started s \<and> \<not> sv_draining s \<and> binding_status = ''active'' \<and> worker_progress);
          live = (sv_started s \<and> worker_progress);
          domain_degraded = (\<exists>status \<in> set [fst (w_provider_status w), fst (w_mcp_status w), fst (w_peer_status w)].
            status = ''unavailable'')
      in [(''schema_version'', JStr ''masi-analysis-health/v1''), (''startup'', JBool (sv_started s)),
          (''ready'', JBool ready), (''live'', JBool live), (''draining'', JBool (sv_draining s)),
          (''binding_status'', JStr binding_status), (''binding_generation'', JInt generation),
          (''domain_status'', JStr (if domain_degraded then ''degraded'' else ''available'')),
          (''provider_status'', JStr (fst (w_provider_status w))), (''mcp_status'', JStr (fst (w_mcp_status w))),
          (''peer_status'', JStr (fst (w_peer_status w))), (''queue_depth'', JInt (int (length (sv_queue s)))),
          (''in_flight'', JInt (sv_in_flight s)), (''updated_at_unix_ms'', JInt (ck_ms clk 1))])"

end
