(* ===== verification/Calendar.thy ===== *)
theory Calendar
  imports Canonical_Injective
begin

text \<open>
  Dates of the proleptic Gregorian calendar as \<open>datetime\<close> writes them, and zero-padded numbers: what \<open>server.py\<close> of the
  analysis plugin and \<open>dataset.py\<close> of the training pipeline use of the standard library.
\<close>

definition pad :: "nat \<Rightarrow> int \<Rightarrow> str" where
  "pad width i = (let s = int_str i in replicate (width - length s) CHR ''0'' @ s)"

definition days_in_month :: "int \<Rightarrow> nat \<Rightarrow> int" where
  "days_in_month year m =
     (if m = 2 then (if year mod 4 = 0 \<and> (year mod 100 \<noteq> 0 \<or> year mod 400 = 0) then 29 else 28)
      else if m \<in> set [4, 6, 9, 11] then 30 else 31)"

text \<open>The day of the year is searched month by month; a year has at most twelve.\<close>

fun month_of :: "nat \<Rightarrow> int \<Rightarrow> nat \<Rightarrow> int \<Rightarrow> nat \<times> int" where
  "month_of 0 year m day = (m, day)"
| "month_of (Suc k) year m day =
     (if day < days_in_month year m then (m, day) else month_of k year (Suc m) (day - days_in_month year m))"

definition leaps_before :: "int \<Rightarrow> int" where
  "leaps_before year = (year - 1) div 4 - (year - 1) div 100 + (year - 1) div 400"

definition days_before :: "int \<Rightarrow> int" where
  "days_before year = 365 * (year - 1) + leaps_before year"

text \<open>The year that contains a day (counted from 0001-01-01), corrected from an estimate that is at most one too high.\<close>

definition year_of :: "int \<Rightarrow> int" where
  "year_of n = (let y = n * 400 div 146097 + 1 in if n < days_before y then y - 1 else if days_before (y + 1) \<le> n then y + 1 else y)"

text \<open>Seconds since 1970 as a day number, counted from 0001-01-01, and as \<open>YYYY-MM-DDTHH:MM:SS\<close>.\<close>

definition day_number :: "int \<Rightarrow> int" where
  "day_number seconds = 719162 + seconds div 86400"

definition iso_seconds :: "int \<Rightarrow> str" where
  "iso_seconds seconds =
     (let day = day_number seconds; rest = seconds mod 86400; year = year_of day;
          (month, dom) = month_of 11 year 1 (day - days_before year) in
      pad 4 year @ ''-'' @ pad 2 (int month) @ ''-'' @ pad 2 (dom + 1) @ ''T''
        @ pad 2 (rest div 3600) @ '':'' @ pad 2 (rest div 60 mod 60) @ '':'' @ pad 2 (rest mod 60))"

lemma leading_zeros: "nat_of_str (replicate k CHR ''0'' @ s) = nat_of_str s"
proof -
  have "foldl (\<lambda>n c. 10 * n + (of_char c - 48)) 0 (replicate k CHR ''0'') = (0 :: nat)" by (induction k) simp_all
  then show ?thesis by simp
qed

lemma nat_of_pad: "0 \<le> i \<Longrightarrow> nat_of_str (pad width i) = nat i"
  unfolding pad_def Let_def leading_zeros int_str_def by (simp add: nat_of_nat_str del: nat_of_str.simps)

lemma pad_inject: "0 \<le> i \<Longrightarrow> 0 \<le> j \<Longrightarrow> pad width i = pad width j \<Longrightarrow> i = j"
  using nat_of_pad by (metis nat_eq_iff2)

lemma iso_seconds_examples:
  "iso_seconds 951827696 = ''2000-02-29T12:34:56''" "iso_seconds 4107542399 = ''2100-02-28T23:59:59''"
  by code_simp+

end
