(* ===== verification/Server.thy ===== *)
theory Server
  imports Service Security Calendar
begin

text \<open>
  The A2A HTTP server (\<open>server.py\<close>): routes, the identity gate, request validation, the endpoints and the
  bounded JSON responses.

  A request is what the handlers read of aiohttp's request object, the certificate names of its TLS peer
  included; a response is a record. \<open>json_response\<close> may answer with an error whose own encoding is bounded
  by the same rule, so it is a recursive function that returns \<open>None\<close> when it does not end. An exception that
  is no \<open>AnalysisError\<close> leaves the handler (aiohttp answers with status 500).

  Times are integers; \<open>iso_timestamp\<close> is \<open>datetime.fromtimestamp(.., tz=UTC).isoformat()\<close> with \<open>Z\<close> for the zone.
  It is exact below \<open>2^33\<close> seconds, where the division by 1000 in floating point is off by less than half a
  microsecond, the unit to which \<open>fromtimestamp\<close> rounds.
\<close>

section \<open>Requests and responses\<close>

record server_request =
  rq_method :: str
  rq_path :: str
  rq_remote :: "str option"
  rq_ssl_names :: "(str \<times> str) list option"
  rq_version_header :: "str option"
  rq_version_query :: "str option"
  rq_content_type :: str
  rq_content_length :: "int option"
  rq_chunks :: "str list"

record server_response =
  rs_status :: int
  rs_content_type :: str
  rs_headers :: "(str \<times> str) list"
  rs_body :: str

datatype endpoint = Agent_Card | Submit | Poll str | Traces str | Health_Startup | Health_Ready | Health_Live | Metrics_Page

definition task_id_text :: "str \<Rightarrow> bool" where
  "task_id_text s \<longleftrightarrow> 1 \<le> length s \<and> length s \<le> 128 \<and> list_all (\<lambda>c. is_alnum c \<or> c \<in> set ''._:-'') s"

definition after_prefix :: "str \<Rightarrow> str \<Rightarrow> str option" where
  "after_prefix p s = (if starts_with p s then Some (drop (length p) s) else None)"

definition route :: "str \<Rightarrow> str \<Rightarrow> endpoint option" where
  "route http_method path =
     (if http_method = ''POST'' then (if path = ''/message:send'' then Some Submit else None)
      else if http_method \<notin> set [''GET'', ''HEAD''] then None
      else if path = ''/.well-known/agent-card.json'' then Some Agent_Card
      else if path = ''/health/startup'' then Some Health_Startup
      else if path = ''/health/ready'' then Some Health_Ready
      else if path = ''/health/live'' then Some Health_Live
      else if path = ''/metrics'' then Some Metrics_Page
      else case after_prefix ''/tasks/'' path of
             Some task_id \<Rightarrow> if task_id_text task_id then Some (Poll task_id) else None
           | None \<Rightarrow> (case after_prefix ''/traces/'' path of
               Some task_id \<Rightarrow> if task_id_text task_id then Some (Traces task_id) else None
             | None \<Rightarrow> None))"

section \<open>Bounded responses\<close>

definition error_payload :: "analysis_error \<Rightarrow> str \<Rightarrow> json" where
  "error_payload e trace_id = JObj
     [(''schema_version'', JStr ''masi-a2a-error/v1''), (''error_code'', JStr (err_code e)),
      (''message'', JStr (py_take 256 (err_message e))), (''retryable'', JBool (err_retryable e)),
      (''trace_id'', JStr (if trace_id \<noteq> [] \<and> py_len trace_id \<le> 128 then trace_id else ''a2a-error''))]"

definition response_headers :: "(str \<times> str) list" where
  "response_headers = [(''A2A-Version'', A2A_VERSION), (''Cache-Control'', ''no-store''), (''X-Content-Type-Options'', ''nosniff'')]"

definition bound_error :: analysis_error where
  "bound_error = \<lparr>err_class = AnalysisErrorC, err_code = ''INTERNAL_UNAVAILABLE'', err_message = ''response bound exceeded'',
     err_http_status = 500, err_retryable = False\<rparr>"

partial_function (option) json_response ::
  "pyenv \<Rightarrow> int \<Rightarrow> json \<Rightarrow> str \<Rightarrow> int \<Rightarrow> (exn + server_response) option" where
  "json_response env limit payload content_type status =
     (case go_json_bytes env payload of
        Inl e \<Rightarrow> Some (Inl e)
      | Inr raw \<Rightarrow>
          if int (length raw) > limit
          then json_response env limit (error_payload bound_error ''response'') ''application/a2a+json'' 500
          else Some (Inr \<lparr>rs_status = status, rs_content_type = content_type, rs_headers = response_headers, rs_body = raw\<rparr>))"

definition error_response :: "pyenv \<Rightarrow> int \<Rightarrow> analysis_error \<Rightarrow> str \<Rightarrow> (exn + server_response) option" where
  "error_response env limit e trace_id =
     json_response env limit (error_payload e trace_id) ''application/a2a+json'' (err_http_status e)"

text \<open>\<open>except AnalysisError as exc: return self._error(exc, trace_id)\<close>; any other exception goes on.\<close>

definition answer_error :: "pyenv \<Rightarrow> int \<Rightarrow> exn \<Rightarrow> str \<Rightarrow> (exn + server_response) option" where
  "answer_error env limit e trace_id =
     (case e of Analysis a \<Rightarrow> error_response env limit a trace_id | _ \<Rightarrow> Some (Inl e))"

section \<open>The task document\<close>

definition iso_timestamp :: "int \<Rightarrow> exn + str" where
  "iso_timestamp ms =
     (let year = year_of (day_number (ms div 1000)); fraction = ms mod 1000 in
      if year < 1 \<or> year > 9999 then Inl ValueError
      else Inr (iso_seconds (ms div 1000) @ (if fraction = 0 then [] else ''.'' @ pad 6 (fraction * 1000)) @ ''Z''))"

definition artifact_document :: "analysis_artifact \<Rightarrow> json" where
  "artifact_document artifact = JObj
     [(''artifactId'', JStr (aa_artifact_id artifact)), (''name'', JStr ''MASI-NIDS bounded analysis''),
      (''description'', JStr ''Grounded, non-executable AnalysisArtifact.''),
      (''parts'', JArr [JObj [(''data'', dump_AnalysisArtifact artifact), (''mediaType'', JStr ''application/json'')]]),
      (''metadata'', JObj [(''artifactDigest'', JStr (aa_artifact_digest artifact)), (''nonExecutable'', JBool True)])]"

definition task_response :: "task_record \<Rightarrow> exn + json" where
  "task_response record =
     rbind (iso_timestamp (tr_updated_at_unix_ms record)) (\<lambda>timestamp.
     Inr (JObj [(''task'', JObj
       [(''id'', JStr (tr_task_id record)), (''contextId'', JStr (tr_context_id record)),
        (''status'', JObj [(''state'', JStr (task_state_str (tr_state record))), (''timestamp'', JStr timestamp)]),
        (''artifacts'', JArr (case tr_artifact record of None \<Rightarrow> [] | Some a \<Rightarrow> [artifact_document a])),
        (''history'', JArr []),
        (''metadata'', JObj
          [(''schemaVersion'', JStr ''masi-analysis-task/v1''), (''pluginId'', JStr (tr_plugin_id record)),
           (''bindingGeneration'', JInt (tr_binding_generation record)), (''inputDigest'', JStr (tr_input_digest record)),
           (''traceId'', JStr (fi_trace_id (tr_input_bundle record))), (''reasonCode'', JStr (tr_reason_code record))])])]))"

section \<open>Identity and validation\<close>

definition loopback :: "str option \<Rightarrow> bool" where
  "loopback remote \<longleftrightarrow> remote = Some ''127.0.0.1'' \<or> remote = Some ''::1''"

definition local_boundary :: "str \<Rightarrow> bool" where
  "local_boundary path \<longleftrightarrow> starts_with ''/health/'' path \<or> path = ''/metrics''"

text \<open>
  The middleware: \<open>Inl\<close> the refusal with the trace identity of its error document, \<open>Inr\<close> the requester
  identity that it attaches to the request, if any.
\<close>

definition identity_gate :: "analysis_config \<Rightarrow> server_request \<Rightarrow> analysis_error \<times> str + str option" where
  "identity_gate config rq =
     (let refuse = (\<lambda>message status trace_id. Inl (\<lparr>err_class = AnalysisErrorC, err_code = ''IDENTITY_MISMATCH'',
            err_message = message, err_http_status = status, err_retryable = False\<rparr>, trace_id)) in
      if local_boundary (rq_path rq)
      then if \<not> loopback (rq_remote rq) then refuse ''health boundary is loopback-only'' 403 ''health'' else Inr None
      else if tls_enabled (ac_tls config)
      then case filter (\<lambda>name. name \<in> set (tls_allowed_client_sans (ac_tls config))) (peer_sans (rq_ssl_names rq)) of
             [name] \<Rightarrow> Inr (Some name)
           | _ \<Rightarrow> refuse ''A2A client SAN rejected'' 401 ''identity''
      else if ac_runtime_profile config \<noteq> ''acceptance'' \<or> \<not> loopback (rq_remote rq)
      then refuse ''plaintext A2A is acceptance-loopback only'' 401 ''identity''
      else Inr (Some ''acceptance-loopback''))"

definition requester_of :: "str option \<Rightarrow> exn + str" where
  "requester_of identity =
     (case identity of
        Some name \<Rightarrow> if name = [] then Inl (AnalysisError ''IDENTITY_MISMATCH'' ''authenticated A2A identity unavailable'' 401) else Inr name
      | None \<Rightarrow> Inl (AnalysisError ''IDENTITY_MISMATCH'' ''authenticated A2A identity unavailable'' 401))"

text \<open>The truth value of an optional string.\<close>

definition given :: "str option \<Rightarrow> bool" where
  "given v \<longleftrightarrow> v \<noteq> None \<and> v \<noteq> Some []"

definition validate_version :: "server_request \<Rightarrow> exn + unit" where
  "validate_version rq =
     (let header = rq_version_header rq; query = rq_version_query rq in
      rbind (raise_if (given header \<and> given query \<and> header \<noteq> query)
        (AnalysisError ''VERSION_NOT_SUPPORTED'' ''A2A header/query versions disagree'' 400)) (\<lambda>_.
      raise_if ((if given header then header else query) \<noteq> Some A2A_VERSION)
        (AnalysisError ''VERSION_NOT_SUPPORTED'' ''A2A 1.0 is required'' 400)))"

fun read_body :: "int \<Rightarrow> int \<Rightarrow> str \<Rightarrow> str list \<Rightarrow> exn + str" where
  "read_body limit count_bytes acc [] =
     (if count_bytes = 0 then Inl (AnalysisError ''MALFORMED_REQUEST'' ''A2A body required'' 400) else Inr acc)"
| "read_body limit count_bytes acc (chunk # rest) =
     (if count_bytes + int (length chunk) > limit
      then Inl (AnalysisError ''BODY_TOO_LARGE'' ''A2A body exceeded bound before parsing'' 413)
      else read_body limit (count_bytes + int (length chunk)) (acc @ chunk) rest)"

definition bounded_body :: "int \<Rightarrow> server_request \<Rightarrow> exn + str" where
  "bounded_body limit rq =
     rbind (raise_if (case rq_content_length rq of Some n \<Rightarrow> n < 1 \<or> n > limit | None \<Rightarrow> False)
       (AnalysisError ''BODY_TOO_LARGE'' ''A2A body length rejected'' 413)) (\<lambda>_.
     read_body limit 0 [] (rq_chunks rq))"

section \<open>Endpoints\<close>

record server =
  hs_material :: runtime_material
  hs_config_path :: str
  hs_service :: service
  hs_stop :: bool

abbreviation hs_config :: "server \<Rightarrow> analysis_config" where
  "hs_config h \<equiv> rt_config (hs_material h)"

abbreviation hs_response_limit :: "server \<Rightarrow> int" where
  "hs_response_limit h \<equiv> lim_response_bytes (ac_limits (hs_config h))"

definition task_answer :: "pyenv \<Rightarrow> int \<Rightarrow> task_record \<Rightarrow> (exn + server_response) option" where
  "task_answer env limit record =
     (case task_response record of
        Inl e \<Rightarrow> answer_error env limit e (fi_trace_id (tr_input_bundle record))
      | Inr payload \<Rightarrow> json_response env limit payload ''application/a2a+json'' 200)"

text \<open>The body and the requester of a submission, in the order in which the handler asks for them.\<close>

definition submission :: "int \<Rightarrow> server_request \<Rightarrow> str option \<Rightarrow> exn + str \<times> str" where
  "submission limit rq identity =
     rbind (validate_version rq) (\<lambda>_.
     rbind (raise_if (lower_str (rq_content_type rq) \<noteq> ''application/a2a+json'')
       (AnalysisError ''CONTENT_TYPE_UNSUPPORTED'' ''Content-Type must be application/a2a+json'' 415)) (\<lambda>_.
     rbind (bounded_body limit rq) (\<lambda>raw.
     rbind (requester_of identity) (\<lambda>requester. Inr (raw, requester)))))"

definition submit_endpoint ::
  "service_env \<Rightarrow> clock \<Rightarrow> server_request \<Rightarrow> str option \<Rightarrow> server \<Rightarrow> (exn + server_response) option \<times> server" where
  "submit_endpoint env clk rq identity h =
     (let limit = hs_response_limit h in
      case submission (lim_request_bytes (ac_limits (hs_config h))) rq identity of
        Inl e \<Rightarrow> (answer_error (se_py env) limit e ''a2a-submit'', h)
      | Inr (raw, requester) \<Rightarrow>
          (case service_submit env clk raw requester (hs_service h) of
             (Inl e, s) \<Rightarrow> (answer_error (se_py env) limit e ''a2a-submit'', h\<lparr>hs_service := s\<rparr>)
           | (Inr record, s) \<Rightarrow> (task_answer (se_py env) limit record, h\<lparr>hs_service := s\<rparr>)))"

definition poll_record :: "service_env \<Rightarrow> server_request \<Rightarrow> str option \<Rightarrow> str \<Rightarrow> server \<Rightarrow> exn + task_record" where
  "poll_record env rq identity task_id h =
     rbind (validate_version rq) (\<lambda>_.
     rbind (requester_of identity) (\<lambda>requester. service_get env task_id requester (hs_service h)))"

definition poll_endpoint ::
  "service_env \<Rightarrow> server_request \<Rightarrow> str option \<Rightarrow> str \<Rightarrow> server \<Rightarrow> (exn + server_response) option" where
  "poll_endpoint env rq identity task_id h =
     (let limit = hs_response_limit h in
      case poll_record env rq identity task_id h of
        Inl e \<Rightarrow> answer_error (se_py env) limit e ''a2a-poll''
      | Inr record \<Rightarrow> task_answer (se_py env) limit record)"

definition trace_document :: "task_record \<Rightarrow> trace_row list \<Rightarrow> json" where
  "trace_document record rows = JObj
     [(''schema_version'', JStr ''masi-analysis-trace/v1''), (''task_id'', JStr (tr_task_id record)),
      (''trace_id'', JStr (fi_trace_id (tr_input_bundle record))),
      (''events'', JArr (map (\<lambda>item. JObj
         [(''sequence'', JInt (te_sequence item)), (''code'', JStr (te_code item)),
          (''occurred_at_unix_ms'', JInt (te_occurred_at_unix_ms item)), (''detail_digest'', JStr (te_detail_digest item))]) rows))]"

definition traces_endpoint ::
  "service_env \<Rightarrow> server_request \<Rightarrow> str option \<Rightarrow> str \<Rightarrow> server \<Rightarrow> (exn + server_response) option" where
  "traces_endpoint env rq identity task_id h =
     (let limit = hs_response_limit h in
      case poll_record env rq identity task_id h of
        Inl e \<Rightarrow> answer_error (se_py env) limit e ''a2a-trace''
      | Inr record \<Rightarrow>
          (case rbind (requester_of identity) (\<lambda>requester.
              traces_for_requester (se_sc env) (tr_task_id record) requester (sv_store (hs_service h))) of
             Inl e \<Rightarrow> answer_error (se_py env) limit e (fi_trace_id (tr_input_bundle record))
           | Inr rows \<Rightarrow> json_response (se_py env) limit (trace_document record rows) ''application/json'' 200))"

text \<open>\<open>s.rsplit(sep, 1)[0]\<close> and \<open>s.replace("_", " ").title()\<close> for the ASCII identifiers of the skills.\<close>

fun before_last :: "str \<Rightarrow> str \<Rightarrow> str" where
  "before_last sep [] = []"
| "before_last sep (c # s) =
     (if starts_with sep (c # s) \<and> \<not> occurs_in sep s then [] else c # before_last sep s)"

fun title_words :: "bool \<Rightarrow> str \<Rightarrow> str" where
  "title_words start [] = []"
| "title_words start (c # s) =
     (if c = CHR ''_'' then CHR '' '' # title_words True s
      else (if start then upper_char c else lower_char c) # title_words False s)"

definition skill_description :: "(str \<times> str) list" where
  "skill_description =
     [(''analyze_nids_incident'', ''Grounded incident evidence analysis.''),
      (''compare_event_windows'', ''Bounded comparison of frozen event-window references.''),
      (''draft_mitigation_advice'', ''Non-executable mitigation advice for human review.''),
      (''generate_incident_content'', ''Bounded report, notification, ticket, checklist, or retrospective draft.'')]"

definition skill_entry :: "str \<Rightarrow> exn + json" where
  "skill_entry skill =
     (case map_of skill_description skill of
        None \<Rightarrow> Inl KeyError
      | Some description \<Rightarrow> Inr (JObj
          [(''id'', JStr skill), (''name'', JStr (title_words True skill)), (''description'', JStr description),
           (''inputModes'', JArr [JStr ''application/json'']), (''outputModes'', JArr [JStr ''application/json''])]))"

definition agent_card :: "analysis_config \<Rightarrow> exn + json" where
  "agent_card config =
     rbind (mapM skill_entry SKILLS) (\<lambda>skills.
     Inr (JObj
       [(''name'', JStr ''MASI-NIDS Analysis Agent''),
        (''description'', JStr ''Grounded and non-executable security evidence analysis.''),
        (''url'', JStr (before_last ''/.well-known'' (ac_public_agent_card_url config))),
        (''protocolVersion'', JStr A2A_VERSION), (''preferredTransport'', JStr ''HTTP+JSON''), (''version'', JStr VERSION),
        (''capabilities'', JObj [(''streaming'', JBool False), (''pushNotifications'', JBool False),
          (''stateTransitionHistory'', JBool True)]),
        (''defaultInputModes'', JArr [JStr ''application/json'']), (''defaultOutputModes'', JArr [JStr ''application/json'']),
        (''skills'', JArr skills),
        (''security'', JObj [(''scheme'', JStr ''mutualTLS''), (''mtlsRequired'', JBool True), (''dynamicDiscovery'', JBool False)])]))"

definition card_endpoint :: "service_env \<Rightarrow> server_request \<Rightarrow> server \<Rightarrow> (exn + server_response) option" where
  "card_endpoint env rq h =
     (let limit = hs_response_limit h in
      case validate_version rq of
        Inl e \<Rightarrow> answer_error (se_py env) limit e ''agent-card''
      | Inr _ \<Rightarrow> (case agent_card (hs_config h) of
          Inl e \<Rightarrow> Some (Inl e)
        | Inr document \<Rightarrow> json_response (se_py env) limit document ''application/a2a+json'' 200))"

text \<open>\<open>web.json_response(health, status=200 if health[key] else 503)\<close>: \<open>json.dumps\<close> with its default separators is \<open>dumps\<close>.\<close>

definition health_response :: "((str \<times> json) list \<Rightarrow> str) \<Rightarrow> (str \<times> json) list \<Rightarrow> str \<Rightarrow> server_response" where
  "health_response dumps document key =
     \<lparr>rs_status = (if json_get document key = Some (JBool True) then 200 else 503), rs_content_type = ''application/json'',
      rs_headers = [], rs_body = dumps document\<rparr>"

text \<open>
  \<open>pg_dumps\<close> is \<open>json.dumps\<close> with its default separators, \<open>pg_fixed3\<close> the format \<open>.3f\<close>, and \<open>pg_world\<close> the
  last known status of the provider, the tool server and the peer.
\<close>

record page_env =
  pg_dumps :: "(str \<times> json) list \<Rightarrow> str"
  pg_fixed3 :: "rat \<Rightarrow> str"
  pg_world :: world

definition health_endpoint :: "page_env \<Rightarrow> clock \<Rightarrow> str \<Rightarrow> server \<Rightarrow> server_response" where
  "health_endpoint pg clk key h = health_response (pg_dumps pg) (health clk (pg_world pg) (hs_service h)) key"

definition metrics_endpoint :: "service_env \<Rightarrow> page_env \<Rightarrow> clock \<Rightarrow> server \<Rightarrow> server_response" where
  "metrics_endpoint env pg clk h =
     (let s = hs_service h in
      \<lparr>rs_status = 200, rs_content_type = ''text/plain'', rs_headers = [],
       rs_body = render (se_py env) (pg_fixed3 pg) (ck_mono clk 0) (int (length (sv_queue s))) (sv_in_flight s) (sv_metrics s)\<rparr>)"

section \<open>A request through the middleware and its handler\<close>

text \<open>
  \<open>Raised\<close> is an exception that leaves the handler, \<open>Not_Routed\<close> the response of aiohttp for a path or a method
  without a route (the middleware runs first), \<open>Diverged\<close> a handler that never answers.
\<close>

datatype answer = Answer server_response | Raised exn | Not_Routed | Diverged

definition as_answer :: "(exn + server_response) option \<Rightarrow> answer" where
  "as_answer r = (case r of None \<Rightarrow> Diverged | Some (Inl e) \<Rightarrow> Raised e | Some (Inr rs) \<Rightarrow> Answer rs)"

fun handle ::
  "service_env \<Rightarrow> page_env \<Rightarrow> clock \<Rightarrow> server_request \<Rightarrow> str option \<Rightarrow> endpoint \<Rightarrow> server \<Rightarrow> answer \<times> server" where
  "handle env pg clk rq identity Agent_Card h = (as_answer (card_endpoint env rq h), h)"
| "handle env pg clk rq identity Submit h =
     (case submit_endpoint env clk rq identity h of (r, h') \<Rightarrow> (as_answer r, h'))"
| "handle env pg clk rq identity (Poll task_id) h = (as_answer (poll_endpoint env rq identity task_id h), h)"
| "handle env pg clk rq identity (Traces task_id) h = (as_answer (traces_endpoint env rq identity task_id h), h)"
| "handle env pg clk rq identity Health_Startup h = (Answer (health_endpoint pg clk ''startup'' h), h)"
| "handle env pg clk rq identity Health_Ready h = (Answer (health_endpoint pg clk ''ready'' h), h)"
| "handle env pg clk rq identity Health_Live h = (Answer (health_endpoint pg clk ''live'' h), h)"
| "handle env pg clk rq identity Metrics_Page h = (Answer (metrics_endpoint env pg clk h), h)"

definition serve :: "service_env \<Rightarrow> page_env \<Rightarrow> clock \<Rightarrow> server_request \<Rightarrow> server \<Rightarrow> answer \<times> server" where
  "serve env pg clk rq h =
     (case identity_gate (hs_config h) rq of
        Inl (e, trace_id) \<Rightarrow> (as_answer (error_response (se_py env) (hs_response_limit h) e trace_id), h)
      | Inr identity \<Rightarrow>
          (case route (rq_method rq) (rq_path rq) of
             None \<Rightarrow> (Not_Routed, h)
           | Some ep \<Rightarrow> handle env pg clk rq identity ep h))"

section \<open>Lifecycle\<close>

definition new_server :: "clock \<Rightarrow> runtime_material \<Rightarrow> str \<Rightarrow> store \<Rightarrow> server" where
  "new_server clk material config_path st =
     \<lparr>hs_material = material, hs_config_path = config_path, hs_service = new_service clk material st, hs_stop = False\<rparr>"

text \<open>\<open>server_ssl_context\<close>: the settings that \<open>security.py\<close> makes on the context of the listener.\<close>

datatype tls_version = TLSv1_2 | TLSv1_3

record tls_context =
  tc_minimum_version :: tls_version
  tc_maximum_version :: tls_version
  tc_cert_required :: bool
  tc_cert_chain :: "str \<times> str"
  tc_verify_locations :: str

definition server_ssl_context :: "str \<Rightarrow> str \<Rightarrow> str \<Rightarrow> tls_context" where
  "server_ssl_context cert_file key_file client_ca_file =
     \<lparr>tc_minimum_version = TLSv1_3, tc_maximum_version = TLSv1_3, tc_cert_required = True,
      tc_cert_chain = (cert_file, key_file), tc_verify_locations = client_ca_file\<rparr>"

definition listener_context :: "tls_config \<Rightarrow> exn + tls_context option" where
  "listener_context tls =
     (if \<not> tls_enabled tls then Inr None
      else case (tls_cert_file tls, tls_key_file tls, tls_client_ca_file tls) of
             (Some cert, Some key, Some ca) \<Rightarrow>
               if cert \<noteq> [] \<and> key \<noteq> [] \<and> ca \<noteq> [] then Inr (Some (server_ssl_context cert key ca)) else Inl AssertionError
           | _ \<Rightarrow> Inl AssertionError)"

text \<open>\<open>run\<close> up to \<open>_stop.wait\<close>: the service starts before the listener's context is made.\<close>

definition run_begin :: "service_env \<Rightarrow> clock \<Rightarrow> server \<Rightarrow> (exn + tls_context option) \<times> server" where
  "run_begin env clk h =
     (case service_start env clk (hs_service h) of
        (Inl e, s) \<Rightarrow> (Inl e, h\<lparr>hs_service := s\<rparr>)
      | (Inr _, s) \<Rightarrow> (listener_context (ac_tls (hs_config h)), h\<lparr>hs_service := s\<rparr>))"

definition request_stop :: "server \<Rightarrow> server" where
  "request_stop h = h\<lparr>hs_service := (hs_service h)\<lparr>sv_draining := True\<rparr>, hs_stop := True\<rparr>"

definition server_reload :: "config_env \<Rightarrow> clock \<Rightarrow> server \<Rightarrow> (exn + unit) \<times> server" where
  "server_reload cfg clk h =
     (case reload_binding cfg clk (hs_config_path h) (hs_service h) of
        (Inr _, s) \<Rightarrow> (Inr (), h\<lparr>hs_service := s\<rparr>)
      | (Inl e, s) \<Rightarrow>
          if is_analysis_error e then (Inr (), h\<lparr>hs_service := s\<lparr>sv_draining := True\<rparr>\<rparr>) else (Inl e, h\<lparr>hs_service := s\<rparr>))"

text \<open>\<open>d[k] = v\<close> on a dict.\<close>

definition dict_set :: "str \<Rightarrow> json \<Rightarrow> (str \<times> json) list \<Rightarrow> (str \<times> json) list" where
  "dict_set k v = upsert v (\<lambda>_. v) k"

text \<open>The document that \<open>_write_health\<close> writes; the second clock is the one of the final reading.\<close>

definition health_document :: "clock \<Rightarrow> world \<Rightarrow> int \<Rightarrow> bool \<Rightarrow> service \<Rightarrow> (str \<times> json) list" where
  "health_document clk w pid final s =
     (let document = dict_set ''pid'' (JInt pid) (health clk w s) in
      if final
      then dict_set ''updated_at_unix_ms'' (JInt (ck_ms clk 2))
             (dict_set ''live'' (JBool False) (dict_set ''ready'' (JBool False) (dict_set ''startup'' (JBool False) document)))
      else document)"

definition write_health_bytes :: "service_env \<Rightarrow> clock \<Rightarrow> world \<Rightarrow> int \<Rightarrow> bool \<Rightarrow> server \<Rightarrow> exn + str" where
  "write_health_bytes env clk w pid final h =
     go_json_bytes (se_py env) (JObj (health_document clk w pid final (hs_service h)))"


end
