(* ===== verification/Service_Sound.thy ===== *)
theory Service_Sound
  imports Service
begin

text \<open>
  The effects of the service's operations on the store, task by task, and the invariant \<open>service_inv\<close> that
  every interleaving of submissions, workers, reloads and shutdown keeps. Theory \<open>Service_Lifecycle\<close> draws
  the conclusions.
\<close>

section \<open>What an operation does to the other tasks\<close>

abbreviation row_of :: "str \<Rightarrow> store \<Rightarrow> task_row option" where
  "row_of t st \<equiv> lookup_by tk_task_id t (tasks st)"

definition trace_count :: "str \<Rightarrow> store \<Rightarrow> nat" where
  "trace_count t st = length (seqs t st)"

text \<open>
  Only task \<open>t\<close> may change; any other task stays as it is, except that one for which \<open>old\<close> holds may be gone.
\<close>

definition evolves :: "(task_row \<Rightarrow> bool) \<Rightarrow> str \<Rightarrow> store \<Rightarrow> store \<Rightarrow> bool" where
  "evolves old t st st' \<longleftrightarrow>
     (\<forall>u row. u \<noteq> t \<longrightarrow> row_of u st = Some row \<longrightarrow>
        row_of u st' = Some row \<and> trace_count u st' = trace_count u st \<or> old row \<and> row_of u st' = None)
   \<and> (\<forall>u. u \<noteq> t \<longrightarrow> row_of u st = None \<longrightarrow> row_of u st' = None)"

lemma evolves_refl [simp]: "evolves old t st st"
  by (simp add: evolves_def)

lemma evolves_trans: "evolves old t st st1 \<Longrightarrow> evolves old t st1 st2 \<Longrightarrow> evolves old t st st2"
  unfolding evolves_def by metis

lemma evolves_same:
  assumes "\<And>u. u \<noteq> t \<Longrightarrow> row_of u st' = row_of u st" and "\<And>u. u \<noteq> t \<Longrightarrow> trace_count u st' = trace_count u st"
  shows "evolves old t st st'"
  using assms by (simp add: evolves_def)

lemma trace_count_tasks [simp]: "trace_count u (st\<lparr>tasks := ts\<rparr>) = trace_count u st"
  "trace_count u (st\<lparr>artifacts := as\<rparr>) = trace_count u st"
  by (simp_all add: trace_count_def seqs_def)

lemma append_trace_effect:
  assumes "store_inv sc st" and "append_trace sc t code detail now st = (r, st')"
  shows "tasks st' = tasks st" "artifacts st' = artifacts st"
    "u \<noteq> t \<Longrightarrow> trace_count u st' = trace_count u st"
    "r = Inr x \<Longrightarrow> trace_count t st' = Suc (trace_count t st)"
    "r = Inl e \<Longrightarrow> st' = st \<and> (is_analysis_error e \<or> row_of t st = None)"
    "row_of t st \<noteq> None \<Longrightarrow> int (trace_count t st) < sc_max_trace_events sc \<Longrightarrow> \<exists>x. r = Inr x"
  using assms(2)
  by (auto simp: append_trace_eq [OF assms(1)] trace_count_def seqs_append_trace new_trace_row_def lookup_by_None
      split: if_splits)

definition updated_row :: "task_state \<Rightarrow> str \<Rightarrow> int \<Rightarrow> task_row \<Rightarrow> task_row" where
  "updated_row state reason now r = r\<lparr>tk_state := state, tk_reason_code := reason, tk_updated_at_unix_ms := now\<rparr>"

lemma updated_row_simps [simp]:
  "tk_task_id (updated_row state reason now r) = tk_task_id r" "tk_state (updated_row state reason now r) = state"
  "tk_reason_code (updated_row state reason now r) = reason"
  "tk_idempotency_key (updated_row state reason now r) = tk_idempotency_key r"
  by (simp_all add: updated_row_def)

lemma set_state_effect:
  assumes "set_state sc t state reason now st = (r, st')"
  shows "row_of t st' = map_option (updated_row state reason now) (row_of t st)"
    "u \<noteq> t \<Longrightarrow> row_of u st' = row_of u st" "trace_count u st' = trace_count u st" "artifacts st' = artifacts st"
    "r = Inl e \<Longrightarrow> row_of t st \<noteq> None \<Longrightarrow> get_locked sc t st' = Inl e"
proof -
  let ?st = "st\<lparr>tasks := update_where (\<lambda>r. tk_task_id r = t) (updated_row state reason now) (tasks st)\<rparr>"
  have st': "st' = (if row_of t st = None then st else ?st)"
    using assms by (auto simp: set_state_def stateful_defs updated_row_def [abs_def] split: if_splits)
  have row: "row_of u ?st = map_option (\<lambda>r. if tk_task_id r = t then updated_row state reason now r else r) (row_of u st)" for u
    by (simp add: lookup_by_update)
  have same: "row_of u st = Some x \<Longrightarrow> tk_task_id x = u" for u x using lookup_by_Some [of tk_task_id] by auto
  from row [of t] same [of t] show "row_of t st' = map_option (updated_row state reason now) (row_of t st)"
    by (cases "row_of t st") (auto simp: st')
  from row same show "u \<noteq> t \<Longrightarrow> row_of u st' = row_of u st"
    by (cases "row_of u st") (auto simp: st')
  show "trace_count u st' = trace_count u st" "artifacts st' = artifacts st" by (simp_all add: st')
  show "r = Inl e \<Longrightarrow> row_of t st \<noteq> None \<Longrightarrow> get_locked sc t st' = Inl e"
    using assms by (auto simp: set_state_def stateful_defs split: if_splits)
qed

lemma complete_effect:
  assumes "complete sc t art now st = (r, st')"
  shows "u \<noteq> t \<Longrightarrow> row_of u st' = row_of u st" "trace_count u st' = trace_count u st"
    "row_of t st' = row_of t st \<or> (\<exists>row reason. row_of t st = Some row \<and> \<not> terminal (tk_state row)
       \<and> row_of t st' = Some (updated_row TASK_COMPLETED reason now row))"
    "r = Inr rec \<Longrightarrow> \<exists>row. row_of t st' = Some row \<and> terminal (tk_state row)"
proof -
  have same: "row_of u st = Some x \<Longrightarrow> tk_task_id x = u" for u x using lookup_by_Some [of tk_task_id] by auto
  note facts = complete_def complete_body_def insert_artifact_def stateful_defs lookup_by_update updated_row_def
  show "u \<noteq> t \<Longrightarrow> row_of u st' = row_of u st"
    using assms same [of u] by (cases "row_of u st")
      (auto simp: facts split: sum.splits option.splits if_splits prod.splits)
  show "trace_count u st' = trace_count u st"
    using assms by (auto simp: facts trace_count_def seqs_def split: sum.splits option.splits if_splits prod.splits)
  show "row_of t st' = row_of t st \<or> (\<exists>row reason. row_of t st = Some row \<and> \<not> terminal (tk_state row)
       \<and> row_of t st' = Some (updated_row TASK_COMPLETED reason now row))"
    using assms same [of t] by (auto simp: facts split: sum.splits option.splits if_splits prod.splits)
  show "r = Inr rec \<Longrightarrow> \<exists>row. row_of t st' = Some row \<and> terminal (tk_state row)"
    using assms same [of t] by (auto simp: facts TERMINAL_def split: sum.splits option.splits if_splits prod.splits)
qed

section \<open>Calls that touch one task\<close>

text \<open>The parts of the service that a call on the store and the metrics leaves alone.\<close>

definition quiet :: "service \<Rightarrow> service \<Rightarrow> bool" where
  "quiet s s' \<longleftrightarrow> s' = s\<lparr>sv_store := sv_store s', sv_metrics := sv_metrics s'\<rparr>"

lemma quiet_refl [simp]: "quiet s s"
  by (simp add: quiet_def)

lemma quiet_trans: "quiet s s1 \<Longrightarrow> quiet s1 s2 \<Longrightarrow> quiet s s2"
  unfolding quiet_def by (metis (no_types, lifting) service.surjective service.update_convs(3,4))

lemma quiet_fields:
  "quiet s s' \<Longrightarrow> sv_queue s' = sv_queue s" "quiet s s' \<Longrightarrow> sv_running s' = sv_running s"
  "quiet s s' \<Longrightarrow> sv_workers s' = sv_workers s" "quiet s s' \<Longrightarrow> sv_in_flight s' = sv_in_flight s"
  "quiet s s' \<Longrightarrow> sv_draining s' = sv_draining s" "quiet s s' \<Longrightarrow> sv_stopping s' = sv_stopping s"
  "quiet s s' \<Longrightarrow> sv_binding_state s' = sv_binding_state s" "quiet s s' \<Longrightarrow> sv_admission_error s' = sv_admission_error s"
  by (cases s; cases s'; simp add: quiet_def)+

named_theorems touch \<open>closure rules of \<open>touches\<close>\<close>

text \<open>\<open>touches sc t n m\<close>: whatever its outcome, \<open>m\<close> changes task \<open>t\<close> only and adds at most \<open>n\<close> events to its trace.\<close>

definition touches :: "store_config \<Rightarrow> str \<Rightarrow> nat \<Rightarrow> 'a service_call \<Rightarrow> bool" where
  "touches sc t n m \<longleftrightarrow> (\<forall>s r s'. store_inv sc (sv_store s) \<longrightarrow> m s = (r, s') \<longrightarrow>
     store_inv sc (sv_store s') \<and> quiet s s' \<and> evolves (\<lambda>_. False) t (sv_store s) (sv_store s')
   \<and> (row_of t (sv_store s) \<noteq> None \<longrightarrow> row_of t (sv_store s') \<noteq> None)
   \<and> trace_count t (sv_store s') \<le> trace_count t (sv_store s) + n)"

lemma touchesD:
  assumes "touches sc t n m" and "store_inv sc (sv_store s)" and "m s = (r, s')"
  shows "store_inv sc (sv_store s')" "quiet s s'" "evolves (\<lambda>_. False) t (sv_store s) (sv_store s')"
    "row_of t (sv_store s) \<noteq> None \<Longrightarrow> row_of t (sv_store s') \<noteq> None"
    "trace_count t (sv_store s') \<le> trace_count t (sv_store s) + n"
  using assms unfolding touches_def by blast+

lemma touches_pure [touch]: "touches sc t 0 (retS x)" "touches sc t 0 (raiseS e)" "touches sc t 0 (readS f)"
  by (auto simp: touches_def stateful_defs)

lemma touches_count [touch]: "touches sc t 0 (modifyS (count metric label))"
  by (auto simp: touches_def stateful_defs count_def quiet_def)

lemma touches_bindS [touch]:
  assumes "touches sc t n m" and "\<And>x. touches sc t k (f x)"
  shows "touches sc t (n + k) (bindS m f)"
  unfolding touches_def
proof (intro allI impI)
  fix s r s' assume inv: "store_inv sc (sv_store s)" and run: "bindS m f s = (r, s')"
  obtain q s1 where m: "m s = (q, s1)" by fastforce
  note one = touchesD [OF assms(1) inv m]
  show "store_inv sc (sv_store s') \<and> quiet s s' \<and> evolves (\<lambda>_. False) t (sv_store s) (sv_store s')
     \<and> (row_of t (sv_store s) \<noteq> None \<longrightarrow> row_of t (sv_store s') \<noteq> None)
     \<and> trace_count t (sv_store s') \<le> trace_count t (sv_store s) + (n + k)"
  proof (cases q)
    case (Inl e)
    with run m have "s' = s1" by (simp add: bindS_def)
    with one show ?thesis by auto
  next
    case (Inr x)
    with run m have "f x s1 = (r, s')" by (simp add: bindS_def)
    note two = touchesD [OF assms(2) one(1) this]
    from one two show ?thesis by (auto intro: quiet_trans evolves_trans)
  qed
qed

lemma touches_tryS [touch]:
  assumes "touches sc t n m" and "\<And>e. touches sc t k (h e)"
  shows "touches sc t (n + k) (tryS m h)"
  unfolding touches_def
proof (intro allI impI)
  fix s r s' assume inv: "store_inv sc (sv_store s)" and run: "tryS m h s = (r, s')"
  obtain q s1 where m: "m s = (q, s1)" by fastforce
  note one = touchesD [OF assms(1) inv m]
  show "store_inv sc (sv_store s') \<and> quiet s s' \<and> evolves (\<lambda>_. False) t (sv_store s) (sv_store s')
     \<and> (row_of t (sv_store s) \<noteq> None \<longrightarrow> row_of t (sv_store s') \<noteq> None)
     \<and> trace_count t (sv_store s') \<le> trace_count t (sv_store s) + (n + k)"
  proof (cases q)
    case (Inr x)
    with run m have "s' = s1" by (simp add: tryS_def)
    with one show ?thesis by auto
  next
    case (Inl e)
    with run m have "h e s1 = (r, s')" by (simp add: tryS_def)
    note two = touchesD [OF assms(2) one(1) this]
    from one two show ?thesis by (auto intro: quiet_trans evolves_trans)
  qed
qed

lemma touches_forS [touch]:
  assumes "\<And>x. touches sc t n (f x)"
  shows "touches sc t (length xs * n) (forS f xs)"
proof (induction xs)
  case Nil
  have "forS f [] = retS ()" by (rule ext) (simp add: retS_def)
  then show ?case using touches_pure(1) by simp
next
  case (Cons x xs)
  have "forS f (x # xs) = bindS (f x) (\<lambda>_. forS f xs)" by (rule ext) simp
  then show ?case using touches_bindS [OF assms Cons.IH] by simp
qed

lemma touches_mono: "touches sc t n m \<Longrightarrow> n \<le> k \<Longrightarrow> touches sc t k m"
  unfolding touches_def by (meson add_left_mono le_trans)

lemma quiet_store [simp]: "quiet s (s\<lparr>sv_store := st\<rparr>)"
  by (simp add: quiet_def)

lemma touches_on_store:
  assumes "\<And>st r st'. store_inv sc st \<Longrightarrow> m st = (r, st') \<Longrightarrow>
     store_inv sc st' \<and> evolves (\<lambda>_. False) t st st' \<and> (row_of t st \<noteq> None \<longrightarrow> row_of t st' \<noteq> None)
   \<and> trace_count t st' \<le> trace_count t st + n"
  shows "touches sc t n (on_store m)"
  unfolding touches_def
proof (intro allI impI)
  fix s r s' assume inv: "store_inv sc (sv_store s)" and run: "on_store m s = (r, s')"
  obtain q st' where m: "m (sv_store s) = (q, st')" by fastforce
  with run have "s' = s\<lparr>sv_store := st'\<rparr>" by (simp add: on_store_def)
  with assms [OF inv m] show "store_inv sc (sv_store s') \<and> quiet s s' \<and> evolves (\<lambda>_. False) t (sv_store s) (sv_store s')
     \<and> (row_of t (sv_store s) \<noteq> None \<longrightarrow> row_of t (sv_store s') \<noteq> None)
     \<and> trace_count t (sv_store s') \<le> trace_count t (sv_store s) + n"
    by simp
qed

lemma touches_append_trace [touch]: "touches sc t 1 (on_store (append_trace sc t code detail now))"
proof (rule touches_on_store)
  fix st r st' assume inv: "store_inv sc st" and run: "append_trace sc t code detail now st = (r, st')"
  note eff = append_trace_effect [OF inv run]
  have "store_inv sc st'" using preservesD [OF store_inv_append_trace inv, of t code detail now] run by simp
  moreover have "trace_count t st' \<le> trace_count t st + 1" using eff(4,5) by (cases r) auto
  ultimately show "store_inv sc st' \<and> evolves (\<lambda>_. False) t st st' \<and> (row_of t st \<noteq> None \<longrightarrow> row_of t st' \<noteq> None)
   \<and> trace_count t st' \<le> trace_count t st + 1"
    using eff(1,3) by (auto intro: evolves_same)
qed

lemma touches_set_state [touch]: "touches sc t 0 (on_store (set_state sc t state reason now))"
proof (rule touches_on_store)
  fix st r st' assume inv: "store_inv sc st" and run: "set_state sc t state reason now st = (r, st')"
  note eff = set_state_effect [OF run]
  have "store_inv sc st'" using preservesD [OF store_inv_set_state inv, of t state reason now] run by simp
  with eff(1-3) show "store_inv sc st' \<and> evolves (\<lambda>_. False) t st st' \<and> (row_of t st \<noteq> None \<longrightarrow> row_of t st' \<noteq> None)
   \<and> trace_count t st' \<le> trace_count t st + 0"
    by (auto intro: evolves_same)
qed

lemma touches_complete [touch]: "touches sc t 0 (on_store (complete sc t artifact now))"
proof (rule touches_on_store)
  fix st r st' assume inv: "store_inv sc st" and run: "complete sc t artifact now st = (r, st')"
  note eff = complete_effect [OF run]
  have "store_inv sc st'" using preservesD [OF store_inv_complete inv, of t artifact now] run by simp
  with eff(1-3) show "store_inv sc st' \<and> evolves (\<lambda>_. False) t st st' \<and> (row_of t st \<noteq> None \<longrightarrow> row_of t st' \<noteq> None)
   \<and> trace_count t st' \<le> trace_count t st + 0"
    by (auto intro: evolves_same)
qed

section \<open>The segments of a worker\<close>

lemma touches_settle [touch]: "touches (se_sc env) t 1 (settle env clk t state reason)"
proof -
  have "touches (se_sc env) t (1 + (0 + 0) + 0)
     (tryS (bindS (on_store (append_trace (se_sc env) t reason [] (ck_ms clk 20))) (\<lambda>_.
           bindS (on_store (set_state (se_sc env) t state reason (ck_ms clk 21))) (\<lambda>_. retS ())))
       (\<lambda>e. if is_analysis_error e then retS () else raiseS e))"
    by (intro touches_tryS touches_bindS touches_append_trace touches_set_state touches_pure) (auto intro: touch)
  then show ?thesis by (simp add: settle_def)
qed

lemma worker_except_settles:
  "\<exists>state reason label. terminal state
     \<and> worker_except env clk t e = bindS (settle env clk t state reason) (\<lambda>_. modifyS (count ''tasks'' label))"
  unfolding worker_except_def Let_def by (cases "exn_code e") (auto simp: TERMINAL_def)

lemma touches_worker_except [touch]: "touches (se_sc env) t 1 (worker_except env clk t e)"
proof -
  obtain state reason label where "worker_except env clk t e
      = bindS (settle env clk t state reason) (\<lambda>_. modifyS (count ''tasks'' label))"
    using worker_except_settles [of env clk t e] by blast
  then show ?thesis
    using touches_bindS [OF touches_settle touches_count, of env t clk state reason "\<lambda>_. ''tasks''" "\<lambda>_. label"] by simp
qed

lemma touches_dispatch [touch]: "touches (se_sc env) (wi_task_id item) 1 (dispatch env clk item)"
proof -
  let ?t = "wi_task_id item"
  have stop: "touches (se_sc env) ?t 1 (bindS (on_store (set_state (se_sc env) ?t TASK_REJECTED ''DRAINING'' (ck_ms clk 0)))
      (\<lambda>_. retS False))"
    using touches_bindS [OF touches_set_state touches_pure(1)] by (rule touches_mono) simp
  have run: "touches (se_sc env) ?t (0 + (0 + (1 + 0)))
     (bindS (readS (\<lambda>s. matches_input (sv_binding_state s) (wi_input_bundle item) (ck_ms clk 0))) (\<lambda>_.
           bindS (on_store (set_state (se_sc env) ?t TASK_WORKING ''GRAPH_RUNNING'' (ck_ms clk 1))) (\<lambda>_.
           bindS (on_store (append_trace (se_sc env) ?t ''GRAPH_DISPATCHED'' [] (ck_ms clk 2))) (\<lambda>_. retS True))))"
    by (intro touches_bindS touch)
  show ?thesis
    unfolding touches_def
  proof (intro allI impI)
    fix s r s' assume inv: "store_inv (se_sc env) (sv_store s)" and d: "dispatch env clk item s = (r, s')"
    show "store_inv (se_sc env) (sv_store s') \<and> quiet s s' \<and> evolves (\<lambda>_. False) ?t (sv_store s) (sv_store s')
       \<and> (row_of ?t (sv_store s) \<noteq> None \<longrightarrow> row_of ?t (sv_store s') \<noteq> None)
       \<and> trace_count ?t (sv_store s') \<le> trace_count ?t (sv_store s) + 1"
      using d touchesD [OF stop inv] touchesD [OF run inv] unfolding dispatch_def Let_def
      by (cases "sv_stopping s") auto
  qed
qed

lemma touches_conclude:
  "touches (se_sc env) (wi_task_id item) (case outcome of Inl _ \<Rightarrow> 0 | Inr (x, codes) \<Rightarrow> length codes) (conclude env clk item outcome)"
proof (cases outcome)
  case (Inl e)
  then have "conclude env clk item outcome = raiseS e"
    by (intro ext) (simp add: conclude_def Let_def bindS_def readS_def raiseS_def)
  with Inl show ?thesis by (simp add: touches_pure)
next
  case (Inr y)
  obtain x codes where y: "y = (x, codes)" by fastforce
  let ?t = "wi_task_id item"
  let ?loop = "forS (\<lambda>(n, code). bindS (on_store (append_trace (se_sc env) ?t code [] (ck_ms clk n))) (\<lambda>_. retS ())) (enumerate_from 1 codes)"
  have one: "touches (se_sc env) ?t 1 (case p of (n, code) \<Rightarrow> bindS (on_store (append_trace (se_sc env) ?t code [] (ck_ms clk n))) (\<lambda>_. retS ()))" for p
    using touches_bindS [OF touches_append_trace touches_pure(1), of "se_sc env" ?t _ _ _ "\<lambda>_. ()"] by (cases p) simp
  have loop: "touches (se_sc env) ?t (length codes) ?loop"
    using touches_forS [OF one, of "enumerate_from 1 codes"] by simp
  have "touches (se_sc env) ?t (0 + (length codes + (0 + 0)))
     (bindS (readS (\<lambda>s. matches_input (sv_binding_state s) (wi_input_bundle item) (ck_ms clk 0))) (\<lambda>_.
      bindS ?loop (\<lambda>_. bindS (on_store (complete (se_sc env) ?t x (ck_ms clk 19))) (\<lambda>record.
      modifyS (count ''tasks'' (case tr_artifact record of Some a \<Rightarrow> aa_analysis_outcome a | None \<Rightarrow> ''failed''))))))"
    by (intro touches_bindS loop touch)
  moreover have "conclude env clk item outcome =
     bindS (readS (\<lambda>s. matches_input (sv_binding_state s) (wi_input_bundle item) (ck_ms clk 0))) (\<lambda>_.
      bindS ?loop (\<lambda>_. bindS (on_store (complete (se_sc env) ?t x (ck_ms clk 19))) (\<lambda>record.
      modifyS (count ''tasks'' (case tr_artifact record of Some a \<Rightarrow> aa_analysis_outcome a | None \<Rightarrow> ''failed'')))))"
    by (rule ext) (simp add: conclude_def Let_def Inr y bindS_def [of "readS (\<lambda>_. _)"] readS_def [of "\<lambda>_. Inr (x, codes)"])
  ultimately show ?thesis using Inr y by simp
qed

text \<open>What the segments leave of their own task.\<close>

definition in_state :: "str \<Rightarrow> (task_state \<Rightarrow> bool) \<Rightarrow> store \<Rightarrow> bool" where
  "in_state t P st \<longleftrightarrow> (\<exists>row. row_of t st = Some row \<and> P (tk_state row))"

abbreviation finished :: "str \<Rightarrow> store \<Rightarrow> bool" where
  "finished t st \<equiv> in_state t terminal st"

lemma settle_finishes:
  assumes "store_inv (se_sc env) (sv_store s)" and "row_of t (sv_store s) \<noteq> None" and "terminal state"
    and "int (trace_count t (sv_store s)) < sc_max_trace_events (se_sc env)"
    and "settle env clk t state reason s = (r, s')"
  shows "finished t (sv_store s')"
proof -
  obtain q st1 where a: "append_trace (se_sc env) t reason [] (ck_ms clk 20) (sv_store s) = (q, st1)" by fastforce
  note eff = append_trace_effect [OF assms(1) a]
  obtain x where q: "q = Inr x" using eff(6) [OF assms(2,4)] by blast
  obtain p st2 where b: "set_state (se_sc env) t state reason (ck_ms clk 21) st1 = (p, st2)" by fastforce
  have "sv_store s' = st2"
    using assms(5) a q b by (cases p) (auto simp: settle_def stateful_defs on_store_def split: if_splits)
  moreover have "row_of t st2 = map_option (updated_row state reason (ck_ms clk 21)) (row_of t (sv_store s))"
    using set_state_effect(1) [OF b] eff(1) by simp
  ultimately show ?thesis using assms(2,3) by (auto simp: in_state_def)
qed

lemma worker_except_finishes:
  assumes "store_inv (se_sc env) (sv_store s)" and "row_of t (sv_store s) \<noteq> None"
    and "int (trace_count t (sv_store s)) < sc_max_trace_events (se_sc env)"
    and "worker_except env clk t e s = (r, s')"
  shows "finished t (sv_store s')"
proof -
  obtain state reason label where state: "terminal state"
    and eq: "worker_except env clk t e = bindS (settle env clk t state reason) (\<lambda>_. modifyS (count ''tasks'' label))"
    using worker_except_settles [of env clk t e] by blast
  obtain q s1 where one: "settle env clk t state reason s = (q, s1)" by fastforce
  with assms(4) have "sv_store s' = sv_store s1"
    by (cases q) (auto simp: eq bindS_def modifyS_def count_def)
  with settle_finishes [OF assms(1,2) state assms(3) one] show ?thesis by simp
qed

lemma dispatch_outcome:
  assumes "store_inv (se_sc env) (sv_store s)" and "row_of (wi_task_id item) (sv_store s) \<noteq> None"
    and "dispatch env clk item s = (Inr going, s')"
  shows "if going then in_state (wi_task_id item) (\<lambda>q. q = TASK_WORKING) (sv_store s')
       \<and> trace_count (wi_task_id item) (sv_store s') = Suc (trace_count (wi_task_id item) (sv_store s))
     else finished (wi_task_id item) (sv_store s')"
proof (cases "sv_stopping s")
  case True
  obtain q st1 where b: "set_state (se_sc env) (wi_task_id item) TASK_REJECTED ''DRAINING'' (ck_ms clk 0) (sv_store s) = (q, st1)" by fastforce
  with assms(3) True have "\<not> going" "sv_store s' = st1"
    by (auto simp: dispatch_def Let_def stateful_defs on_store_def split: sum.splits)
  with set_state_effect(1) [OF b] assms(2) show ?thesis by (auto simp: in_state_def TERMINAL_def)
next
  case False
  let ?t = "wi_task_id item"
  obtain q st1 where b: "set_state (se_sc env) ?t TASK_WORKING ''GRAPH_RUNNING'' (ck_ms clk 1) (sv_store s) = (q, st1)" by fastforce
  obtain p st2 where a: "append_trace (se_sc env) ?t ''GRAPH_DISPATCHED'' [] (ck_ms clk 2) st1 = (p, st2)" by fastforce
  have inv1: "store_inv (se_sc env) st1"
    using preservesD [OF store_inv_set_state assms(1), of ?t TASK_WORKING "''GRAPH_RUNNING''" "ck_ms clk 1"] b by simp
  from assms(3) False a b have s': "going" "sv_store s' = st2" "\<exists>x. p = Inr x"
    by (auto simp: dispatch_def Let_def stateful_defs on_store_def split: sum.splits prod.splits)
  from append_trace_effect(1,4) [OF inv1 a] set_state_effect(1,3) [OF b] s'(3)
  have "row_of ?t st2 = map_option (updated_row TASK_WORKING ''GRAPH_RUNNING'' (ck_ms clk 1)) (row_of ?t (sv_store s))"
    "trace_count ?t st2 = Suc (trace_count ?t (sv_store s))"
    by auto
  with s' assms(2) show ?thesis by (auto simp: in_state_def)
qed

lemma conclude_finishes:
  assumes "conclude env clk item outcome s = (Inr u, s')"
  shows "finished (wi_task_id item) (sv_store s')"
proof -
  from assms obtain x rec s1 s2 where "on_store (complete (se_sc env) (wi_task_id item) x (ck_ms clk 19)) s1 = (Inr rec, s2)"
    and "sv_store s' = sv_store s2"
    unfolding conclude_def Let_def by (auto simp: bindS_Inr modifyS_def count_def split: prod.splits)
  then obtain st2 where "complete (se_sc env) (wi_task_id item) x (ck_ms clk 19) (sv_store s1) = (Inr rec, st2)" "sv_store s' = st2"
    by (auto simp: on_store_def split: prod.splits)
  with complete_effect(4) show ?thesis by (metis in_state_def)
qed

lemma worker_close_effect:
  assumes inv: "store_inv (se_sc env) (sv_store s)" and run: "worker_close env clk t started (r, s) = s'"
  shows "store_inv (se_sc env) (sv_store s')" "evolves (\<lambda>_. False) t (sv_store s) (sv_store s')"
    "sv_queue s' = sv_queue s" "sv_running s' = sv_running s" "sv_in_flight s' = sv_in_flight s - 1"
    "sv_workers s' = sv_workers s \<or> sv_workers s' = sv_workers s - 1"
    "sv_draining s' = sv_draining s" "sv_binding_state s' = sv_binding_state s"
    "r = Inr u \<Longrightarrow> sv_store s' = sv_store s"
    "r = Inl e \<Longrightarrow> row_of t (sv_store s) \<noteq> None \<Longrightarrow>
       int (trace_count t (sv_store s)) < sc_max_trace_events (se_sc env) \<Longrightarrow> finished t (sv_store s')"
proof -
  define p s1 where "p x = fst (worker_except env clk t x s)" and "s1 x = snd (worker_except env clk t x s)" for x
  then have ex: "worker_except env clk t x s = (p x, s1 x)" for x by simp
  note eff = touchesD [OF touches_worker_except inv ex]
  have "store_inv (se_sc env) (sv_store s') \<and> evolves (\<lambda>_. False) t (sv_store s) (sv_store s')
    \<and> sv_queue s' = sv_queue s \<and> sv_running s' = sv_running s \<and> sv_in_flight s' = sv_in_flight s - 1
    \<and> (sv_workers s' = sv_workers s \<or> sv_workers s' = sv_workers s - 1)
    \<and> sv_draining s' = sv_draining s \<and> sv_binding_state s' = sv_binding_state s"
  proof (cases r)
    case (Inl x)
    then have "s' = (case p x of Inr _ \<Rightarrow> worker_finally env clk started (s1 x)
        | Inl _ \<Rightarrow> (worker_finally env clk started (s1 x))\<lparr>sv_workers := sv_workers (s1 x) - 1\<rparr>)"
      using run ex by (simp add: worker_close_def split: sum.splits)
    with eff(1,3) [of x] quiet_fields [OF eff(2) [of x]] show ?thesis
      by (auto simp: worker_finally_def split: sum.splits)
  next
    case (Inr x)
    with run inv show ?thesis by (auto simp: worker_close_def worker_finally_def)
  qed
  then show "store_inv (se_sc env) (sv_store s')" "evolves (\<lambda>_. False) t (sv_store s) (sv_store s')"
    "sv_queue s' = sv_queue s" "sv_running s' = sv_running s" "sv_in_flight s' = sv_in_flight s - 1"
    "sv_workers s' = sv_workers s \<or> sv_workers s' = sv_workers s - 1"
    "sv_draining s' = sv_draining s" "sv_binding_state s' = sv_binding_state s"
    by simp_all
  show "r = Inr u \<Longrightarrow> sv_store s' = sv_store s" using run by (auto simp: worker_close_def worker_finally_def)
  assume "r = Inl e" and row: "row_of t (sv_store s) \<noteq> None" "int (trace_count t (sv_store s)) < sc_max_trace_events (se_sc env)"
  then have "sv_store s' = sv_store (s1 e)"
    using run ex [of e] by (auto simp: worker_close_def worker_finally_def split: sum.splits)
  with worker_except_finishes [OF inv row ex [of e]] show "finished t (sv_store s')" by simp
qed

section \<open>Submission and the other tasks\<close>

abbreviation expired :: "store_config \<Rightarrow> int \<Rightarrow> task_row \<Rightarrow> bool" where
  "expired sc now row \<equiv> tk_updated_at_unix_ms row < now - sc_retention_ms sc \<and> terminal (tk_state row)"

lemma purge_rows:
  assumes "store_inv sc st"
  shows "row_of u (purge_expired sc now st) = (if u \<in> tk_task_id ` purged sc now st then None else row_of u st)"
    and "u \<notin> tk_task_id ` purged sc now st \<Longrightarrow> trace_count u (purge_expired sc now st) = trace_count u st"
    and "u \<in> tk_task_id ` purged sc now st \<Longrightarrow> row_of u st = Some row \<Longrightarrow> expired sc now row"
proof -
  show "row_of u (purge_expired sc now st) = (if u \<in> tk_task_id ` purged sc now st then None else row_of u st)"
    by (simp add: purge_expired_eq lookup_by_filter_key)
  assume "u \<notin> tk_task_id ` purged sc now st"
  then have "filter (\<lambda>r. te_task_id r = u \<and> te_task_id r \<notin> tk_task_id ` purged sc now st) (trace_events st)
      = filter (\<lambda>r. te_task_id r = u) (trace_events st)"
    by (intro filter_cong) auto
  then show "trace_count u (purge_expired sc now st) = trace_count u st"
    by (simp add: trace_count_def seqs_def purge_expired_eq conj_commute)
next
  assume "u \<in> tk_task_id ` purged sc now st" and row: "row_of u st = Some row"
  then obtain q where q: "q \<in> purged sc now st" "tk_task_id q = u" by blast
  from purged_old_terminal [OF q(1)] assms q(2) have "row_of u st = Some q"
    by (auto simp: store_inv_def keys_ok_def intro: lookup_by_unique)
  with row purged_old_terminal [OF q(1)] show "expired sc now row" by simp
qed

lemma new_task_row_simps [simp]:
  "tk_task_id (new_task_row i rd cid req raw now) = fi_task_id i"
  "tk_idempotency_key (new_task_row i rd cid req raw now) = fi_idempotency_key i"
  "tk_state (new_task_row i rd cid req raw now) = TASK_SUBMITTED"
  by (simp_all add: new_task_row_def)

definition created :: "store_config \<Rightarrow> frozen_input \<Rightarrow> int \<Rightarrow> store \<Rightarrow> store \<Rightarrow> bool" where
  "created sc i now st st' \<longleftrightarrow> row_of (fi_task_id i) (purge_expired sc now st) = None
     \<and> (\<exists>row. tk_task_id row = fi_task_id i \<and> tk_state row = TASK_SUBMITTED
          \<and> st' = (purge_expired sc now st)\<lparr>tasks := tasks (purge_expired sc now st) @ [row]\<rparr>)"

lemma createdI:
  "row_of (fi_task_id i) (purge_expired sc now st) = None \<Longrightarrow>
   created sc i now st ((purge_expired sc now st)\<lparr>tasks := tasks (purge_expired sc now st) @ [new_task_row i rd cid req raw now]\<rparr>)"
  unfolding created_def by (metis new_task_row_simps(1,3))

lemma submit_states:
  assumes "submit sc i rd cid req now st = (r, st')"
  shows "st' = st \<or> st' = purge_expired sc now st \<or> created sc i now st st'"
    and "r = Inr (rec, True) \<Longrightarrow> created sc i now st st'"
  using assms
  by (auto simp: submit_def submit_body_def stateful_defs insert_task_def store_get_def
      intro: createdI split: sum.splits option.splits if_splits prod.splits)

lemma trace_count_unknown: "store_inv sc st \<Longrightarrow> row_of t st = None \<Longrightarrow> trace_count t st = 0"
  by (auto simp: store_inv_def refs_ok_def trace_count_def seqs_def lookup_by_None filter_empty_conv)

lemma submit_effect:
  assumes inv: "store_inv sc st" and run: "submit sc i rd cid req now st = (r, st')"
  shows "evolves (expired sc now) (fi_task_id i) st st'"
    and "row_of (fi_task_id i) st = Some row \<Longrightarrow> \<not> expired sc now row \<Longrightarrow>
           row_of (fi_task_id i) st' = Some row \<and> trace_count (fi_task_id i) st' = trace_count (fi_task_id i) st"
    and "r = Inr (rec, True) \<Longrightarrow> in_state (fi_task_id i) (\<lambda>q. q = TASK_SUBMITTED) st' \<and> trace_count (fi_task_id i) st' = 0
           \<and> (\<forall>row. row_of (fi_task_id i) st = Some row \<longrightarrow> expired sc now row)"
proof -
  let ?t = "fi_task_id i" and ?p = "purge_expired sc now st"
  have p: "evolves (expired sc now) t st ?p" for t
    using purge_rows [OF inv, of _ now] unfolding evolves_def by (metis (no_types, lifting) option.distinct(1))
  have new: "evolves old ?t ?p (?p\<lparr>tasks := tasks ?p @ [row]\<rparr>)" if "tk_task_id row = ?t" for row old
    by (rule evolves_same) (use that in \<open>auto split: option.splits\<close>)
  note cases = submit_states(1) [OF run]
  from cases show "evolves (expired sc now) ?t st st'"
    using p evolves_trans [OF p [of ?t] new] by (elim disjE) (auto simp: created_def)
  assume "row_of ?t st = Some row" "\<not> expired sc now row"
  then have "row_of ?t ?p = Some row" "trace_count ?t ?p = trace_count ?t st"
    using purge_rows [OF inv, of ?t now] by (auto split: if_splits)
  with cases \<open>row_of ?t st = Some row\<close> show "row_of ?t st' = Some row \<and> trace_count ?t st' = trace_count ?t st"
    by (auto simp: created_def)
next
  let ?t = "fi_task_id i" and ?p = "purge_expired sc now st"
  assume "r = Inr (rec, True)"
  with submit_states(2) [OF run] obtain row where row: "tk_task_id row = ?t" "tk_state row = TASK_SUBMITTED" "row_of ?t ?p = None"
    "st' = ?p\<lparr>tasks := tasks ?p @ [row]\<rparr>"
    unfolding created_def by blast
  then have "row_of ?t st' = Some row" by simp
  moreover have "trace_count ?t st' = 0" using trace_count_unknown [OF store_inv_purge [OF inv] row(3)] row(4) by simp
  moreover have "expired sc now q" if "row_of ?t st = Some q" for q
    using that row(3) purge_rows(1,3) [OF inv, of ?t now] by (auto split: if_splits)
  ultimately show "in_state ?t (\<lambda>q. q = TASK_SUBMITTED) st' \<and> trace_count ?t st' = 0
       \<and> (\<forall>row. row_of ?t st = Some row \<longrightarrow> expired sc now row)"
    using row(2) by (auto simp: in_state_def)
qed

section \<open>The invariant\<close>

definition holds :: "store \<Rightarrow> task_state \<Rightarrow> nat \<Rightarrow> work_item \<Rightarrow> bool" where
  "holds st state n item \<longleftrightarrow>
     in_state (wi_task_id item) (\<lambda>q. q = state) st \<and> trace_count (wi_task_id item) st = n"

definition tracked :: "service \<Rightarrow> str list" where
  "tracked s = map wi_task_id (sv_queue s @ map fst (sv_running s))"

definition service_inv :: "service_env \<Rightarrow> service \<Rightarrow> bool" where
  "service_inv env s \<longleftrightarrow>
     store_inv (se_sc env) (sv_store s) \<and> distinct (tracked s)
   \<and> list_all (holds (sv_store s) TASK_SUBMITTED 1) (sv_queue s)
   \<and> list_all (holds (sv_store s) TASK_WORKING 2) (map fst (sv_running s))
   \<and> (0 < se_maxsize env \<longrightarrow> int (length (sv_queue s)) \<le> se_maxsize env)
   \<and> length (sv_running s) \<le> sv_workers s \<and> sv_workers s \<le> se_concurrency env
   \<and> sv_in_flight s = int (length (sv_running s))"

lemma live_states [simp]: "\<not> terminal TASK_SUBMITTED" "\<not> terminal TASK_WORKING"
  by (simp_all add: TERMINAL_def)

lemma holds_evolves:
  assumes "evolves old t st st'" and "\<And>row. old row \<Longrightarrow> terminal (tk_state row)"
    and "wi_task_id item \<noteq> t" and "\<not> terminal state" and "holds st state n item"
  shows "holds st' state n item"
  using assms unfolding holds_def in_state_def evolves_def by blast

lemma list_all_holds_evolves:
  assumes "evolves old t st st'" and "\<And>row. old row \<Longrightarrow> terminal (tk_state row)"
    and "t \<notin> set (map wi_task_id items)" and "\<not> terminal state" and "list_all (holds st state n) items"
  shows "list_all (holds st' state n) items"
  using assms(3,5) by (auto simp: list_all_iff intro!: holds_evolves [OF assms(1,2) _ assms(4)])

text \<open>
  What is left of the invariant when a worker has taken its item, whose task is \<open>t\<close>: the other items.
\<close>

definition rest_inv :: "service_env \<Rightarrow> str \<Rightarrow> service \<Rightarrow> bool" where
  "rest_inv env t s \<longleftrightarrow>
     store_inv (se_sc env) (sv_store s) \<and> distinct (tracked s) \<and> t \<notin> set (tracked s)
   \<and> list_all (holds (sv_store s) TASK_SUBMITTED 1) (sv_queue s)
   \<and> list_all (holds (sv_store s) TASK_WORKING 2) (map fst (sv_running s))
   \<and> (0 < se_maxsize env \<longrightarrow> int (length (sv_queue s)) \<le> se_maxsize env)
   \<and> Suc (length (sv_running s)) \<le> sv_workers s \<and> sv_workers s \<le> se_concurrency env
   \<and> sv_in_flight s = int (Suc (length (sv_running s)))"

lemma rest_inv_evolves:
  assumes "rest_inv env t s" and "store_inv (se_sc env) (sv_store s')"
    and "evolves (\<lambda>_. False) t (sv_store s) (sv_store s')"
    and "sv_queue s' = sv_queue s" "sv_running s' = sv_running s" "sv_workers s' = sv_workers s"
      "sv_in_flight s' = sv_in_flight s"
  shows "rest_inv env t s'"
  using assms by (auto simp: rest_inv_def tracked_def intro: list_all_holds_evolves [OF assms(3)])

lemma rest_inv_touched:
  assumes "rest_inv env t s" and "touches (se_sc env) t n m" and "m s = (r, s')"
  shows "rest_inv env t s'"
proof -
  from assms(1) have "store_inv (se_sc env) (sv_store s)" by (simp add: rest_inv_def)
  note eff = touchesD [OF assms(2) this assms(3)]
  from rest_inv_evolves [OF assms(1) eff(1,3)] quiet_fields [OF eff(2)] show ?thesis by simp
qed

lemma rest_inv_close:
  assumes "rest_inv env t s"
  shows "service_inv env (worker_close env clk t started (r, s))"
proof -
  from assms have inv: "store_inv (se_sc env) (sv_store s)" by (simp add: rest_inv_def)
  obtain s' where s': "worker_close env clk t started (r, s) = s'" by simp
  note eff = worker_close_effect [OF inv s']
  have "list_all (holds (sv_store s') TASK_SUBMITTED 1) (sv_queue s)"
    "list_all (holds (sv_store s') TASK_WORKING 2) (map fst (sv_running s))"
    using assms by (auto simp: rest_inv_def tracked_def intro!: list_all_holds_evolves [OF eff(2)])
  with assms eff(1,3-6) show ?thesis
    by (auto simp: s' service_inv_def rest_inv_def tracked_def)
qed

lemma service_inv_begin:
  assumes "service_inv env s" and "length (sv_running s) < sv_workers s"
  shows "service_inv env (worker_begin env clk s)"
proof (cases "sv_queue s")
  case Nil
  with assms(1) show ?thesis by (simp add: worker_begin_def)
next
  case (Cons item rest)
  define s1 where "s1 = s\<lparr>sv_queue := rest, sv_in_flight := sv_in_flight s + 1, sv_last_progress_monotonic := ck_mono clk 0\<rparr>"
  let ?t = "wi_task_id item"
  have rest: "rest_inv env ?t s1" and item: "holds (sv_store s1) TASK_SUBMITTED 1 item"
    using assms Cons by (auto simp: service_inv_def rest_inv_def tracked_def s1_def)
  then have inv: "store_inv (se_sc env) (sv_store s1)" by (simp add: rest_inv_def)
  obtain r s2 where d: "dispatch env clk item s1 = (r, s2)" by fastforce
  have rest2: "rest_inv env ?t s2" by (rule rest_inv_touched [OF rest touches_dispatch d])
  have b: "worker_begin env clk s = (case dispatch env clk item s1 of
             (Inr True, s2) \<Rightarrow> s2\<lparr>sv_running := sv_running s2 @ [(item, ck_mono clk 1)]\<rparr>
           | (Inr False, s2) \<Rightarrow> worker_close env clk ?t (ck_mono clk 1) (Inr (), s2)
           | (Inl e, s2) \<Rightarrow> worker_close env clk ?t (ck_mono clk 1) (Inl e, s2))"
    by (simp add: worker_begin_def Cons s1_def Let_def del: One_nat_def)
  show ?thesis
  proof (cases "r = Inr True")
    case True
    from dispatch_outcome [OF inv _ d [unfolded True]] item have "holds (sv_store s2) TASK_WORKING 2 item"
      by (auto simp: holds_def in_state_def)
    with rest2 show ?thesis
      by (auto simp: b d True service_inv_def rest_inv_def tracked_def)
  next
    case False
    then have "\<exists>q. worker_begin env clk s = worker_close env clk ?t (ck_mono clk 1) (q, s2)"
      unfolding b d by (cases r) (auto simp del: One_nat_def)
    then show ?thesis using rest_inv_close [OF rest2] by metis
  qed
qed

lemma set_drop_nth: "distinct xs \<Longrightarrow> i < length xs \<Longrightarrow> set (drop_nth i xs) = set xs - {xs ! i}"
proof (induction i xs rule: drop_nth.induct)
  case (3 n x xs)
  then have d: "distinct xs" "n < length xs" "x \<notin> set xs" by simp_all
  have "xs ! n \<noteq> x" using d(2,3) nth_mem by metis
  with "3.IH" [OF d(1,2)] show ?case by (simp add: insert_Diff_if)
qed auto

lemma map_drop_nth: "map f (drop_nth i xs) = drop_nth i (map f xs)"
  by (induction i xs rule: drop_nth.induct) auto

lemma length_drop_nth: "i < length xs \<Longrightarrow> Suc (length (drop_nth i xs)) = length xs"
  by (induction i xs rule: drop_nth.induct) auto

lemma set_drop_nth_subset: "set (drop_nth i xs) \<subseteq> set xs"
  by (induction i xs rule: drop_nth.induct) auto

lemma distinct_drop_nth: "distinct xs \<Longrightarrow> distinct (drop_nth i xs)"
proof (induction i xs rule: drop_nth.induct)
  case (3 n x xs)
  then show ?case using set_drop_nth_subset [of n xs] by auto
qed auto

lemma rest_inv_taken:
  assumes "service_inv env s" and "i < length (sv_running s)"
  shows "rest_inv env (wi_task_id (fst (sv_running s ! i))) (s\<lparr>sv_running := drop_nth i (sv_running s)\<rparr>)"
    and "holds (sv_store s) TASK_WORKING 2 (fst (sv_running s ! i))"
proof -
  let ?ids = "map wi_task_id (map fst (sv_running s))"
  have d: "distinct ?ids" "set (map wi_task_id (sv_queue s)) \<inter> set ?ids = {}" "distinct (map wi_task_id (sv_queue s))"
    using assms(1) by (auto simp: service_inv_def tracked_def)
  have ids: "tracked (s\<lparr>sv_running := drop_nth i (sv_running s)\<rparr>) = map wi_task_id (sv_queue s) @ drop_nth i ?ids"
    by (simp add: tracked_def map_drop_nth)
  have nth: "?ids ! i = wi_task_id (fst (sv_running s ! i))" using assms(2) by simp
  have set': "set (drop_nth i ?ids) = set ?ids - {wi_task_id (fst (sv_running s ! i))}"
    using set_drop_nth [OF d(1), of i] assms(2) nth by simp
  have mem: "wi_task_id (fst (sv_running s ! i)) \<in> set ?ids" using assms(2) nth by (metis length_map nth_mem)
  note sub = set_drop_nth_subset [of i "sv_running s"]
  have "distinct (map wi_task_id (sv_queue s) @ drop_nth i ?ids)"
    "wi_task_id (fst (sv_running s ! i)) \<notin> set (map wi_task_id (sv_queue s) @ drop_nth i ?ids)"
    using d set' mem distinct_drop_nth [OF d(1), of i] by (auto simp del: set_map map_map)
  moreover have "list_all (holds (sv_store s) TASK_WORKING 2) (map fst (drop_nth i (sv_running s)))"
    using assms(1) sub by (auto simp: service_inv_def list_all_iff)
  ultimately show "rest_inv env (wi_task_id (fst (sv_running s ! i))) (s\<lparr>sv_running := drop_nth i (sv_running s)\<rparr>)"
    using assms(1) length_drop_nth [OF assms(2)] unfolding rest_inv_def ids by (simp add: service_inv_def)
  show "holds (sv_store s) TASK_WORKING 2 (fst (sv_running s ! i))"
    using assms by (auto simp: service_inv_def list_all_iff)
qed

lemma service_inv_end:
  assumes "service_inv env s" and "i < length (sv_running s)"
  shows "service_inv env (worker_end env clk i outcome s)"
proof -
  obtain item started where item: "sv_running s ! i = (item, started)" by fastforce
  let ?s = "s\<lparr>sv_running := drop_nth i (sv_running s)\<rparr>"
  obtain r s1 where c: "conclude env clk item outcome ?s = (r, s1)" by fastforce
  have "rest_inv env (wi_task_id item) s1"
    using rest_inv_taken(1) [OF assms] rest_inv_touched [OF _ touches_conclude c] by (simp add: item)
  then show ?thesis by (simp add: worker_end_def item c rest_inv_close)
qed

lemma service_inv_control [simp]:
  "service_inv env (count metric label s) = service_inv env s"
  "service_inv env (s\<lparr>sv_draining := b\<rparr>) = service_inv env s"
  "service_inv env (drain_begin s) = service_inv env s"
  "service_inv env (s\<lparr>sv_last_progress_monotonic := p\<rparr>) = service_inv env s"
  by (simp_all add: service_inv_def tracked_def count_def drain_begin_def)

lemma service_inv_touched:
  assumes "service_inv env s" and "t \<notin> set (tracked s)" and "touches (se_sc env) t n m" and "m s = (r, s')"
  shows "service_inv env s'" and "set (tracked s') = set (tracked s)"
proof -
  from assms(1) have inv: "store_inv (se_sc env) (sv_store s)" by (simp add: service_inv_def)
  note eff = touchesD [OF assms(3) inv assms(4)]
  have "list_all (holds (sv_store s') TASK_SUBMITTED 1) (sv_queue s)"
    "list_all (holds (sv_store s') TASK_WORKING 2) (map fst (sv_running s))"
    using assms(1,2) by (auto simp: service_inv_def tracked_def intro!: list_all_holds_evolves [OF eff(3)])
  with assms(1) eff(1) quiet_fields [OF eff(2)] show "service_inv env s'"
    by (auto simp: service_inv_def tracked_def)
  show "set (tracked s') = set (tracked s)" using quiet_fields [OF eff(2)] by (simp add: tracked_def)
qed

lemma submit_holds:
  assumes "store_inv sc st" and "submit sc i rd cid req now st = (r, st')" and "holds st state n item" and "\<not> terminal state"
  shows "holds st' state n item"
proof (cases "wi_task_id item = fi_task_id i")
  case True
  with assms submit_effect(2) [OF assms(1,2)] show ?thesis unfolding holds_def in_state_def by metis
next
  case False
  from holds_evolves [OF submit_effect(1) [OF assms(1,2)] _ False assms(4,3)] show ?thesis by simp
qed

lemma tracked_live:
  assumes "service_inv env s" and "t \<in> set (tracked s)"
  shows "\<exists>row. row_of t (sv_store s) = Some row \<and> \<not> terminal (tk_state row)"
proof -
  from assms(2) consider (queued) item where "item \<in> set (sv_queue s)" "wi_task_id item = t"
    | (running) item where "item \<in> set (map fst (sv_running s))" "wi_task_id item = t"
    unfolding tracked_def by auto
  then have "\<exists>state n item. wi_task_id item = t \<and> holds (sv_store s) state n item \<and> \<not> terminal state"
  proof cases
    case queued
    with assms(1) have "holds (sv_store s) TASK_SUBMITTED 1 item" unfolding service_inv_def list_all_iff by blast
    with queued(2) live_states(1) show ?thesis by blast
  next
    case running
    with assms(1) have "holds (sv_store s) TASK_WORKING 2 item" unfolding service_inv_def list_all_iff by blast
    with running(2) live_states(2) show ?thesis by blast
  qed
  then show ?thesis by (auto simp: holds_def in_state_def)
qed

lemma service_inv_push:
  assumes "service_inv env s" and "wi_task_id item \<notin> set (tracked s)" and "holds (sv_store s) TASK_SUBMITTED 1 item"
    and "\<not> queue_full env s"
  shows "service_inv env (s\<lparr>sv_queue := sv_queue s @ [item]\<rparr>)"
  using assms by (auto simp: service_inv_def tracked_def queue_full_def)

lemma service_inv_enqueue:
  assumes inv: "service_inv env s" and new: "fi_task_id i \<notin> set (tracked s)"
    and row: "in_state (fi_task_id i) (\<lambda>q. q = TASK_SUBMITTED) (sv_store s)" "trace_count (fi_task_id i) (sv_store s) = 0"
  shows "service_inv env (snd (enqueue env clk i rd s))"
proof -
  let ?t = "fi_task_id i" and ?sc = "se_sc env"
  obtain r s1 where a: "on_store (append_trace ?sc ?t ''A2A_ADMITTED'' rd (ck_ms clk 2)) s = (r, s1)" by fastforce
  note one = service_inv_touched [OF inv new touches_append_trace a]
  from inv have si: "store_inv ?sc (sv_store s)" by (simp add: service_inv_def)
  show ?thesis
  proof (cases r)
    case (Inl e)
    with a one(1) show ?thesis by (simp add: enqueue_def Let_def bindS_def)
  next
    case (Inr x)
    have "holds (sv_store s1) TASK_SUBMITTED 1 \<lparr>wi_input_bundle = i, wi_request_digest = rd\<rparr>"
      using a Inr row append_trace_effect(1,4) [OF si]
      by (auto simp: on_store_def holds_def in_state_def split: prod.splits)
    moreover have "service_inv env (snd (bindS (modifyS (count ''submissions'' ''resource_exhausted'')) (\<lambda>_.
           bindS (on_store (append_trace ?sc ?t ''QUEUE_REJECTED'' [] (ck_ms clk 3))) (\<lambda>_.
           on_store (set_state ?sc ?t TASK_REJECTED ''RESOURCE_EXHAUSTED'' (ck_ms clk 4)))) s1))"
    proof -
      have "touches ?sc ?t (0 + (1 + 0)) (bindS (modifyS (count ''submissions'' ''resource_exhausted'')) (\<lambda>_.
           bindS (on_store (append_trace ?sc ?t ''QUEUE_REJECTED'' [] (ck_ms clk 3))) (\<lambda>_.
           on_store (set_state ?sc ?t TASK_REJECTED ''RESOURCE_EXHAUSTED'' (ck_ms clk 4)))))"
        by (intro touches_bindS touch)
      from service_inv_touched(1) [OF one(1) _ this] new one(2) show ?thesis by (metis prod.collapse)
    qed
    moreover have "\<not> queue_full env s1 \<Longrightarrow> fi_task_id i \<notin> set (tracked s1)" using new one(2) by simp
    ultimately show ?thesis
      using service_inv_push [OF one(1), of "\<lparr>wi_input_bundle = i, wi_request_digest = rd\<rparr>"] a Inr
      by (simp add: enqueue_def Let_def bindS_def [of "on_store _"]) (simp add: stateful_defs)
  qed
qed

lemma service_inv_submit:
  assumes inv: "service_inv env s"
  shows "service_inv env (snd (service_submit env clk raw req s))"
proof (cases "admit env (ck_ms clk 0) raw s")
  case (Inl e)
  with inv show ?thesis by (simp add: service_submit_def bindS_def readS_def)
next
  case (Inr i)
  let ?rd = "file_digest (se_py env) raw"
  from inv have si: "store_inv (se_sc env) (sv_store s)" by (simp add: service_inv_def)
  obtain r st' where sub: "submit (se_sc env) i ?rd (context_id ?rd) req (ck_ms clk 1) (sv_store s) = (r, st')" by fastforce
  have "store_inv (se_sc env) st'"
    using preservesD [OF store_inv_submit si, of i ?rd "context_id ?rd" req "ck_ms clk 1"] sub by simp
  then have inv': "service_inv env (s\<lparr>sv_store := st'\<rparr>)"
    using inv submit_holds [OF si sub] by (auto simp: service_inv_def tracked_def list_all_iff)
  show ?thesis
  proof (cases "\<exists>rec. r = Inr (rec, True)")
    case True
    then obtain rec where r: "r = Inr (rec, True)" by blast
    from submit_effect(3) [OF si sub r] have row: "in_state (fi_task_id i) (\<lambda>q. q = TASK_SUBMITTED) st'"
      "trace_count (fi_task_id i) st' = 0" and old: "\<And>row. row_of (fi_task_id i) (sv_store s) = Some row \<Longrightarrow> terminal (tk_state row)"
      by auto
    have "fi_task_id i \<notin> set (tracked (s\<lparr>sv_store := st'\<rparr>))"
      using tracked_live [OF inv, of "fi_task_id i"] old by (auto simp: tracked_def)
    from service_inv_enqueue [OF inv' this] row show ?thesis
      by (simp add: service_submit_def bindS_def readS_def Inr Let_def on_store_def sub r del: One_nat_def)
  next
    case False
    with sub Inr inv' show ?thesis
      by (cases r) (auto simp: service_submit_def stateful_defs Let_def on_store_def)
  qed
qed

lemma service_inv_reload: "service_inv env s \<Longrightarrow> service_inv env (snd (reload_binding cfg clk path s))"
  by (auto simp: reload_binding_def Let_def count_def service_inv_def tracked_def split: prod.splits sum.splits)

lemma service_inv_reject_queued:
  assumes "service_inv env (s\<lparr>sv_queue := items\<rparr>)" and "reject_queued env clk n items s = (r, s')"
  shows "service_inv env s' \<and> sv_running s' = sv_running s
    \<and> (\<forall>t. t \<notin> wi_task_id ` set items \<longrightarrow> row_of t (sv_store s') = row_of t (sv_store s))
    \<and> (r = Inr u \<longrightarrow> sv_queue s' = []
         \<and> (\<forall>t \<in> wi_task_id ` set items. in_state t (\<lambda>q. q = TASK_REJECTED) (sv_store s')))"
  using assms
proof (induction items arbitrary: s n)
  case (Cons item items)
  let ?t = "wi_task_id item" and ?s = "s\<lparr>sv_queue := items\<rparr>"
  have inv: "service_inv env ?s" and new: "?t \<notin> set (tracked ?s)"
    using Cons.prems(1) by (auto simp: service_inv_def tracked_def)
  obtain q s1 where one: "on_store (set_state (se_sc env) ?t TASK_REJECTED ''DRAIN_TIMEOUT'' (ck_ms clk n)) ?s = (q, s1)" by fastforce
  note inv1 = service_inv_touched(1) [OF inv new touches_set_state one]
  from one have s1: "sv_queue s1 = items" "sv_running s1 = sv_running s"
    by (auto simp: on_store_def split: prod.splits)
  have eff: "row_of ?t (sv_store s1) = map_option (updated_row TASK_REJECTED ''DRAIN_TIMEOUT'' (ck_ms clk n)) (row_of ?t (sv_store s))"
    "\<And>u. u \<noteq> ?t \<Longrightarrow> row_of u (sv_store s1) = row_of u (sv_store s)"
    using one set_state_effect(1,2) by (auto simp: on_store_def split: prod.splits)
  have "row_of ?t (sv_store s) \<noteq> None" using Cons.prems(1) by (auto simp: service_inv_def holds_def in_state_def)
  with eff(1) have rej: "in_state ?t (\<lambda>q. q = TASK_REJECTED) (sv_store s1)" by (auto simp: in_state_def)
  have notin: "?t \<notin> wi_task_id ` set items" using new by (auto simp: tracked_def)
  show ?case
  proof (cases q)
    case (Inl e)
    with Cons.prems(2) one inv1 s1 eff(2) show ?thesis by (auto simp: bindS_def)
  next
    case (Inr x)
    with Cons.prems(2) one have "reject_queued env clk (Suc n) items s1 = (r, s')" by (simp add: bindS_def)
    moreover have "s1\<lparr>sv_queue := items\<rparr> = s1" using s1(1) by simp
    ultimately have "service_inv env s' \<and> sv_running s' = sv_running s1
      \<and> (\<forall>t. t \<notin> wi_task_id ` set items \<longrightarrow> row_of t (sv_store s') = row_of t (sv_store s1))
      \<and> (r = Inr u \<longrightarrow> sv_queue s' = []
           \<and> (\<forall>t \<in> wi_task_id ` set items. in_state t (\<lambda>q. q = TASK_REJECTED) (sv_store s')))"
      using Cons.IH [of s1 "Suc n"] inv1 by simp
    with s1(2) rej eff(2) notin show ?thesis by (auto simp: in_state_def)
  qed
qed (auto simp: service_inv_def tracked_def)

lemma cancel_workers_eq:
  "sv_store (cancel_workers env clk s) = sv_store s" "sv_queue (cancel_workers env clk s) = sv_queue s"
  "sv_in_flight (cancel_workers env clk s) = sv_in_flight s - int (length (sv_running s))"
proof -
  have "sv_store (fold (\<lambda>(item, started). worker_finally env clk started) xs s) = sv_store s
    \<and> sv_queue (fold (\<lambda>(item, started). worker_finally env clk started) xs s) = sv_queue s
    \<and> sv_in_flight (fold (\<lambda>(item, started). worker_finally env clk started) xs s) = sv_in_flight s - int (length xs)" for xs
    by (induction xs arbitrary: s) (auto simp: worker_finally_def)
  then show "sv_store (cancel_workers env clk s) = sv_store s" "sv_queue (cancel_workers env clk s) = sv_queue s"
    "sv_in_flight (cancel_workers env clk s) = sv_in_flight s - int (length (sv_running s))"
    by (auto simp: cancel_workers_def)
qed

lemma service_inv_cancel:
  "service_inv env s \<Longrightarrow> service_inv env ((cancel_workers env clk s)\<lparr>sv_started := b\<rparr>)"
  by (auto simp: service_inv_def tracked_def cancel_workers_eq) (simp_all add: cancel_workers_def)

lemma service_inv_drain_end:
  assumes "service_inv env s"
  shows "service_inv env (snd (drain_end env clk timed_out s))"
proof (cases timed_out)
  case False
  with service_inv_cancel [OF assms] show ?thesis by (simp add: drain_end_def stateful_defs)
next
  case True
  obtain r s1 where one: "reject_queued env clk 0 (sv_queue s) s = (r, s1)" by fastforce
  have "service_inv env s1" using service_inv_reject_queued [OF _ one] assms by simp
  with True one service_inv_cancel [OF this] show ?thesis
    by (cases r) (simp_all add: drain_end_def stateful_defs)
qed

section \<open>Every interleaving\<close>

text \<open>
  One step of the process: any operation with any arguments, at clock readings \<open>clk\<close>. A worker ends with an
  outcome of the graph on its own input, with the binding observed at some moment of the run and any
  behaviour of the outside world. \<open>SIGTERM\<close> and a failed reload set \<open>draining\<close>.
\<close>

inductive service_step :: "service_env \<Rightarrow> analysis_graph \<Rightarrow> clock \<Rightarrow> service \<Rightarrow> service \<Rightarrow> bool" for env g clk where
  step_submit: "service_step env g clk s (snd (service_submit env clk raw requester s))"
| step_begin: "length (sv_running s) < sv_workers s \<Longrightarrow> service_step env g clk s (worker_begin env clk s)"
| step_end: "i < length (sv_running s) \<Longrightarrow>
     outcome = fst (graph_run (se_graph env) (g\<lparr>ag_binding_state := m\<rparr>) (wi_input_bundle (fst (sv_running s ! i))) w) \<Longrightarrow>
     service_step env g clk s (worker_end env clk i outcome s)"
| step_reload: "service_step env g clk s (snd (reload_binding cfg clk path s))"
| step_request_stop: "service_step env g clk s (s\<lparr>sv_draining := True\<rparr>)"
| step_drain_begin: "service_step env g clk s (drain_begin s)"
| step_drain_end: "(timed_out \<or> sv_queue s = [] \<and> sv_running s = []) \<Longrightarrow>
     service_step env g clk s (snd (drain_end env clk timed_out s))"

inductive_cases service_stepE: "service_step env g clk s s'"

text \<open>A started service on a recovered store.\<close>

definition fresh :: "service_env \<Rightarrow> service \<Rightarrow> bool" where
  "fresh env s \<longleftrightarrow> (\<exists>clk clk' material st u. store_inv (se_sc env) st
     \<and> service_start env clk' (new_service clk material (recover_incomplete (ck_ms clk 0) st)) = (Inr u, s))"

lemma service_inv_fresh: "fresh env s \<Longrightarrow> service_inv env s"
proof -
  assume "fresh env s"
  then obtain clk clk' material st u where st: "store_inv (se_sc env) st"
    and run: "service_start env clk' (new_service clk material (recover_incomplete (ck_ms clk 0) st)) = (Inr u, s)"
    by (auto simp: fresh_def)
  from run have "s = (new_service clk material (recover_incomplete (ck_ms clk 0) st))
      \<lparr>sv_workers := se_concurrency env, sv_started := True, sv_last_progress_monotonic := ck_mono clk' 0\<rparr>"
    by (cases "snapshot material (ck_ms clk' 0)") (simp_all add: service_start_def new_service_def stateful_defs)
  with store_inv_recover [OF st] show ?thesis by (simp add: new_service_def service_inv_def tracked_def)
qed

lemma service_inv_step: "service_inv env s \<Longrightarrow> service_step env g clk s s' \<Longrightarrow> service_inv env s'"
  by (erule service_stepE)
     (auto intro: service_inv_submit service_inv_begin service_inv_end service_inv_reload service_inv_drain_end)

abbreviation any_step :: "service_env \<Rightarrow> analysis_graph \<Rightarrow> service \<Rightarrow> service \<Rightarrow> bool" where
  "any_step env g s s' \<equiv> (\<exists>clk. service_step env g clk s s')"

interpretation services: invariant_machine "fresh env" "any_step env g" "service_inv env" for env g
  by unfold_locales (auto intro: service_inv_fresh service_inv_step)

end
