(* ===== verification/Service_Lifecycle.thy ===== *)
theory Service_Lifecycle
  imports Service_Sound Graph_Sample
begin

text \<open>
  What the service promises about the life of a task: a bounded number of tasks is queued and run at once,
  a finished task never changes, a worker that ends leaves its task finished, a completion passed the
  binding fence, and draining is final.
\<close>

section \<open>Reachable states\<close>

text \<open>
  C5: in every state that a started service can reach, through any interleaving of submissions, worker
  segments, graph outcomes, reloads, signals and shutdown, the queue is within its bound, no more workers
  run than are configured and \<open>in_flight\<close> counts them, no task is in the queue or at a worker twice, every
  queued task is \<open>SUBMITTED\<close> and every task at a worker is \<open>WORKING\<close> in the store.
\<close>

theorem service_reachable_invariant:
  assumes "fresh env s0" and "(any_step env g)\<^sup>*\<^sup>* s0 s"
  shows "(0 < se_maxsize env \<longrightarrow> int (length (sv_queue s)) \<le> se_maxsize env)
    \<and> length (sv_running s) \<le> se_concurrency env \<and> sv_in_flight s = int (length (sv_running s))
    \<and> distinct (map wi_task_id (sv_queue s @ map fst (sv_running s)))
    \<and> (\<forall>item \<in> set (sv_queue s). \<exists>row. row_of (wi_task_id item) (sv_store s) = Some row \<and> tk_state row = TASK_SUBMITTED)
    \<and> (\<forall>(item, started) \<in> set (sv_running s).
         \<exists>row. row_of (wi_task_id item) (sv_store s) = Some row \<and> tk_state row = TASK_WORKING)"
proof -
  have inv: "service_inv env s" by (rule services.inv_reachable [OF assms])
  then have "length (sv_running s) \<le> se_concurrency env" by (auto simp: service_inv_def)
  with inv show ?thesis
    by (auto simp: service_inv_def tracked_def list_all_iff holds_def in_state_def)
qed

section \<open>A finished task is final\<close>

lemma final_evolves:
  assumes "evolves old u st st'" and "t \<noteq> u" and "row_of t st = Some row" and "\<not> old row"
  shows "row_of t st' = Some row"
  using assms unfolding evolves_def by blast

lemma enqueue_evolves:
  assumes si: "store_inv (se_sc env) (sv_store s)" and run: "enqueue env clk i rd s = (q, s')"
  shows "evolves (\<lambda>_. False) (fi_task_id i) (sv_store s) (sv_store s')"
proof -
  let ?t = "fi_task_id i" and ?sc = "se_sc env"
  let ?reject = "bindS (modifyS (count ''submissions'' ''resource_exhausted'')) (\<lambda>_.
           bindS (on_store (append_trace ?sc ?t ''QUEUE_REJECTED'' [] (ck_ms clk 3))) (\<lambda>_.
           on_store (set_state ?sc ?t TASK_REJECTED ''RESOURCE_EXHAUSTED'' (ck_ms clk 4))))"
  obtain r s1 where a: "on_store (append_trace ?sc ?t ''A2A_ADMITTED'' rd (ck_ms clk 2)) s = (r, s1)" by fastforce
  note one = touchesD(1,3) [OF touches_append_trace si a]
  have "touches ?sc ?t (0 + (1 + 0)) ?reject" by (intro touches_bindS touch)
  note reject = touchesD(3) [OF this one(1)]
  show ?thesis
  proof (cases "\<exists>x. r = Inr x \<and> queue_full env s1")
    case True
    with run a have "?reject s1 = (q, s')" by (auto simp: enqueue_def Let_def bindS_def [of "on_store _"])
    from evolves_trans [OF one(2) reject [OF this]] show ?thesis .
  next
    case False
    with run a have "sv_store s' = sv_store s1"
      by (cases r) (auto simp: enqueue_def Let_def bindS_def [of "on_store _"], auto simp: stateful_defs count_def)
    with one(2) show ?thesis by simp
  qed
qed

lemma final_submit:
  assumes inv: "service_inv env s" and row: "row_of t (sv_store s) = Some row" and live: "\<not> expired (se_sc env) (ck_ms clk 1) row"
  shows "row_of t (sv_store (snd (service_submit env clk raw req s))) = Some row"
proof (cases "admit env (ck_ms clk 0) raw s")
  case (Inl e)
  with row show ?thesis by (simp add: service_submit_def bindS_def readS_def)
next
  case (Inr i)
  let ?rd = "file_digest (se_py env) raw"
  from inv have si: "store_inv (se_sc env) (sv_store s)" by (simp add: service_inv_def)
  obtain r st' where sub: "submit (se_sc env) i ?rd (context_id ?rd) req (ck_ms clk 1) (sv_store s) = (r, st')" by fastforce
  have row': "row_of t st' = Some row"
    using submit_effect(1,2) [OF si sub] row live by (cases "t = fi_task_id i") (auto dest: final_evolves)
  show ?thesis
  proof (cases "\<exists>rec. r = Inr (rec, True)")
    case False
    with sub Inr row' show ?thesis
      by (cases r) (auto simp: service_submit_def stateful_defs Let_def on_store_def count_def)
  next
    case True
    then obtain rec where r: "r = Inr (rec, True)" by blast
    have t: "t \<noteq> fi_task_id i" using submit_effect(3) [OF si sub r] row live by auto
    let ?s = "s\<lparr>sv_store := st'\<rparr>"
    have si': "store_inv (se_sc env) (sv_store ?s)"
      using preservesD [OF store_inv_submit si, of i ?rd "context_id ?rd" req "ck_ms clk 1"] sub by simp
    obtain q s' where e: "enqueue env clk i ?rd ?s = (q, s')" by fastforce
    have "evolves (\<lambda>_. False) (fi_task_id i) (sv_store ?s) (sv_store s')" by (rule enqueue_evolves [OF si' e])
    from final_evolves [OF this t] row' e show ?thesis
      by (simp add: service_submit_def bindS_def readS_def Inr Let_def on_store_def sub r del: One_nat_def)
  qed
qed


lemma conclude_close_evolves:
  assumes "store_inv (se_sc env) (sv_store s)" and "conclude env clk item outcome s = (r, s1)"
  shows "evolves (\<lambda>_. False) (wi_task_id item) (sv_store s) (sv_store (worker_close env clk (wi_task_id item) started (r, s1)))"
proof -
  note one = touchesD(1,3) [OF touches_conclude assms]
  show ?thesis by (rule evolves_trans [OF one(2) worker_close_effect(2) [OF one(1) refl]])
qed

lemma worker_begin_evolves:
  assumes "store_inv (se_sc env) (sv_store s)" and "sv_queue s = item # rest"
  shows "evolves (\<lambda>_. False) (wi_task_id item) (sv_store s) (sv_store (worker_begin env clk s))"
proof -
  define s1 where "s1 = s\<lparr>sv_queue := rest, sv_in_flight := sv_in_flight s + 1, sv_last_progress_monotonic := ck_mono clk 0\<rparr>"
  have si: "store_inv (se_sc env) (sv_store s1)" "sv_store s1 = sv_store s" using assms(1) by (simp_all add: s1_def)
  obtain r s2 where d: "dispatch env clk item s1 = (r, s2)" by fastforce
  note one = touchesD(1,3) [OF touches_dispatch si(1) d]
  have "sv_store (worker_begin env clk s) = sv_store s2
      \<or> (\<exists>q. worker_begin env clk s = worker_close env clk (wi_task_id item) (ck_mono clk 1) (q, s2))"
    by (cases r) (auto simp: worker_begin_def assms(2) Let_def s1_def [symmetric] d simp del: One_nat_def split: bool.splits)
  then show ?thesis
    using one(2) evolves_trans [OF one(2) worker_close_effect(2) [OF one(1) refl]] si(2) by auto
qed

lemma final_step:
  assumes inv: "service_inv env s" and "service_step env g clk s s'" and row: "row_of t (sv_store s) = Some row"
    and fin: "terminal (tk_state row)" and live: "\<not> expired (se_sc env) (ck_ms clk 1) row"
  shows "row_of t (sv_store s') = Some row"
proof -
  have si: "store_inv (se_sc env) (sv_store s)" using inv by (simp add: service_inv_def)
  have other: "t \<noteq> u" if "u \<in> set (tracked s)" for u using tracked_live [OF inv that] row fin by auto
  from assms(2) show ?thesis
  proof (cases rule: service_step.cases)
    case (step_submit raw requester)
    with final_submit [OF inv row live] show ?thesis by simp
  next
    case step_begin
    then show ?thesis
    proof (cases "sv_queue s")
      case Nil
      with step_begin row show ?thesis by (simp add: worker_begin_def)
    next
      case (Cons item rest)
      with other have "t \<noteq> wi_task_id item" by (simp add: tracked_def)
      with final_evolves [OF worker_begin_evolves [OF si Cons]] row step_begin show ?thesis by simp
    qed
  next
    case (step_end i outcome m w)
    obtain item started where item: "sv_running s ! i = (item, started)" by fastforce
    have "wi_task_id item \<in> set (tracked s)"
      using nth_mem [OF step_end(2)] item by (force simp: tracked_def)
    with other have t: "t \<noteq> wi_task_id item" by blast
    let ?s = "s\<lparr>sv_running := drop_nth i (sv_running s)\<rparr>"
    obtain r s1 where "conclude env clk item outcome ?s = (r, s1)" by fastforce
    with conclude_close_evolves [of env ?s clk item outcome r s1 started] si step_end(1) item final_evolves [OF _ t] row
    show ?thesis by (simp add: worker_end_def)
  next
    case (step_drain_end timed_out)
    obtain r s1 where one: "reject_queued env clk 0 (sv_queue s) s = (r, s1)" by fastforce
    have "t \<notin> wi_task_id ` set (sv_queue s)" using other by (force simp: tracked_def)
    with service_inv_reject_queued [OF _ one] inv row have "row_of t (sv_store s1) = Some row" by simp
    with row one step_drain_end show ?thesis
      by (cases timed_out; cases r) (auto simp: drain_end_def stateful_defs cancel_workers_eq)
  qed (use row in \<open>auto simp: drain_begin_def reload_binding_def Let_def count_def split: prod.splits sum.splits\<close>)
qed

text \<open>
  A task that has finished never changes again. In every reachable state, whatever the service does
  next, a task in a terminal state keeps its row exactly as it is, although \<open>set_state\<close> itself would
  overwrite it; the only way for it to leave the store is the purge of a submission after its retention
  period.
\<close>

theorem finished_task_final:
  assumes "fresh env s0" and "(any_step env g)\<^sup>*\<^sup>* s0 s" and "service_step env g clk s s'"
    and "row_of t (sv_store s) = Some row" and "terminal (tk_state row)"
  shows "row_of t (sv_store s') = Some row
    \<or> tk_updated_at_unix_ms row < ck_ms clk 1 - sc_retention_ms (se_sc env)"
  using final_step [OF services.inv_reachable [OF assms(1,2)] assms(3-5)] assms(5) by blast

section \<open>The end of a worker\<close>

lemma graph_trace_bound:
  assumes "graph_run env g i w = (Inr (x, codes), w')"
  shows "length codes \<le> 7"
proof -
  from graph_run_ok [OF assms] obtain st where "plan_state i st" "codes = gs_trace_codes st @ [''GROUNDING_VALIDATED'', ''ARTIFACT_ASSEMBLED'']"
    by blast
  then show ?thesis by (auto simp: plan_state_def)
qed

lemma worker_end_taken:
  assumes "service_inv env s" and "i < length (sv_running s)" and "sv_running s ! i = (item, started)"
    and "conclude env clk item outcome (s\<lparr>sv_running := drop_nth i (sv_running s)\<rparr>) = (r, s1)"
  shows "worker_end env clk i outcome s = worker_close env clk (wi_task_id item) started (r, s1)"
    and "store_inv (se_sc env) (sv_store s1)" and "row_of (wi_task_id item) (sv_store s1) \<noteq> None"
    and "trace_count (wi_task_id item) (sv_store s1) \<le> 2 + (case outcome of Inl _ \<Rightarrow> 0 | Inr (x, codes) \<Rightarrow> length codes)"
proof -
  have si: "store_inv (se_sc env) (sv_store (s\<lparr>sv_running := drop_nth i (sv_running s)\<rparr>))"
    using assms(1) by (simp add: service_inv_def)
  have h: "holds (sv_store s) TASK_WORKING 2 item" using rest_inv_taken(2) [OF assms(1,2)] assms(3) by simp
  note one = touchesD [OF touches_conclude si assms(4)]
  show "worker_end env clk i outcome s = worker_close env clk (wi_task_id item) started (r, s1)"
    by (simp add: worker_end_def assms(3,4))
  show "store_inv (se_sc env) (sv_store s1)" by (rule one(1))
  show "row_of (wi_task_id item) (sv_store s1) \<noteq> None" using one(4) h by (auto simp: holds_def in_state_def)
  show "trace_count (wi_task_id item) (sv_store s1) \<le> 2 + (case outcome of Inl _ \<Rightarrow> 0 | Inr (x, codes) \<Rightarrow> length codes)"
    using one(5) h by (simp add: holds_def)
qed

lemma worker_end_untracked:
  assumes "service_inv env s" and "i < length (sv_running s)" and "sv_running s ! i = (item, started)"
  shows "wi_task_id item \<notin> set (tracked (worker_end env clk i outcome s))"
    and "sv_running (worker_end env clk i outcome s) = drop_nth i (sv_running s)"
proof -
  let ?s = "s\<lparr>sv_running := drop_nth i (sv_running s)\<rparr>"
  obtain r s1 where c: "conclude env clk item outcome ?s = (r, s1)" by fastforce
  have rest: "rest_inv env (wi_task_id item) s1"
    using rest_inv_taken(1) [OF assms(1,2)] assms(3) rest_inv_touched [OF _ touches_conclude c] by simp
  have si: "store_inv (se_sc env) (sv_store ?s)" using assms(1) by (simp add: service_inv_def)
  note taken = worker_end_taken [OF assms c]
  note eff = worker_close_effect(3,4) [OF taken(2) refl]
  show "wi_task_id item \<notin> set (tracked (worker_end env clk i outcome s))"
    using rest by (simp add: taken(1) tracked_def eff rest_inv_def)
  show "sv_running (worker_end env clk i outcome s) = drop_nth i (sv_running s)"
    using quiet_fields(2) [OF touchesD(2) [OF touches_conclude si c]] by (simp add: taken(1) eff)
qed

text \<open>
  C7: a run always settles its task. When the trace bound of the store is at least ten, then in every
  reachable state, whatever the graph returns for a task at a worker, whatever the binding has become, and
  also when the store refuses the artifact, the task is in a terminal state when the worker is done with
  it, and the worker no longer holds it.
\<close>

theorem worker_settles_task:
  assumes "fresh env s0" and "(any_step env g)\<^sup>*\<^sup>* s0 s" and "i < length (sv_running s)"
    and "graph_run (se_graph env) g' (wi_input_bundle (fst (sv_running s ! i))) w = (outcome, w')"
    and "10 \<le> sc_max_trace_events (se_sc env)"
  shows "finished (wi_task_id (fst (sv_running s ! i))) (sv_store (worker_end env clk i outcome s))
    \<and> wi_task_id (fst (sv_running s ! i)) \<notin> set (tracked (worker_end env clk i outcome s))"
proof -
  have inv: "service_inv env s" by (rule services.inv_reachable [OF assms(1,2)])
  obtain item started where item: "sv_running s ! i = (item, started)" by fastforce
  obtain r s1 where c: "conclude env clk item outcome (s\<lparr>sv_running := drop_nth i (sv_running s)\<rparr>) = (r, s1)" by fastforce
  note taken = worker_end_taken [OF inv assms(3) item c]
  have "(case outcome of Inl _ \<Rightarrow> 0 | Inr (x, codes) \<Rightarrow> length codes) \<le> 7"
    using graph_trace_bound assms(4) by (auto split: sum.splits)
  with taken(4) assms(5) have room: "int (trace_count (wi_task_id item) (sv_store s1)) < sc_max_trace_events (se_sc env)" by linarith
  have "finished (wi_task_id item) (sv_store (worker_end env clk i outcome s))"
  proof (cases r)
    case (Inl e)
    from worker_close_effect(10) [OF taken(2) refl Inl taken(3) room] Inl show ?thesis by (simp add: taken(1))
  next
    case (Inr u)
    from conclude_finishes [OF c [unfolded Inr]] worker_close_effect(9) [OF taken(2) refl refl] Inr
    show ?thesis by (simp add: taken(1))
  qed
  with worker_end_untracked(1) [OF inv assms(3) item] item show ?thesis by simp
qed

lemma forS_run: "f x s = (Inr (), s1) \<Longrightarrow> forS f (x # xs) s = forS f xs s1"
  by (simp add: bindS_def)

text \<open>The loop over the trace codes, when the trace has no room for all of them.\<close>

lemma append_codes_full:
  assumes "store_inv (se_sc env) (sv_store s)" and "row_of t (sv_store s) \<noteq> None"
    and "sc_max_trace_events (se_sc env) < int (trace_count t (sv_store s) + length xs)"
    and "int (trace_count t (sv_store s)) \<le> sc_max_trace_events (se_sc env)"
    and "forS (\<lambda>(n, code). bindS (on_store (append_trace (se_sc env) t code [] (ck_ms clk n))) (\<lambda>_. retS ())) xs s = (r, s')"
  shows "(\<exists>e. r = Inl e \<and> is_analysis_error e) \<and> store_inv (se_sc env) (sv_store s') \<and> tasks (sv_store s') = tasks (sv_store s)
    \<and> sc_max_trace_events (se_sc env) \<le> int (trace_count t (sv_store s'))"
  using assms
proof (induction xs arbitrary: s)
  case (Cons x xs)
  obtain n code where x: "x = (n, code)" by fastforce
  obtain q s1 where a: "on_store (append_trace (se_sc env) t code [] (ck_ms clk n)) s = (q, s1)" by fastforce
  then obtain st1 where b: "append_trace (se_sc env) t code [] (ck_ms clk n) (sv_store s) = (q, st1)" and s1: "s1 = s\<lparr>sv_store := st1\<rparr>"
    by (auto simp: on_store_def split: prod.splits)
  note eff = append_trace_effect [OF Cons.prems(1) b]
  have si: "store_inv (se_sc env) (sv_store s1)" by (rule touchesD(1) [OF touches_append_trace Cons.prems(1) a])
  show ?case
  proof (cases q)
    case (Inl e)
    have "\<not> int (trace_count t (sv_store s)) < sc_max_trace_events (se_sc env)" using eff(6) [OF Cons.prems(2)] Inl by auto
    moreover have "s1 = s" using eff(5) [OF Inl] s1 by simp
    ultimately show ?thesis using Cons.prems a x Inl eff(5) [OF Inl] by (auto simp: bindS_def)
  next
    case (Inr y)
    have room: "int (trace_count t (sv_store s)) < sc_max_trace_events (se_sc env)"
    proof (rule ccontr)
      assume "\<not> ?thesis"
      then show False using b Inr append_trace_eq [OF Cons.prems(1), of t code "[]" "ck_ms clk n"] by (simp add: trace_count_def)
    qed
    have run: "forS (\<lambda>(n, code). bindS (on_store (append_trace (se_sc env) t code [] (ck_ms clk n))) (\<lambda>_. retS ())) xs s1 = (r, s')"
    proof -
      let ?f = "\<lambda>(n, code). bindS (on_store (append_trace (se_sc env) t code [] (ck_ms clk n))) (\<lambda>_. retS ())"
      have "?f x s = (Inr (), s1)" using a Inr x by (simp add: bindS_def retS_def)
      from forS_run [where f = ?f, OF this] Cons.prems(5) show ?thesis by simp
    qed
    have tc: "trace_count t (sv_store s1) = Suc (trace_count t (sv_store s))" using eff(4) Inr s1 by simp
    from Cons.IH [OF si _ _ _ run] Cons.prems(2,3) room tc eff(1) s1 show ?thesis by auto
  qed
qed simp


section \<open>Completion and the binding fence\<close>

lemma updated_elsewhere:
  assumes "evolves (\<lambda>_. False) t st st'" and "u \<noteq> t" shows "row_of u st' = row_of u st"
  using assms by (cases "row_of u st") (auto simp: evolves_def)

lemma worker_except_not_completed:
  assumes "store_inv (se_sc env) (sv_store s)" and "worker_except env clk t e s = (r, s')"
    and "in_state t (\<lambda>q. q = TASK_COMPLETED) (sv_store s')"
  shows "in_state t (\<lambda>q. q = TASK_COMPLETED) (sv_store s)"
proof -
  obtain state reason label where eq: "worker_except env clk t e = bindS (settle env clk t state reason) (\<lambda>_. modifyS (count ''tasks'' label))"
    and state: "state \<noteq> TASK_COMPLETED"
    by (cases "exn_code e") (auto simp: worker_except_def Let_def intro: that)
  obtain q s1 where one: "settle env clk t state reason s = (q, s1)" by fastforce
  with assms(2) have s1: "sv_store s' = sv_store s1" by (cases q) (auto simp: eq bindS_def modifyS_def count_def)
  obtain p st1 where a: "append_trace (se_sc env) t reason [] (ck_ms clk 20) (sv_store s) = (p, st1)" by fastforce
  obtain p' st2 where b: "set_state (se_sc env) t state reason (ck_ms clk 21) st1 = (p', st2)" by fastforce
  have "sv_store s1 = st1 \<or> sv_store s1 = st2"
    using one a b by (cases p; cases p') (auto simp: settle_def stateful_defs on_store_def split: if_splits)
  with set_state_effect(1) [OF b] state assms(3) append_trace_effect(1) [OF assms(1) a] show ?thesis
    by (cases "row_of t (sv_store s)") (auto simp: s1 in_state_def)
qed

text \<open>
  C6: a result is published only under a binding that still matches. When a worker ends and its task is
  \<open>COMPLETED\<close>, then the graph returned an artifact and at that moment the observed binding was active,
  qualified, not expired and matched the task's frozen input field by field. A task whose binding was
  replaced or revoked during the run is not completed.
\<close>

theorem completion_fenced:
  assumes "fresh env s0" and "(any_step env g)\<^sup>*\<^sup>* s0 s" and "i < length (sv_running s)"
    and "in_state (wi_task_id (fst (sv_running s ! i))) (\<lambda>q. q = TASK_COMPLETED) (sv_store (worker_end env clk i outcome s))"
  shows "\<exists>x codes binding. outcome = Inr (x, codes)
    \<and> matches_input (sv_binding_state s) (wi_input_bundle (fst (sv_running s ! i))) (ck_ms clk 0) = Inr binding
    \<and> bo_activation_state binding = ''active'' \<and> bo_qualification_status binding = ''qualified''
    \<and> ck_ms clk 0 < bo_expires_at_unix_ms binding
    \<and> input_matches (wi_input_bundle (fst (sv_running s ! i))) binding"
proof -
  have inv: "service_inv env s" by (rule services.inv_reachable [OF assms(1,2)])
  obtain item started where item: "sv_running s ! i = (item, started)" by fastforce
  let ?t = "wi_task_id item" and ?s = "s\<lparr>sv_running := drop_nth i (sv_running s)\<rparr>"
  have si: "store_inv (se_sc env) (sv_store ?s)" using inv by (simp add: service_inv_def)
  have w: "\<not> in_state ?t (\<lambda>q. q = TASK_COMPLETED) (sv_store s)"
    using rest_inv_taken(2) [OF inv assms(3)] item by (auto simp: holds_def in_state_def)
  obtain r s1 where c: "conclude env clk item outcome ?s = (r, s1)" by fastforce
  note taken = worker_end_taken [OF inv assms(3) item c]
  have "in_state ?t (\<lambda>q. q = TASK_COMPLETED) (sv_store s1)"
  proof (cases r)
    case (Inl e)
    obtain q s2 where ex: "worker_except env clk ?t e s1 = (q, s2)" by fastforce
    have "sv_store (worker_end env clk i outcome s) = sv_store s2"
      by (cases q) (simp_all add: taken(1) Inl worker_close_def ex worker_finally_def)
    with worker_except_not_completed [OF taken(2) ex] assms(4) item show ?thesis by simp
  next
    case (Inr u)
    with worker_close_effect(9) [OF taken(2) refl refl] assms(4) item show ?thesis by (simp add: taken(1))
  qed
  with w have "sv_store s1 \<noteq> sv_store s" by auto
  then obtain x codes binding where ok: "outcome = Inr (x, codes)"
    "matches_input (sv_binding_state s) (wi_input_bundle item) (ck_ms clk 0) = Inr binding"
    using c by (cases outcome; cases "matches_input (sv_binding_state s) (wi_input_bundle item) (ck_ms clk 0)")
      (auto simp: conclude_def Let_def bindS_def readS_def split: prod.splits)
  from ok(2) have "bo_activation_state binding = ''active''" "bo_qualification_status binding = ''qualified''"
    "ck_ms clk 0 < bo_expires_at_unix_ms binding" "input_matches (wi_input_bundle item) binding"
    by (auto simp: matches_input_def snapshot_def Let_def rbind_eq_Inr split: if_splits)
  with ok item show ?thesis by simp
qed

section \<open>Draining\<close>

lemma reject_queued_draining: "sv_draining (snd (reject_queued env clk n items s)) = sv_draining s"
proof (induction items arbitrary: n s)
  case (Cons item items)
  obtain q st' where "set_state (se_sc env) (wi_task_id item) TASK_REJECTED ''DRAIN_TIMEOUT'' (ck_ms clk n) (sv_store s) = (q, st')"
    by fastforce
  with Cons.IH show ?case by (cases q) (simp_all add: bindS_def on_store_def)
qed simp

lemma fold_finally_draining:
  "sv_draining (fold (\<lambda>(item, started). worker_finally env clk started) xs s) = sv_draining s"
proof (induction xs arbitrary: s)
  case (Cons x xs)
  then show ?case by (cases x) (simp add: worker_finally_def)
qed simp

lemma cancel_workers_draining: "sv_draining (cancel_workers env clk s) = sv_draining s"
  by (simp add: cancel_workers_def fold_finally_draining)

lemma draining_step: "sv_draining s \<Longrightarrow> service_inv env s \<Longrightarrow> service_step env g clk s s' \<Longrightarrow> sv_draining s'"
proof (erule service_stepE)
  fix raw requester assume "sv_draining s" "s' = snd (service_submit env clk raw requester s)"
  then show "sv_draining s'" by (simp add: service_submit_def admit_def bindS_def readS_def)
next
  assume d: "sv_draining s" "s' = worker_begin env clk s" and inv: "service_inv env s"
  show "sv_draining s'"
  proof (cases "sv_queue s")
    case (Cons item rest)
    define s1 where "s1 = s\<lparr>sv_queue := rest, sv_in_flight := sv_in_flight s + 1, sv_last_progress_monotonic := ck_mono clk 0\<rparr>"
    have si: "store_inv (se_sc env) (sv_store s1)" using inv by (simp add: s1_def service_inv_def)
    obtain r s2 where dis: "dispatch env clk item s1 = (r, s2)" by fastforce
    note one = touchesD(1,2) [OF touches_dispatch si dis]
    have "sv_draining s2" using quiet_fields(5) [OF one(2)] d(1) by (simp add: s1_def)
    moreover have "sv_draining (worker_close env clk (wi_task_id item) (ck_mono clk 1) (q, s2)) = sv_draining s2" for q
      by (rule worker_close_effect(7) [OF one(1) refl])
    ultimately show ?thesis
      by (cases r) (auto simp: d(2) worker_begin_def Cons Let_def s1_def [symmetric] dis simp del: One_nat_def split: bool.splits)
  qed (use d in \<open>simp add: worker_begin_def\<close>)
next
  fix i outcome m w
  assume d: "sv_draining s" and inv: "service_inv env s" and i: "i < length (sv_running s)" and s': "s' = worker_end env clk i outcome s"
  obtain item started where item: "sv_running s ! i = (item, started)" by fastforce
  let ?s = "s\<lparr>sv_running := drop_nth i (sv_running s)\<rparr>"
  obtain r s1 where c: "conclude env clk item outcome ?s = (r, s1)" by fastforce
  have si: "store_inv (se_sc env) (sv_store ?s)" using inv by (simp add: service_inv_def)
  note one = touchesD(1,2) [OF touches_conclude si c]
  show "sv_draining s'"
    using worker_close_effect(7) [OF one(1) refl] quiet_fields(5) [OF one(2)] d
    by (simp add: s' worker_end_taken(1) [OF inv i item c])
next
  fix timed_out assume d: "sv_draining s" and inv: "service_inv env s" and s': "s' = snd (drain_end env clk timed_out s)"
  obtain r s1 where "reject_queued env clk 0 (sv_queue s) s = (r, s1)" by fastforce
  with reject_queued_draining [of env clk 0 "sv_queue s" s] d show "sv_draining s'"
    by (cases timed_out; cases r) (auto simp: s' drain_end_def stateful_defs cancel_workers_draining)
qed (auto simp: reload_binding_def Let_def count_def drain_begin_def split: prod.splits sum.splits)

text \<open>
  C26: draining is final. Once the service drains, because the binding was withdrawn, a reload failed or
  the process was told to stop, every later submission is refused with a retryable 503 before it is parsed and
  changes nothing, through any further steps; a reload that brings an active binding back does not end it.
\<close>

theorem draining_final:
  assumes "fresh env s0" and "(any_step env g)\<^sup>*\<^sup>* s0 s" and "sv_draining s" and "(any_step env g)\<^sup>*\<^sup>* s s'"
  shows "sv_draining s' \<and> service_submit env clk raw requester s'
    = (Inl (AnalysisErrorR (sv_admission_error s') (admission_message (sv_admission_error s')) 503 True), s')"
proof -
  have "sv_draining s' \<and> service_inv env s'"
    using assms(4)
  proof (induction rule: rtranclp_induct)
    case base
    then show ?case using assms(3) services.inv_reachable [OF assms(1,2)] by blast
  next
    case (step y z)
    then show ?case using draining_step service_inv_step by blast
  qed
  then show ?thesis by (simp add: service_submit_def admit_def bindS_def readS_def)
qed

text \<open>
  A shutdown leaves no task behind. When the grace period is over and the shutdown completes, the queue
  and the workers are empty, every task that was still queued is \<open>REJECTED\<close>, every task whose graph was
  cancelled is left \<open>WORKING\<close>, and the next start of the service finds the latter and fails exactly those
  with reason \<open>RECOVERED_INCOMPLETE\<close>; the rejected ones stay as they are.
\<close>

theorem shutdown_then_restart:
  assumes "fresh env s0" and "(any_step env g)\<^sup>*\<^sup>* s0 s" and "drain_end env clk True s = (Inr u, s')"
  shows "sv_queue s' = [] \<and> sv_running s' = [] \<and> sv_in_flight s' = 0
    \<and> (\<forall>item \<in> set (sv_queue s). \<exists>row. row_of (wi_task_id item) (sv_store s') = Some row \<and> tk_state row = TASK_REJECTED
         \<and> row_of (wi_task_id item) (recover_incomplete now (sv_store s')) = Some row)
    \<and> (\<forall>(item, started) \<in> set (sv_running s). \<exists>row row'. row_of (wi_task_id item) (sv_store s') = Some row
         \<and> tk_state row = TASK_WORKING
         \<and> row_of (wi_task_id item) (recover_incomplete now (sv_store s')) = Some row'
         \<and> tk_state row' = TASK_FAILED \<and> tk_reason_code row' = ''RECOVERED_INCOMPLETE'')"
proof -
  have inv: "service_inv env s" by (rule services.inv_reachable [OF assms(1,2)])
  obtain r s1 where one: "reject_queued env clk 0 (sv_queue s) s = (r, s1)" by fastforce
  with assms(3) have r: "r = Inr ()" and s': "s' = (cancel_workers env clk s1)\<lparr>sv_started := False\<rparr>"
    by (cases r; simp add: drain_end_def stateful_defs)+
  from service_inv_reject_queued [OF _ one, of "()"] inv r have inv1: "service_inv env s1" and
    s1: "sv_running s1 = sv_running s" "sv_queue s1 = []"
      "\<And>t. t \<in> wi_task_id ` set (sv_queue s) \<Longrightarrow> in_state t (\<lambda>q. q = TASK_REJECTED) (sv_store s1)"
    by auto
  have st: "sv_store s' = sv_store s1" by (simp add: s' cancel_workers_eq)
  have rec: "row_of t (recover_incomplete now st) = map_option (\<lambda>r. if terminal (tk_state r) then r
           else r\<lparr>tk_state := TASK_FAILED, tk_reason_code := ''RECOVERED_INCOMPLETE'', tk_updated_at_unix_ms := now\<rparr>) (row_of t st)" for t st
    by (cases "row_of t st") (simp_all add: recover_incomplete_def lookup_by_update)
  have "sv_queue s' = [] \<and> sv_running s' = [] \<and> sv_in_flight s' = 0"
    using inv1 s1(2) by (simp add: s' cancel_workers_eq service_inv_def) (simp add: cancel_workers_def)
  moreover have "\<exists>row. row_of t (sv_store s') = Some row \<and> tk_state row = TASK_REJECTED
         \<and> row_of t (recover_incomplete now (sv_store s')) = Some row" if "t \<in> wi_task_id ` set (sv_queue s)" for t
    using s1(3) [OF that] by (auto simp: st rec in_state_def TERMINAL_def)
  moreover have "\<exists>row row'. row_of (wi_task_id item) (sv_store s') = Some row \<and> tk_state row = TASK_WORKING
         \<and> row_of (wi_task_id item) (recover_incomplete now (sv_store s')) = Some row'
         \<and> tk_state row' = TASK_FAILED \<and> tk_reason_code row' = ''RECOVERED_INCOMPLETE''"
    if "(item, started) \<in> set (sv_running s)" for item started
  proof -
    from that have "item \<in> set (map fst (sv_running s1))" using s1(1) by force
    with inv1 have "holds (sv_store s1) TASK_WORKING 2 item" unfolding service_inv_def list_all_iff by blast
    then obtain row where "row_of (wi_task_id item) (sv_store s1) = Some row" "tk_state row = TASK_WORKING"
      by (auto simp: holds_def in_state_def)
    then show ?thesis by (simp add: st rec del: map_option_eq_Some)
  qed
  ultimately show ?thesis by auto
qed

section \<open>Admission\<close>

lemma get_locked_id: "get_locked sc t st = Inr rec \<Longrightarrow> tr_task_id rec = t"
  using get_locked_fields [of sc t st rec] lookup_by_Some [of tk_task_id t "tasks st"] by auto

lemma set_state_id: "set_state sc t state reason now st = (Inr rec, st') \<Longrightarrow> tr_task_id rec = t"
  by (auto simp: set_state_def stateful_defs dest: get_locked_id split: if_splits)

lemma enqueue_id:
  assumes "enqueue env clk i rd s = (Inr rec, s')"
  shows "tr_task_id rec = fi_task_id i"
proof -
  let ?t = "fi_task_id i" and ?sc = "se_sc env"
  obtain r s1 where a: "on_store (append_trace ?sc ?t ''A2A_ADMITTED'' rd (ck_ms clk 2)) s = (r, s1)" by fastforce
  with assms obtain x where r: "r = Inr x" by (cases r) (auto simp: enqueue_def Let_def bindS_def)
  show ?thesis
  proof (cases "queue_full env s1")
    case True
    with assms a r have "bindS (modifyS (count ''submissions'' ''resource_exhausted'')) (\<lambda>_.
           bindS (on_store (append_trace ?sc ?t ''QUEUE_REJECTED'' [] (ck_ms clk 3))) (\<lambda>_.
           on_store (set_state ?sc ?t TASK_REJECTED ''RESOURCE_EXHAUSTED'' (ck_ms clk 4)))) s1 = (Inr rec, s')"
      by (simp add: enqueue_def Let_def bindS_def [of "on_store _"])
    then obtain s2 where "on_store (set_state ?sc ?t TASK_REJECTED ''RESOURCE_EXHAUSTED'' (ck_ms clk 4)) s2 = (Inr rec, s')"
      by (auto simp: bindS_Inr)
    then show ?thesis by (auto simp: on_store_def dest: set_state_id split: prod.splits)
  next
    case False
    with assms a r have "\<exists>st. get_locked ?sc ?t st = Inr rec"
      by (auto simp: enqueue_def Let_def bindS_def modifyS_def readS_def store_get_def)
    then show ?thesis using get_locked_id by blast
  qed
qed

lemma service_submit_record:
  assumes "service_submit env clk raw req s = (Inr rec, s')" and "admit env (ck_ms clk 0) raw s = Inr i"
  shows "tr_task_id rec = fi_task_id i"
proof -
  let ?rd = "file_digest (se_py env) raw"
  obtain r st' where sub: "submit (se_sc env) i ?rd (context_id ?rd) req (ck_ms clk 1) (sv_store s) = (r, st')" by fastforce
  show ?thesis
  proof (cases "\<exists>rec. r = Inr (rec, True)")
    case True
    with assms sub have "enqueue env clk i ?rd (s\<lparr>sv_store := st'\<rparr>) = (Inr rec, s')"
      by (auto simp: service_submit_def bindS_def readS_def Let_def on_store_def simp del: One_nat_def)
    then show ?thesis by (rule enqueue_id)
  next
    case False
    with assms sub have r: "r = Inr (rec, False)"
      by (auto simp: service_submit_def stateful_defs Let_def on_store_def split: sum.splits simp del: One_nat_def)
    with sub get_locked_id show ?thesis
      by (auto simp: submit_def submit_body_def stateful_defs split: sum.splits option.splits if_splits prod.splits)
  qed
qed

text \<open>
  Nothing is accepted outside the admission rules. A submission that returns a record was made while the
  service was not draining, by a named requester, with a body that decodes to a request whose frozen input
  carries its own digest, whose deadline and expiry lie ahead and whose deadline is within its graph
  budget, which is not stale or invalid, and which matches the active, qualified and unexpired binding in
  every field; the record is the one of that task. A submission that fails a rule before the store is
  asked changes nothing.
\<close>

theorem admission_rules:
  "(\<forall>e. admit env (ck_ms clk 0) raw s = Inl e \<longrightarrow> service_submit env clk raw req s = (Inl e, s))
   \<and> (\<forall>rec s'. service_submit env clk raw req s = (Inr rec, s') \<longrightarrow>
        (\<exists>request part rest i binding. se_dec_request env raw = Some request \<and> am_parts (sr_message request) = part # rest
           \<and> i = ip_data part \<and> tr_task_id rec = fi_task_id i
           \<and> \<not> sv_draining s \<and> \<not> sv_stopping s \<and> req \<noteq> [] \<and> py_len req \<le> 253
           \<and> compute_input_digest (se_py env) i = Inr (fi_input_digest i)
           \<and> ck_ms clk 0 < fi_deadline_unix_ms i \<and> ck_ms clk 0 < fi_expires_at_unix_ms i
           \<and> fi_deadline_unix_ms i \<le> ck_ms clk 0 + bg_graph_deadline_ms (fi_budgets i)
           \<and> fi_quality i \<notin> {''stale'', ''invalid''}
           \<and> matches_input (sv_binding_state s) i (ck_ms clk 0) = Inr binding
           \<and> bo_activation_state binding = ''active'' \<and> ck_ms clk 0 < bo_expires_at_unix_ms binding \<and> input_matches i binding))"
proof (intro conjI allI impI)
  fix e assume "admit env (ck_ms clk 0) raw s = Inl e"
  then show "service_submit env clk raw req s = (Inl e, s)" by (simp add: service_submit_def bindS_def readS_def)
next
  fix rec s' assume run: "service_submit env clk raw req s = (Inr rec, s')"
  then obtain i where adm: "admit env (ck_ms clk 0) raw s = Inr i"
    by (cases "admit env (ck_ms clk 0) raw s") (auto simp: service_submit_def bindS_def readS_def)
  have "req \<noteq> [] \<and> py_len req \<le> 253"
    using run adm by (cases "req = [] \<or> py_len req > 253")
      (auto simp: service_submit_def submit_def Let_def stateful_defs on_store_def)
  moreover from adm obtain request part rest binding where
    "se_dec_request env raw = Some request" "am_parts (sr_message request) = part # rest" "i = ip_data part"
    "\<not> sv_draining s" "\<not> sv_stopping s" "compute_input_digest (se_py env) i = Inr (fi_input_digest i)"
    "ck_ms clk 0 < fi_deadline_unix_ms i" "ck_ms clk 0 < fi_expires_at_unix_ms i"
    "fi_deadline_unix_ms i - ck_ms clk 0 \<le> bg_graph_deadline_ms (fi_budgets i)"
    "fi_quality i \<notin> {''stale'', ''invalid''}" and b: "matches_input (sv_binding_state s) i (ck_ms clk 0) = Inr binding"
    by (auto simp: admit_def rbind_eq_Inr lift_opt_def not_le not_less split: option.splits list.splits)
  moreover have "bo_activation_state binding = ''active'' \<and> ck_ms clk 0 < bo_expires_at_unix_ms binding \<and> input_matches i binding"
    using b by (auto simp: matches_input_def snapshot_def Let_def rbind_eq_Inr split: if_splits)
  moreover have "tr_task_id rec = fi_task_id i" by (rule service_submit_record [OF run adm])
  ultimately show "\<exists>request part rest i binding. se_dec_request env raw = Some request \<and> am_parts (sr_message request) = part # rest
           \<and> i = ip_data part \<and> tr_task_id rec = fi_task_id i
           \<and> \<not> sv_draining s \<and> \<not> sv_stopping s \<and> req \<noteq> [] \<and> py_len req \<le> 253
           \<and> compute_input_digest (se_py env) i = Inr (fi_input_digest i)
           \<and> ck_ms clk 0 < fi_deadline_unix_ms i \<and> ck_ms clk 0 < fi_expires_at_unix_ms i
           \<and> fi_deadline_unix_ms i \<le> ck_ms clk 0 + bg_graph_deadline_ms (fi_budgets i)
           \<and> fi_quality i \<notin> {''stale'', ''invalid''}
           \<and> matches_input (sv_binding_state s) i (ck_ms clk 0) = Inr binding
           \<and> bo_activation_state binding = ''active'' \<and> ck_ms clk 0 < bo_expires_at_unix_ms binding \<and> input_matches i binding"
    by (intro exI [of _ request] exI [of _ part] exI [of _ rest] exI [of _ i] exI [of _ binding]) (simp add: algebra_simps)
qed

end
