(* ===== verification/Server_Sound.thy ===== *)
theory Server_Sound
  imports Server Service_Lifecycle Encoding_Bound
begin

text \<open>
  What the HTTP server guarantees: every handler ends with a response inside the configured bound, only an
  authenticated submission changes the service, a requester's answers depend on that requester's tasks only, and the
  whole server drives the service by the service's own steps.
\<close>

section \<open>Responses are bounded\<close>

lemma bound_error_fits: "json_weight (error_payload bound_error ''response'') \<le> 1024"
  and bound_error_float_free: "float_free (error_payload bound_error ''response'')"
  unfolding error_payload_def bound_error_def by code_simp+

lemma bound_error_encodes:
  "1024 \<le> limit \<Longrightarrow> \<exists>raw. go_json_bytes env (error_payload bound_error ''response'') = Inr raw \<and> int (length raw) \<le> limit"
  using go_json_bytes_length [OF bound_error_float_free, of env] bound_error_fits by (meson order.trans)

text \<open>What a call of \<open>_json\<close> can give under a bound of 1024 bytes or more.\<close>

definition bounded :: "int \<Rightarrow> (exn + server_response) option \<Rightarrow> bool" where
  "bounded limit r \<longleftrightarrow> (\<exists>e. r = Some (Inl e)) \<or> (\<exists>rs. r = Some (Inr rs) \<and> int (length (rs_body rs)) \<le> limit)"

lemma bounded_simps [simp]: "bounded limit (Some (Inl e))" "\<not> bounded limit None"
  by (simp_all add: bounded_def)

lemma json_response_cases:
  assumes "1024 \<le> limit"
  shows "(has_nonfinite payload \<and> json_response env limit payload ct status = Some (Inl ValueError))
    \<or> (\<exists>raw. go_json_bytes env payload = Inr raw \<and> int (length raw) \<le> limit \<and>
         json_response env limit payload ct status = Some (Inr \<lparr>rs_status = status, rs_content_type = ct,
           rs_headers = response_headers, rs_body = raw\<rparr>))
    \<or> (\<exists>raw. int (length raw) \<le> limit \<and>
         json_response env limit payload ct status = Some (Inr \<lparr>rs_status = 500, rs_content_type = ''application/a2a+json'',
           rs_headers = response_headers, rs_body = raw\<rparr>))"
proof -
  obtain raw where raw: "go_json_bytes env (error_payload bound_error ''response'') = Inr raw" "int (length raw) \<le> limit"
    using bound_error_encodes [OF assms] by blast
  then have "json_response env limit (error_payload bound_error ''response'') ''application/a2a+json'' 500
      = Some (Inr \<lparr>rs_status = 500, rs_content_type = ''application/a2a+json'', rs_headers = response_headers, rs_body = raw\<rparr>)"
    by (subst json_response.simps) simp
  with raw(2) show ?thesis
    by (subst (1 2 3) json_response.simps) (auto simp: go_json_bytes_eq not_less)
qed

lemma json_response_bounded: "1024 \<le> limit \<Longrightarrow> bounded limit (json_response env limit payload ct status)"
  using json_response_cases [of limit payload env ct status] by (auto simp: bounded_def)

lemma answer_error_bounded:
  "1024 \<le> limit \<Longrightarrow> bounded limit (error_response env limit a trace_id)"
  "1024 \<le> limit \<Longrightarrow> bounded limit (answer_error env limit e trace_id)"
  by (simp_all add: error_response_def answer_error_def json_response_bounded split: exn.splits)

lemmas endpoint_bounded = json_response_bounded answer_error_bounded

lemma task_answer_bounded: "1024 \<le> limit \<Longrightarrow> bounded limit (task_answer env limit record)"
  by (simp add: task_answer_def endpoint_bounded split: sum.splits)

lemma endpoints_bounded:
  assumes "1024 \<le> hs_response_limit h"
  shows "bounded (hs_response_limit h) (card_endpoint env rq h)"
    and "bounded (hs_response_limit h) (fst (submit_endpoint env clk rq identity h))"
    and "bounded (hs_response_limit h) (poll_endpoint env rq identity t h)"
    and "bounded (hs_response_limit h) (traces_endpoint env rq identity t h)"
  using assms
  by (auto simp: card_endpoint_def submit_endpoint_def poll_endpoint_def traces_endpoint_def Let_def endpoint_bounded
        task_answer_bounded split: sum.splits prod.splits)

definition ends_within :: "int \<Rightarrow> answer \<Rightarrow> bool" where
  "ends_within limit a \<longleftrightarrow> a \<noteq> Diverged \<and> (\<forall>rs. a = Answer rs \<longrightarrow> int (length (rs_body rs)) \<le> limit)"

lemma ends_within_as_answer: "bounded limit r \<Longrightarrow> ends_within limit (as_answer r)"
  by (auto simp: bounded_def ends_within_def as_answer_def)

lemma route_local:
  "route m p = Some ep \<Longrightarrow> ep \<in> {Health_Startup, Health_Ready, Health_Live, Metrics_Page} \<Longrightarrow> local_boundary p"
  by (auto simp: route_def local_boundary_def split: if_splits option.splits)

lemma handle_within:
  assumes "1024 \<le> hs_response_limit h"
  shows "ends_within (hs_response_limit h) (fst (handle env pg clk rq identity ep h))
    \<or> ep \<in> {Health_Startup, Health_Ready, Health_Live, Metrics_Page} \<and> fst (handle env pg clk rq identity ep h) \<noteq> Diverged"
proof (cases ep)
  case Submit
  with endpoints_bounded(2) [OF assms, of env clk rq identity] show ?thesis
    by (auto intro: ends_within_as_answer split: prod.splits)
qed (use endpoints_bounded [OF assms] in \<open>auto intro: ends_within_as_answer\<close>)

text \<open>
  C11: every request ends: under a response limit that the configuration schema admits (at least 1024
  bytes) no handler runs forever in the mutual recursion of \<open>_json\<close> and \<open>_error\<close>, and outside the local health
  and metrics pages no response body is longer than the limit, whatever the request and the state of the service.
\<close>

theorem serve_bounded:
  assumes "RuntimeLimits_ok (ac_limits (hs_config h))"
  shows "fst (serve env pg clk rq h) \<noteq> Diverged
    \<and> (\<forall>rs. fst (serve env pg clk rq h) = Answer rs \<longrightarrow>
         local_boundary (rq_path rq) \<or> int (length (rs_body rs)) \<le> hs_response_limit h)"
proof -
  have limit: "1024 \<le> hs_response_limit h" using assms by (simp add: RuntimeLimits_ok_def in_range_def)
  note steps = handle_within [OF limit, of env pg clk rq] ends_within_as_answer [OF answer_error_bounded(1) [OF limit]]
  have "ends_within (hs_response_limit h) (fst (serve env pg clk rq h))
    \<or> local_boundary (rq_path rq) \<and> fst (serve env pg clk rq h) \<noteq> Diverged"
    using steps route_local by (auto simp: serve_def ends_within_def split: sum.splits option.splits prod.splits) metis+
  then show ?thesis by (auto simp: ends_within_def)
qed

section \<open>Only an authenticated submission changes the service\<close>

definition authenticated :: "analysis_config \<Rightarrow> server_request \<Rightarrow> str \<Rightarrow> bool" where
  "authenticated config rq name \<longleftrightarrow> \<not> local_boundary (rq_path rq) \<and>
     (if tls_enabled (ac_tls config)
      then set (peer_sans (rq_ssl_names rq)) \<inter> set (tls_allowed_client_sans (ac_tls config)) = {name}
      else ac_runtime_profile config = ''acceptance'' \<and> loopback (rq_remote rq) \<and> name = ''acceptance-loopback'')"

lemma filter_single:
  assumes "distinct xs"
  shows "filter P xs = [x] \<longleftrightarrow> {y \<in> set xs. P y} = {x}"
proof
  assume one: "{y \<in> set xs. P y} = {x}"
  then have "set (filter P xs) = {x}" by simp
  moreover have "distinct (filter P xs)" using assms by simp
  ultimately show "filter P xs = [x]" by (cases "filter P xs") (auto simp: subset_singleton_iff)
qed (simp flip: set_filter)

lemma identity_gate_iff: "identity_gate config rq = Inr (Some name) \<longleftrightarrow> authenticated config rq name"
proof -
  let ?allowed = "filter (\<lambda>name. name \<in> set (tls_allowed_client_sans (ac_tls config))) (peer_sans (rq_ssl_names rq))"
  have "distinct (peer_sans (rq_ssl_names rq))" by (simp add: peer_sans_def split: option.splits)
  then have "?allowed = [name] \<longleftrightarrow>
      set (peer_sans (rq_ssl_names rq)) \<inter> set (tls_allowed_client_sans (ac_tls config)) = {name}"
    by (simp add: filter_single Int_def)
  then have "authenticated config rq name \<longleftrightarrow> \<not> local_boundary (rq_path rq) \<and>
     (if tls_enabled (ac_tls config) then ?allowed = [name]
      else ac_runtime_profile config = ''acceptance'' \<and> loopback (rq_remote rq) \<and> name = ''acceptance-loopback'')"
    by (simp add: authenticated_def)
  then show ?thesis by (auto simp: identity_gate_def Let_def split: list.splits)
qed

lemma identity_gate_local: "identity_gate config rq = Inr None \<Longrightarrow> local_boundary (rq_path rq)"
  by (auto simp: identity_gate_def Let_def split: if_splits list.splits)

lemma raise_if_ok [simp]: "raise_if b e = Inr u \<longleftrightarrow> \<not> b"
  by (simp add: raise_if_def)

lemma read_body_ok:
  "read_body limit n acc pieces = Inr raw \<Longrightarrow> raw = acc @ concat pieces \<and> n + int (length (concat pieces)) \<noteq> 0
     \<and> (pieces = [] \<or> n + int (length (concat pieces)) \<le> limit)"
proof (induction limit n acc pieces rule: read_body.induct)
  case (2 limit n acc chunk rest)
  then show ?case by (cases rest) (auto split: if_splits)
qed (auto split: if_splits)

lemma bounded_body_ok:
  assumes "bounded_body limit rq = Inr raw"
  shows "raw = concat (rq_chunks rq) \<and> 1 \<le> length raw \<and> int (length raw) \<le> limit"
proof -
  have "read_body limit 0 [] (rq_chunks rq) = Inr raw"
    using assms by (auto simp: bounded_body_def rbind_def raise_if_def split: if_splits)
  from read_body_ok [OF this] show ?thesis by (cases "rq_chunks rq") auto
qed

lemma submission_ok:
  "submission limit rq identity = Inr (raw, requester) \<longleftrightarrow>
     validate_version rq = Inr () \<and> lower_str (rq_content_type rq) = ''application/a2a+json''
     \<and> bounded_body limit rq = Inr raw \<and> requester_of identity = Inr requester"
  by (cases "validate_version rq"; cases "bounded_body limit rq"; cases "requester_of identity")
     (auto simp: submission_def raise_if_def)

lemma submit_endpoint_state:
  assumes "snd (submit_endpoint env clk rq identity h) \<noteq> h"
  shows "\<exists>raw requester. submission (lim_request_bytes (ac_limits (hs_config h))) rq identity = Inr (raw, requester)
    \<and> snd (submit_endpoint env clk rq identity h) = h\<lparr>hs_service := snd (service_submit env clk raw requester (hs_service h))\<rparr>"
  using assms by (auto simp: submit_endpoint_def Let_def split: sum.splits prod.splits)

lemma handle_state: "ep \<noteq> Submit \<Longrightarrow> snd (handle env pg clk rq identity ep h) = h"
  by (cases ep) auto

lemma route_submit: "route m p = Some Submit \<longleftrightarrow> m = ''POST'' \<and> p = ''/message:send''"
  by (auto simp: route_def split: if_splits option.splits)

lemma changed_by_submission:
  assumes "snd (serve env pg clk rq h) \<noteq> h"
  shows "\<exists>name. authenticated (hs_config h) rq name \<and> name \<noteq> []
    \<and> rq_method rq = ''POST'' \<and> rq_path rq = ''/message:send'' \<and> validate_version rq = Inr ()
    \<and> lower_str (rq_content_type rq) = ''application/a2a+json''
    \<and> 1 \<le> length (concat (rq_chunks rq))
    \<and> int (length (concat (rq_chunks rq))) \<le> lim_request_bytes (ac_limits (hs_config h))
    \<and> snd (serve env pg clk rq h)
        = h\<lparr>hs_service := snd (service_submit env clk (concat (rq_chunks rq)) name (hs_service h))\<rparr>"
proof -
  obtain identity where gate: "identity_gate (hs_config h) rq = Inr identity"
    and rt: "route (rq_method rq) (rq_path rq) = Some Submit"
    and st: "snd (serve env pg clk rq h) = snd (submit_endpoint env clk rq identity h)"
    using assms handle_state by (auto simp: serve_def split: sum.splits option.splits prod.splits) metis
  obtain raw name where sub: "submission (lim_request_bytes (ac_limits (hs_config h))) rq identity = Inr (raw, name)"
    and res: "snd (serve env pg clk rq h) = h\<lparr>hs_service := snd (service_submit env clk raw name (hs_service h))\<rparr>"
    using submit_endpoint_state [of env clk rq identity h] assms st by auto
  then have "identity = Some name" "name \<noteq> []"
    by (auto simp: submission_ok requester_of_def split: option.splits if_splits)
  with gate sub res rt bounded_body_ok show ?thesis by (force simp: submission_ok route_submit identity_gate_iff)
qed


text \<open>
  C8: the state of the server changes only by an authenticated submission. A request that leaves any trace in the
  service is a \<open>POST\<close> of \<open>/message:send\<close> whose peer has exactly one certificate name on the allow list (or, with
  TLS off, comes from the loopback of an acceptance deployment), asks for the supported protocol version with the
  right content type and has a body between one byte and the limit; the service then sees exactly that body and
  that peer's name. Every other request, refused or not, leaves the server as it was.
\<close>

theorem only_authenticated_submission_changes:
  assumes "snd (serve env pg clk rq h) \<noteq> h"
  shows "\<exists>name. authenticated (hs_config h) rq name \<and> name \<noteq> []
    \<and> rq_method rq = ''POST'' \<and> rq_path rq = ''/message:send'' \<and> validate_version rq = Inr ()
    \<and> lower_str (rq_content_type rq) = ''application/a2a+json''
    \<and> 1 \<le> length (concat (rq_chunks rq))
    \<and> int (length (concat (rq_chunks rq))) \<le> lim_request_bytes (ac_limits (hs_config h))
    \<and> snd (serve env pg clk rq h)
        = h\<lparr>hs_service := snd (service_submit env clk (concat (rq_chunks rq)) name (hs_service h))\<rparr>"
  by (rule changed_by_submission [OF assms])

section \<open>The server drives the service by the service's own steps\<close>

text \<open>
  A server step is a request, a signal (\<open>SIGTERM\<close> and \<open>SIGINT\<close>, \<open>SIGHUP\<close>), or a step of the service that runs beside
  the handlers: a worker segment or the end of the run.
\<close>

inductive server_step :: "service_env \<Rightarrow> analysis_graph \<Rightarrow> server \<Rightarrow> server \<Rightarrow> bool" for env g where
  step_serve: "server_step env g h (snd (serve env pg clk rq h))"
| step_signal_stop: "server_step env g h (request_stop h)"
| step_signal_reload: "server_step env g h (snd (server_reload cfg clk h))"
| step_background: "any_step env g (hs_service h) s \<Longrightarrow> server_step env g h (h\<lparr>hs_service := s\<rparr>)"

inductive_cases server_stepE: "server_step env g h h'"

lemma serve_drives:
  "hs_material (snd (serve env pg clk rq h)) = hs_material h
   \<and> (any_step env g)\<^sup>*\<^sup>* (hs_service h) (hs_service (snd (serve env pg clk rq h)))"
proof (cases "snd (serve env pg clk rq h) = h")
  case False
  then obtain name where "snd (serve env pg clk rq h)
      = h\<lparr>hs_service := snd (service_submit env clk (concat (rq_chunks rq)) name (hs_service h))\<rparr>"
    using changed_by_submission by blast
  moreover have "any_step env g (hs_service h) (snd (service_submit env clk (concat (rq_chunks rq)) name (hs_service h)))"
    by (blast intro: step_submit)
  ultimately show ?thesis by (simp add: r_into_rtranclp)
qed simp

lemma server_reload_drives:
  "hs_material (snd (server_reload cfg clk h)) = hs_material h
   \<and> (any_step env g)\<^sup>*\<^sup>* (hs_service h) (hs_service (snd (server_reload cfg clk h)))"
proof -
  let ?s = "snd (reload_binding cfg clk (hs_config_path h) (hs_service h))"
  have "any_step env g (hs_service h) ?s" by (blast intro: step_reload)
  moreover have "any_step env g ?s (?s\<lparr>sv_draining := True\<rparr>)" by (blast intro: step_request_stop)
  ultimately have "(any_step env g)\<^sup>*\<^sup>* (hs_service h) ?s" "(any_step env g)\<^sup>*\<^sup>* (hs_service h) (?s\<lparr>sv_draining := True\<rparr>)"
    by (auto intro: rtranclp.rtrancl_into_rtrancl)
  then show ?thesis by (auto simp: server_reload_def split: sum.splits prod.splits)
qed

lemma server_step_drives:
  "server_step env g h h' \<Longrightarrow> hs_material h' = hs_material h \<and> (any_step env g)\<^sup>*\<^sup>* (hs_service h) (hs_service h')"
proof (erule server_stepE)
  assume "h' = request_stop h"
  then show ?thesis using step_request_stop by (auto simp: request_stop_def intro!: r_into_rtranclp)
qed (auto simp: serve_drives server_reload_drives intro: r_into_rtranclp)

lemma server_run_drives:
  "(server_step env g)\<^sup>*\<^sup>* h h' \<Longrightarrow>
     hs_material h' = hs_material h \<and> (any_step env g)\<^sup>*\<^sup>* (hs_service h) (hs_service h')"
proof (induction rule: rtranclp_induct)
  case (step y z)
  with server_step_drives [OF step.hyps(2)] show ?case by (auto intro: rtranclp_trans)
qed simp


section \<open>Answers depend on the requester's own tasks\<close>

lemma reads_visible:
  assumes "service_inv env s" "service_inv env s'" "visible name (sv_store s) = visible name (sv_store s')"
  shows "service_get env t name s = service_get env t name s'"
    and "traces_for_requester (se_sc env) t name (sv_store s) = traces_for_requester (se_sc env) t name (sv_store s')"
  using assms task_view.noninterference [of "se_sc env" "sv_store s" "sv_store s'" name t]
    trace_view.noninterference [of "se_sc env" "sv_store s" "sv_store s'" name t]
  by (simp_all add: service_get_def service_inv_def)

lemma poll_record_requester:
  "poll_record env rq (Some name) t h
     = rbind (validate_version rq) (\<lambda>_. rbind (requester_of (Some name)) (\<lambda>_. service_get env t name (hs_service h)))"
  by (simp add: poll_record_def requester_of_def)

text \<open>
  C9: over the network a requester learns nothing of the tasks of others. In two servers with the same
  configuration, each reached by any sequence of requests, signals and worker steps, whose stores agree on the tasks
  of a requester, every poll and every trace read of that requester gets the same response, byte for byte.
\<close>

theorem http_requester_isolation:
  assumes "fresh env (hs_service h0)" and "(server_step env g)\<^sup>*\<^sup>* h0 h"
    and "fresh env (hs_service h0')" and "(server_step env g)\<^sup>*\<^sup>* h0' h'"
    and "hs_material h = hs_material h'"
    and "visible name (sv_store (hs_service h)) = visible name (sv_store (hs_service h'))"
    and "authenticated (hs_config h) rq name"
    and "route (rq_method rq) (rq_path rq) \<in> {Some (Poll t), Some (Traces t)}"
  shows "fst (serve env pg clk rq h) = fst (serve env pg clk' rq h')"
proof -
  have inv: "service_inv env (hs_service h)" "service_inv env (hs_service h')"
    using services.inv_reachable [OF assms(1)] services.inv_reachable [OF assms(3)]
      server_run_drives [OF assms(2)] server_run_drives [OF assms(4)] by blast+
  note same = reads_visible [OF inv assms(6)]
  have gate: "identity_gate (hs_config h) rq = Inr (Some name)" "identity_gate (hs_config h') rq = Inr (Some name)"
    using assms(5,7) by (simp_all add: identity_gate_iff)
  have "poll_record env rq (Some name) t h = poll_record env rq (Some name) t h'"
    by (simp add: poll_record_requester same)
  moreover have "rbind (requester_of (Some name)) (\<lambda>r. traces_for_requester (se_sc env) u r (sv_store (hs_service h)))
      = rbind (requester_of (Some name)) (\<lambda>r. traces_for_requester (se_sc env) u r (sv_store (hs_service h')))" for u
    by (simp add: requester_of_def same)
  ultimately have "poll_endpoint env rq (Some name) t h = poll_endpoint env rq (Some name) t h'"
    "traces_endpoint env rq (Some name) t h = traces_endpoint env rq (Some name) t h'"
    by (simp_all add: poll_endpoint_def traces_endpoint_def assms(5) Let_def split: sum.split)
  with assms(8) show ?thesis by (auto simp: serve_def gate)
qed


end
