(* ===== verification/Service_Sample.thy ===== *)
theory Service_Sample
  imports Service_Lifecycle
begin

text \<open>
  A service that accepts the sample request, runs it and completes it, on which the theorems on the life of
  a task are instantiated.
\<close>

definition sample_request :: a2a_send_request where
  "sample_request = \<lparr>sr_message = \<lparr>am_message_id = ''m-1'', am_role = ''ROLE_USER'',
       am_parts = [\<lparr>ip_data = sample_input, ip_media_type = ''application/json''\<rparr>],
       am_metadata = \<lparr>mm_schema_version = ''masi-analysis-input/v1'', mm_input_digest = dig CHR ''0'',
         mm_plugin_id = ''masi.analysis.langgraph'', mm_binding_generation = 3, mm_deadline_unix_ms = 9000\<rparr>\<rparr>,
     sr_configuration = \<lparr>cf_accepted_output_modes = [''application/json'']\<rparr>,
     sr_metadata = \<lparr>rm_trace_id = ''trace-1'', rm_no_push = True, rm_no_streaming = True, rm_delegation_depth = 0,
       rm_delegation_path = []\<rparr>\<rparr>"

lemma sample_request_ok: "A2ASendRequest_ok sample_request"
  by code_simp

definition sample_service_env :: "int \<Rightarrow> service_env" where
  "sample_service_env n = \<lparr>se_graph = sample_graph_env,
     se_sc = sample_store_config\<lparr>sc_max_trace_events := n, sc_dec_artifact := (\<lambda>_. Some sample_run_artifact)\<rparr>,
     se_maxsize = 1, se_concurrency = 1, se_dec_request = (\<lambda>_. Some sample_request), se_rounded = (\<lambda>q. q)\<rparr>"

definition sample_clock :: clock where
  "sample_clock = \<lparr>ck_ms = (\<lambda>_. 1000), ck_mono = (\<lambda>_. 0)\<rparr>"

lemma sample_service_simps [simp]:
  "ck_ms sample_clock k = 1000" "ck_mono sample_clock k = 0"
  "se_graph (sample_service_env n) = sample_graph_env" "se_maxsize (sample_service_env n) = 1"
  "se_concurrency (sample_service_env n) = 1" "se_dec_request (sample_service_env n) raw = Some sample_request"
  "se_rounded (sample_service_env n) q = q" "sc_max_trace_events (se_sc (sample_service_env n)) = n"
  "sc_py (se_sc (sample_service_env n)) = zero_env" "sc_dec_input (se_sc (sample_service_env n)) raw = Some sample_input"
  "sc_dec_artifact (se_sc (sample_service_env n)) raw = Some sample_run_artifact"
  "sc_max_tasks (se_sc (sample_service_env n)) = 16" "sc_retention_ms (se_sc (sample_service_env n)) = 60000"
  by (simp_all add: sample_clock_def sample_service_env_def sample_store_config_def)

section \<open>Started\<close>

definition sample_fresh :: "store \<Rightarrow> service" where
  "sample_fresh st = (new_service sample_clock (sample_material sample_binding) st)\<lparr>sv_workers := 1, sv_started := True\<rparr>"

lemma sample_binding_usable: "snapshot (sample_material sample_binding) 1000 = Inr sample_binding"
  "matches_input (sample_material sample_binding) sample_input 1000 = Inr sample_binding"
  by code_simp+

lemma sample_fresh_fresh:
  assumes "store_inv (se_sc (sample_service_env n)) st"
  shows "fresh (sample_service_env n) (sample_fresh (recover_incomplete 1000 st))"
  unfolding fresh_def
proof (intro exI conjI)
  show "store_inv (se_sc (sample_service_env n)) st" by (rule assms)
  show "service_start (sample_service_env n) sample_clock
      (new_service sample_clock (sample_material sample_binding) (recover_incomplete (ck_ms sample_clock 0) st))
    = (Inr (), sample_fresh (recover_incomplete 1000 st))"
    by (simp add: service_start_def stateful_defs new_service_def sample_binding_usable sample_fresh_def)
qed

lemma recover_empty: "recover_incomplete now empty_store = empty_store"
  by (simp add: recover_incomplete_def empty_store_def update_where_def)

lemma sample_fresh_empty: "fresh (sample_service_env n) (sample_fresh empty_store)"
  using sample_fresh_fresh [OF store_inv_empty, of n] by (simp add: recover_empty)

section \<open>Submitted\<close>

lemma sample_admit:
  assumes "\<not> sv_draining s" and "\<not> sv_stopping s" and "sv_binding_state s = sample_material sample_binding"
  shows "admit (sample_service_env n) 1000 raw s = Inr sample_input"
proof -
  have "fi_deadline_unix_ms sample_input = 9000" "fi_expires_at_unix_ms sample_input = 20000" "fi_quality sample_input = ''valid''"
    "bg_graph_deadline_ms (fi_budgets sample_input) = 10000"
    by (simp_all add: sample_input_def sample_budgets_def)
  with assms sample_binding_usable(2) show ?thesis by (simp add: admit_def lift_opt_def sample_request_def)
qed

definition sample_task :: task_row where
  "sample_task = new_task_row sample_input (dig CHR ''0'') (context_id (dig CHR ''0'')) ''go-a2a''
     (go_escape (json_text zero_env (dump_FrozenInput sample_input))) 1000"

definition sample_trace :: "nat \<Rightarrow> str \<Rightarrow> trace_row" where
  "sample_trace k code = \<lparr>te_task_id = ''task-1'', te_sequence = int k, te_code = code, te_occurred_at_unix_ms = 1000,
     te_detail_digest = dig CHR ''0''\<rparr>"

definition sample_item :: work_item where
  "sample_item = \<lparr>wi_input_bundle = sample_input, wi_request_digest = dig CHR ''0''\<rparr>"

definition sample_queued :: service where
  "sample_queued = (count ''submissions'' ''accepted'' (sample_fresh
     \<lparr>tasks = [sample_task], artifacts = [], trace_events = [sample_trace 1 ''A2A_ADMITTED'']\<rparr>))\<lparr>sv_queue := [sample_item]\<rparr>"

lemma zero_file_digest [simp]: "file_digest zero_env raw = dig CHR ''0''"
  by (simp add: file_digest_def sha256_digest_def zero_env_def dig_def)

lemma sample_task_simps [simp]: "tk_task_id sample_task = ''task-1''" "tk_state sample_task = TASK_SUBMITTED"
  "tk_updated_at_unix_ms sample_task = 1000" "tk_requester_identity sample_task = ''go-a2a''" "tk_idempotency_key sample_task = ''key-1''"
  "tk_input_digest sample_task = dig CHR ''0''"
  by (simp_all add: sample_task_def new_task_row_def)

lemma sample_submit:
  assumes "2 \<le> n"
  shows "\<exists>rec. service_submit (sample_service_env n) sample_clock raw ''go-a2a'' (sample_fresh empty_store) = (Inr rec, sample_queued)"
proof -
  let ?env = "sample_service_env n" and ?s0 = "sample_fresh empty_store"
  have "\<exists>rec. submit (se_sc ?env) sample_input (dig CHR ''0'') (context_id (dig CHR ''0'')) ''go-a2a'' 1000 empty_store
      = (Inr (rec, True), \<lparr>tasks = [sample_task], artifacts = [], trace_events = []\<rparr>)"
    by (auto simp: submit_def submit_body_def stateful_defs go_json_bytes_eq purge_expired_def empty_store_def
        insert_task_def store_get_def get_locked_def Let_def lift_opt_def sample_task_def new_task_row_def)
  moreover have "append_trace (se_sc ?env) ''task-1'' ''A2A_ADMITTED'' (dig CHR ''0'') 1000 \<lparr>tasks = [sample_task], artifacts = [], trace_events = []\<rparr>
      = (Inr (sample_trace 1 ''A2A_ADMITTED''), \<lparr>tasks = [sample_task], artifacts = [], trace_events = [sample_trace 1 ''A2A_ADMITTED'']\<rparr>)"
    using assms by (simp add: append_trace_def next_sequence_def insert_trace_def stateful_defs sample_trace_def Let_def)
  moreover have "\<exists>rec. get_locked (se_sc ?env) ''task-1'' \<lparr>tasks = [sample_task], artifacts = [], trace_events = [sample_trace 1 ''A2A_ADMITTED'']\<rparr> = Inr rec"
    by (simp add: get_locked_def lift_opt_def Let_def)
  moreover have "admit ?env 1000 raw ?s0 = Inr sample_input"
    by (rule sample_admit) (simp_all add: sample_fresh_def new_service_def)
  ultimately show ?thesis
    by (auto simp: service_submit_def enqueue_def stateful_defs Let_def on_store_def store_get_def queue_full_def
        sample_fresh_def new_service_def count_def sample_queued_def sample_item_def)
qed

section \<open>Running\<close>

definition sample_running :: service where
  "sample_running = sample_queued\<lparr>sv_queue := [], sv_in_flight := 1, sv_running := [(sample_item, 0)],
     sv_store := \<lparr>tasks = [updated_row TASK_WORKING ''GRAPH_RUNNING'' 1000 sample_task], artifacts = [],
       trace_events = [sample_trace 1 ''A2A_ADMITTED'', sample_trace 2 ''GRAPH_DISPATCHED'']\<rparr>\<rparr>"

lemma sample_begin:
  assumes "2 \<le> n"
  shows "worker_begin (sample_service_env n) sample_clock sample_queued = sample_running"
proof -
  let ?sc = "se_sc (sample_service_env n)" and ?row = "updated_row TASK_WORKING ''GRAPH_RUNNING'' 1000 sample_task"
  let ?st = "\<lparr>tasks = [?row], artifacts = [], trace_events = [sample_trace 1 ''A2A_ADMITTED'']\<rparr>"
  have "\<exists>rec. get_locked ?sc ''task-1'' ?st = Inr rec"
    by (simp add: get_locked_def lift_opt_def Let_def) (simp add: updated_row_def)
  then have a: "\<exists>rec. set_state ?sc ''task-1'' TASK_WORKING ''GRAPH_RUNNING'' 1000
      \<lparr>tasks = [sample_task], artifacts = [], trace_events = [sample_trace 1 ''A2A_ADMITTED'']\<rparr> = (Inr rec, ?st)"
    by (auto simp: set_state_def stateful_defs update_where_def updated_row_def)
  have b: "append_trace ?sc ''task-1'' ''GRAPH_DISPATCHED'' [] 1000 ?st = (Inr (sample_trace 2 ''GRAPH_DISPATCHED''),
      \<lparr>tasks = [?row], artifacts = [], trace_events = [sample_trace 1 ''A2A_ADMITTED'', sample_trace 2 ''GRAPH_DISPATCHED'']\<rparr>)"
    using assms by (simp add: append_trace_def next_sequence_def insert_trace_def stateful_defs sample_trace_def Let_def)
  from a b show ?thesis
    by (auto simp: worker_begin_def dispatch_def stateful_defs Let_def on_store_def sample_queued_def sample_fresh_def
        new_service_def count_def sample_item_def sample_binding_usable sample_running_def)
qed

lemma sample_running_reachable:
  assumes "2 \<le> n"
  shows "(any_step (sample_service_env n) g)\<^sup>*\<^sup>* (sample_fresh empty_store) sample_queued"
    and "(any_step (sample_service_env n) g)\<^sup>*\<^sup>* (sample_fresh empty_store) sample_running"
proof -
  have "any_step (sample_service_env n) g (sample_fresh empty_store) sample_queued"
    using sample_submit [OF assms, of "[]"] step_submit by (metis snd_conv)
  then show q: "(any_step (sample_service_env n) g)\<^sup>*\<^sup>* (sample_fresh empty_store) sample_queued" by (rule r_into_rtranclp)
  have "length (sv_running sample_queued) < sv_workers sample_queued"
    by (simp add: sample_queued_def sample_fresh_def new_service_def count_def)
  then have "any_step (sample_service_env n) g sample_queued sample_running"
    using step_begin [of sample_queued "sample_service_env n" g sample_clock] sample_begin [OF assms] by auto
  with q show "(any_step (sample_service_env n) g)\<^sup>*\<^sup>* (sample_fresh empty_store) sample_running"
    by (rule rtranclp.rtrancl_into_rtrancl)
qed

lemma sample_running_simps [simp]:
  "sv_running sample_running = [(sample_item, 0)]" "sv_binding_state sample_running = sample_material sample_binding"
  "wi_input_bundle sample_item = sample_input"
  by (simp_all add: sample_running_def sample_queued_def sample_fresh_def new_service_def count_def sample_item_def)

section \<open>Completed\<close>

lemma append_codes_room:
  assumes "store_inv (se_sc env) (sv_store s)" and "row_of t (sv_store s) \<noteq> None"
    and "int (trace_count t (sv_store s) + length xs) \<le> sc_max_trace_events (se_sc env)"
  shows "\<exists>s'. forS (\<lambda>(n, code). bindS (on_store (append_trace (se_sc env) t code [] (ck_ms clk n))) (\<lambda>_. retS ())) xs s = (Inr (), s')
    \<and> tasks (sv_store s') = tasks (sv_store s) \<and> artifacts (sv_store s') = artifacts (sv_store s)"
  using assms
proof (induction xs arbitrary: s)
  case (Cons x xs)
  let ?f = "\<lambda>(n, code). bindS (on_store (append_trace (se_sc env) t code [] (ck_ms clk n))) (\<lambda>_. retS ())"
  obtain n code where x: "x = (n, code)" by fastforce
  obtain q st1 where b: "append_trace (se_sc env) t code [] (ck_ms clk n) (sv_store s) = (q, st1)" by fastforce
  note eff = append_trace_effect [OF Cons.prems(1) b]
  obtain y where q: "q = Inr y" using eff(6) [OF Cons.prems(2)] Cons.prems(3) by auto
  let ?s1 = "s\<lparr>sv_store := st1\<rparr>"
  have a: "on_store (append_trace (se_sc env) t code [] (ck_ms clk n)) s = (Inr y, ?s1)" by (simp add: on_store_def b q)
  have "?f x s = (Inr (), ?s1)" using a x by (simp add: bindS_def retS_def)
  note run = forS_run [where f = ?f, OF this, of xs]
  have si: "store_inv (se_sc env) (sv_store ?s1)" by (rule touchesD(1) [OF touches_append_trace Cons.prems(1) a])
  have "trace_count t (sv_store ?s1) = Suc (trace_count t (sv_store s))" using eff(4) q by simp
  with Cons.IH [OF si] Cons.prems eff(1,2) show ?case unfolding run by simp
qed simp

lemma sample_artifact_verified: "compute_artifact_digest zero_env sample_run_artifact = Inr (dig CHR ''0'')"
  "aa_artifact_digest sample_run_artifact = dig CHR ''0''"
proof -
  show "compute_artifact_digest zero_env sample_run_artifact = Inr (dig CHR ''0'')"
    using artifact_encodings [OF sample_run_artifact_ok, of zero_env]
    by (auto simp: compute_artifact_digest_def sha256_digest_def zero_env_def dig_def elim!: rbindE)
  show "aa_artifact_digest sample_run_artifact = dig CHR ''0''" by (simp add: sample_run_artifact_def)
qed

lemma conclude_run:
  assumes "matches_input (sv_binding_state s) (wi_input_bundle item) (ck_ms clk 0) = Inr binding"
    and "forS (\<lambda>(n, code). bindS (on_store (append_trace (se_sc env) (wi_task_id item) code [] (ck_ms clk n))) (\<lambda>_. retS ()))
      (enumerate_from 1 codes) s = (Inr (), s1)"
    and "complete (se_sc env) (wi_task_id item) x (ck_ms clk 19) (sv_store s1) = (Inr rec, st2)"
  shows "\<exists>s'. conclude env clk item (Inr (x, codes)) s = (Inr (), s') \<and> sv_store s' = st2"
  using assms by (simp add: conclude_def Let_def bindS_def readS_def on_store_def modifyS_def count_def)

lemma sample_completes:
  assumes "int (length codes) + 2 \<le> n"
  shows "in_state ''task-1'' (\<lambda>q. q = TASK_COMPLETED)
    (sv_store (worker_end (sample_service_env n) sample_clock 0 (Inr (sample_run_artifact, codes)) sample_running))"
proof -
  let ?env = "sample_service_env n" and ?row = "updated_row TASK_WORKING ''GRAPH_RUNNING'' 1000 sample_task"
  let ?s = "sample_running\<lparr>sv_running := []\<rparr>"
  have "2 \<le> n" using assms by simp
  then have inv: "service_inv ?env sample_running"
    using services.inv_reachable [OF sample_fresh_empty sample_running_reachable(2)] by blast
  then have si: "store_inv (se_sc ?env) (sv_store ?s)" by (simp add: service_inv_def)
  have st: "row_of ''task-1'' (sv_store ?s) = Some ?row" "trace_count ''task-1'' (sv_store ?s) = 2" "artifacts (sv_store ?s) = []"
    "tasks (sv_store ?s) = [?row]"
    by (simp_all add: sample_running_def trace_count_def seqs_def sample_trace_def)
  obtain s1 where loop: "forS (\<lambda>(k, code). bindS (on_store (append_trace (se_sc ?env) ''task-1'' code [] (ck_ms sample_clock k)))
      (\<lambda>_. retS ())) (enumerate_from 1 codes) ?s = (Inr (), s1)"
    and s1: "tasks (sv_store s1) = [?row]" "artifacts (sv_store s1) = []"
    using append_codes_room [OF si, of "''task-1''" "enumerate_from 1 codes" sample_clock] assms st by auto
  obtain body where body: "go_json_bytes zero_env (dump_AnalysisArtifact sample_run_artifact) = Inr body"
    using sample_run_artifact_size by blast
  have "\<exists>rec st2. complete (se_sc ?env) ''task-1'' sample_run_artifact 1000 (sv_store s1) = (Inr rec, st2)
      \<and> in_state ''task-1'' (\<lambda>q. q = TASK_COMPLETED) st2"
    by (simp add: complete_def body complete_body_def s1 insert_artifact_def stateful_defs update_where_def store_get_def
        get_locked_def lift_opt_def Let_def sample_artifact_verified in_state_def)
       (simp add: updated_row_def)
  then obtain rec st2 where c: "complete (se_sc ?env) ''task-1'' sample_run_artifact 1000 (sv_store s1) = (Inr rec, st2)"
    and fin: "in_state ''task-1'' (\<lambda>q. q = TASK_COMPLETED) st2" by blast
  have "sv_store (worker_end ?env sample_clock 0 (Inr (sample_run_artifact, codes)) sample_running) = st2"
    using conclude_run [of ?s sample_item sample_clock sample_binding ?env codes s1 sample_run_artifact rec st2] loop c
    by (auto simp: sample_binding_usable worker_end_def worker_close_def worker_finally_def)
  with fin show ?thesis by simp
qed

section \<open>Instances\<close>

abbreviation sample_env :: service_env where
  "sample_env \<equiv> sample_service_env 16"

lemma sample_reach:
  "(any_step sample_env g)\<^sup>*\<^sup>* (sample_fresh empty_store) sample_queued"
  "(any_step sample_env g)\<^sup>*\<^sup>* (sample_fresh empty_store) sample_running"
  by (rule sample_running_reachable, simp)+

theorem service_reachable_invariant_witness:
  "int (length (sv_queue sample_queued)) \<le> 1 \<and> length (sv_running sample_running) \<le> 1
   \<and> sv_in_flight sample_running = 1"
  using service_reachable_invariant [OF sample_fresh_empty sample_reach(1)]
    service_reachable_invariant [OF sample_fresh_empty sample_reach(2)]
  by simp

theorem finished_task_final_witness:
  "\<exists>row. tk_state row = TASK_FAILED
     \<and> row_of ''task-1'' (sv_store (sample_fresh (recover_incomplete 1000 (sample_store ''go-a2a'')))) = Some row
     \<and> row_of ''task-1'' (sv_store (snd (service_submit sample_env sample_clock []
          ''go-a2a'' (sample_fresh (recover_incomplete 1000 (sample_store ''go-a2a'')))))) = Some row"
proof -
  let ?s = "sample_fresh (recover_incomplete 1000 (sample_store ''go-a2a''))"
  have "store_inv (se_sc sample_env) (sample_store ''go-a2a'')"
    by (simp add: store_inv_defs sample_store_def)
  note fresh = sample_fresh_fresh [OF this]
  let ?row = "(sample_row ''go-a2a'')\<lparr>tk_state := TASK_FAILED, tk_reason_code := ''RECOVERED_INCOMPLETE'', tk_updated_at_unix_ms := 1000\<rparr>"
  have row: "row_of ''task-1'' (sv_store ?s) = Some ?row"
    by (simp add: sample_fresh_def new_service_def recover_incomplete_def sample_store_def update_where_def sample_row_def new_task_row_def)
  have "terminal (tk_state ?row)" by (simp add: TERMINAL_def)
  from finished_task_final [OF fresh rtranclp.rtrancl_refl
      step_submit [of sample_env sample_graph sample_clock ?s "[]" "''go-a2a''"] row this]
  show ?thesis using row by auto
qed

theorem worker_settles_task_witness:
  "finished ''task-1'' (sv_store (worker_end sample_env sample_clock 0
     (fst (graph_run sample_graph_env sample_graph sample_input sample_answered_world)) sample_running))"
proof -
  obtain outcome w' where run: "graph_run sample_graph_env sample_graph sample_input sample_answered_world = (outcome, w')" by fastforce
  with worker_settles_task [OF sample_fresh_empty sample_reach(2), of 0 sample_graph sample_answered_world outcome w' sample_clock]
  show ?thesis by simp
qed


theorem completion_fenced_witness:
  "in_state ''task-1'' (\<lambda>q. q = TASK_COMPLETED) (sv_store (worker_end sample_env sample_clock 0
     (Inr (sample_run_artifact, [''GRAPH_STARTED''])) sample_running))
   \<and> (\<exists>binding. matches_input (sv_binding_state sample_running) sample_input 1000 = Inr binding
        \<and> bo_activation_state binding = ''active'')"
proof -
  have c: "in_state ''task-1'' (\<lambda>q. q = TASK_COMPLETED) (sv_store (worker_end sample_env sample_clock 0
     (Inr (sample_run_artifact, [''GRAPH_STARTED''])) sample_running))" by (rule sample_completes) simp
  from completion_fenced [OF sample_fresh_empty sample_reach(2), of 0 sample_clock "Inr (sample_run_artifact, [''GRAPH_STARTED''])"] c
  show ?thesis by auto
qed

theorem draining_final_witness:
  "\<exists>e. service_submit sample_env sample_clock [] ''go-a2a'' (drain_begin (sample_fresh empty_store))
    = (Inl e, drain_begin (sample_fresh empty_store)) \<and> exn_code e = Some ''DRAINING''"
proof -
  have "any_step sample_env sample_graph (sample_fresh empty_store) (drain_begin (sample_fresh empty_store))"
    using step_drain_begin by blast
  then have r: "(any_step sample_env sample_graph)\<^sup>*\<^sup>* (sample_fresh empty_store) (drain_begin (sample_fresh empty_store))"
    by (rule r_into_rtranclp)
  have "sv_draining (drain_begin (sample_fresh empty_store))" "sv_admission_error (drain_begin (sample_fresh empty_store)) = ''DRAINING''"
    by (simp_all add: drain_begin_def)
  with draining_final [OF sample_fresh_empty r _ rtranclp.rtrancl_refl, of sample_clock "[]" "''go-a2a''"] show ?thesis by simp
qed

theorem shutdown_then_restart_witness:
  "\<exists>s'. drain_end sample_env sample_clock True sample_queued = (Inr (), s') \<and> sv_queue s' = []
     \<and> (\<exists>row. row_of ''task-1'' (sv_store s') = Some row \<and> tk_state row = TASK_REJECTED)"
proof -
  let ?row = "updated_row TASK_REJECTED ''DRAIN_TIMEOUT'' 1000 sample_task"
  let ?st = "\<lparr>tasks = [?row], artifacts = [], trace_events = [sample_trace 1 ''A2A_ADMITTED'']\<rparr>"
  have "\<exists>rec. get_locked (se_sc sample_env) ''task-1'' ?st = Inr rec"
    by (simp add: get_locked_def lift_opt_def Let_def) (simp add: updated_row_def)
  then have "\<exists>rec. set_state (se_sc sample_env) ''task-1'' TASK_REJECTED ''DRAIN_TIMEOUT'' 1000
      \<lparr>tasks = [sample_task], artifacts = [], trace_events = [sample_trace 1 ''A2A_ADMITTED'']\<rparr> = (Inr rec, ?st)"
    by (auto simp: set_state_def stateful_defs update_where_def updated_row_def)
  then have "\<exists>s'. drain_end sample_env sample_clock True sample_queued = (Inr (), s')"
    by (auto simp: drain_end_def stateful_defs on_store_def sample_queued_def sample_fresh_def new_service_def count_def sample_item_def)
  then obtain s' where d: "drain_end sample_env sample_clock True sample_queued = (Inr (), s')" by blast
  from shutdown_then_restart [OF sample_fresh_empty sample_reach(1) d] d show ?thesis
    by (auto simp: sample_queued_def sample_item_def)
qed

theorem admission_rules_witness:
  "\<exists>rec. service_submit sample_env sample_clock [] ''go-a2a'' (sample_fresh empty_store) = (Inr rec, sample_queued)
     \<and> tr_task_id rec = ''task-1''"
proof -
  obtain rec where run: "service_submit sample_env sample_clock [] ''go-a2a'' (sample_fresh empty_store) = (Inr rec, sample_queued)"
    using sample_submit [of 16 "[]"] by auto
  with admission_rules [of sample_env sample_clock "[]" "sample_fresh empty_store" "''go-a2a''"]
  have "tr_task_id rec = ''task-1''" by (force simp: sample_request_def)
  with run show ?thesis by blast
qed

end
