(* ===== verification/Server_Sample.thy ===== *)
theory Server_Sample
  imports Server_Sound Service_Sample
begin

text \<open>A concrete server with mutual TLS, its requests, and the instances of the properties of \<open>Server_Sound\<close>.\<close>

definition sample_tls :: tls_config where
  "sample_tls = \<lparr>tls_enabled = True, tls_cert_file = Some ''/t/c'', tls_key_file = Some ''/t/k'',
     tls_client_ca_file = Some ''/t/a'', tls_allowed_client_sans = [''go-a2a'', ''other'']\<rparr>"

definition sample_server :: "service \<Rightarrow> server" where
  "sample_server s = \<lparr>hs_material = (sample_material sample_binding)\<lparr>rt_config := sample_config\<lparr>ac_tls := sample_tls\<rparr>\<rparr>,
     hs_config_path = ''/cfg'', hs_service = s, hs_stop = False\<rparr>"

definition sample_page :: page_env where
  "sample_page = \<lparr>pg_dumps = (\<lambda>_. ''{}''), pg_fixed3 = (\<lambda>_. ''0.000''), pg_world = sample_answered_world\<rparr>"

definition sample_http :: "str \<Rightarrow> str \<Rightarrow> str \<Rightarrow> server_request" where
  "sample_http http_method path san = \<lparr>rq_method = http_method, rq_path = path, rq_remote = Some ''10.0.0.9'',
     rq_ssl_names = Some [(''DNS'', san)], rq_version_header = Some A2A_VERSION, rq_version_query = None,
     rq_content_type = ''application/a2a+json'', rq_content_length = Some 2, rq_chunks = [''{'', ''}'']\<rparr>"

lemma sample_server_simps [simp]:
  "hs_service (sample_server s) = s" "(sample_server s)\<lparr>hs_service := s'\<rparr> = sample_server s'"
  "ac_limits (hs_config (sample_server s)) = ac_limits sample_config"
  by (simp_all add: sample_server_def)

lemma sample_limits_ok: "RuntimeLimits_ok (ac_limits sample_config)"
  by code_simp

lemma sample_authenticated:
  "authenticated (hs_config (sample_server s)) (sample_http ''POST'' ''/message:send'' ''go-a2a'') ''go-a2a''"
  "authenticated (hs_config (sample_server s)) (sample_http ''GET'' ''/tasks/task-1'' ''other'') ''other''"
  by (simp_all add: authenticated_def sample_server_def sample_http_def sample_tls_def peer_sans_def local_boundary_def)

lemma sample_submission:
  "submission (lim_request_bytes (ac_limits sample_config)) (sample_http ''POST'' ''/message:send'' ''go-a2a'') (Some ''go-a2a'')
     = Inr (''{}'', ''go-a2a'')"
  by code_simp

lemma sample_serve_submit:
  assumes "2 \<le> n"
  shows "snd (serve (sample_service_env n) sample_page sample_clock (sample_http ''POST'' ''/message:send'' ''go-a2a'')
    (sample_server (sample_fresh empty_store))) = sample_server sample_queued"
proof -
  let ?rq = "sample_http ''POST'' ''/message:send'' ''go-a2a''"
  obtain rec where "service_submit (sample_service_env n) sample_clock ''{}'' ''go-a2a'' (sample_fresh empty_store)
      = (Inr rec, sample_queued)"
    using sample_submit [OF assms] by blast
  moreover have "identity_gate (hs_config (sample_server (sample_fresh empty_store))) ?rq = Inr (Some ''go-a2a'')"
    using sample_authenticated(1) by (simp add: identity_gate_iff)
  moreover have "route (rq_method ?rq) (rq_path ?rq) = Some Submit"
    by (simp add: route_submit sample_http_def)
  ultimately show ?thesis
    by (simp add: serve_def submit_endpoint_def sample_submission Let_def)
qed

lemma sample_queued_new: "sample_server sample_queued \<noteq> sample_server (sample_fresh empty_store)"
proof
  assume "sample_server sample_queued = sample_server (sample_fresh empty_store)"
  then have "sv_queue sample_queued = sv_queue (sample_fresh empty_store)" by (metis sample_server_simps(1))
  then show False by (simp add: sample_queued_def sample_fresh_def new_service_def)
qed

lemma sample_server_run:
  "(server_step (sample_service_env 16) sample_graph)\<^sup>*\<^sup>* (sample_server (sample_fresh empty_store)) (sample_server sample_queued)"
proof -
  have "server_step (sample_service_env 16) sample_graph (sample_server (sample_fresh empty_store))
      (snd (serve (sample_service_env 16) sample_page sample_clock (sample_http ''POST'' ''/message:send'' ''go-a2a'')
        (sample_server (sample_fresh empty_store))))"
    by (rule step_serve)
  then show ?thesis by (simp add: sample_serve_submit r_into_rtranclp)
qed

theorem serve_bounded_witness:
  "RuntimeLimits_ok (ac_limits (hs_config (sample_server sample_queued)))
   \<and> fst (serve (sample_service_env 16) sample_page sample_clock (sample_http ''GET'' ''/tasks/task-1'' ''other'')
       (sample_server sample_queued)) \<noteq> Diverged"
  using serve_bounded [of "sample_server sample_queued"] sample_limits_ok by simp

theorem only_authenticated_submission_changes_witness:
  "snd (serve (sample_service_env 16) sample_page sample_clock (sample_http ''POST'' ''/message:send'' ''go-a2a'')
      (sample_server (sample_fresh empty_store))) = sample_server sample_queued
   \<and> (\<exists>name. authenticated (hs_config (sample_server (sample_fresh empty_store)))
        (sample_http ''POST'' ''/message:send'' ''go-a2a'') name)"
  using only_authenticated_submission_changes [of "sample_service_env 16" sample_page sample_clock
      "sample_http ''POST'' ''/message:send'' ''go-a2a''" "sample_server (sample_fresh empty_store)"]
    sample_queued_new sample_serve_submit [of 16] by auto


theorem http_requester_isolation_witness:
  "fst (serve (sample_service_env 16) sample_page sample_clock (sample_http ''GET'' ''/tasks/task-1'' ''other'')
      (sample_server sample_queued))
   = fst (serve (sample_service_env 16) sample_page sample_clock (sample_http ''GET'' ''/tasks/task-1'' ''other'')
      (sample_server (sample_fresh empty_store)))"
proof (rule http_requester_isolation)
  show "fresh (sample_service_env 16) (hs_service (sample_server (sample_fresh empty_store)))"
    by (simp add: sample_fresh_empty)
  show "fresh (sample_service_env 16) (hs_service (sample_server (sample_fresh empty_store)))"
    by (simp add: sample_fresh_empty)
  show "(server_step (sample_service_env 16) sample_graph)\<^sup>*\<^sup>* (sample_server (sample_fresh empty_store)) (sample_server sample_queued)"
    by (rule sample_server_run)
  show "(server_step (sample_service_env 16) sample_graph)\<^sup>*\<^sup>* (sample_server (sample_fresh empty_store)) (sample_server (sample_fresh empty_store))"
    by simp
  show "hs_material (sample_server sample_queued) = hs_material (sample_server (sample_fresh empty_store))"
    by (simp add: sample_server_def)
  show "visible ''other'' (sv_store (hs_service (sample_server sample_queued)))
      = visible ''other'' (sv_store (hs_service (sample_server (sample_fresh empty_store))))"
    by (simp add: visible_def sample_queued_def sample_fresh_def new_service_def count_def empty_store_def)
  show "authenticated (hs_config (sample_server sample_queued)) (sample_http ''GET'' ''/tasks/task-1'' ''other'') ''other''"
    by (rule sample_authenticated)
  show "route (rq_method (sample_http ''GET'' ''/tasks/task-1'' ''other'')) (rq_path (sample_http ''GET'' ''/tasks/task-1'' ''other''))
      \<in> {Some (Poll ''task-1''), Some (Traces ''task-1'')}"
    by code_simp
qed

end
