(* ===== verification/Atomic_File.thy ===== *)
theory Atomic_File
  imports Prelude
begin

text \<open>
  Files that are replaced atomically. A file system maps paths to contents; an operation on it gives its result
  and the file systems it goes through, in order, the first one and the last one included. A reader, or a crash, can
  meet any of them.

  The locale \<open>atomic_writer\<close> is the contract of the writers of the two programs (\<open>atomic_write_private\<close> of the plugin,
  \<open>write_fresh_json\<close> and \<open>write_fresh_bytes\<close> of the training pipeline), each of which fills a temporary file and renames it.
\<close>

type_synonym file_system = "str \<rightharpoonup> str"
type_synonym 'e file_call = "file_system \<Rightarrow> ('e + unit) \<times> file_system list"

text \<open>Calls one after the other, up to the first that raises.\<close>

fun run_writes :: "'e file_call list \<Rightarrow> 'e file_call" where
  "run_writes [] fs = (Inr (), [fs])"
| "run_writes (c # cs) fs =
     (case c fs of
        (Inl e, states) \<Rightarrow> (Inl e, states)
      | (Inr _, states) \<Rightarrow> (case run_writes cs (last states) of (r, more) \<Rightarrow> (r, states @ more)))"

lemma run_writes_ConsE:
  assumes "run_writes (c # cs) fs = (r, states)"
  obtains (failed) e where "c fs = (Inl e, states)" "r = Inl e"
  | (more) u first rest where "c fs = (Inr u, first)" "run_writes cs (last first) = (r, rest)" "states = first @ rest"
  using assms by (auto split: sum.splits prod.splits)

locale atomic_writer =
  fixes put :: "'f \<Rightarrow> str \<Rightarrow> str \<Rightarrow> 'e file_call"
    and temporary :: "'f \<Rightarrow> str \<Rightarrow> str"
  assumes start: "put f path raw fs = (r, states) \<Longrightarrow> states \<noteq> [] \<and> hd states = fs"
    and moments: "put f path raw fs = (r, states) \<Longrightarrow> s \<in> set states \<Longrightarrow> s path = fs path \<or> s path = Some raw"
    and others: "put f path raw fs = (r, states) \<Longrightarrow> s \<in> set states \<Longrightarrow> q \<noteq> path \<Longrightarrow> q \<noteq> temporary f path \<Longrightarrow> s q = fs q"
    and finish: "put f path raw fs = (Inr u, states) \<Longrightarrow> last states = fs(path \<mapsto> raw)"
    and failed: "put f path raw fs = (Inl e, states) \<Longrightarrow> last states = fs"
begin

lemma crash_safe:
  assumes "put f path raw fs = (r, states)"
  shows "list_all (\<lambda>s. (s path = fs path \<or> s path = Some raw) \<and> (\<forall>q. q \<noteq> path \<longrightarrow> q \<noteq> temporary f path \<longrightarrow> s q = fs q)) states"
  unfolding list_all_iff using moments [OF assms] others [OF assms] by blast

lemma unchanged_after:
  assumes "put f path raw fs = (r, states)" and "q \<noteq> path"
  shows "last states q = fs q"
  using assms finish failed by (cases r) fastforce+

text \<open>A sequence of writes to different files: no file is ever seen half written, and files appear in order.\<close>

lemma untouched:
  assumes "run_writes (map (\<lambda>(f, path, raw). put f path raw) jobs) fs = (r, states)" and "s \<in> set states"
    and "\<And>f path raw. (f, path, raw) \<in> set jobs \<Longrightarrow> q \<noteq> path \<and> q \<noteq> temporary f path"
  shows "s q = fs q"
  using assms
proof (induction jobs arbitrary: fs states r)
  case (Cons job jobs)
  obtain f path raw where job: "job = (f, path, raw)" by (cases job)
  obtain r1 first where first: "put f path raw fs = (r1, first)" by fastforce
  have q: "q \<noteq> path" "q \<noteq> temporary f path" using Cons.prems(3) job by auto
  show ?case
  proof (cases r1)
    case (Inl e)
    with Cons.prems(1,2) first job q others [OF first] show ?thesis by simp
  next
    case (Inr u)
    obtain r2 rest where rest: "run_writes (map (\<lambda>(f, path, raw). put f path raw) jobs) (last first) = (r2, rest)" by fastforce
    have "s \<in> set first \<or> s \<in> set rest" using Cons.prems(1,2) Inr first rest job by auto
    then show ?thesis
    proof
      assume "s \<in> set first"
      then show ?thesis using others [OF first] q by blast
    next
      assume "s \<in> set rest"
      then have "s q = last first q" using Cons.IH [OF rest] Cons.prems(3) by auto
      then show ?thesis using unchanged_after [OF first q(1)] by simp
    qed
  qed
qed simp

lemma writes_in_order:
  assumes "run_writes (map (\<lambda>(f, path, raw). put f path raw) jobs) fs = (r, states)" and "s \<in> set states"
    and "distinct (map (\<lambda>(f, path, raw). path) jobs)"
    and "\<And>f path raw g path' raw'. (f, path, raw) \<in> set jobs \<Longrightarrow> (g, path', raw') \<in> set jobs \<Longrightarrow> path \<noteq> temporary g path'"
  shows "list_all (\<lambda>(f, path, raw). s path = fs path \<or> s path = Some raw) jobs
    \<and> sorted_wrt (\<lambda>(f, path, raw) (g, path', raw'). s path' \<noteq> fs path' \<longrightarrow> s path = Some raw) jobs"
  using assms
proof (induction jobs arbitrary: fs states r)
  case (Cons job jobs)
  obtain f path raw where job: "job = (f, path, raw)" by (cases job)
  obtain r1 first where first: "put f path raw fs = (r1, first)" by fastforce
  have fresh: "path' \<noteq> path" "path' \<noteq> temporary f path" "path \<noteq> temporary g path'" if "(g, path', raw') \<in> set jobs" for g path' raw'
  proof -
    show "path' \<noteq> path" using Cons.prems(3) job that by (force simp: image_iff)
    have "(f, path, raw) \<in> set (job # jobs)" "(g, path', raw') \<in> set (job # jobs)" using job that by simp_all
    then show "path' \<noteq> temporary f path" "path \<noteq> temporary g path'" using Cons.prems(4) by blast+
  qed
  have early: "list_all (\<lambda>(f, path, raw). s path = fs path \<or> s path = Some raw) (job # jobs)"
    "sorted_wrt (\<lambda>(f, path, raw) (g, path', raw'). s path' \<noteq> fs path' \<longrightarrow> s path = Some raw) (job # jobs)" if "s \<in> set first"
  proof -
    have same: "s path' = fs path'" if "(g, path', raw') \<in> set jobs" for g path' raw'
      using others [OF first \<open>s \<in> set first\<close>] fresh [OF that] by blast
    then show "list_all (\<lambda>(f, path, raw). s path = fs path \<or> s path = Some raw) (job # jobs)"
      using moments [OF first that] by (auto simp: job list_all_iff)
    show "sorted_wrt (\<lambda>(f, path, raw) (g, path', raw'). s path' \<noteq> fs path' \<longrightarrow> s path = Some raw) (job # jobs)"
      using same by (auto simp: job sorted_wrt_iff_nth_less nth_Cons split: nat.splits) (metis nth_mem)+
  qed
  have late: "list_all (\<lambda>(f, path, raw). s path = fs path \<or> s path = Some raw) (job # jobs)"
    "sorted_wrt (\<lambda>(f, path, raw) (g, path', raw'). s path' \<noteq> fs path' \<longrightarrow> s path = Some raw) (job # jobs)"
    if "r1 = Inr u" and rest: "run_writes (map (\<lambda>(f, path, raw). put f path raw) jobs) (last first) = (r2, rest)" "s \<in> set rest"
    for u r2 rest
  proof -
    have stored: "last first = fs(path \<mapsto> raw)" using finish first that(1) by blast
    have here: "s path = Some raw" using untouched [OF rest, of path] fresh stored by fastforce
    have same: "last first path' = fs path'" if "(g, path', raw') \<in> set jobs" for g path' raw'
      using fresh [OF that] stored by simp
    have tail: "distinct (map (\<lambda>(f, path, raw). path) jobs)"
      "\<And>f path raw g path' raw'. (f, path, raw) \<in> set jobs \<Longrightarrow> (g, path', raw') \<in> set jobs \<Longrightarrow> path \<noteq> temporary g path'"
      using Cons.prems(3) Cons.prems(4) [OF list.set_intros(2) list.set_intros(2)] by auto
    have "list_all (\<lambda>(f, path, raw). s path = fs path \<or> s path = Some raw) jobs"
      using conjunct1 [OF Cons.IH [OF rest tail]] same unfolding list_all_iff by fastforce
    then show "list_all (\<lambda>(f, path, raw). s path = fs path \<or> s path = Some raw) (job # jobs)" using here by (simp add: job)
    have "sorted_wrt (\<lambda>(f, path, raw) (g, path', raw'). s path' \<noteq> fs path' \<longrightarrow> s path = Some raw) jobs"
      by (rule sorted_wrt_mono_rel [OF _ conjunct2 [OF Cons.IH [OF rest tail]]]) (use same in fastforce)
    then show "sorted_wrt (\<lambda>(f, path, raw) (g, path', raw'). s path' \<noteq> fs path' \<longrightarrow> s path = Some raw) (job # jobs)"
      using here by (simp add: job)
  qed
  have moment: "s \<in> set first \<or> (\<exists>u r2 rest. r1 = Inr u \<and> run_writes (map (\<lambda>(f, path, raw). put f path raw) jobs) (last first) = (r2, rest) \<and> s \<in> set rest)"
    using Cons.prems(1,2) first job by (auto split: sum.splits prod.splits)
  show ?case using moment early late by blast
qed simp

end

text \<open>A writer of fresh files also leaves every file alone that is already there.\<close>

definition keeps_files :: "'e file_call \<Rightarrow> bool" where
  "keeps_files call \<longleftrightarrow> (\<forall>fs r states. call fs = (r, states) \<longrightarrow> states \<noteq> [] \<and> (\<forall>s \<in> set states. fs \<subseteq>\<^sub>m s))"

lemma map_leD: "m \<subseteq>\<^sub>m m' \<Longrightarrow> m k = Some v \<Longrightarrow> m' k = Some v"
  by (auto simp: map_le_def dom_def)

lemma keeps_filesD: "keeps_files call \<Longrightarrow> call fs = (r, states) \<Longrightarrow> s \<in> set states \<Longrightarrow> fs \<subseteq>\<^sub>m s"
  by (auto simp: keeps_files_def)

lemma keeps_files_last: "keeps_files call \<Longrightarrow> call fs = (r, states) \<Longrightarrow> fs \<subseteq>\<^sub>m last states"
  by (auto simp: keeps_files_def)

lemma keeps_files_run:
  assumes "list_all keeps_files calls"
  shows "keeps_files (run_writes calls)"
  using assms
proof (induction calls)
  case (Cons c cs)
  then have c: "keeps_files c" and cs: "keeps_files (run_writes cs)" by simp_all
  show ?case
    unfolding keeps_files_def
  proof (intro allI impI)
    fix fs r states assume run: "run_writes (c # cs) fs = (r, states)"
    obtain r1 first where first: "c fs = (r1, first)" by fastforce
    then have ne: "first \<noteq> []" and early: "\<And>s. s \<in> set first \<Longrightarrow> fs \<subseteq>\<^sub>m s" using c by (auto simp: keeps_files_def)
    show "states \<noteq> [] \<and> (\<forall>s \<in> set states. fs \<subseteq>\<^sub>m s)"
    proof (cases r1)
      case (Inl e)
      with run first ne early show ?thesis by auto
    next
      case (Inr u)
      obtain r2 rest where rest: "run_writes cs (last first) = (r2, rest)" by fastforce
      have "fs \<subseteq>\<^sub>m last first" using early ne by simp
      then have "fs \<subseteq>\<^sub>m s" if "s \<in> set rest" for s using keeps_filesD [OF cs rest that] by (rule map_le_trans)
      with run first rest Inr ne early show ?thesis by auto
    qed
  qed
qed (simp add: keeps_files_def)

locale fresh_writer = atomic_writer +
  assumes keeps: "keeps_files (put f path raw)"
begin

lemma keeps_run: "keeps_files (run_writes (map (\<lambda>(f, path, raw). put f path raw) jobs))"
  by (rule keeps_files_run) (auto simp: list_all_iff keeps)

lemma all_in_place:
  assumes "run_writes (map (\<lambda>(f, path, raw). put f path raw) jobs) fs = (Inr u, states)" and "(f, path, raw) \<in> set jobs"
  shows "last states path = Some raw"
  using assms
proof (induction jobs arbitrary: fs states u)
  case (Cons job jobs)
  obtain g path' raw' where job: "job = (g, path', raw')" by (cases job)
  obtain r1 first where first: "put g path' raw' fs = (r1, first)" by fastforce
  then obtain v r2 rest where r1: "r1 = Inr v" and rest: "run_writes (map (\<lambda>(f, path, raw). put f path raw) jobs) (last first) = (r2, rest)"
    using Cons.prems(1) job by (auto split: sum.splits prod.splits)
  then have states: "r2 = Inr u" "states = first @ rest" using Cons.prems(1) job first by auto
  have "rest \<noteq> []" and keep: "last first \<subseteq>\<^sub>m last rest" using keeps_run rest keeps_files_last by (auto simp: keeps_files_def)
  then have last: "last states = last rest" using states by simp
  show ?case
  proof (cases "(f, path, raw) = job")
    case True
    then have "last first path = Some raw" using finish first job r1 by fastforce
    with keep last show ?thesis by (auto dest: map_leD)
  next
    case False
    then show ?thesis using Cons.IH rest states(1) Cons.prems(2) last by simp
  qed
qed simp

end

end
