(* ===== verification/Health_File.thy ===== *)
theory Health_File
  imports Server Atomic_File
begin

text \<open>
  The health file and the command line: \<open>atomic_write_private\<close> of \<open>security.py\<close>, \<open>_write_health\<close> of \<open>server.py\<close>
  and \<open>cli.py\<close>.

  A write goes through a sequence of file systems (\<open>Atomic_File\<close>), every prefix of the bytes on its way to the temporary
  file included; the argument \<open>fault\<close> says which system call fails, if any. \<open>json.loads\<close> is the parameter \<open>ce_loads\<close> of the configuration.
\<close>

section \<open>Atomic writing\<close>

datatype write_fault = No_Fault | Open_Fails | Write_Fails nat | Sync_Fails | Replace_Fails

definition temporary_path :: "int \<Rightarrow> str \<Rightarrow> str" where
  "temporary_path pid path = path @ ''.tmp-'' @ int_str pid"

text \<open>\<open>os.open\<close> is outside the \<open>try\<close> block, so a temporary file that is already there is not removed.\<close>

definition atomic_write_private ::
  "write_fault \<Rightarrow> int \<Rightarrow> str \<Rightarrow> str \<Rightarrow> exn file_call" where
  "atomic_write_private fault pid path raw fs =
     (let temporary = temporary_path pid path;
          written = (\<lambda>n. map (\<lambda>k. fs(temporary \<mapsto> take k raw)) [0..<Suc n]);
          undone = fs(temporary := None) in
      if fs temporary \<noteq> None then (Inl OSError, [fs])
      else case fault of
             Open_Fails \<Rightarrow> (Inl OSError, [fs])
           | Write_Fails n \<Rightarrow> (Inl OSError, fs # written n @ [undone])
           | Sync_Fails \<Rightarrow> (Inl OSError, fs # written (length raw) @ [undone])
           | Replace_Fails \<Rightarrow> (Inl OSError, fs # written (length raw) @ [undone])
           | No_Fault \<Rightarrow> (Inr (), fs # written (length raw) @ [fs(temporary := None, path \<mapsto> raw)]))"

definition write_health ::
  "service_env \<Rightarrow> clock \<Rightarrow> world \<Rightarrow> write_fault \<Rightarrow> int \<Rightarrow> bool \<Rightarrow> server \<Rightarrow> exn file_call" where
  "write_health env clk w fault pid final h fs =
     (case write_health_bytes env clk w pid final h of
        Inl e \<Rightarrow> (Inl e, [fs])
      | Inr raw \<Rightarrow> atomic_write_private fault pid (ac_health_state_path (hs_config h)) raw fs)"

lemma temporary_path_other [simp]: "temporary_path pid path \<noteq> path" "path \<noteq> temporary_path pid path"
  by (simp_all add: temporary_path_def)

lemma atomic_write_states:
  assumes "atomic_write_private fault pid path raw fs = (r, states)" and "s \<in> set states"
  shows "s path = fs path \<or> s path = Some raw"
    and "q \<noteq> path \<Longrightarrow> q \<noteq> temporary_path pid path \<Longrightarrow> s q = fs q"
  using assms
  by (auto simp: atomic_write_private_def Let_def simp del: upt_Suc split: if_splits write_fault.splits)

lemma atomic_write_last:
  assumes "atomic_write_private fault pid path raw fs = (r, states)"
  shows "states \<noteq> [] \<and> hd states = fs
    \<and> (r = Inr () \<and> fs (temporary_path pid path) = None \<and> last states = fs(path \<mapsto> raw) \<or> r = Inl OSError \<and> last states = fs)"
proof (cases "fs (temporary_path pid path) = None")
  case True
  then have "fs(temporary_path pid path := None) = fs" by (auto simp: fun_eq_iff)
  with assms True show ?thesis
    by (cases fault) (auto simp: atomic_write_private_def Let_def simp del: upt_Suc)
qed (use assms in \<open>auto simp: atomic_write_private_def Let_def\<close>)

interpretation health_writes: atomic_writer "\<lambda>(fault, pid). atomic_write_private fault pid" "\<lambda>(fault, pid). temporary_path pid"
proof unfold_locales
  fix f :: "write_fault \<times> int" and path raw fs r states
  obtain fault pid where f: "f = (fault, pid)" by (cases f)
  assume run: "(case f of (fault, pid) \<Rightarrow> atomic_write_private fault pid) path raw fs = (r, states)"
  show "states \<noteq> [] \<and> hd states = fs" using run atomic_write_last by (auto simp: f)
  fix s assume "s \<in> set states"
  then show "s path = fs path \<or> s path = Some raw" using run atomic_write_states(1) by (auto simp: f)
next
  fix f :: "write_fault \<times> int" and path raw fs r states s q
  assume "(case f of (fault, pid) \<Rightarrow> atomic_write_private fault pid) path raw fs = (r, states)" "s \<in> set states"
    "q \<noteq> path" "q \<noteq> (case f of (fault, pid) \<Rightarrow> temporary_path pid) path"
  then show "s q = fs q" by (cases f) (auto dest: atomic_write_states(2))
next
  fix f :: "write_fault \<times> int" and path raw fs u states
  assume "(case f of (fault, pid) \<Rightarrow> atomic_write_private fault pid) path raw fs = (Inr u, states)"
  then show "last states = fs(path \<mapsto> raw)" by (cases f) (auto dest: atomic_write_last)
next
  fix f :: "write_fault \<times> int" and path raw fs e states
  assume "(case f of (fault, pid) \<Rightarrow> atomic_write_private fault pid) path raw fs = (Inl e, states)"
  then show "last states = fs" by (cases f) (auto dest: atomic_write_last)
qed

text \<open>
  C40: a health write is atomic. Whatever system call fails and at whatever moment a reader looks or the process
  dies, the health file has its old content or the complete new document, and no other file except the temporary
  one of this process is touched; at the end the document is there and the temporary file is gone, or an error was
  raised and the file system is exactly what it was.
\<close>

theorem health_write_atomic:
  assumes "write_health env clk w fault pid final h fs = (r, states)"
  defines "path \<equiv> ac_health_state_path (hs_config h)"
  shows "list_all (\<lambda>s. (s path = fs path \<or> (\<exists>raw. write_health_bytes env clk w pid final h = Inr raw \<and> s path = Some raw))
      \<and> (\<forall>q. q \<noteq> path \<longrightarrow> q \<noteq> temporary_path pid path \<longrightarrow> s q = fs q)) states
    \<and> (case r of Inl _ \<Rightarrow> last states = fs
       | Inr _ \<Rightarrow> \<exists>raw. write_health_bytes env clk w pid final h = Inr raw \<and> last states = fs(path \<mapsto> raw))"
proof (cases "write_health_bytes env clk w pid final h")
  case (Inr raw)
  with assms have run: "(case (fault, pid) of (fault, pid) \<Rightarrow> atomic_write_private fault pid) path raw fs = (r, states)"
    by (simp add: write_health_def)
  have "list_all (\<lambda>s. (s path = fs path \<or> s path = Some raw)
      \<and> (\<forall>q. q \<noteq> path \<longrightarrow> q \<noteq> temporary_path pid path \<longrightarrow> s q = fs q)) states"
    using health_writes.crash_safe [OF run] by simp
  moreover have "case r of Inl _ \<Rightarrow> last states = fs | Inr _ \<Rightarrow> last states = fs(path \<mapsto> raw)"
    using health_writes.finish health_writes.failed run by (auto split: sum.splits)
  ultimately show ?thesis using Inr by (auto split: sum.splits)
qed (use assms in \<open>auto simp: write_health_def\<close>)

section \<open>The probe\<close>

text \<open>\<open>isinstance(v, int)\<close>: a \<open>bool\<close> is an \<open>int\<close>.\<close>

fun as_int :: "json option \<Rightarrow> int option" where
  "as_int (Some (JInt i)) = Some i"
| "as_int (Some (JBool b)) = Some (if b then 1 else 0)"
| "as_int _ = None"

text \<open>\<open>kill\<close> is \<open>os.kill(pid, 0)\<close>; an exception other than \<open>OSError\<close> is not caught.\<close>

definition probe_document :: "(int \<Rightarrow> exn + unit) \<Rightarrow> int \<Rightarrow> str \<Rightarrow> json \<Rightarrow> exn + int" where
  "probe_document kill now name document =
     (case document of
        JObj kvs \<Rightarrow>
          if json_get kvs ''schema_version'' \<noteq> Some (JStr ''masi-analysis-health/v1'') then Inr 1
          else (case (as_int (json_get kvs ''pid''), as_int (json_get kvs ''updated_at_unix_ms'')) of
                 (Some pid, Some updated) \<Rightarrow>
                   if now - updated > 5000 then Inr 1
                   else (case kill pid of
                           Inl OSError \<Rightarrow> Inr 1
                         | Inl e \<Rightarrow> Inl e
                         | Inr _ \<Rightarrow> Inr (if json_get kvs name = Some (JBool True) then 0 else 1))
               | _ \<Rightarrow> Inr 1)
      | _ \<Rightarrow> Inr 1)"

definition probe :: "config_env \<Rightarrow> (int \<Rightarrow> exn + unit) \<Rightarrow> int \<Rightarrow> str \<Rightarrow> str \<Rightarrow> exn + int" where
  "probe cfg kill now config_path name =
     rbind (load_runtime_material cfg config_path) (\<lambda>material.
     case read_bounded_regular_file (ce_os cfg) (ac_health_state_path (rt_config material)) 65536 False of
       Inl e \<Rightarrow> if is_analysis_error e then Inr 1 else Inl e
     | Inr raw \<Rightarrow> (case ce_loads cfg raw of None \<Rightarrow> Inr 1 | Some document \<Rightarrow> probe_document kill now name document))"

section \<open>The command line\<close>

text \<open>The parsed arguments; \<open>argparse\<close> admits only \<open>startup\<close>, \<open>ready\<close> and \<open>live\<close> as probe names.\<close>

record arguments =
  ar_config :: "str option"
  ar_probe :: "str option"
  ar_version :: bool

datatype exit = Exit_Code int "str option" | Uncaught exn

definition run_server :: "config_env \<Rightarrow> (runtime_material \<Rightarrow> exn + unit) \<Rightarrow> str \<Rightarrow> exn + int" where
  "run_server cfg serving config_path =
     rbind (load_runtime_material cfg config_path) (\<lambda>material. rbind (serving material) (\<lambda>_. Inr 0))"

text \<open>\<open>main\<close> with the text it prints; \<open>serving\<close> is the outcome of \<open>AnalysisHTTPServer(..).run()\<close>.\<close>

definition main :: "config_env \<Rightarrow> (int \<Rightarrow> exn + unit) \<Rightarrow> int \<Rightarrow> (runtime_material \<Rightarrow> exn + unit) \<Rightarrow> arguments \<Rightarrow> exit" where
  "main cfg kill now serving args =
     (if ar_version args then Exit_Code 0 (Some VERSION)
      else case ar_config args of
             None \<Rightarrow> Exit_Code 2 (Some ''--config is required'')
           | Some config_path \<Rightarrow>
               if config_path = [] then Exit_Code 2 (Some ''--config is required'')
               else if given (ar_probe args)
               then (case probe cfg kill now config_path (the (ar_probe args)) of
                       Inl e \<Rightarrow> Uncaught e | Inr code \<Rightarrow> Exit_Code code None)
               else (case run_server cfg serving config_path of
                       Inr code \<Rightarrow> Exit_Code code None
                     | Inl e \<Rightarrow> if is_analysis_error e then Exit_Code 1 None else Uncaught e))"

section \<open>What the probe says of the service\<close>

lemma upsert_get: "map_of (upsert z f k kvs) k' = (if k' = k then Some (f (case map_of kvs k of None \<Rightarrow> z | Some v \<Rightarrow> v)) else map_of kvs k')"
  by (induction kvs) auto

lemma dict_set_get [simp]: "json_get (dict_set k v kvs) k' = (if k' = k then Some v else json_get kvs k')"
  by (simp add: json_get_def dict_set_def upsert_get split: option.splits)

text \<open>The three conditions that \<open>health\<close> reports.\<close>

definition progressing :: "clock \<Rightarrow> service \<Rightarrow> bool" where
  "progressing clk s \<longleftrightarrow> ck_mono clk 0 - sv_last_progress_monotonic s \<le> 10"

definition condition :: "clock \<Rightarrow> service \<Rightarrow> str \<Rightarrow> bool" where
  "condition clk s name \<longleftrightarrow>
     (if name = ''startup'' then sv_started s
      else if name = ''live'' then sv_started s \<and> progressing clk s
      else sv_started s \<and> \<not> sv_draining s \<and> (\<exists>b. snapshot (sv_binding_state s) (ck_ms clk 0) = Inr b) \<and> progressing clk s)"

lemma health_get:
  "json_get (health clk w s) ''schema_version'' = Some (JStr ''masi-analysis-health/v1'')"
  "json_get (health clk w s) ''updated_at_unix_ms'' = Some (JInt (ck_ms clk 1))"
  "name \<in> {''startup'', ''ready'', ''live''} \<Longrightarrow> json_get (health clk w s) name = Some (JBool (condition clk s name))"
  by (auto simp: health_def condition_def progressing_def json_get_def Let_def split: sum.split)

lemma health_document_get:
  "json_get (health_document clk w pid final s) ''schema_version'' = Some (JStr ''masi-analysis-health/v1'')"
  "json_get (health_document clk w pid final s) ''pid'' = Some (JInt pid)"
  "json_get (health_document clk w pid final s) ''updated_at_unix_ms'' = Some (JInt (ck_ms clk (if final then 2 else 1)))"
  "name \<in> {''startup'', ''ready'', ''live''} \<Longrightarrow>
     json_get (health_document clk w pid final s) name = Some (JBool (\<not> final \<and> condition clk s name))"
  using health_get(3) [of name clk w s] by (auto simp: health_document_def Let_def health_get)

text \<open>
  The probe reports the state of the service that wrote the health file. When the file holds the document
  that a live process wrote at most five seconds ago and the decoder inverts the encoder on it, the exit code of
  \<open>masi-analysis --probe\<close> is 0 exactly when the probed condition held of the service at the write: started; live,
  that is, started with progress in the last ten seconds; ready, that is, live, not draining and with a usable
  binding. After the final write of a shutdown it is 1, and so it is when the writer is gone or the document is older.
\<close>

theorem probe_reports_service:
  assumes "load_runtime_material cfg config_path = Inr material"
    and "write_health_bytes env clk w pid final h = Inr raw"
    and "read_bounded_regular_file (ce_os cfg) (ac_health_state_path (rt_config material)) 65536 False = Inr raw"
    and "ce_loads cfg raw = Some (JObj (health_document clk w pid final (hs_service h)))"
    and "kill pid = Inr () \<or> kill pid = Inl OSError"
    and "config_path \<noteq> []" and "name \<in> {''startup'', ''ready'', ''live''}"
  shows "main cfg kill now serving \<lparr>ar_config = Some config_path, ar_probe = Some name, ar_version = False\<rparr>
    = Exit_Code (if now - ck_ms clk (if final then 2 else 1) \<le> 5000 \<and> kill pid = Inr () \<and> \<not> final
        \<and> condition clk (hs_service h) name then 0 else 1) None"
proof -
  have "probe cfg kill now config_path name = Inr (if now - ck_ms clk (if final then 2 else 1) \<le> 5000 \<and> kill pid = Inr ()
      \<and> \<not> final \<and> condition clk (hs_service h) name then 0 else 1)"
    using assms(5) health_document_get(4) [OF assms(7), of clk w pid final "hs_service h"]
    by (auto simp: probe_def probe_document_def assms(1,3,4) health_document_get)
  then show ?thesis using assms(6,7) by (auto simp: main_def given_def)
qed

end
