(* ===== verification/Health_Sample.thy ===== *)
theory Health_Sample
  imports Health_File Server_Sample
begin

text \<open>Concrete instances of the properties of the health file: a write by the sample server and a probe of it.\<close>

abbreviation sample_health :: "(str \<times> json) list" where
  "sample_health \<equiv> health_document sample_clock sample_answered_world 7 False sample_queued"

lemma sample_health_finite: "\<not> has_nonfinite (JObj (health_document clk w pid final s))"
  by (auto simp: health_document_def dict_set_def health_def Let_def split: sum.split)

definition sample_health_text :: str where
  "sample_health_text = go_escape (json_text zero_env (norm_json (JObj sample_health)))"

lemma sample_health_written:
  "write_health_bytes (sample_service_env 16) sample_clock sample_answered_world 7 False (sample_server sample_queued)
     = Inr sample_health_text"
  using sample_health_finite by (simp add: write_health_bytes_def go_json_bytes_eq sample_health_text_def)

lemma sample_health_text_brace: "\<exists>rest. sample_health_text = CHR 0x7B # rest"
  by (simp add: sample_health_text_def go_escape_def py_replace_Cons LINE_SEP_def PARA_SEP_def)

definition sample_probe_env :: "str \<Rightarrow> (str \<times> json) list \<Rightarrow> config_env" where
  "sample_probe_env raw doc = (sample_config_env sample_binding CHR ''0'')\<lparr>
     ce_os := sample_files\<lparr>os_read := (\<lambda>p. if p = ''/s/h'' then raw else os_read sample_files p)\<rparr>,
     ce_loads := (\<lambda>r. if r = ''manifest'' then Some (JObj sample_manifest)
       else if r = ''config'' \<or> r = ''binding'' then Some (JObj []) else Some (JObj doc))\<rparr>"

lemma sample_probe_loads: "load_runtime_material (sample_probe_env raw doc) ''/cfg'' = Inr (sample_material sample_binding)"
  by code_simp

lemma sample_probe_reads:
  "read_bounded_regular_file (ce_os (sample_probe_env raw doc)) (ac_health_state_path (rt_config (sample_material sample_binding)))
     65536 False = Inr raw"
  by code_simp

theorem probe_reports_service_witness:
  "main (sample_probe_env sample_health_text sample_health) (\<lambda>_. Inr ()) 1500 (\<lambda>_. Inr ())
     \<lparr>ar_config = Some ''/cfg'', ar_probe = Some ''ready'', ar_version = False\<rparr> = Exit_Code 0 None"
proof -
  have words: "hd ''manifest'' \<noteq> CHR 0x7B" "hd ''config'' \<noteq> CHR 0x7B" "hd ''binding'' \<noteq> CHR 0x7B" by simp_all
  have "hd sample_health_text = CHR 0x7B" using sample_health_text_brace by (metis list.sel(1))
  then have plain: "sample_health_text \<noteq> ''manifest'' \<and> sample_health_text \<noteq> ''config'' \<and> sample_health_text \<noteq> ''binding''"
    using words by metis
  have decoded: "ce_loads (sample_probe_env sample_health_text sample_health) sample_health_text
      = Some (JObj (health_document sample_clock sample_answered_world 7 False (hs_service (sample_server sample_queued))))"
    using plain by (simp add: sample_probe_env_def)
  have "condition sample_clock sample_queued ''ready''"
    by (simp add: condition_def progressing_def sample_queued_def sample_fresh_def new_service_def count_def sample_binding_usable)
  with probe_reports_service [OF sample_probe_loads sample_health_written sample_probe_reads decoded,
      of "\<lambda>_. Inr ()" "''ready''" 1500 "\<lambda>_. Inr ()"]
  show ?thesis by simp
qed

theorem health_write_atomic_witness:
  "\<exists>states. write_health (sample_service_env 16) sample_clock sample_answered_world No_Fault 7 False (sample_server sample_queued) Map.empty
      = (Inr (), states)
    \<and> last states = [ac_health_state_path (hs_config (sample_server sample_queued)) \<mapsto> sample_health_text]"
proof -
  obtain states where run: "write_health (sample_service_env 16) sample_clock sample_answered_world No_Fault 7 False
      (sample_server sample_queued) Map.empty = (Inr (), states)"
    by (simp add: write_health_def sample_health_written atomic_write_private_def Let_def)
  from health_write_atomic [OF run] sample_health_written run show ?thesis by auto
qed

end
