(* ===== verification/Ml_Contracts.thy ===== *)
theory Ml_Contracts
  imports Canonical
begin

text \<open>
  The offline training pipeline (\<open>ml-py\<close>): finite numbers, canonical bytes, the feature tensor, the split of the
  capture families and the semantic validators of datasets, samples and explanations (\<open>canonical.py\<close>,
  \<open>contracts.py\<close>).

  A double is a rational or not finite, as in \<open>pyfloat\<close>. The fields of \<open>ml_env\<close> are functions of the interpreter: the
  bytes of SHA-256, the rounding of a rational to a double, which every arithmetic operation applies to its exact
  result, and \<open>sum\<close> of doubles. A \<open>ValidationError\<close> carries its code and detail.
\<close>

section \<open>Errors and numbers\<close>

datatype ml_error =
  Invalid str str | MKeyError | MTypeError | MValueError | MIndexError | MZeroDivisionError | MOverflowError
| MFileNotFoundError | MOSError | MStopIteration | MAttributeError

record ml_env =
  me_py :: pyenv
  me_digest :: "str \<Rightarrow> str"
  me_round :: "rat \<Rightarrow> rat"
  me_sum :: "rat list \<Rightarrow> rat"

fun ensure_finite :: "str \<Rightarrow> json \<Rightarrow> ml_error + unit"
  and ensure_items :: "str \<Rightarrow> nat \<Rightarrow> json list \<Rightarrow> ml_error + unit"
  and ensure_fields :: "str \<Rightarrow> (str \<times> json) list \<Rightarrow> ml_error + unit" where
  "ensure_finite path (JFloat f) = (case f of FFin _ \<Rightarrow> Inr () | _ \<Rightarrow> Inl (Invalid ''non_finite'' path))"
| "ensure_finite path (JArr vs) = ensure_items path 0 vs"
| "ensure_finite path (JObj kvs) = ensure_fields path kvs"
| "ensure_finite path v = Inr ()"
| "ensure_items path i [] = Inr ()"
| "ensure_items path i (v # vs) =
     rbind (ensure_finite (path @ ''['' @ nat_str i @ '']'') v) (\<lambda>_. ensure_items path (Suc i) vs)"
| "ensure_fields path [] = Inr ()"
| "ensure_fields path ((k, v) # kvs) = rbind (ensure_finite (path @ ''.'' @ k) v) (\<lambda>_. ensure_fields path kvs)"

definition canonical_json_bytes :: "pyenv \<Rightarrow> json \<Rightarrow> ml_error + str" where
  "canonical_json_bytes env v = (if has_nonfinite v then Inl MValueError else Inr (json_text env (sort_json v)))"

definition sha256_bytes :: "ml_env \<Rightarrow> str \<Rightarrow> str" where
  "sha256_bytes env payload = ''sha256:'' @ hexdigest (me_py env) payload"

text \<open>\<open>d[k]\<close>, and the equality and truth of Python values where the code compares a document with a constant.\<close>

definition item_at :: "(str \<times> json) list \<Rightarrow> str \<Rightarrow> ml_error + json" where
  "item_at kvs key = (case json_get kvs key of None \<Rightarrow> Inl MKeyError | Some v \<Rightarrow> Inr v)"

fun equals_int :: "json \<Rightarrow> int \<Rightarrow> bool" where
  "equals_int (JInt j) i \<longleftrightarrow> j = i"
| "equals_int (JBool b) i \<longleftrightarrow> (if b then 1 else 0) = i"
| "equals_int (JFloat (FFin q)) i \<longleftrightarrow> q = of_int i"
| "equals_int _ i \<longleftrightarrow> False"

fun truthy :: "json \<Rightarrow> bool" where
  "truthy JNull \<longleftrightarrow> False"
| "truthy (JBool b) \<longleftrightarrow> b"
| "truthy (JInt i) \<longleftrightarrow> i \<noteq> 0"
| "truthy (JFloat f) \<longleftrightarrow> f \<noteq> FFin 0"
| "truthy (JStr s) \<longleftrightarrow> s \<noteq> []"
| "truthy (JArr vs) \<longleftrightarrow> vs \<noteq> []"
| "truthy (JObj kvs) \<longleftrightarrow> kvs \<noteq> []"

section \<open>Typed access\<close>

definition as_mapping :: "str \<Rightarrow> json \<Rightarrow> ml_error + (str \<times> json) list" where
  "as_mapping path v = (case v of JObj kvs \<Rightarrow> Inr kvs | _ \<Rightarrow> Inl (Invalid ''expected_object'' path))"

definition as_sequence :: "str \<Rightarrow> json \<Rightarrow> ml_error + json list" where
  "as_sequence path v = (case v of JArr vs \<Rightarrow> Inr vs | _ \<Rightarrow> Inl (Invalid ''expected_array'' path))"

text \<open>\<open>float\<close> of an integer overflows from the midpoint between the largest double and its successor on.\<close>

definition as_number :: "ml_env \<Rightarrow> str \<Rightarrow> json \<Rightarrow> ml_error + rat" where
  "as_number env path v =
     (case v of
        JInt i \<Rightarrow> if \<bar>i\<bar> \<ge> 2 ^ 1024 - 2 ^ 970 then Inl MOverflowError else Inr (me_round env (of_int i))
      | JFloat (FFin q) \<Rightarrow> Inr q
      | JFloat _ \<Rightarrow> Inl (Invalid ''non_finite'' path)
      | _ \<Rightarrow> Inl (Invalid ''expected_number'' path))"

definition as_integer :: "str \<Rightarrow> json \<Rightarrow> ml_error + int" where
  "as_integer path v = (case v of JInt i \<Rightarrow> Inr i | _ \<Rightarrow> Inl (Invalid ''expected_integer'' path))"

definition as_string :: "str \<Rightarrow> json \<Rightarrow> ml_error + str" where
  "as_string path v = (case v of JStr s \<Rightarrow> Inr s | _ \<Rightarrow> Inl (Invalid ''expected_string'' path))"

definition mapping_at :: "(str \<times> json) list \<Rightarrow> str \<Rightarrow> str \<Rightarrow> ml_error + (str \<times> json) list" where
  "mapping_at kvs key path = rbind (item_at kvs key) (as_mapping path)"

definition sequence_at :: "(str \<times> json) list \<Rightarrow> str \<Rightarrow> str \<Rightarrow> ml_error + json list" where
  "sequence_at kvs key path = rbind (item_at kvs key) (as_sequence path)"

definition number_at :: "ml_env \<Rightarrow> (str \<times> json) list \<Rightarrow> str \<Rightarrow> str \<Rightarrow> ml_error + rat" where
  "number_at env kvs key path = rbind (item_at kvs key) (as_number env path)"

definition integer_at :: "(str \<times> json) list \<Rightarrow> str \<Rightarrow> str \<Rightarrow> ml_error + int" where
  "integer_at kvs key path = rbind (item_at kvs key) (as_integer path)"

definition string_at :: "(str \<times> json) list \<Rightarrow> str \<Rightarrow> str \<Rightarrow> ml_error + str" where
  "string_at kvs key path = rbind (item_at kvs key) (as_string path)"

lemmas access_defs = mapping_at_def sequence_at_def number_at_def integer_at_def string_at_def item_at_def
  as_mapping_def as_sequence_def as_number_def as_integer_def as_string_def

section \<open>Arithmetic of doubles\<close>

definition true_divide :: "ml_env \<Rightarrow> int \<Rightarrow> int \<Rightarrow> ml_error + rat" where
  "true_divide env a b =
     (if b = 0 then Inl MZeroDivisionError
      else if \<bar>of_int a / of_int b :: rat\<bar> \<ge> 2 ^ 1024 - 2 ^ 970 then Inl MOverflowError
      else Inr (me_round env (of_int a / of_int b)))"

definition isclose :: "ml_env \<Rightarrow> rat \<Rightarrow> rat \<Rightarrow> rat \<Rightarrow> bool" where
  "isclose env a b abs_tol \<longleftrightarrow> a = b \<or>
     (let rel_tol = me_round env (1 / 10 ^ 9); diff = \<bar>me_round env (b - a)\<bar> in
      diff \<le> \<bar>me_round env (rel_tol * b)\<bar> \<or> diff \<le> \<bar>me_round env (rel_tol * a)\<bar> \<or> diff \<le> abs_tol)"

abbreviation tolerance_12 :: "ml_env \<Rightarrow> rat" where
  "tolerance_12 env \<equiv> me_round env (1 / 10 ^ 12)"

section \<open>Splits and feature tensors\<close>

definition FEATURE_ORDER :: "str list" where
  "FEATURE_ORDER = [''aggregate_packets'', ''aggregate_bytes'', ''reported_nonzero_cells'', ''max_cell_packets'',
     ''max_cell_bytes'', ''snapshot_count'']"

definition SEEDS :: "int list" where "SEEDS = [17, 29, 43]"

definition from_bytes_big :: "str \<Rightarrow> int" where
  "from_bytes_big s = fold (\<lambda>c acc. acc * 256 + of_char c) s 0"

definition split_fraction :: "ml_env \<Rightarrow> str \<Rightarrow> str \<Rightarrow> rat" where
  "split_fraction env source_revision capture_family_id =
     (let payload = ''masi-split-v1'' @ [CHR 0x00] @ source_revision @ [CHR 0x00] @ capture_family_id in
      me_round env (of_int (from_bytes_big (take 8 (me_digest env payload))) / 2 ^ 64))"

definition split_name :: "ml_env \<Rightarrow> str \<Rightarrow> str \<Rightarrow> str" where
  "split_name env source_revision capture_family_id =
     (let fraction = split_fraction env source_revision capture_family_id in
      if fraction < me_round env (6 / 10) then ''train''
      else if fraction < 3 / 4 then ''early_stop''
      else if fraction < me_round env (9 / 10) then ''calibration''
      else ''blind_test'')"

text \<open>\<open>struct.pack("<Q", n)\<close>: eight bytes, the lowest first.\<close>

fun le_bytes :: "nat \<Rightarrow> int \<Rightarrow> str" where
  "le_bytes 0 n = []"
| "le_bytes (Suc k) n = char_of (n mod 256) # le_bytes k (n div 256)"

definition feature_value :: "json \<Rightarrow> ml_error + int" where
  "feature_value v =
     (case v of
        JInt i \<Rightarrow> if i < 0 \<or> i > 0xFFFFFFFFFFFFFFFF then Inl (Invalid ''feature_value'' ''features must be six uint64 values'') else Inr i
      | _ \<Rightarrow> Inl (Invalid ''feature_value'' ''features must be six uint64 values''))"

definition feature_tensor_bytes :: "json list \<Rightarrow> ml_error + str" where
  "feature_tensor_bytes values =
     (if length values \<noteq> 6 then Inl (Invalid ''feature_count'' (nat_str (length values)))
      else rbind (mapM feature_value values) (\<lambda>integers. Inr (concat (map (le_bytes 8) integers))))"

text \<open>\<open>np.frombuffer(payload, dtype="<u8").reshape((-1, 6))\<close> on a payload whose length is a multiple of 48.\<close>

fun from_le_bytes :: "str \<Rightarrow> int" where
  "from_le_bytes [] = 0"
| "from_le_bytes (c # s) = of_char c + 256 * from_le_bytes s"

function chunks_of :: "nat \<Rightarrow> 'a list \<Rightarrow> 'a list list" where
  "chunks_of n xs = (if xs = [] \<or> n = 0 then [] else take n xs # chunks_of n (drop n xs))"
  by auto
termination by (relation "measure (length \<circ> snd)") auto

declare chunks_of.simps [simp del]

definition feature_rows :: "str \<Rightarrow> int list list" where
  "feature_rows payload = map (\<lambda>row. map from_le_bytes (chunks_of 8 row)) (chunks_of 48 payload)"

section \<open>Datasets and samples\<close>

definition validate_source :: "nat \<Rightarrow> json \<Rightarrow> ml_error + unit" where
  "validate_source offset source_value =
     rbind (as_mapping (''source_profiles['' @ nat_str offset @ '']'') source_value) (\<lambda>source.
     rbind (string_at source ''ingestion_status'' ''source.ingestion_status'') (\<lambda>status.
     rbind (string_at source ''decision'' ''source.decision'') (\<lambda>decision.
     rbind (mapping_at source ''license'' ''source.license'') (\<lambda>license_value.
     rbind (mapping_at source ''privacy'' ''source.privacy'') (\<lambda>privacy.
     rbind (mapping_at source ''ground_truth'' ''source.ground_truth'') (\<lambda>truth.
     rbind (item_at license_value ''verified'') (\<lambda>v1.
     rbind (item_at privacy ''verified'') (\<lambda>v2.
     rbind (item_at truth ''verified'') (\<lambda>v3.
     let all_verified = (truthy v1 \<and> truthy v2 \<and> truthy v3) in
     rbind (if status = ''verified'' \<and> (\<not> all_verified \<or> decision \<in> set [''CONDITIONAL'', ''REJECT_DIRECT_IMPORT''])
            then rbind (string_at source ''profile_id'' ''source.profile_id'') (\<lambda>name. Inl (Invalid ''source_decision_status'' name))
            else Inr ()) (\<lambda>_.
     raise_if (decision = ''REJECT_DIRECT_IMPORT'' \<and> status \<noteq> ''rejected'')
       (Invalid ''legacy_direct_import'' ''rejected source cannot be ingested'')))))))))))"

text \<open>The record counts of the manifest; the result is the quality summary that the next checks read.\<close>

definition validate_counts :: "(str \<times> json) list \<Rightarrow> ml_error + (str \<times> json) list" where
  "validate_counts document =
     rbind (mapping_at document ''files'' ''files'') (\<lambda>files.
     rbind (mapping_at files ''features'' ''files.features'') (\<lambda>features.
     rbind (mapping_at files ''sample_index'' ''files.sample_index'') (\<lambda>index.
     rbind (mapping_at document ''quality_summary'' ''quality_summary'') (\<lambda>summary.
     rbind (integer_at features ''record_count'' ''features.record_count'') (\<lambda>record_count.
     rbind (integer_at index ''record_count'' ''sample_index.record_count'') (\<lambda>index_count.
     rbind (if record_count \<noteq> index_count then Inl (Invalid ''file_record_count'' ''feature/index/summary record counts differ'')
            else rbind (integer_at summary ''sample_count'' ''quality_summary.sample_count'') (\<lambda>sample_count.
              raise_if (record_count \<noteq> sample_count) (Invalid ''file_record_count'' ''feature/index/summary record counts differ'')))
       (\<lambda>_.
     rbind (integer_at features ''bytes'' ''features.bytes'') (\<lambda>feature_bytes.
     rbind (raise_if (feature_bytes \<noteq> record_count * 48) (Invalid ''feature_bytes'' ''feature bytes must equal record_count*48'')) (\<lambda>_.
     rbind (mapping_at summary ''split_counts'' ''quality_summary.split_counts'') (\<lambda>split_counts.
     rbind (mapM (\<lambda>name. integer_at split_counts name (''split_counts.'' @ name))
       [''train'', ''early_stop'', ''calibration'', ''blind_test'']) (\<lambda>split_sizes.
     rbind (raise_if (sum_list split_sizes \<noteq> record_count) (Invalid ''split_count'' ''split counts do not sum to record count'')) (\<lambda>_.
     Inr summary))))))))))))"

definition validate_dataset_manifest :: "ml_env \<Rightarrow> (str \<times> json) list \<Rightarrow> ml_error + unit" where
  "validate_dataset_manifest env document =
     rbind (ensure_finite ''$'' (JObj document)) (\<lambda>_.
     rbind (mapping_at document ''feature_contract'' ''feature_contract'') (\<lambda>feature.
     rbind (sequence_at feature ''order'' ''feature_contract.order'') (\<lambda>order.
     rbind (raise_if (order \<noteq> map JStr FEATURE_ORDER) (Invalid ''feature_order'' ''dataset feature order drift'')) (\<lambda>_.
     rbind (validate_counts document) (\<lambda>summary.
     rbind (mapping_at summary ''ground_truth'' ''quality_summary.ground_truth'') (\<lambda>ground_truth.
     rbind (integer_at ground_truth ''eligible_packets'' ''ground_truth.eligible_packets'') (\<lambda>eligible.
     rbind (integer_at ground_truth ''labeled_eligible_packets'' ''ground_truth.labeled_eligible_packets'') (\<lambda>labeled.
     rbind (true_divide env labeled eligible) (\<lambda>expected_coverage.
     rbind (number_at env ground_truth ''coverage'' ''ground_truth.coverage'') (\<lambda>coverage.
     rbind (raise_if (\<not> isclose env expected_coverage coverage (tolerance_12 env))
       (Invalid ''ground_truth_coverage'' ''coverage ratio mismatch'')) (\<lambda>_.
     rbind (sequence_at document ''source_profiles'' ''source_profiles'') (\<lambda>sources.
     rbind (mapM (\<lambda>(offset, source_value). validate_source offset source_value) (enumerate_from 0 sources)) (\<lambda>_.
     Inr ())))))))))))))"

text \<open>\<open>a / b if b else 0.0\<close>.\<close>

definition ratio :: "ml_env \<Rightarrow> int \<Rightarrow> int \<Rightarrow> ml_error + rat" where
  "ratio env a b = (if b = 0 then Inr 0 else true_divide env a b)"

definition validate_label :: "ml_env \<Rightarrow> (str \<times> json) list \<Rightarrow> str \<Rightarrow> ml_error + unit" where
  "validate_label env label observed_split =
     rbind (integer_at label ''eligible_packets'' ''label.eligible_packets'') (\<lambda>eligible.
     rbind (integer_at label ''labeled_eligible_packets'' ''label.labeled_eligible_packets'') (\<lambda>labeled.
     rbind (number_at env label ''coverage'' ''label.coverage'') (\<lambda>coverage.
     rbind (ratio env labeled eligible) (\<lambda>expected.
     rbind (raise_if (\<not> isclose env expected coverage (tolerance_12 env))
       (Invalid ''sample_label_coverage'' ''packet coverage ratio mismatch'')) (\<lambda>_.
     rbind (integer_at label ''supported_attack_packets'' ''label.supported_attack_packets'') (\<lambda>attacks.
     rbind (number_at env label ''attack_share'' ''label.attack_share'') (\<lambda>attack_share.
     rbind (ratio env attacks eligible) (\<lambda>expected_share.
     rbind (raise_if (\<not> isclose env expected_share attack_share (tolerance_12 env))
       (Invalid ''sample_attack_share'' ''attack share ratio mismatch'')) (\<lambda>_.
     rbind (string_at label ''purity'' ''label.purity'') (\<lambda>purity.
     rbind (item_at label ''binary_label'') (\<lambda>binary_label.
     rbind (raise_if (purity = ''fit_benign'' \<and> \<not> (equals_int binary_label 0 \<and> coverage = 1 \<and> attack_share = 0))
       (Invalid ''fit_benign_semantics'' ''invalid benign fit sample'')) (\<lambda>_.
     rbind (raise_if (purity = ''fit_attack'' \<and> \<not> (equals_int binary_label 1 \<and> coverage = 1 \<and> me_round env (9 / 10) \<le> attack_share))
       (Invalid ''fit_attack_semantics'' ''invalid attack fit sample'')) (\<lambda>_.
     raise_if (purity \<notin> set [''fit_benign'', ''fit_attack''] \<and> observed_split \<noteq> ''evaluation_only'')
       (Invalid ''evaluation_only_label'' purity))))))))))))))"

definition validate_dataset_sample :: "ml_env \<Rightarrow> (str \<times> json) list \<Rightarrow> ml_error + unit" where
  "validate_dataset_sample env document =
     rbind (ensure_finite ''$'' (JObj document)) (\<lambda>_.
     rbind (sequence_at document ''feature_values'' ''feature_values'') (\<lambda>items.
     rbind (mapM (\<lambda>(index, v). as_integer (''feature_values['' @ nat_str index @ '']'') v) (enumerate_from 0 items)) (\<lambda>values.
     rbind (feature_tensor_bytes (map JInt values)) (\<lambda>tensor.
     let actual_digest = sha256_bytes env tensor in
     rbind (string_at document ''feature_tensor_digest'' ''feature_tensor_digest'') (\<lambda>digest.
     rbind (raise_if (actual_digest \<noteq> digest) (Invalid ''feature_tensor_digest'' (actual_digest @ '' != '' @ digest))) (\<lambda>_.
     rbind (integer_at document ''feature_offset'' ''feature_offset'') (\<lambda>offset.
     rbind (raise_if (offset mod 48 \<noteq> 0) (Invalid ''feature_offset'' ''offset is not 48-byte aligned'')) (\<lambda>_.
     rbind (string_at document ''source_profile'' ''source_profile'') (\<lambda>source_profile.
     rbind (string_at document ''source_revision'' ''source_revision'') (\<lambda>source_revision.
     rbind (string_at document ''capture_family_id'' ''capture_family_id'') (\<lambda>family.
     let expected_split = split_name env source_revision family in
     rbind (string_at document ''split'' ''split'') (\<lambda>observed_split.
     rbind (raise_if (source_profile = ''masi-synthetic-p4-window/v1'' \<and> expected_split \<noteq> observed_split)
       (Invalid ''capture_family_split'' (expected_split @ '' != '' @ observed_split))) (\<lambda>_.
     rbind (mapping_at document ''label'' ''label'') (\<lambda>label.
     validate_label env label observed_split))))))))))))))"

section \<open>Explanations\<close>

definition features_and_ranks :: "(str \<times> json) list \<Rightarrow> ml_error + unit" where
  "features_and_ranks document =
     rbind (sequence_at document ''feature_order'' ''feature_order'') (\<lambda>order.
     rbind (raise_if (order \<noteq> map JStr FEATURE_ORDER) (Invalid ''feature_order'' ''explanation feature order drift'')) (\<lambda>_.
     rbind (sequence_at document ''global_importance'' ''global_importance'') (\<lambda>items.
     rbind (mapM (as_mapping ''global_importance[]'') items) (\<lambda>global_rows.
     rbind (mapM (\<lambda>item. string_at item ''feature_id'' ''global feature'') global_rows) (\<lambda>features.
     rbind (mapM (\<lambda>item. integer_at item ''rank'' ''global rank'') global_rows) (\<lambda>ranks.
     raise_if (set features \<noteq> set FEATURE_ORDER \<or> set ranks \<noteq> set [1, 2, 3, 4, 5, 6])
       (Invalid ''global_feature_ranks'' ''features or ranks are not exact'')))))))"

definition AE_METHOD :: str where "AE_METHOD = ''ae-scaled-log-smoothl1-residual/v1''"

definition expected_output :: "ml_env \<Rightarrow> str \<Rightarrow> rat \<Rightarrow> rat list \<Rightarrow> ml_error + rat" where
  "expected_output env method_id base contributions =
     (if method_id = AE_METHOD
      then if contributions = [] then Inl MZeroDivisionError
           else Inr (me_round env (me_sum env contributions / of_nat (length contributions)))
      else Inr (me_round env (base + me_sum env contributions)))"

text \<open>The residual checks of an autoencoder explanation; \<open>dict.get\<close> gives \<open>None\<close> for a missing field.\<close>

definition validate_residual :: "ml_env \<Rightarrow> (str \<times> json) list \<Rightarrow> rat list \<Rightarrow> rat \<Rightarrow> rat \<Rightarrow> rat \<Rightarrow> ml_error + unit" where
  "validate_residual env sample contributions expected raw allowed =
     rbind (if list_ex (\<lambda>v. v < 0) contributions
            then rbind (string_at sample ''sample_id'' ''sample_id'') (\<lambda>name. Inl (Invalid ''negative_residual'' name)) else Inr ()) (\<lambda>_.
     rbind (as_number env ''residual_mean'' (case json_get sample ''residual_mean'' of None \<Rightarrow> JNull | Some v \<Rightarrow> v)) (\<lambda>residual.
     if \<bar>me_round env (expected - residual)\<bar> > allowed \<or> \<bar>me_round env (residual - raw)\<bar> > allowed
     then rbind (string_at sample ''sample_id'' ''sample_id'') (\<lambda>name. Inl (Invalid ''residual_mean_mismatch'' name))
     else Inr ()))"

definition validate_explained_sample :: "ml_env \<Rightarrow> str \<Rightarrow> rat \<Rightarrow> rat \<Rightarrow> json \<Rightarrow> ml_error + unit" where
  "validate_explained_sample env method_id absolute relative sample_value =
     rbind (as_mapping ''sample'' sample_value) (\<lambda>sample.
     rbind (sequence_at sample ''contributions'' ''contributions'') (\<lambda>items.
     rbind (mapM (as_number env ''contribution'') items) (\<lambda>contributions.
     rbind (number_at env sample ''base_value'' ''base_value'') (\<lambda>base.
     rbind (number_at env sample ''raw_output'' ''raw_output'') (\<lambda>raw.
     rbind (number_at env sample ''reconstructed_raw_output'' ''reconstructed_raw_output'') (\<lambda>reconstructed.
     rbind (expected_output env method_id base contributions) (\<lambda>expected.
     let allowed = max absolute (me_round env (relative * max \<bar>raw\<bar> \<bar>expected\<bar>)) in
     rbind (if \<bar>me_round env (expected - raw)\<bar> > allowed \<or> \<bar>me_round env (reconstructed - raw)\<bar> > allowed
            then rbind (string_at sample ''sample_id'' ''sample_id'') (\<lambda>name. Inl (Invalid ''additivity_mismatch'' name))
            else Inr ()) (\<lambda>_.
     rbind (number_at env sample ''additivity_absolute_error'' ''additivity_absolute_error'') (\<lambda>declared_error.
     rbind (if \<not> isclose env declared_error \<bar>me_round env (expected - raw)\<bar> (max absolute (tolerance_12 env))
            then rbind (string_at sample ''sample_id'' ''sample_id'') (\<lambda>name. Inl (Invalid ''additivity_error_field'' name))
            else Inr ()) (\<lambda>_.
     if method_id = AE_METHOD then validate_residual env sample contributions expected raw allowed else Inr ()))))))))))"

definition validate_group :: "ml_env \<Rightarrow> json \<Rightarrow> ml_error + unit" where
  "validate_group env group_value =
     rbind (as_mapping ''coverage group'' group_value) (\<lambda>group.
     rbind (integer_at group ''eligible'' ''coverage group eligible'') (\<lambda>eligible.
     rbind (integer_at group ''included'' ''coverage group included'') (\<lambda>included.
     rbind (true_divide env included eligible) (\<lambda>share.
     rbind (number_at env group ''coverage'' ''coverage group coverage'') (\<lambda>coverage.
     if \<not> isclose env share coverage (tolerance_12 env)
     then rbind (string_at group ''scenario_id'' ''scenario_id'') (\<lambda>name. Inl (Invalid ''explanation_group_coverage'' name))
     else Inr ())))))"

definition validate_coverage :: "ml_env \<Rightarrow> (str \<times> json) list \<Rightarrow> ml_error + int" where
  "validate_coverage env document =
     rbind (mapping_at document ''coverage'' ''coverage'') (\<lambda>coverage.
     rbind (integer_at coverage ''eligible_samples'' ''coverage.eligible_samples'') (\<lambda>eligible.
     rbind (integer_at coverage ''included_samples'' ''coverage.included_samples'') (\<lambda>included.
     rbind (true_divide env included eligible) (\<lambda>share.
     rbind (number_at env coverage ''coverage'' ''coverage.coverage'') (\<lambda>declared.
     rbind (raise_if (\<not> isclose env share declared (tolerance_12 env)) (Invalid ''explanation_coverage'' ''coverage ratio mismatch'')) (\<lambda>_.
     rbind (sequence_at coverage ''per_source_scenario'' ''coverage.per_source_scenario'') (\<lambda>groups.
     rbind (mapM (validate_group env) groups) (\<lambda>_. Inr included))))))))"

definition validate_explanation :: "ml_env \<Rightarrow> (str \<times> json) list \<Rightarrow> ml_error + unit" where
  "validate_explanation env document =
     rbind (ensure_finite ''$'' (JObj document)) (\<lambda>_.
     rbind (features_and_ranks document) (\<lambda>_.
     rbind (mapping_at document ''method'' ''method'') (\<lambda>the_method.
     rbind (string_at the_method ''method_id'' ''method.method_id'') (\<lambda>method_id.
     rbind (mapping_at the_method ''numeric_tolerance'' ''method.numeric_tolerance'') (\<lambda>tolerance.
     rbind (number_at env tolerance ''absolute'' ''numeric_tolerance.absolute'') (\<lambda>absolute.
     rbind (number_at env tolerance ''relative'' ''numeric_tolerance.relative'') (\<lambda>relative.
     rbind (sequence_at document ''samples'' ''samples'') (\<lambda>samples.
     rbind (mapM (validate_explained_sample env method_id absolute relative) samples) (\<lambda>_.
     rbind (validate_coverage env document) (\<lambda>included.
     rbind (mapping_at document ''truncation'' ''truncation'') (\<lambda>truncation.
     rbind (integer_at truncation ''included'' ''truncation.included'') (\<lambda>kept.
     rbind (raise_if (kept \<noteq> included) (Invalid ''truncation_included'' ''truncation and coverage included differ'')) (\<lambda>_.
     rbind (mapping_at document ''stability'' ''stability'') (\<lambda>stability.
     rbind (sequence_at stability ''seed_set'' ''stability.seed_set'') (\<lambda>seed_set.
     rbind (raise_if (\<not> list_all2 equals_int seed_set SEEDS) (Invalid ''seed_set'' ''explanation seed set drift'')) (\<lambda>_.
     rbind (number_at env stability ''global_rank_spearman_median'' ''stability correlation'') (\<lambda>correlation.
     let expected_status = (if correlation \<ge> me_round env (8 / 10) then ''stable'' else ''unstable'') in
     rbind (item_at stability ''status'') (\<lambda>status.
     rbind (raise_if (status \<noteq> JStr expected_status) (Invalid ''stability_status'' (''expected '' @ expected_status))) (\<lambda>_.
     rbind (mapping_at document ''safety'' ''safety'') (\<lambda>safety.
     raise_if (list_ex (\<lambda>kv. truthy (snd kv)) safety) (Invalid ''explanation_safety'' ''all safety flags must be false'')))))))))))))))))))))"


section \<open>When typed access succeeds\<close>

lemma as_ok [simp]:
  "as_mapping path v = Inr kvs \<longleftrightarrow> v = JObj kvs" "as_sequence path v = Inr vs \<longleftrightarrow> v = JArr vs"
  "as_integer path v = Inr i \<longleftrightarrow> v = JInt i" "as_string path v = Inr s \<longleftrightarrow> v = JStr s"
  by (cases v; auto simp: as_mapping_def as_sequence_def as_integer_def as_string_def)+

lemma item_at_ok [simp]: "item_at kvs key = Inr v \<longleftrightarrow> json_get kvs key = Some v"
  by (simp add: item_at_def split: option.splits)

lemma at_ok [simp]:
  "mapping_at kvs key path = Inr d \<longleftrightarrow> json_get kvs key = Some (JObj d)"
  "sequence_at kvs key path = Inr vs \<longleftrightarrow> json_get kvs key = Some (JArr vs)"
  "integer_at kvs key path = Inr i \<longleftrightarrow> json_get kvs key = Some (JInt i)"
  "string_at kvs key path = Inr s \<longleftrightarrow> json_get kvs key = Some (JStr s)"
  by (auto simp: mapping_at_def sequence_at_def integer_at_def string_at_def rbind_eq_Inr)

section \<open>Finite documents\<close>

lemma ensure_finite_iff:
  "ensure_finite path v = Inr () \<longleftrightarrow> \<not> has_nonfinite v"
  "ensure_items path i vs = Inr () \<longleftrightarrow> \<not> list_ex has_nonfinite vs"
  "ensure_fields path kvs = Inr () \<longleftrightarrow> \<not> list_ex (\<lambda>kv. has_nonfinite (snd kv)) kvs"
  by (induction path v and path i vs and path kvs rule: ensure_finite_ensure_items_ensure_fields.induct)
     (auto simp: rbind_eq_Inr split: pyfloat.splits)

lemma canonical_json_bytes_finite:
  "ensure_finite path v = Inr () \<Longrightarrow> canonical_json_bytes env v = Inr (json_text env (sort_json v))"
  by (simp add: ensure_finite_iff canonical_json_bytes_def)

section \<open>The feature tensor is read back\<close>

lemma length_le_bytes [simp]: "length (le_bytes k n) = k"
  by (induction k arbitrary: n) simp_all

lemma from_le_bytes_le_bytes: "from_le_bytes (le_bytes k n) = n mod 256 ^ k"
proof (induction k arbitrary: n)
  case (Suc k)
  have "(of_char (char_of (n mod 256) :: char) :: int) = n mod 256"
    by (simp add: of_char_of)
  with Suc show ?case by (simp add: zmod_zmult2_eq)
qed simp

lemma chunks_of_concat:
  "0 < n \<Longrightarrow> (\<And>xs. xs \<in> set xss \<Longrightarrow> length xs = n) \<Longrightarrow> chunks_of n (concat xss) = xss"
proof (induction xss)
  case (Cons xs xss)
  then have "xs \<noteq> []" "length xs = n" by auto
  with Cons show ?case by (subst chunks_of.simps) simp
qed (simp add: chunks_of.simps)

lemma feature_value_ok: "feature_value v = Inr i \<longleftrightarrow> v = JInt i \<and> 0 \<le> i \<and> i < 2 ^ 64"
  by (auto simp: feature_value_def split: json.splits if_splits)

lemma feature_tensor_bytes_ok:
  assumes "feature_tensor_bytes values = Inr tensor"
  shows "\<exists>integers. values = map JInt integers \<and> length integers = 6 \<and> (\<forall>i \<in> set integers. 0 \<le> i \<and> i < 2 ^ 64)
    \<and> tensor = concat (map (le_bytes 8) integers)"
proof -
  obtain integers where i: "mapM feature_value values = Inr integers" "tensor = concat (map (le_bytes 8) integers)"
    and six: "length values = 6"
    using assms by (auto simp: feature_tensor_bytes_def rbind_eq_Inr split: if_splits)
  have "values = map JInt integers"
    using mapM_length [OF i(1)] mapM_Inr_nth [OF i(1)] by (auto simp: list_eq_iff_nth_eq feature_value_ok)
  moreover have "\<forall>n \<in> set integers. 0 \<le> n \<and> n < 2 ^ 64"
    using mapM_set [OF i(1)] by (auto simp: feature_value_ok)
  ultimately show ?thesis using i(2) six by auto
qed

lemma feature_values_total:
  "\<forall>i \<in> set integers. 0 \<le> i \<and> i < 2 ^ 64 \<Longrightarrow> mapM feature_value (map JInt integers) = Inr integers"
  by (induction integers) (simp_all add: feature_value_def)

lemma feature_tensor_bytes_total:
  "length integers = 6 \<Longrightarrow> \<forall>i \<in> set integers. 0 \<le> i \<and> i < 2 ^ 64 \<Longrightarrow>
     feature_tensor_bytes (map JInt integers) = Inr (concat (map (le_bytes 8) integers))"
  using feature_values_total [of integers] by (simp add: feature_tensor_bytes_def)

lemma length_concat_le_bytes [simp]: "length (concat (map (le_bytes k) ns)) = k * length ns"
  by (induction ns) simp_all

lemma tensor_row:
  assumes "\<forall>i \<in> set integers. 0 \<le> i \<and> i < 2 ^ 64"
  shows "map from_le_bytes (chunks_of 8 (concat (map (le_bytes 8) integers))) = integers"
proof -
  have "map from_le_bytes (chunks_of 8 (concat (map (le_bytes 8) integers))) = map (\<lambda>i. from_le_bytes (le_bytes 8 i)) integers"
    by (subst chunks_of_concat) auto
  also have "\<dots> = integers" using assms by (auto simp: from_le_bytes_le_bytes intro!: map_idI)
  finally show ?thesis .
qed

lemma tensor_length: "feature_tensor_bytes values = Inr tensor \<Longrightarrow> length tensor = 48"
  by (auto dest!: feature_tensor_bytes_ok)

lemma concat_chunks_of: "0 < n \<Longrightarrow> concat (chunks_of n xs) = xs"
proof (induction n xs rule: chunks_of.induct)
  case (1 n xs)
  then show ?case by (subst chunks_of.simps) auto
qed

lemma feature_rows_tensors:
  assumes "list_all2 (\<lambda>row tensor. feature_tensor_bytes row = Inr tensor) rows tensors"
  shows "map (map JInt) (feature_rows (concat tensors)) = rows"
proof -
  have len: "length t = 48" if "t \<in> set tensors" for t
    using assms that tensor_length by (auto simp: list_all2_conv_all_nth in_set_conv_nth)
  have "map JInt (map from_le_bytes (chunks_of 8 t)) = r" if "feature_tensor_bytes r = Inr t" for r t
    using feature_tensor_bytes_ok [OF that] tensor_row by metis
  with assms have "map (\<lambda>t. map JInt (map from_le_bytes (chunks_of 8 t))) tensors = rows"
    by (induction rule: list_all2_induct) auto
  then show ?thesis using chunks_of_concat [of 48 tensors] len by (simp add: feature_rows_def comp_def)
qed

text \<open>
  The feature file is read back exactly. Feature rows that the pipeline can encode at all are six unsigned 64-bit
  integers each, every row takes 48 bytes, and reading the concatenated file as little-endian words gives back the
  same rows in the same order, so that no value is truncated, signed or swapped on the way.
\<close>

theorem feature_file_roundtrip:
  assumes "mapM feature_tensor_bytes rows = Inr tensors"
  shows "map (map JInt) (feature_rows (concat tensors)) = rows \<and> length (concat tensors) = 48 * length rows"
proof -
  have all: "list_all2 (\<lambda>row tensor. feature_tensor_bytes row = Inr tensor) rows tensors"
    using mapM_length [OF assms] mapM_Inr_nth [OF assms] by (simp add: list_all2_conv_all_nth)
  then have "length (concat tensors) = 48 * length rows"
    by (induction rule: list_all2_induct) (auto dest: tensor_length)
  with feature_rows_tensors [OF all] show ?thesis by simp
qed

theorem feature_file_roundtrip_witness:
  "\<exists>tensors. mapM feature_tensor_bytes [map JInt [2, 108, 1, 2, 108, 1], map JInt [0, 1, 2, 3, 4, 2 ^ 64 - 1]] = Inr tensors
    \<and> map (map JInt) (feature_rows (concat tensors)) = [map JInt [2, 108, 1, 2, 108, 1], map JInt [0, 1, 2, 3, 4, 2 ^ 64 - 1]]"
proof -
  have "\<exists>tensors. mapM feature_tensor_bytes [map JInt [2, 108, 1, 2, 108, 1], map JInt [0, 1, 2, 3, 4, 2 ^ 64 - 1]] = Inr tensors"
    using feature_tensor_bytes_total [of "[2, 108, 1, 2, 108, 1]"] feature_tensor_bytes_total [of "[0, 1, 2, 3, 4, 2 ^ 64 - 1]"] by simp
  with feature_file_roundtrip show ?thesis by blast
qed


end
