(* ===== verification/Ml_Dataset.thy ===== *)
theory Ml_Dataset
  imports Ml_Contracts Calendar Encoding_Bound
begin

text \<open>
  The module dataset of the training pipeline (\<open>dataset.py\<close>): generation of the families, windows and sample records,
  and the checks with which a dataset is loaded.

  A draft, a dict in the code, is a record. The search for families is a recursive function bounded by the candidate
  counter, as the loop is. Loading takes the bytes of the files; \<open>json.loads\<close> and the schema validator are parameters.
\<close>

section \<open>Constants\<close>

definition SOURCE_PROFILE :: str where "SOURCE_PROFILE = ''masi-synthetic-p4-window/v1''"
definition SOURCE_REVISION :: str where "SOURCE_REVISION = ''masi-synthetic-fixture-r1''"
definition DATASET_ID :: str where "DATASET_ID = ''masi-synthetic-p4-window-module''"

definition FAMILY_QUOTAS :: "(str \<times> nat) list" where
  "FAMILY_QUOTAS = [(''train'', 24), (''early_stop'', 6), (''calibration'', 6), (''blind_test'', 4)]"

definition WINDOWS_PER_FAMILY :: nat where "WINDOWS_PER_FAMILY = 64"
definition LABEL_WINDOWS_PER_FAMILY :: nat where "LABEL_WINDOWS_PER_FAMILY = WINDOWS_PER_FAMILY div 2"

section \<open>Generated windows\<close>

definition hash_words :: "ml_env \<Rightarrow> str \<Rightarrow> int list" where
  "hash_words env text = map (\<lambda>i. from_bytes_big (take 4 (drop (4 * i) (me_digest env text)))) [0..<6]"

definition feature_values :: "ml_env \<Rightarrow> str \<Rightarrow> nat \<Rightarrow> int \<Rightarrow> int list" where
  "feature_values env family window_index label =
     (let w = hash_words env (''masi-synthetic-feature-v1'' @ [CHR 0x00] @ family @ [CHR 0x00] @ nat_str window_index
            @ [CHR 0x00] @ int_str label) in
      if label = 0
      then (let packets = 40 + w ! 0 mod 41; bytes_per_packet = 64 + w ! 1 mod 33; max_cell_packets = 2 + w ! 3 mod 4 in
        [packets, packets * bytes_per_packet, 8 + w ! 2 mod 17, max_cell_packets, max_cell_packets * (64 + w ! 4 mod 33), 10])
      else (let packets = 8000 + w ! 0 mod 4001; bytes_per_packet = 80 + w ! 1 mod 41; max_cell_packets = 1000 + w ! 3 mod 2001 in
        [packets, packets * bytes_per_packet, 32 + w ! 2 mod 33, max_cell_packets, max_cell_packets * (80 + w ! 4 mod 41), 10]))"

section \<open>Capture families\<close>

definition family_name :: "nat \<Rightarrow> str" where
  "family_name candidate_index = ''masi-synthetic-capture-'' @ pad 6 (int candidate_index)"

text \<open>\<open>selected\<close> keeps the dict of the four lists; a family is appended while its list is below the quota.\<close>

definition quota_open :: "(str \<times> str list) list \<Rightarrow> str \<Rightarrow> bool" where
  "quota_open selected split \<longleftrightarrow>
     (case (map_of selected split, map_of FAMILY_QUOTAS split) of
        (Some families, Some quota) \<Rightarrow> length families < quota
      | _ \<Rightarrow> False)"

fun append_at :: "str \<Rightarrow> str \<Rightarrow> (str \<times> str list) list \<Rightarrow> (str \<times> str list) list" where
  "append_at split family [] = []"
| "append_at split family ((name, families) # rest) =
     (name, if name = split then families @ [family] else families) # append_at split family rest"

definition take_family :: "str \<Rightarrow> str \<Rightarrow> (str \<times> str list) list \<Rightarrow> (str \<times> str list) list" where
  "take_family split family selected =
     (if quota_open selected split then append_at split family selected else selected)"

function select_loop :: "ml_env \<Rightarrow> nat \<Rightarrow> (str \<times> str list) list \<Rightarrow> ml_error + (str \<times> str list) list" where
  "select_loop env candidate_index selected =
     (if \<not> list_ex (quota_open selected) (map fst FAMILY_QUOTAS) then Inr selected
      else let family = family_name candidate_index;
               selected' = take_family (split_name env SOURCE_REVISION family) family selected in
           if Suc candidate_index > 100000
           then Inl (Invalid ''family_generation'' ''unable to satisfy deterministic split quotas'')
           else select_loop env (Suc candidate_index) selected')"
  by auto
termination by (relation "measure (\<lambda>(env, candidate_index, selected). 100001 - candidate_index)") auto

declare select_loop.simps [simp del]

definition select_families :: "ml_env \<Rightarrow> ml_error + (str \<times> str) list" where
  "select_families env =
     rbind (select_loop env 0 (map (\<lambda>(name, _). (name, [])) FAMILY_QUOTAS)) (\<lambda>selected.
     Inr (sort_key fst (concat (map (\<lambda>(split, families). map (\<lambda>family. (family, split)) families) selected))))"

section \<open>Drafts\<close>

record draft =
  dr_sample_id :: str
  dr_capture_family_id :: str
  dr_scenario_id :: str
  dr_session_id :: str
  dr_window_id :: str
  dr_window_start :: str
  dr_window_end :: str
  dr_sequence :: int
  dr_features :: "int list"
  dr_label :: int
  dr_family :: str
  dr_split :: str
  dr_sort_key :: str

text \<open>\<open>_iso(datetime(2031, 1, 1) + timedelta(seconds=n))\<close>.\<close>

definition window_time :: "nat \<Rightarrow> str" where
  "window_time seconds = iso_seconds (1924992000 + int seconds) @ ''Z''"

definition make_draft :: "ml_env \<Rightarrow> nat \<Rightarrow> str \<Rightarrow> str \<Rightarrow> nat \<Rightarrow> draft" where
  "make_draft env global_window family split local_window =
     (let label = (if local_window < LABEL_WINDOWS_PER_FAMILY then 0 else 1);
          start = window_time (global_window * 10);
          sample_id = ''sample-'' @ family @ ''-'' @ pad 3 (int local_window) in
      \<lparr>dr_sample_id = sample_id, dr_capture_family_id = family,
       dr_scenario_id = (if label = 0 then ''synthetic-benign'' else ''synthetic-flood''),
       dr_session_id = ''session-'' @ family @ ''-'' @ int_str label, dr_window_id = ''window-'' @ pad 8 (int global_window),
       dr_window_start = start, dr_window_end = window_time (global_window * 10 + 10), dr_sequence = int global_window + 1,
       dr_features = feature_values env family local_window label, dr_label = label,
       dr_family = (if label = 0 then ''benign'' else ''synthetic_flood''), dr_split = split,
       dr_sort_key = SOURCE_PROFILE @ ''/'' @ family @ ''/'' @ start @ ''/'' @ sample_id\<rparr>)"

text \<open>The two nested loops; the window counter runs through both.\<close>

fun drafts_from :: "ml_env \<Rightarrow> nat \<Rightarrow> (str \<times> str) list \<Rightarrow> draft list" where
  "drafts_from env global_window [] = []"
| "drafts_from env global_window ((family, split) # families) =
     map (\<lambda>local_window. make_draft env (global_window + local_window) family split local_window) [0..<WINDOWS_PER_FAMILY]
     @ drafts_from env (global_window + WINDOWS_PER_FAMILY) families"

definition build_drafts :: "ml_env \<Rightarrow> (str \<times> str) list \<Rightarrow> draft list" where
  "build_drafts env families = sort_key dr_sort_key (drafts_from env 0 families)"

section \<open>Records\<close>

definition dataset_revision :: "ml_env \<Rightarrow> draft list \<Rightarrow> str \<Rightarrow> ml_error + str" where
  "dataset_revision env drafts feature_payload =
     rbind (mapM (\<lambda>d. rbind (feature_tensor_bytes (map JInt (dr_features d))) (\<lambda>tensor. Inr (JObj
       [(''sample_id'', JStr (dr_sample_id d)), (''capture_family_id'', JStr (dr_capture_family_id d)),
        (''window_start'', JStr (dr_window_start d)), (''split'', JStr (dr_split d)), (''label'', JInt (dr_label d)),
        (''feature_digest'', JStr (sha256_bytes env tensor))]))) drafts) (\<lambda>identity_rows.
     rbind (canonical_json_bytes (me_py env) (JObj
       [(''schema_version'', JStr ''dataset-p4-window-revision-input/v1''), (''dataset_id'', JStr DATASET_ID),
        (''source_profile'', JStr SOURCE_PROFILE), (''source_revision'', JStr SOURCE_REVISION),
        (''family_quotas'', JObj (map (\<lambda>(name, quota). (name, JInt (int quota))) FAMILY_QUOTAS)),
        (''windows_per_family'', JInt (int WINDOWS_PER_FAMILY)), (''feature_file_digest'', JStr (sha256_bytes env feature_payload)),
        (''samples'', JArr identity_rows)])) (\<lambda>raw.
     Inr (hexdigest (me_py env) raw)))"

definition join_identity :: "draft \<Rightarrow> int \<Rightarrow> json" where
  "join_identity d eligible_packets = JObj
     [(''source_revision'', JStr SOURCE_REVISION), (''capture_family_id'', JStr (dr_capture_family_id d)),
      (''window_id'', JStr (dr_window_id d)), (''eligible_packets'', JInt eligible_packets), (''label'', JInt (dr_label d))]"

definition snapshot_identity :: "draft \<Rightarrow> json" where
  "snapshot_identity d = JObj
     [(''target_id'', JStr ''bmv2-module-dataset-target''), (''source_runtime_epoch'', JStr ''module-dataset-source-epoch-1''),
      (''bank'', JInt (dr_sequence d mod 2)), (''epoch'', JInt (1 + dr_sequence d div 256)), (''sequence'', JInt (dr_sequence d)),
      (''features'', JArr (map JInt (dr_features d)))]"

definition sample_label :: "draft \<Rightarrow> int \<Rightarrow> str \<Rightarrow> json" where
  "sample_label d eligible_packets join_digest =
     (let attack = (dr_label d = 1) in JObj
     [(''binary_label'', JInt (dr_label d)), (''family'', JStr (dr_family d)), (''coverage'', JFloat (FFin 1)),
      (''eligible_packets'', JInt eligible_packets), (''labeled_eligible_packets'', JInt eligible_packets),
      (''supported_attack_packets'', JInt (if attack then eligible_packets else 0)),
      (''attack_share'', JFloat (FFin (if attack then 1 else 0))),
      (''purity'', JStr (if attack then ''fit_attack'' else ''fit_benign'')), (''join_digest'', JStr join_digest)])"

definition sample_document :: "draft \<Rightarrow> str \<Rightarrow> int \<Rightarrow> str \<Rightarrow> str \<Rightarrow> str \<Rightarrow> json \<Rightarrow> (str \<times> json) list" where
  "sample_document d revision offset source_digest tensor_digest snapshot_digest label =
     [(''schema_version'', JStr ''dataset-p4-window-sample/v1''), (''sample_id'', JStr (dr_sample_id d)),
      (''dataset_id'', JStr DATASET_ID), (''dataset_revision'', JStr revision), (''source_profile'', JStr SOURCE_PROFILE),
      (''source_revision'', JStr SOURCE_REVISION), (''capture_family_id'', JStr (dr_capture_family_id d)),
      (''raw_capture_digest'', JStr source_digest), (''scenario_id'', JStr (dr_scenario_id d)),
      (''session_id'', JStr (dr_session_id d)), (''topology_id'', JStr ''bmv2-module-dataset-topology-v1''),
      (''window'', JObj
        [(''window_id'', JStr (dr_window_id d)), (''start'', JStr (dr_window_start d)), (''end'', JStr (dr_window_end d)),
         (''duration_ms'', JInt 10000), (''final'', JBool True), (''status'', JStr ''valid''),
         (''event_time_basis'', JStr ''target-aggregate-export-time'')]),
      (''snapshot_references'', JArr [JObj
        [(''target_id'', JStr ''bmv2-module-dataset-target''), (''source_runtime_epoch'', JStr ''module-dataset-source-epoch-1''),
         (''bank'', JInt (dr_sequence d mod 2)), (''epoch'', JInt (1 + dr_sequence d div 256)),
         (''sequence_start'', JInt (dr_sequence d)), (''sequence_end'', JInt (dr_sequence d)),
         (''snapshot_digest'', JStr snapshot_digest), (''quality'', JStr ''valid'')]]),
      (''feature_offset'', JInt offset), (''feature_length'', JInt 48), (''feature_tensor_digest'', JStr tensor_digest),
      (''feature_values'', JArr (map JInt (dr_features d))), (''label'', label), (''split'', JStr (dr_split d)),
      (''sample_weight'', JFloat (FFin 1)),
      (''quality'', JObj
        [(''status'', JStr ''valid''), (''sampling_coverage'', JFloat (FFin 1)), (''gap_count'', JInt 0),
         (''late_after_final'', JInt 0), (''selector_collision_quality'', JStr ''approximate-hash-qualified'')]),
      (''sort_key'', JStr (dr_sort_key d)), (''raw_payload_included'', JBool False)]"

definition sample_record :: "ml_env \<Rightarrow> draft \<Rightarrow> str \<Rightarrow> int \<Rightarrow> str \<Rightarrow> ml_error + (str \<times> json) list" where
  "sample_record env d revision offset source_digest =
     rbind (feature_tensor_bytes (map JInt (dr_features d))) (\<lambda>tensor.
     rbind (case dr_features d of [] \<Rightarrow> Inl MIndexError | packets # _ \<Rightarrow> Inr packets) (\<lambda>eligible_packets.
     rbind (canonical_json_bytes (me_py env) (snapshot_identity d)) (\<lambda>snapshot_raw.
     rbind (canonical_json_bytes (me_py env) (join_identity d eligible_packets)) (\<lambda>join_raw.
     Inr (sample_document d revision offset source_digest (sha256_bytes env tensor) (sha256_bytes env snapshot_raw)
       (sample_label d eligible_packets (sha256_bytes env join_raw)))))))"

section \<open>Generated windows are consistent\<close>

lemma feature_values_shape:
  "length (feature_values env family window label) = 6"
  "feature_values env family window label ! 5 = 10"
  by (simp_all add: feature_values_def Let_def)

text \<open>The order of a window: cells within packets, the largest cell within the aggregate, everything within 64 bits.\<close>

definition consistent_window :: "int list \<Rightarrow> bool" where
  "consistent_window v \<longleftrightarrow> length v = 6 \<and> 0 < v ! 2 \<and> v ! 2 \<le> v ! 0 \<and> 0 < v ! 3 \<and> v ! 3 \<le> v ! 0 \<and> 0 < v ! 4
     \<and> v ! 4 \<le> v ! 1 \<and> v ! 0 \<le> v ! 1 \<and> (\<forall>i \<in> set v. 0 \<le> i \<and> i < 2 ^ 64)"

lemma consistent_windowI:
  fixes p b n m c :: int
  assumes "0 < n" "n \<le> p" "0 < m" "m \<le> p" "0 < c" "c \<le> b" "p \<le> b" "b < 2 ^ 64"
  shows "consistent_window [p, b, n, m, c, 10]"
  using assms by (simp add: consistent_window_def)

text \<open>A window whose fields are drawn from two ranges, as both branches of the generator draw them.\<close>

lemma drawn_window_consistent:
  fixes p q n m r :: int
  assumes "p0 \<le> p" "p \<le> p1" "q0 \<le> q" "q \<le> q1" "0 < n" "n \<le> p0" "0 < m" "m \<le> m1" "m1 \<le> p0" "q0 \<le> r" "r \<le> q1"
    and "1 \<le> q0" "m1 * q1 \<le> p0 * q0" "p1 * q1 < 2 ^ 64"
  shows "consistent_window [p, p * q, n, m, m * r, 10]"
proof (rule consistent_windowI)
  have "m * r \<le> m1 * q1" using assms by (intro mult_mono) auto
  also have "\<dots> \<le> p0 * q0" by (rule assms)
  also have "\<dots> \<le> p * q" using assms by (intro mult_mono) auto
  finally show "m * r \<le> p * q" .
  have "p * q \<le> p1 * q1" using assms by (intro mult_mono) auto
  with assms show "p * q < 2 ^ 64" by linarith
  have "p * 1 \<le> p * q" using assms by (intro mult_left_mono) auto
  then show "p \<le> p * q" by simp
qed (use assms in auto)

lemma mod_range: "0 < k \<Longrightarrow> 0 \<le> w mod k \<and> w mod k < (k :: int)"
  by simp

lemma feature_values_consistent: "consistent_window (feature_values env family window label)"
proof (cases "label = 0")
  case True
  have "consistent_window [40 + a mod 41, (40 + a mod 41) * (64 + b mod 33), 8 + c mod 17, 2 + d mod 4, (2 + d mod 4) * (64 + e mod 33), 10]"
    for a b c d e :: int
    using mod_range [of 41 a] mod_range [of 33 b] mod_range [of 17 c] mod_range [of 4 d] mod_range [of 33 e]
    by (intro drawn_window_consistent [where ?p0.0 = 40 and ?p1.0 = 80 and ?q0.0 = 64 and ?q1.0 = 96 and ?m1.0 = 5]) (linarith | simp)+
  with True show ?thesis by (simp add: feature_values_def Let_def)
next
  case False
  have "consistent_window [8000 + a mod 4001, (8000 + a mod 4001) * (80 + b mod 41), 32 + c mod 33, 1000 + d mod 2001,
      (1000 + d mod 2001) * (80 + e mod 41), 10]"
    for a b c d e :: int
    using mod_range [of 4001 a] mod_range [of 41 b] mod_range [of 33 c] mod_range [of 2001 d] mod_range [of 41 e]
    by (intro drawn_window_consistent [where ?p0.0 = 8000 and ?p1.0 = 12000 and ?q0.0 = 80 and ?q1.0 = 120 and ?m1.0 = 3000]) (linarith | simp)+
  with False show ?thesis by (simp add: feature_values_def Let_def)
qed

section \<open>Selected families\<close>

text \<open>
  The invariant of the search: the dict keeps its four keys, no list exceeds its quota, and the families in it are
  different candidates below the counter, each under its own split.
\<close>

definition select_inv :: "ml_env \<Rightarrow> nat \<Rightarrow> (str \<times> str list) list \<Rightarrow> bool" where
  "select_inv env candidate_index selected \<longleftrightarrow>
     map fst selected = map fst FAMILY_QUOTAS \<and> distinct (concat (map snd selected))
   \<and> (\<forall>(split, families) \<in> set selected. \<forall>quota. map_of FAMILY_QUOTAS split = Some quota \<longrightarrow> length families \<le> quota)
   \<and> (\<forall>(split, families) \<in> set selected. \<forall>family \<in> set families.
        split = split_name env SOURCE_REVISION family \<and> (\<exists>i < candidate_index. family = family_name i))"

lemma quota_names: "distinct (map fst FAMILY_QUOTAS)"
  by (simp add: FAMILY_QUOTAS_def)

lemma family_name_inject: "family_name i = family_name j \<Longrightarrow> i = j"
  using pad_inject [of "int i" "int j" 6] by (simp add: family_name_def)

lemma append_at_members:
  "(name, fs) \<in> set (append_at k f xs) \<longleftrightarrow> (\<exists>fs0. (name, fs0) \<in> set xs \<and> fs = (if name = k then fs0 @ [f] else fs0))"
  by (induction k f xs rule: append_at.induct) auto

lemma append_at_keys [simp]: "map fst (append_at k f xs) = map fst xs"
  by (induction k f xs rule: append_at.induct) auto

lemma append_at_absent: "k \<notin> fst ` set xs \<Longrightarrow> append_at k f xs = xs"
  by (induction k f xs rule: append_at.induct) auto

lemma append_at_mset:
  "distinct (map fst xs) \<Longrightarrow> k \<in> fst ` set xs \<Longrightarrow>
     mset (concat (map snd (append_at k f xs))) = add_mset f (mset (concat (map snd xs)))"
  by (induction k f xs rule: append_at.induct) (auto simp: append_at_absent)

lemma append_at_distinct:
  assumes "distinct (map fst xs)" "k \<in> fst ` set xs" "distinct (concat (map snd xs))" "f \<notin> set (concat (map snd xs))"
  shows "distinct (concat (map snd (append_at k f xs)))"
proof -
  have "mset (concat (map snd (append_at k f xs))) = mset (f # concat (map snd xs))"
    using append_at_mset [OF assms(1,2)] by simp
  moreover have "distinct (f # concat (map snd xs))" using assms(3,4) by simp
  ultimately show ?thesis using mset_eq_imp_distinct_iff by blast
qed

lemma select_inv_members:
  assumes "select_inv env i selected" and "(split, families) \<in> set selected"
  shows "map_of FAMILY_QUOTAS split = Some quota \<Longrightarrow> length families \<le> quota"
    and "f \<in> set families \<Longrightarrow> split = split_name env SOURCE_REVISION f \<and> (\<exists>j < i. f = family_name j)"
  using assms unfolding select_inv_def by blast+

lemma select_invI:
  assumes "map fst selected = map fst FAMILY_QUOTAS" "distinct (concat (map snd selected))"
    and "\<And>split families quota. (split, families) \<in> set selected \<Longrightarrow> map_of FAMILY_QUOTAS split = Some quota \<Longrightarrow> length families \<le> quota"
    and "\<And>split families f. (split, families) \<in> set selected \<Longrightarrow> f \<in> set families \<Longrightarrow>
      split = split_name env SOURCE_REVISION f \<and> (\<exists>j < i. f = family_name j)"
  shows "select_inv env i selected"
  unfolding select_inv_def using assms by blast

lemma select_inv_take:
  assumes inv: "select_inv env i selected"
  shows "select_inv env (Suc i) (take_family (split_name env SOURCE_REVISION (family_name i)) (family_name i) selected)"
proof -
  let ?f = "family_name i" and ?k = "split_name env SOURCE_REVISION (family_name i)"
  have keys: "map fst selected = map fst FAMILY_QUOTAS" "distinct (concat (map snd selected))"
    using inv by (simp_all add: select_inv_def)
  then have dist: "distinct (map fst selected)" using quota_names by simp
  note members = select_inv_members [OF inv]
  have later: "\<exists>j < Suc i. f = family_name j" if "\<exists>j < i. f = family_name j" for f using that less_SucI by blast
  show ?thesis
  proof (cases "quota_open selected ?k")
    case True
    have room: "length families < quota" if "(?k, families) \<in> set selected" "map_of FAMILY_QUOTAS ?k = Some quota" for families quota
      using True that dist by (simp add: quota_open_def)
    have "map_of selected ?k \<noteq> None" using True by (auto simp: quota_open_def split: option.splits)
    then have "?k \<in> fst ` set selected" by (simp add: map_of_eq_None_iff)
    moreover have "?f \<notin> set (concat (map snd selected))"
    proof
      assume "?f \<in> set (concat (map snd selected))"
      then obtain split families where "(split, families) \<in> set selected" "?f \<in> set families" by auto
      then obtain j where "j < i" "?f = family_name j" using members(2) by blast
      then show False using family_name_inject by blast
    qed
    ultimately have "distinct (concat (map snd (append_at ?k ?f selected)))"
      by (rule append_at_distinct [OF dist _ keys(2)])
    then have "select_inv env (Suc i) (append_at ?k ?f selected)"
    proof (rule select_invI [rotated])
      fix split families quota
      assume "(split, families) \<in> set (append_at ?k ?f selected)" and q: "map_of FAMILY_QUOTAS split = Some quota"
      then obtain fs where fs: "(split, fs) \<in> set selected" "families = (if split = ?k then fs @ [?f] else fs)"
        by (auto simp: append_at_members)
      show "length families \<le> quota"
        using fs(2) room [of fs quota] members(1) [OF fs(1) q] fs(1) q by (cases "split = ?k") auto
    next
      fix split families f
      assume "(split, families) \<in> set (append_at ?k ?f selected)" and f: "f \<in> set families"
      then obtain fs where fs: "(split, fs) \<in> set selected" "families = (if split = ?k then fs @ [?f] else fs)"
        by (auto simp: append_at_members)
      then consider "f \<in> set fs" | "split = ?k" "f = ?f" using f by (auto split: if_splits)
      then show "split = split_name env SOURCE_REVISION f \<and> (\<exists>j < Suc i. f = family_name j)"
        by cases (use members(2) [OF fs(1)] later in blast, blast)
    qed (use keys in simp)
    with True show ?thesis by (simp add: take_family_def)
  next
    case False
    have "select_inv env (Suc i) selected" using keys members later by (intro select_invI) blast+
    with False show ?thesis by (simp add: take_family_def)
  qed
qed

lemma select_loop_inv:
  "select_inv env i selected \<Longrightarrow> i \<le> 100000 \<Longrightarrow> select_loop env i selected = Inr result \<Longrightarrow>
     \<exists>j \<le> 100000. select_inv env j result \<and> \<not> list_ex (quota_open result) (map fst FAMILY_QUOTAS)"
proof (induction env i selected rule: select_loop.induct)
  case (1 env i selected)
  show ?case
  proof (cases "list_ex (quota_open selected) (map fst FAMILY_QUOTAS)")
    case False
    then have "result = selected" using "1.prems"(3) by (simp add: select_loop.simps [of env i])
    with False "1.prems"(1,2) show ?thesis by blast
  next
    case True
    with "1.prems"(3) have "\<not> 100000 < Suc i" and
      "select_loop env (Suc i) (take_family (split_name env SOURCE_REVISION (family_name i)) (family_name i) selected) = Inr result"
      by (auto simp: select_loop.simps [of env i] Let_def split: if_splits)
    with "1.IH" True select_inv_take [OF "1.prems"(1)] show ?thesis by (simp add: Let_def)
  qed
qed


lemma full_quota:
  assumes "select_inv env i selected" and "\<not> list_ex (quota_open selected) (map fst FAMILY_QUOTAS)"
    and "(name, families) \<in> set selected" and "(name, quota) \<in> set FAMILY_QUOTAS"
  shows "length families = quota"
proof -
  have keys: "distinct (map fst selected)" using assms(1) quota_names by (simp add: select_inv_def)
  have q: "map_of FAMILY_QUOTAS name = Some quota" using assms(4) quota_names by simp
  have "\<not> quota_open selected name" using assms(2,4) by (force simp: list_ex_iff)
  then have "quota \<le> length families" using q assms(3) keys by (simp add: quota_open_def)
  with select_inv_members(1) [OF assms(1,3) q] show ?thesis by simp
qed

text \<open>Every selected family is one of the candidates.\<close>

lemma selected_names:
  assumes "select_families env = Inr families" and "(family, split) \<in> set families"
  shows "\<exists>i < 100000. family = family_name i"
proof -
  have start: "select_inv env 0 (map (\<lambda>(name, _). (name, [])) FAMILY_QUOTAS)"
    by (auto simp: select_inv_def FAMILY_QUOTAS_def)
  obtain selected where loop: "select_loop env 0 (map (\<lambda>(name, _). (name, [])) FAMILY_QUOTAS) = Inr selected"
    and fam: "\<exists>fs. (split, fs) \<in> set selected \<and> family \<in> set fs"
    using assms by (fastforce simp: select_families_def rbind_eq_Inr)
  obtain j where "j \<le> 100000" "select_inv env j selected" using select_loop_inv [OF start _ loop] by auto
  with fam select_inv_members(2) show ?thesis by (meson less_le_trans)
qed

lemma selected_families:
  assumes "select_families env = Inr families"
  shows "sorted (map fst families) \<and> distinct (map fst families)
    \<and> list_all (\<lambda>(family, split). split = split_name env SOURCE_REVISION family) families
    \<and> list_all (\<lambda>(name, quota). length (filter (\<lambda>(family, split). split = name) families) = quota) FAMILY_QUOTAS"
proof -
  define rows where "rows selected = concat (map (\<lambda>(split, families). map (\<lambda>family. (family, split)) families) selected)"
    for selected :: "(str \<times> str list) list"
  have start: "select_inv env 0 (map (\<lambda>(name, _). (name, [])) FAMILY_QUOTAS)"
    by (auto simp: select_inv_def FAMILY_QUOTAS_def)
  obtain selected j where fam: "families = sort_key fst (rows selected)" and inv: "select_inv env j selected"
    and full: "\<not> list_ex (quota_open selected) (map fst FAMILY_QUOTAS)"
    using assms select_loop_inv [OF start] by (fastforce simp: select_families_def rbind_eq_Inr rows_def)
  obtain a b c d where sel: "selected = [(''train'', a), (''early_stop'', b), (''calibration'', c), (''blind_test'', d)]"
    using inv by (auto simp: select_inv_def FAMILY_QUOTAS_def map_eq_Cons_conv)
  have len: "length a = 24" "length b = 6" "length c = 6" "length d = 4"
    using full_quota [OF inv full, of "''train''" a 24] full_quota [OF inv full, of "''early_stop''" b 6]
      full_quota [OF inv full, of "''calibration''" c 6] full_quota [OF inv full, of "''blind_test''" d 4]
    by (simp_all add: sel FAMILY_QUOTAS_def)
  have "mset (map fst (rows selected)) = mset (concat (map snd selected))" by (simp add: rows_def sel comp_def)
  moreover have "distinct (concat (map snd selected))" using inv by (simp add: select_inv_def)
  ultimately have "distinct (map fst (rows selected))" using mset_eq_imp_distinct_iff by blast
  then have "distinct (map fst families)"
    unfolding fam by (metis mset_map mset_sort mset_eq_imp_distinct_iff)
  moreover have "list_all (\<lambda>(family, split). split = split_name env SOURCE_REVISION family) families"
    using inv by (auto simp: fam list_all_iff rows_def select_inv_def)
  moreover have "list_all (\<lambda>(name, quota). length (filter (\<lambda>(family, split). split = name) families) = quota) FAMILY_QUOTAS"
    unfolding fam filter_sort by (simp add: rows_def sel len FAMILY_QUOTAS_def filter_map comp_def)
  ultimately show ?thesis by (simp add: fam)
qed

lemma selected_split:
  "select_families env = Inr families \<Longrightarrow> (family, split) \<in> set families \<Longrightarrow> split = split_name env SOURCE_REVISION family"
  using selected_families [of env families] by (auto simp: list_all_iff)

lemma train_quota: "select_families env = Inr families \<Longrightarrow> length (filter (\<lambda>(family, split). split = ''train'') families) = 24"
  using selected_families [of env families] by (simp add: FAMILY_QUOTAS_def)

text \<open>
  The split of the module dataset is exact and leak-free. When the search for capture families ends with a
  result, every split has exactly its quota of families, no family occurs twice, so none is in two splits, every
  family is in the split that the hash rule assigns to it, and the list is in bytewise order.
\<close>

theorem families_selected:
  assumes "select_families env = Inr families"
  shows "sorted (map fst families) \<and> distinct (map fst families)
    \<and> list_all (\<lambda>(family, split). split = split_name env SOURCE_REVISION family) families
    \<and> list_all (\<lambda>(name, quota). length (filter (\<lambda>(family, split). split = name) families) = quota) FAMILY_QUOTAS"
  by (rule selected_families [OF assms])

text \<open>The search succeeds as soon as every split has enough candidates among the first hundred thousand.\<close>

definition candidates :: "ml_env \<Rightarrow> str \<Rightarrow> nat \<Rightarrow> nat" where
  "candidates env name n = length (filter (\<lambda>i. split_name env SOURCE_REVISION (family_name i) = name) [0..<n])"

definition select_count :: "ml_env \<Rightarrow> nat \<Rightarrow> (str \<times> str list) list \<Rightarrow> bool" where
  "select_count env i selected \<longleftrightarrow> map fst selected = map fst FAMILY_QUOTAS
   \<and> (\<forall>name families quota. (name, families) \<in> set selected \<longrightarrow> map_of FAMILY_QUOTAS name = Some quota \<longrightarrow>
        length families = min quota (candidates env name i))"

lemma select_count_take:
  assumes "select_count env i selected"
  shows "select_count env (Suc i) (take_family (split_name env SOURCE_REVISION (family_name i)) (family_name i) selected)"
proof -
  let ?k = "split_name env SOURCE_REVISION (family_name i)"
  have keys: "map fst selected = map fst FAMILY_QUOTAS" using assms by (simp add: select_count_def)
  then have dist: "distinct (map fst selected)" using quota_names by simp
  have len: "length families = min quota (candidates env name i)"
    if "(name, families) \<in> set selected" "map_of FAMILY_QUOTAS name = Some quota" for name families quota
    using assms that unfolding select_count_def by blast
  have cnt: "candidates env name (Suc i) = (if name = ?k then Suc (candidates env name i) else candidates env name i)" for name
    by (simp add: candidates_def)
  have open_iff: "quota_open selected ?k \<longleftrightarrow> length families < quota"
    if "(?k, families) \<in> set selected" "map_of FAMILY_QUOTAS ?k = Some quota" for families quota
    using that dist by (simp add: quota_open_def)
  have "length families = min quota (candidates env name (Suc i))"
    if mem: "(name, families) \<in> set (take_family ?k (family_name i) selected)" and q: "map_of FAMILY_QUOTAS name = Some quota"
    for name families quota
  proof (cases "name = ?k")
    case False
    with mem have "(name, families) \<in> set selected" by (auto simp: take_family_def append_at_members split: if_splits)
    with len q False show ?thesis by (simp add: cnt)
  next
    case True
    show ?thesis
    proof (cases "quota_open selected ?k")
      case o: True
      with mem True obtain fs where fs: "(?k, fs) \<in> set selected" "families = fs @ [family_name i]"
        by (auto simp: take_family_def append_at_members)
      with len [OF fs(1)] open_iff [OF fs(1)] o q True show ?thesis by (simp add: cnt)
    next
      case o: False
      with mem True have fs: "(?k, families) \<in> set selected" by (simp add: take_family_def)
      with len [OF fs] open_iff [OF fs] o q True show ?thesis by (simp add: cnt)
    qed
  qed
  moreover have "map fst (take_family ?k (family_name i) selected) = map fst FAMILY_QUOTAS"
    using keys by (simp add: take_family_def)
  ultimately show ?thesis unfolding select_count_def by blast
qed

lemma select_loop_found:
  assumes "select_count env i selected" "i \<le> n" "n \<le> 100000"
    and enough: "\<And>name quota. (name, quota) \<in> set FAMILY_QUOTAS \<Longrightarrow> quota \<le> candidates env name n"
  shows "is_ok (select_loop env i selected)"
  using assms(1,2)
proof (induction "n - i" arbitrary: i selected)
  case 0
  have "\<not> quota_open selected name" if name: "name \<in> set (map fst FAMILY_QUOTAS)" for name
  proof -
    obtain quota where q: "map_of FAMILY_QUOTAS name = Some quota" "(name, quota) \<in> set FAMILY_QUOTAS"
      using name map_of_eq_None_iff [of FAMILY_QUOTAS name] map_of_SomeD [of FAMILY_QUOTAS name] by fastforce
    have "name \<in> fst ` set selected" using 0 name by (metis list.set_map select_count_def)
    then obtain families where fs: "map_of selected name = Some families"
      using map_of_eq_None_iff [of selected name] by fastforce
    with 0 q map_of_SomeD [OF fs] have "length families = min quota (candidates env name i)"
      unfolding select_count_def by blast
    with enough [OF q(2)] 0 fs q(1) show ?thesis by (simp add: quota_open_def)
  qed
  then have "\<not> list_ex (quota_open selected) (map fst FAMILY_QUOTAS)" unfolding list_ex_iff by blast
  then show ?case by (simp add: select_loop.simps [of env i])
next
  case (Suc m)
  have "is_ok (select_loop env (Suc i) (take_family (split_name env SOURCE_REVISION (family_name i)) (family_name i) selected))"
    using Suc select_count_take by (intro Suc.hyps(1)) auto
  moreover have "\<not> 99999 < i" using Suc(2) assms(3) by linarith
  ultimately show ?case by (subst select_loop.simps) (simp add: Let_def)
qed

lemma families_found:
  assumes "n \<le> 100000" "\<And>name quota. (name, quota) \<in> set FAMILY_QUOTAS \<Longrightarrow> quota \<le> candidates env name n"
  shows "is_ok (select_families env)"
proof -
  have "select_count env 0 (map (\<lambda>(name, _). (name, [])) FAMILY_QUOTAS)"
    by (auto simp: select_count_def candidates_def FAMILY_QUOTAS_def)
  from select_loop_found [OF this _ assms] show ?thesis by (auto simp: select_families_def is_ok_iff rbind_eq_Inr)
qed

text \<open>
  Interpreter functions in which the digest depends on the number of the family, and exact arithmetic: the first
  24 families are for training, and so on.
\<close>

definition sample_ml_env :: ml_env where
  "sample_ml_env = \<lparr>me_py = zero_env, me_digest = (\<lambda>s. let n = nat_of_str (drop (length s - 6) s) in replicate 32
      (if n < 24 then CHR 0x00 else if n < 30 then CHR 0xA0 else if n < 36 then CHR 0xC8 else CHR 0xFA)),
     me_round = (\<lambda>q. q), me_sum = sum_list\<rparr>"

lemma sample_round [simp]: "me_round sample_ml_env q = q"
  by (simp add: sample_ml_env_def)

lemma length_pad: "length (int_str i) \<le> width \<Longrightarrow> length (pad width i) = width"
  by (simp add: pad_def Let_def)

lemma sample_bytes:
  "from_bytes_big (replicate 8 CHR 0x00) = 0" "from_bytes_big (replicate 8 CHR 0xA0) = 11574427654092267680"
  "from_bytes_big (replicate 8 CHR 0xC8) = 14468034567615334600" "from_bytes_big (replicate 8 CHR 0xFA) = 18085043209519168250"
  by code_simp+

lemma sample_split:
  assumes "i < 1000000"
  shows "split_name (sample_ml_env\<lparr>me_py := py\<rparr>) SOURCE_REVISION (family_name i)
    = (if i < 24 then ''train'' else if i < 30 then ''early_stop'' else if i < 36 then ''calibration'' else ''blind_test'')"
proof -
  have "length (int_str (int i)) \<le> 6" using nat_str_length [of i 5] assms by (simp add: int_str_def)
  then have six: "length (pad 6 (int i)) = 6" by (rule length_pad)
  have "nat_of_str (drop (length (s @ pad 6 (int i)) - 6) (s @ pad 6 (int i))) = i" for s
    using six nat_of_pad [of "int i" 6] by (simp del: nat_of_str.simps)
  then have "me_digest (sample_ml_env\<lparr>me_py := py\<rparr>) (s @ pad 6 (int i)) = replicate 32
      (if i < 24 then CHR 0x00 else if i < 30 then CHR 0xA0 else if i < 36 then CHR 0xC8 else CHR 0xFA)" for s
    by (simp add: sample_ml_env_def Let_def del: nat_of_str.simps)
  note digest = this [of "''masi-split-v1'' @ [CHR 0x00] @ SOURCE_REVISION @ [CHR 0x00] @ ''masi-synthetic-capture-''"]
  then have frac: "split_fraction (sample_ml_env\<lparr>me_py := py\<rparr>) SOURCE_REVISION (family_name i)
      = of_int (from_bytes_big (replicate 8 (if i < 24 then CHR 0x00 else if i < 30 then CHR 0xA0 else if i < 36 then CHR 0xC8 else CHR 0xFA))) / 2 ^ 64"
    by (simp add: split_fraction_def family_name_def sample_ml_env_def Let_def del: nat_of_str.simps)
  show ?thesis unfolding split_name_def Let_def frac
    by (cases "i < 24"; cases "i < 30"; cases "i < 36") (simp_all add: sample_bytes)
qed

lemma sample_counts:
  "length (filter (\<lambda>i. i < 24) [0..<40::nat]) = 24" "length (filter (\<lambda>i. \<not> i < 24 \<and> i < 30) [0..<40::nat]) = 6"
  "length (filter (\<lambda>i. \<not> i < 30 \<and> i < 36) [0..<40::nat]) = 6" "length (filter (\<lambda>i. \<not> i < 36) [0..<40::nat]) = 4"
  by code_simp+

lemma sample_families_with: "is_ok (select_families (sample_ml_env\<lparr>me_py := py\<rparr>))"
proof (rule families_found [of 40])
  have same: "candidates (sample_ml_env\<lparr>me_py := py\<rparr>) name 40 = length (filter P [0..<40])"
    if "\<And>i. i < 40 \<Longrightarrow> P i \<longleftrightarrow> split_name (sample_ml_env\<lparr>me_py := py\<rparr>) SOURCE_REVISION (family_name i) = name" for name P
    unfolding candidates_def by (rule arg_cong [where f = length], rule filter_cong) (use that in auto)
  have "candidates (sample_ml_env\<lparr>me_py := py\<rparr>) ''train'' 40 = 24" "candidates (sample_ml_env\<lparr>me_py := py\<rparr>) ''early_stop'' 40 = 6"
    "candidates (sample_ml_env\<lparr>me_py := py\<rparr>) ''calibration'' 40 = 6" "candidates (sample_ml_env\<lparr>me_py := py\<rparr>) ''blind_test'' 40 = 4"
    using same [of "\<lambda>i. i < 24" "''train''"] same [of "\<lambda>i. \<not> i < 24 \<and> i < 30" "''early_stop''"]
      same [of "\<lambda>i. \<not> i < 30 \<and> i < 36" "''calibration''"] same [of "\<lambda>i. \<not> i < 36" "''blind_test''"]
    by (simp_all only: sample_counts) (simp_all add: sample_split)
  then show "quota \<le> candidates (sample_ml_env\<lparr>me_py := py\<rparr>) name 40" if "(name, quota) \<in> set FAMILY_QUOTAS" for name quota
    using that by (auto simp: FAMILY_QUOTAS_def)
qed simp

lemma sample_families: "is_ok (select_families sample_ml_env)"
  using sample_families_with [of zero_env] by (simp add: sample_ml_env_def)

theorem families_selected_witness:
  "\<exists>families. select_families sample_ml_env = Inr families \<and> distinct (map fst families)"
proof -
  obtain families where "select_families sample_ml_env = Inr families" using sample_families by (auto simp: is_ok_iff)
  with families_selected [OF this] show ?thesis by blast
qed

end
