(* ===== verification/Ml_Load.thy ===== *)
theory Ml_Load
  imports Ml_Dataset
begin

text \<open>
  Loading a dataset (\<open>load_dataset\<close> of \<open>dataset.py\<close>): the file checks, the loop over the sample index and the checks
  of the whole. The parameters of \<open>loader\<close> are \<open>json.loads\<close> on a line, the two schema validators, which give the
  detail of their first error, and the conversions of \<open>int\<close> and \<open>float\<close> from a string. Values that the code compares
  with \<open>!=\<close> are compared structurally.

  The main result is what a loaded dataset guarantees; the other one is that every sample record the generator makes
  passes the validator.
\<close>

section \<open>Files\<close>

record loader =
  ld_env :: ml_env
  ld_loads :: "str \<Rightarrow> json option"
  ld_manifest_error :: "(str \<times> json) list \<Rightarrow> str option"
  ld_sample_error :: "json \<Rightarrow> str option"
  ld_int_text :: "str \<Rightarrow> int option"
  ld_float_text :: "str \<Rightarrow> pyfloat option"

text \<open>A path below the dataset directory after \<open>resolve\<close>, or the error that \<open>resolve\<close> raises.\<close>

record dataset_file =
  df_inside :: bool
  df_symlink :: bool
  df_regular :: bool
  df_bytes :: str

type_synonym dataset_directory = "str \<Rightarrow> ml_error + dataset_file"

definition schema_check :: "str \<Rightarrow> str option \<Rightarrow> ml_error + unit" where
  "schema_check code error = (case error of None \<Rightarrow> Inr () | Some detail \<Rightarrow> Inl (Invalid code detail))"

definition text_of :: "ml_env \<Rightarrow> json \<Rightarrow> str" where
  "text_of env v = (case v of JStr s \<Rightarrow> s | _ \<Rightarrow> value_str (me_py env) v)"

definition indexed :: "json \<Rightarrow> str \<Rightarrow> ml_error + json" where
  "indexed v key = (case v of JObj kvs \<Rightarrow> item_at kvs key | _ \<Rightarrow> Inl MTypeError)"

definition open_file :: "ml_env \<Rightarrow> dataset_directory \<Rightarrow> json \<Rightarrow> str \<Rightarrow> ml_error + str" where
  "open_file env dir files name =
     rbind (indexed files name) (\<lambda>entry.
     rbind (indexed entry ''path'') (\<lambda>path_value.
     let relative = text_of env path_value in
     case dir relative of
       Inl MFileNotFoundError \<Rightarrow> Inl (Invalid ''dataset_file_missing'' relative)
     | Inl e \<Rightarrow> Inl e
     | Inr f \<Rightarrow>
         if \<not> df_inside f \<or> df_symlink f \<or> \<not> df_regular f then Inl (Invalid ''dataset_file_path'' relative)
         else if length (df_bytes f) > 10 * 1024 * 1024 * 1024 then Inl (Invalid ''file_too_large'' relative)
         else rbind (indexed entry ''sha256'') (\<lambda>digest.
           if JStr (sha256_bytes env (df_bytes f)) \<noteq> digest then Inl (Invalid ''dataset_file_digest'' relative)
           else rbind (indexed entry ''bytes'') (\<lambda>expected_bytes.
             if \<not> equals_int expected_bytes (int (length (df_bytes f))) then Inl (Invalid ''dataset_file_digest'' relative)
             else Inr (df_bytes f)))))"

section \<open>The sample index\<close>

abbreviation newline :: char where "newline \<equiv> CHR 0x0A"

text \<open>The lines of a binary stream, with their line ends.\<close>

fun stream_lines :: "str \<Rightarrow> str \<Rightarrow> str list" where
  "stream_lines acc [] = (if acc = [] then [] else [acc])"
| "stream_lines acc (c # s) = (if c = newline then (acc @ [c]) # stream_lines [] s else stream_lines (acc @ [c]) s)"

record load_state =
  ls_seen_ids :: "str set"
  ls_family_splits :: "str \<rightharpoonup> str"
  ls_records :: "(str \<times> json) list list"

text \<open>The line as a document: bounded, decoded, canonical, valid and of this dataset.\<close>

definition read_sample :: "loader \<Rightarrow> (str \<times> json) list \<Rightarrow> nat \<Rightarrow> str \<Rightarrow> ml_error + (str \<times> json) list" where
  "read_sample ld manifest line_number raw_line =
     (let env = ld_env ld; number = nat_str line_number in
      if length raw_line > 16384 \<or> raw_line = [] \<or> last raw_line \<noteq> newline then Inl (Invalid ''sample_index_line'' number)
      else case ld_loads ld raw_line of
        None \<Rightarrow> Inl (Invalid ''sample_index_json'' number)
      | Some v \<Rightarrow>
          rbind (canonical_json_bytes (me_py env) v) (\<lambda>canonical.
          rbind (raise_if (canonical @ [newline] \<noteq> raw_line) (Invalid ''sample_index_canonical'' number)) (\<lambda>_.
          rbind (schema_check ''dataset_sample_schema'' (ld_sample_error ld v)) (\<lambda>_.
          case v of
            JObj record \<Rightarrow>
              rbind (validate_dataset_sample env record) (\<lambda>_.
              rbind (item_at record ''dataset_id'') (\<lambda>record_id.
              rbind (item_at manifest ''dataset_id'') (\<lambda>manifest_id.
              rbind (if record_id \<noteq> manifest_id then Inl (Invalid ''dataset_sample_identity'' number)
                else rbind (item_at record ''dataset_revision'') (\<lambda>record_revision.
                  rbind (item_at manifest ''dataset_revision'') (\<lambda>manifest_revision.
                  raise_if (record_revision \<noteq> manifest_revision) (Invalid ''dataset_sample_identity'' number)))) (\<lambda>_.
              Inr record))))
          | _ \<Rightarrow> Inl MTypeError))))"

definition load_sample ::
  "loader \<Rightarrow> (str \<times> json) list \<Rightarrow> str \<Rightarrow> nat \<Rightarrow> str \<Rightarrow> load_state \<Rightarrow> ml_error + load_state" where
  "load_sample ld manifest feature_payload line_number raw_line st =
     (let env = ld_env ld; number = nat_str line_number in
      rbind (read_sample ld manifest line_number raw_line) (\<lambda>record.
      rbind (item_at record ''sample_id'') (\<lambda>sample_value.
      let sample_id = text_of env sample_value in
      rbind (raise_if (sample_id \<in> ls_seen_ids st) (Invalid ''duplicate_sample'' sample_id)) (\<lambda>_.
      rbind (item_at record ''capture_family_id'') (\<lambda>family_value.
      rbind (item_at record ''split'') (\<lambda>split_value.
      let family = text_of env family_value; split = text_of env split_value;
          prior = (case ls_family_splits st family of None \<Rightarrow> split | Some p \<Rightarrow> p) in
      rbind (raise_if (prior \<noteq> split) (Invalid ''capture_family_cross_split'' family)) (\<lambda>_.
      rbind (integer_at record ''feature_offset'' ''feature_offset'') (\<lambda>offset.
      rbind (raise_if (offset \<noteq> int (line_number - 1) * 48) (Invalid ''feature_offset_sequence'' number)) (\<lambda>_.
      rbind (sequence_at record ''feature_values'' ''feature_values'') (\<lambda>values.
      rbind (feature_tensor_bytes values) (\<lambda>tensor.
      rbind (raise_if (take 48 (drop (nat offset) feature_payload) \<noteq> tensor) (Invalid ''feature_payload_mismatch'' sample_id)) (\<lambda>_.
      Inr \<lparr>ls_seen_ids = insert sample_id (ls_seen_ids st), ls_family_splits = (ls_family_splits st)(family \<mapsto> split),
        ls_records = ls_records st @ [record]\<rparr>))))))))))))"

fun load_samples :: "loader \<Rightarrow> (str \<times> json) list \<Rightarrow> str \<Rightarrow> nat \<Rightarrow> str list \<Rightarrow> load_state \<Rightarrow> ml_error + load_state" where
  "load_samples ld manifest feature_payload line_number [] st = Inr st"
| "load_samples ld manifest feature_payload line_number (raw_line # rest) st =
     rbind (load_sample ld manifest feature_payload line_number raw_line st)
       (load_samples ld manifest feature_payload (Suc line_number) rest)"

section \<open>The dataset\<close>

record dataset_data =
  dd_manifest :: "(str \<times> json) list"
  dd_records :: "(str \<times> json) list list"
  dd_features :: "int list list"
  dd_labels :: "int list"
  dd_weights :: "pyfloat list"
  dd_splits :: "str list"

fun to_int :: "(str \<Rightarrow> int option) \<Rightarrow> json \<Rightarrow> ml_error + int" where
  "to_int int_text (JInt i) = Inr i"
| "to_int int_text (JBool b) = Inr (if b then 1 else 0)"
| "to_int int_text (JFloat f) = (case f of FFin q \<Rightarrow> Inr (if q < 0 then \<lceil>q\<rceil> else \<lfloor>q\<rfloor>) | FNan \<Rightarrow> Inl MValueError | FInf _ \<Rightarrow> Inl MOverflowError)"
| "to_int int_text (JStr s) = (case int_text s of None \<Rightarrow> Inl MValueError | Some i \<Rightarrow> Inr i)"
| "to_int int_text _ = Inl MTypeError"

fun to_float :: "loader \<Rightarrow> json \<Rightarrow> ml_error + pyfloat" where
  "to_float ld (JInt i) = rbind (as_number (ld_env ld) [] (JInt i)) (\<lambda>q. Inr (FFin q))"
| "to_float ld (JBool b) = Inr (FFin (if b then 1 else 0))"
| "to_float ld (JFloat f) = Inr f"
| "to_float ld (JStr s) = (case ld_float_text ld s of None \<Rightarrow> Inl MValueError | Some f \<Rightarrow> Inr f)"
| "to_float ld _ = Inl MTypeError"

definition record_text :: "loader \<Rightarrow> str \<Rightarrow> (str \<times> json) list \<Rightarrow> ml_error + str" where
  "record_text ld key record = rbind (item_at record key) (\<lambda>v. Inr (text_of (ld_env ld) v))"

definition load_dataset :: "loader \<Rightarrow> dataset_directory \<Rightarrow> (str \<times> json) list \<Rightarrow> ml_error + dataset_data" where
  "load_dataset ld dir manifest =
     (let env = ld_env ld in
      rbind (schema_check ''dataset_schema'' (ld_manifest_error ld manifest)) (\<lambda>_.
      rbind (validate_dataset_manifest env manifest) (\<lambda>_.
      rbind (item_at manifest ''files'') (\<lambda>files.
      rbind (open_file env dir files ''features'') (\<lambda>feature_payload.
      rbind (open_file env dir files ''sample_index'') (\<lambda>index_payload.
      rbind (open_file env dir files ''split_manifest'') (\<lambda>_.
      rbind (raise_if (length feature_payload mod 48 \<noteq> 0)
        (Invalid ''feature_file_alignment'' (nat_str (length feature_payload)))) (\<lambda>_.
      let features = feature_rows feature_payload in
      rbind (load_samples ld manifest feature_payload 1 (stream_lines [] index_payload)
        \<lparr>ls_seen_ids = {}, ls_family_splits = Map.empty, ls_records = []\<rparr>) (\<lambda>st.
      let records = ls_records st in
      rbind (raise_if (length records \<noteq> length features)
        (Invalid ''dataset_record_count'' (nat_str (length records) @ '' != '' @ nat_str (length features)))) (\<lambda>_.
      rbind (mapM (record_text ld ''sort_key'') records) (\<lambda>sort_keys.
      rbind (raise_if (sort_keys \<noteq> sort sort_keys) (Invalid ''dataset_sort_order'' ''sample index is not bytewise sorted'')) (\<lambda>_.
      rbind (mapM (\<lambda>record. rbind (item_at record ''label'') (\<lambda>label. rbind (indexed label ''binary_label'') (to_int (ld_int_text ld)))) records) (\<lambda>labels.
      rbind (mapM (\<lambda>record. rbind (item_at record ''sample_weight'') (to_float ld)) records) (\<lambda>weights.
      rbind (mapM (record_text ld ''split'') records) (\<lambda>splits.
      Inr \<lparr>dd_manifest = manifest, dd_records = records, dd_features = features, dd_labels = labels, dd_weights = weights,
        dd_splits = splits\<rparr>)))))))))))))))"

definition split_indices :: "dataset_data \<Rightarrow> str \<Rightarrow> nat list" where
  "split_indices data split = filter (\<lambda>i. dd_splits data ! i = split) [0..<length (dd_splits data)]"

section \<open>What a loaded dataset guarantees\<close>

text \<open>A text field of a record.\<close>

definition field :: "loader \<Rightarrow> str \<Rightarrow> (str \<times> json) list \<Rightarrow> str" where
  "field ld key record = (case json_get record key of None \<Rightarrow> [] | Some v \<Rightarrow> text_of (ld_env ld) v)"

definition values_of :: "(str \<times> json) list \<Rightarrow> json list" where
  "values_of record = (case json_get record ''feature_values'' of Some (JArr vs) \<Rightarrow> vs | _ \<Rightarrow> [])"

definition sample_line :: "loader \<Rightarrow> (str \<times> json) list \<Rightarrow> str" where
  "sample_line ld record = json_text (me_py (ld_env ld)) (sort_json (JObj record)) @ [newline]"

lemma schema_check_ok [simp]: "schema_check code error = Inr u \<longleftrightarrow> error = None"
  by (simp add: schema_check_def split: option.splits)

lemma record_text_ok: "record_text ld key record = Inr s \<Longrightarrow> s = field ld key record"
  by (auto simp: record_text_def field_def rbind_eq_Inr)

lemma read_sample_ok:
  assumes "read_sample ld manifest n raw_line = Inr record"
  shows "raw_line = sample_line ld record \<and> length raw_line \<le> 16384
    \<and> validate_dataset_sample (ld_env ld) record = Inr () \<and> ld_sample_error ld (JObj record) = None
    \<and> json_get record ''dataset_id'' = json_get manifest ''dataset_id''
    \<and> json_get record ''dataset_revision'' = json_get manifest ''dataset_revision''"
  using assms
  by (auto simp: read_sample_def Let_def rbind_eq_Inr canonical_json_bytes_def sample_line_def
        split: if_splits option.splits json.splits)

lemma load_sample_ok:
  assumes "load_sample ld manifest payload n raw_line st = Inr st'"
  shows "\<exists>record tensor. read_sample ld manifest n raw_line = Inr record
    \<and> field ld ''sample_id'' record \<notin> ls_seen_ids st
    \<and> ls_family_splits st (field ld ''capture_family_id'' record) \<in> {None, Some (field ld ''split'' record)}
    \<and> json_get record ''feature_offset'' = Some (JInt (int (n - 1) * 48))
    \<and> feature_tensor_bytes (values_of record) = Inr tensor \<and> take 48 (drop (48 * (n - 1)) payload) = tensor
    \<and> st' = \<lparr>ls_seen_ids = insert (field ld ''sample_id'' record) (ls_seen_ids st),
        ls_family_splits = (ls_family_splits st)(field ld ''capture_family_id'' record \<mapsto> field ld ''split'' record),
        ls_records = ls_records st @ [record]\<rparr>"
proof -
  obtain doc sid family split vals tensor where
    "read_sample ld manifest n raw_line = Inr doc" "json_get doc ''sample_id'' = Some sid"
    "text_of (ld_env ld) sid \<notin> ls_seen_ids st"
    "json_get doc ''capture_family_id'' = Some family" "json_get doc ''split'' = Some split"
    "(case ls_family_splits st (text_of (ld_env ld) family) of None \<Rightarrow> text_of (ld_env ld) split | Some p \<Rightarrow> p) = text_of (ld_env ld) split"
    "json_get doc ''feature_offset'' = Some (JInt (int (n - 1) * 48))"
    "json_get doc ''feature_values'' = Some (JArr vals)" "feature_tensor_bytes vals = Inr tensor"
    "take 48 (drop (nat (int (n - 1) * 48)) payload) = tensor"
    "st' = \<lparr>ls_seen_ids = insert (text_of (ld_env ld) sid) (ls_seen_ids st),
        ls_family_splits = (ls_family_splits st)(text_of (ld_env ld) family \<mapsto> text_of (ld_env ld) split),
        ls_records = ls_records st @ [doc]\<rparr>"
    using assms unfolding load_sample_def Let_def
    by (elim rbindE) (simp only: item_at_ok at_ok raise_if_eq_Inr not_not sum.inject; blast)
  moreover have "nat (int (n - 1) * 48) = 48 * (n - 1)" by (simp add: nat_mult_distrib mult.commute)
  ultimately show ?thesis
    by (intro exI [of _ doc] exI [of _ tensor]) (auto simp: field_def values_of_def split: option.splits)
qed

text \<open>The invariant of the loop: what holds of the records read so far from the given lines.\<close>

definition load_inv :: "loader \<Rightarrow> (str \<times> json) list \<Rightarrow> str \<Rightarrow> str list \<Rightarrow> load_state \<Rightarrow> bool" where
  "load_inv ld manifest payload seen_lines st \<longleftrightarrow>
     seen_lines = map (sample_line ld) (ls_records st)
   \<and> list_all (\<lambda>record. validate_dataset_sample (ld_env ld) record = Inr ()
        \<and> json_get record ''dataset_id'' = json_get manifest ''dataset_id''
        \<and> json_get record ''dataset_revision'' = json_get manifest ''dataset_revision''
        \<and> ls_family_splits st (field ld ''capture_family_id'' record) = Some (field ld ''split'' record)) (ls_records st)
   \<and> distinct (map (field ld ''sample_id'') (ls_records st))
   \<and> ls_seen_ids st = set (map (field ld ''sample_id'') (ls_records st))
   \<and> (\<forall>i < length (ls_records st). json_get (ls_records st ! i) ''feature_offset'' = Some (JInt (int i * 48))
        \<and> feature_tensor_bytes (values_of (ls_records st ! i)) = Inr (take 48 (drop (48 * i) payload)))"

lemma load_inv_step:
  assumes inv: "load_inv ld manifest payload seen st"
    and step: "load_sample ld manifest payload (Suc (length seen)) raw_line st = Inr st'"
  shows "load_inv ld manifest payload (seen @ [raw_line]) st'"
proof -
  have len: "length (ls_records st) = length seen" using inv by (simp add: load_inv_def)
  obtain doc where r: "read_sample ld manifest (Suc (length seen)) raw_line = Inr doc"
    "field ld ''sample_id'' doc \<notin> ls_seen_ids st"
    "ls_family_splits st (field ld ''capture_family_id'' doc) \<in> {None, Some (field ld ''split'' doc)}"
    "json_get doc ''feature_offset'' = Some (JInt (int (length seen) * 48))"
    "feature_tensor_bytes (values_of doc) = Inr (take 48 (drop (48 * length seen) payload))"
    and st': "st' = \<lparr>ls_seen_ids = insert (field ld ''sample_id'' doc) (ls_seen_ids st),
        ls_family_splits = (ls_family_splits st)(field ld ''capture_family_id'' doc \<mapsto> field ld ''split'' doc),
        ls_records = ls_records st @ [doc]\<rparr>"
    using load_sample_ok [OF step] by auto
  note facts = read_sample_ok [OF r(1)]
  have records: "ls_records st' = ls_records st @ [doc]" by (simp add: st')
  show ?thesis
    unfolding load_inv_def
  proof (intro conjI)
    show "seen @ [raw_line] = map (sample_line ld) (ls_records st')" using inv facts by (simp add: st' load_inv_def)
    have "(field ld ''capture_family_id'' r = field ld ''capture_family_id'' doc \<longrightarrow> field ld ''split'' r = field ld ''split'' doc)"
      if "r \<in> set (ls_records st)" for r
      using inv r(3) that by (auto simp: load_inv_def list_all_iff)
    then show "list_all (\<lambda>record. validate_dataset_sample (ld_env ld) record = Inr ()
        \<and> json_get record ''dataset_id'' = json_get manifest ''dataset_id''
        \<and> json_get record ''dataset_revision'' = json_get manifest ''dataset_revision''
        \<and> ls_family_splits st' (field ld ''capture_family_id'' record) = Some (field ld ''split'' record)) (ls_records st')"
      using inv facts by (auto simp: st' load_inv_def list_all_iff)
    show "distinct (map (field ld ''sample_id'') (ls_records st'))" using inv r(2) by (simp add: st' load_inv_def)
    show "ls_seen_ids st' = set (map (field ld ''sample_id'') (ls_records st'))" using inv by (simp add: st' load_inv_def)
    show "\<forall>i < length (ls_records st'). json_get (ls_records st' ! i) ''feature_offset'' = Some (JInt (int i * 48))
        \<and> feature_tensor_bytes (values_of (ls_records st' ! i)) = Inr (take 48 (drop (48 * i) payload))"
    proof (intro allI impI)
      fix i assume "i < length (ls_records st')"
      then consider "i < length (ls_records st)" | "i = length (ls_records st)" by (auto simp: records less_Suc_eq)
      then show "json_get (ls_records st' ! i) ''feature_offset'' = Some (JInt (int i * 48))
        \<and> feature_tensor_bytes (values_of (ls_records st' ! i)) = Inr (take 48 (drop (48 * i) payload))"
      proof cases
        case 1
        with inv show ?thesis unfolding load_inv_def records by (simp only: nth_append if_True)
      next
        case 2
        with r(4,5) len show ?thesis by (simp add: records nth_append)
      qed
    qed
  qed
qed

lemma load_inv_loop:
  "load_inv ld manifest payload seen st \<Longrightarrow>
     load_samples ld manifest payload (Suc (length seen)) rest st = Inr st' \<Longrightarrow> load_inv ld manifest payload (seen @ rest) st'"
proof (induction rest arbitrary: seen st)
  case (Cons raw_line rest)
  then obtain st1 where one: "load_sample ld manifest payload (Suc (length seen)) raw_line st = Inr st1"
    and rest: "load_samples ld manifest payload (Suc (length (seen @ [raw_line]))) rest st1 = Inr st'"
    by (auto simp: rbind_eq_Inr)
  from Cons.IH [OF load_inv_step [OF Cons.prems(1) one] rest] show ?case by simp
qed simp

lemma stream_lines_concat: "concat (stream_lines acc s) = acc @ s"
  by (induction acc s rule: stream_lines.induct) auto

lemma chunks_of_upt:
  "0 < n \<Longrightarrow> length xs = n * k \<Longrightarrow> chunks_of n xs = map (\<lambda>i. take n (drop (n * i) xs)) [0..<k]"
proof (induction k arbitrary: xs)
  case (Suc k)
  have "chunks_of n (drop n xs) = map (\<lambda>i. take n (drop (n * i) (drop n xs))) [0..<k]" using Suc by (intro Suc.IH) auto
  moreover have "xs \<noteq> []" using Suc.prems by auto
  ultimately show ?case using Suc.prems(1)
    by (subst chunks_of.simps) (simp add: map_upt_Suc add.commute del: upt_Suc)
qed (simp add: chunks_of.simps)


lemma mapM_record_text: "mapM (record_text ld key) records = Inr texts \<Longrightarrow> texts = map (field ld key) records"
  by (induction records arbitrary: texts) (auto simp: rbind_eq_Inr dest: record_text_ok)

lemma load_dataset_parts:
  assumes "load_dataset ld dir manifest = Inr data"
  obtains payload index st where
    "validate_dataset_manifest (ld_env ld) manifest = Inr ()"
    "length payload mod 48 = 0"
    "load_samples ld manifest payload 1 (stream_lines [] index) \<lparr>ls_seen_ids = {}, ls_family_splits = Map.empty, ls_records = []\<rparr> = Inr st"
    "\<exists>files. json_get manifest ''files'' = Some files \<and> open_file (ld_env ld) dir files ''features'' = Inr payload
       \<and> open_file (ld_env ld) dir files ''sample_index'' = Inr index"
    "dd_records data = ls_records st" "dd_features data = feature_rows payload" "length (ls_records st) = length (feature_rows payload)"
    "\<exists>keys. mapM (record_text ld ''sort_key'') (ls_records st) = Inr keys \<and> sorted keys"
    "mapM (record_text ld ''split'') (ls_records st) = Inr (dd_splits data)"
proof -
  from assms obtain files payload index st keys where parts:
    "validate_dataset_manifest (ld_env ld) manifest = Inr ()" "json_get manifest ''files'' = Some files"
    "open_file (ld_env ld) dir files ''features'' = Inr payload" "open_file (ld_env ld) dir files ''sample_index'' = Inr index"
    "length payload mod 48 = 0"
    "load_samples ld manifest payload 1 (stream_lines [] index) \<lparr>ls_seen_ids = {}, ls_family_splits = Map.empty, ls_records = []\<rparr> = Inr st"
    "length (ls_records st) = length (feature_rows payload)"
    "mapM (record_text ld ''sort_key'') (ls_records st) = Inr keys" "keys = sort keys"
    "mapM (record_text ld ''split'') (ls_records st) = Inr (dd_splits data)"
    "dd_records data = ls_records st" "dd_features data = feature_rows payload"
    unfolding load_dataset_def Let_def by (elim rbindE) auto
  from parts(9) have "sorted keys" by (metis sorted_sort)
  with parts show ?thesis by (intro that [of payload index st]) auto
qed

lemma loaded_features:
  assumes inv: "load_inv ld manifest payload seen st" and "length payload mod 48 = 0"
    and len: "length (ls_records st) = length (feature_rows payload)"
  shows "map (map JInt) (feature_rows payload) = map values_of (ls_records st)"
proof -
  obtain k where k: "length payload = 48 * k" using assms(2) by auto
  then have chunks: "chunks_of 48 payload = map (\<lambda>i. take 48 (drop (48 * i) payload)) [0..<k]" by (intro chunks_of_upt) auto
  then have n: "length (ls_records st) = k" using len by (simp add: feature_rows_def)
  have "list_all2 (\<lambda>row tensor. feature_tensor_bytes row = Inr tensor) (map values_of (ls_records st)) (chunks_of 48 payload)"
    using inv n by (simp add: list_all2_conv_all_nth chunks load_inv_def)
  then have "map (map JInt) (feature_rows (concat (chunks_of 48 payload))) = map values_of (ls_records st)"
    by (rule feature_rows_tensors)
  moreover have "concat (chunks_of 48 payload) = payload" by (rule concat_chunks_of) simp
  ultimately show ?thesis by simp
qed



section \<open>Every generated sample is valid\<close>

text \<open>What the generator needs of the arithmetic: zero and one are doubles, and rounding keeps 0.9 below one.\<close>

definition rounds_unit :: "ml_env \<Rightarrow> bool" where
  "rounds_unit env \<longleftrightarrow> me_round env 0 = 0 \<and> me_round env 1 = 1 \<and> me_round env (9 / 10) \<le> 1"

lemma sample_document_get:
  "json_get (sample_document d revision offset source_digest tensor_digest snapshot_digest label) ''feature_values'' = Some (JArr (map JInt (dr_features d)))"
  "json_get (sample_document d revision offset source_digest tensor_digest snapshot_digest label) ''feature_tensor_digest'' = Some (JStr tensor_digest)"
  "json_get (sample_document d revision offset source_digest tensor_digest snapshot_digest label) ''feature_offset'' = Some (JInt offset)"
  "json_get (sample_document d revision offset source_digest tensor_digest snapshot_digest label) ''source_profile'' = Some (JStr SOURCE_PROFILE)"
  "json_get (sample_document d revision offset source_digest tensor_digest snapshot_digest label) ''source_revision'' = Some (JStr SOURCE_REVISION)"
  "json_get (sample_document d revision offset source_digest tensor_digest snapshot_digest label) ''capture_family_id'' = Some (JStr (dr_capture_family_id d))"
  "json_get (sample_document d revision offset source_digest tensor_digest snapshot_digest label) ''split'' = Some (JStr (dr_split d))"
  "json_get (sample_document d revision offset source_digest tensor_digest snapshot_digest label) ''label'' = Some label"
  by (simp_all add: sample_document_def json_get_def)

lemma sample_document_finite:
  "\<not> has_nonfinite label \<Longrightarrow> \<not> has_nonfinite (JObj (sample_document d revision offset source_digest tensor_digest snapshot_digest label))"
  by (simp add: sample_document_def list_ex_iff)

lemma as_integer_list:
  "mapM (\<lambda>(index, v). as_integer (f index) v) (enumerate_from n (map JInt integers)) = Inr integers"
proof -
  have "mapM (\<lambda>(index, v). as_integer (f index) v) (enumerate_from n (map JInt integers))
      = Inr (map (\<lambda>(index, v). case v of JInt i \<Rightarrow> i | _ \<Rightarrow> 0) (enumerate_from n (map JInt integers)))"
    by (rule mapM_all_Inr) (auto simp: as_integer_def enumerate_from_def set_zip)
  also have "map (\<lambda>(index, v). case v of JInt i \<Rightarrow> i | _ \<Rightarrow> 0) (enumerate_from n (map JInt integers)) = integers"
    by (rule nth_equalityI) (simp_all add: split_beta)
  finally show ?thesis .
qed

lemma ratio_self: "rounds_unit env \<Longrightarrow> 0 < n \<Longrightarrow> ratio env n n = Inr 1"
  by (simp add: ratio_def true_divide_def rounds_unit_def)

lemma ratio_zero: "rounds_unit env \<Longrightarrow> ratio env 0 n = Inr 0"
  by (simp add: ratio_def true_divide_def rounds_unit_def)

text \<open>What makes a label and a sample valid, by the fields that the validators read.\<close>

lemma label_valid:
  assumes "rounds_unit env" "0 < packets" "n \<in> {0, 1 :: int}"
    and fields: "json_get label ''eligible_packets'' = Some (JInt packets)" "json_get label ''labeled_eligible_packets'' = Some (JInt packets)"
    "json_get label ''coverage'' = Some (JFloat (FFin 1))"
    "json_get label ''supported_attack_packets'' = Some (JInt (if n = 1 then packets else 0))"
    "json_get label ''attack_share'' = Some (JFloat (FFin (if n = 1 then 1 else 0)))"
    "json_get label ''purity'' = Some (JStr (if n = 1 then ''fit_attack'' else ''fit_benign''))"
    "json_get label ''binary_label'' = Some (JInt n)"
  shows "validate_label env label split = Inr ()"
  using assms(1-3)
  by (auto simp: validate_label_def integer_at_def number_at_def string_at_def item_at_def as_integer_def as_number_def
        as_string_def fields ratio_self ratio_zero isclose_def rounds_unit_def)

lemma sample_label_fields:
  assumes "sample_label d packets digest = JObj label"
  shows "json_get label ''eligible_packets'' = Some (JInt packets)" "json_get label ''labeled_eligible_packets'' = Some (JInt packets)"
    "json_get label ''coverage'' = Some (JFloat (FFin 1))"
    "json_get label ''supported_attack_packets'' = Some (JInt (if dr_label d = 1 then packets else 0))"
    "json_get label ''attack_share'' = Some (JFloat (FFin (if dr_label d = 1 then 1 else 0)))"
    "json_get label ''purity'' = Some (JStr (if dr_label d = 1 then ''fit_attack'' else ''fit_benign''))"
    "json_get label ''binary_label'' = Some (JInt (dr_label d))"
  using assms by (auto simp: sample_label_def json_get_def Let_def)

lemma sample_valid:
  assumes "\<not> has_nonfinite (JObj doc)" and six: "length v = 6" "\<forall>i \<in> set v. 0 \<le> i \<and> i < 2 ^ 64"
    and fields: "json_get doc ''feature_values'' = Some (JArr (map JInt v))"
    "json_get doc ''feature_tensor_digest'' = Some (JStr (sha256_bytes env (concat (map (le_bytes 8) v))))"
    "json_get doc ''feature_offset'' = Some (JInt (48 * k))" "json_get doc ''source_profile'' = Some (JStr SOURCE_PROFILE)"
    "json_get doc ''source_revision'' = Some (JStr SOURCE_REVISION)" "json_get doc ''capture_family_id'' = Some (JStr family)"
    "json_get doc ''split'' = Some (JStr (split_name env SOURCE_REVISION family))" "json_get doc ''label'' = Some (JObj label)"
    and label: "validate_label env label (split_name env SOURCE_REVISION family) = Inr ()"
  shows "validate_dataset_sample env doc = Inr ()"
proof -
  have "ensure_finite ''$'' (JObj doc) = Inr ()" using assms(1) by (simp only: ensure_finite_iff not_False_eq_True)
  then show ?thesis
    using label feature_tensor_bytes_total [OF six]
    by (simp add: validate_dataset_sample_def Let_def sequence_at_def string_at_def integer_at_def mapping_at_def item_at_def
          as_sequence_def as_string_def as_integer_def [of _ "JInt _"] as_mapping_def fields as_integer_list)
qed

lemma identities_finite: "\<not> has_nonfinite (snapshot_identity d)" "\<not> has_nonfinite (join_identity d packets)"
  by (simp_all add: snapshot_identity_def join_identity_def list_ex_iff)

lemma drafts_from_members:
  "d \<in> set (drafts_from env g families) \<Longrightarrow> \<exists>h family split w. (family, split) \<in> set families \<and> d = make_draft env h family split w"
  by (induction env g families rule: drafts_from.induct) auto

text \<open>
  The generator makes valid samples only. Every draft of the module dataset, for whatever families the search
  selected, becomes a sample record, whatever revision, source digest and aligned offset it gets, and that record
  passes the validator that guards the loading of datasets: its features are six 64-bit values with the digest the
  record declares, its family is in the split of the hash rule, and its label has the semantics of its purity.
\<close>

theorem generated_samples_valid:
  assumes "rounds_unit env" and "select_families env = Inr families" and "d \<in> set (build_drafts env families)"
  shows "\<exists>doc. sample_record env d revision (48 * k) source_digest = Inr doc \<and> validate_dataset_sample env doc = Inr ()"
proof -
  obtain h family split w where fam: "(family, split) \<in> set families" and d: "d = make_draft env h family split w"
    using assms(3) drafts_from_members by (fastforce simp: build_drafts_def)
  have split: "split = split_name env SOURCE_REVISION family"
    using selected_split [OF assms(2)] fam by blast
  let ?v = "dr_features d"
  have ok: "consistent_window ?v" using feature_values_consistent by (simp add: d make_draft_def Let_def)
  then have six: "length ?v = 6" and range: "\<forall>i \<in> set ?v. 0 \<le> i \<and> i < 2 ^ 64" by (simp_all add: consistent_window_def)
  obtain packets rest where v: "?v = packets # rest" using six by (cases ?v) auto
  with ok have pos: "0 < packets" by (auto simp: consistent_window_def)
  have tensor: "feature_tensor_bytes (map JInt ?v) = Inr (concat (map (le_bytes 8) ?v))"
    by (rule feature_tensor_bytes_total [OF six range])
  obtain label where label:
    "sample_label d packets (sha256_bytes env (json_text (me_py env) (sort_json (join_identity d packets)))) = JObj label"
    by (simp add: sample_label_def Let_def)
  define doc where doc: "doc = sample_document d revision (48 * k) source_digest (sha256_bytes env (concat (map (le_bytes 8) ?v)))
    (sha256_bytes env (json_text (me_py env) (sort_json (snapshot_identity d)))) (JObj label)"
  have made: "sample_record env d revision (48 * k) source_digest = Inr doc"
    using tensor by (simp add: sample_record_def v canonical_json_bytes_def identities_finite label doc)
  have d01: "dr_label d \<in> {0, 1}" and own: "dr_split d = split_name env SOURCE_REVISION (dr_capture_family_id d)"
    using split by (simp_all add: d make_draft_def Let_def)
  have "\<not> has_nonfinite (JObj label)" using label by (auto simp: sample_label_def Let_def)
  then have finite: "\<not> has_nonfinite (JObj doc)" unfolding doc by (rule sample_document_finite)
  have "validate_dataset_sample env doc = Inr ()"
    by (rule sample_valid [OF finite six range, of env k "dr_capture_family_id d" label])
      (simp_all add: doc sample_document_get own label_valid [OF assms(1) pos d01 sample_label_fields [OF label]])
  with made show ?thesis by blast
qed


section \<open>Concrete instances\<close>

lemma sample_families_nonempty:
  assumes "select_families env = Inr families"
  shows "families \<noteq> []"
proof
  assume none: "families = []"
  have "length (filter (\<lambda>(family, split). split = ''train'') families) = 24" by (rule train_quota [OF assms])
  with none show False by simp
qed

theorem generated_samples_valid_witness:
  "\<exists>families d doc. select_families sample_ml_env = Inr families \<and> d \<in> set (build_drafts sample_ml_env families)
     \<and> sample_record sample_ml_env d ''r1'' 0 ''s1'' = Inr doc \<and> validate_dataset_sample sample_ml_env doc = Inr ()"
proof -
  obtain families where fam: "select_families sample_ml_env = Inr families" using sample_families by (auto simp: is_ok_iff)
  obtain family split rest where "families = (family, split) # rest"
    using sample_families_nonempty [OF fam] by (cases families) auto
  then have "make_draft sample_ml_env 0 family split 0 \<in> set (build_drafts sample_ml_env families)"
    by (auto simp: build_drafts_def WINDOWS_PER_FAMILY_def)
  moreover have "rounds_unit sample_ml_env" by (simp add: rounds_unit_def)
  ultimately show ?thesis using generated_samples_valid [OF _ fam, of _ "''r1''" 0 "''s1''"] fam by fastforce
qed

definition tiny_record :: "(str \<times> json) list" where
  "tiny_record = [(''capture_family_id'', JStr ''f''), (''dataset_id'', JStr ''d''), (''dataset_revision'', JStr ''r''),
     (''feature_offset'', JInt 0), (''feature_tensor_digest'', JStr (''sha256:'' @ replicate 64 CHR ''0'')),
     (''feature_values'', JArr (map JInt [2, 108, 1, 2, 108, 1])),
     (''label'', JObj [(''attack_share'', JInt 0), (''binary_label'', JInt 0), (''coverage'', JInt 1), (''eligible_packets'', JInt 2),
        (''labeled_eligible_packets'', JInt 2), (''purity'', JStr ''fit_benign''), (''supported_attack_packets'', JInt 0)]),
     (''sample_id'', JStr ''s''), (''sample_weight'', JInt 1), (''sort_key'', JStr ''k''), (''source_profile'', JStr ''p''),
     (''source_revision'', JStr ''r''), (''split'', JStr ''train'')]"

definition tiny_loader :: loader where
  "tiny_loader = \<lparr>ld_env = sample_ml_env, ld_loads = (\<lambda>_. Some (JObj tiny_record)), ld_manifest_error = (\<lambda>_. None),
     ld_sample_error = (\<lambda>_. None), ld_int_text = (\<lambda>_. None), ld_float_text = (\<lambda>_. None)\<rparr>"

definition tiny_features :: str where
  "tiny_features = concat (map (le_bytes 8) [2, 108, 1, 2, 108, 1])"

definition tiny_entry :: "str \<Rightarrow> str \<Rightarrow> json" where
  "tiny_entry path content = JObj [(''path'', JStr path), (''sha256'', JStr (''sha256:'' @ replicate 64 CHR ''0'')),
     (''bytes'', JInt (int (length content))), (''record_count'', JInt 1)]"

definition tiny_manifest :: "str \<Rightarrow> (str \<times> json) list" where
  "tiny_manifest index = [(''dataset_id'', JStr ''d''), (''dataset_revision'', JStr ''r''),
     (''feature_contract'', JObj [(''order'', JArr (map JStr FEATURE_ORDER))]),
     (''files'', JObj [(''features'', tiny_entry ''f'' tiny_features), (''sample_index'', tiny_entry ''i'' index),
        (''split_manifest'', tiny_entry ''x'' [])]),
     (''quality_summary'', JObj [(''sample_count'', JInt 1),
        (''split_counts'', JObj [(''train'', JInt 1), (''early_stop'', JInt 0), (''calibration'', JInt 0), (''blind_test'', JInt 0)]),
        (''ground_truth'', JObj [(''eligible_packets'', JInt 2), (''labeled_eligible_packets'', JInt 2), (''coverage'', JInt 1)])]),
     (''source_profiles'', JArr [])]"

definition tiny_directory :: "str \<Rightarrow> dataset_directory" where
  "tiny_directory index path =
     Inr \<lparr>df_inside = True, df_symlink = False, df_regular = True,
       df_bytes = (if path = ''f'' then tiny_features else if path = ''i'' then index else [])\<rparr>"

lemma tiny_record_sorted: "sort_json (JObj tiny_record) = JObj tiny_record"
  by code_simp

lemma tiny_tensor: "feature_tensor_bytes (map JInt [2, 108, 1, 2, 108, 1]) = Inr tiny_features"
  unfolding tiny_features_def by (rule feature_tensor_bytes_total) simp_all

lemma zero_digest: "sha256_bytes sample_ml_env raw = ''sha256:'' @ replicate 64 CHR ''0''"
  by (simp add: sha256_bytes_def sample_ml_env_def zero_env_def)

lemma tiny_record_get:
  "json_get tiny_record ''feature_values'' = Some (JArr (map JInt [2, 108, 1, 2, 108, 1]))"
  "json_get tiny_record ''feature_tensor_digest'' = Some (JStr (''sha256:'' @ replicate 64 CHR ''0''))"
  "json_get tiny_record ''feature_offset'' = Some (JInt 0)" "json_get tiny_record ''source_profile'' = Some (JStr ''p'')"
  "json_get tiny_record ''source_revision'' = Some (JStr ''r'')" "json_get tiny_record ''capture_family_id'' = Some (JStr ''f'')"
  "json_get tiny_record ''split'' = Some (JStr ''train'')" "json_get tiny_record ''sample_id'' = Some (JStr ''s'')"
  "json_get tiny_record ''dataset_id'' = Some (JStr ''d'')" "json_get tiny_record ''dataset_revision'' = Some (JStr ''r'')"
  "json_get tiny_record ''sort_key'' = Some (JStr ''k'')" "json_get tiny_record ''sample_weight'' = Some (JInt 1)"
  "json_get tiny_record ''label'' = Some (JObj [(''attack_share'', JInt 0), (''binary_label'', JInt 0), (''coverage'', JInt 1),
     (''eligible_packets'', JInt 2), (''labeled_eligible_packets'', JInt 2), (''purity'', JStr ''fit_benign''), (''supported_attack_packets'', JInt 0)])"
  by (simp_all add: tiny_record_def json_get_def)

lemma small_number: "\<bar>i\<bar> < 1000 \<Longrightarrow> as_number sample_ml_env path (JInt i) = Inr (of_int i)"
  by (simp add: as_number_def)

lemma tiny_label_valid:
  "validate_label sample_ml_env [(''attack_share'', JInt 0), (''binary_label'', JInt 0), (''coverage'', JInt 1), (''eligible_packets'', JInt 2),
     (''labeled_eligible_packets'', JInt 2), (''purity'', JStr ''fit_benign''), (''supported_attack_packets'', JInt 0)] ''train'' = Inr ()"
  using ratio_self [of sample_ml_env 2] ratio_zero [of sample_ml_env 2]
  by (simp add: validate_label_def integer_at_def number_at_def string_at_def item_at_def json_get_def as_integer_def
        as_string_def small_number isclose_def rounds_unit_def)

lemma tiny_record_valid: "validate_dataset_sample sample_ml_env tiny_record = Inr ()"
proof -
  have "ensure_finite ''$'' (JObj tiny_record) = Inr ()" unfolding ensure_finite_iff by (simp add: tiny_record_def)
  then show ?thesis
    using as_integer_list [of "\<lambda>index. ''feature_values['' @ nat_str index @ '']''" 0 "[2, 108, 1, 2, 108, 1]"] tiny_tensor
    by (simp add: validate_dataset_sample_def sequence_at_def string_at_def integer_at_def mapping_at_def item_at_def
          as_sequence_def as_string_def as_integer_def [of "''feature_offset''"] as_mapping_def tiny_record_get zero_digest tiny_label_valid)
qed

lemma tiny_record_small: "float_free (JObj tiny_record)" "json_weight (JObj tiny_record) \<le> 16000"
  by code_simp+


text \<open>An encoded document is one line.\<close>

lemma hex_char_plain: "n < 16 \<Longrightarrow> hex_char n \<noteq> newline"
  by (auto simp: hex_char_def less_Suc_eq numeral_eq_Suc)

lemma json_str_one_line: "newline \<notin> set (json_str s)"
proof -
  have "newline \<notin> set (json_escape_char c)" for c
  proof -
    have "(of_char c :: nat) div 16 < 16" using nat_of_char_less_256 [of c] by linarith
    then show ?thesis using hex_char_plain [of "of_char c div 16"] hex_char_plain [of "of_char c mod 16"]
      by (simp add: json_escape_char_def backslash_def quote_def)
  qed
  then show ?thesis by (auto simp: json_str_def quote_def)
qed

lemma join_one_line: "(\<And>x. x \<in> set xs \<Longrightarrow> newline \<notin> set x) \<Longrightarrow> newline \<notin> set (join '','' xs)"
  by (induction "'',''" xs rule: join.induct) auto

lemma json_text_one_line: "float_free v \<Longrightarrow> newline \<notin> set (json_text env v)"
proof (induction v rule: float_free.induct)
  case (2 vs)
  then show ?case using join_one_line [of "map (json_text env) vs"] by (auto simp: list_all_iff)
next
  case (3 kvs)
  have "newline \<notin> set (join '','' (map (\<lambda>kv. json_str (fst kv) @ '':'' @ json_text env (snd kv)) kvs))"
  proof (rule join_one_line)
    fix x assume "x \<in> set (map (\<lambda>kv. json_str (fst kv) @ '':'' @ json_text env (snd kv)) kvs)"
    then obtain kv where "kv \<in> set kvs" "x = json_str (fst kv) @ '':'' @ json_text env (snd kv)" by auto
    with 3 json_str_one_line show "newline \<notin> set x" by (auto simp: list_all_iff)
  qed
  then show ?case by simp
next
  case (6 i)
  have "\<not> is_digit newline" by (simp add: is_digit_def)
  then have "newline \<notin> set (nat_str n)" for n using nat_str_digits [of n] by (auto simp: list_all_iff)
  then show ?case by (simp add: int_str_def)
qed (auto simp: json_str_one_line)

lemma stream_lines_one: "newline \<notin> set s \<Longrightarrow> stream_lines acc (s @ [newline]) = [acc @ s @ [newline]]"
  by (induction s arbitrary: acc) auto

abbreviation tiny_index :: str where
  "tiny_index \<equiv> sample_line tiny_loader tiny_record"

lemma tiny_index_line: "stream_lines [] tiny_index = [tiny_index]" "length tiny_index \<le> 16384"
proof -
  let ?t = "json_text zero_env (JObj tiny_record)"
  have line: "tiny_index = ?t @ [newline]"
    by (simp only: sample_line_def tiny_record_sorted) (simp add: tiny_loader_def sample_ml_env_def)
  then show "stream_lines [] tiny_index = [tiny_index]"
    using stream_lines_one [OF json_text_one_line [OF tiny_record_small(1)], of "[]" zero_env] by simp
  have "int (length ?t) \<le> 16000"
    using length_le_text_weight [of ?t] json_text_weight [OF tiny_record_small(1), of zero_env] tiny_record_small(2) by linarith
  with line show "length tiny_index \<le> 16384" by simp
qed

lemma tiny_reads: "read_sample tiny_loader (tiny_manifest index) (Suc 0) tiny_index = Inr tiny_record"
proof -
  have "last tiny_index = newline" "tiny_index \<noteq> []" by (simp_all add: sample_line_def)
  moreover have "canonical_json_bytes (me_py sample_ml_env) (JObj tiny_record) = Inr (json_text (me_py sample_ml_env) (sort_json (JObj tiny_record)))"
    using finite_float_free [OF tiny_record_small(1)] by (simp only: canonical_json_bytes_def if_False)
  moreover have "tiny_index = json_text (me_py sample_ml_env) (sort_json (JObj tiny_record)) @ [newline]"
    by (simp only: sample_line_def) (simp add: tiny_loader_def)
  moreover have "json_get (tiny_manifest index) ''dataset_id'' = Some (JStr ''d'')"
    "json_get (tiny_manifest index) ''dataset_revision'' = Some (JStr ''r'')"
    by (simp_all add: tiny_manifest_def json_get_def)
  moreover have "ld_env tiny_loader = sample_ml_env" "ld_loads tiny_loader raw = Some (JObj tiny_record)"
    "ld_sample_error tiny_loader v = None" for raw v by (simp_all add: tiny_loader_def)
  ultimately show ?thesis
    using tiny_index_line(2) tiny_record_valid
    by (simp add: read_sample_def schema_check_def item_at_def tiny_record_get del: json_text.simps sort_json.simps)
qed

lemma tiny_loads_sample:
  "load_sample tiny_loader (tiny_manifest index) tiny_features (Suc 0) tiny_index
      \<lparr>ls_seen_ids = {}, ls_family_splits = Map.empty, ls_records = []\<rparr>
    = Inr \<lparr>ls_seen_ids = {''s''}, ls_family_splits = [''f'' \<mapsto> ''train''], ls_records = [tiny_record]\<rparr>"
proof -
  have "take 48 tiny_features = tiny_features" by (simp add: tiny_features_def)
  with tiny_tensor show ?thesis
    by (simp add: load_sample_def tiny_reads item_at_def tiny_record_get text_of_def integer_at_def as_integer_def
          sequence_at_def as_sequence_def)
qed

lemma tiny_opens:
  "open_file sample_ml_env (tiny_directory index) (JObj [(''features'', tiny_entry ''f'' tiny_features), (''sample_index'', tiny_entry ''i'' index),
        (''split_manifest'', tiny_entry ''x'' [])]) name
    = (if name = ''features'' then Inr tiny_features
       else if name = ''sample_index'' then (if length index > 10737418240 then Inl (Invalid ''file_too_large'' ''i'') else Inr index)
       else if name = ''split_manifest'' then Inr [] else Inl MKeyError)"
  by (simp add: open_file_def indexed_def item_at_def json_get_def tiny_entry_def tiny_directory_def text_of_def zero_digest tiny_features_def)

lemma tiny_manifest_valid: "validate_dataset_manifest sample_ml_env (tiny_manifest index) = Inr ()"
proof -
  have "ensure_finite ''$'' (JObj (tiny_manifest index)) = Inr ()"
    unfolding ensure_finite_iff by (simp add: tiny_manifest_def tiny_entry_def FEATURE_ORDER_def)
  moreover have "true_divide sample_ml_env 2 2 = Inr 1" by (simp add: true_divide_def)
  moreover have "validate_counts (tiny_manifest index) = Inr [(''sample_count'', JInt 1),
        (''split_counts'', JObj [(''train'', JInt 1), (''early_stop'', JInt 0), (''calibration'', JInt 0), (''blind_test'', JInt 0)]),
        (''ground_truth'', JObj [(''eligible_packets'', JInt 2), (''labeled_eligible_packets'', JInt 2), (''coverage'', JInt 1)])]"
    by (simp add: validate_counts_def tiny_manifest_def tiny_entry_def mapping_at_def integer_at_def item_at_def json_get_def
          as_mapping_def as_integer_def tiny_features_def)
  ultimately show ?thesis
    by (simp add: validate_dataset_manifest_def tiny_manifest_def mapping_at_def sequence_at_def integer_at_def number_at_def
          item_at_def json_get_def as_mapping_def as_sequence_def as_integer_def small_number isclose_def enumerate_from_def)
qed

lemma tiny_loads: "is_ok (load_dataset tiny_loader (tiny_directory tiny_index) (tiny_manifest tiny_index))"
proof -
  have "length (feature_rows tiny_features) = 1"
    using feature_rows_tensors [of "[map JInt [2, 108, 1, 2, 108, 1]]" "[tiny_features]"] tiny_tensor
    by (simp add: map_eq_Cons_conv)
  moreover have "json_get (tiny_manifest tiny_index) ''files'' = Some (JObj [(''features'', tiny_entry ''f'' tiny_features),
      (''sample_index'', tiny_entry ''i'' tiny_index), (''split_manifest'', tiny_entry ''x'' [])])"
    by (simp add: tiny_manifest_def json_get_def)
  moreover have "length tiny_features mod 48 = 0" by (simp add: tiny_features_def)
  moreover have "ld_env tiny_loader = sample_ml_env" "ld_manifest_error tiny_loader m = None" for m by (simp_all add: tiny_loader_def)
  moreover have binary: "json_get [(''attack_share'', JInt 0), (''binary_label'', JInt 0), (''coverage'', JInt 1),
     (''eligible_packets'', JInt 2), (''labeled_eligible_packets'', JInt 2), (''purity'', JStr ''fit_benign''),
     (''supported_attack_packets'', JInt 0)] ''binary_label'' = Some (JInt 0)" by (simp add: json_get_def)
  ultimately show ?thesis
    using tiny_index_line
    by (simp add: load_dataset_def schema_check_def tiny_manifest_valid item_at_def tiny_opens tiny_loads_sample record_text_def
          tiny_record_get text_of_def indexed_def binary small_number not_less)
qed



end
