(* ===== verification/Ml_Files.thy ===== *)
theory Ml_Files
  imports Ml_Contracts Security Atomic_File
begin

text \<open>
  The file helpers of the training pipeline (second half of \<open>canonical.py\<close>): bounded reading of ordinary files,
  resolution of repository paths, and the creation of fresh files.

  Inputs are read from a \<open>tree\<close>, which has directories and symbolic links, because the helpers are about links;
  an absolute path is the list of its components. Outputs are written to a \<open>file_system\<close> of \<open>Atomic_File\<close>.
\<close>

section \<open>Paths and links\<close>

datatype node = Regular str | Directory | Symlink bool "str list" | Special

type_synonym tree = "str list \<rightharpoonup> node"

definition node_at :: "tree \<Rightarrow> str list \<Rightarrow> node option" where
  "node_at t path = (if path = [] then Some Directory else t path)"

text \<open>
  \<open>Path.resolve(strict=True)\<close>: the components one by one, a link replaced by its target. A cycle of links, which the
  library reports as an error, is the value \<open>None\<close>.
\<close>

partial_function (option) real_path :: "tree \<Rightarrow> str list \<Rightarrow> str list \<Rightarrow> (ml_error + str list) option" where
  "real_path t base rest =
     (case rest of
        [] \<Rightarrow> Some (Inr base)
      | c # cs \<Rightarrow>
          if c = ''..'' then real_path t (butlast base) cs
          else if node_at t base \<noteq> Some Directory then Some (Inl MOSError)
          else (case node_at t (base @ [c]) of
                 None \<Rightarrow> Some (Inl MFileNotFoundError)
               | Some (Symlink absolute target) \<Rightarrow> real_path t (if absolute then [] else base) (target @ cs)
               | Some _ \<Rightarrow> real_path t (base @ [c]) cs))"

definition resolve :: "tree \<Rightarrow> str list \<Rightarrow> ml_error + str list" where
  "resolve t path = (case real_path t [] path of None \<Rightarrow> Inl MOSError | Some r \<Rightarrow> r)"

text \<open>\<open>Path.lstat\<close>: the links on the way are followed, the last component is not.\<close>

definition lstat :: "tree \<Rightarrow> str list \<Rightarrow> ml_error + node" where
  "lstat t path =
     (if path = [] \<or> last path = ''..'' then rbind (resolve t path) (\<lambda>_. Inr Directory)
      else rbind (resolve t (butlast path)) (\<lambda>parent.
        if node_at t parent \<noteq> Some Directory then Inl MOSError
        else case node_at t (parent @ [last path]) of None \<Rightarrow> Inl MFileNotFoundError | Some n \<Rightarrow> Inr n))"

definition path_str :: "str list \<Rightarrow> str" where
  "path_str path = ''/'' @ join ''/'' path"

section \<open>Reading\<close>

text \<open>\<open>ensure_ordinary_file\<close>; the result is the content, which the callers go on to read.\<close>

definition ensure_ordinary_file :: "tree \<Rightarrow> str list \<Rightarrow> nat \<Rightarrow> ml_error + str" where
  "ensure_ordinary_file t path maximum_bytes =
     (case lstat t path of
        Inl MFileNotFoundError \<Rightarrow> Inl (Invalid ''file_missing'' (path_str path))
      | Inl e \<Rightarrow> Inl e
      | Inr (Regular raw) \<Rightarrow>
          if length raw > maximum_bytes
          then Inl (Invalid ''file_too_large'' (path_str path @ '': '' @ nat_str (length raw) @ ''>'' @ nat_str maximum_bytes))
          else Inr raw
      | Inr _ \<Rightarrow> Inl (Invalid ''file_not_ordinary'' (path_str path)))"

text \<open>The digest is fed in blocks of a mebibyte.\<close>

definition sha256_file :: "ml_env \<Rightarrow> tree \<Rightarrow> str list \<Rightarrow> ml_error + str" where
  "sha256_file env t path =
     rbind (ensure_ordinary_file t path (10 * 1024 * 1024 * 1024)) (\<lambda>raw.
     Inr (''sha256:'' @ hexdigest (me_py env) (concat (chunks_of (1024 * 1024) raw))))"

text \<open>\<open>loads\<close> is \<open>json.loads\<close> of the decoded text, with the message of the error it raises.\<close>

definition load_json :: "(str \<Rightarrow> str + json) \<Rightarrow> tree \<Rightarrow> str list \<Rightarrow> nat \<Rightarrow> ml_error + json" where
  "load_json loads t path maximum_bytes =
     rbind (ensure_ordinary_file t path maximum_bytes) (\<lambda>raw.
     case loads raw of
       Inl message \<Rightarrow> Inl (Invalid ''invalid_json'' (path_str path @ '': '' @ message))
     | Inr v \<Rightarrow> Inr v)"

definition starts_at :: "str list \<Rightarrow> str list \<Rightarrow> bool" where
  "starts_at anchor path \<longleftrightarrow> take (length anchor) path = anchor"

text \<open>\<open>Path(relative).parts\<close> has neither empty components nor single dots.\<close>

definition resolve_repo_file :: "tree \<Rightarrow> str list \<Rightarrow> str \<Rightarrow> nat \<Rightarrow> ml_error + str list" where
  "resolve_repo_file t repo relative maximum_bytes =
     (if relative = [] \<or> starts_with ''/'' relative \<or> CHR 0x00 \<in> set relative
      then Inl (Invalid ''invalid_relative_path'' relative)
      else let parts = path_parts relative; candidate = repo @ parts in
           if list_ex (\<lambda>part. part \<in> set [[], ''.'', ''..'']) parts then Inl (Invalid ''invalid_relative_path'' relative)
           else rbind (resolve t repo) (\<lambda>resolved_repo.
             rbind (resolve t (butlast candidate)) (\<lambda>parent.
             if \<not> starts_at resolved_repo parent then Inl (Invalid ''path_escape'' relative)
             else rbind (ensure_ordinary_file t candidate maximum_bytes) (\<lambda>_. Inr candidate))))"

section \<open>Writing\<close>

text \<open>\<open>json.dumps(value, sort_keys=True, indent=2)\<close> of a sorted value, at a level of indentation.\<close>

definition line_at :: "nat \<Rightarrow> str" where
  "line_at level = CHR 0x0A # replicate (2 * level) CHR '' ''"

fun json_indent :: "pyenv \<Rightarrow> nat \<Rightarrow> json \<Rightarrow> str" where
  "json_indent env level (JArr vs) =
     (if vs = [] then ''[]''
      else ''['' @ line_at (Suc level) @ join ('','' @ line_at (Suc level)) (map (json_indent env (Suc level)) vs) @ line_at level @ '']'')"
| "json_indent env level (JObj kvs) =
     (if kvs = [] then ''{}''
      else ''{'' @ line_at (Suc level)
        @ join ('','' @ line_at (Suc level)) (map (\<lambda>kv. json_str (fst kv) @ '': '' @ json_indent env (Suc level) (snd kv)) kvs)
        @ line_at level @ ''}'')"
| "json_indent env level v = json_text env v"

definition pretty_json :: "pyenv \<Rightarrow> json \<Rightarrow> ml_error + str" where
  "pretty_json env v =
     (if has_nonfinite v then Inl MValueError else Inr (json_indent env 0 (sort_json v) @ [CHR 0x0A]))"

text \<open>The name of the temporary file: a hidden file beside the target.\<close>

definition with_name :: "str \<Rightarrow> (str \<Rightarrow> str) \<Rightarrow> str" where
  "with_name path f = (let parts = split_slash path in join ''/'' (butlast parts @ [f (last parts)]))"

definition fresh_temporary :: "int \<Rightarrow> str \<Rightarrow> str" where
  "fresh_temporary pid path = with_name path (\<lambda>name. ''.'' @ name @ ''.'' @ int_str pid @ ''.tmp'')"

text \<open>
  What the system answers: whether the directory can be made and the file opened, how many bytes each \<open>os.write\<close>
  takes (\<open>None\<close> when it raises; all that is left when the list has run out), and whether the sync and the rename succeed.
\<close>

record write_answers =
  wa_pid :: int
  wa_mkdir :: bool
  wa_open :: bool
  wa_writes :: "nat option list"
  wa_sync :: bool
  wa_replace :: bool

text \<open>The loop over the memory view: the contents of the file after each call.\<close>

fun write_all :: "str \<Rightarrow> nat option list \<Rightarrow> str \<Rightarrow> str \<Rightarrow> (ml_error + unit) \<times> str list" where
  "write_all path replies written view =
     (if view = [] then (Inr (), [written])
      else case replies of
        [] \<Rightarrow> (Inr (), [written, written @ view])
      | None # _ \<Rightarrow> (Inl MOSError, [written])
      | Some n # later \<Rightarrow>
          if n = 0 then (Inl (Invalid ''short_write'' path), [written])
          else let k = min n (length view) in
               case write_all path later (written @ take k view) (drop k view) of (r, contents) \<Rightarrow> (r, written # contents))"

declare write_all.simps [simp del]

text \<open>The part that both writers share; \<open>fill\<close> gives the result and the successive contents of the temporary file.\<close>

definition write_fresh :: "write_answers \<Rightarrow> str \<Rightarrow> (ml_error + unit) \<times> str list \<Rightarrow> ml_error file_call" where
  "write_fresh w path fill fs =
     (let temporary = fresh_temporary (wa_pid w) path; undone = fs(temporary := None);
          moments = (\<lambda>contents. map (\<lambda>content. fs(temporary \<mapsto> content)) contents) in
      if fs path \<noteq> None then (Inl (Invalid ''output_exists'' path), [fs])
      else if \<not> wa_mkdir w then (Inl MOSError, [fs])
      else if fs temporary \<noteq> None then (Inl (Invalid ''temporary_output_exists'' temporary), [fs])
      else if \<not> wa_open w then (Inl MOSError, [fs])
      else case fill of
        (Inl e, contents) \<Rightarrow> (Inl e, fs # moments contents @ [undone])
      | (Inr _, contents) \<Rightarrow>
          if \<not> wa_sync w \<or> \<not> wa_replace w then (Inl MOSError, fs # moments contents @ [undone])
          else (Inr (), fs # moments contents @ [fs(temporary := None, path \<mapsto> last contents)]))"

definition write_fresh_bytes :: "write_answers \<Rightarrow> str \<Rightarrow> str \<Rightarrow> ml_error file_call" where
  "write_fresh_bytes w path payload = write_fresh w path (write_all path (wa_writes w) [] payload)"

text \<open>A text stream writes all or raises; it goes through any prefix.\<close>

definition stream_write :: "write_answers \<Rightarrow> str \<Rightarrow> (ml_error + unit) \<times> str list" where
  "stream_write w payload =
     (case wa_writes w of
        None # _ \<Rightarrow> (Inl MOSError, [[]])
      | Some n # None # _ \<Rightarrow> (Inl MOSError, map (\<lambda>k. take k payload) [0..<Suc (min n (length payload))])
      | _ \<Rightarrow> (Inr (), map (\<lambda>k. take k payload) [0..<Suc (length payload)]))"

definition write_fresh_text :: "write_answers \<Rightarrow> str \<Rightarrow> str \<Rightarrow> ml_error file_call" where
  "write_fresh_text w path payload = write_fresh w path (stream_write w payload)"

text \<open>The checks come before the encoding, which can refuse a number.\<close>

definition write_fresh_json :: "pyenv \<Rightarrow> write_answers \<Rightarrow> str \<Rightarrow> json \<Rightarrow> ml_error file_call" where
  "write_fresh_json env w path v fs =
     (let temporary = fresh_temporary (wa_pid w) path in
      if fs path \<noteq> None then (Inl (Invalid ''output_exists'' path), [fs])
      else if \<not> wa_mkdir w then (Inl MOSError, [fs])
      else if fs temporary \<noteq> None then (Inl (Invalid ''temporary_output_exists'' temporary), [fs])
      else case pretty_json env v of
        Inl e \<Rightarrow> (Inl e, [fs])
      | Inr payload \<Rightarrow> write_fresh_text w path payload fs)"

definition create_fresh_directory :: "bool \<Rightarrow> tree \<Rightarrow> str list \<Rightarrow> ml_error + str list" where
  "create_fresh_directory made t path =
     (if is_ok (lstat t path) then Inl (Invalid ''output_directory_exists'' (path_str path))
      else if \<not> made then Inl MOSError else Inr path)"

section \<open>Reading stays inside the repository\<close>

lemma sha256_file_eq:
  "sha256_file env t path = rbind (ensure_ordinary_file t path (10 * 1024 * 1024 * 1024)) (\<lambda>raw. Inr (sha256_bytes env raw))"
  by (simp add: sha256_file_def sha256_bytes_def concat_chunks_of)

lemma real_path_simps:
  "real_path t base [] = Some (Inr base)"
  "real_path t base (c # cs) =
     (if c = ''..'' then real_path t (butlast base) cs
      else if node_at t base \<noteq> Some Directory then Some (Inl MOSError)
      else (case node_at t (base @ [c]) of
             None \<Rightarrow> Some (Inl MFileNotFoundError)
           | Some (Symlink absolute target) \<Rightarrow> real_path t (if absolute then [] else base) (target @ cs)
           | Some _ \<Rightarrow> real_path t (base @ [c]) cs))"
  by (subst real_path.simps; simp)+

lemma real_path_append:
  assumes "real_path t base xs = Some (Inr base')"
  shows "real_path t base (xs @ ys) = real_path t base' ys"
proof -
  have "\<forall>base'. r = Inr base' \<longrightarrow> real_path t base (xs @ ys) = real_path t base' ys" if "real_path t base xs = Some r" for r
  proof (rule real_path.raw_induct [where P = "\<lambda>t base xs r. \<forall>base'. r = Inr base' \<longrightarrow> real_path t base (xs @ ys) = real_path t base' ys", OF _ that])
    fix rec t base rest r
    assume IH: "\<And>t base rest r. rec t base rest = Some r \<Longrightarrow> \<forall>base'. r = Inr base' \<longrightarrow> real_path t base (rest @ ys) = real_path t base' ys"
      and step: "(case rest of [] \<Rightarrow> Some (Inr base)
        | c # cs \<Rightarrow> if c = ''..'' then rec t (butlast base) cs
            else if node_at t base \<noteq> Some Directory then Some (Inl MOSError)
            else (case node_at t (base @ [c]) of None \<Rightarrow> Some (Inl MFileNotFoundError)
              | Some (Symlink absolute target) \<Rightarrow> rec t (if absolute then [] else base) (target @ cs)
              | Some _ \<Rightarrow> rec t (base @ [c]) cs)) = Some r"
    show "\<forall>base'. r = Inr base' \<longrightarrow> real_path t base (rest @ ys) = real_path t base' ys"
    proof (cases rest)
      case (Cons c cs)
      with IH step show ?thesis
        by (subst real_path.simps) (fastforce split: if_splits option.splits node.splits)
    qed (use step in auto)
  qed
  with assms show ?thesis by blast
qed

lemma resolve_append:
  assumes "resolve t xs = Inr base"
  shows "resolve t (xs @ ys) = (case real_path t base ys of None \<Rightarrow> Inl MOSError | Some r \<Rightarrow> r)"
proof -
  have "real_path t [] xs = Some (Inr base)" using assms by (auto simp: resolve_def split: option.splits)
  from real_path_append [OF this] show ?thesis by (simp add: resolve_def)
qed

lemma ordinary_file:
  assumes "ensure_ordinary_file t path maximum_bytes = Inr raw"
  obtains parent name where "path \<noteq> []" "name = last path" "name \<noteq> ''..''" "resolve t (butlast path) = Inr parent"
    "node_at t parent = Some Directory" "node_at t (parent @ [name]) = Some (Regular raw)" "length raw \<le> maximum_bytes"
  using assms
  by (auto simp: ensure_ordinary_file_def lstat_def rbind_eq_Inr rbind_eq_Inl
      split: sum.splits ml_error.splits node.splits if_splits option.splits)

lemma resolve_repo_file_Inr:
  assumes "resolve_repo_file t repo relative maximum_bytes = Inr candidate"
  obtains anchor parent raw where "resolve t repo = Inr anchor" "resolve t (butlast candidate) = Inr parent" "starts_at anchor parent"
    "ensure_ordinary_file t candidate maximum_bytes = Inr raw" "candidate = repo @ path_parts relative" "''..'' \<notin> set (path_parts relative)"
    "\<not> starts_with ''/'' relative"
proof -
  let ?parts = "path_parts relative"
  have guards: "\<not> starts_with ''/'' relative" "\<not> list_ex (\<lambda>part. part \<in> set [[], ''.'', ''..'']) ?parts"
    and "rbind (resolve t repo) (\<lambda>resolved_repo. rbind (resolve t (butlast (repo @ ?parts))) (\<lambda>parent.
       if \<not> starts_at resolved_repo parent then Inl (Invalid ''path_escape'' relative)
       else rbind (ensure_ordinary_file t (repo @ ?parts) maximum_bytes) (\<lambda>_. Inr (repo @ ?parts)))) = Inr candidate"
    using assms unfolding resolve_repo_file_def Let_def by (meson sum.distinct)+
  then obtain anchor parent raw where "resolve t repo = Inr anchor" "resolve t (butlast (repo @ ?parts)) = Inr parent"
    "starts_at anchor parent" "ensure_ordinary_file t (repo @ ?parts) maximum_bytes = Inr raw" "candidate = repo @ ?parts"
    by (simp only: rbind_eq_Inr split: if_splits) blast
  moreover have "''..'' \<notin> set ?parts" using guards(2) by (auto simp: list_ex_iff)
  ultimately show ?thesis using that guards(1) by blast
qed

text \<open>
  A resolved repository path stays inside the repository. When a relative path resolves, the file that is
  then read through it is a regular file within the size bound, its directory lies below the real directory of the
  repository whatever links there are on the way, and the path names it without a link in the last component and
  without any parent component.
\<close>

theorem repo_file_inside:
  assumes "resolve_repo_file t repo relative maximum_bytes = Inr candidate"
  shows "\<exists>anchor parent name raw. resolve t repo = Inr anchor \<and> resolve t candidate = Inr (parent @ [name])
    \<and> take (length anchor) parent = anchor \<and> node_at t (parent @ [name]) = Some (Regular raw) \<and> length raw \<le> maximum_bytes
    \<and> ensure_ordinary_file t candidate maximum_bytes = Inr raw
    \<and> candidate = repo @ path_parts relative \<and> ''..'' \<notin> set (path_parts relative) \<and> \<not> starts_with ''/'' relative"
proof -
  obtain anchor parent raw where r: "resolve t repo = Inr anchor" "resolve t (butlast candidate) = Inr parent" "starts_at anchor parent"
    "ensure_ordinary_file t candidate maximum_bytes = Inr raw" "candidate = repo @ path_parts relative" "''..'' \<notin> set (path_parts relative)"
    "\<not> starts_with ''/'' relative"
    by (rule resolve_repo_file_Inr [OF assms])
  from r(4) obtain name where o: "candidate \<noteq> []" "name = last candidate" "name \<noteq> ''..''"
    "node_at t parent = Some Directory" "node_at t (parent @ [name]) = Some (Regular raw)" "length raw \<le> maximum_bytes"
    using r(2) by (elim ordinary_file) auto
  have "resolve t (butlast candidate @ [name]) = Inr (parent @ [name])"
    using o(3-5) by (simp add: resolve_append [OF r(2)] real_path_simps)
  then have "resolve t candidate = Inr (parent @ [name])" using o(1,2) by simp
  then show ?thesis using r o unfolding starts_at_def by blast
qed

text \<open>A repository at \<open>/repo\<close>, reached through a link \<open>/link\<close>, with a link that leaves it.\<close>

definition sample_tree :: tree where
  "sample_tree = [[''repo''] \<mapsto> Directory, [''link''] \<mapsto> Symlink True [''repo''], [''repo'', ''a''] \<mapsto> Directory,
     [''repo'', ''a'', ''f''] \<mapsto> Regular ''x'', [''etc''] \<mapsto> Directory, [''etc'', ''f''] \<mapsto> Regular ''y'',
     [''repo'', ''out''] \<mapsto> Symlink False [''..'', ''etc'']]"

lemma sample_tree_paths:
  "resolve_repo_file sample_tree [''link''] ''a/f'' 10 = Inr [''link'', ''a'', ''f'']"
  "resolve_repo_file sample_tree [''link''] ''out/f'' 10 = Inl (Invalid ''path_escape'' ''out/f'')"
  by (simp_all add: resolve_repo_file_def path_parts_def Let_def resolve_def real_path_simps node_at_def sample_tree_def starts_at_def
      ensure_ordinary_file_def lstat_def)

theorem repo_file_inside_witness:
  "\<exists>anchor parent name raw. resolve sample_tree [''link''] = Inr anchor \<and> resolve sample_tree [''link'', ''a'', ''f''] = Inr (parent @ [name])
    \<and> take (length anchor) parent = anchor \<and> node_at sample_tree (parent @ [name]) = Some (Regular raw)"
  using repo_file_inside [OF sample_tree_paths(1)] by blast

text \<open>A path whose directories are all there is its own real path.\<close>

definition plain_file :: "tree \<Rightarrow> str list \<Rightarrow> str \<Rightarrow> bool" where
  "plain_file t path raw \<longleftrightarrow> path \<noteq> [] \<and> list_all (\<lambda>c. c \<noteq> ''..'') path
     \<and> list_all (\<lambda>k. node_at t (take k path) = Some Directory) [0..<length path] \<and> node_at t path = Some (Regular raw)"

lemma real_path_plain:
  assumes "''..'' \<notin> set rest" "\<And>k. k \<le> length rest \<Longrightarrow> node_at t (base @ take k rest) = Some Directory"
  shows "real_path t base rest = Some (Inr (base @ rest))"
  using assms
proof (induction rest arbitrary: base)
  case (Cons c rest)
  have "node_at t base = Some Directory" "node_at t (base @ [c]) = Some Directory" using Cons.prems(2) [of 0] Cons.prems(2) [of 1] by simp_all
  moreover have "real_path t (base @ [c]) rest = Some (Inr ((base @ [c]) @ rest))"
    by (rule Cons.IH) (use Cons.prems(1) Cons.prems(2) [of "Suc k" for k] in auto)
  ultimately show ?case using Cons.prems(1) by (auto simp: real_path_simps)
qed (simp add: real_path_simps)

lemma plain_file_read:
  assumes "plain_file t path raw"
  shows "length raw \<le> maximum_bytes \<Longrightarrow> ensure_ordinary_file t path maximum_bytes = Inr raw"
    "resolve t (butlast path) = Inr (butlast path)" "resolve t path = Inr path"
proof -
  have "real_path t [] (butlast path) = Some (Inr ([] @ butlast path))"
  proof (rule real_path_plain)
    show "''..'' \<notin> set (butlast path)" using assms by (auto simp: plain_file_def list_all_iff dest: in_set_butlastD)
    fix k assume "k \<le> length (butlast path)"
    then have "k < length path" "take k (butlast path) = take k path"
      using assms by (auto simp: plain_file_def butlast_conv_take less_Suc_eq_le simp flip: length_greater_0_conv)
    then show "node_at t ([] @ take k (butlast path)) = Some Directory" using assms by (simp add: plain_file_def list_all_iff)
  qed
  then show parent: "resolve t (butlast path) = Inr (butlast path)" by (simp add: resolve_def)
  have dir: "node_at t (butlast path) = Some Directory" "last path \<noteq> ''..''" "path \<noteq> []"
    using assms by (auto simp: plain_file_def list_all_iff butlast_conv_take)
  with parent assms show "ensure_ordinary_file t path maximum_bytes = Inr raw" if "length raw \<le> maximum_bytes"
    using that by (simp add: ensure_ordinary_file_def lstat_def plain_file_def)
  have "resolve t (butlast path @ [last path]) = Inr path"
    using dir assms unfolding resolve_append [OF parent] by (simp add: real_path_simps plain_file_def)
  then show "resolve t path = Inr path" using dir(3) by simp
qed

section \<open>Fresh files are written atomically\<close>

lemma join_split_slash: "join ''/'' (split_slash s) = s"
proof (induction s)
  case (Cons c s)
  show ?case
  proof (cases "split_slash s")
    case (Cons p ps)
    with Cons.IH show ?thesis by (cases ps) auto
  qed (use Cons.IH in \<open>cases s; simp split: list.splits\<close>)
qed simp

lemma split_slash_nonempty: "split_slash s \<noteq> []"
  by (induction s) (auto split: list.splits)

lemma join_last: "\<exists>p. \<forall>y. join sep (xs @ [y]) = p @ y"
proof (induction xs)
  case (Cons x xs)
  then obtain p where "\<forall>y. join sep (xs @ [y]) = p @ y" by blast
  then have "\<forall>y. join sep ((x # xs) @ [y]) = (x @ sep @ p) @ y" by (cases xs) auto
  then show ?case by blast
qed auto

lemma with_name_last: "\<exists>p name. path = p @ name \<and> (\<forall>f. with_name path f = p @ f name)"
proof -
  obtain p where p: "\<forall>y. join ''/'' (butlast (split_slash path) @ [y]) = p @ y" using join_last by blast
  have "path = p @ last (split_slash path)"
    using p join_split_slash [of path] split_slash_nonempty [of path] by (metis append_butlast_last_id)
  with p show ?thesis by (auto simp: with_name_def Let_def)
qed

lemma fresh_temporary_other [simp]: "fresh_temporary pid path \<noteq> path" "path \<noteq> fresh_temporary pid path"
proof -
  obtain p name where "path = p @ name" "fresh_temporary pid path = p @ ''.'' @ name @ ''.'' @ int_str pid @ ''.tmp''"
    using with_name_last [of path] unfolding fresh_temporary_def by metis
  then have "length (fresh_temporary pid path) \<noteq> length path" by simp
  then show "fresh_temporary pid path \<noteq> path" "path \<noteq> fresh_temporary pid path" by metis+
qed

lemma write_all_full:
  "write_all path replies written view = (Inr u, contents) \<Longrightarrow> contents \<noteq> [] \<and> last contents = written @ view"
proof (induction path replies written view arbitrary: contents rule: write_all.induct)
  case (1 path replies written view)
  show ?case
  proof (cases "view = []")
    case False
    show ?thesis
    proof (cases replies)
      case (Cons reply later)
      with 1 False show ?thesis
        by (subst (asm) write_all.simps) (auto simp: Let_def split: option.splits if_splits prod.splits)
    qed (use 1(2) False in \<open>subst (asm) write_all.simps, auto\<close>)
  qed (use 1(2) in \<open>subst (asm) write_all.simps, auto\<close>)
qed

lemma stream_write_full:
  "stream_write w payload = (Inr u, contents) \<Longrightarrow> contents \<noteq> [] \<and> last contents = payload"
  by (auto simp: stream_write_def split: list.splits option.splits)

lemma write_fresh_states:
  assumes "write_fresh w path fill fs = (r, states)" and "s \<in> set states"
  shows "s path = fs path \<or> (\<exists>u contents. fill = (Inr u, contents) \<and> s path = Some (last contents))"
    and "q \<noteq> path \<Longrightarrow> q \<noteq> fresh_temporary (wa_pid w) path \<Longrightarrow> s q = fs q"
  using assms by (auto simp: write_fresh_def Let_def split: if_splits prod.splits sum.splits)

lemma write_fresh_last:
  assumes "write_fresh w path fill fs = (r, states)"
  shows "states \<noteq> [] \<and> hd states = fs
    \<and> (case r of Inl _ \<Rightarrow> last states = fs
       | Inr _ \<Rightarrow> fs path = None \<and> (\<exists>u contents. fill = (Inr u, contents) \<and> last states = fs(path \<mapsto> last contents)))"
proof (cases "fs (fresh_temporary (wa_pid w) path) = None")
  case True
  then have "fs(fresh_temporary (wa_pid w) path := None) = fs" by (auto simp: fun_eq_iff)
  with assms show ?thesis by (auto simp: write_fresh_def Let_def split: if_splits prod.splits sum.splits)
qed (use assms in \<open>auto simp: write_fresh_def Let_def split: if_splits\<close>)

text \<open>Any writer whose filler ends with the payload keeps the contract of \<open>Atomic_File\<close>.\<close>

lemma write_fresh_atomic:
  assumes "\<And>w path raw u contents. fill w path raw = (Inr u, contents) \<Longrightarrow> last contents = raw"
  shows "atomic_writer (\<lambda>w path raw. write_fresh w path (fill w path raw)) (\<lambda>w. fresh_temporary (wa_pid w))"
proof
  fix w path raw fs r states
  assume run: "write_fresh w path (fill w path raw) fs = (r, states)"
  show "states \<noteq> [] \<and> hd states = fs" using write_fresh_last [OF run] by simp
  fix s assume s: "s \<in> set states"
  show "s path = fs path \<or> s path = Some raw" using write_fresh_states(1) [OF run s] assms by blast
  fix q assume "q \<noteq> path" "q \<noteq> fresh_temporary (wa_pid w) path"
  then show "s q = fs q" by (rule write_fresh_states(2) [OF run s])
next
  fix w path raw fs u states
  assume "write_fresh w path (fill w path raw) fs = (Inr u, states)"
  from write_fresh_last [OF this] assms show "last states = fs(path \<mapsto> raw)" by fastforce
next
  fix w path raw fs e states
  assume "write_fresh w path (fill w path raw) fs = (Inl e, states)"
  from write_fresh_last [OF this] show "last states = fs" by simp
qed

lemma write_fresh_keeps: "keeps_files (write_fresh w path fill)"
  unfolding keeps_files_def
proof (intro allI impI)
  fix fs r states assume run: "write_fresh w path fill fs = (r, states)"
  have "states \<noteq> []" using write_fresh_last [OF run] by simp
  moreover have "fs \<subseteq>\<^sub>m s" if "s \<in> set states" for s
    using run that
    by (auto simp: write_fresh_def Let_def map_le_def split: if_splits prod.splits sum.splits)
  ultimately show "states \<noteq> [] \<and> (\<forall>s \<in> set states. fs \<subseteq>\<^sub>m s)" by blast
qed

lemma fresh_writer_write_fresh:
  assumes "\<And>w path raw u contents. fill w path raw = (Inr u, contents) \<Longrightarrow> last contents = raw"
  shows "fresh_writer (\<lambda>w path raw. write_fresh w path (fill w path raw)) (\<lambda>w. fresh_temporary (wa_pid w))"
  using write_fresh_atomic [OF assms] write_fresh_keeps by (simp add: fresh_writer_def fresh_writer_axioms_def)

interpretation byte_files: fresh_writer write_fresh_bytes "\<lambda>w. fresh_temporary (wa_pid w)"
  unfolding write_fresh_bytes_def using write_all_full by (intro fresh_writer_write_fresh) fastforce

interpretation text_files: fresh_writer write_fresh_text "\<lambda>w. fresh_temporary (wa_pid w)"
  unfolding write_fresh_text_def using stream_write_full by (intro fresh_writer_write_fresh) fastforce

lemma write_fresh_json_eq:
  assumes "pretty_json env v = Inr payload"
  shows "write_fresh_json env w path v = write_fresh_text w path payload"
  using assms by (auto simp: fun_eq_iff write_fresh_json_def write_fresh_text_def write_fresh_def Let_def)

lemma write_fresh_json_keeps: "keeps_files (write_fresh_json env w path v)"
proof (cases "pretty_json env v")
  case (Inl e)
  then show ?thesis by (auto simp: keeps_files_def write_fresh_json_def Let_def split: if_splits)
qed (simp add: write_fresh_json_eq text_files.keeps)

lemma write_fresh_json_stored:
  assumes "write_fresh_json env w path v fs = (Inr u, states)"
  shows "\<exists>payload. pretty_json env v = Inr payload \<and> last states = fs(path \<mapsto> payload)"
proof (cases "pretty_json env v")
  case (Inl e)
  with assms show ?thesis by (auto simp: write_fresh_json_def Let_def split: if_splits)
next
  case (Inr payload)
  with assms show ?thesis using text_files.finish by (auto simp: write_fresh_json_eq)
qed

section \<open>Names of temporary files\<close>

lemma split_slash_join:
  assumes "parts \<noteq> []" and "list_all (\<lambda>p. CHR ''/'' \<notin> set p) parts"
  shows "split_slash (join ''/'' parts) = parts"
proof -
  have plain: "split_slash (p @ CHR ''/'' # s) = p # split_slash s" "split_slash p = [p]" if "CHR ''/'' \<notin> set p" for p s
    using that by (induction p) auto
  show ?thesis using assms
  proof (induction parts)
    case (Cons p ps)
    then show ?case by (cases ps) (simp_all add: plain)
  qed simp
qed

lemma split_slash_parts: "list_all (\<lambda>p. CHR ''/'' \<notin> set p) (split_slash s)"
proof (induction s)
  case (Cons c s)
  then show ?case by (auto split: list.splits)
qed simp

lemma int_str_no_slash: "CHR ''/'' \<notin> set (int_str i)"
proof -
  have "\<not> is_digit CHR ''/''" by code_simp
  then show ?thesis
    using nat_str_digits [of "nat i"] nat_str_digits [of "nat (- i)"] by (auto simp: int_str_def list_all_iff)
qed

text \<open>The last component of a temporary file begins with a dot.\<close>

lemma temporary_last: "\<exists>rest. last (split_slash (fresh_temporary pid path)) = CHR ''.'' # rest"
proof -
  let ?parts = "split_slash path" and ?name = "\<lambda>name. ''.'' @ name @ ''.'' @ int_str pid @ ''.tmp''"
  have parts: "list_all (\<lambda>p. CHR ''/'' \<notin> set p) (butlast ?parts @ [?name (last ?parts)])"
    using split_slash_parts [of path] split_slash_nonempty [of path] int_str_no_slash
    by (auto simp: list_all_iff dest: in_set_butlastD)
  have "split_slash (fresh_temporary pid path) = butlast ?parts @ [?name (last ?parts)]"
    unfolding fresh_temporary_def with_name_def Let_def by (rule split_slash_join [OF _ parts]) simp
  then show ?thesis by simp
qed

lemma split_slash_single: "CHR ''/'' \<notin> set s \<Longrightarrow> split_slash s = [s]"
  by (induction s) auto

lemma split_slash_several: "CHR ''/'' \<in> set s \<Longrightarrow> \<exists>p q qs. split_slash s = p # q # qs"
  by (induction s) (auto split: list.splits simp: neq_Nil_conv [symmetric] split_slash_nonempty)

lemma last_split_slash: "CHR ''/'' \<notin> set n \<Longrightarrow> last (split_slash (p @ CHR ''/'' # n)) = n"
proof (induction p)
  case (Cons x p)
  obtain q r rs where "split_slash (p @ CHR ''/'' # n) = q # r # rs"
    using split_slash_several [of "p @ CHR ''/'' # n"] by auto
  with Cons show ?case by simp
qed (simp add: split_slash_single)

lemma path_str_last: "\<exists>p. path_str (names @ [n]) = p @ CHR ''/'' # n"
  unfolding path_str_def
proof (induction names)
  case (Cons x xs)
  then obtain p where "''/'' @ join ''/'' (xs @ [n]) = p @ CHR ''/'' # n" by blast
  moreover have "join ''/'' ((x # xs) @ [n]) = x @ ''/'' @ join ''/'' (xs @ [n])" by (cases xs) auto
  ultimately show ?case by (metis append.assoc)
qed auto

lemma not_temporary:
  assumes "CHR ''/'' \<notin> set (c # name)" and "c \<noteq> CHR ''.''"
  shows "path_str (names @ [c # name]) \<noteq> fresh_temporary pid path"
proof
  assume "path_str (names @ [c # name]) = fresh_temporary pid path"
  moreover obtain p where "path_str (names @ [c # name]) = p @ CHR ''/'' # (c # name)" using path_str_last by blast
  moreover note last_split_slash [OF assms(1), of p] temporary_last [of pid path]
  ultimately show False using assms(2) by auto
qed

end
