(* ===== verification/Ml_Generate.thy ===== *)
theory Ml_Generate
  imports Ml_Load Ml_Files
begin

text \<open>
  Generation of the module dataset (\<open>generate_module_dataset\<close> and its helpers in \<open>dataset.py\<close>): the reference
  golden, the three data files, the manifest, and the order in which the files appear on disk.

  The repository and the output directory are places in one \<open>tree\<close>; the files of the output are written to a
  \<open>file_system\<close>, where their names are the printed paths. \<open>json.loads\<close> and \<open>int\<close> of a string are parameters.
\<close>

section \<open>Inputs\<close>

record generator =
  gx_env :: ml_env
  gx_loads :: "str \<Rightarrow> str + json"
  gx_int_text :: "str \<Rightarrow> int option"
  gx_tree :: tree
  gx_repo :: "str list"

definition repo_digest :: "generator \<Rightarrow> str list \<Rightarrow> ml_error + str" where
  "repo_digest g path = sha256_file (gx_env g) (gx_tree g) (gx_repo g @ path)"

text \<open>Iteration over a value that should be a list of objects.\<close>

definition iterated :: "json \<Rightarrow> ml_error + json list" where
  "iterated v =
     (case v of
        JArr vs \<Rightarrow> Inr vs
      | JObj kvs \<Rightarrow> Inr (map (\<lambda>kv. JStr (fst kv)) kvs)
      | JStr s \<Rightarrow> Inr (map (\<lambda>c. JStr [c]) s)
      | _ \<Rightarrow> Inl MTypeError)"

definition max_of :: "int list \<Rightarrow> ml_error + int" where
  "max_of xs = (if xs = [] then Inl MValueError else Inr (foldl max (hd xs) (tl xs)))"

definition int_at :: "generator \<Rightarrow> str \<Rightarrow> json \<Rightarrow> ml_error + int" where
  "int_at g key v = rbind (indexed v key) (to_int (gx_int_text g))"

definition tuple_text :: "int list \<Rightarrow> str" where
  "tuple_text xs = ''('' @ join '', '' (map int_str xs) @ '')''"

definition hex_text :: "str \<Rightarrow> str" where
  "hex_text raw = concat (map (\<lambda>c. [hex_char (of_char c div 16), hex_char (of_char c mod 16)]) raw)"

definition GOLDEN :: "int list" where "GOLDEN = [2, 108, 1, 2, 108, 1]"

definition GOLDEN_QUALITY :: json where
  "GOLDEN_QUALITY = JObj [(''status'', JStr ''valid''), (''reasons'', JArr [JStr ''NONE''])]"

text \<open>Dicts are equal when they have the same items, in whatever order.\<close>

definition verify_reference_extractor_golden :: "generator \<Rightarrow> ml_error + (str \<times> json) list" where
  "verify_reference_extractor_golden g =
     rbind (resolve_repo_file (gx_tree g) (gx_repo g) ''contracts/golden/telemetry/snapshot-v1.json'' (1024 * 1024)) (\<lambda>telemetry_path.
     rbind (load_json (gx_loads g) (gx_tree g) telemetry_path (4 * 1024 * 1024)) (\<lambda>telemetry.
     rbind (indexed telemetry ''aggregate'') (\<lambda>aggregate.
     rbind (indexed telemetry ''cells'') (\<lambda>cells.
     rbind (int_at g ''packets'' aggregate) (\<lambda>packets.
     rbind (int_at g ''bytes'' aggregate) (\<lambda>bytes.
     rbind (int_at g ''reported_nonzero_cells'' telemetry) (\<lambda>nonzero.
     rbind (iterated cells) (\<lambda>rows.
     rbind (rbind (mapM (int_at g ''packets'') rows) max_of) (\<lambda>cell_packets.
     rbind (rbind (mapM (int_at g ''bytes'') rows) max_of) (\<lambda>cell_bytes.
     let observed = [packets, bytes, nonzero, cell_packets, cell_bytes, 1] in
     rbind (raise_if (observed \<noteq> GOLDEN) (Invalid ''p4_reference_golden'' (tuple_text observed @ '' != '' @ tuple_text GOLDEN))) (\<lambda>_.
     rbind (indexed telemetry ''quality'') (\<lambda>quality_value.
     rbind (raise_if (sort_json quality_value \<noteq> sort_json GOLDEN_QUALITY)
       (Invalid ''p4_reference_quality'' (value_str (me_py (gx_env g)) quality_value))) (\<lambda>_.
     rbind (sha256_file (gx_env g) (gx_tree g) telemetry_path) (\<lambda>telemetry_digest.
     rbind (feature_tensor_bytes (map JInt GOLDEN)) (\<lambda>tensor.
     Inr [(''schema_version'', JStr ''p4-window-reference-golden-result/v1''), (''result'', JStr ''PASS''),
          (''telemetry_golden_digest'', JStr telemetry_digest), (''feature_tensor_hex'', JStr (hex_text tensor)),
          (''feature_tensor_digest'', JStr (sha256_bytes (gx_env g) tensor)), (''feature_values'', JArr (map JInt GOLDEN))])))))))))))))))"

definition tracked :: "str list list" where
  "tracked = [[''ml-py'', ''src'', ''masi_offline_ml'', ''dataset.py''], [''contracts'', ''dataset'', ''v1'', ''schema.json''],
     [''contracts'', ''dataset'', ''v1'', ''sample-schema.json''], [''contracts'', ''profiles'', ''v1'', ''dataset-p4-window-binary.json'']]"

definition source_tree_identity :: "generator \<Rightarrow> ml_error + str" where
  "source_tree_identity g =
     rbind (mapM (\<lambda>path. rbind (repo_digest g path) (\<lambda>digest. Inr (join ''/'' path, JStr digest))) tracked) (\<lambda>digest_map.
     rbind (canonical_json_bytes (me_py (gx_env g)) (JObj digest_map)) (\<lambda>raw.
     Inr (''dirty:'' @ hexdigest (me_py (gx_env g)) raw)))"

section \<open>The data files\<close>

record prepared =
  pr_reference :: "(str \<times> json) list"
  pr_families :: "(str \<times> str) list"
  pr_drafts :: "draft list"
  pr_revision :: str
  pr_source_digest :: str
  pr_records :: "(str \<times> json) list list"
  pr_features :: str
  pr_index :: str
  pr_splits :: str

definition SPLIT_ALGORITHM :: str where
  "SPLIT_ALGORITHM = ''u64be(sha256(masi-split-v1'' @ [backslash] @ ''0||source_revision||'' @ [backslash] @ ''0||capture_family_id)[0:8])/2^64''"

definition count_records :: "(json \<Rightarrow> bool) \<Rightarrow> str \<Rightarrow> (str \<times> json) list list \<Rightarrow> int" where
  "count_records P key records =
     int (length (filter (\<lambda>record. case json_get record key of Some v \<Rightarrow> P v | None \<Rightarrow> False) records))"

definition split_counts :: "(str \<times> json) list list \<Rightarrow> json" where
  "split_counts records = JObj (map (\<lambda>(name, _). (name, JInt (count_records (\<lambda>v. v = JStr name) ''split'' records))) FAMILY_QUOTAS)"

definition family_counts :: "(str \<times> str) list \<Rightarrow> json" where
  "family_counts families =
     JObj (map (\<lambda>(name, _). (name, JInt (int (length (filter (\<lambda>(_, split). split = name) families))))) FAMILY_QUOTAS)"

definition split_manifest :: "(str \<times> str) list \<Rightarrow> (str \<times> json) list list \<Rightarrow> json" where
  "split_manifest families records = JObj
     [(''schema_version'', JStr ''dataset-p4-window-split-manifest/v1''), (''source_revision'', JStr SOURCE_REVISION),
      (''algorithm'', JStr SPLIT_ALGORITHM),
      (''families'', JArr (map (\<lambda>(family, split). JObj [(''capture_family_id'', JStr family), (''split'', JStr split)]) families)),
      (''family_counts'', family_counts families), (''sample_counts'', split_counts records),
      (''cross_split_capture_families'', JInt 0)]"

definition source_identity :: "(str \<times> str) list \<Rightarrow> json \<Rightarrow> json" where
  "source_identity families golden_digest = JObj
     [(''schema_version'', JStr ''masi-synthetic-source/v1''), (''source_revision'', JStr SOURCE_REVISION),
      (''families'', JArr (map (\<lambda>(family, _). JStr family) families)),
      (''feature_generation'', JStr ''sha256-counter-derived-no-random-library-state''),
      (''p4_reference_golden_digest'', golden_digest)]"

text \<open>Everything up to the first write.\<close>

definition prepare :: "generator \<Rightarrow> ml_error + prepared" where
  "prepare g =
     (let env = gx_env g; py = me_py env in
      rbind (verify_reference_extractor_golden g) (\<lambda>reference.
      rbind (select_families env) (\<lambda>families.
      let drafts = build_drafts env families in
      rbind (mapM (\<lambda>d. feature_tensor_bytes (map JInt (dr_features d))) drafts) (\<lambda>tensors.
      let feature_payload = concat tensors in
      rbind (dataset_revision env drafts feature_payload) (\<lambda>revision.
      rbind (item_at reference ''telemetry_golden_digest'') (\<lambda>golden_digest.
      rbind (canonical_json_bytes py (source_identity families golden_digest)) (\<lambda>source_raw.
      let source_digest = sha256_bytes env source_raw in
      rbind (mapM (\<lambda>(index, d). sample_record env d revision (int index * 48) source_digest) (enumerate_from 0 drafts)) (\<lambda>records.
      rbind (mapM (\<lambda>record. rbind (canonical_json_bytes py (JObj record)) (\<lambda>raw. Inr (raw @ [CHR 0x0A]))) records) (\<lambda>lines.
      rbind (pretty_json py (split_manifest families records)) (\<lambda>split_payload.
      Inr \<lparr>pr_reference = reference, pr_families = families, pr_drafts = drafts, pr_revision = revision,
        pr_source_digest = source_digest, pr_records = records, pr_features = feature_payload, pr_index = concat lines,
        pr_splits = split_payload\<rparr>))))))))))"

section \<open>The manifest\<close>

text \<open>A rational literal as the double it is read as.\<close>

abbreviation jnum :: "ml_env \<Rightarrow> rat \<Rightarrow> json" where
  "jnum env q \<equiv> JFloat (FFin (me_round env q))"

definition manifest_status :: json where
  "manifest_status = JObj
     [(''source_selection'', JStr ''frozen''), (''dataset_revision'', JStr ''frozen''),
      (''official_source'', JStr ''not_applicable_module_fixture''), (''production_quality_scope'', JStr ''hold'')]"

definition feature_contract :: "str \<Rightarrow> json" where
  "feature_contract profile_digest = JObj
     [(''profile_id'', JStr ''edge-feature-p4-window/v1''), (''profile_digest'', JStr profile_digest), (''dtype'', JStr ''uint64-le''),
      (''shape'', JArr [JInt 1, JInt 6]), (''order'', JArr (map JStr FEATURE_ORDER)), (''record_bytes'', JInt 48),
      (''window_duration_ms'', JInt 10000), (''final_required'', JBool True), (''valid_required'', JBool True),
      (''zero_fill'', JBool False), (''graph_preprocessing'', JStr ''Cast(float32)->Log1p'')]"

definition privacy_review :: json where
  "privacy_review = JObj [(''personal_data'', JBool False), (''payload'', JBool False), (''addresses'', JStr ''documentation-only'')]"

definition source_profile :: "prepared \<Rightarrow> str \<Rightarrow> str \<Rightarrow> json" where
  "source_profile p review_digest ground_truth_digest = JObj
     [(''profile_id'', JStr SOURCE_PROFILE), (''decision'', JStr ''ADOPT''), (''role'', JStr ''fit_and_evaluate''),
      (''partition'', JStr ''project-synthetic''), (''source_revision'', JStr SOURCE_REVISION),
      (''artifact'', JObj
        [(''reference'', JStr ''repository-fixture://ml-py-module-generated-source''), (''sha256'', JStr (pr_source_digest p)),
         (''bytes'', JInt (int (length (pr_features p)))), (''ordinary_file'', JBool True), (''raw_capture_in_git_or_oci'', JBool False)]),
      (''license'', JObj
        [(''id'', JStr ''Apache-2.0''), (''citation'', JStr ''MASI-NIDS repository-generated deterministic module fixture''),
         (''use'', JStr ''allowed''), (''redistribution'', JStr ''allowed_with_attribution''), (''verified'', JBool True)]),
      (''privacy'', JObj
        [(''classification'', JStr ''synthetic_no_personal_data''), (''raw_payload_retained'', JBool False),
         (''review_digest'', JStr review_digest), (''verified'', JBool True)]),
      (''ground_truth'', JObj
        [(''method'', JStr ''project-generated-packet-truth''), (''manifest_digest'', JStr ground_truth_digest),
         (''packet_join_required'', JBool True), (''verified'', JBool True)]),
      (''ingestion_status'', JStr ''verified'')]"

definition extractor :: "str \<Rightarrow> json \<Rightarrow> json" where
  "extractor implementation_digest golden_digest = JObj
     [(''profile_id'', JStr ''p4-window-reference-extractor/v1''), (''implementation'', JStr ''qualified-reference-extractor''),
      (''implementation_digest'', JStr implementation_digest), (''p4_golden_digest'', golden_digest),
      (''p4_program_digest'', JStr ''sha256:b228cf7423f083711d9f5c1ee4f097df868b452119d6c56a2f263e30c443823c''),
      (''p4info_digest'', JStr ''sha256:23b6d3554ca11843b7e0324352ed09752f068a05abbecf16c16d08a9839d2241''),
      (''pipeline_digest'', JStr ''sha256:06b99f73133ff8a7d0bfbcfe2b023ecdd5a9458f8e41afd5f11275e5d99d00ea''),
      (''selector_digest'', JStr ''sha256:eeeeeeeeeeeeeeeeeeeeeeeeeeeeeeeeeeeeeeeeeeeeeeeeeeeeeeeeeeeeeeee''),
      (''cell_count'', JInt 256), (''bank_count'', JInt 2), (''snapshot_strategy'', JStr ''dual-bank-sequence-before-after''),
      (''golden_verified'', JBool True)]"

definition manifest_files :: "ml_env \<Rightarrow> prepared \<Rightarrow> json" where
  "manifest_files env p = JObj
     [(''features'', JObj
        [(''path'', JStr ''data/features.bin''), (''sha256'', JStr (sha256_bytes env (pr_features p))),
         (''bytes'', JInt (int (length (pr_features p)))), (''record_bytes'', JInt 48),
         (''record_count'', JInt (int (length (pr_records p))))]),
      (''sample_index'', JObj
        [(''path'', JStr ''data/samples.jsonl''), (''sha256'', JStr (sha256_bytes env (pr_index p))),
         (''bytes'', JInt (int (length (pr_index p)))), (''record_count'', JInt (int (length (pr_records p)))),
         (''record_schema'', JStr ''contracts/dataset/v1/sample-schema.json''), (''encoding'', JStr ''canonical-json-lines-utf8-lf''),
         (''max_line_bytes'', JInt 16384)]),
      (''split_manifest'', JObj
        [(''path'', JStr ''data/splits.json''), (''sha256'', JStr (sha256_bytes env (pr_splits p))),
         (''bytes'', JInt (int (length (pr_splits p)))), (''capture_family_count'', JInt (int (length (pr_families p))))])]"

definition interval :: "ml_env \<Rightarrow> str \<Rightarrow> rat \<Rightarrow> rat \<Rightarrow> json" where
  "interval env split lower upper = JObj [(''split'', JStr split), (''lower'', jnum env lower), (''upper'', jnum env upper)]"

definition matrix_row :: "ml_env \<Rightarrow> str \<Rightarrow> rat \<Rightarrow> rat \<Rightarrow> json" where
  "matrix_row env name train blind_test = JObj
     [(''source_partition'', JStr name), (''train'', jnum env train), (''early_stop'', jnum env (15 / 100)),
      (''calibration'', jnum env (15 / 100)), (''blind_test'', jnum env blind_test)]"

definition split_policy :: "ml_env \<Rightarrow> json" where
  "split_policy env = JObj
     [(''algorithm'', JStr SPLIT_ALGORITHM), (''grouping'', JStr ''capture-family-only-no-row-window-random-split''),
      (''intervals'', JArr [interval env ''train'' 0 (6 / 10), interval env ''early_stop'' (6 / 10) (75 / 100),
         interval env ''calibration'' (75 / 100) (9 / 10), interval env ''blind_test'' (9 / 10) 1]),
      (''source_matrix'', JArr [matrix_row env ''project-synthetic'' (6 / 10) (1 / 10),
         matrix_row env ''cic-ddos2019-official-training'' (7 / 10) 0]),
      (''leakage_policy'', JStr ''reject-any-capture-family-in-more-than-one-split''),
      (''blind_open_policy'', JStr ''open-once-after-all-candidates-configs-thresholds-frozen''),
      (''weighting'', JStr ''equal-source-label-then-equal-family-then-equal-window-normalized-to-sample-count'')]"

definition label_policy :: "ml_env \<Rightarrow> json" where
  "label_policy env = JObj
     [(''taxonomy'', JStr ''binary-single-label''),
      (''benign'', JObj [(''id'', JInt 0), (''name'', JStr ''benign''), (''attack_packet_share'', jnum env 0)]),
      (''attack'', JObj [(''id'', JInt 1), (''name'', JStr ''supported_aggregate_visible_attack'')]),
      (''fit_coverage'', jnum env 1), (''attack_share_minimum'', jnum env (9 / 10)),
      (''mixed_ambiguous_unknown'', JStr ''evaluation-only-never-fit''),
      (''not_covered'', JArr [JStr ''xss'', JStr ''sql_injection'', JStr ''heartbleed_exploit'', JStr ''ransomware_payload'',
         JStr ''content_infiltration'']),
      (''join'', JStr ''packet-timestamp-direction-aware-five-tuple-protocol-half-open-window'')]"

definition binary_label_is :: "int \<Rightarrow> json \<Rightarrow> bool" where
  "binary_label_is n label = (case indexed label ''binary_label'' of Inr v \<Rightarrow> equals_int v n | Inl _ \<Rightarrow> False)"

definition label_counts :: "(str \<times> json) list list \<Rightarrow> json" where
  "label_counts records = JObj
     [(''benign'', JInt (count_records (binary_label_is 0) ''label'' records)),
      (''attack'', JInt (count_records (binary_label_is 1) ''label'' records)),
      (''mixed'', JInt 0), (''ambiguous'', JInt 0), (''unknown'', JInt 0), (''not_covered'', JInt 0)]"

definition quality_summary :: "ml_env \<Rightarrow> prepared \<Rightarrow> int \<Rightarrow> str \<Rightarrow> json" where
  "quality_summary env p eligible_packets ground_truth_digest = JObj
     [(''sample_count'', JInt (int (length (pr_records p)))), (''capture_family_count'', JInt (int (length (pr_families p)))),
      (''split_counts'', split_counts (pr_records p)), (''label_counts'', label_counts (pr_records p)),
      (''ground_truth'', JObj
        [(''eligible_packets'', JInt eligible_packets), (''labeled_eligible_packets'', JInt eligible_packets),
         (''coverage'', jnum env 1), (''conflicts'', JInt 0), (''coverage_digest'', JStr ground_truth_digest)]),
      (''duplicates'', JInt 0), (''cross_split_capture_families'', JInt 0), (''raw_payload_included'', JBool False)]"

definition manifest_limits :: json where
  "manifest_limits = JObj
     [(''max_sources'', JInt 16), (''max_records'', JInt 100000000), (''max_feature_bytes'', JInt 4800000000),
      (''max_index_bytes'', JInt 10737418240), (''max_capture_families'', JInt 10000000), (''max_archive_files'', JInt 100000),
      (''max_archive_depth'', JInt 8), (''max_decompression_ratio'', JInt 100)]"

definition compatibility :: json where
  "compatibility = JObj
     [(''unknown_major'', JStr ''reject''), (''unverified_minor'', JStr ''reject''), (''feature_major_change'', JStr ''new-dataset-profile''),
      (''selector_or_window_change'', JStr ''new-dataset-profile''), (''legacy_direct_import'', JStr ''reject''),
      (''mutable_source'', JStr ''reject''), (''executable_content'', JStr ''reject'')]"

definition ground_truth_rows :: "(str \<times> json) list list \<Rightarrow> ml_error + json list" where
  "ground_truth_rows records =
     mapM (\<lambda>record. rbind (item_at record ''sample_id'') (\<lambda>sample_id. rbind (item_at record ''label'') (\<lambda>label.
       rbind (item_at record ''window'') (\<lambda>window.
       Inr (JObj [(''sample_id'', sample_id), (''label'', label), (''window'', window)]))))) records"

definition eligible_total :: "generator \<Rightarrow> (str \<times> json) list list \<Rightarrow> ml_error + int" where
  "eligible_total g records =
     rbind (mapM (\<lambda>record. rbind (item_at record ''label'') (int_at g ''eligible_packets'')) records) (\<lambda>packets. Inr (sum_list packets))"

definition manifest_document ::
  "ml_env \<Rightarrow> prepared \<Rightarrow> json \<Rightarrow> int \<Rightarrow> str \<Rightarrow> str \<Rightarrow> str \<Rightarrow> str \<Rightarrow> str \<Rightarrow> str \<Rightarrow> str \<Rightarrow> (str \<times> json) list" where
  "manifest_document env p golden_digest eligible_packets ground_truth_digest tree_identity config_digest toolchain_digest
     profile_digest review_digest implementation_digest =
     [(''schema_version'', JStr ''dataset-p4-window-binary/v1''), (''dataset_id'', JStr DATASET_ID),
      (''dataset_revision'', JStr (pr_revision p)), (''created_at'', JStr ''2031-01-01T00:00:00Z''), (''status'', manifest_status),
      (''producer'', JObj
        [(''producer_id'', JStr ''masi-offline-ml-pipeline''), (''version'', JStr ''v1''), (''config_digest'', JStr config_digest),
         (''toolchain_digest'', JStr toolchain_digest), (''source_revision'', JStr tree_identity)]),
      (''feature_contract'', feature_contract profile_digest),
      (''source_profiles'', JArr [source_profile p review_digest ground_truth_digest]),
      (''extractor'', extractor implementation_digest golden_digest), (''files'', manifest_files env p),
      (''split_policy'', split_policy env), (''label_policy'', label_policy env),
      (''quality_summary'', quality_summary env p eligible_packets ground_truth_digest), (''limits'', manifest_limits),
      (''compatibility'', compatibility)]"

text \<open>Everything between the data files and the manifest file, in the order of the code.\<close>

definition make_manifest :: "generator \<Rightarrow> prepared \<Rightarrow> ml_error + (str \<times> json) list" where
  "make_manifest g p =
     (let env = gx_env g; py = me_py env in
      rbind (eligible_total g (pr_records p)) (\<lambda>eligible_packets.
      rbind (ground_truth_rows (pr_records p)) (\<lambda>rows.
      rbind (canonical_json_bytes py (JArr rows)) (\<lambda>truth_raw.
      let ground_truth_digest = sha256_bytes env truth_raw in
      rbind (source_tree_identity g) (\<lambda>tree_identity.
      rbind (repo_digest g [''contracts'', ''profiles'', ''v1'', ''dataset-p4-window-binary.json'']) (\<lambda>config_digest.
      rbind (repo_digest g [''ml-py'', ''uv.lock'']) (\<lambda>toolchain_digest.
      rbind (repo_digest g [''contracts'', ''profiles'', ''v1'', ''edge-feature-window.json'']) (\<lambda>profile_digest.
      rbind (canonical_json_bytes py privacy_review) (\<lambda>review_raw.
      rbind (repo_digest g [''ml-py'', ''src'', ''masi_offline_ml'', ''dataset.py'']) (\<lambda>implementation_digest.
      rbind (item_at (pr_reference p) ''telemetry_golden_digest'') (\<lambda>golden_digest.
      let manifest = manifest_document env p golden_digest eligible_packets ground_truth_digest tree_identity config_digest
            toolchain_digest profile_digest (sha256_bytes env review_raw) implementation_digest in
      rbind (validate_dataset_manifest env manifest) (\<lambda>_. Inr manifest))))))))))))"

section \<open>Generation\<close>

record answers =
  an_directory :: bool
  an_data_directory :: bool
  an_features :: write_answers
  an_index :: write_answers
  an_splits :: write_answers
  an_manifest :: write_answers
  an_reference :: write_answers

definition out_path :: "str list \<Rightarrow> str list \<Rightarrow> str" where
  "out_path output names = path_str (output @ names)"

definition data_writes :: "answers \<Rightarrow> str list \<Rightarrow> prepared \<Rightarrow> (write_answers \<times> str \<times> str) list" where
  "data_writes a output p =
     [(an_features a, out_path output [''data'', ''features.bin''], pr_features p),
      (an_index a, out_path output [''data'', ''samples.jsonl''], pr_index p),
      (an_splits a, out_path output [''data'', ''splits.json''], pr_splits p)]"

definition generate_resolved ::
  "generator \<Rightarrow> answers \<Rightarrow> str list \<Rightarrow> file_system \<Rightarrow> (ml_error + (str \<times> json) list) \<times> file_system list" where
  "generate_resolved g a output fs =
     (case rbind (create_fresh_directory (an_directory a) (gx_tree g) output) (\<lambda>_.
           rbind (raise_if (\<not> an_data_directory a) MOSError) (\<lambda>_. prepare g)) of
        Inl e \<Rightarrow> (Inl e, [fs])
      | Inr p \<Rightarrow>
          (case run_writes (map (\<lambda>(w, path, raw). write_fresh_bytes w path raw) (data_writes a output p)) fs of
             (Inl e, states) \<Rightarrow> (Inl e, states)
           | (Inr _, states) \<Rightarrow>
               (case make_manifest g p of
                  Inl e \<Rightarrow> (Inl e, states)
                | Inr manifest \<Rightarrow>
                    (case run_writes
                        [write_fresh_json (me_py (gx_env g)) (an_manifest a) (out_path output [''manifest.json'']) (JObj manifest),
                         write_fresh_json (me_py (gx_env g)) (an_reference a) (out_path output [''reference-extractor-golden.json''])
                           (JObj (pr_reference p))] (last states) of
                       (Inl e, later) \<Rightarrow> (Inl e, states @ later)
                     | (Inr _, later) \<Rightarrow> (Inr manifest, states @ later)))))"

text \<open>The repository is named by its real path from here on.\<close>

definition at_repo :: "generator \<Rightarrow> ml_error + generator" where
  "at_repo g = rbind (resolve (gx_tree g) (gx_repo g)) (\<lambda>repo. Inr (g\<lparr>gx_repo := repo\<rparr>))"

definition generate_module_dataset ::
  "generator \<Rightarrow> answers \<Rightarrow> str list \<Rightarrow> file_system \<Rightarrow> (ml_error + (str \<times> json) list) \<times> file_system list" where
  "generate_module_dataset g a output fs =
     (case at_repo g of Inl e \<Rightarrow> (Inl e, [fs]) | Inr g' \<Rightarrow> generate_resolved g' a output fs)"

text \<open>\<open>path.absolute().as_posix().rstrip("/")\<close> of a normalised absolute path.\<close>

definition LEGACY :: "str list" where "LEGACY = [''home'', ''lmhhh'', ''MASI-NIDS'', ''dataset'']"

definition reject_legacy_direct_import :: "str list \<Rightarrow> ml_error + unit" where
  "reject_legacy_direct_import path =
     raise_if (path_str path = path_str LEGACY \<or> starts_with (path_str LEGACY @ ''/'') (path_str path))
       (Invalid ''legacy_direct_import'' (path_str path))"

section \<open>Files appear in order\<close>

lemma data_writes_plain:
  assumes "(w, path, raw) \<in> set (data_writes a output p)"
  shows "path \<noteq> fresh_temporary pid path'" and "out_path output [''manifest.json''] \<noteq> path"
proof -
  have name: "\<exists>names c n. path = path_str (names @ [c # n]) \<and> c \<noteq> CHR ''.'' \<and> CHR ''/'' \<notin> set (c # n) \<and> c # n \<noteq> ''manifest.json''"
  proof -
    have "\<exists>n \<in> {''features.bin'', ''samples.jsonl'', ''splits.json''}. path = path_str ((output @ [''data'']) @ [n])"
      using assms by (auto simp: data_writes_def out_path_def)
    then obtain n where n: "n \<in> {''features.bin'', ''samples.jsonl'', ''splits.json''}" "path = path_str ((output @ [''data'']) @ [n])" by blast
    then have "hd n \<noteq> CHR ''.'' \<and> CHR ''/'' \<notin> set n \<and> n \<noteq> ''manifest.json'' \<and> n = hd n # tl n" by auto
    with n(2) show ?thesis by metis
  qed
  then show "path \<noteq> fresh_temporary pid path'" using not_temporary by metis
  obtain names c n where path: "path = path_str (names @ [c # n])" and "CHR ''/'' \<notin> set (c # n)" "c # n \<noteq> ''manifest.json''"
    using name by blast
  obtain q q' where "path = q @ CHR ''/'' # (c # n)" and "path_str (output @ [''manifest.json'']) = q' @ CHR ''/'' # ''manifest.json''"
    using path path_str_last by metis
  then have "last (split_slash path) = c # n" "last (split_slash (path_str (output @ [''manifest.json'']))) = ''manifest.json''"
    using last_split_slash [of "c # n" q] last_split_slash [of "''manifest.json''" q'] \<open>CHR ''/'' \<notin> set (c # n)\<close> by simp_all
  then show "out_path output [''manifest.json''] \<noteq> path" using \<open>c # n \<noteq> ''manifest.json''\<close> unfolding out_path_def by metis
qed

lemma manifest_plain: "out_path output [''manifest.json''] \<noteq> fresh_temporary pid path"
  unfolding out_path_def by (rule not_temporary) simp_all

lemma data_phase:
  assumes "run_writes (map (\<lambda>(w, path, raw). write_fresh_bytes w path raw) (data_writes a output p)) fs = (r, states)" and "s \<in> set states"
  shows "fs \<subseteq>\<^sub>m s" and "s (out_path output [''manifest.json'']) = fs (out_path output [''manifest.json''])"
proof -
  show "fs \<subseteq>\<^sub>m s" by (rule keeps_filesD [OF byte_files.keeps_run assms])
  show "s (out_path output [''manifest.json'']) = fs (out_path output [''manifest.json''])"
    by (rule byte_files.untouched [OF assms]) (use data_writes_plain(2) manifest_plain in blast)
qed

text \<open>Only the manifest write can change the manifest, and it goes from absent to complete.\<close>

lemma manifest_phase:
  assumes "run_writes [write_fresh_json env w (out_path output [''manifest.json'']) v, second] fs = (r, states)"
    and "s \<in> set states" and second: "keeps_files second"
  shows "fs \<subseteq>\<^sub>m s" and "s (out_path output [''manifest.json'']) = fs (out_path output [''manifest.json''])
      \<or> (\<exists>body. pretty_json env v = Inr body \<and> s (out_path output [''manifest.json'']) = Some body)"
    and "r = Inr u \<Longrightarrow> \<exists>body. pretty_json env v = Inr body \<and> last states (out_path output [''manifest.json'']) = Some body"
proof -
  let ?m = "out_path output [''manifest.json'']"
  let ?first = "write_fresh_json env w ?m v"
  have keep: "keeps_files (run_writes [?first, second])" "keeps_files (run_writes [second])"
    by (rule keeps_files_run, simp add: write_fresh_json_keeps second)+
  show "fs \<subseteq>\<^sub>m s" by (rule keeps_filesD [OF keep(1) assms(1,2)])
  have moment: "s ?m = fs ?m \<or> (\<exists>body. pretty_json env v = Inr body \<and> s ?m = Some body)" if first: "?first fs = (r1, first)" "s \<in> set first" for r1 first
  proof (cases "pretty_json env v")
    case (Inl e)
    then have "first = [fs]" using first by (auto simp: write_fresh_json_def Let_def split: if_splits)
    then show ?thesis using first by simp
  next
    case (Inr body)
    then show ?thesis using text_files.moments [of w ?m body fs r1 first s] first by (simp add: write_fresh_json_eq)
  qed
  have after: "\<exists>body. pretty_json env v = Inr body \<and> t ?m = Some body"
    if stored: "?first fs = (Inr x, first)" and kept: "last first \<subseteq>\<^sub>m t" for x first t
  proof -
    obtain body where "pretty_json env v = Inr body" "last first = fs(?m \<mapsto> body)" using write_fresh_json_stored [OF stored] by blast
    then show ?thesis using map_leD [OF kept, of ?m] by simp
  qed
  show "s ?m = fs ?m \<or> (\<exists>body. pretty_json env v = Inr body \<and> s ?m = Some body)"
    using assms(1)
  proof (cases rule: run_writes_ConsE)
    case (more x first rest)
    then have "s \<in> set first \<or> s \<in> set rest" using assms(2) by auto
    then show ?thesis using moment more(1) after [OF more(1)] keeps_filesD [OF keep(2) more(2)] by blast
  qed (use moment assms(2) in blast)
  show "\<exists>body. pretty_json env v = Inr body \<and> last states ?m = Some body" if "r = Inr u"
    using assms(1)
  proof (cases rule: run_writes_ConsE)
    case (more x first rest)
    have "rest \<noteq> []" using keep(2) more(2) by (auto simp: keeps_files_def)
    then show ?thesis using after [OF more(1) keeps_files_last [OF keep(2) more(2)]] more(3) by simp
  qed (use that in simp)
qed

lemma resolved_ordered:
  assumes "generate_resolved g a output fs = (r, states)" and "s \<in> set states"
  defines "target \<equiv> out_path output [''manifest.json'']"
  shows "fs \<subseteq>\<^sub>m s
    \<and> (s target \<noteq> fs target \<longrightarrow> (\<exists>p manifest body. prepare g = Inr p \<and> make_manifest g p = Inr manifest
          \<and> pretty_json (me_py (gx_env g)) (JObj manifest) = Inr body \<and> s target = Some body
          \<and> list_all (\<lambda>(w, path, raw). s path = Some raw) (data_writes a output p)))
    \<and> (\<forall>manifest. r = Inr manifest \<longrightarrow>
          (\<exists>body. pretty_json (me_py (gx_env g)) (JObj manifest) = Inr body \<and> last states target = Some body))"
proof (cases "rbind (create_fresh_directory (an_directory a) (gx_tree g) output) (\<lambda>_.
           rbind (raise_if (\<not> an_data_directory a) MOSError) (\<lambda>_. prepare g))")
  case (Inl e)
  with assms show ?thesis by (auto simp: generate_resolved_def)
next
  case (Inr p)
  then have p: "prepare g = Inr p" by (auto simp: rbind_eq_Inr)
  let ?jobs = "map (\<lambda>(w, path, raw). write_fresh_bytes w path raw) (data_writes a output p)"
  obtain r1 first where first: "run_writes ?jobs fs = (r1, first)" by fastforce
  have early: ?thesis if "s \<in> set first" and "\<And>m. r \<noteq> Inr m"
    using data_phase [OF first that(1)] that(2) by (auto simp: target_def)
  show ?thesis
  proof (cases "\<exists>u manifest. r1 = Inr u \<and> make_manifest g p = Inr manifest")
    case False
    then have "states = first" and "\<And>m. r \<noteq> Inr m"
      using assms(1) Inr first by (auto simp: generate_resolved_def split: sum.splits)
    with early assms(2) show ?thesis by blast
  next
    case True
    then obtain u manifest where ok: "r1 = Inr u" "make_manifest g p = Inr manifest" by blast
    let ?writes = "[write_fresh_json (me_py (gx_env g)) (an_manifest a) target (JObj manifest),
        write_fresh_json (me_py (gx_env g)) (an_reference a) (out_path output [''reference-extractor-golden.json'']) (JObj (pr_reference p))]"
    obtain r2 later where later: "run_writes ?writes (last first) = (r2, later)" by fastforce
    have states: "states = first @ later" and r: "case r2 of Inl e \<Rightarrow> r = Inl e | Inr _ \<Rightarrow> r = Inr manifest"
      using assms(1) Inr first ok later by (auto simp: generate_resolved_def target_def split: sum.splits)
    have ne: "first \<noteq> []" "later \<noteq> []"
      using first byte_files.keeps_run later keeps_files_run [of ?writes] write_fresh_json_keeps
      by (fastforce simp: keeps_files_def)+
    have base: "fs \<subseteq>\<^sub>m last first" "last first target = fs target" using data_phase [OF first last_in_set [OF ne(1)]] by (simp_all add: target_def)
    have placed: "list_all (\<lambda>(w, path, raw). last first path = Some raw) (data_writes a output p)"
      using byte_files.all_in_place first ok(1) unfolding list_all_iff by fastforce
    have late: "fs \<subseteq>\<^sub>m t \<and> (t target \<noteq> fs target \<longrightarrow> (\<exists>body. pretty_json (me_py (gx_env g)) (JObj manifest) = Inr body \<and> t target = Some body))
        \<and> list_all (\<lambda>(w, path, raw). t path = Some raw) (data_writes a output p)" if "t \<in> set later" for t
    proof -
      note m = manifest_phase(1,2) [OF later [unfolded target_def] that write_fresh_json_keeps]
      have "list_all (\<lambda>(w, path, raw). t path = Some raw) (data_writes a output p)"
        unfolding list_all_iff
      proof (intro ballI, clarify)
        fix w path raw assume "(w, path, raw) \<in> set (data_writes a output p)"
        then have "last first path = Some raw" using placed by (auto simp: list_all_iff)
        then show "t path = Some raw" by (rule map_leD [OF m(1)])
      qed
      then show ?thesis using m base map_le_trans by (fastforce simp: target_def)
    qed
    have moment: "fs \<subseteq>\<^sub>m s \<and> (s target \<noteq> fs target \<longrightarrow> (\<exists>p manifest body. prepare g = Inr p \<and> make_manifest g p = Inr manifest
          \<and> pretty_json (me_py (gx_env g)) (JObj manifest) = Inr body \<and> s target = Some body
          \<and> list_all (\<lambda>(w, path, raw). s path = Some raw) (data_writes a output p)))"
    proof (cases "s \<in> set first")
      case True
      then show ?thesis using data_phase [OF first] by (simp add: target_def)
    next
      case False
      then show ?thesis using assms(2) states late p ok(2) by fastforce
    qed
    have "\<exists>body. pretty_json (me_py (gx_env g)) (JObj manifest) = Inr body \<and> last states target = Some body" if returned: "r = Inr m" for m
    proof -
      obtain v where "r2 = Inr v" using r returned by (cases r2) auto
      then show ?thesis
        using manifest_phase(3) [OF later [unfolded target_def] last_in_set [OF ne(2)] write_fresh_json_keeps] states ne(2)
        by (auto simp: target_def)
    qed
    moreover have "m = manifest" if "r = Inr m" for m using r that by (cases r2) auto
    ultimately show ?thesis using moment by blast
  qed
qed

lemma at_repo_env: "at_repo g = Inr g' \<Longrightarrow> gx_env g' = gx_env g \<and> gx_tree g' = gx_tree g"
  by (auto simp: at_repo_def rbind_eq_Inr)

text \<open>
  C30: a generated dataset appears on disk in order, and over nothing. Whatever system call fails, at every moment of
  the generation all the files that were there before have their old content; a reader who finds the manifest
  finds it complete, and then the feature file, the sample index and the split manifest are complete too; and when the
  generation returns, the manifest file holds the document that is returned.
\<close>

theorem generation_ordered:
  assumes "generate_module_dataset g a output fs = (r, states)" and "s \<in> set states"
  defines "target \<equiv> out_path output [''manifest.json'']"
  shows "fs \<subseteq>\<^sub>m s
    \<and> (s target \<noteq> fs target \<longrightarrow> (\<exists>g' p manifest body. at_repo g = Inr g' \<and> prepare g' = Inr p \<and> make_manifest g' p = Inr manifest
          \<and> pretty_json (me_py (gx_env g)) (JObj manifest) = Inr body \<and> s target = Some body
          \<and> list_all (\<lambda>(w, path, raw). s path = Some raw) (data_writes a output p)))
    \<and> (\<forall>manifest. r = Inr manifest \<longrightarrow>
          (\<exists>body. pretty_json (me_py (gx_env g)) (JObj manifest) = Inr body \<and> last states target = Some body))"
proof (cases "at_repo g")
  case (Inl e)
  with assms(1,2) show ?thesis by (auto simp: generate_module_dataset_def target_def)
next
  case (Inr g')
  then have "generate_resolved g' a output fs = (r, states)" using assms(1) by (simp add: generate_module_dataset_def)
  from resolved_ordered [OF this assms(2)] show ?thesis using Inr at_repo_env [OF Inr] unfolding target_def by fastforce
qed

end
