(* ===== verification/Ml_Roundtrip.thy ===== *)
theory Ml_Roundtrip
  imports Ml_Generate
begin

text \<open>
  The generator and the loader together: a generated dataset is loaded back with the features, labels and splits
  of its drafts.

  A document that was written in canonical form is read back with its keys sorted, so the first section is about
  sorted documents; the following ones are about the lines of the sample index, the loop of the loader and the manifest.
\<close>

section \<open>Sorted documents\<close>

definition sorted_fields :: "(str \<times> json) list \<Rightarrow> (str \<times> json) list" where
  "sorted_fields kvs = sort_key fst (map (\<lambda>kv. (fst kv, sort_json (snd kv))) kvs)"

lemma sort_json_obj: "sort_json (JObj kvs) = JObj (sorted_fields kvs)"
  by (simp add: sorted_fields_def)

lemma map_of_sort_key: "distinct (map fst xs) \<Longrightarrow> map_of (sort_key fst xs) = map_of xs"
proof -
  assume d: "distinct (map fst xs)"
  have "mset (map fst (sort_key fst xs)) = mset (map fst xs)" by simp
  then have "distinct (map fst (sort_key fst xs))" using d mset_eq_imp_distinct_iff by blast
  then show ?thesis using d by (simp add: map_of_inject_set)
qed

lemma map_of_map_snd: "map_of (map (\<lambda>kv. (fst kv, f (snd kv))) xs) k = map_option f (map_of xs k)"
  by (induction xs) auto

lemma json_get_sorted: "distinct (map fst kvs) \<Longrightarrow> json_get (sorted_fields kvs) k = map_option sort_json (json_get kvs k)"
  unfolding json_get_def sorted_fields_def by (subst map_of_sort_key) (simp_all add: comp_def map_of_map_snd)

lemma sort_json_nonfinite: "has_nonfinite (sort_json v) = has_nonfinite v"
  by (induction v rule: sort_json.induct) (auto simp: list_ex_iff)

lemma sort_json_idem: "sort_json (sort_json v) = sort_json v"
proof (induction v rule: sort_json.induct)
  case (1 vs)
  then show ?case by simp
next
  case (2 kvs)
  let ?xs = "sort_key fst (map (\<lambda>kv. (fst kv, sort_json (snd kv))) kvs)"
  have "map (\<lambda>kv. (fst kv, sort_json (snd kv))) ?xs = ?xs"
    by (rule map_idI) (use 2 in auto)
  then show ?case by (simp add: sort_key_id_if_sorted)
qed simp_all

lemma sort_json_atoms [simp]: "map (sort_json \<circ> JInt) is = map JInt is" "map (sort_json \<circ> JStr) ss = map JStr ss"
  by (simp_all add: comp_def)

section \<open>Lines\<close>

lemma stream_lines_body:
  "newline \<notin> set body \<Longrightarrow> stream_lines acc (body @ [newline] @ rest) = (acc @ body @ [newline]) # stream_lines [] rest"
  by (induction body arbitrary: acc) auto

lemma stream_lines_of:
  "(\<And>line. line \<in> set lines \<Longrightarrow> \<exists>body. line = body @ [newline] \<and> newline \<notin> set body) \<Longrightarrow> stream_lines [] (concat lines) = lines"
proof (induction lines)
  case (Cons line lines)
  then obtain body where "line = body @ [newline]" "newline \<notin> set body" by auto
  with Cons show ?case using stream_lines_body [of body "[]" "concat lines"] by simp
qed simp

lemma newline_not_digit: "list_all is_digit s \<Longrightarrow> newline \<notin> set s"
proof -
  have "\<not> is_digit newline" by code_simp
  then show "list_all is_digit s \<Longrightarrow> newline \<notin> set s" by (auto simp: list_all_iff)
qed

lemma int_str_no_newline: "newline \<notin> set (int_str i)"
  using newline_not_digit [OF nat_str_digits] by (auto simp: int_str_def)

lemma json_str_no_newline: "newline \<notin> set (json_str s)"
proof -
  have hex: "newline \<noteq> hex_char n" if "n < 16" for n
    using that by (auto simp: hex_char_def less_Suc_eq numeral_eq_Suc)
  have "newline \<notin> set (json_escape_char c)" for c
  proof -
    have "(of_char c :: nat) div 16 < 16" using nat_of_char_less_256 [of c] by linarith
    then show ?thesis
      using hex [of "of_char c div 16"] hex [of "of_char c mod 16"]
      by (simp add: json_escape_char_def backslash_def quote_def)
  qed
  then show ?thesis by (auto simp: json_str_def quote_def)
qed

lemma join_no_char: "c \<notin> set sep \<Longrightarrow> (\<And>x. x \<in> set xs \<Longrightarrow> c \<notin> set x) \<Longrightarrow> c \<notin> set (join sep xs)"
  by (induction sep xs rule: join.induct) auto

text \<open>The floats of a document.\<close>

fun floats_of :: "json \<Rightarrow> rat list" where
  "floats_of (JFloat f) = (case f of FFin q \<Rightarrow> [q] | _ \<Rightarrow> [])"
| "floats_of (JArr vs) = concat (map floats_of vs)"
| "floats_of (JObj kvs) = concat (map (\<lambda>kv. floats_of (snd kv)) kvs)"
| "floats_of _ = []"

lemma json_text_no_newline:
  "(\<And>q. q \<in> set (floats_of v) \<Longrightarrow> newline \<notin> set (float_repr env q)) \<Longrightarrow> \<not> has_nonfinite v \<Longrightarrow> newline \<notin> set (json_text env v)"
proof (induction env v rule: json_text.induct)
  case (4 env f)
  then show ?case by (auto simp: float_text_def split: pyfloat.splits)
next
  case (6 env vs)
  have "newline \<notin> set (join '','' (map (json_text env) vs))"
    by (rule join_no_char) (use 6 in \<open>auto simp: list_ex_iff\<close>)
  then show ?case by simp
next
  case (7 env kvs)
  have "newline \<notin> set (join '','' (map (\<lambda>kv. json_str (fst kv) @ '':'' @ json_text env (snd kv)) kvs))"
    by (rule join_no_char) (use 7 json_str_no_newline in \<open>fastforce simp: list_ex_iff\<close>)+
  then show ?case by simp
qed (simp_all add: int_str_no_newline json_str_no_newline)

lemma floats_of_sort: "set (floats_of (sort_json v)) = set (floats_of v)"
  by (induction v rule: sort_json.induct) auto

section \<open>The length of a line\<close>

text \<open>A float whose text has three characters is as long as a number of three digits.\<close>

fun unfloat :: "json \<Rightarrow> json" where
  "unfloat (JFloat f) = JInt 100"
| "unfloat (JArr vs) = JArr (map unfloat vs)"
| "unfloat (JObj kvs) = JObj (map (\<lambda>kv. (fst kv, unfloat (snd kv))) kvs)"
| "unfloat v = v"

lemma unfloat_free: "float_free (unfloat v)"
  by (induction v rule: unfloat.induct) (auto simp: list_all_iff)

lemma length_join: "length (join sep xs) = sum_list (map length xs) + (length xs - 1) * length sep"
  by (induction sep xs rule: join.induct) auto

lemma unfloat_length:
  "(\<And>q. q \<in> set (floats_of v) \<Longrightarrow> length (float_repr env q) = 3) \<Longrightarrow> \<not> has_nonfinite v \<Longrightarrow>
     length (json_text env (unfloat v)) = length (json_text env v)"
proof (induction v rule: unfloat.induct)
  case (1 f)
  have "length (int_str 100) = 3" by code_simp
  with 1 show ?case by (auto simp: float_text_def split: pyfloat.splits)
next
  case (2 vs)
  have "map (\<lambda>v. length (json_text env (unfloat v))) vs = map (\<lambda>v. length (json_text env v)) vs"
    by (rule map_cong [OF refl]) (use 2 in \<open>auto simp: list_ex_iff\<close>)
  from arg_cong [OF this, of sum_list] show ?case by (simp add: length_join comp_def)
next
  case (3 kvs)
  have "map (\<lambda>kv. length (json_text env (unfloat (snd kv)))) kvs = map (\<lambda>kv. length (json_text env (snd kv))) kvs"
    by (rule map_cong [OF refl]) (use 3 in \<open>auto simp: list_ex_iff\<close>)
  then have "map (\<lambda>kv. Suc (length (json_str (fst kv)) + length (json_text env (unfloat (snd kv))))) kvs
      = map (\<lambda>kv. Suc (length (json_str (fst kv)) + length (json_text env (snd kv)))) kvs"
    by (auto simp: list_eq_iff_nth_eq)
  from arg_cong [OF this, of sum_list] show ?case by (simp add: length_join comp_def)
qed simp_all

definition line_weight :: "json \<Rightarrow> int" where
  "line_weight v = json_weight (unfloat v)"

lemma line_weight_simps:
  "line_weight (JObj kvs) = 2 + sum_list (map (\<lambda>kv. str_cost (fst kv) + 4 + line_weight (snd kv)) kvs)"
  "line_weight (JArr vs) = 2 + sum_list (map (\<lambda>v. 1 + line_weight v) vs)"
  "line_weight (JStr s) = 6 * int (length s) + 2" "line_weight (JBool b) = 5" "line_weight (JFloat f) = 7"
  by (simp_all add: line_weight_def comp_def str_cost_length digits_bound_def)

lemma line_weight_int: "0 \<le> i \<Longrightarrow> i < 10 ^ 20 \<Longrightarrow> line_weight (JInt i) \<le> 21"
  by (simp add: line_weight_def digits_bound_def)

lemma line_weight_sort: "line_weight (sort_json v) = line_weight v"
proof (induction v rule: sort_json.induct)
  case (1 vs)
  then have "map (\<lambda>v. 1 + line_weight (sort_json v)) vs = map (\<lambda>v. 1 + line_weight v) vs" by simp
  from arg_cong [OF this, of sum_list] show ?case by (simp add: line_weight_simps comp_def)
next
  case (2 kvs)
  let ?f = "\<lambda>kv. str_cost (fst kv) + 4 + line_weight (snd kv)"
  have same: "sum_list (map ?f (sort_key fst xs)) = sum_list (map ?f xs)" for xs
  proof -
    have "mset (map ?f (sort_key fst xs)) = mset (map ?f xs)" by simp
    from arg_cong [OF this, of sum_mset] show ?thesis by (simp only: sum_mset_sum_list)
  qed
  have "sum_list (map ?f (sort_key fst (map (\<lambda>kv. (fst kv, sort_json (snd kv))) kvs)))
      = sum_list (map ?f (map (\<lambda>kv. (fst kv, sort_json (snd kv))) kvs))"
    by (rule same)
  also have "map ?f (map (\<lambda>kv. (fst kv, sort_json (snd kv))) kvs) = map ?f kvs" using 2 by simp
  finally show ?case by (simp add: line_weight_simps)
qed simp_all

lemma line_length:
  assumes "\<And>q. q \<in> set (floats_of v) \<Longrightarrow> length (float_repr env q) = 3" and "\<not> has_nonfinite v"
  shows "int (length (json_text env (sort_json v))) \<le> line_weight v"
proof -
  have "int (length (json_text env (sort_json v))) = int (length (json_text env (unfloat (sort_json v))))"
    by (subst unfloat_length) (use assms in \<open>auto simp: floats_of_sort sort_json_nonfinite\<close>)
  also have "\<dots> \<le> int (text_weight (json_text env (unfloat (sort_json v))))" using length_le_text_weight by simp
  also have "\<dots> \<le> line_weight (sort_json v)" unfolding line_weight_def by (rule json_text_weight [OF unfloat_free])
  finally show ?thesis by (simp add: line_weight_sort)
qed

section \<open>The texts of a draft are short\<close>

lemma length_pad_le: "0 \<le> i \<Longrightarrow> i < 10 ^ Suc k \<Longrightarrow> Suc k \<le> width \<Longrightarrow> length (pad width i) = width"
  by (rule length_pad) (use nat_str_length [of "nat i" k] in \<open>auto simp: int_str_def nat_less_iff\<close>)

lemma length_window_time:
  assumes "n < 86400"
  shows "length (window_time n) = 20"
proof -
  have eq: "1924992000 + int n = int n + 22280 * 86400" by simp
  have day: "day_number (1924992000 + int n) = 741442" unfolding day_number_def eq div_mult_self1 using assms by simp
  have rest: "(1924992000 + int n) mod 86400 = int n" unfolding eq mod_mult_self1 using assms by simp
  have year: "year_of 741442 = 2031" "month_of 11 2031 1 (741442 - days_before 2031) = (1, 0)" by code_simp+
  have "length (pad 2 (int n div 3600)) = 2" "length (pad 2 (int n div 60 mod 60)) = 2" "length (pad 2 (int n mod 60)) = 2"
    using assms by (auto intro!: length_pad_le [where k = 1])
  moreover have "length (pad 4 2031) = 4" "length (pad 2 1) = 2" by code_simp+
  ultimately show ?thesis
    unfolding window_time_def iso_seconds_def Let_def day rest year by simp
qed

section \<open>Drafts and their records\<close>

lemma drafts_from_bounded:
  "d \<in> set (drafts_from env g families) \<Longrightarrow>
     \<exists>h family split w. (family, split) \<in> set families \<and> w < 64 \<and> h < g + 64 * length families \<and> d = make_draft env h family split w"
proof (induction env g families rule: drafts_from.induct)
  case (2 env g family split families)
  show ?case
  proof (cases "d \<in> set (drafts_from env (g + WINDOWS_PER_FAMILY) families)")
    case True
    from "2.IH" [OF this] obtain h f s w where "(f, s) \<in> set families" "w < 64" "h < g + WINDOWS_PER_FAMILY + 64 * length families"
      "d = make_draft env h f s w" by blast
    then show ?thesis by (intro exI [of _ h] exI [of _ f] exI [of _ s] exI [of _ w]) (simp add: WINDOWS_PER_FAMILY_def)
  next
    case False
    then obtain w where "w < 64" "d = make_draft env (g + w) family split w"
      using "2.prems" by (auto simp: WINDOWS_PER_FAMILY_def)
    then show ?thesis by (intro exI [of _ "g + w"] exI [of _ family] exI [of _ split] exI [of _ w]) simp
  qed
qed simp

lemma length_families: "select_families env = Inr families \<Longrightarrow> length families = 40"
proof -
  assume ok: "select_families env = Inr families"
  have names: "split \<in> fst ` set FAMILY_QUOTAS" if "(family, split) \<in> set families" for family split
    using selected_split [OF ok that] by (auto simp: split_name_def Let_def FAMILY_QUOTAS_def)
  have quotas: "length (filter (\<lambda>(family, split). split = name) families) = quota" if "(name, quota) \<in> set FAMILY_QUOTAS" for name quota
    using selected_families [OF ok] that by (auto simp: list_all_iff)
  have part: "length fs = (\<Sum>name \<leftarrow> names. length (filter (\<lambda>(family, split). split = name) fs))"
    if "distinct names" "\<forall>(family, split) \<in> set fs. split \<in> set names" for names :: "str list" and fs :: "(str \<times> str) list"
    using that
  proof (induction fs)
    case (Cons f fs)
    have "(\<Sum>name \<leftarrow> names. length (filter (\<lambda>(family, split). split = name) (f # fs)))
        = (\<Sum>name \<leftarrow> names. (if snd f = name then 1 else 0) + length (filter (\<lambda>(family, split). split = name) fs))"
      by (intro arg_cong [of _ _ sum_list] map_cong) (auto simp: case_prod_unfold)
    also have "\<dots> = (\<Sum>name \<leftarrow> names. if snd f = name then 1 else 0) + length fs" using Cons by (simp add: sum_list_addf)
    also have "(\<Sum>name \<leftarrow> names. if snd f = name then 1 else 0) = (1 :: nat)"
      using Cons.prems by (auto simp: sum_list_distinct_conv_sum_set case_prod_unfold)
    finally show ?case by simp
  qed simp
  have "length families = (\<Sum>name \<leftarrow> map fst FAMILY_QUOTAS. length (filter (\<lambda>(family, split). split = name) families))"
    by (rule part) (use names in \<open>auto simp: FAMILY_QUOTAS_def\<close>)
  then show ?thesis using quotas by (simp add: FAMILY_QUOTAS_def)
qed

text \<open>What every draft of the module dataset looks like.\<close>

definition draft_ok :: "ml_env \<Rightarrow> draft \<Rightarrow> bool" where
  "draft_ok env d \<longleftrightarrow> (\<exists>h family w i. h < 2560 \<and> w < 64 \<and> i < 100000 \<and> family = family_name i
     \<and> d = make_draft env h family (split_name env SOURCE_REVISION family) w)"

lemma build_drafts_ok:
  assumes "select_families env = Inr families" and "d \<in> set (build_drafts env families)"
  shows "draft_ok env d"
proof -
  obtain h family split w where d: "(family, split) \<in> set families" "w < 64" "h < 64 * length families" "d = make_draft env h family split w"
    using drafts_from_bounded [of d env 0 families] assms(2) by (auto simp: build_drafts_def)
  moreover have "split = split_name env SOURCE_REVISION family" by (rule selected_split [OF assms(1) d(1)])
  ultimately show ?thesis
    using selected_names [OF assms(1) d(1)] length_families [OF assms(1)] unfolding draft_ok_def by auto
qed

lemma draft_ok_window: "draft_ok env d \<Longrightarrow> consistent_window (dr_features d)"
  using feature_values_consistent by (auto simp: draft_ok_def make_draft_def Let_def)

lemma draft_ok_features:
  assumes "draft_ok env d"
  shows "length (dr_features d) = 6" "\<forall>i \<in> set (dr_features d). 0 \<le> i \<and> i < 2 ^ 64" "0 < hd (dr_features d)" "dr_features d \<noteq> []"
proof -
  have w: "consistent_window (dr_features d)" by (rule draft_ok_window [OF assms])
  then show "length (dr_features d) = 6" "\<forall>i \<in> set (dr_features d). 0 \<le> i \<and> i < 2 ^ 64" by (simp_all add: consistent_window_def)
  then show ne: "dr_features d \<noteq> []" by auto
  have "0 < dr_features d ! 0" using w unfolding consistent_window_def by linarith
  with ne show "0 < hd (dr_features d)" by (simp add: hd_conv_nth)
qed

lemma make_draft_fields:
  "dr_label (make_draft env h family split w) \<in> {0, 1}" "dr_split (make_draft env h family split w) = split"
  "dr_capture_family_id (make_draft env h family split w) = family"
  "dr_sample_id (make_draft env h family split w) = ''sample-'' @ family @ ''-'' @ pad 3 (int w)"
  by (simp_all add: make_draft_def Let_def)

lemma draft_ok_label: "draft_ok env d \<Longrightarrow> dr_label d \<in> {0, 1}"
  unfolding draft_ok_def using make_draft_fields(1) by blast

lemma draft_ok_split: "draft_ok env d \<Longrightarrow> dr_split d = split_name env SOURCE_REVISION (dr_capture_family_id d)"
  unfolding draft_ok_def using make_draft_fields(2,3) by metis

definition tensor_of :: "draft \<Rightarrow> str" where
  "tensor_of d = concat (map (le_bytes 8) (dr_features d))"

definition record_of :: "ml_env \<Rightarrow> str \<Rightarrow> str \<Rightarrow> nat \<Rightarrow> draft \<Rightarrow> (str \<times> json) list" where
  "record_of env revision source_digest i d =
     sample_document d revision (int i * 48) source_digest (sha256_bytes env (tensor_of d))
       (sha256_bytes env (json_text (me_py env) (sort_json (snapshot_identity d))))
       (sample_label d (hd (dr_features d)) (sha256_bytes env (json_text (me_py env) (sort_json (join_identity d (hd (dr_features d)))))))"

lemma draft_ok_tensor: "draft_ok env d \<Longrightarrow> feature_tensor_bytes (map JInt (dr_features d)) = Inr (tensor_of d)"
  unfolding tensor_of_def by (rule feature_tensor_bytes_total [OF draft_ok_features(1,2)])

lemma sample_record_of:
  assumes "draft_ok env d"
  shows "sample_record env d revision (int i * 48) source_digest = Inr (record_of env revision source_digest i d)"
  using draft_ok_features(4) [OF assms] draft_ok_tensor [OF assms]
  by (auto simp: sample_record_def record_of_def canonical_json_bytes_def identities_finite split: list.splits)

lemma record_finite: "\<not> has_nonfinite (JObj (record_of env revision source_digest i d))"
  unfolding record_of_def by (rule sample_document_finite) (auto simp: sample_label_def Let_def)

lemma record_floats: "set (floats_of (JObj (record_of env revision source_digest i d))) \<subseteq> {0, 1}"
  by (auto simp: record_of_def sample_document_def sample_label_def Let_def)

section \<open>A record fits on a line\<close>

lemma length_family_name: "i < 100000 \<Longrightarrow> length (family_name i) = 29"
  using length_pad_le [of "int i" 5 6] by (simp add: family_name_def)

lemma length_split_name: "length (split_name env revision family) \<le> 11"
  by (simp add: split_name_def Let_def)

lemma draft_lengths:
  assumes "draft_ok env d"
  shows "length (dr_sample_id d) = 40" "length (dr_capture_family_id d) = 29" "length (dr_scenario_id d) \<le> 16" "length (dr_session_id d) = 39"
    "length (dr_window_id d) = 15" "length (dr_window_start d) = 20" "length (dr_window_end d) = 20" "length (dr_family d) \<le> 15"
    "length (dr_split d) \<le> 11" "length (dr_sort_key d) = 119" "0 \<le> dr_sequence d" "dr_sequence d \<le> 2560"
proof -
  obtain h family w i where d: "h < 2560" "w < 64" "i < 100000" "family = family_name i"
    "d = make_draft env h family (split_name env SOURCE_REVISION family) w"
    using assms unfolding draft_ok_def by blast
  have "length (pad 3 (int w)) = 3" "length (pad 8 (int h)) = 8"
    using d(1,2) length_pad_le [of "int w" 2 3] length_pad_le [of "int h" 7 8] by simp_all
  moreover have "length family = 29" using d(3,4) by (simp add: length_family_name)
  moreover have "length (int_str 0) = 1" "length (int_str 1) = 1" by code_simp+
  moreover have "length (window_time (h * 10)) = 20" "length (window_time (h * 10 + 10)) = 20"
    using d(1) by (auto intro!: length_window_time)
  ultimately show "length (dr_sample_id d) = 40" "length (dr_capture_family_id d) = 29" "length (dr_scenario_id d) \<le> 16" "length (dr_session_id d) = 39"
    "length (dr_window_id d) = 15" "length (dr_window_start d) = 20" "length (dr_window_end d) = 20" "length (dr_family d) \<le> 15"
    "length (dr_split d) \<le> 11" "length (dr_sort_key d) = 119" "0 \<le> dr_sequence d" "dr_sequence d \<le> 2560"
    using d(1) length_split_name [of env SOURCE_REVISION family]
    by (simp_all add: d(5) make_draft_def Let_def SOURCE_PROFILE_def)
qed

definition digests_short :: "ml_env \<Rightarrow> bool" where
  "digests_short env \<longleftrightarrow> (\<forall>raw. length (hexdigest (me_py env) raw) = 64)"

lemma length_sha256_bytes: "digests_short env \<Longrightarrow> length (sha256_bytes env raw) = 71"
  by (simp add: digests_short_def sha256_bytes_def)

lemma line_weight_ints:
  assumes "\<forall>i \<in> set is. 0 \<le> i \<and> i < 2 ^ 64" and "length is = 6"
  shows "line_weight (JArr (map JInt is)) \<le> 134"
proof -
  have "sum_list (map (\<lambda>i. 1 + line_weight (JInt i)) is) \<le> sum_list (map (\<lambda>_. 22) is)"
    using assms(1) line_weight_int by (intro sum_list_mono) fastforce
  then show ?thesis using assms(2) by (simp add: line_weight_simps comp_def sum_list_triv)
qed

lemma record_weight:
  assumes "draft_ok env d" "digests_short env" "length revision = 64" "length source_digest = 71" "i < 10 ^ 9"
  shows "line_weight (JObj (record_of env revision source_digest i d)) \<le> 16383"
proof -
  note lengths = draft_lengths [OF assms(1)] length_sha256_bytes [OF assms(2)] assms(3,4)
  have seq: "line_weight (JInt (dr_sequence d)) \<le> 21" "line_weight (JInt (dr_sequence d mod 2)) \<le> 21"
    "line_weight (JInt (1 + dr_sequence d div 256)) \<le> 21"
    using lengths(11,12) by (auto intro!: line_weight_int)
  have offset: "line_weight (JInt (int i * 48)) \<le> 21" using assms(5) by (intro line_weight_int) auto
  have label: "line_weight (JInt (dr_label d)) \<le> 21" using draft_ok_label [OF assms(1)] by (intro line_weight_int) auto
  have range: "0 \<le> hd (dr_features d)" "hd (dr_features d) < 10 ^ 20"
  proof -
    have "hd (dr_features d) \<in> set (dr_features d)" by (rule hd_in_set [OF draft_ok_features(4) [OF assms(1)]])
    then have "0 \<le> hd (dr_features d) \<and> hd (dr_features d) < 2 ^ 64" using draft_ok_features(2) [OF assms(1)] by blast
    then show "0 \<le> hd (dr_features d)" "hd (dr_features d) < 10 ^ 20" by simp_all
  qed
  then have packets: "line_weight (JInt (hd (dr_features d))) \<le> 21" "line_weight (JInt (if dr_label d = 1 then hd (dr_features d) else 0)) \<le> 21"
    by (auto intro!: line_weight_int)
  have fixed: "line_weight (JInt 10000) \<le> 21" "line_weight (JInt 48) \<le> 21" "line_weight (JInt 0) \<le> 21" "line_weight (JInt 1) \<le> 21"
    by (auto intro!: line_weight_int)
  show ?thesis
    using seq offset label packets fixed line_weight_ints [OF draft_ok_features(2,1) [OF assms(1)]] lengths
    by (simp add: record_of_def sample_document_def sample_label_def Let_def line_weight_simps(1,3-5)
          line_weight_simps(2) [of "[x]" for x] DATASET_ID_def SOURCE_PROFILE_def SOURCE_REVISION_def)
qed

lemma record_line:
  assumes "draft_ok env d" "digests_short env" "length revision = 64" "length source_digest = 71" "i < 10 ^ 9"
    and floats: "float_repr (me_py env) 0 = ''0.0''" "float_repr (me_py env) 1 = ''1.0''"
  shows "length (json_text (me_py env) (sort_json (JObj (record_of env revision source_digest i d))) @ [newline]) \<le> 16384"
    and "newline \<notin> set (json_text (me_py env) (sort_json (JObj (record_of env revision source_digest i d))))"
proof -
  let ?v = "JObj (record_of env revision source_digest i d)"
  have texts: "length (float_repr (me_py env) q) = 3" "newline \<notin> set (float_repr (me_py env) q)" if "q \<in> set (floats_of ?v)" for q
    using that record_floats floats by fastforce+
  have "int (length (json_text (me_py env) (sort_json ?v))) \<le> line_weight ?v"
    by (rule line_length [OF texts(1) record_finite])
  with record_weight [OF assms(1-5)] show "length (json_text (me_py env) (sort_json ?v) @ [newline]) \<le> 16384" by simp
  show "newline \<notin> set (json_text (me_py env) (sort_json ?v))"
    by (rule json_text_no_newline) (use texts(2) floats_of_sort record_finite sort_json_nonfinite in blast)+
qed

section \<open>The loop of the loader\<close>

text \<open>A line that is read as a record with the expected fields extends the state by that record.\<close>

lemma load_sample_step:
  assumes "read_sample ld manifest (Suc k) line = Inr record"
    and fields: "json_get record ''sample_id'' = Some (JStr sample_id)" "json_get record ''capture_family_id'' = Some (JStr family)"
    "json_get record ''split'' = Some (JStr split)" "json_get record ''feature_offset'' = Some (JInt (int k * 48))"
    "json_get record ''feature_values'' = Some (JArr vs)" "feature_tensor_bytes vs = Inr (take 48 (drop (48 * k) payload))"
    and "sample_id \<notin> ls_seen_ids st" and "ls_family_splits st family \<in> {None, Some split}"
  shows "load_sample ld manifest payload (Suc k) line st =
    Inr \<lparr>ls_seen_ids = insert sample_id (ls_seen_ids st), ls_family_splits = (ls_family_splits st)(family \<mapsto> split),
      ls_records = ls_records st @ [record]\<rparr>"
proof -
  have "nat (int k * 48) = 48 * k" by (simp add: nat_mult_distrib)
  then show ?thesis
    using assms
    by (auto simp: load_sample_def Let_def item_at_def integer_at_def sequence_at_def as_integer_def as_sequence_def text_of_def
        raise_if_def)
qed

lemma load_samples_all:
  assumes "\<And>i. i < length records \<Longrightarrow> read_sample ld manifest (Suc (k + i)) (lines ! i) = Inr (records ! i)"
    and "\<And>i. i < length records \<Longrightarrow> json_get (records ! i) ''sample_id'' = Some (JStr (ids ! i))
      \<and> json_get (records ! i) ''capture_family_id'' = Some (JStr (families ! i)) \<and> json_get (records ! i) ''split'' = Some (JStr (F (families ! i)))
      \<and> json_get (records ! i) ''feature_offset'' = Some (JInt (int (k + i) * 48))
      \<and> (\<exists>vs. json_get (records ! i) ''feature_values'' = Some (JArr vs) \<and> feature_tensor_bytes vs = Inr (take 48 (drop (48 * (k + i)) payload)))"
    and "length lines = length records" "length ids = length records" "length families = length records"
    and "distinct ids" "set ids \<inter> ls_seen_ids st = {}" "\<And>f s. ls_family_splits st f = Some s \<Longrightarrow> s = F f"
  shows "\<exists>st'. load_samples ld manifest payload (Suc k) lines st = Inr st' \<and> ls_records st' = ls_records st @ records"
  using assms
proof (induction records arbitrary: k lines ids families st)
  case (Cons doc docs)
  obtain line lines' where lines: "lines = line # lines'" using Cons.prems(3) by (cases lines) auto
  obtain name ids' where ids: "ids = name # ids'" using Cons.prems(4) by (cases ids) auto
  obtain family families' where families: "families = family # families'" using Cons.prems(5) by (cases families) auto
  let ?st = "\<lparr>ls_seen_ids = insert name (ls_seen_ids st), ls_family_splits = (ls_family_splits st)(family \<mapsto> F family),
      ls_records = ls_records st @ [doc]\<rparr>"
  have read: "read_sample ld manifest (Suc k) line = Inr doc" using Cons.prems(1) [of 0] by (simp add: lines)
  obtain vs where fields: "json_get doc ''sample_id'' = Some (JStr name)" "json_get doc ''capture_family_id'' = Some (JStr family)"
    "json_get doc ''split'' = Some (JStr (F family))" "json_get doc ''feature_offset'' = Some (JInt (int k * 48))"
    "json_get doc ''feature_values'' = Some (JArr vs)" "feature_tensor_bytes vs = Inr (take 48 (drop (48 * k) payload))"
    using Cons.prems(2) [of 0] by (auto simp: ids families)
  have step: "load_sample ld manifest payload (Suc k) line st = Inr ?st"
    by (rule load_sample_step [OF read fields]) (use Cons.prems(7,8) ids in auto)
  have "\<exists>st'. load_samples ld manifest payload (Suc (Suc k)) lines' ?st = Inr st' \<and> ls_records st' = ls_records ?st @ docs"
  proof (rule Cons.IH [of "Suc k" lines' ids' families'])
    show "read_sample ld manifest (Suc (Suc k + i)) (lines' ! i) = Inr (docs ! i)" if "i < length docs" for i
      using Cons.prems(1) [of "Suc i"] that by (simp add: lines)
    show "json_get (docs ! i) ''sample_id'' = Some (JStr (ids' ! i))
      \<and> json_get (docs ! i) ''capture_family_id'' = Some (JStr (families' ! i)) \<and> json_get (docs ! i) ''split'' = Some (JStr (F (families' ! i)))
      \<and> json_get (docs ! i) ''feature_offset'' = Some (JInt (int (Suc k + i) * 48))
      \<and> (\<exists>vs. json_get (docs ! i) ''feature_values'' = Some (JArr vs) \<and> feature_tensor_bytes vs = Inr (take 48 (drop (48 * (Suc k + i)) payload)))"
      if "i < length docs" for i
      using Cons.prems(2) [of "Suc i"] that by (simp add: ids families)
    show "length lines' = length docs" "length ids' = length docs" "length families' = length docs" "distinct ids'"
      "set ids' \<inter> ls_seen_ids ?st = {}"
      using Cons.prems(3-7) by (auto simp: lines ids families)
    show "s = F f" if "ls_family_splits ?st f = Some s" for f s using Cons.prems(8) that by (auto split: if_splits)
  qed
  then show ?case using step by (auto simp: lines)
qed simp

section \<open>Records read back\<close>

declare sort_json.simps(2) [simp del] sort_json_obj [simp]

lemma record_get:
  "json_get (record_of env revision source_digest i d) ''sample_id'' = Some (JStr (dr_sample_id d))"
  "json_get (record_of env revision source_digest i d) ''dataset_id'' = Some (JStr DATASET_ID)"
  "json_get (record_of env revision source_digest i d) ''dataset_revision'' = Some (JStr revision)"
  "json_get (record_of env revision source_digest i d) ''sort_key'' = Some (JStr (dr_sort_key d))"
  "json_get (record_of env revision source_digest i d) ''sample_weight'' = Some (JFloat (FFin 1))"
  "json_get (record_of env revision source_digest i d) ''split'' = Some (JStr (dr_split d))"
  "json_get (record_of env revision source_digest i d) ''capture_family_id'' = Some (JStr (dr_capture_family_id d))"
  "json_get (record_of env revision source_digest i d) ''feature_offset'' = Some (JInt (int i * 48))"
  "json_get (record_of env revision source_digest i d) ''feature_values'' = Some (JArr (map JInt (dr_features d)))"
  "json_get (record_of env revision source_digest i d) ''feature_tensor_digest'' = Some (JStr (sha256_bytes env (tensor_of d)))"
  "json_get (record_of env revision source_digest i d) ''source_profile'' = Some (JStr SOURCE_PROFILE)"
  "json_get (record_of env revision source_digest i d) ''source_revision'' = Some (JStr SOURCE_REVISION)"
  by (simp_all add: record_of_def sample_document_def json_get_def)

lemma record_label:
  obtains label where "json_get (record_of env revision source_digest i d) ''label'' = Some (JObj label)"
    "sample_label d (hd (dr_features d)) (sha256_bytes env (json_text (me_py env) (sort_json (join_identity d (hd (dr_features d)))))) = JObj label"
    "distinct (map fst label)"
proof -
  let ?l = "sample_label d (hd (dr_features d)) (sha256_bytes env (json_text (me_py env) (sort_json (join_identity d (hd (dr_features d))))))"
  obtain label where l: "?l = JObj label" by (simp add: sample_label_def Let_def)
  moreover have "json_get (record_of env revision source_digest i d) ''label'' = Some ?l"
    by (simp add: record_of_def sample_document_get)
  moreover have "distinct (map fst label)" using l by (auto simp: sample_label_def Let_def)
  ultimately show ?thesis using that by metis
qed

lemma record_distinct: "distinct (map fst (record_of env revision source_digest i d))"
  by (simp add: record_of_def sample_document_def)

lemma sorted_record_get: "json_get (sorted_fields (record_of env revision source_digest i d)) key
    = map_option sort_json (json_get (record_of env revision source_digest i d) key)"
  by (rule json_get_sorted [OF record_distinct])

lemma sorted_record_finite: "\<not> has_nonfinite (JObj (sorted_fields (record_of env revision source_digest i d)))"
  using record_finite sort_json_nonfinite sort_json_obj by metis

lemma sorted_record_label:
  obtains label where "json_get (sorted_fields (record_of env revision source_digest i d)) ''label'' = Some (JObj label)"
    "json_get label ''binary_label'' = Some (JInt (dr_label d))"
    "\<And>split. rounds_unit env \<Longrightarrow> draft_ok env d \<Longrightarrow> validate_label env label split = Inr ()"
proof -
  obtain label where l: "json_get (record_of env revision source_digest i d) ''label'' = Some (JObj label)"
    "sample_label d (hd (dr_features d)) (sha256_bytes env (json_text (me_py env) (sort_json (join_identity d (hd (dr_features d)))))) = JObj label"
    "distinct (map fst label)"
    by (rule record_label)
  note get = json_get_sorted [OF l(3)] sample_label_fields [OF l(2)]
  have "json_get (sorted_fields (record_of env revision source_digest i d)) ''label'' = Some (JObj (sorted_fields label))"
    by (simp add: sorted_record_get l(1))
  moreover have "json_get (sorted_fields label) ''binary_label'' = Some (JInt (dr_label d))" by (simp add: get)
  moreover have "validate_label env (sorted_fields label) split = Inr ()" if "rounds_unit env" "draft_ok env d" for split
    by (rule label_valid [OF that(1) draft_ok_features(3) [OF that(2)] draft_ok_label [OF that(2)]]) (simp_all add: get)
  ultimately show ?thesis using that by blast
qed

lemma sorted_record_valid:
  assumes "draft_ok env d" "rounds_unit env"
  shows "validate_dataset_sample env (sorted_fields (record_of env revision source_digest i d)) = Inr ()"
proof -
  obtain label where l: "json_get (sorted_fields (record_of env revision source_digest i d)) ''label'' = Some (JObj label)"
    "\<And>split. validate_label env label split = Inr ()"
    using sorted_record_label assms by metis
  show ?thesis
    by (rule sample_valid [OF sorted_record_finite draft_ok_features(1,2) [OF assms(1)],
          where k = "int i" and family = "dr_capture_family_id d" and label = label])
      (use l in \<open>simp_all add: sorted_record_get record_get tensor_of_def draft_ok_split [OF assms(1)]\<close>)
qed

lemma read_record:
  assumes "draft_ok env d" "rounds_unit env" "ld_env ld = env"
    and "line = json_text (me_py env) (sort_json (JObj (record_of env revision source_digest i d))) @ [newline]" "length line \<le> 16384"
    and "ld_loads ld line = Some (sort_json (JObj (record_of env revision source_digest i d)))"
    and "ld_sample_error ld (sort_json (JObj (record_of env revision source_digest i d))) = None"
    and "json_get manifest ''dataset_id'' = Some (JStr DATASET_ID)" "json_get manifest ''dataset_revision'' = Some (JStr revision)"
  shows "read_sample ld manifest n line = Inr (sorted_fields (record_of env revision source_digest i d))"
proof -
  let ?r = "record_of env revision source_digest i d"
  have "canonical_json_bytes (me_py env) (JObj (sorted_fields ?r)) = Inr (json_text (me_py env) (sort_json (JObj ?r)))"
    using sorted_record_finite sort_json_idem [of "JObj ?r"] by (simp add: canonical_json_bytes_def del: has_nonfinite.simps)
  then show ?thesis
    using assms(3-9) sorted_record_valid [OF assms(1,2)]
    by (simp add: read_sample_def Let_def item_at_def sorted_record_get record_get raise_if_def schema_check_def)
qed

section \<open>What was prepared\<close>

lemma map_enumerate: "map (\<lambda>(i, x). f i x) (enumerate_from 0 xs) = map (\<lambda>i. f i (xs ! i)) [0..<length xs]"
  by (rule nth_equalityI) (simp_all add: split_beta)

lemma hexdigest_length: "digests_short env \<Longrightarrow> length (hexdigest (me_py env) raw) = 64"
  by (simp add: digests_short_def)

lemma prepare_parts:
  assumes "prepare g = Inr p"
  defines "env \<equiv> gx_env g"
  shows "select_families env = Inr (pr_families p)" and "pr_drafts p = build_drafts env (pr_families p)"
    and "pr_features p = concat (map tensor_of (pr_drafts p))"
    and "pr_records p = map (\<lambda>i. record_of env (pr_revision p) (pr_source_digest p) i (pr_drafts p ! i)) [0..<length (pr_drafts p)]"
    and "pr_index p = concat (map (\<lambda>r. json_text (me_py env) (sort_json (JObj r)) @ [newline]) (pr_records p))"
    and "digests_short env \<Longrightarrow> length (pr_revision p) = 64 \<and> length (pr_source_digest p) = 71"
    and "\<exists>golden. json_get (pr_reference p) ''telemetry_golden_digest'' = Some golden"
proof -
  obtain reference families tensors revision golden source_raw rows lines splits where
    families: "select_families env = Inr families" and
    tensors: "mapM (\<lambda>d. feature_tensor_bytes (map JInt (dr_features d))) (build_drafts env families) = Inr tensors" and
    revision: "dataset_revision env (build_drafts env families) (concat tensors) = Inr revision" and
    golden: "item_at reference ''telemetry_golden_digest'' = Inr golden" and
    rows: "mapM (\<lambda>(index, d). sample_record env d revision (int index * 48) (sha256_bytes env source_raw))
      (enumerate_from 0 (build_drafts env families)) = Inr rows" and
    lines: "mapM (\<lambda>record. rbind (canonical_json_bytes (me_py env) (JObj record)) (\<lambda>raw. Inr (raw @ [CHR 0x0A]))) rows = Inr lines" and
    p: "p = \<lparr>pr_reference = reference, pr_families = families, pr_drafts = build_drafts env families, pr_revision = revision,
        pr_source_digest = sha256_bytes env source_raw, pr_records = rows, pr_features = concat tensors, pr_index = concat lines,
        pr_splits = splits\<rparr>"
    using assms(1) unfolding prepare_def Let_def env_def by (elim rbindE) (simp only: sum.inject; blast)
  have ok: "draft_ok env d" if "d \<in> set (build_drafts env families)" for d by (rule build_drafts_ok [OF families that])
  show "select_families env = Inr (pr_families p)" "pr_drafts p = build_drafts env (pr_families p)" using families by (simp_all add: p)
  have "mapM (\<lambda>d. feature_tensor_bytes (map JInt (dr_features d))) (build_drafts env families) = Inr (map tensor_of (build_drafts env families))"
    by (rule mapM_all_Inr) (rule draft_ok_tensor [OF ok])
  then have "tensors = map tensor_of (build_drafts env families)" using tensors by simp
  then show "pr_features p = concat (map tensor_of (pr_drafts p))" by (simp add: p)
  have "mapM (\<lambda>(index, d). sample_record env d revision (int index * 48) (sha256_bytes env source_raw)) (enumerate_from 0 (build_drafts env families))
      = Inr (map (\<lambda>(i, d). record_of env revision (sha256_bytes env source_raw) i d) (enumerate_from 0 (build_drafts env families)))"
    by (rule mapM_all_Inr) (use ok sample_record_of in \<open>auto simp: enumerate_from_def dest: set_zip_rightD\<close>)
  with rows have rows': "rows = map (\<lambda>i. record_of env revision (sha256_bytes env source_raw) i (build_drafts env families ! i)) [0..<length (build_drafts env families)]"
    by (simp add: map_enumerate)
  then show "pr_records p = map (\<lambda>i. record_of env (pr_revision p) (pr_source_digest p) i (pr_drafts p ! i)) [0..<length (pr_drafts p)]"
    by (simp add: p)
  have "mapM (\<lambda>record. rbind (canonical_json_bytes (me_py env) (JObj record)) (\<lambda>raw. Inr (raw @ [CHR 0x0A]))) rows
      = Inr (map (\<lambda>r. json_text (me_py env) (sort_json (JObj r)) @ [newline]) rows)"
    by (rule mapM_all_Inr) (use record_finite in \<open>auto simp: rows' canonical_json_bytes_def simp del: has_nonfinite.simps\<close>)
  then show "pr_index p = concat (map (\<lambda>r. json_text (me_py env) (sort_json (JObj r)) @ [newline]) (pr_records p))"
    using lines by (simp add: p)
  have "\<exists>raw. revision = hexdigest (me_py env) raw" using revision by (auto simp: dataset_revision_def rbind_eq_Inr)
  then show "digests_short env \<Longrightarrow> length (pr_revision p) = 64 \<and> length (pr_source_digest p) = 71"
    using hexdigest_length length_sha256_bytes by (auto simp: p)
  show "\<exists>golden. json_get (pr_reference p) ''telemetry_golden_digest'' = Some golden" using golden by (simp add: p)
qed

lemma last_dash:
  "xs @ c # ys = xs' @ c # ys' \<Longrightarrow> c \<notin> set ys \<Longrightarrow> c \<notin> set ys' \<Longrightarrow> xs = xs' \<and> ys = ys'"
  by (auto simp: append_eq_append_conv2 Cons_eq_append_conv append_eq_Cons_conv)

lemma pad_no_dash: "0 \<le> i \<Longrightarrow> CHR ''-'' \<notin> set (pad width i)"
proof -
  assume "0 \<le> i"
  have "\<not> is_digit CHR ''-''" by code_simp
  then show ?thesis using nat_str_digits [of "nat i"] \<open>0 \<le> i\<close> by (auto simp: pad_def Let_def int_str_def list_all_iff split: if_splits)
qed

lemma sample_id_inject:
  assumes "dr_sample_id (make_draft env h f s w) = dr_sample_id (make_draft env h' f' s' w')"
  shows "f = f' \<and> w = w'"
proof -
  have "f @ CHR ''-'' # pad 3 (int w) = f' @ CHR ''-'' # pad 3 (int w')" using assms by (simp add: make_draft_fields)
  then have "f = f' \<and> pad 3 (int w) = pad 3 (int w')" by (rule last_dash) (simp_all add: pad_no_dash)
  then show ?thesis using pad_inject [of "int w" "int w'" 3] by simp
qed

lemma sample_ids_distinct:
  assumes "select_families env = Inr families"
  shows "distinct (map dr_sample_id (build_drafts env families))"
proof -
  have "distinct (map dr_sample_id (drafts_from env g fams))" if "distinct (map fst fams)" for g fams
    using that
  proof (induction env g fams rule: drafts_from.induct)
    case (2 env g family split fams)
    let ?here = "map (\<lambda>w. make_draft env (g + w) family split w) [0..<WINDOWS_PER_FAMILY]"
    have "inj_on (\<lambda>w. dr_sample_id (make_draft env (g + w) family split w)) (set [0..<WINDOWS_PER_FAMILY])"
      by (rule inj_onI) (use sample_id_inject in blast)
    then have "distinct (map dr_sample_id ?here)" by (simp add: distinct_map comp_def)
    moreover have "dr_sample_id d \<noteq> dr_sample_id d'" if d: "d \<in> set ?here" and d': "d' \<in> set (drafts_from env (g + WINDOWS_PER_FAMILY) fams)" for d d'
    proof
      assume same: "dr_sample_id d = dr_sample_id d'"
      obtain h f s w where f: "(f, s) \<in> set fams" "d' = make_draft env h f s w" using drafts_from_bounded [OF d'] by blast
      obtain v where "d = make_draft env (g + v) family split v" using d by auto
      then have "family = f" using same f(2) sample_id_inject by simp
      then have "family \<in> fst ` set fams" using f(1) by force
      then show False using "2.prems" by simp
    qed
    ultimately show ?case using "2.IH" "2.prems" by (auto simp: image_iff)
  qed simp
  then have "distinct (map dr_sample_id (drafts_from env 0 families))" using selected_families [OF assms] by blast
  moreover have "mset (map dr_sample_id (build_drafts env families)) = mset (map dr_sample_id (drafts_from env 0 families))"
    by (simp add: build_drafts_def)
  ultimately show ?thesis using mset_eq_imp_distinct_iff by blast
qed

section \<open>The split manifest is small\<close>

fun indent_weight :: "nat \<Rightarrow> json \<Rightarrow> int" where
  "indent_weight level (JArr vs) = 3 + 2 * int level + sum_list (map (\<lambda>v. 4 + 2 * int level + indent_weight (Suc level) v) vs)"
| "indent_weight level (JObj kvs) =
     3 + 2 * int level + sum_list (map (\<lambda>kv. 8 + 2 * int level + 6 * int (length (fst kv)) + indent_weight (Suc level) (snd kv)) kvs)"
| "indent_weight level v = json_weight v"

lemma length_line_at [simp]: "length (line_at level) = 1 + 2 * level"
  by (simp add: line_at_def)

lemma json_str_length: "length (json_str s) \<le> 6 * length s + 2"
  using json_str_weight [of s] length_le_text_weight [of "json_str s"] by linarith

lemma joined_lines:
  assumes "\<And>x. x \<in> set xs \<Longrightarrow> int (length (f x)) \<le> g x" and "xs \<noteq> []"
  shows "int (length (line_at (Suc level) @ join ('','' @ line_at (Suc level)) (map f xs))) \<le> sum_list (map (\<lambda>x. 4 + 2 * int level + g x) xs)"
proof -
  have "(\<Sum>x\<leftarrow>xs. int (length (f x))) \<le> (\<Sum>x\<leftarrow>xs. g x)" using assms(1) by (intro sum_list_mono) auto
  moreover have "int (\<Sum>x\<leftarrow>xs. length (f x)) = (\<Sum>x\<leftarrow>xs. int (length (f x)))" by (induction xs) auto
  moreover have "(\<Sum>x\<leftarrow>xs. 4 + 2 * int level + g x) = int (length xs) * (4 + 2 * int level) + (\<Sum>x\<leftarrow>xs. g x)"
    by (simp add: sum_list_addf sum_list_triv algebra_simps)
  moreover obtain n where "length xs = Suc n" using assms(2) by (cases xs) auto
  ultimately show ?thesis by (simp add: length_join comp_def algebra_simps)
qed

lemma atom_lengths:
  "int (length (json_text env (JInt i))) \<le> json_weight (JInt i)" "int (length (json_text env (JStr s))) \<le> json_weight (JStr s)"
  using json_text_weight [of "JInt i" env] length_le_text_weight [of "int_str i"] json_text_weight [of "JStr s" env]
    length_le_text_weight [of "json_str s"] by simp_all

lemma json_indent_length: "float_free v \<Longrightarrow> int (length (json_indent env level v)) \<le> indent_weight level v"
proof (induction env level v rule: json_indent.induct)
  case (1 env level vs)
  show ?case
  proof (cases "vs = []")
    case False
    have "int (length (line_at (Suc level) @ join ('','' @ line_at (Suc level)) (map (json_indent env (Suc level)) vs)))
        \<le> sum_list (map (\<lambda>v. 4 + 2 * int level + indent_weight (Suc level) v) vs)"
      by (rule joined_lines) (use 1 False in \<open>auto simp: list_all_iff\<close>)
    then show ?thesis using False by simp
  qed simp
next
  case (2 env level kvs)
  show ?case
  proof (cases "kvs = []")
    case False
    have "int (length (line_at (Suc level) @ join ('','' @ line_at (Suc level))
          (map (\<lambda>kv. json_str (fst kv) @ '': '' @ json_indent env (Suc level) (snd kv)) kvs)))
        \<le> sum_list (map (\<lambda>kv. 4 + 2 * int level + (4 + 6 * int (length (fst kv)) + indent_weight (Suc level) (snd kv))) kvs)"
    proof (rule joined_lines)
      fix kv assume kv: "kv \<in> set kvs"
      have "int (length (json_indent env (Suc level) (snd kv))) \<le> indent_weight (Suc level) (snd kv)"
        by (rule "2.IH") (use 2 False kv in \<open>auto simp: list_all_iff\<close>)
      then show "int (length (json_str (fst kv) @ '': '' @ json_indent env (Suc level) (snd kv)))
          \<le> 4 + 6 * int (length (fst kv)) + indent_weight (Suc level) (snd kv)"
        using json_str_length [of "fst kv"] by simp
    qed (rule False)
    also have "(\<lambda>kv. 4 + 2 * int level + (4 + 6 * int (length (fst kv)) + indent_weight (Suc level) (snd kv)))
        = (\<lambda>kv. 8 + 2 * int level + 6 * int (length (fst kv)) + indent_weight (Suc level) (snd kv))" by (simp add: fun_eq_iff)
    finally show ?thesis using False by simp
  qed simp
qed (simp_all add: atom_lengths [simplified])

lemma indent_weight_sort: "indent_weight level (sort_json v) = indent_weight level v"
proof (induction v arbitrary: level rule: sort_json.induct)
  case (1 vs)
  then have "map (\<lambda>v. 4 + 2 * int level + indent_weight (Suc level) (sort_json v)) vs
      = map (\<lambda>v. 4 + 2 * int level + indent_weight (Suc level) v) vs" by simp
  from arg_cong [OF this, of sum_list] show ?case by (simp add: comp_def)
next
  case (2 kvs)
  let ?f = "\<lambda>kv. 8 + 2 * int level + 6 * int (length (fst kv)) + indent_weight (Suc level) (snd kv)"
  have same: "sum_list (map ?f (sort_key fst xs)) = sum_list (map ?f xs)" for xs
  proof -
    have "mset (map ?f (sort_key fst xs)) = mset (map ?f xs)" by simp
    from arg_cong [OF this, of sum_mset] show ?thesis by (simp only: sum_mset_sum_list)
  qed
  have "map ?f (map (\<lambda>kv. (fst kv, sort_json (snd kv))) kvs) = map ?f kvs" using 2 by simp
  with same [of "map (\<lambda>kv. (fst kv, sort_json (snd kv))) kvs"] show ?case by (simp add: sorted_fields_def del: map_map)
qed simp_all

lemma split_manifest_free: "float_free (split_manifest families records)"
  by (auto simp: split_manifest_def split_counts_def family_counts_def FAMILY_QUOTAS_def list_all_iff)

lemma count_weight: "indent_weight level (JInt (int n)) \<le> 21 + int n"
proof -
  have "int (length (nat_str n)) \<le> int n + 20"
  proof (cases "n < 10 ^ 20")
    case True
    then show ?thesis using nat_str_length [of n 19] by simp
  next
    case False
    have "length (nat_str m) \<le> m + 1" for m
    proof (induction m rule: less_induct)
      case (less m)
      show ?case
      proof (cases "m < 10")
        case False
        then have "length (nat_str (m div 10)) \<le> m div 10 + 1" by (intro less) simp
        then show ?thesis using False by (subst nat_str.simps) simp
      qed (subst nat_str.simps; simp)
    qed
    from this [of n] show ?thesis by simp
  qed
  then show ?thesis by (simp add: digits_bound_def)
qed

lemma family_rows_weight:
  assumes "\<And>family split. (family, split) \<in> set families \<Longrightarrow> length family = 29 \<and> length split \<le> 11"
  shows "indent_weight 1 (JArr (map (\<lambda>(family, split). JObj [(''capture_family_id'', JStr family), (''split'', JStr split)]) families))
    \<le> 5 + 1000 * int (length families)"
  using assms
proof (induction families)
  case (Cons f families)
  obtain family split where f: "f = (family, split)" by (cases f)
  then have "length family = 29" "length split \<le> 11" using Cons.prems by auto
  moreover have "indent_weight 1 (JArr (map (\<lambda>(family, split). JObj [(''capture_family_id'', JStr family), (''split'', JStr split)]) families))
    \<le> 5 + 1000 * int (length families)" by (rule Cons.IH) (use Cons.prems in auto)
  ultimately show ?case by (simp add: f str_cost_length)
qed simp

lemma split_text_small:
  assumes "select_families env = Inr families" and "length records = 2560"
    and "pretty_json py (split_manifest families records) = Inr body"
  shows "length body \<le> 10 * 1024 * 1024 * 1024"
proof -
  have body: "body = json_indent py 0 (sort_json (split_manifest families records)) @ [newline]"
    using assms(3) by (auto simp: pretty_json_def split: if_splits)
  have free: "float_free (sort_json v)" if "float_free v" for v using that by (induction v rule: sort_json.induct) (auto simp: list_all_iff sorted_fields_def)
  have rows: "indent_weight 1 (JArr (map (\<lambda>(family, split). JObj [(''capture_family_id'', JStr family), (''split'', JStr split)]) families)) \<le> 40005"
    using family_rows_weight [of families] length_families [OF assms(1)] selected_names [OF assms(1)] selected_split [OF assms(1)]
      length_family_name length_split_name by fastforce
  have count: "indent_weight level (JInt (count_records P key records)) \<le> 21 + 2560" for level P key
  proof -
    have "count_records P key records \<le> 2560" unfolding count_records_def using assms(2) by (metis length_filter_le of_nat_le_iff of_nat_numeral)
    moreover have "\<exists>n. count_records P key records = int n" by (simp add: count_records_def)
    ultimately show ?thesis using count_weight by (metis add_left_mono order_trans)
  qed
  have family_count: "indent_weight level (JInt (int (length (filter Q families)))) \<le> 21 + 40" for level Q
  proof -
    have "int (length (filter Q families)) \<le> 40" using length_filter_le [of Q families] length_families [OF assms(1)] by simp
    then show ?thesis using count_weight [of level "length (filter Q families)"] by linarith
  qed
  have zero: "indent_weight level (JInt 0) = 7" for level by (simp add: digits_bound_def)
  have "indent_weight 0 (split_manifest families records) \<le> 100000"
    using rows count [of "Suc (Suc 0)" "\<lambda>v. v = JStr ''train''" "''split''"] family_count [of "Suc (Suc 0)" "\<lambda>(_, split). split = ''train''"]
      count [of "Suc (Suc 0)" "\<lambda>v. v = JStr ''early_stop''" "''split''"] family_count [of "Suc (Suc 0)" "\<lambda>(_, split). split = ''early_stop''"]
      count [of "Suc (Suc 0)" "\<lambda>v. v = JStr ''calibration''" "''split''"] family_count [of "Suc (Suc 0)" "\<lambda>(_, split). split = ''calibration''"]
      count [of "Suc (Suc 0)" "\<lambda>v. v = JStr ''blind_test''" "''split''"] family_count [of "Suc (Suc 0)" "\<lambda>(_, split). split = ''blind_test''"]
    by (simp add: split_manifest_def split_counts_def family_counts_def FAMILY_QUOTAS_def zero SPLIT_ALGORITHM_def str_cost_length
        SOURCE_REVISION_def del: indent_weight.simps(1) indent_weight.simps(5))
  moreover have "int (length body) \<le> 1 + indent_weight 0 (split_manifest families records)"
    using json_indent_length [OF free [OF split_manifest_free], of py 0 families records] by (simp add: body indent_weight_sort)
  ultimately show ?thesis by linarith
qed

section \<open>The manifest read back\<close>

lemma json_get_simps:
  "json_get [] k = None" "json_get ((k', v) # kvs) k = (if k' = k then Some v else json_get kvs k)"
  by (simp_all add: json_get_def)

lemma make_manifest_parts:
  assumes "make_manifest g p = Inr manifest"
  obtains golden eligible a b c d e f h u where
    "manifest = manifest_document (gx_env g) p golden eligible a b c d e f h" "validate_dataset_manifest (gx_env g) manifest = Inr u"
  using assms unfolding make_manifest_def Let_def by (elim rbindE) (simp only: sum.inject; blast)

lemma manifest_sorted_get:
  assumes "manifest = manifest_document env p golden eligible a b c d e f h"
  shows "json_get (sorted_fields manifest) key = map_option sort_json (json_get manifest key)"
  by (rule json_get_sorted) (simp add: assms manifest_document_def)

lemmas manifest_fields = manifest_document_def feature_contract_def manifest_files_def quality_summary_def split_counts_def
  source_profile_def FAMILY_QUOTAS_def

lemma manifest_reads:
  assumes "manifest = manifest_document env p golden eligible a b c d e f h"
  shows "json_get manifest ''feature_contract'' = Some (feature_contract e)"
    "json_get manifest ''files'' = Some (manifest_files env p)"
    "json_get manifest ''quality_summary'' = Some (quality_summary env p eligible a)"
    "json_get manifest ''source_profiles'' = Some (JArr [source_profile p f a])"
  by (simp_all add: assms manifest_document_def json_get_simps)

lemmas json_reads = mapping_at_def sequence_at_def integer_at_def number_at_def string_at_def item_at_def as_mapping_def as_sequence_def
  as_integer_def as_string_def as_number_def json_get_sorted json_get_simps

lemma sorted_counts:
  assumes "manifest = manifest_document env p golden eligible a b c d e f h" and "validate_counts manifest = Inr summary"
  shows "JObj summary = quality_summary env p eligible a" "validate_counts (sorted_fields manifest) = Inr (sorted_fields summary)"
  using assms(2)
  by (auto simp: validate_counts_def manifest_sorted_get [OF assms(1)] manifest_reads [OF assms(1)] json_reads manifest_files_def
      quality_summary_def split_counts_def FAMILY_QUOTAS_def raise_if_def split: if_splits)

lemma sorted_source:
  "validate_source i (sort_json (source_profile p f a)) = validate_source i (source_profile p f a)"
  by (simp add: validate_source_def source_profile_def json_reads)

lemma sorted_manifest_valid:
  assumes m: "manifest = manifest_document env p golden eligible a b c d e f h" and valid: "validate_dataset_manifest env manifest = Inr ()"
  shows "validate_dataset_manifest env (sorted_fields manifest) = Inr ()"
proof -
  obtain u summary where "ensure_finite ''$'' (JObj manifest) = Inr u" and summary: "validate_counts manifest = Inr summary"
    using valid unfolding validate_dataset_manifest_def rbind_eq_Inr by blast
  then have "\<not> has_nonfinite (JObj manifest)" using ensure_finite_iff(1) [of "''$''" "JObj manifest"] by (cases u) metis
  then have "\<not> has_nonfinite (JObj (sorted_fields manifest))" using sort_json_nonfinite sort_json_obj by metis
  then have fin: "ensure_finite ''$'' (JObj (sorted_fields manifest)) = Inr ()" unfolding ensure_finite_iff .
  have fin': "ensure_finite ''$'' (JObj manifest) = Inr ()" using \<open>ensure_finite ''$'' (JObj manifest) = Inr u\<close> by simp
  have s: "JObj summary = quality_summary env p eligible a" "validate_counts (sorted_fields manifest) = Inr (sorted_fields summary)"
    using sorted_counts [OF m summary] .
  have get: "json_get summary ''ground_truth'' = Some (JObj [(''eligible_packets'', JInt eligible), (''labeled_eligible_packets'', JInt eligible),
         (''coverage'', jnum env 1), (''conflicts'', JInt 0), (''coverage_digest'', JStr a)])"
    "distinct (map fst summary)"
    using s(1) by (simp_all add: quality_summary_def json_get_simps)
  have "sort_json (jnum env 1) = jnum env 1" by simp
  with valid show ?thesis
    unfolding validate_dataset_manifest_def
    by (simp add: fin fin' summary s(2) manifest_sorted_get [OF m] manifest_reads [OF m] json_reads get feature_contract_def sorted_source
        enumerate_from_def del: ensure_finite.simps)
qed

section \<open>The files read back\<close>

text \<open>The dataset directory as the loader finds it: ordinary files below it, without links.\<close>

definition directory_of :: "file_system \<Rightarrow> str list \<Rightarrow> dataset_directory" where
  "directory_of fs output relative =
     (case fs (out_path output (path_parts relative)) of
        None \<Rightarrow> Inl MFileNotFoundError
      | Some raw \<Rightarrow> Inr \<lparr>df_inside = True, df_symlink = False, df_regular = True, df_bytes = raw\<rparr>)"

lemma generation_done:
  assumes "generate_resolved g a output fs = (Inr manifest, states)"
  obtains p where "prepare g = Inr p" "make_manifest g p = Inr manifest"
    "\<And>w path raw. (w, path, raw) \<in> set (data_writes a output p) \<Longrightarrow> last states path = Some raw"
proof -
  obtain p first u later v where p: "prepare g = Inr p"
    and first: "run_writes (map (\<lambda>(w, path, raw). write_fresh_bytes w path raw) (data_writes a output p)) fs = (Inr u, first)"
    and m: "make_manifest g p = Inr manifest"
    and later: "run_writes [write_fresh_json (me_py (gx_env g)) (an_manifest a) (out_path output [''manifest.json'']) (JObj manifest),
         write_fresh_json (me_py (gx_env g)) (an_reference a) (out_path output [''reference-extractor-golden.json'']) (JObj (pr_reference p))]
         (last first) = (Inr v, later)"
    and states: "states = first @ later"
    using assms by (auto simp: generate_resolved_def rbind_eq_Inr split: sum.splits prod.splits simp del: run_writes.simps)
  have keep: "keeps_files (run_writes [write_fresh_json (me_py (gx_env g)) (an_manifest a) (out_path output [''manifest.json'']) (JObj manifest),
         write_fresh_json (me_py (gx_env g)) (an_reference a) (out_path output [''reference-extractor-golden.json'']) (JObj (pr_reference p))])"
    by (rule keeps_files_run) (simp add: write_fresh_json_keeps)
  have "later \<noteq> []" using keep later unfolding keeps_files_def by blast
  then have "last first \<subseteq>\<^sub>m last states" using keeps_files_last [OF keep later] states by simp
  then have "last states path = Some raw" if "(w, path, raw) \<in> set (data_writes a output p)" for w path raw
    using byte_files.all_in_place [OF first that] by (rule map_leD)
  with p m show ?thesis using that by blast
qed

lemma path_parts_data:
  "path_parts ''data/features.bin'' = [''data'', ''features.bin'']" "path_parts ''data/samples.jsonl'' = [''data'', ''samples.jsonl'']"
  "path_parts ''data/splits.json'' = [''data'', ''splits.json'']"
  by code_simp+

lemma open_data_files:
  assumes "\<And>w path raw. (w, path, raw) \<in> set (data_writes a output p) \<Longrightarrow> fs path = Some raw"
    and "length (pr_features p) \<le> 10 * 1024 * 1024 * 1024" "length (pr_index p) \<le> 10 * 1024 * 1024 * 1024" "length (pr_splits p) \<le> 10 * 1024 * 1024 * 1024"
  shows "open_file env (directory_of fs output) (sort_json (manifest_files env p)) ''features'' = Inr (pr_features p)"
    and "open_file env (directory_of fs output) (sort_json (manifest_files env p)) ''sample_index'' = Inr (pr_index p)"
    and "open_file env (directory_of fs output) (sort_json (manifest_files env p)) ''split_manifest'' = Inr (pr_splits p)"
proof -
  have "fs (out_path output [''data'', ''features.bin'']) = Some (pr_features p)" "fs (out_path output [''data'', ''samples.jsonl'']) = Some (pr_index p)"
    "fs (out_path output [''data'', ''splits.json'']) = Some (pr_splits p)"
    using assms(1) by (auto simp: data_writes_def)
  note files = this [folded path_parts_data]
  show "open_file env (directory_of fs output) (sort_json (manifest_files env p)) ''features'' = Inr (pr_features p)"
    "open_file env (directory_of fs output) (sort_json (manifest_files env p)) ''sample_index'' = Inr (pr_index p)"
    "open_file env (directory_of fs output) (sort_json (manifest_files env p)) ''split_manifest'' = Inr (pr_splits p)"
    using assms(2-4) files
    by (simp_all add: open_file_def indexed_def manifest_files_def json_get_sorted json_get_simps item_at_def text_of_def directory_of_def Let_def)
qed

lemma length_drafts_from: "length (drafts_from env g families) = 64 * length families"
  by (induction env g families rule: drafts_from.induct) (simp_all add: WINDOWS_PER_FAMILY_def)

lemma length_tensor_of: "draft_ok env d \<Longrightarrow> length (tensor_of d) = 48"
  using draft_ok_features(1) by (simp add: tensor_of_def)

lemma nth_block:
  assumes "\<And>xs. xs \<in> set xss \<Longrightarrow> length xs = n" and "i < length xss"
  shows "take n (drop (n * i) (concat xss)) = xss ! i"
  using assms
proof (induction xss arbitrary: i)
  case (Cons xs xss)
  then show ?case by (cases i) (auto simp: add.commute)
qed simp

lemma feature_rows_drafts:
  assumes "\<And>d. d \<in> set ds \<Longrightarrow> draft_ok env d"
  shows "feature_rows (concat (map tensor_of ds)) = map dr_features ds"
proof -
  have "chunks_of 48 (concat (map tensor_of ds)) = map tensor_of ds"
    by (rule chunks_of_concat) (use assms length_tensor_of in auto)
  moreover have "map from_le_bytes (chunks_of 8 (tensor_of d)) = dr_features d" if "d \<in> set ds" for d
  proof -
    have "chunks_of 8 (tensor_of d) = map (le_bytes 8) (dr_features d)" unfolding tensor_of_def by (rule chunks_of_concat) auto
    moreover have "map (from_le_bytes \<circ> le_bytes 8) (dr_features d) = dr_features d"
      by (rule map_idI) (use draft_ok_features(2) [OF assms [OF that]] in \<open>auto simp: from_le_bytes_le_bytes\<close>)
    ultimately show ?thesis by simp
  qed
  ultimately show ?thesis by (simp add: feature_rows_def)
qed


section \<open>The dataset read back\<close>

lemma build_drafts_keys:
  "sort (map dr_sort_key (build_drafts env families)) = map dr_sort_key (build_drafts env families)"
  unfolding build_drafts_def by (rule sorted_sort_id) simp

text \<open>The file of the sample index, line by line.\<close>

lemma prepared_index:
  assumes "prepare g = Inr p" "digests_short (gx_env g)"
    and floats: "float_repr (me_py (gx_env g)) 0 = ''0.0''" "float_repr (me_py (gx_env g)) 1 = ''1.0''"
  defines "encode \<equiv> \<lambda>r. json_text (me_py (gx_env g)) (sort_json (JObj r)) @ [newline]"
  shows "stream_lines [] (pr_index p) = map encode (pr_records p)" and "\<And>r. r \<in> set (pr_records p) \<Longrightarrow> length (encode r) \<le> 16384"
    and "length (pr_drafts p) = 2560"
proof -
  note parts = prepare_parts [OF assms(1)]
  have count: "length (pr_drafts p) = 2560"
    using length_families [OF parts(1)] by (simp add: parts(2) build_drafts_def length_drafts_from)
  then show "length (pr_drafts p) = 2560" .
  have each: "length (encode r) \<le> 16384 \<and> newline \<notin> set (json_text (me_py (gx_env g)) (sort_json (JObj r)))" if r: "r \<in> set (pr_records p)" for r
  proof -
    obtain i where i: "i < length (pr_drafts p)" "r = record_of (gx_env g) (pr_revision p) (pr_source_digest p) i (pr_drafts p ! i)"
      using r parts(4) by auto
    have "draft_ok (gx_env g) (pr_drafts p ! i)" using build_drafts_ok [OF parts(1)] nth_mem [OF i(1)] parts(2) by metis
    then show ?thesis
      using record_line [of "gx_env g" "pr_drafts p ! i" "pr_revision p" "pr_source_digest p" i] assms(2) parts(6) [OF assms(2)] floats i count
      by (simp add: encode_def)
  qed
  then show "\<And>r. r \<in> set (pr_records p) \<Longrightarrow> length (encode r) \<le> 16384" using each by blast
  have "stream_lines [] (concat (map encode (pr_records p))) = map encode (pr_records p)"
  proof (rule stream_lines_of)
    fix line assume "line \<in> set (map encode (pr_records p))"
    then obtain r where "r \<in> set (pr_records p)" "line = encode r" by auto
    with each show "\<exists>body. line = body @ [newline] \<and> newline \<notin> set body" unfolding encode_def by blast
  qed
  moreover have "pr_index p = concat (map encode (pr_records p))" unfolding encode_def by (rule parts(5))
  ultimately show "stream_lines [] (pr_index p) = map encode (pr_records p)" by simp
qed

lemma generated_samples_load:
  assumes "prepare g = Inr p" "digests_short (gx_env g)" "rounds_unit (gx_env g)" "ld_env ld = gx_env g"
    and floats: "float_repr (me_py (gx_env g)) 0 = ''0.0''" "float_repr (me_py (gx_env g)) 1 = ''1.0''"
    and loads: "\<And>r. r \<in> set (pr_records p) \<Longrightarrow> ld_loads ld (sample_line ld r) = Some (sort_json (JObj r))"
    and schema: "\<And>r. r \<in> set (pr_records p) \<Longrightarrow> ld_sample_error ld (sort_json (JObj r)) = None"
    and manifest: "json_get manifest ''dataset_id'' = Some (JStr DATASET_ID)" "json_get manifest ''dataset_revision'' = Some (JStr (pr_revision p))"
  shows "\<exists>st. load_samples ld manifest (pr_features p) 1 (stream_lines [] (pr_index p))
      \<lparr>ls_seen_ids = {}, ls_family_splits = Map.empty, ls_records = []\<rparr> = Inr st \<and> ls_records st = map sorted_fields (pr_records p)"
proof -
  let ?env = "gx_env g" and ?drafts = "pr_drafts p"
  note parts = prepare_parts [OF assms(1)]
  note index = prepared_index [OF assms(1,2) floats]
  have ok: "draft_ok ?env d" if "d \<in> set ?drafts" for d using build_drafts_ok [OF parts(1)] that parts(2) by simp
  let ?r = "\<lambda>i. record_of ?env (pr_revision p) (pr_source_digest p) i (?drafts ! i)"
  have nth: "pr_records p ! i = ?r i" "length (pr_records p) = length ?drafts" if "i < length ?drafts" for i
    using that parts(4) by simp_all
  have mem: "?r i \<in> set (pr_records p)" if "i < length ?drafts" for i using that nth by (metis nth_mem)
  have block: "take 48 (drop (48 * i) (pr_features p)) = tensor_of (?drafts ! i)" if "i < length ?drafts" for i
    using nth_block [of "map tensor_of ?drafts" 48 i] length_tensor_of ok that parts(3) by auto
  have len: "length (pr_records p) = length ?drafts" using parts(4) by simp
  have "\<exists>st. load_samples ld manifest (pr_features p) (Suc 0) (map (sample_line ld) (pr_records p))
      \<lparr>ls_seen_ids = {}, ls_family_splits = Map.empty, ls_records = []\<rparr> = Inr st
      \<and> ls_records st = ls_records \<lparr>ls_seen_ids = {}, ls_family_splits = Map.empty, ls_records = []\<rparr> @ map sorted_fields (pr_records p)"
  proof (rule load_samples_all [where ids = "map dr_sample_id ?drafts" and families = "map dr_capture_family_id ?drafts"
        and F = "split_name ?env SOURCE_REVISION"])
    fix i assume "i < length (map sorted_fields (pr_records p))"
    then have i: "i < length ?drafts" using len by simp
    then have d: "draft_ok ?env (?drafts ! i)" by (intro ok nth_mem)
    have line: "sample_line ld (?r i) = json_text (me_py ?env) (sort_json (JObj (?r i))) @ [newline]"
      using assms(4) by (simp add: sample_line_def del: json_text.simps)
    have "read_sample ld manifest n (sample_line ld (?r i)) = Inr (sorted_fields (?r i))" for n
      by (rule read_record [OF d assms(3,4) line _ loads [OF mem [OF i]] schema [OF mem [OF i]] manifest])
        (use index(2) [OF mem [OF i]] line in simp)
    then show "read_sample ld manifest (Suc (0 + i)) (map (sample_line ld) (pr_records p) ! i) = Inr (map sorted_fields (pr_records p) ! i)"
      using i len nth by simp
    show "json_get (map sorted_fields (pr_records p) ! i) ''sample_id'' = Some (JStr (map dr_sample_id ?drafts ! i))
      \<and> json_get (map sorted_fields (pr_records p) ! i) ''capture_family_id'' = Some (JStr (map dr_capture_family_id ?drafts ! i))
      \<and> json_get (map sorted_fields (pr_records p) ! i) ''split'' = Some (JStr (split_name ?env SOURCE_REVISION (map dr_capture_family_id ?drafts ! i)))
      \<and> json_get (map sorted_fields (pr_records p) ! i) ''feature_offset'' = Some (JInt (int (0 + i) * 48))
      \<and> (\<exists>vs. json_get (map sorted_fields (pr_records p) ! i) ''feature_values'' = Some (JArr vs)
          \<and> feature_tensor_bytes vs = Inr (take 48 (drop (48 * (0 + i)) (pr_features p))))"
      using i len nth draft_ok_tensor [OF d] block [OF i] draft_ok_split [OF d] by (simp add: sorted_record_get record_get)
  qed (use len parts(2) sample_ids_distinct [OF parts(1)] in simp_all)
  moreover have "stream_lines [] (pr_index p) = map (sample_line ld) (pr_records p)"
    using index(1) assms(4) by (simp add: sample_line_def cong: map_cong del: json_text.simps)
  ultimately show ?thesis by simp
qed


lemma generated_splits_small:
  assumes "prepare g = Inr p" "length (pr_drafts p) = 2560"
  shows "length (pr_splits p) \<le> 10 * 1024 * 1024 * 1024"
proof -
  note parts = prepare_parts [OF assms(1)]
  have "pretty_json (me_py (gx_env g)) (split_manifest (pr_families p) (pr_records p)) = Inr (pr_splits p)"
    using assms(1) by (auto simp: prepare_def Let_def rbind_eq_Inr)
  then show ?thesis by (intro split_text_small [OF parts(1), of "pr_records p"]) (simp_all add: parts(4) assms(2))
qed

lemma generated_features_size:
  assumes "prepare g = Inr p" "length (pr_drafts p) = 2560"
  shows "length (pr_features p) = 48 * 2560"
proof -
  note parts = prepare_parts [OF assms(1)]
  have "length (tensor_of d) = 48" if "d \<in> set (pr_drafts p)" for d
    using build_drafts_ok [OF parts(1)] length_tensor_of that parts(2) by metis
  then have "map (length \<circ> tensor_of) (pr_drafts p) = map (\<lambda>_. 48) (pr_drafts p)" by simp
  moreover have "sum_list (map (\<lambda>_. 48) (pr_drafts p)) = (48 * 2560 :: nat)" using assms(2) by (simp add: sum_list_triv)
  ultimately show ?thesis by (simp only: parts(3) length_concat map_map)
qed

lemma concat_length_le: "(\<And>x. x \<in> set xs \<Longrightarrow> length (f x) \<le> n) \<Longrightarrow> length (concat (map f xs)) \<le> n * length xs"
  by (induction xs) fastforce+

lemma sorted_record_columns:
  fixes env revision source_digest i d ld ints
  defines "r \<equiv> sorted_fields (record_of env revision source_digest i d)"
  shows "record_text ld ''sort_key'' r = Inr (dr_sort_key d)" "record_text ld ''split'' r = Inr (dr_split d)"
    "rbind (item_at r ''sample_weight'') (to_float ld) = Inr (FFin 1)"
    "rbind (item_at r ''label'') (\<lambda>label. rbind (indexed label ''binary_label'') (to_int ints)) = Inr (dr_label d)"
proof -
  obtain label where "json_get r ''label'' = Some (JObj label)" "json_get label ''binary_label'' = Some (JInt (dr_label d))"
    unfolding r_def by (rule sorted_record_label)
  then show "rbind (item_at r ''label'') (\<lambda>label. rbind (indexed label ''binary_label'') (to_int ints)) = Inr (dr_label d)"
    by (simp add: item_at_def indexed_def)
qed (simp_all add: r_def record_text_def item_at_def sorted_record_get record_get text_of_def)

text \<open>A column of the records, as the loader reads it, is the column of the drafts.\<close>

lemma prepared_column:
  assumes "prepare g = Inr p"
    and "\<And>i d. f (sorted_fields (record_of (gx_env g) (pr_revision p) (pr_source_digest p) i d)) = Inr (h d)"
  shows "mapM f (map sorted_fields (pr_records p)) = Inr (map h (pr_drafts p))"
proof -
  have "map h (pr_drafts p) = map (\<lambda>i. h (pr_drafts p ! i)) [0..<length (pr_drafts p)]"
    by (rule nth_equalityI) simp_all
  moreover have "mapM f (map sorted_fields (map (\<lambda>i. record_of (gx_env g) (pr_revision p) (pr_source_digest p) i (ds ! i)) is))
      = Inr (map (\<lambda>i. h (ds ! i)) is)" for ds "is"
    by (induction "is") (simp_all add: assms(2))
  ultimately show ?thesis unfolding prepare_parts(4) [OF assms(1)] by simp
qed

lemma resolved_dataset_loads:
  assumes gen: "generate_resolved g a output fs = (Inr manifest, states)" and p: "prepare g = Inr p"
    and env: "ld_env ld = gx_env g" "digests_short (gx_env g)" "rounds_unit (gx_env g)"
    and floats: "float_repr (me_py (gx_env g)) 0 = ''0.0''" "float_repr (me_py (gx_env g)) 1 = ''1.0''"
    and loads: "\<And>r. r \<in> set (pr_records p) \<Longrightarrow> ld_loads ld (sample_line ld r) = Some (sort_json (JObj r))"
    and schema: "\<And>r. r \<in> set (pr_records p) \<Longrightarrow> ld_sample_error ld (sort_json (JObj r)) = None"
      "ld_manifest_error ld (sorted_fields manifest) = None"
  shows "\<exists>data. load_dataset ld (directory_of (last states) output) (sorted_fields manifest) = Inr data
    \<and> dd_features data = map dr_features (pr_drafts p) \<and> dd_labels data = map dr_label (pr_drafts p)
    \<and> dd_splits data = map dr_split (pr_drafts p) \<and> dd_weights data = replicate 2560 (FFin 1) \<and> length (dd_records data) = 2560"
proof -
  note parts = prepare_parts [OF p]
  note index = prepared_index [OF p env(2) floats]
  have ok: "draft_ok (gx_env g) d" if "d \<in> set (pr_drafts p)" for d using build_drafts_ok [OF parts(1)] that parts(2) by simp
  have count: "length (pr_records p) = 2560" using parts(4) index(3) by simp
  obtain doc: "make_manifest g p = Inr manifest"
    and stored: "\<And>w path raw. (w, path, raw) \<in> set (data_writes a output p) \<Longrightarrow> last states path = Some raw"
    using generation_done [OF gen] p by (metis sum.inject(2))
  obtain golden eligible d1 d2 d3 d4 d5 d6 d7 u where
    m: "manifest = manifest_document (gx_env g) p golden eligible d1 d2 d3 d4 d5 d6 d7" and "validate_dataset_manifest (gx_env g) manifest = Inr u"
    by (rule make_manifest_parts [OF doc])
  then have valid: "validate_dataset_manifest (gx_env g) (sorted_fields manifest) = Inr ()" using sorted_manifest_valid [OF m] by simp
  have ids: "json_get (sorted_fields manifest) ''dataset_id'' = Some (JStr DATASET_ID)"
    "json_get (sorted_fields manifest) ''dataset_revision'' = Some (JStr (pr_revision p))"
    "json_get (sorted_fields manifest) ''files'' = Some (sort_json (manifest_files (gx_env g) p))"
    by (simp_all add: manifest_sorted_get [OF m] manifest_reads [OF m]) (simp_all add: m manifest_document_def json_get_simps)
  have bytes: "length (pr_features p) = 48 * 2560" using generated_features_size [OF p index(3)] .
  have "length (pr_index p) \<le> 16384 * 2560"
    using concat_length_le [of "pr_records p" _ 16384] index(2) count unfolding parts(5) by (metis (no_types, lifting))
  then have files: "open_file (gx_env g) (directory_of (last states) output) (sort_json (manifest_files (gx_env g) p)) ''features'' = Inr (pr_features p)"
    "open_file (gx_env g) (directory_of (last states) output) (sort_json (manifest_files (gx_env g) p)) ''sample_index'' = Inr (pr_index p)"
    "open_file (gx_env g) (directory_of (last states) output) (sort_json (manifest_files (gx_env g) p)) ''split_manifest'' = Inr (pr_splits p)"
    using open_data_files [OF stored _ _ generated_splits_small [OF p index(3)], where env = "gx_env g"] bytes by simp_all
  obtain st where st: "load_samples ld (sorted_fields manifest) (pr_features p) 1 (stream_lines [] (pr_index p))
      \<lparr>ls_seen_ids = {}, ls_family_splits = Map.empty, ls_records = []\<rparr> = Inr st" "ls_records st = map sorted_fields (pr_records p)"
    using generated_samples_load [OF p env(2,3,1) floats loads schema(1) ids(1,2)] by blast
  have features: "feature_rows (pr_features p) = map dr_features (pr_drafts p)" unfolding parts(3) by (rule feature_rows_drafts [OF ok])
  have columns: "mapM (record_text ld ''sort_key'') (map sorted_fields (pr_records p)) = Inr (map dr_sort_key (pr_drafts p))"
    "mapM (record_text ld ''split'') (map sorted_fields (pr_records p)) = Inr (map dr_split (pr_drafts p))"
    "mapM (\<lambda>record. rbind (item_at record ''sample_weight'') (to_float ld)) (map sorted_fields (pr_records p)) = Inr (map (\<lambda>_. FFin 1) (pr_drafts p))"
    "mapM (\<lambda>record. rbind (item_at record ''label'') (\<lambda>label. rbind (indexed label ''binary_label'') (to_int (ld_int_text ld))))
       (map sorted_fields (pr_records p)) = Inr (map dr_label (pr_drafts p))"
    by (rule prepared_column [OF p], rule sorted_record_columns)+
  have sorted: "sort (map dr_sort_key (pr_drafts p)) = map dr_sort_key (pr_drafts p)" unfolding parts(2) by (rule build_drafts_keys)
  have item: "item_at (sorted_fields manifest) ''files'' = Inr (sort_json (manifest_files (gx_env g) p))" by (simp add: item_at_def ids(3))
  have "load_dataset ld (directory_of (last states) output) (sorted_fields manifest)
    = Inr \<lparr>dd_manifest = sorted_fields manifest, dd_records = map sorted_fields (pr_records p), dd_features = map dr_features (pr_drafts p),
        dd_labels = map dr_label (pr_drafts p), dd_weights = map (\<lambda>_. FFin 1) (pr_drafts p), dd_splits = map dr_split (pr_drafts p)\<rparr>"
    unfolding load_dataset_def Let_def
    by (simp add: schema(2) schema_check_def env(1) valid item files bytes st [simplified] features columns sorted count index(3))
  then show ?thesis using count index(3) by (simp add: map_replicate_const)
qed

text \<open>
  C28: what the generator writes, the loader reads back. When a generation returns, loading the directory it has
  written, with the manifest as it stands on disk, succeeds: every check of the loader passes, and the dataset in memory
  has the features, labels and splits of the 2560 drafts, in their order and with unit weights. The hypotheses are that
  \<open>json.loads\<close> inverts the canonical encoding of the records, that the two published schemas accept them, that a
  SHA-256 digest has 64 digits, and that doubles represent and print zero and one exactly.
\<close>

theorem generated_dataset_loads:
  assumes gen: "generate_module_dataset g a output fs = (Inr manifest, states)" and p: "at_repo g = Inr g'" "prepare g' = Inr p"
    and env: "ld_env ld = gx_env g" "digests_short (gx_env g)" "rounds_unit (gx_env g)"
    and floats: "float_repr (me_py (gx_env g)) 0 = ''0.0''" "float_repr (me_py (gx_env g)) 1 = ''1.0''"
    and loads: "\<And>r. r \<in> set (pr_records p) \<Longrightarrow> ld_loads ld (sample_line ld r) = Some (sort_json (JObj r))"
    and schema: "\<And>r. r \<in> set (pr_records p) \<Longrightarrow> ld_sample_error ld (sort_json (JObj r)) = None"
      "ld_manifest_error ld (sorted_fields manifest) = None"
  shows "\<exists>data. load_dataset ld (directory_of (last states) output) (sorted_fields manifest) = Inr data
    \<and> dd_features data = map dr_features (pr_drafts p) \<and> dd_labels data = map dr_label (pr_drafts p)
    \<and> dd_splits data = map dr_split (pr_drafts p) \<and> dd_weights data = replicate 2560 (FFin 1) \<and> length (dd_records data) = 2560"
proof -
  have g': "gx_env g' = gx_env g" using at_repo_env [OF p(1)] by simp
  have "generate_resolved g' a output fs = (Inr manifest, states)" using gen p(1) by (simp add: generate_module_dataset_def)
  from resolved_dataset_loads [OF this p(2), of ld] show ?thesis using env floats loads schema by (simp add: g')
qed

end
