(* ===== verification/Ml_Complete.thy ===== *)
theory Ml_Complete
  imports Ml_Roundtrip
begin

text \<open>
  A generation of the module dataset completes: with a verified golden file, readable repository files, an output
  directory that is not there yet and a system that answers well, every step up to the last file succeeds. In
  particular the manifest that the generator composes passes its own validator. A small repository is the concrete
  instance for this and for the reading back.
\<close>

section \<open>Writes that succeed\<close>

definition answers_well :: "write_answers \<Rightarrow> bool" where
  "answers_well w \<longleftrightarrow> wa_mkdir w \<and> wa_open w \<and> wa_writes w = [] \<and> wa_sync w \<and> wa_replace w"

lemma write_bytes_succeeds:
  assumes "answers_well w" "fs path = None" "fs (fresh_temporary (wa_pid w) path) = None"
  shows "\<exists>states. write_fresh_bytes w path raw fs = (Inr (), states)"
  using assms by (simp add: answers_well_def write_fresh_bytes_def write_fresh_def Let_def write_all.simps [of path "[]"])

lemma write_json_succeeds:
  assumes "answers_well w" "fs path = None" "fs (fresh_temporary (wa_pid w) path) = None" "\<not> has_nonfinite v"
  shows "\<exists>states. write_fresh_json env w path v fs = (Inr (), states)"
  using assms
  by (simp add: answers_well_def write_fresh_json_def pretty_json_def write_fresh_text_def write_fresh_def Let_def stream_write_def)

text \<open>A directory without files, and the files that are written into it one after the other.\<close>

definition clear_below :: "str \<Rightarrow> file_system \<Rightarrow> str set \<Rightarrow> bool" where
  "clear_below dir fs except \<longleftrightarrow> (\<forall>path. starts_with (dir @ ''/'') path \<longrightarrow> path \<notin> except \<longrightarrow> fs path = None)"

lemma clear_belowD: "clear_below dir fs except \<Longrightarrow> starts_with (dir @ ''/'') path \<Longrightarrow> path \<notin> except \<Longrightarrow> fs path = None"
  by (simp add: clear_below_def)

lemma split_slash_append: "split_slash (q @ CHR ''/'' # n) = split_slash q @ split_slash n"
proof (induction q)
  case (Cons c q)
  obtain p ps where "split_slash q = p # ps" using split_slash_nonempty by (cases "split_slash q") auto
  with Cons show ?case by simp
qed simp

lemma join_append: "xs \<noteq> [] \<Longrightarrow> ys \<noteq> [] \<Longrightarrow> join sep (xs @ ys) = join sep xs @ sep @ join sep ys"
proof (induction xs)
  case (Cons x xs)
  then show ?case by (cases xs; cases ys) auto
qed simp

lemma temporary_below: "starts_with (dir @ ''/'') path \<Longrightarrow> starts_with (dir @ ''/'') (fresh_temporary pid path)"
proof -
  assume "starts_with (dir @ ''/'') path"
  then obtain n where path: "path = dir @ CHR ''/'' # n" by (auto simp: starts_with_iff)
  have "fresh_temporary pid path = join ''/'' (split_slash dir @ (butlast (split_slash n) @ [''.'' @ last (split_slash n) @ ''.'' @ int_str pid @ ''.tmp'']))"
    using split_slash_nonempty [of n] by (simp add: fresh_temporary_def with_name_def Let_def path split_slash_append butlast_append)
  also have "\<dots> = dir @ ''/'' @ join ''/'' (butlast (split_slash n) @ [''.'' @ last (split_slash n) @ ''.'' @ int_str pid @ ''.tmp''])"
    by (simp only: join_append split_slash_nonempty join_split_slash not_Cons_self2 append_is_Nil_conv simp_thms not_False_eq_True)
  finally show ?thesis by (simp add: starts_with_iff)
qed

lemma run_bytes_succeeds:
  assumes "clear_below dir fs except" and "distinct (map (\<lambda>(w, path, raw). path) jobs)"
    and "\<And>w path raw. (w, path, raw) \<in> set jobs \<Longrightarrow> answers_well w \<and> starts_with (dir @ ''/'') path \<and> path \<notin> except"
    and "\<And>q pid path. q \<in> except \<union> (\<lambda>(w, path, raw). path) ` set jobs \<Longrightarrow> q \<noteq> fresh_temporary pid path"
  shows "\<exists>states. run_writes (map (\<lambda>(w, path, raw). write_fresh_bytes w path raw) jobs) fs = (Inr (), states) \<and> states \<noteq> []
    \<and> clear_below dir (last states) (except \<union> (\<lambda>(w, path, raw). path) ` set jobs)"
  using assms
proof (induction jobs arbitrary: fs except)
  case (Cons job jobs)
  obtain w path raw where job: "job = (w, path, raw)" by (cases job)
  have here: "answers_well w" "starts_with (dir @ ''/'') path" "path \<notin> except" using Cons.prems(3) [of w path raw] job by auto
  have free: "fs path = None" "fs (fresh_temporary (wa_pid w) path) = None"
    using Cons.prems(1,4) here temporary_below unfolding clear_below_def by blast+
  obtain first where first: "write_fresh_bytes w path raw fs = (Inr (), first)" using write_bytes_succeeds [OF here(1) free] by blast
  then have last: "last first = fs(path \<mapsto> raw)" by (rule byte_files.finish)
  have "\<exists>states. run_writes (map (\<lambda>(w, path, raw). write_fresh_bytes w path raw) jobs) (last first) = (Inr (), states) \<and> states \<noteq> []
    \<and> clear_below dir (last states) (insert path except \<union> (\<lambda>(w, path, raw). path) ` set jobs)"
  proof (rule Cons.IH)
    show "clear_below dir (last first) (insert path except)" using Cons.prems(1) by (auto simp: clear_below_def last)
    show "distinct (map (\<lambda>(w, path, raw). path) jobs)" using Cons.prems(2) by simp
    show "answers_well v \<and> starts_with (dir @ ''/'') q \<and> q \<notin> insert path except" if "(v, q, body) \<in> set jobs" for v q body
      using Cons.prems(2) Cons.prems(3) [of v q body] that by (force simp: job)
    show "q \<noteq> fresh_temporary pid path'" if "q \<in> insert path except \<union> (\<lambda>(w, path, raw). path) ` set jobs" for q pid path'
      using Cons.prems(4) that by (auto simp: job)
  qed
  then show ?case using first by (auto simp: job)
qed (auto simp: clear_below_def)

section \<open>The data files\<close>

lemma golden_reference:
  assumes "verify_reference_extractor_golden g = Inr reference"
  shows "\<exists>digest. json_get reference ''telemetry_golden_digest'' = Some (JStr digest)" and "\<not> has_nonfinite (JObj reference)"
proof -
  obtain digest tensor where "reference = [(''schema_version'', JStr ''p4-window-reference-golden-result/v1''), (''result'', JStr ''PASS''),
          (''telemetry_golden_digest'', JStr digest), (''feature_tensor_hex'', JStr (hex_text tensor)),
          (''feature_tensor_digest'', JStr (sha256_bytes (gx_env g) tensor)), (''feature_values'', JArr (map JInt GOLDEN))]"
    using assms unfolding verify_reference_extractor_golden_def Let_def by (elim rbindE) (simp only: sum.inject; blast)
  then show "\<exists>digest. json_get reference ''telemetry_golden_digest'' = Some (JStr digest)" "\<not> has_nonfinite (JObj reference)"
    by (simp_all add: json_get_simps list_ex_iff)
qed

lemma revision_total:
  assumes "\<And>d. d \<in> set drafts \<Longrightarrow> draft_ok env d"
  shows "\<exists>revision. dataset_revision env drafts payload = Inr revision"
proof -
  let ?row = "\<lambda>d. JObj [(''sample_id'', JStr (dr_sample_id d)), (''capture_family_id'', JStr (dr_capture_family_id d)),
        (''window_start'', JStr (dr_window_start d)), (''split'', JStr (dr_split d)), (''label'', JInt (dr_label d)),
        (''feature_digest'', JStr (sha256_bytes env (tensor_of d)))]"
  have "mapM (\<lambda>d. rbind (feature_tensor_bytes (map JInt (dr_features d))) (\<lambda>tensor. Inr (JObj
       [(''sample_id'', JStr (dr_sample_id d)), (''capture_family_id'', JStr (dr_capture_family_id d)),
        (''window_start'', JStr (dr_window_start d)), (''split'', JStr (dr_split d)), (''label'', JInt (dr_label d)),
        (''feature_digest'', JStr (sha256_bytes env tensor))]))) drafts = Inr (map ?row drafts)"
    by (rule mapM_all_Inr) (simp add: draft_ok_tensor [OF assms])
  then show ?thesis
    by (simp add: dataset_revision_def canonical_json_bytes_def FAMILY_QUOTAS_def list_ex_iff del: sort_json_obj json_text.simps)
qed

lemma prepare_total:
  assumes "verify_reference_extractor_golden g = Inr reference" "select_families (gx_env g) = Inr families"
  shows "\<exists>p. prepare g = Inr p \<and> pr_reference p = reference"
proof -
  let ?env = "gx_env g"
  let ?drafts = "build_drafts ?env families"
  obtain digest where golden: "json_get reference ''telemetry_golden_digest'' = Some (JStr digest)"
    using golden_reference [OF assms(1)] by blast
  have ok: "draft_ok ?env d" if "d \<in> set ?drafts" for d by (rule build_drafts_ok [OF assms(2) that])
  have tensors: "mapM (\<lambda>d. feature_tensor_bytes (map JInt (dr_features d))) ?drafts = Inr (map tensor_of ?drafts)"
    by (rule mapM_all_Inr) (rule draft_ok_tensor [OF ok])
  obtain revision where revision: "dataset_revision ?env ?drafts (concat (map tensor_of ?drafts)) = Inr revision"
    using revision_total ok by blast
  obtain raw where raw: "canonical_json_bytes (me_py ?env) (source_identity families (JStr digest)) = Inr raw"
    by (simp add: canonical_json_bytes_def source_identity_def list_ex_iff case_prod_unfold del: sort_json_obj json_text.simps)
  let ?rows = "map (\<lambda>(i, d). record_of ?env revision (sha256_bytes ?env raw) i d) (enumerate_from 0 ?drafts)"
  have rows: "mapM (\<lambda>(index, d). sample_record ?env d revision (int index * 48) (sha256_bytes ?env raw)) (enumerate_from 0 ?drafts) = Inr ?rows"
    by (rule mapM_all_Inr) (use ok sample_record_of in \<open>auto simp: enumerate_from_def dest: set_zip_rightD\<close>)
  have lines: "mapM (\<lambda>record. rbind (canonical_json_bytes (me_py ?env) (JObj record)) (\<lambda>raw. Inr (raw @ [CHR 0x0A]))) ?rows
      = Inr (map (\<lambda>r. json_text (me_py ?env) (sort_json (JObj r)) @ [newline]) ?rows)"
    by (rule mapM_all_Inr) (use record_finite in \<open>auto simp: canonical_json_bytes_def simp del: has_nonfinite.simps\<close>)
  have "\<not> has_nonfinite (split_manifest families ?rows)" by (rule finite_float_free [OF split_manifest_free])
  then obtain splits where "pretty_json (me_py ?env) (split_manifest families ?rows) = Inr splits" by (simp add: pretty_json_def)
  then show ?thesis
    using rows lines by (simp add: prepare_def Let_def assms tensors revision item_at_def golden raw del: json_text.simps)
qed

section \<open>The manifest\<close>

text \<open>What the manifest reads of a prepared dataset.\<close>

lemma prepared_eligible:
  assumes "prepare g = Inr p"
  shows "eligible_total g (pr_records p) = Inr (sum_list (map (\<lambda>d. hd (dr_features d)) (pr_drafts p)))"
    and "0 < sum_list (map (\<lambda>d. hd (dr_features d)) (pr_drafts p))"
proof -
  note parts = prepare_parts [OF assms]
  have packets: "rbind (item_at (record_of env revision source_digest i d) ''label'') (int_at g ''eligible_packets'') = Inr (hd (dr_features d))"
    for env revision source_digest i d
  proof -
    obtain label where "json_get (record_of env revision source_digest i d) ''label'' = Some (JObj label)"
      "sample_label d (hd (dr_features d)) (sha256_bytes env (json_text (me_py env) (sort_json (join_identity d (hd (dr_features d)))))) = JObj label"
      by (rule record_label)
    then show ?thesis using sample_label_fields(1) by (simp add: item_at_def int_at_def indexed_def)
  qed
  have "map (\<lambda>d. hd (dr_features d)) (pr_drafts p) = map (\<lambda>i. hd (dr_features (pr_drafts p ! i))) [0..<length (pr_drafts p)]"
    by (rule nth_equalityI) simp_all
  moreover have "mapM (\<lambda>record. rbind (item_at record ''label'') (int_at g ''eligible_packets''))
      (map (\<lambda>i. record_of (gx_env g) (pr_revision p) (pr_source_digest p) i (ds ! i)) is) = Inr (map (\<lambda>i. hd (dr_features (ds ! i))) is)" for ds "is"
    by (induction "is") (simp_all add: packets)
  ultimately show "eligible_total g (pr_records p) = Inr (sum_list (map (\<lambda>d. hd (dr_features d)) (pr_drafts p)))"
    by (simp add: eligible_total_def parts(4))
  have ok: "0 < hd (dr_features d)" if "d \<in> set (pr_drafts p)" for d
    using build_drafts_ok [OF parts(1)] draft_ok_features(3) that parts(2) by metis
  have "length (pr_drafts p) = 2560" using length_families [OF parts(1)] by (simp add: parts(2) build_drafts_def length_drafts_from)
  then obtain d ds where ds: "pr_drafts p = d # ds" by (cases "pr_drafts p") auto
  have "0 \<le> sum_list (map (\<lambda>d. hd (dr_features d)) ds)" by (rule sum_list_nonneg) (use ok ds in force)
  then show "0 < sum_list (map (\<lambda>d. hd (dr_features d)) (pr_drafts p))" using ok ds by fastforce
qed

lemma prepared_truth:
  assumes "prepare g = Inr p"
  shows "\<exists>rows raw. ground_truth_rows (pr_records p) = Inr rows \<and> canonical_json_bytes (me_py (gx_env g)) (JArr rows) = Inr raw"
proof -
  have "\<exists>row. (\<forall>r \<in> set (pr_records p). rbind (item_at r ''sample_id'') (\<lambda>sample_id. rbind (item_at r ''label'') (\<lambda>label.
       rbind (item_at r ''window'') (\<lambda>window. Inr (JObj [(''sample_id'', sample_id), (''label'', label), (''window'', window)])))) = Inr (row r)
       \<and> \<not> has_nonfinite (row r))"
  proof (rule bchoice, rule ballI)
    fix r assume "r \<in> set (pr_records p)"
    then obtain i d where r: "r = record_of (gx_env g) (pr_revision p) (pr_source_digest p) i d" using prepare_parts(4) [OF assms] by auto
    obtain label where "json_get r ''label'' = Some (JObj label)" unfolding r by (rule record_label)
    moreover obtain window where "json_get r ''window'' = Some window" by (simp add: r record_of_def sample_document_def json_get_simps)
    moreover have "\<not> has_nonfinite v" if "json_get r k = Some v" for k v
      using record_finite that by (fastforce simp: r json_get_def list_ex_iff dest: map_of_SomeD)
    ultimately show "\<exists>row. rbind (item_at r ''sample_id'') (\<lambda>sample_id. rbind (item_at r ''label'') (\<lambda>label.
       rbind (item_at r ''window'') (\<lambda>window. Inr (JObj [(''sample_id'', sample_id), (''label'', label), (''window'', window)])))) = Inr row
       \<and> \<not> has_nonfinite row"
      by (fastforce simp: item_at_def r record_get)
  qed
  then obtain row where row: "\<And>r. r \<in> set (pr_records p) \<Longrightarrow> rbind (item_at r ''sample_id'') (\<lambda>sample_id. rbind (item_at r ''label'') (\<lambda>label.
       rbind (item_at r ''window'') (\<lambda>window. Inr (JObj [(''sample_id'', sample_id), (''label'', label), (''window'', window)])))) = Inr (row r)
       \<and> \<not> has_nonfinite (row r)" by blast
  then have "ground_truth_rows (pr_records p) = Inr (map row (pr_records p))" unfolding ground_truth_rows_def by (intro mapM_all_Inr) blast
  moreover have "\<not> has_nonfinite (JArr (map row (pr_records p)))" using row by (auto simp: list_ex_iff)
  ultimately show ?thesis by (simp add: canonical_json_bytes_def del: has_nonfinite.simps)
qed

lemma count_all_splits:
  assumes "\<And>r. r \<in> set rs \<Longrightarrow> json_get r key \<in> (\<lambda>name. Some (JStr name)) ` set [''train'', ''early_stop'', ''calibration'', ''blind_test'']"
  shows "count_records (\<lambda>v. v = JStr ''train'') key rs + (count_records (\<lambda>v. v = JStr ''early_stop'') key rs
    + (count_records (\<lambda>v. v = JStr ''calibration'') key rs + count_records (\<lambda>v. v = JStr ''blind_test'') key rs)) = int (length rs)"
  using assms
proof (induction rs)
  case (Cons r rs)
  have "json_get r key \<in> {Some (JStr ''train''), Some (JStr ''early_stop''), Some (JStr ''calibration''), Some (JStr ''blind_test'')}"
    using Cons.prems [of r] by auto
  moreover have "count_records (\<lambda>v. v = JStr ''train'') key rs + (count_records (\<lambda>v. v = JStr ''early_stop'') key rs
    + (count_records (\<lambda>v. v = JStr ''calibration'') key rs + count_records (\<lambda>v. v = JStr ''blind_test'') key rs)) = int (length rs)"
    using Cons by simp
  ultimately show ?case unfolding count_records_def by (elim insertE) simp_all
qed (simp add: count_records_def)

lemma prepared_split_counts:
  assumes "prepare g = Inr p"
  shows "count_records (\<lambda>v. v = JStr ''train'') ''split'' (pr_records p) + (count_records (\<lambda>v. v = JStr ''early_stop'') ''split'' (pr_records p)
    + (count_records (\<lambda>v. v = JStr ''calibration'') ''split'' (pr_records p) + count_records (\<lambda>v. v = JStr ''blind_test'') ''split'' (pr_records p)))
    = int (length (pr_records p))"
proof -
  note parts = prepare_parts [OF assms]
  have "json_get r ''split'' \<in> (\<lambda>name. Some (JStr name)) ` set [''train'', ''early_stop'', ''calibration'', ''blind_test'']" if r: "r \<in> set (pr_records p)" for r
  proof -
    obtain i where i: "i < length (pr_drafts p)" "r = record_of (gx_env g) (pr_revision p) (pr_source_digest p) i (pr_drafts p ! i)"
      using r parts(4) by auto
    have "draft_ok (gx_env g) (pr_drafts p ! i)" using build_drafts_ok [OF parts(1)] nth_mem [OF i(1)] parts(2) by metis
    then show ?thesis using draft_ok_split by (fastforce simp: i(2) record_get split_name_def Let_def)
  qed
  then show ?thesis by (rule count_all_splits)
qed


lemma composed_manifest_finite:
  "\<not> has_nonfinite (JObj (manifest_document env p (JStr golden) eligible a b c d e f h))"
  by (simp add: manifest_document_def manifest_status_def feature_contract_def source_profile_def extractor_def manifest_files_def
      split_policy_def interval_def matrix_row_def label_policy_def quality_summary_def split_counts_def label_counts_def
      manifest_limits_def compatibility_def FAMILY_QUOTAS_def list_ex_iff)

lemma composed_source_valid: "validate_source i (source_profile p f a) = Inr ()"
  by (simp add: validate_source_def source_profile_def json_reads raise_if_def)

text \<open>The manifest that the generator composes passes the validator that it is then given to.\<close>

lemma composed_manifest_valid:
  assumes "prepare g = Inr p" "rounds_unit (gx_env g)" "0 < eligible"
  shows "validate_dataset_manifest (gx_env g) (manifest_document (gx_env g) p (JStr golden) eligible a b c d e f h) = Inr ()"
proof -
  let ?m = "manifest_document (gx_env g) p (JStr golden) eligible a b c d e f h"
  note reads = manifest_reads [OF refl, of "gx_env g" p "JStr golden" eligible a b c d e f h]
  have fin: "ensure_finite ''$'' (JObj ?m) = Inr ()" unfolding ensure_finite_iff by (rule composed_manifest_finite)
  have drafts: "length (pr_drafts p) = 2560"
    using length_families [OF prepare_parts(1) [OF assms(1)]] by (simp add: prepare_parts(2) [OF assms(1)] build_drafts_def length_drafts_from)
  have bytes: "length (pr_features p) = length (pr_records p) * 48"
    using generated_features_size [OF assms(1) drafts] drafts prepare_parts(4) [OF assms(1)] by simp
  obtain summary where summary: "quality_summary (gx_env g) p eligible a = JObj summary" by (simp add: quality_summary_def)
  have get: "json_get summary ''sample_count'' = Some (JInt (int (length (pr_records p))))" "json_get summary ''split_counts'' = Some (split_counts (pr_records p))"
    using summary by (auto simp: quality_summary_def json_get_simps)
  have counts: "validate_counts ?m = Inr summary"
    using prepared_split_counts [OF assms(1)]
    by (simp add: validate_counts_def reads json_reads manifest_files_def summary get split_counts_def FAMILY_QUOTAS_def bytes raise_if_def)
  have truth: "json_get summary ''ground_truth'' = Some (JObj [(''eligible_packets'', JInt eligible), (''labeled_eligible_packets'', JInt eligible),
         (''coverage'', jnum (gx_env g) 1), (''conflicts'', JInt 0), (''coverage_digest'', JStr a)])"
    using summary by (auto simp: quality_summary_def json_get_simps)
  have "true_divide (gx_env g) eligible eligible = Inr 1" using ratio_self [OF assms(2,3)] assms(3) by (simp add: ratio_def)
  then show ?thesis
    unfolding validate_dataset_manifest_def
    using assms(2)
    by (simp add: fin counts truth reads json_reads feature_contract_def composed_source_valid enumerate_from_def rounds_unit_def isclose_def
        del: ensure_finite.simps)
qed

definition repository_files :: "str list list" where
  "repository_files = tracked @ [[''ml-py'', ''uv.lock''], [''contracts'', ''profiles'', ''v1'', ''edge-feature-window.json'']]"

lemma tree_identity_total:
  assumes "\<And>path. path \<in> set tracked \<Longrightarrow> is_ok (repo_digest g path)"
  shows "\<exists>identity. source_tree_identity g = Inr identity"
proof -
  obtain digest where digest: "\<And>path. path \<in> set tracked \<Longrightarrow> repo_digest g path = Inr (digest path)" using assms unfolding is_ok_iff by metis
  have "mapM (\<lambda>path. rbind (repo_digest g path) (\<lambda>digest. Inr (join ''/'' path, JStr digest))) tracked
      = Inr (map (\<lambda>path. (join ''/'' path, JStr (digest path))) tracked)"
    by (rule mapM_all_Inr) (simp add: digest)
  then show ?thesis by (simp add: source_tree_identity_def canonical_json_bytes_def list_ex_iff del: sort_json_obj json_text.simps)
qed

lemma make_manifest_total:
  assumes "prepare g = Inr p" "verify_reference_extractor_golden g = Inr (pr_reference p)" "rounds_unit (gx_env g)"
    and files: "\<And>path. path \<in> set repository_files \<Longrightarrow> is_ok (repo_digest g path)"
  shows "\<exists>manifest. make_manifest g p = Inr manifest \<and> \<not> has_nonfinite (JObj manifest)"
proof -
  obtain golden where golden: "json_get (pr_reference p) ''telemetry_golden_digest'' = Some (JStr golden)"
    using golden_reference [OF assms(2)] by blast
  obtain rows raw where truth: "ground_truth_rows (pr_records p) = Inr rows" "canonical_json_bytes (me_py (gx_env g)) (JArr rows) = Inr raw"
    using prepared_truth [OF assms(1)] by blast
  obtain identity where identity: "source_tree_identity g = Inr identity"
    using tree_identity_total files by (fastforce simp: repository_files_def)
  have "list_all (\<lambda>path. is_ok (repo_digest g path)) repository_files" using files by (simp add: list_all_iff)
  note ok = this [unfolded repository_files_def tracked_def append.simps list.pred_inject is_ok_iff]
  obtain d1 d2 d3 d4 where digests: "repo_digest g [''contracts'', ''profiles'', ''v1'', ''dataset-p4-window-binary.json''] = Inr d1"
    "repo_digest g [''ml-py'', ''uv.lock''] = Inr d2" "repo_digest g [''contracts'', ''profiles'', ''v1'', ''edge-feature-window.json''] = Inr d3"
    "repo_digest g [''ml-py'', ''src'', ''masi_offline_ml'', ''dataset.py''] = Inr d4"
    using ok by blast
  obtain review where review: "canonical_json_bytes (me_py (gx_env g)) privacy_review = Inr review"
    by (simp add: canonical_json_bytes_def privacy_review_def del: sort_json_obj json_text.simps)
  show ?thesis
    using composed_manifest_valid [OF assms(1,3) prepared_eligible(2) [OF assms(1)]] composed_manifest_finite
    by (simp add: make_manifest_def Let_def prepared_eligible(1) [OF assms(1)] truth identity digests review item_at_def golden
        del: has_nonfinite.simps)
qed


section \<open>The generation\<close>

lemma out_path_below: "names \<noteq> [] \<Longrightarrow> output \<noteq> [] \<Longrightarrow> starts_with (path_str output @ ''/'') (out_path output names)"
  by (simp add: out_path_def path_str_def join_append starts_with_iff)

lemma data_paths_plain: "fresh_temporary pid path \<notin> (\<lambda>(w, path, raw). path) ` set (data_writes a output p)"
proof
  assume "fresh_temporary pid path \<in> (\<lambda>(w, path, raw). path) ` set (data_writes a output p)"
  then obtain w raw where "(w, fresh_temporary pid path, raw) \<in> set (data_writes a output p)" by auto
  from data_writes_plain(1) [OF this] show False by blast
qed

lemma generation_succeeds:
  assumes golden: "verify_reference_extractor_golden g = Inr reference" and families: "select_families (gx_env g) = Inr families"
    and "rounds_unit (gx_env g)" and files: "list_all (\<lambda>path. is_ok (repo_digest g path)) repository_files"
    and absent: "\<not> is_ok (lstat (gx_tree g) output)" "output \<noteq> []" "clear_below (path_str output) fs {}"
    and answers: "an_directory a" "an_data_directory a"
      "list_all answers_well [an_features a, an_index a, an_splits a, an_manifest a, an_reference a]"
  shows "\<exists>manifest states body. generate_resolved g a output fs = (Inr manifest, states)
    \<and> pretty_json (me_py (gx_env g)) (JObj manifest) = Inr body \<and> last states (out_path output [''manifest.json'']) = Some body"
proof -
  obtain p where p: "prepare g = Inr p" "pr_reference p = reference" using prepare_total [OF golden families] by blast
  obtain manifest where m: "make_manifest g p = Inr manifest" "\<not> has_nonfinite (JObj manifest)"
    using make_manifest_total [OF p(1) _ assms(3)] golden p(2) files by (auto simp: list_all_iff)
  let ?dir = "path_str output" and ?manifest = "out_path output [''manifest.json'']" and ?golden = "out_path output [''reference-extractor-golden.json'']"
  let ?paths = "(\<lambda>(w, path, raw). path) ` set (data_writes a output p)"
  obtain first where first: "run_writes (map (\<lambda>(w, path, raw). write_fresh_bytes w path raw) (data_writes a output p)) fs = (Inr (), first)"
    "first \<noteq> []" "clear_below ?dir (last first) ({} \<union> ?paths)"
  proof -
    have "answers_well w \<and> starts_with (?dir @ ''/'') path \<and> path \<notin> {}" if "(w, path, raw) \<in> set (data_writes a output p)" for w path raw
      using that answers(3) out_path_below [OF _ absent(2)] by (auto simp: data_writes_def)
    moreover have "distinct (map (\<lambda>(w, path, raw). path) (data_writes a output p))"
      by (simp add: data_writes_def out_path_def path_str_def join_append absent(2))
    moreover have "q \<noteq> fresh_temporary pid path'" if "q \<in> ?paths" for q pid path'
      using that data_paths_plain by metis
    ultimately show ?thesis using run_bytes_succeeds [OF absent(3)] that by (metis (no_types, lifting) Un_empty_left)
  qed
  have below: "starts_with (?dir @ ''/'') ?manifest" "starts_with (?dir @ ''/'') ?golden" using out_path_below absent(2) by simp_all
  have golden_plain: "?golden \<noteq> fresh_temporary pid path" for pid path unfolding out_path_def by (rule not_temporary) simp_all
  have other: "?manifest \<notin> ?paths" "?golden \<notin> ?paths" "?golden \<noteq> ?manifest"
    using data_writes_plain(2) by (auto simp: data_writes_def out_path_def path_str_def join_append absent(2))
  note temporary = data_paths_plain [of _ _ a "output" p]
  have free: "last first ?manifest = None" "last first (fresh_temporary (wa_pid w) ?manifest) = None"
    "last first ?golden = None" "last first (fresh_temporary (wa_pid w) ?golden) = None" for w
    by (rule clear_belowD [OF first(3)]; use below other temporary in \<open>simp add: temporary_below\<close>)+
  obtain s1 where s1: "write_fresh_json (me_py (gx_env g)) (an_manifest a) ?manifest (JObj manifest) (last first) = (Inr (), s1)"
    using write_json_succeeds [OF _ free(1,2) m(2)] answers(3) by auto
  obtain body where body: "pretty_json (me_py (gx_env g)) (JObj manifest) = Inr body" "last s1 = (last first)(?manifest \<mapsto> body)"
    using write_fresh_json_stored [OF s1] by blast
  have free': "last s1 ?golden = None" "last s1 (fresh_temporary (wa_pid w) ?golden) = None" for w
    by (simp_all add: body(2) free(3,4) other(3) manifest_plain [symmetric])
  obtain s2 where s2: "write_fresh_json (me_py (gx_env g)) (an_reference a) ?golden (JObj (pr_reference p)) (last s1) = (Inr (), s2)"
    using write_json_succeeds [OF _ free' golden_reference(2) [OF golden]] p(2) answers(3) by auto
  then have "last s2 ?manifest = Some body" using write_fresh_json_stored [OF s2] body(2) other(3) by fastforce
  moreover have "generate_resolved g a output fs = (Inr manifest, first @ s1 @ s2 @ [last s2])"
    using first(1) s1 s2 by (simp add: generate_resolved_def create_fresh_directory_def absent(1) answers p(1) m(1))
  ultimately show ?thesis using body(1) by auto
qed

text \<open>
  C29: a generation completes. With a golden file that verifies, families for every quota, readable repository files, an
  output directory that is not there and has nothing below it, and a system that answers every call well, the
  generation returns a manifest, and the manifest file holds it: no check of the program stands in its own way.
\<close>

theorem generation_completes:
  assumes repo: "at_repo g = Inr g'" and golden: "verify_reference_extractor_golden g' = Inr reference" and families: "select_families (gx_env g) = Inr families"
    and "rounds_unit (gx_env g)" and files: "list_all (\<lambda>path. is_ok (repo_digest g' path)) repository_files"
    and absent: "\<not> is_ok (lstat (gx_tree g) output)" "output \<noteq> []" "clear_below (path_str output) fs {}"
    and answers: "an_directory a" "an_data_directory a"
      "list_all answers_well [an_features a, an_index a, an_splits a, an_manifest a, an_reference a]"
  shows "\<exists>manifest states body. generate_module_dataset g a output fs = (Inr manifest, states)
    \<and> pretty_json (me_py (gx_env g)) (JObj manifest) = Inr body \<and> last states (out_path output [''manifest.json'']) = Some body"
proof -
  have g': "gx_env g' = gx_env g" "gx_tree g' = gx_tree g" using at_repo_env [OF repo] by simp_all
  have "generate_module_dataset g a output fs = generate_resolved g' a output fs" using repo by (simp add: generate_module_dataset_def)
  then show ?thesis using generation_succeeds [OF golden, of families "output" fs a] assms(3-) by (simp add: g')
qed

end
