(* ===== verification/Ml_Sample.thy ===== *)
theory Ml_Sample
  imports Ml_Complete
begin

text \<open>
  A small repository in which the module dataset is generated and read back: the concrete instance for the theorems
  on generation. Numbers are exact, digests are constant, and \<open>json.loads\<close> is a search among the generated lines.
\<close>

section \<open>The repository\<close>

definition exact_env :: ml_env where
  "exact_env = sample_ml_env\<lparr>me_py := zero_env\<lparr>float_repr := (\<lambda>q. if q = 1 then ''1.0'' else ''0.0'')\<rparr>\<rparr>"

definition repo_directories :: "str list list" where
  "repo_directories = [[''repo''], [''repo'', ''contracts''], [''repo'', ''contracts'', ''golden''],
     [''repo'', ''contracts'', ''golden'', ''telemetry''], [''repo'', ''contracts'', ''dataset''], [''repo'', ''contracts'', ''dataset'', ''v1''],
     [''repo'', ''contracts'', ''profiles''], [''repo'', ''contracts'', ''profiles'', ''v1''], [''repo'', ''ml-py''], [''repo'', ''ml-py'', ''src''],
     [''repo'', ''ml-py'', ''src'', ''masi_offline_ml'']]"

definition repo_tree :: tree where
  "repo_tree = map_of (map (\<lambda>path. (path, Directory)) repo_directories
     @ map (\<lambda>path. (''repo'' # path, Regular ''x'')) ([''contracts'', ''golden'', ''telemetry'', ''snapshot-v1.json''] # repository_files))"

definition repo_golden :: json where
  "repo_golden = JObj [(''aggregate'', JObj [(''packets'', JInt 2), (''bytes'', JInt 108)]), (''reported_nonzero_cells'', JInt 1),
     (''cells'', JArr [JObj [(''packets'', JInt 2), (''bytes'', JInt 108)]]), (''quality'', GOLDEN_QUALITY)]"

definition repo_generator :: generator where
  "repo_generator = \<lparr>gx_env = exact_env, gx_loads = (\<lambda>_. Inr repo_golden), gx_int_text = (\<lambda>_. None), gx_tree = repo_tree, gx_repo = [''repo'']\<rparr>"

definition good_answers :: write_answers where
  "good_answers = \<lparr>wa_pid = 7, wa_mkdir = True, wa_open = True, wa_writes = [], wa_sync = True, wa_replace = True\<rparr>"

definition good_system :: answers where
  "good_system = \<lparr>an_directory = True, an_data_directory = True, an_features = good_answers, an_index = good_answers,
     an_splits = good_answers, an_manifest = good_answers, an_reference = good_answers\<rparr>"

lemma repo_plain:
  "list_all (\<lambda>path. plain_file repo_tree (''repo'' # path) ''x'') ([''contracts'', ''golden'', ''telemetry'', ''snapshot-v1.json''] # repository_files)"
  by code_simp

lemma repo_parts [simp]: "gx_env repo_generator = exact_env" "gx_tree repo_generator = repo_tree" "gx_repo repo_generator = [''repo'']"
  "gx_int_text repo_generator = (\<lambda>_. None)"
  by (simp_all add: repo_generator_def)

lemma repo_digests: "list_all (\<lambda>path. is_ok (repo_digest repo_generator path)) repository_files"
  using repo_plain plain_file_read(1) by (fastforce simp: list_all_iff repo_digest_def sha256_file_eq is_ok_iff)

lemma repo_place: "resolve repo_tree [''repo''] = Inr [''repo'']" "at_repo repo_generator = Inr repo_generator"
proof -
  have "plain_file repo_tree [''repo'', ''contracts'', ''golden'', ''telemetry'', ''snapshot-v1.json''] ''x''" using repo_plain by (simp add: list_all_iff)
  then show place: "resolve repo_tree [''repo''] = Inr [''repo'']"
    by (simp add: resolve_def real_path_simps plain_file_def upt_rec numeral_eq_Suc)
  then show "at_repo repo_generator = Inr repo_generator" by (simp add: at_repo_def)
qed

lemma repo_golden_verifies: "\<exists>reference. verify_reference_extractor_golden repo_generator = Inr reference"
proof -
  let ?path = "[''repo'', ''contracts'', ''golden'', ''telemetry'', ''snapshot-v1.json'']"
  have plain: "plain_file repo_tree ?path ''x''" using repo_plain by (simp add: list_all_iff)
  have parts: "path_parts ''contracts/golden/telemetry/snapshot-v1.json'' = [''contracts'', ''golden'', ''telemetry'', ''snapshot-v1.json'']" by code_simp
  have found: "resolve_repo_file repo_tree [''repo''] ''contracts/golden/telemetry/snapshot-v1.json'' (1024 * 1024) = Inr ?path"
    using plain_file_read(1) [OF plain, of "1024 * 1024"] plain_file_read(2) [OF plain] by (simp add: repo_place(1) resolve_repo_file_def parts Let_def starts_at_def)
  have tensor: "feature_tensor_bytes (map JInt GOLDEN) = Inr (concat (map (le_bytes 8) GOLDEN))"
    unfolding GOLDEN_def by (rule feature_tensor_bytes_total) simp_all
  have json: "load_json (gx_loads repo_generator) repo_tree ?path (4 * 1024 * 1024) = Inr repo_golden"
    using plain_file_read(1) [OF plain, of "4 * 1024 * 1024"] by (simp add: load_json_def repo_generator_def)
  have digest: "sha256_file exact_env repo_tree ?path = Inr (sha256_bytes exact_env ''x'')"
    using plain_file_read(1) [OF plain, of "10 * 1024 * 1024 * 1024"] by (simp add: sha256_file_eq)
  show ?thesis
    using tensor unfolding verify_reference_extractor_golden_def repo_parts found json Let_def digest rbind_Inr
    by (simp add: repo_golden_def indexed_def item_at_def json_get_simps int_at_def iterated_def max_of_def GOLDEN_def)
qed


lemma exact_families: "\<exists>families. select_families exact_env = Inr families"
  using sample_families_with by (auto simp: exact_env_def is_ok_iff)

lemma exact_units: "rounds_unit exact_env" "digests_short exact_env"
  "float_repr (me_py exact_env) 0 = ''0.0''" "float_repr (me_py exact_env) 1 = ''1.0''"
  by (simp_all add: exact_env_def sample_ml_env_def rounds_unit_def digests_short_def zero_env_def)

lemma repo_output_absent: "\<not> is_ok (lstat repo_tree [''out''])"
  by (simp add: lstat_def resolve_def real_path_simps node_at_def repo_tree_def repo_directories_def repository_files_def tracked_def)

lemma good_system_answers:
  "an_directory good_system" "an_data_directory good_system"
  "list_all answers_well [an_features good_system, an_index good_system, an_splits good_system, an_manifest good_system, an_reference good_system]"
  by (simp_all add: good_system_def good_answers_def answers_well_def)

lemma repo_clear: "clear_below (path_str [''out'']) Map.empty {}"
  by (simp add: clear_below_def)

theorem generation_completes_witness:
  "\<exists>manifest states body. generate_module_dataset repo_generator good_system [''out''] Map.empty = (Inr manifest, states)
    \<and> pretty_json (me_py exact_env) (JObj manifest) = Inr body \<and> last states (out_path [''out''] [''manifest.json'']) = Some body"
proof -
  obtain reference where "verify_reference_extractor_golden repo_generator = Inr reference" using repo_golden_verifies by blast
  moreover obtain families where "select_families (gx_env repo_generator) = Inr families" using exact_families by auto
  ultimately show ?thesis
    using generation_completes [OF repo_place(2), of reference families "[''out'']" Map.empty good_system] exact_units(1) repo_digests
      repo_output_absent good_system_answers repo_clear by auto
qed

text \<open>The same generation, for the other theorems.\<close>

lemma repo_generation:
  obtains manifest states p where "generate_module_dataset repo_generator good_system [''out''] Map.empty = (Inr manifest, states)"
    "prepare repo_generator = Inr p"
proof -
  obtain reference where reference: "verify_reference_extractor_golden repo_generator = Inr reference" using repo_golden_verifies by blast
  obtain families where families: "select_families (gx_env repo_generator) = Inr families" using exact_families by auto
  obtain p where "prepare repo_generator = Inr p" using prepare_total [OF reference families] by blast
  then show ?thesis
    using generation_succeeds [OF reference families, of "[''out'']" Map.empty good_system] exact_units(1) repo_digests
      repo_output_absent good_system_answers repo_clear that by (auto simp: generate_module_dataset_def repo_place(2))
qed

lemma generation_states:
  assumes "generate_module_dataset g a output fs = (r, states)"
  shows "states \<noteq> []"
proof -
  have data: "run_writes (map (\<lambda>(w, path, raw). write_fresh_bytes w path raw) (data_writes a output p)) fs = (x, s) \<Longrightarrow> s \<noteq> []" for p x s
    using byte_files.keeps_run unfolding keeps_files_def by blast
  show ?thesis using assms by (auto simp: generate_module_dataset_def generate_resolved_def dest: data split: sum.splits prod.splits simp del: run_writes.simps)
qed

theorem generation_ordered_witness:
  "\<exists>manifest states body. generate_module_dataset repo_generator good_system [''out''] Map.empty = (Inr manifest, states)
    \<and> pretty_json (me_py exact_env) (JObj manifest) = Inr body \<and> last states (out_path [''out''] [''manifest.json'']) = Some body"
proof -
  obtain manifest states where run: "generate_module_dataset repo_generator good_system [''out''] Map.empty = (Inr manifest, states)"
    by (rule repo_generation)
  have "states \<noteq> []" by (rule generation_states [OF run])
  then show ?thesis using generation_ordered [OF run, of "last states"] run by auto
qed

section \<open>The lines of the sample index\<close>

lemma json_str_plain: "list_all (\<lambda>c. json_escape_char c = [c]) s \<Longrightarrow> json_str s = quote # s @ [quote]"
  unfolding json_str_def by (induction s) auto

lemma family_name_plain: "i < 100000 \<Longrightarrow> length (json_str (family_name i)) = 31"
proof -
  assume i: "i < 100000"
  have "list_all (\<lambda>c. json_escape_char c = [c]) (family_name i)"
  proof -
    have "json_escape_char c = [c]" if digit: "is_digit c" for c
    proof -
      have "\<not> is_digit backslash" "\<not> is_digit quote" "\<not> is_digit CHR 0x08" "\<not> is_digit CHR 0x0C" "\<not> is_digit CHR 0x0A"
        "\<not> is_digit CHR 0x0D" "\<not> is_digit CHR 0x09" by code_simp+
      then have "c \<notin> {backslash, quote, CHR 0x08, CHR 0x0C, CHR 0x0A, CHR 0x0D, CHR 0x09}" using digit by blast
      moreover have "CHR 0x20 \<le> CHR ''0''" by code_simp
      then have "\<not> c < CHR 0x20" using digit order_trans unfolding is_digit_def not_less by blast
      ultimately show ?thesis by (simp add: json_escape_char_def)
    qed
    moreover have "is_digit CHR ''0''" by code_simp
    ultimately have "list_all (\<lambda>c. json_escape_char c = [c]) (pad 6 (int i))"
      using nat_str_digits [of i] by (auto simp: pad_def Let_def int_str_def list_all_iff)
    moreover have "list_all (\<lambda>c. json_escape_char c = [c]) ''masi-synthetic-capture-''" by code_simp
    ultimately show ?thesis by (simp only: family_name_def list_all_append)
  qed
  then show ?thesis using length_family_name [OF i] by (simp add: json_str_plain)
qed

lemma record_first_fields:
  "\<exists>rest. rest \<noteq> [] \<and> sorted_fields (record_of env revision source_digest i d) =
     (''capture_family_id'', JStr (dr_capture_family_id d)) # (''dataset_id'', JStr DATASET_ID) # (''dataset_revision'', JStr revision)
     # (''feature_length'', JInt 48) # (''feature_offset'', JInt (int i * 48)) # rest"
proof -
  have first: "take 5 (sort_key fst (map (\<lambda>kv. (fst kv, f (snd kv))) (sample_document d revision offset source_digest tensor_digest snapshot_digest label)))
    = [(''capture_family_id'', f (JStr (dr_capture_family_id d))), (''dataset_id'', f (JStr DATASET_ID)), (''dataset_revision'', f (JStr revision)),
       (''feature_length'', f (JInt 48)), (''feature_offset'', f (JInt offset))]" for f :: "json \<Rightarrow> json" and offset tensor_digest snapshot_digest label
    unfolding sample_document_def by code_simp
  let ?s = "sorted_fields (record_of env revision source_digest i d)"
  have "take 5 ?s = [(''capture_family_id'', JStr (dr_capture_family_id d)), (''dataset_id'', JStr DATASET_ID), (''dataset_revision'', JStr revision),
       (''feature_length'', JInt 48), (''feature_offset'', JInt (int i * 48))]"
    unfolding sorted_fields_def record_of_def first by simp
  moreover have "drop 5 ?s \<noteq> []" by (simp add: sorted_fields_def record_of_def sample_document_def)
  ultimately show ?thesis by (intro exI [of _ "drop 5 ?s"]) (metis append_Cons append_Nil append_take_drop_id)
qed

text \<open>Two records of a dataset have the same line only at the same place.\<close>

lemma record_line_place:
  assumes "draft_ok env d" "draft_ok env d'"
    and "json_text py (sort_json (JObj (record_of env revision source_digest i d))) = json_text py (sort_json (JObj (record_of env revision source_digest j d')))"
  shows "i = j"
proof -
  let ?prefix = "json_str ''dataset_id'' @ '':'' @ json_str DATASET_ID @ '','' @ json_str ''dataset_revision'' @ '':'' @ json_str revision @ '',''
     @ json_str ''feature_length'' @ '':'' @ int_str 48 @ '','' @ json_str ''feature_offset'' @ '':''"
  have line: "\<exists>rest. json_text py (sort_json (JObj (record_of env revision source_digest k x)))
      = ''{'' @ json_str ''capture_family_id'' @ '':'' @ json_str (dr_capture_family_id x) @ '','' @ ?prefix @ int_str (int k * 48) @ '','' @ rest" for k x
  proof -
    obtain kv rest where "sorted_fields (record_of env revision source_digest k x) =
      (''capture_family_id'', JStr (dr_capture_family_id x)) # (''dataset_id'', JStr DATASET_ID) # (''dataset_revision'', JStr revision)
      # (''feature_length'', JInt 48) # (''feature_offset'', JInt (int k * 48)) # kv # rest"
      using record_first_fields [of env revision source_digest k x] by (metis neq_Nil_conv)
    then show ?thesis by simp
  qed
  obtain r where r: "json_text py (sort_json (JObj (record_of env revision source_digest i d)))
      = ''{'' @ json_str ''capture_family_id'' @ '':'' @ json_str (dr_capture_family_id d) @ '','' @ ?prefix @ int_str (int i * 48) @ '','' @ r"
    using line by blast
  obtain r' where r': "json_text py (sort_json (JObj (record_of env revision source_digest j d')))
      = ''{'' @ json_str ''capture_family_id'' @ '':'' @ json_str (dr_capture_family_id d') @ '','' @ ?prefix @ int_str (int j * 48) @ '','' @ r'"
    using line by blast
  have eq: "json_str (dr_capture_family_id d) @ '','' @ ?prefix @ int_str (int i * 48) @ '','' @ r
      = json_str (dr_capture_family_id d') @ '','' @ ?prefix @ int_str (int j * 48) @ '','' @ r'"
    using assms(3) unfolding r r' same_append_eq .
  have "length (json_str (dr_capture_family_id x)) = 31" if "draft_ok env x" for x
    using that family_name_plain make_draft_fields(3) unfolding draft_ok_def by metis
  with assms(1,2) have "length (json_str (dr_capture_family_id d)) = length (json_str (dr_capture_family_id d'))" by simp
  then have "int_str (int i * 48) @ '','' @ r = int_str (int j * 48) @ '','' @ r'"
    using eq unfolding append_eq_append_conv [OF disjI1] same_append_eq by (simp only: append_eq_append_conv same_append_eq simp_thms)
  moreover have comma: "CHR '','' \<notin> set (int_str n)" for n
  proof -
    have "\<not> is_digit CHR '',''" by code_simp
    then show ?thesis using nat_str_digits [of "nat n"] nat_str_digits [of "nat (- n)"] by (auto simp: int_str_def list_all_iff)
  qed
  moreover have "takeWhile (\<lambda>c. c \<noteq> CHR '','') (int_str n @ '','' @ s) = int_str n" for n s
    by (subst takeWhile_append2) (use comma [of n] in auto)
  ultimately have "int_str (int i * 48) = int_str (int j * 48)" by metis
  then show ?thesis by simp
qed

section \<open>Reading back\<close>

definition line_of :: "(str \<times> json) list \<Rightarrow> str" where
  "line_of r = json_text (me_py exact_env) (sort_json (JObj r)) @ [newline]"

definition search_loader :: "(str \<times> json) list list \<Rightarrow> loader" where
  "search_loader records = \<lparr>ld_env = exact_env,
     ld_loads = (\<lambda>line. case filter (\<lambda>r. line_of r = line) records of [] \<Rightarrow> None | r # _ \<Rightarrow> Some (sort_json (JObj r))),
     ld_manifest_error = (\<lambda>_. None), ld_sample_error = (\<lambda>_. None), ld_int_text = (\<lambda>_. None), ld_float_text = (\<lambda>_. None)\<rparr>"

lemma search_loads:
  assumes "prepare repo_generator = Inr p" and "r \<in> set (pr_records p)"
  shows "ld_loads (search_loader (pr_records p)) (sample_line (search_loader (pr_records p)) r) = Some (sort_json (JObj r))"
proof -
  note parts = prepare_parts [OF assms(1), unfolded repo_parts]
  have place: "\<exists>i. draft_ok exact_env (pr_drafts p ! i) \<and> x = record_of exact_env (pr_revision p) (pr_source_digest p) i (pr_drafts p ! i)"
    if x: "x \<in> set (pr_records p)" for x
  proof -
    obtain i where i: "i < length (pr_drafts p)" "x = record_of exact_env (pr_revision p) (pr_source_digest p) i (pr_drafts p ! i)"
      using x parts(4) by auto
    then show ?thesis using build_drafts_ok [OF parts(1)] nth_mem [OF i(1)] parts(2) by metis
  qed
  have same: "x = r" if "x \<in> set (pr_records p)" "line_of x = line_of r" for x
    using place [OF that(1)] place [OF assms(2)] that(2) record_line_place unfolding line_of_def append_same_eq by metis
  let ?found = "filter (\<lambda>x. line_of x = line_of r) (pr_records p)"
  have "r \<in> set ?found" using assms(2) by simp
  then obtain x xs where found: "?found = x # xs" by (cases ?found) auto
  then have "x \<in> set ?found" by simp
  then have "x = r" using same by simp
  moreover have "sample_line (search_loader (pr_records p)) r = line_of r" by (simp add: sample_line_def line_of_def search_loader_def del: json_text.simps)
  ultimately show ?thesis using found by (simp add: search_loader_def del: filter.simps)
qed

theorem generated_dataset_loads_witness:
  "\<exists>manifest states records data. generate_module_dataset repo_generator good_system [''out''] Map.empty = (Inr manifest, states)
    \<and> load_dataset (search_loader records) (directory_of (last states) [''out'']) (sorted_fields manifest) = Inr data \<and> length (dd_records data) = 2560"
proof -
  obtain manifest states p where run: "generate_module_dataset repo_generator good_system [''out''] Map.empty = (Inr manifest, states)"
    and p: "prepare repo_generator = Inr p" by (rule repo_generation)
  have "ld_sample_error (search_loader (pr_records p)) v = None" "ld_manifest_error (search_loader (pr_records p)) doc = None" for v doc
    by (simp_all add: search_loader_def)
  then have "\<exists>data. load_dataset (search_loader (pr_records p)) (directory_of (last states) [''out'']) (sorted_fields manifest) = Inr data
      \<and> length (dd_records data) = 2560"
    using generated_dataset_loads [OF run repo_place(2) p, of "search_loader (pr_records p)"] exact_units search_loads [OF p] by (auto simp: search_loader_def)
  then show ?thesis using run by blast
qed

end
