(* ===== verification/Ml_Selection.thy ===== *)
theory Ml_Selection
  imports Ml_Contracts
begin

text \<open>
  Thresholds, quality and the winner of the training pipeline (\<open>metrics.py\<close>, \<open>select_winner\<close> of \<open>artifacts.py\<close>).

  Arrays are lists. Every quotient is rounded, as in \<open>Ml_Contracts\<close>; the conversion to single precision, the
  mean, the squared error and scikit-learn's average precision are parameters. Probabilities and labels have the same
  length, as everywhere in the pipeline; NumPy refuses other shapes.
\<close>

record metric_env =
  mv_env :: ml_env
  mv_single :: "rat \<Rightarrow> rat"
  mv_mean :: "rat list \<Rightarrow> rat"
  mv_average_precision :: "int list \<Rightarrow> rat list \<Rightarrow> rat"

abbreviation mv_round :: "metric_env \<Rightarrow> rat \<Rightarrow> rat" where
  "mv_round env \<equiv> me_round (mv_env env)"

section \<open>Decisions and thresholds\<close>

record thresholds =
  th_alert :: rat
  th_confidence :: rat

text \<open>0 is benign, 1 alert and 2 abstain; the second assignment of the code overrides the first.\<close>

definition decision :: "metric_env \<Rightarrow> thresholds \<Rightarrow> rat \<Rightarrow> int" where
  "decision env t attack =
     (if max attack (mv_round env (1 - attack)) < th_confidence t then 2 else if th_alert t \<le> attack then 1 else 0)"

definition decisions :: "metric_env \<Rightarrow> thresholds \<Rightarrow> rat list \<Rightarrow> int list" where
  "decisions env t = map (decision env t)"

definition count_if :: "(int \<Rightarrow> int \<Rightarrow> bool) \<Rightarrow> int list \<Rightarrow> int list \<Rightarrow> nat" where
  "count_if P predicted labels = length (filter (\<lambda>(p, l). P p l) (zip predicted labels))"

definition rate :: "metric_env \<Rightarrow> nat \<Rightarrow> nat \<Rightarrow> rat" where
  "rate env a b = mv_round env (of_nat a / of_nat (max 1 b))"

definition threshold_constraints :: "metric_env \<Rightarrow> rat list \<Rightarrow> int list \<Rightarrow> thresholds \<Rightarrow> bool \<times> rat list" where
  "threshold_constraints env probability labels t =
     (let predicted = decisions env t probability;
          benign = count_if (\<lambda>_ l. l = 0) predicted labels; attack = count_if (\<lambda>_ l. l = 1) predicted labels;
          false_positive_rate = rate env (count_if (\<lambda>p l. p = 1 \<and> l = 0) predicted labels) benign;
          recall = rate env (count_if (\<lambda>p l. p = 1 \<and> l = 1) predicted labels) attack;
          coverage = rate env (count_if (\<lambda>p l. p \<noteq> 2) predicted labels) (length labels);
          benign_abstain = rate env (count_if (\<lambda>p l. p = 2 \<and> l = 0) predicted labels) benign in
      (false_positive_rate \<le> mv_round env (1 / 100) \<and> recall \<ge> mv_round env (9 / 10) \<and> coverage \<ge> mv_round env (95 / 100)
         \<and> benign_abstain \<le> mv_round env (5 / 100),
       [- recall, false_positive_rate, - coverage, th_alert t, th_confidence t]))"

definition finite_values :: "pyfloat list \<Rightarrow> rat list option" where
  "finite_values fs = those (map (\<lambda>f. case f of FFin q \<Rightarrow> Some q | _ \<Rightarrow> None) fs)"

text \<open>\<open>np.unique\<close> sorts.\<close>

definition threshold_candidates :: "metric_env \<Rightarrow> rat list \<Rightarrow> rat list" where
  "threshold_candidates env probs =
     filter (\<lambda>c. 1 / 2 \<le> c \<and> c \<le> 1) (sort (remdups (map (mv_single env) probs @ [1 / 2, 1])))"

definition threshold_pairs :: "rat list \<Rightarrow> thresholds list" where
  "threshold_pairs candidates =
     concat (map (\<lambda>confidence. map (\<lambda>alert. \<lparr>th_alert = alert, th_confidence = confidence\<rparr>)
       (filter (\<lambda>c. confidence \<le> c) candidates)) candidates)"

definition select_thresholds :: "metric_env \<Rightarrow> pyfloat list \<Rightarrow> int list \<Rightarrow> ml_error + thresholds" where
  "select_thresholds env probability labels =
     (case finite_values probability of
        None \<Rightarrow> Inl MValueError
      | Some probs \<Rightarrow>
          if probs = [] then Inl MValueError
          else let feasible = filter (\<lambda>t. fst (threshold_constraints env probs labels t)) (threshold_pairs (threshold_candidates env probs)) in
               case sort_key (\<lambda>t. snd (threshold_constraints env probs labels t)) feasible of
                 [] \<Rightarrow> Inl MValueError
               | t # _ \<Rightarrow> Inr t)"

section \<open>Quality\<close>

definition binary_f1 :: "metric_env \<Rightarrow> int list \<Rightarrow> int list \<Rightarrow> int \<Rightarrow> rat" where
  "binary_f1 env predicted labels positive =
     (let true_positive = count_if (\<lambda>p l. p = positive \<and> l = positive) predicted labels;
          false_positive = count_if (\<lambda>p l. p = positive \<and> l \<noteq> positive) predicted labels;
          false_negative = count_if (\<lambda>p l. p \<noteq> positive \<and> l = positive) predicted labels;
          denominator = 2 * true_positive + false_positive + false_negative in
      if denominator = 0 then 0 else mv_round env (2 * of_nat true_positive / of_nat denominator))"

text \<open>\<open>np.array_split(order, k)\<close>: \<open>k\<close> parts, the first \<open>n mod k\<close> of them one longer.\<close>

fun split_sizes :: "nat list \<Rightarrow> 'a list \<Rightarrow> 'a list list" where
  "split_sizes [] xs = []"
| "split_sizes (n # ns) xs = take n xs # split_sizes ns (drop n xs)"

definition array_split :: "nat \<Rightarrow> 'a list \<Rightarrow> 'a list list" where
  "array_split k xs =
     split_sizes (replicate (length xs mod k) (length xs div k + 1) @ replicate (k - length xs mod k) (length xs div k)) xs"

text \<open>NumPy refuses to split into no part.\<close>

definition equal_frequency_ece :: "metric_env \<Rightarrow> rat list \<Rightarrow> int list \<Rightarrow> nat \<Rightarrow> ml_error + rat" where
  "equal_frequency_ece env probabilities labels bins =
     (let pairs = sort_key fst (zip probabilities labels); n = length probabilities in
      if min bins n = 0 then Inl MValueError
      else Inr (fold (\<lambda>part error. if part = [] then error
         else mv_round env (error + mv_round env (mv_round env (of_nat (length part) / of_nat n)
                * \<bar>mv_round env (mv_mean env (map fst part) - mv_mean env (map (\<lambda>(_, l). of_int l) part))\<bar>)))
       (array_split (min bins n) pairs) 0))"

record family_recall =
  fr_samples :: nat
  fr_measurable :: bool
  fr_recall :: rat

record quality =
  qu_average_precision :: rat
  qu_precision :: rat
  qu_recall :: rat
  qu_macro_f1 :: rat
  qu_false_positive_rate :: rat
  qu_ece :: rat
  qu_brier :: rat
  qu_coverage :: rat
  qu_benign_abstain_rate :: rat
  qu_true_positive :: nat
  qu_false_positive :: nat
  qu_false_negative :: nat
  qu_true_negative :: nat
  qu_abstain :: nat
  qu_family_recall :: "(str \<times> family_recall) list"

definition family_recalls :: "metric_env \<Rightarrow> int list \<Rightarrow> int list \<Rightarrow> str list \<Rightarrow> (str \<times> family_recall) list" where
  "family_recalls env predicted labels families =
     (let rows = zip predicted (zip labels families) in
      map (\<lambda>family.
        let selected = filter (\<lambda>(p, l, f). l = 1 \<and> f = family) rows; n = length selected in
        (family, if n < 100 then \<lparr>fr_samples = n, fr_measurable = False, fr_recall = 0\<rparr>
           else \<lparr>fr_samples = n, fr_measurable = True,
             fr_recall = mv_round env (of_nat (length (filter (\<lambda>(p, l, f). p = 1) selected)) / of_nat n)\<rparr>))
      (sort (remdups (map (\<lambda>(p, l, f). f) (filter (\<lambda>(p, l, f). l = 1) rows)))))"

definition quality_metrics :: "metric_env \<Rightarrow> rat list \<Rightarrow> int list \<Rightarrow> thresholds \<Rightarrow> str list \<Rightarrow> ml_error + quality" where
  "quality_metrics env probabilities labels t families =
     (let predicted = decisions env t probabilities;
          true_positive = count_if (\<lambda>p l. p = 1 \<and> l = 1) predicted labels;
          false_positive = count_if (\<lambda>p l. p = 1 \<and> l = 0) predicted labels;
          false_negative = count_if (\<lambda>p l. p \<noteq> 1 \<and> l = 1) predicted labels;
          true_negative = count_if (\<lambda>p l. p = 0 \<and> l = 0) predicted labels;
          benign_abstained = count_if (\<lambda>p l. p = 2 \<and> l = 0) predicted labels in
      rbind (equal_frequency_ece env probabilities labels 15) (\<lambda>ece. Inr
      \<lparr>qu_average_precision = mv_average_precision env labels probabilities,
       qu_precision = rate env true_positive (true_positive + false_positive),
       qu_recall = rate env true_positive (true_positive + false_negative),
       qu_macro_f1 = mv_round env (mv_round env (binary_f1 env predicted labels 0 + binary_f1 env predicted labels 1) / 2),
       qu_false_positive_rate = rate env false_positive (false_positive + true_negative + benign_abstained),
       qu_ece = ece,
       qu_brier = mv_mean env (map (\<lambda>(p, l). let d = mv_round env (p - of_int l) in mv_round env (d * d)) (zip probabilities labels)),
       qu_coverage = rate env (count_if (\<lambda>p l. p \<noteq> 2) predicted labels) (length predicted),
       qu_benign_abstain_rate = rate env benign_abstained (count_if (\<lambda>_ l. l = 0) predicted labels),
       qu_true_positive = true_positive, qu_false_positive = false_positive, qu_false_negative = false_negative,
       qu_true_negative = true_negative, qu_abstain = length (filter (\<lambda>p. p = 2) predicted),
       qu_family_recall = family_recalls env predicted labels families\<rparr>))"

definition quality_passes :: "metric_env \<Rightarrow> quality \<Rightarrow> bool" where
  "quality_passes env q \<longleftrightarrow>
     qu_average_precision q \<ge> mv_round env (95 / 100) \<and> qu_precision q \<ge> mv_round env (9 / 10)
   \<and> qu_recall q \<ge> mv_round env (9 / 10) \<and> qu_macro_f1 q \<ge> mv_round env (9 / 10)
   \<and> qu_false_positive_rate q \<le> mv_round env (1 / 100) \<and> qu_ece q \<le> mv_round env (5 / 100)
   \<and> qu_brier q \<le> mv_round env (1 / 10) \<and> qu_coverage q \<ge> mv_round env (95 / 100)
   \<and> qu_benign_abstain_rate q \<le> mv_round env (5 / 100)
   \<and> list_all (\<lambda>(_, r). fr_measurable r \<longrightarrow> fr_recall r \<ge> mv_round env (8 / 10)) (qu_family_recall q)"

text \<open>The report with its last entry, \<open>passes_thresholds\<close>.\<close>

definition quality_report :: "metric_env \<Rightarrow> rat list \<Rightarrow> int list \<Rightarrow> thresholds \<Rightarrow> str list \<Rightarrow> ml_error + quality \<times> bool" where
  "quality_report env probabilities labels t families =
     rbind (quality_metrics env probabilities labels t families) (\<lambda>q. Inr (q, quality_passes env q))"

section \<open>The winner\<close>

record trained_candidate =
  tc_candidate_id :: str
  tc_seed :: int
  tc_passes :: bool
  tc_average_precision :: rat
  tc_false_positive_rate :: rat
  tc_max_absolute_error :: rat

definition REQUIRED :: "str list" where
  "REQUIRED = [''lr-window-binary/v1'', ''xgb-window-binary/v1'', ''ae-window-benign/v1'']"

record summary =
  sm_candidate_id :: str
  sm_eligible :: bool
  sm_robust_ap :: rat
  sm_worst_fpr :: rat
  sm_max_error :: rat

definition summarise :: "trained_candidate list \<Rightarrow> str \<Rightarrow> ml_error + summary" where
  "summarise candidates candidate_id =
     (let runs = sort_key tc_seed (filter (\<lambda>c. tc_candidate_id c = candidate_id) candidates) in
      if map tc_seed runs \<noteq> [17, 29, 43] then Inl (Invalid ''mandatory_candidate_execution'' candidate_id)
      else Inr \<lparr>sm_candidate_id = candidate_id, sm_eligible = list_all tc_passes runs,
        sm_robust_ap = Min (set (map tc_average_precision runs)), sm_worst_fpr = Max (set (map tc_false_positive_rate runs)),
        sm_max_error = Max (set (map tc_max_absolute_error runs))\<rparr>)"

fun complexity :: "str list \<Rightarrow> str \<Rightarrow> nat" where
  "complexity [] name = 0"
| "complexity (x # xs) name = (if x = name then 0 else Suc (complexity xs name))"

datatype selection = No_Winner "summary list" | Winner str str "summary list"

text \<open>\<open>min(xs, key=f)\<close>: the first of the smallest.\<close>

fun min_by :: "('a \<Rightarrow> 'b::linorder) \<Rightarrow> 'a \<Rightarrow> 'a list \<Rightarrow> 'a" where
  "min_by f x [] = x"
| "min_by f x (y # ys) = (if f y < f x then min_by f y ys else min_by f x ys)"

definition within_ap :: "ml_env \<Rightarrow> rat \<Rightarrow> summary \<Rightarrow> bool" where
  "within_ap env best_ap s \<longleftrightarrow> me_round env (best_ap - sm_robust_ap s) \<le> me_round env (1 / 100)"

definition within_fpr :: "ml_env \<Rightarrow> rat \<Rightarrow> summary \<Rightarrow> bool" where
  "within_fpr env best_fpr s \<longleftrightarrow> me_round env (sm_worst_fpr s - best_fpr) \<le> me_round env (2 / 1000)"

definition SIMPLE_RULE :: str where "SIMPLE_RULE = ''simplicity-within-robust-ap-and-fpr-band''"
definition RANK_RULE :: str where "RANK_RULE = ''robust-ap-fpr-cpu-numeric-complexity''"

definition choose_winner :: "ml_env \<Rightarrow> summary list \<Rightarrow> str \<times> str" where
  "choose_winner env eligible =
     (let best_ap = Max (set (map sm_robust_ap eligible));
          best_fpr = Min (set (map sm_worst_fpr (filter (within_ap env best_ap) eligible)));
          simple = filter (\<lambda>s. within_ap env best_ap s \<and> within_fpr env best_fpr s) eligible in
      case simple of
        x # xs \<Rightarrow> (sm_candidate_id (min_by (\<lambda>s. complexity REQUIRED (sm_candidate_id s)) x xs), SIMPLE_RULE)
      | [] \<Rightarrow> (sm_candidate_id (min_by (\<lambda>s. [- sm_robust_ap s, sm_worst_fpr s, sm_max_error s,
                 of_nat (complexity REQUIRED (sm_candidate_id s))]) (hd eligible) (tl eligible)), RANK_RULE))"

definition select_winner :: "ml_env \<Rightarrow> trained_candidate list \<Rightarrow> ml_error + selection" where
  "select_winner env candidates =
     rbind (mapM (summarise candidates) REQUIRED) (\<lambda>summaries.
     let eligible = filter sm_eligible summaries in
     if eligible = [] then Inr (No_Winner summaries)
     else case choose_winner env eligible of (winner, rule) \<Rightarrow> Inr (Winner winner rule summaries))"

section \<open>Lemmas on decisions and thresholds\<close>

lemma count_if_cong:
  assumes "\<And>p l. (p, l) \<in> set (zip predicted labels) \<Longrightarrow> P p l = Q p l"
  shows "count_if P predicted labels = count_if Q predicted labels"
proof -
  have "filter (\<lambda>(p, l). P p l) (zip predicted labels) = filter (\<lambda>(p, l). Q p l) (zip predicted labels)"
    by (rule filter_cong) (auto simp: assms)
  then show ?thesis by (simp add: count_if_def)
qed

lemma count_if_split:
  "count_if P predicted labels =
     count_if (\<lambda>p l. P p l \<and> Q p l) predicted labels + count_if (\<lambda>p l. P p l \<and> \<not> Q p l) predicted labels"
proof -
  have "length (filter R xs) = length (filter (\<lambda>x. R x \<and> S x) xs) + length (filter (\<lambda>x. R x \<and> \<not> S x) xs)"
    for R S and xs :: "(int \<times> int) list"
    by (induction xs) auto
  from this [of "\<lambda>(p, l). P p l" "zip predicted labels" "\<lambda>(p, l). Q p l"]
  show ?thesis by (simp add: count_if_def case_prod_unfold)
qed

lemma length_decisions [simp]: "length (decisions env t xs) = length xs"
  by (simp add: decisions_def)

lemma decision_range: "decision env t p \<in> {0, 1, 2}"
  by (simp add: decision_def)

lemma constraints_cong:
  assumes "decisions env t probs = decisions env t' probs"
  shows "fst (threshold_constraints env probs labels t) = fst (threshold_constraints env probs labels t')"
    and "take 3 (snd (threshold_constraints env probs labels t)) = take 3 (snd (threshold_constraints env probs labels t'))"
  using assms by (simp_all add: threshold_constraints_def Let_def)

lemma threshold_pairs_iff:
  "t \<in> set (threshold_pairs cs) \<longleftrightarrow> th_alert t \<in> set cs \<and> th_confidence t \<in> set cs \<and> th_confidence t \<le> th_alert t"
  by (cases t) (auto simp: threshold_pairs_def)

lemma threshold_candidates_iff:
  "c \<in> set (threshold_candidates env probs) \<longleftrightarrow> 1 / 2 \<le> c \<and> c \<le> 1 \<and> (c = 1 / 2 \<or> c = 1 \<or> c \<in> mv_single env ` set probs)"
  by (auto simp: threshold_candidates_def)

lemma finite_values_length: "finite_values fs = Some probs \<Longrightarrow> length probs = length fs"
  unfolding finite_values_def
  by (induction fs arbitrary: probs) (auto split: pyfloat.splits)

text \<open>The first element of a stable sort is a minimum.\<close>

lemma sort_key_first:
  assumes "sort_key f xs = y # ys"
  shows "y \<in> set xs" and "x \<in> set xs \<Longrightarrow> f y \<le> f x"
proof -
  have eq: "set (y # ys) = set xs" by (metis assms set_sort)
  then show "y \<in> set xs" by auto
  have "sorted (map f (y # ys))" by (metis assms sorted_sort_key)
  then show "x \<in> set xs \<Longrightarrow> f y \<le> f x" using eq by auto
qed

lemma select_thresholds_Inr:
  assumes "select_thresholds env probability labels = Inr t" and "finite_values probability = Some probs"
  shows "t \<in> set (threshold_pairs (threshold_candidates env probs))" and "fst (threshold_constraints env probs labels t)"
    and "\<lbrakk>t' \<in> set (threshold_pairs (threshold_candidates env probs)); fst (threshold_constraints env probs labels t')\<rbrakk>
           \<Longrightarrow> snd (threshold_constraints env probs labels t) \<le> snd (threshold_constraints env probs labels t')"
proof -
  let ?feasible = "filter (\<lambda>t. fst (threshold_constraints env probs labels t)) (threshold_pairs (threshold_candidates env probs))"
  obtain ts where "sort_key (\<lambda>t. snd (threshold_constraints env probs labels t)) ?feasible = t # ts"
    using assms by (auto simp: select_thresholds_def Let_def split: if_splits list.splits)
  note first = sort_key_first [OF this]
  show "t \<in> set (threshold_pairs (threshold_candidates env probs))" and "fst (threshold_constraints env probs labels t)"
    using first(1) by auto
  show "snd (threshold_constraints env probs labels t) \<le> snd (threshold_constraints env probs labels t')"
    if "t' \<in> set (threshold_pairs (threshold_candidates env probs))" "fst (threshold_constraints env probs labels t')"
    using first(2) [of t'] that by simp
qed

lemma select_thresholds_Inl:
  assumes "select_thresholds env probability labels = Inl e" and "finite_values probability = Some probs" and "probs \<noteq> []"
    and "t \<in> set (threshold_pairs (threshold_candidates env probs))"
  shows "\<not> fst (threshold_constraints env probs labels t)"
proof -
  have "sort_key (\<lambda>t. snd (threshold_constraints env probs labels t))
          (filter (\<lambda>t. fst (threshold_constraints env probs labels t)) (threshold_pairs (threshold_candidates env probs))) = []"
    using assms(1-3) by (auto simp: select_thresholds_def Let_def split: list.splits)
  then have "filter (\<lambda>t. fst (threshold_constraints env probs labels t)) (threshold_pairs (threshold_candidates env probs)) = []"
    by (metis set_empty set_sort)
  with assms(4) show ?thesis by (auto simp: filter_empty_conv)
qed

text \<open>An alert threshold between two candidates decides as the next candidate does.\<close>

lemma next_candidate:
  assumes "\<And>p. p \<in> set probs \<Longrightarrow> 0 \<le> p \<and> p \<le> 1 \<and> mv_single env p = p" and "1 / 2 \<le> a" and "a \<le> 1"
  obtains a' where "a' \<in> set (threshold_candidates env probs)"
    and "\<And>c. decisions env \<lparr>th_alert = a, th_confidence = c\<rparr> probs = decisions env \<lparr>th_alert = a', th_confidence = c\<rparr> probs"
proof -
  let ?C = "{c \<in> set (threshold_candidates env probs). a \<le> c}"
  have "1 \<in> ?C" using assms(3) by (simp add: threshold_candidates_iff)
  then have ne: "?C \<noteq> {}" by blast
  have low: "Min ?C \<in> ?C" by (rule Min_in) (use ne in auto)
  have same: "a \<le> p \<longleftrightarrow> Min ?C \<le> p" if "p \<in> set probs" for p
  proof
    assume ap: "a \<le> p"
    have "p \<in> set (threshold_candidates env probs)"
      unfolding threshold_candidates_iff using assms(1) [OF that] assms(2) ap that by (metis image_eqI order_trans)
    with ap show "Min ?C \<le> p" by (intro Min_le) auto
  qed (use low in auto)
  show ?thesis
    by (rule that [of "Min ?C"]) (use low same in \<open>auto simp: decisions_def decision_def\<close>)
qed

lemma take_mono_lex: "xs \<le> ys \<Longrightarrow> take n xs \<le> take n (ys :: rat list)"
proof (induction n arbitrary: xs ys)
  case (Suc n)
  then show ?case by (cases xs; cases ys) auto
qed simp

lemma alert_iff_above:
  assumes "th_confidence t \<le> th_alert t"
  shows "decision env t p = 1 \<longleftrightarrow> th_alert t \<le> p"
  using assms by (auto simp: decision_def)

section \<open>Theorems on thresholds and quality\<close>


text \<open>
  C38: the two computations of the rates agree. On binary labels, the quality report of a threshold pair has exactly
  the recall, false-positive rate, coverage and benign abstention rate that threshold selection ranked the pair by,
  although the two routines count them differently; so a report that passes the quality gate passes the four
  constraints of the selection, and its confusion counts partition the samples.
\<close>

theorem quality_rates_agree:
  assumes "length labels = length probs" and binary: "set labels \<subseteq> {0, 1}"
    and report: "quality_report env probs labels t families = Inr (q, passes)"
  shows "threshold_constraints env probs labels t =
      (qu_false_positive_rate q \<le> mv_round env (1 / 100) \<and> qu_recall q \<ge> mv_round env (9 / 10)
         \<and> qu_coverage q \<ge> mv_round env (95 / 100) \<and> qu_benign_abstain_rate q \<le> mv_round env (5 / 100),
       [- qu_recall q, qu_false_positive_rate q, - qu_coverage q, th_alert t, th_confidence t])
    \<and> (passes \<longrightarrow> fst (threshold_constraints env probs labels t))
    \<and> qu_true_positive q + qu_false_positive q + qu_false_negative q + qu_true_negative q
        + count_if (\<lambda>p l. p = 2 \<and> l = 0) (decisions env t probs) labels = length probs"
proof -
  let ?p = "decisions env t probs" and ?c = "\<lambda>P. count_if P (decisions env t probs) labels"
  have cases: "(l = 0 \<or> l = 1) \<and> (p = 0 \<or> p = 1 \<or> p = 2)" if "(p, l) \<in> set (zip ?p labels)" for p l
  proof -
    have "p \<in> decision env t ` set probs" and "l \<in> {0, 1}"
      using that binary by (auto simp: decisions_def dest: set_zip_leftD set_zip_rightD)
    then show ?thesis using decision_range [of env t] by blast
  qed
  have attack: "?c (\<lambda>_ l. l = 1) = ?c (\<lambda>p l. p = 1 \<and> l = 1) + ?c (\<lambda>p l. p \<noteq> 1 \<and> l = 1)"
    using count_if_split [of "\<lambda>_ l. l = 1" ?p labels "\<lambda>p _. p = 1"] by (simp add: conj_commute)
  have benign: "?c (\<lambda>_ l. l = 0) = ?c (\<lambda>p l. p = 1 \<and> l = 0) + ?c (\<lambda>p l. p = 0 \<and> l = 0) + ?c (\<lambda>p l. p = 2 \<and> l = 0)"
  proof -
    have "?c (\<lambda>p l. l = 0 \<and> p \<noteq> 1) = ?c (\<lambda>p l. (l = 0 \<and> p \<noteq> 1) \<and> p = 0) + ?c (\<lambda>p l. (l = 0 \<and> p \<noteq> 1) \<and> p \<noteq> 0)"
      by (rule count_if_split)
    also have "?c (\<lambda>p l. (l = 0 \<and> p \<noteq> 1) \<and> p = 0) = ?c (\<lambda>p l. p = 0 \<and> l = 0)" by (rule count_if_cong) auto
    also have "?c (\<lambda>p l. (l = 0 \<and> p \<noteq> 1) \<and> p \<noteq> 0) = ?c (\<lambda>p l. p = 2 \<and> l = 0)"
      by (rule count_if_cong) (use cases in fastforce)
    finally show ?thesis
      using count_if_split [of "\<lambda>_ l. l = 0" ?p labels "\<lambda>p _. p = 1"] by (simp add: conj_commute)
  qed
  have all: "?c (\<lambda>_ l. l = 0) + ?c (\<lambda>_ l. l = 1) = length probs"
  proof -
    have "?c (\<lambda>_ _. True) = ?c (\<lambda>_ l. True \<and> l = 0) + ?c (\<lambda>_ l. True \<and> l \<noteq> 0)" by (rule count_if_split)
    also have "?c (\<lambda>_ l. True \<and> l \<noteq> 0) = ?c (\<lambda>_ l. l = 1)" by (rule count_if_cong) (use cases in fastforce)
    finally show ?thesis using assms(1) by (simp add: count_if_def)
  qed
  have q: "qu_recall q = rate env (?c (\<lambda>p l. p = 1 \<and> l = 1)) (?c (\<lambda>_ l. l = 1))"
    "qu_false_positive_rate q = rate env (?c (\<lambda>p l. p = 1 \<and> l = 0)) (?c (\<lambda>_ l. l = 0))"
    "qu_coverage q = rate env (?c (\<lambda>p l. p \<noteq> 2)) (length labels)"
    "qu_benign_abstain_rate q = rate env (?c (\<lambda>p l. p = 2 \<and> l = 0)) (?c (\<lambda>_ l. l = 0))"
    "qu_true_positive q = ?c (\<lambda>p l. p = 1 \<and> l = 1)" "qu_false_positive q = ?c (\<lambda>p l. p = 1 \<and> l = 0)"
    "qu_false_negative q = ?c (\<lambda>p l. p \<noteq> 1 \<and> l = 1)" "qu_true_negative q = ?c (\<lambda>p l. p = 0 \<and> l = 0)"
    using report by (auto simp: quality_report_def quality_metrics_def Let_def rbind_eq_Inr attack benign assms(1))
  have "passes = quality_passes env q" using report by (auto simp: quality_report_def rbind_eq_Inr)
  then show ?thesis using attack benign all by (simp add: threshold_constraints_def Let_def q quality_passes_def)
qed

section \<open>Lemmas on the winner\<close>

lemma min_by_in: "min_by f x xs \<in> set (x # xs)"
  by (induction f x xs rule: min_by.induct) auto

lemma min_by_le: "y \<in> set (x # xs) \<Longrightarrow> f (min_by f x xs) \<le> f y"
proof (induction f x xs arbitrary: y rule: min_by.induct)
  case (2 f x z zs)
  then show ?case
    by (cases "f z < f x") (fastforce intro: order_trans [OF _ less_imp_le])+
qed simp

text \<open>
  Some eligible candidate is always in both bands: the one with the smallest false-positive rate of those in the first
  band, which holds the best average precision. So the second rule of the code is never reached.
\<close>

definition in_bands :: "ml_env \<Rightarrow> summary list \<Rightarrow> summary \<Rightarrow> bool" where
  "in_bands env eligible s \<longleftrightarrow> s \<in> set eligible
     \<and> within_ap env (Max (sm_robust_ap ` set eligible)) s
     \<and> within_fpr env (Min (sm_worst_fpr ` {s \<in> set eligible. within_ap env (Max (sm_robust_ap ` set eligible)) s})) s"

lemma bands_inhabited:
  assumes "eligible \<noteq> []" and "me_round env 0 = 0" and "0 \<le> me_round env (1 / 100)" and "0 \<le> me_round env (2 / 1000)"
  shows "\<exists>s. in_bands env eligible s"
proof -
  let ?ap = "Max (sm_robust_ap ` set eligible)"
  let ?near = "{s \<in> set eligible. within_ap env ?ap s}"
  have "?ap \<in> sm_robust_ap ` set eligible" by (rule Max_in) (use assms(1) in auto)
  then obtain s where "s \<in> set eligible" "sm_robust_ap s = ?ap" by auto
  then have "s \<in> ?near" using assms(2,3) by (simp add: within_ap_def)
  then have "Min (sm_worst_fpr ` ?near) \<in> sm_worst_fpr ` ?near" by (intro Min_in) auto
  then obtain s' where "s' \<in> ?near" "sm_worst_fpr s' = Min (sm_worst_fpr ` ?near)" by auto
  then show ?thesis using assms(2,4) by (auto simp: in_bands_def within_fpr_def intro!: exI [of _ s'])
qed

lemma choose_winner_sound:
  assumes "eligible \<noteq> []" and "me_round env 0 = 0" and "0 \<le> me_round env (1 / 100)" and "0 \<le> me_round env (2 / 1000)"
  shows "\<exists>s. choose_winner env eligible = (sm_candidate_id s, SIMPLE_RULE) \<and> in_bands env eligible s
     \<and> (\<forall>s'. in_bands env eligible s' \<longrightarrow> complexity REQUIRED (sm_candidate_id s) \<le> complexity REQUIRED (sm_candidate_id s'))"
proof -
  let ?ap = "Max (set (map sm_robust_ap eligible))"
  let ?fpr = "Min (set (map sm_worst_fpr (filter (within_ap env ?ap) eligible)))"
  let ?simple = "filter (\<lambda>s. within_ap env ?ap s \<and> within_fpr env ?fpr s) eligible"
  have simple: "s \<in> set ?simple \<longleftrightarrow> in_bands env eligible s" for s
    by (auto simp: in_bands_def)
  with bands_inhabited [OF assms] obtain x xs where xs: "?simple = x # xs" by (metis list.exhaust list.set_intros(1) empty_iff list.set(1))
  let ?w = "min_by (\<lambda>s. complexity REQUIRED (sm_candidate_id s)) x xs"
  have "in_bands env eligible ?w" using min_by_in [of _ x xs] simple xs by metis
  moreover have "complexity REQUIRED (sm_candidate_id ?w) \<le> complexity REQUIRED (sm_candidate_id s)" if "in_bands env eligible s" for s
    using min_by_le [of s x xs "\<lambda>s. complexity REQUIRED (sm_candidate_id s)"] simple [of s, unfolded xs] that by blast
  moreover have "choose_winner env eligible = (sm_candidate_id ?w, SIMPLE_RULE)"
    unfolding choose_winner_def Let_def using xs by simp
  ultimately show ?thesis by blast
qed

lemma summarise_Inr:
  assumes "summarise candidates name = Inr s"
  shows "sm_candidate_id s = name"
    and "set (map tc_seed (filter (\<lambda>c. tc_candidate_id c = name) candidates)) = {17, 29, 43}"
    and "sm_eligible s \<longleftrightarrow> (\<forall>c \<in> set candidates. tc_candidate_id c = name \<longrightarrow> tc_passes c)"
    and "\<And>c. c \<in> set candidates \<Longrightarrow> tc_candidate_id c = name \<Longrightarrow>
           sm_robust_ap s \<le> tc_average_precision c \<and> tc_false_positive_rate c \<le> sm_worst_fpr s"
proof -
  let ?runs = "sort_key tc_seed (filter (\<lambda>c. tc_candidate_id c = name) candidates)"
  have seeds: "map tc_seed ?runs = [17, 29, 43]" and s: "s = \<lparr>sm_candidate_id = name, sm_eligible = list_all tc_passes ?runs,
        sm_robust_ap = Min (set (map tc_average_precision ?runs)), sm_worst_fpr = Max (set (map tc_false_positive_rate ?runs)),
        sm_max_error = Max (set (map tc_max_absolute_error ?runs))\<rparr>"
    using assms by (simp_all add: summarise_def Let_def split: if_splits)
  show "sm_candidate_id s = name" by (simp add: s)
  have "set (map tc_seed ?runs) = {17, 29, 43}" by (simp only: seeds) simp
  then show "set (map tc_seed (filter (\<lambda>c. tc_candidate_id c = name) candidates)) = {17, 29, 43}" by simp
  show "sm_eligible s \<longleftrightarrow> (\<forall>c \<in> set candidates. tc_candidate_id c = name \<longrightarrow> tc_passes c)"
    by (auto simp: s list_all_iff)
  show "sm_robust_ap s \<le> tc_average_precision c \<and> tc_false_positive_rate c \<le> sm_worst_fpr s"
    if "c \<in> set candidates" "tc_candidate_id c = name" for c
    using that by (auto simp: s intro!: Min_le Max_ge)
qed

lemma select_winner_Winner:
  assumes "select_winner env candidates = Inr (Winner w rule summaries)"
  shows "mapM (summarise candidates) REQUIRED = Inr summaries" and "filter sm_eligible summaries \<noteq> []"
    and "choose_winner env (filter sm_eligible summaries) = (w, rule)"
  using assms by (auto simp: select_winner_def rbind_eq_Inr Let_def split: if_splits prod.splits)

section \<open>Theorems on the winner\<close>


section \<open>Sample inputs\<close>

text \<open>Exact arithmetic, a mean by division, and an average precision of one.\<close>

definition exact_ml_env :: ml_env where
  "exact_ml_env = \<lparr>me_py = zero_env, me_digest = (\<lambda>_. ''''), me_round = (\<lambda>q. q), me_sum = sum_list\<rparr>"

definition exact_metrics :: metric_env where
  "exact_metrics = \<lparr>mv_env = exact_ml_env, mv_single = (\<lambda>q. q),
     mv_mean = (\<lambda>qs. sum_list qs / of_nat (length qs)), mv_average_precision = (\<lambda>_ _. 1)\<rparr>"

definition sample_probs :: "rat list" where "sample_probs = [1 / 10, 9 / 10]"

lemma sample_selected:
  "select_thresholds exact_metrics (map FFin sample_probs) [0, 1] = Inr \<lparr>th_alert = 1 / 2, th_confidence = 1 / 2\<rparr>"
  by code_simp


lemma sample_quality: "is_ok (quality_report exact_metrics sample_probs [0, 1] \<lparr>th_alert = 1 / 2, th_confidence = 1 / 2\<rparr> [''b'', ''a''])"
  by code_simp

theorem quality_rates_agree_witness:
  "\<exists>q passes. quality_report exact_metrics sample_probs [0, 1] \<lparr>th_alert = 1 / 2, th_confidence = 1 / 2\<rparr> [''b'', ''a''] = Inr (q, passes)
     \<and> snd (threshold_constraints exact_metrics sample_probs [0, 1] \<lparr>th_alert = 1 / 2, th_confidence = 1 / 2\<rparr>)
         = [- qu_recall q, qu_false_positive_rate q, - qu_coverage q, 1 / 2, 1 / 2]"
proof -
  obtain q passes where q: "quality_report exact_metrics sample_probs [0, 1] \<lparr>th_alert = 1 / 2, th_confidence = 1 / 2\<rparr> [''b'', ''a''] = Inr (q, passes)"
    using sample_quality by (auto simp: is_ok_iff)
  have "length [0, 1 :: int] = length sample_probs" "set [0, 1 :: int] \<subseteq> {0, 1}" by (simp_all add: sample_probs_def)
  from quality_rates_agree [OF this q] q show ?thesis by simp
qed

definition sample_run :: "str \<Rightarrow> bool \<Rightarrow> rat \<Rightarrow> int \<Rightarrow> trained_candidate" where
  "sample_run name passes ap seed = \<lparr>tc_candidate_id = name, tc_seed = seed, tc_passes = passes, tc_average_precision = ap,
     tc_false_positive_rate = 1 / 1000, tc_max_absolute_error = 0\<rparr>"

text \<open>The logistic regression fails the gate; the autoencoder is slightly better than the boosted trees, within the band.\<close>

definition sample_runs :: "trained_candidate list" where
  "sample_runs = map (sample_run ''lr-window-binary/v1'' False (98 / 100)) [17, 29, 43]
     @ map (sample_run ''xgb-window-binary/v1'' True (97 / 100)) [43, 17, 29]
     @ map (sample_run ''ae-window-benign/v1'' True (975 / 1000)) [17, 43, 29]"

lemma sample_winner:
  "case select_winner exact_ml_env sample_runs of Inr (Winner w _ _) \<Rightarrow> w = ''xgb-window-binary/v1'' | _ \<Rightarrow> False"
  by code_simp


end
