(* ===== verification/Ml_Bundle.thy ===== *)
theory Ml_Bundle
  imports Ml_Load Ml_Files "HOL-Library.Word" "HOL-Library.Product_Lexorder"
begin

unbundle bit_operations_syntax

text \<open>
  The artifacts of the training pipeline (\<open>artifacts.py\<close>): the contracts of a candidate, its directory of evidence, the
  bundle of the winner with its immutable repository, and the archive of that repository.

  Both directories are created by the calls themselves, so that a \<open>disk\<close> lists everything below the new directory, each
  path relative to it, in the order of creation, with its permission bits. A write is one step here: that it is atomic
  is shown in \<open>Ml_Files\<close>. The encoder of \<open>tarfile\<close> is a parameter.
\<close>

section \<open>A fresh directory\<close>

type_synonym mode = "16 word"

record entry =
  en_mode :: mode
  en_node :: node

type_synonym disk = "(str list \<times> entry) list"

record machine =
  mc_pid :: int
  mc_umask :: mode
  mc_base :: "str list"

definition put_file :: "machine \<Rightarrow> mode \<Rightarrow> str list \<Rightarrow> str \<Rightarrow> disk \<Rightarrow> ml_error + disk" where
  "put_file mc mode path raw d =
     (let temporary = butlast path @ [''.'' @ last path @ ''.'' @ int_str (mc_pid mc) @ ''.tmp''] in
      if map_of d path \<noteq> None then Inl (Invalid ''output_exists'' (path_str (mc_base mc @ path)))
      else if map_of d temporary \<noteq> None then Inl (Invalid ''temporary_output_exists'' (path_str (mc_base mc @ temporary)))
      else Inr (d @ [(path, \<lparr>en_mode = mode AND NOT (mc_umask mc), en_node = Regular raw\<rparr>)]))"

definition put_json :: "pyenv \<Rightarrow> machine \<Rightarrow> str list \<Rightarrow> json \<Rightarrow> disk \<Rightarrow> ml_error + disk" where
  "put_json env mc path v d =
     rbind (put_file mc 0x1B6 path [] d) (\<lambda>_. rbind (pretty_json env v) (\<lambda>raw. put_file mc 0x1B6 path raw d))"

fun put_jsons :: "pyenv \<Rightarrow> machine \<Rightarrow> (str list \<times> json) list \<Rightarrow> disk \<Rightarrow> ml_error + disk" where
  "put_jsons env mc [] d = Inr d"
| "put_jsons env mc ((path, v) # later) d = rbind (put_json env mc path v d) (put_jsons env mc later)"

definition make_dir :: "machine \<Rightarrow> mode \<Rightarrow> str list \<Rightarrow> disk \<Rightarrow> ml_error + disk" where
  "make_dir mc mode path d =
     (if map_of d path \<noteq> None then Inl MOSError
      else Inr (d @ [(path, \<lparr>en_mode = mode AND NOT (mc_umask mc), en_node = Directory\<rparr>)]))"

definition chmod :: "str list \<Rightarrow> mode \<Rightarrow> disk \<Rightarrow> ml_error + disk" where
  "chmod path mode d =
     (if map_of d path = None then Inl MFileNotFoundError
      else Inr (map (\<lambda>(p, e). (p, if p = path then e\<lparr>en_mode := mode\<rparr> else e)) d))"

text \<open>\<open>sha256_file\<close> and \<open>stat().st_size\<close> of a file that was just written.\<close>

definition content_at :: "disk \<Rightarrow> str list \<Rightarrow> ml_error + str" where
  "content_at d path =
     (case map_of d path of Some e \<Rightarrow> (case en_node e of Regular raw \<Rightarrow> Inr raw | _ \<Rightarrow> Inl MOSError) | None \<Rightarrow> Inl MFileNotFoundError)"

definition digest_at :: "ml_env \<Rightarrow> machine \<Rightarrow> disk \<Rightarrow> str list \<Rightarrow> ml_error + str" where
  "digest_at env mc d path =
     rbind (content_at d path) (\<lambda>raw.
     if length raw > 10 * 1024 * 1024 * 1024
     then Inl (Invalid ''file_too_large'' (path_str (mc_base mc @ path) @ '': '' @ nat_str (length raw) @ ''>'' @ nat_str (10 * 1024 * 1024 * 1024)))
     else Inr (sha256_bytes env raw))"

section \<open>Contracts of a candidate\<close>

record fitted_candidate =
  cn_candidate_id :: str
  cn_seed :: int
  cn_slope :: rat
  cn_intercept :: rat
  cn_alert :: rat
  cn_confidence :: rat
  cn_scaler :: "json option"
  cn_training_evidence :: json
  cn_metrics :: "(str \<times> json) list"
  cn_onnx_payload :: str
  cn_onnx_evidence :: "(str \<times> json) list"

record contracts =
  ct_feature_schema :: json
  ct_label_taxonomy :: json
  ct_output_adapter :: json
  ct_calibration :: json
  ct_feature_digest :: str
  ct_label_digest :: str
  ct_adapter_digest :: str
  ct_calibration_digest :: str

abbreviation jrat :: "rat \<Rightarrow> json" where
  "jrat q \<equiv> JFloat (FFin q)"

definition calibration_document :: "fitted_candidate \<Rightarrow> json" where
  "calibration_document c = JObj
     [(''schema_version'', JStr ''masi-platt-calibration/v1''), (''kind'', JStr ''platt-in-onnx-graph''), (''slope'', jrat (cn_slope c)),
      (''intercept'', jrat (cn_intercept c)), (''positive_slope_required'', JBool True)]"

definition feature_schema :: json where
  "feature_schema = JObj
     [(''dtype'', JStr ''uint64-le''), (''field_order'', JArr (map JStr FEATURE_ORDER)), (''shape'', JArr [JInt 1, JInt 6]),
      (''units'', JStr ''mixed''), (''window_duration_ms'', JInt 10000), (''preprocessing_in_graph'', JStr ''Cast(float32)->Log1p'')]"

definition label_taxonomy :: "fitted_candidate \<Rightarrow> str \<Rightarrow> json" where
  "label_taxonomy c calibration_digest = JObj
     [(''calibration'', JObj [(''config_digest'', JStr calibration_digest), (''kind'', JStr ''none'')]),
      (''class_order_policy'', JStr ''stable-explicit-in-manifest''), (''id_reuse_policy'', JStr ''never-reuse''),
      (''label_ids'', JArr [JInt 0, JInt 1]), (''mode'', JStr ''single-label''), (''score_domain'', JStr ''probability''),
      (''threshold'', JObj [(''kind'', JStr ''fixed''), (''value'', jrat (cn_confidence c))]),
      (''unknown_label_policy'', JStr ''old-reader-preserves-unknown-without-triggering-old-effect-policy'')]"

definition adapter_body :: "fitted_candidate \<Rightarrow> str \<Rightarrow> (str \<times> json) list" where
  "adapter_body c calibration_digest =
     [(''adapter_id'', JStr ''masi-window-adapter-v1''), (''version'', JStr ''v1''), (''mapping_kind'', JStr ''deterministic-implementation''),
      (''class_order'', JArr [JInt 0, JInt 1]), (''axis'', JInt 1), (''top_k'', JInt 1), (''threshold'', jrat (cn_alert c)),
      (''calibration'', JStr calibration_digest), (''executable_policy'', JStr ''no-executable-code-injected-from-bundle''),
      (''ood_policy'', JObj [(''mode'', JStr ''max-probability-below-threshold''), (''threshold'', jrat (cn_confidence c)),
         (''decision'', JStr ''abstain'')])]"

definition json_digest :: "ml_env \<Rightarrow> json \<Rightarrow> ml_error + str" where
  "json_digest env v = rbind (canonical_json_bytes (me_py env) v) (\<lambda>raw. Inr (sha256_bytes env raw))"

definition candidate_contracts :: "ml_env \<Rightarrow> fitted_candidate \<Rightarrow> ml_error + contracts" where
  "candidate_contracts env c =
     rbind (json_digest env (calibration_document c)) (\<lambda>calibration_digest.
     rbind (json_digest env feature_schema) (\<lambda>feature_digest.
     rbind (json_digest env (label_taxonomy c calibration_digest)) (\<lambda>label_digest.
     rbind (json_digest env (JObj (adapter_body c calibration_digest))) (\<lambda>adapter_digest.
     Inr \<lparr>ct_feature_schema = feature_schema, ct_label_taxonomy = label_taxonomy c calibration_digest,
       ct_output_adapter = JObj (adapter_body c calibration_digest @ [(''adapter_digest'', JStr adapter_digest)]),
       ct_calibration = calibration_document c, ct_feature_digest = feature_digest, ct_label_digest = label_digest,
       ct_adapter_digest = adapter_digest, ct_calibration_digest = calibration_digest\<rparr>))))"

definition calibration_dict :: "fitted_candidate \<Rightarrow> json" where
  "calibration_dict c = JObj [(''slope'', jrat (cn_slope c)), (''intercept'', jrat (cn_intercept c))]"

definition thresholds_dict :: "fitted_candidate \<Rightarrow> json" where
  "thresholds_dict c = JObj [(''alert'', jrat (cn_alert c)), (''confidence'', jrat (cn_confidence c))]"

text \<open>The first 40 digits of the digest, after its algorithm.\<close>

definition candidate_revision :: "ml_env \<Rightarrow> fitted_candidate \<Rightarrow> ml_error + str" where
  "candidate_revision env c =
     rbind (item_at (cn_onnx_evidence c) ''model_digest'') (\<lambda>model_digest.
     rbind (json_digest env (JObj [(''candidate_id'', JStr (cn_candidate_id c)), (''seed'', JInt (cn_seed c)), (''model_digest'', model_digest),
       (''calibration'', calibration_dict c), (''thresholds'', thresholds_dict c)])) (\<lambda>digest.
     Inr (take 40 (tl (dropWhile (\<lambda>x. x \<noteq> CHR '':'') digest)))))"

section \<open>The evidence of a candidate\<close>

definition NOT_APPLICABLE :: json where
  "NOT_APPLICABLE = JObj [(''applicability'', JStr ''NOT_APPLICABLE''), (''result'', JStr ''NOT_RUN''),
     (''stable_reason'', JStr ''EXACT_BUNDLE_DOES_NOT_DECLARE_CUDA_RUNTIME'')]"

definition evidence_documents :: "fitted_candidate \<Rightarrow> contracts \<Rightarrow> json \<Rightarrow> (str list \<times> json) list" where
  "evidence_documents c ct explanation =
     [([''training.json''], cn_training_evidence c), ([''metrics.json''], JObj (cn_metrics c)),
      ([''onnx-evidence.json''], JObj (cn_onnx_evidence c)), ([''calibration.json''], ct_calibration ct),
      ([''thresholds.json''], thresholds_dict c), ([''feature-schema.json''], ct_feature_schema ct),
      ([''label-taxonomy.json''], ct_label_taxonomy ct), ([''output-adapter.json''], ct_output_adapter ct),
      ([''explanation.json''], explanation)]
     @ (case cn_scaler c of None \<Rightarrow> [] | Some scaler \<Rightarrow> [([''scaler.json''], scaler)])"

text \<open>The directory listing in the order of the names.\<close>

definition file_entries :: "ml_env \<Rightarrow> machine \<Rightarrow> disk \<Rightarrow> ml_error + (str \<times> json) list" where
  "file_entries env mc d =
     mapM (\<lambda>path. rbind (digest_at env mc d path) (\<lambda>digest. rbind (content_at d path) (\<lambda>raw.
       Inr (last path, JObj [(''sha256'', JStr digest), (''bytes'', JInt (int (length raw)))]))))
       (sort_key last (map fst (filter (\<lambda>(path, e). case en_node e of Regular _ \<Rightarrow> True | _ \<Rightarrow> False) d)))"

definition candidate_manifest ::
  "fitted_candidate \<Rightarrow> contracts \<Rightarrow> str \<Rightarrow> json \<Rightarrow> json \<Rightarrow> bool \<Rightarrow> (str \<times> json) list \<Rightarrow> (str \<times> json) list" where
  "candidate_manifest c ct revision data_id data_revision eligible files =
     [(''schema_version'', JStr ''offline-ml-candidate-artifact/v1''), (''candidate_id'', JStr (cn_candidate_id c)),
      (''seed'', JInt (cn_seed c)), (''revision'', JStr revision), (''dataset_id'', data_id), (''dataset_revision'', data_revision),
      (''runtime_profiles'', JObj
        [(''model-runtime-central-cpu/v1'', JObj [(''applicability'', JStr ''APPLICABLE''), (''result'', JStr ''PASS'')]),
         (''model-runtime-central-cuda/v1'', NOT_APPLICABLE)]),
      (''contract_digests'', JObj
        [(''feature_contract_digest'', JStr (ct_feature_digest ct)), (''label_contract_digest'', JStr (ct_label_digest ct)),
         (''output_adapter_digest'', JStr (ct_adapter_digest ct)), (''calibration_digest'', JStr (ct_calibration_digest ct))]),
      (''quality'', JObj (cn_metrics c)), (''eligible'', JBool eligible), (''files'', JObj files)]"

text \<open>The result is the manifest with the content of the new directory.\<close>

definition write_candidate_artifacts ::
  "ml_env \<Rightarrow> machine \<Rightarrow> bool \<Rightarrow> tree \<Rightarrow> fitted_candidate \<Rightarrow> (str \<times> json) list \<Rightarrow> json \<Rightarrow> ml_error + ((str \<times> json) list \<times> disk)" where
  "write_candidate_artifacts env mc made t c dataset_manifest explanation =
     rbind (create_fresh_directory made t (mc_base mc)) (\<lambda>_.
     rbind (candidate_contracts env c) (\<lambda>ct.
     rbind (put_file mc 0x120 [''model.onnx''] (cn_onnx_payload c) []) (\<lambda>d.
     rbind (put_jsons (me_py env) mc (evidence_documents c ct explanation) d) (\<lambda>d.
     rbind (file_entries env mc d) (\<lambda>files.
     rbind (candidate_revision env c) (\<lambda>revision.
     rbind (item_at dataset_manifest ''dataset_id'') (\<lambda>data_id.
     rbind (item_at dataset_manifest ''dataset_revision'') (\<lambda>data_revision.
     rbind (item_at (cn_metrics c) ''passes_thresholds'') (\<lambda>passes.
     let manifest = candidate_manifest c ct revision data_id data_revision (truthy passes) files in
     rbind (put_json (me_py env) mc [''candidate-manifest.json''] (JObj manifest) d) (\<lambda>d. Inr (manifest, d)))))))))))"

section \<open>The bundle of the winner\<close>

definition MODEL_ID :: str where "MODEL_ID = ''masi-ids-window-v1''"

definition config_pbtxt :: "str \<Rightarrow> str" where
  "config_pbtxt model_id =
     (let quoted = (\<lambda>s. quote # s @ [quote]) in
      concat (map (\<lambda>line. line @ [newline])
        [''name: '' @ quoted model_id, ''backend: '' @ quoted ''onnxruntime'', ''max_batch_size: 256'', ''input ['', ''  {'',
         ''    name: '' @ quoted ''features'', ''    data_type: TYPE_UINT64'', ''    dims: [ 6 ]'', ''  }'', '']'', ''output ['', ''  {'',
         ''    name: '' @ quoted ''scores'', ''    data_type: TYPE_FP32'', ''    dims: [ 2 ]'', ''  }'', '']'', ''dynamic_batching {'',
         ''  preferred_batch_size: [ 32, 64, 128, 256 ]'', ''  max_queue_delay_microseconds: 200'', ''  default_queue_policy {'',
         ''    max_queue_size: 1024'', ''  }'', ''}'', ''instance_group ['', ''  {'', ''    count: 1'', ''    kind: KIND_CPU'', ''  }'', '']'']))"

record member =
  mb_rel_path :: str
  mb_member_digest :: str
  mb_role :: str

definition closure_line :: "member \<Rightarrow> str" where
  "closure_line m = mb_role m @ [CHR 0x09] @ mb_rel_path m @ [CHR 0x09] @ mb_member_digest m"

definition repository_closure_digest :: "ml_env \<Rightarrow> member list \<Rightarrow> str" where
  "repository_closure_digest env members = sha256_bytes env (join [newline] (sort (map closure_line members)) @ [newline])"

definition member_document :: "member \<Rightarrow> json" where
  "member_document m = JObj [(''rel_path'', JStr (mb_rel_path m)), (''member_digest'', JStr (mb_member_digest m)), (''role'', JStr (mb_role m))]"

definition binding_identity :: "contracts \<Rightarrow> str \<Rightarrow> str \<Rightarrow> str \<Rightarrow> str \<Rightarrow> str \<Rightarrow> json" where
  "binding_identity ct wire_digest model_digest optimization_digest revision runtime_digest = JObj
     [(''feature_contract_digest'', JStr (ct_feature_digest ct)), (''inference_wire_profile_digest'', JStr wire_digest),
      (''label_contract_digest'', JStr (ct_label_digest ct)), (''model_bundle_digest'', JStr model_digest), (''model_digest'', JStr model_digest),
      (''model_id'', JStr MODEL_ID), (''optimization_profile_digest'', JStr optimization_digest),
      (''optimization_profile_id'', JStr ''optimization-profile-central-cpu/v1''), (''output_adapter_digest'', JStr (ct_adapter_digest ct)),
      (''revision'', JStr revision), (''runtime_profile_digest'', JStr runtime_digest), (''runtime_profile_id'', JStr ''model-runtime-central-cpu/v1'')]"

definition contract_digests :: "contracts \<Rightarrow> json" where
  "contract_digests ct = JObj
     [(''feature_contract_digest'', JStr (ct_feature_digest ct)), (''label_contract_digest'', JStr (ct_label_digest ct)),
      (''output_adapter_digest'', JStr (ct_adapter_digest ct))]"

definition bundle_manifest ::
  "fitted_candidate \<Rightarrow> contracts \<Rightarrow> str \<Rightarrow> str \<Rightarrow> str \<Rightarrow> json \<Rightarrow> json \<Rightarrow> json \<Rightarrow> str \<Rightarrow> str \<Rightarrow> json" where
  "bundle_manifest winner ct revision model_digest model_revision_digest identity data_id data_revision selection_digest explanation_digest = JObj
     [(''schema_version'', JStr ''masi-model-bundle-manifest/v1''), (''model_id'', JStr MODEL_ID), (''revision'', JStr revision),
      (''bundle_digest'', JStr model_digest), (''model_digest'', JStr model_digest), (''model_revision_digest'', JStr model_revision_digest),
      (''binding_identity'', identity), (''feature_schema'', ct_feature_schema ct), (''label_taxonomy'', ct_label_taxonomy ct),
      (''output_adapter'', ct_output_adapter ct), (''contract_digests'', contract_digests ct),
      (''triton'', JObj
        [(''max_batch_size'', JInt 256), (''preferred_batch_size'', JArr [JInt 32, JInt 64, JInt 128, JInt 256]),
         (''max_queue_delay_microseconds'', JInt 200), (''max_queue_size'', JInt 1024),
         (''instance_group'', JObj [(''kind'', JStr ''KIND_CPU''), (''count'', JInt 1)])]),
      (''offline_qualification'', JObj
        [(''dataset_id'', data_id), (''dataset_revision'', data_revision), (''candidate_id'', JStr (cn_candidate_id winner)),
         (''seed'', JInt (cn_seed winner)), (''selection_digest'', JStr selection_digest), (''explanation_digest'', JStr explanation_digest),
         (''cuda'', NOT_APPLICABLE)])]"


text \<open>The files of the bundle beside the repository.\<close>

definition bundle_documents ::
  "(str \<times> json) list \<Rightarrow> (str \<times> json) list \<Rightarrow> json \<Rightarrow> ((str \<times> int) \<times> json) list \<Rightarrow> (str list \<times> json) list" where
  "bundle_documents selection dataset_manifest explanation candidate_manifests =
     [([''candidate-selection.json''], JObj selection), ([''dataset-manifest.json''], JObj dataset_manifest),
      ([''explanation.json''], explanation),
      ([''candidate-manifests.json''], JObj (map (\<lambda>((candidate_id, seed), manifest). (candidate_id @ '':seed-'' @ int_str seed, manifest))
         (sort_key fst candidate_manifests)))]"

definition bundle_result :: "contracts \<Rightarrow> str \<Rightarrow> str \<Rightarrow> str \<Rightarrow> str \<Rightarrow> str \<Rightarrow> str \<Rightarrow> str \<Rightarrow> str \<Rightarrow> str \<Rightarrow> (str \<times> json) list" where
  "bundle_result ct revision model_digest model_revision_digest identity closure_digest runtime_digest selection_digest
     dataset_manifest_digest explanation_digest =
     [(''schema_version'', JStr ''offline-ml-immutable-bundle/v1''), (''model_id'', JStr MODEL_ID), (''revision'', JStr revision),
      (''model_digest'', JStr model_digest), (''model_revision_digest'', JStr model_revision_digest), (''repository_identity'', JStr identity),
      (''repository_closure_digest'', JStr closure_digest),
      (''runtime_profiles'', JObj
        [(''model-runtime-central-cpu/v1'', JObj [(''applicability'', JStr ''APPLICABLE''), (''runtime_profile_digest'', JStr runtime_digest),
           (''result'', JStr ''PASS'')]),
         (''model-runtime-central-cuda/v1'', NOT_APPLICABLE)]),
      (''contract_digests'', contract_digests ct), (''selection_digest'', JStr selection_digest),
      (''dataset_manifest_digest'', JStr dataset_manifest_digest), (''explanation_digest'', JStr explanation_digest)]"

abbreviation in_repository :: "str list \<Rightarrow> str list" where
  "in_repository path \<equiv> ''repository'' # path"

definition MODEL_PATH :: "str list" where "MODEL_PATH = [MODEL_ID, ''1'', ''model.onnx'']"
definition CONFIG_PATH :: "str list" where "CONFIG_PATH = [MODEL_ID, ''config.pbtxt'']"

text \<open>\<open>str\<close> of the value of \<open>dict.get\<close>.\<close>

definition optional_str :: "ml_env \<Rightarrow> json option \<Rightarrow> str" where
  "optional_str env v = (case v of None \<Rightarrow> ''None'' | Some x \<Rightarrow> text_of env x)"

text \<open>The three directories, and the files with their manifests; the repository ends up read-only.\<close>

definition repository_directories :: "machine \<Rightarrow> ml_error + disk" where
  "repository_directories mc =
     rbind (make_dir mc 0x1E8 (in_repository []) []) (\<lambda>d.
     rbind (make_dir mc 0x1FF (in_repository [MODEL_ID]) d) (make_dir mc 0x1E8 (in_repository [MODEL_ID, ''1''])))"

definition closure_manifest :: "str \<Rightarrow> str \<Rightarrow> member list \<Rightarrow> json" where
  "closure_manifest identity closure_digest members = JObj
     [(''schema_version'', JStr ''masi-repository-closure/v1''), (''identity'', JStr identity), (''closure_digest'', JStr closure_digest),
      (''members'', JArr (map member_document members))]"

definition repository_members :: "ml_env \<Rightarrow> machine \<Rightarrow> disk \<Rightarrow> ml_error + member list" where
  "repository_members env mc d =
     rbind (digest_at env mc d (in_repository [''bundle-manifest.json''])) (\<lambda>d1.
     rbind (digest_at env mc d (in_repository MODEL_PATH)) (\<lambda>d2.
     rbind (digest_at env mc d (in_repository CONFIG_PATH)) (\<lambda>d3.
     Inr [\<lparr>mb_rel_path = ''bundle-manifest.json'', mb_member_digest = d1, mb_role = ''bundle-manifest''\<rparr>,
          \<lparr>mb_rel_path = MODEL_ID @ ''/1/model.onnx'', mb_member_digest = d2, mb_role = ''model''\<rparr>,
          \<lparr>mb_rel_path = MODEL_ID @ ''/config.pbtxt'', mb_member_digest = d3, mb_role = ''config''\<rparr>])))"

definition fill_repository ::
  "ml_env \<Rightarrow> machine \<Rightarrow> fitted_candidate \<Rightarrow> json \<Rightarrow> str \<Rightarrow> disk \<Rightarrow> ml_error + (str \<times> str \<times> disk)" where
  "fill_repository env mc winner manifest revision d =
     rbind (put_file mc 0x120 (in_repository MODEL_PATH) (cn_onnx_payload winner) d) (\<lambda>d.
     rbind (put_file mc 0x120 (in_repository CONFIG_PATH) (config_pbtxt MODEL_ID) d) (\<lambda>d.
     rbind (put_json (me_py env) mc (in_repository [''bundle-manifest.json'']) manifest d) (\<lambda>d.
     rbind (chmod (in_repository [''bundle-manifest.json'']) 0x120 d) (\<lambda>d.
     rbind (repository_members env mc d) (\<lambda>members.
     let closure_digest = repository_closure_digest env members;
         identity = ''repo-'' @ MODEL_ID @ ''-'' @ take 12 revision in
     rbind (put_json (me_py env) mc (in_repository [''closure-manifest.json'']) (closure_manifest identity closure_digest members) d) (\<lambda>d.
     rbind (chmod (in_repository [''closure-manifest.json'']) 0x120 d) (\<lambda>d.
     rbind (chmod (in_repository [MODEL_ID, ''1'']) 0x168 d) (\<lambda>d.
     rbind (chmod (in_repository [MODEL_ID]) 0x168 d) (\<lambda>d.
     rbind (chmod (in_repository []) 0x168 d) (\<lambda>d.
     Inr (identity, closure_digest, d)))))))))))"

text \<open>What is computed before the first file is written.\<close>

record bundle_parts =
  bp_contracts :: contracts
  bp_revision :: str
  bp_model_digest :: str
  bp_model_revision_digest :: str
  bp_runtime_digest :: str
  bp_selection_digest :: str
  bp_explanation_digest :: str
  bp_manifest :: json

definition compose_bundle ::
  "ml_env \<Rightarrow> tree \<Rightarrow> str list \<Rightarrow> fitted_candidate \<Rightarrow> (str \<times> json) list \<Rightarrow> (str \<times> json) list \<Rightarrow> json \<Rightarrow> ml_error + bundle_parts" where
  "compose_bundle env t repo winner selection dataset_manifest explanation =
     rbind (candidate_contracts env winner) (\<lambda>ct.
     let model_digest = sha256_bytes env (cn_onnx_payload winner) in
     rbind (candidate_revision env winner) (\<lambda>revision.
     rbind (sha256_file env t (repo @ [''contracts'', ''inference'', ''v1'', ''model-runtime-central-cpu.json''])) (\<lambda>runtime_digest.
     rbind (sha256_file env t (repo @ [''contracts'', ''inference'', ''v1'', ''optimization-profile-central-cpu.json''])) (\<lambda>optimization_digest.
     rbind (sha256_file env t (repo @ [''contracts'', ''inference'', ''v1'', ''profile.json''])) (\<lambda>wire_digest.
     let identity = binding_identity ct wire_digest model_digest optimization_digest revision runtime_digest in
     rbind (json_digest env identity) (\<lambda>model_revision_digest.
     rbind (item_at dataset_manifest ''dataset_id'') (\<lambda>data_id.
     rbind (item_at dataset_manifest ''dataset_revision'') (\<lambda>data_revision.
     rbind (json_digest env (JObj selection)) (\<lambda>selection_digest.
     rbind (json_digest env explanation) (\<lambda>explanation_digest.
     Inr \<lparr>bp_contracts = ct, bp_revision = revision, bp_model_digest = model_digest, bp_model_revision_digest = model_revision_digest,
       bp_runtime_digest = runtime_digest, bp_selection_digest = selection_digest, bp_explanation_digest = explanation_digest,
       bp_manifest = bundle_manifest winner ct revision model_digest model_revision_digest identity data_id data_revision
         selection_digest explanation_digest\<rparr>))))))))))"

definition build_winner_bundle ::
  "ml_env \<Rightarrow> tree \<Rightarrow> str list \<Rightarrow> machine \<Rightarrow> bool \<Rightarrow> fitted_candidate \<Rightarrow> (str \<times> json) list \<Rightarrow> (str \<times> json) list \<Rightarrow> json
     \<Rightarrow> ((str \<times> int) \<times> json) list \<Rightarrow> ml_error + ((str \<times> json) list \<times> disk)" where
  "build_winner_bundle env t repo mc made winner selection dataset_manifest explanation candidate_manifests =
     (if json_get selection ''winner'' \<noteq> Some (JStr (cn_candidate_id winner)) \<or> json_get selection ''winner_seed'' \<noteq> Some (JInt (cn_seed winner))
      then Inl (Invalid ''winner_identity'' (optional_str env (json_get selection ''winner'') @ '':'' @ optional_str env (json_get selection ''winner_seed'')))
      else rbind (create_fresh_directory made t (mc_base mc)) (\<lambda>_.
      rbind (repository_directories mc) (\<lambda>d.
      rbind (compose_bundle env t repo winner selection dataset_manifest explanation) (\<lambda>parts.
      rbind (fill_repository env mc winner (bp_manifest parts) (bp_revision parts) d) (\<lambda>(repository_identity, closure_digest, d).
      rbind (put_jsons (me_py env) mc (bundle_documents selection dataset_manifest explanation candidate_manifests) d) (\<lambda>d.
      rbind (json_digest env (JObj dataset_manifest)) (\<lambda>dataset_manifest_digest.
      let result = bundle_result (bp_contracts parts) (bp_revision parts) (bp_model_digest parts) (bp_model_revision_digest parts)
            repository_identity closure_digest (bp_runtime_digest parts) (bp_selection_digest parts) dataset_manifest_digest (bp_explanation_digest parts) in
      rbind (put_json (me_py env) mc [''bundle-result.json''] (JObj result) d) (\<lambda>d. Inr (result, d)))))))))"

section \<open>The archive\<close>

datatype tar_type = TFile | TDir | TSym | TLink | TDevice | TFifo

record tar_member =
  tm_name :: str
  tm_type :: tar_type
  tm_size :: int
  tm_mode :: mode
  tm_uid :: int
  tm_gid :: int
  tm_mtime :: int
  tm_content :: str

definition SOURCE_DATE_EPOCH :: int where "SOURCE_DATE_EPOCH = 1787334400"

text \<open>The regular files below a directory, by their relative names in the order of the bytes.\<close>

definition files_below :: "str list \<Rightarrow> disk \<Rightarrow> (str \<times> str) list" where
  "files_below base d =
     sort_key fst (concat (map (\<lambda>(path, e). case en_node e of
        Regular raw \<Rightarrow> if take (length base) path = base \<and> length base < length path then [(join ''/'' (drop (length base) path), raw)] else []
      | _ \<Rightarrow> []) d))"

definition archive_members :: "(str \<times> str) list \<Rightarrow> tar_member list" where
  "archive_members files =
     map (\<lambda>(name, raw). \<lparr>tm_name = name, tm_type = TFile, tm_size = int (length raw), tm_mode = 0x120, tm_uid = 0, tm_gid = 0,
       tm_mtime = SOURCE_DATE_EPOCH, tm_content = raw\<rparr>) files"

text \<open>\<open>staging\<close> is the directory of the output, \<open>d\<close> the disk with the repository at \<open>base\<close>.\<close>

definition deterministic_bundle_tar ::
  "ml_env \<Rightarrow> (tar_member list \<Rightarrow> str) \<Rightarrow> machine \<Rightarrow> str list \<Rightarrow> disk \<Rightarrow> str list \<Rightarrow> disk \<Rightarrow> ml_error + ((str \<times> json) list \<times> disk)" where
  "deterministic_bundle_tar env encode mc base d output staging =
     (if map_of staging output \<noteq> None then Inl (Invalid ''output_exists'' (path_str (mc_base mc @ output)))
      else let members = archive_members (files_below base d); payload = encode members in
        rbind (put_file mc 0x120 output payload staging) (\<lambda>staging.
        Inr ([(''schema_version'', JStr ''offline-ml-bundle-archive/v1''), (''path'', JStr (last output)),
              (''sha256'', JStr (sha256_bytes env payload)), (''bytes'', JInt (int (length payload))), (''members'', JInt (int (length members))),
              (''source_date_epoch'', JInt SOURCE_DATE_EPOCH), (''format'', JStr ''pax-uncompressed-tar'')], staging)))"

end
