(* ===== verification/Ml_Published.thy ===== *)
theory Ml_Published
  imports Ml_Publish
begin

text \<open>
  A bundle passes its verification: the repository that \<open>build_winner_bundle\<close> leaves and the archive of
  \<open>deterministic_bundle_tar\<close> are accepted by \<open>_verify_repository\<close> and \<open>verify_repository_archive\<close>. Conversely, a
  repository that is accepted is closed: it has exactly the listed members, unwritable, with the listed digests.
\<close>

section \<open>The disk of a bundle\<close>

definition repository_disk :: "machine \<Rightarrow> str \<Rightarrow> str \<Rightarrow> str \<Rightarrow> disk" where
  "repository_disk mc payload mtext ctext =
     [(in_repository [], \<lparr>en_mode = 0x168, en_node = Directory\<rparr>), (in_repository [MODEL_ID], \<lparr>en_mode = 0x168, en_node = Directory\<rparr>),
      (in_repository [MODEL_ID, ''1''], \<lparr>en_mode = 0x168, en_node = Directory\<rparr>),
      (in_repository MODEL_PATH, \<lparr>en_mode = 0x120 AND NOT (mc_umask mc), en_node = Regular payload\<rparr>),
      (in_repository CONFIG_PATH, \<lparr>en_mode = 0x120 AND NOT (mc_umask mc), en_node = Regular (config_pbtxt MODEL_ID)\<rparr>),
      (in_repository [''bundle-manifest.json''], \<lparr>en_mode = 0x120, en_node = Regular mtext\<rparr>),
      (in_repository [''closure-manifest.json''], \<lparr>en_mode = 0x120, en_node = Regular ctext\<rparr>)]"

definition winner_members :: "ml_env \<Rightarrow> str \<Rightarrow> str \<Rightarrow> member list" where
  "winner_members env payload mtext =
     [\<lparr>mb_rel_path = ''bundle-manifest.json'', mb_member_digest = sha256_bytes env mtext, mb_role = ''bundle-manifest''\<rparr>,
      \<lparr>mb_rel_path = MODEL_ID @ ''/1/model.onnx'', mb_member_digest = sha256_bytes env payload, mb_role = ''model''\<rparr>,
      \<lparr>mb_rel_path = MODEL_ID @ ''/config.pbtxt'', mb_member_digest = sha256_bytes env (config_pbtxt MODEL_ID), mb_role = ''config''\<rparr>]"

definition repository_identity :: "str \<Rightarrow> str" where
  "repository_identity revision = ''repo-'' @ MODEL_ID @ ''-'' @ take 12 revision"

definition closure_document :: "ml_env \<Rightarrow> str \<Rightarrow> str \<Rightarrow> str \<Rightarrow> json" where
  "closure_document env revision payload mtext =
     closure_manifest (repository_identity revision) (repository_closure_digest env (winner_members env payload mtext)) (winner_members env payload mtext)"

lemma put_file_Inr: "put_file mc mode path raw d = Inr d' \<Longrightarrow> d' = d @ [(path, \<lparr>en_mode = mode AND NOT (mc_umask mc), en_node = Regular raw\<rparr>)]"
  by (simp add: put_file_def Let_def split: if_splits)

lemma put_json_Inr:
  assumes "put_json env mc path v d = Inr d'"
  obtains raw where "pretty_json env v = Inr raw" "d' = d @ [(path, \<lparr>en_mode = 0x1B6 AND NOT (mc_umask mc), en_node = Regular raw\<rparr>)]"
  using assms unfolding put_json_def by (elim rbindE) (blast dest: put_file_Inr)

lemma put_jsons_Inr: "put_jsons env mc docs d = Inr d' \<Longrightarrow> \<exists>later. d' = d @ later \<and> map fst later = map fst docs"
proof (induction docs arbitrary: d)
  case (Cons doc docs)
  obtain path v where doc: "doc = (path, v)" by (cases doc)
  obtain d1 where step: "put_json env mc path v d = Inr d1" and rest: "put_jsons env mc docs d1 = Inr d'"
    using Cons.prems by (auto simp: doc rbind_eq_Inr)
  from step obtain e where "d1 = d @ [(path, e)]" by (rule put_json_Inr) auto
  moreover obtain later where "d' = d1 @ later" "map fst later = map fst docs" using Cons.IH [OF rest] by blast
  ultimately show ?case by (intro exI [of _ "(path, e) # later"]) (simp add: doc)
qed simp

lemma repository_directories_eq:
  "repository_directories mc = Inr (map (\<lambda>(path, m). (path, \<lparr>en_mode = m AND NOT (mc_umask mc), en_node = Directory\<rparr>))
     [(in_repository [], 0x1E8), (in_repository [MODEL_ID], 0x1FF), (in_repository [MODEL_ID, ''1''], 0x1E8)])"
  by (simp add: repository_directories_def make_dir_def)

lemma digest_at_Inr: "digest_at env mc d path = Inr digest \<Longrightarrow>
  \<exists>e raw. map_of d path = Some e \<and> en_node e = Regular raw \<and> digest = sha256_bytes env raw \<and> length raw \<le> 10 * 1024 * 1024 * 1024"
  by (auto simp: digest_at_def content_at_def rbind_eq_Inr split: option.splits node.splits if_splits)

lemmas bundle_paths = MODEL_PATH_def CONFIG_PATH_def MODEL_ID_def

lemma chmod_Inr: "chmod path mode d = Inr d' \<Longrightarrow> d' = map (\<lambda>(p, e). (p, if p = path then e\<lparr>en_mode := mode\<rparr> else e)) d"
  by (simp add: chmod_def split: if_splits)

lemma repository_filled:
  assumes "repository_directories mc = Inr d0" and "fill_repository env mc winner manifest revision d0 = Inr (identity, closure_digest, d)"
  obtains mtext ctext where "pretty_json (me_py env) manifest = Inr mtext"
    "pretty_json (me_py env) (closure_document env revision (cn_onnx_payload winner) mtext) = Inr ctext"
    "identity = repository_identity revision" "closure_digest = repository_closure_digest env (winner_members env (cn_onnx_payload winner) mtext)"
    "d = repository_disk mc (cn_onnx_payload winner) mtext ctext" "length (cn_onnx_payload winner) \<le> 10 * 1024 * 1024 * 1024"
    "length mtext \<le> 10 * 1024 * 1024 * 1024"
proof -
  let ?u = "NOT (mc_umask mc)"
  let ?dirs = "map (\<lambda>(path, m). (path, \<lparr>en_mode = m AND ?u, en_node = Directory\<rparr>))
     [(in_repository [], 0x1E8), (in_repository [MODEL_ID], 0x1FF), (in_repository [MODEL_ID, ''1''], 0x1E8)]"
  have d0: "d0 = ?dirs" using assms(1) by (simp add: repository_directories_eq)
  from assms(2) obtain d1 d2 d3 d4 members d5 d6 d7 d8 where
    steps: "put_file mc 0x120 (in_repository MODEL_PATH) (cn_onnx_payload winner) d0 = Inr d1"
      "put_file mc 0x120 (in_repository CONFIG_PATH) (config_pbtxt MODEL_ID) d1 = Inr d2"
      "put_json (me_py env) mc (in_repository [''bundle-manifest.json'']) manifest d2 = Inr d3"
      "chmod (in_repository [''bundle-manifest.json'']) 0x120 d3 = Inr d4"
    and members: "repository_members env mc d4 = Inr members"
    and last: "identity = repository_identity revision" "closure_digest = repository_closure_digest env members"
      "put_json (me_py env) mc (in_repository [''closure-manifest.json'']) (closure_manifest identity closure_digest members) d4 = Inr d5"
      "chmod (in_repository [''closure-manifest.json'']) 0x120 d5 = Inr d6"
      "chmod (in_repository [MODEL_ID, ''1'']) 0x168 d6 = Inr d7" "chmod (in_repository [MODEL_ID]) 0x168 d7 = Inr d8"
      "chmod (in_repository []) 0x168 d8 = Inr d"
    unfolding fill_repository_def Let_def by (elim rbindE) (auto simp: repository_identity_def)
  obtain mtext where m: "pretty_json (me_py env) manifest = Inr mtext"
    "d3 = d2 @ [(in_repository [''bundle-manifest.json''], \<lparr>en_mode = 0x1B6 AND ?u, en_node = Regular mtext\<rparr>)]" using steps(3) by (rule put_json_Inr)
  have d4: "d4 = ?dirs @ [(in_repository MODEL_PATH, \<lparr>en_mode = 0x120 AND ?u, en_node = Regular (cn_onnx_payload winner)\<rparr>),
      (in_repository CONFIG_PATH, \<lparr>en_mode = 0x120 AND ?u, en_node = Regular (config_pbtxt MODEL_ID)\<rparr>),
      (in_repository [''bundle-manifest.json''], \<lparr>en_mode = 0x120, en_node = Regular mtext\<rparr>)]"
    using chmod_Inr [OF steps(4)] m(2) put_file_Inr [OF steps(1)] put_file_Inr [OF steps(2)] by (simp add: d0 bundle_paths)
  have files: "map_of d4 (in_repository [''bundle-manifest.json'']) = Some \<lparr>en_mode = 0x120, en_node = Regular mtext\<rparr>"
    "map_of d4 (in_repository MODEL_PATH) = Some \<lparr>en_mode = 0x120 AND ?u, en_node = Regular (cn_onnx_payload winner)\<rparr>"
    "map_of d4 (in_repository CONFIG_PATH) = Some \<lparr>en_mode = 0x120 AND ?u, en_node = Regular (config_pbtxt MODEL_ID)\<rparr>"
    unfolding d4 by (simp_all add: bundle_paths)
  obtain a b c where digests: "digest_at env mc d4 (in_repository [''bundle-manifest.json'']) = Inr a"
    "digest_at env mc d4 (in_repository MODEL_PATH) = Inr b" "digest_at env mc d4 (in_repository CONFIG_PATH) = Inr c"
    and eq: "members = [\<lparr>mb_rel_path = ''bundle-manifest.json'', mb_member_digest = a, mb_role = ''bundle-manifest''\<rparr>,
          \<lparr>mb_rel_path = MODEL_ID @ ''/1/model.onnx'', mb_member_digest = b, mb_role = ''model''\<rparr>,
          \<lparr>mb_rel_path = MODEL_ID @ ''/config.pbtxt'', mb_member_digest = c, mb_role = ''config''\<rparr>]"
    using members unfolding repository_members_def by (elim rbindE) auto
  have found: "members = winner_members env (cn_onnx_payload winner) mtext"
    "length mtext \<le> 10 * 1024 * 1024 * 1024" "length (cn_onnx_payload winner) \<le> 10 * 1024 * 1024 * 1024"
    using digests [THEN digest_at_Inr] files by (simp_all add: eq winner_members_def)
  obtain ctext where c: "pretty_json (me_py env) (closure_manifest identity closure_digest members) = Inr ctext"
    "d5 = d4 @ [(in_repository [''closure-manifest.json''], \<lparr>en_mode = 0x1B6 AND ?u, en_node = Regular ctext\<rparr>)]" using last(3) by (rule put_json_Inr)
  have "d = repository_disk mc (cn_onnx_payload winner) mtext ctext"
    using last(4-7) [THEN chmod_Inr] c(2) by (simp add: d4 repository_disk_def bundle_paths)
  then show ?thesis using that m(1) c(1) last(1,2) found by (simp add: closure_document_def)
qed

section \<open>A mounted disk\<close>

text \<open>The content of a fresh directory, seen through a volume: whatever else the volume holds.\<close>

definition below :: "str list \<Rightarrow> disk \<Rightarrow> str list list" where
  "below dir d = map (drop (length dir)) (filter (\<lambda>path. take (length dir) path = dir \<and> length dir < length path) (map fst d))"

definition mounted :: "volume \<Rightarrow> str list \<Rightarrow> disk \<Rightarrow> bool" where
  "mounted v base d \<longleftrightarrow> list_all (\<lambda>c. c \<noteq> ''..'') base
     \<and> list_all (\<lambda>k. node_at (vo_tree v) (take k base) = Some Directory) [0..<Suc (length base)]
     \<and> list_all (\<lambda>(path, e). vo_tree v (base @ path) = Some (en_node e) \<and> vo_mode v (base @ path) = en_mode e
         \<and> set (vo_below v (base @ path)) = set (below path d)) d"

lemma mounted_entry:
  assumes "mounted v base d" and "(path, e) \<in> set d" and "path \<noteq> []"
  shows "node_at (vo_tree v) (base @ path) = Some (en_node e)" "vo_mode v (base @ path) = en_mode e"
    "set (vo_below v (base @ path)) = set (below path d)"
  using assms by (auto simp: mounted_def list_all_iff node_at_def)

lemma mounted_plain:
  assumes "mounted v base d" and "(path, e) \<in> set d" and "en_node e = Regular raw" and "path \<noteq> []" and "''..'' \<notin> set path"
    and "\<And>k. 0 < k \<Longrightarrow> k < length path \<Longrightarrow> \<exists>m. (take k path, \<lparr>en_mode = m, en_node = Directory\<rparr>) \<in> set d"
  shows "plain_file (vo_tree v) (base @ path) raw"
proof -
  have "node_at (vo_tree v) (take k (base @ path)) = Some Directory" if k: "k < length (base @ path)" for k
  proof (cases "k \<le> length base")
    case True
    then show ?thesis using assms(1) by (auto simp: mounted_def list_all_iff)
  next
    case False
    then have "0 < k - length base" "k - length base < length path" using k by simp_all
    then obtain m where "(take (k - length base) path, \<lparr>en_mode = m, en_node = Directory\<rparr>) \<in> set d" using assms(6) by blast
    from mounted_entry(1) [OF assms(1) this] False assms(4) show ?thesis by simp
  qed
  moreover have "node_at (vo_tree v) (base @ path) = Some (Regular raw)" using mounted_entry(1) [OF assms(1,2,4)] assms(3) by simp
  ultimately show ?thesis using assms(1,4,5) by (auto simp: plain_file_def mounted_def list_all_iff)
qed

section \<open>The repository verifies\<close>

definition repository_names :: "str list list" where
  "repository_names = [MODEL_PATH, CONFIG_PATH, [''bundle-manifest.json''], [''closure-manifest.json'']]"

text \<open>What the bundle leaves in its directory: the repository, then files beside it.\<close>

definition bundle_disk :: "machine \<Rightarrow> str \<Rightarrow> str \<Rightarrow> str \<Rightarrow> disk \<Rightarrow> bool" where
  "bundle_disk mc payload mtext ctext d \<longleftrightarrow> (\<exists>later. d = repository_disk mc payload mtext ctext @ later
     \<and> list_all (\<lambda>path. length path = 1 \<and> path \<noteq> [''repository'']) (map fst later) \<and> distinct (map fst later))"

lemma bundle_disk_entries:
  assumes "bundle_disk mc payload mtext ctext d"
  shows "set (repository_disk mc payload mtext ctext) \<subseteq> set d"
    "set (below (in_repository []) d) = {[MODEL_ID], [MODEL_ID, ''1'']} \<union> set repository_names"
proof -
  obtain later where d: "d = repository_disk mc payload mtext ctext @ later"
    and top: "\<forall>path \<in> fst ` set later. length path = 1 \<and> path \<noteq> [''repository'']"
    using assms by (auto simp: bundle_disk_def list_all_iff)
  show "set (repository_disk mc payload mtext ctext) \<subseteq> set d" by (simp add: d)
  have "below (in_repository []) later = []" using top by (auto simp: below_def filter_empty_conv)
  then have "below (in_repository []) d = below (in_repository []) (repository_disk mc payload mtext ctext)" by (simp add: d below_def)
  then show "set (below (in_repository []) d) = {[MODEL_ID], [MODEL_ID, ''1'']} \<union> set repository_names"
    by (auto simp: below_def repository_disk_def repository_names_def bundle_paths)
qed

lemma bundle_files_plain:
  assumes "bundle_disk mc payload mtext ctext d" and "mounted v base d"
  shows "plain_file (vo_tree v) (base @ in_repository MODEL_PATH) payload"
    "plain_file (vo_tree v) (base @ in_repository CONFIG_PATH) (config_pbtxt MODEL_ID)"
    "plain_file (vo_tree v) (base @ in_repository [''bundle-manifest.json'']) mtext"
    "plain_file (vo_tree v) (base @ in_repository [''closure-manifest.json'']) ctext"
proof -
  have dirs: "\<exists>m. (take k path, \<lparr>en_mode = m, en_node = Directory\<rparr>) \<in> set (repository_disk mc payload mtext ctext)"
    if "0 < k" "k < length path" "path \<in> in_repository ` set repository_names" for k path
  proof -
    have "k = 1 \<or> k = 2 \<or> k = 3" using that by (auto simp: repository_names_def bundle_paths)
    then show ?thesis using that by (auto simp: repository_names_def repository_disk_def bundle_paths)
  qed
  have "plain_file (vo_tree v) (base @ in_repository path) raw"
    if "(in_repository path, e) \<in> set (repository_disk mc payload mtext ctext)" "en_node e = Regular raw" "path \<in> set repository_names" for path e raw
  proof (rule mounted_plain [OF assms(2) _ that(2)])
    show "(in_repository path, e) \<in> set d" using that(1) bundle_disk_entries(1) [OF assms(1)] by blast
    show "''..'' \<notin> set (in_repository path)" using that(3) by (auto simp: repository_names_def bundle_paths)
    fix k assume "0 < k" "k < length (in_repository path)"
    then show "\<exists>m. (take k (in_repository path), \<lparr>en_mode = m, en_node = Directory\<rparr>) \<in> set d"
      using dirs that(3) bundle_disk_entries(1) [OF assms(1)] by blast
  qed simp
  note plain = this
  show "plain_file (vo_tree v) (base @ in_repository MODEL_PATH) payload"
    by (rule plain [of _ "\<lparr>en_mode = 0x120 AND NOT (mc_umask mc), en_node = Regular payload\<rparr>"]) (simp_all add: repository_disk_def repository_names_def)
  show "plain_file (vo_tree v) (base @ in_repository CONFIG_PATH) (config_pbtxt MODEL_ID)"
    by (rule plain [of _ "\<lparr>en_mode = 0x120 AND NOT (mc_umask mc), en_node = Regular (config_pbtxt MODEL_ID)\<rparr>"])
      (simp_all add: repository_disk_def repository_names_def)
  show "plain_file (vo_tree v) (base @ in_repository [''bundle-manifest.json'']) mtext"
    by (rule plain [of _ "\<lparr>en_mode = 0x120, en_node = Regular mtext\<rparr>"]) (simp_all add: repository_disk_def repository_names_def)
  show "plain_file (vo_tree v) (base @ in_repository [''closure-manifest.json'']) ctext"
    by (rule plain [of _ "\<lparr>en_mode = 0x120, en_node = Regular ctext\<rparr>"]) (simp_all add: repository_disk_def repository_names_def)
qed


lemma bundle_modes: "(0x168 :: mode) AND 0x92 = 0" "(0x120 AND m :: mode) AND 0x92 = 0" "(0x120 AND m :: mode) AND 0x49 = 0" "(0x120 :: mode) AND 0x49 = 0" "(0x120 :: mode) AND 0x92 = 0"
proof -
  have comm: "(0x120 AND m :: mode) AND x = (0x120 AND x) AND m" for x by (simp add: ac_simps)
  show "(0x168 :: mode) AND 0x92 = 0" "(0x120 AND m :: mode) AND 0x92 = 0" "(0x120 AND m :: mode) AND 0x49 = 0" "(0x120 :: mode) AND 0x49 = 0" "(0x120 :: mode) AND 0x92 = 0"
    unfolding comm by simp_all
qed

lemma bundle_file_entry:
  assumes "bundle_disk mc payload mtext ctext d" and "mounted v base d" and "relative \<in> set repository_names"
  shows "\<exists>raw. node_at (vo_tree v) (base @ in_repository relative) = Some (Regular raw)"
    "vo_mode v (base @ in_repository relative) AND 0x92 = 0" "vo_mode v (base @ in_repository relative) AND 0x49 = 0"
proof -
  obtain e raw where e: "(in_repository relative, e) \<in> set (repository_disk mc payload mtext ctext)" "en_node e = Regular raw"
    "en_mode e AND 0x92 = 0" "en_mode e AND 0x49 = 0"
  proof -
    let ?u = "\<lparr>en_mode = 0x120 AND NOT (mc_umask mc), en_node = Regular payload\<rparr>"
    consider "relative = MODEL_PATH" | "relative = CONFIG_PATH" | "relative = [''bundle-manifest.json'']" | "relative = [''closure-manifest.json'']"
      using assms(3) by (auto simp: repository_names_def)
    then show ?thesis
    proof cases
      case 1
      then show ?thesis using that [of "?u" payload] by (simp add: repository_disk_def bundle_modes)
    next
      case 2
      then show ?thesis using that [of "?u\<lparr>en_node := Regular (config_pbtxt MODEL_ID)\<rparr>" "config_pbtxt MODEL_ID"] by (simp add: repository_disk_def bundle_modes)
    next
      case 3
      then show ?thesis using that [of "\<lparr>en_mode = 0x120, en_node = Regular mtext\<rparr>" mtext] by (simp add: repository_disk_def bundle_modes)
    next
      case 4
      then show ?thesis using that [of "\<lparr>en_mode = 0x120, en_node = Regular ctext\<rparr>" ctext] by (simp add: repository_disk_def bundle_modes)
    qed
  qed
  then have "(in_repository relative, e) \<in> set d" using bundle_disk_entries(1) [OF assms(1)] by blast
  from mounted_entry [OF assms(2) this] e(2-4)
  show "\<exists>raw. node_at (vo_tree v) (base @ in_repository relative) = Some (Regular raw)"
    "vo_mode v (base @ in_repository relative) AND 0x92 = 0" "vo_mode v (base @ in_repository relative) AND 0x49 = 0" by simp_all
qed

lemma bundle_directories:
  assumes "bundle_disk mc payload mtext ctext d" and "mounted v base d" and "relative \<in> {[], [MODEL_ID], [MODEL_ID, ''1'']}"
  shows "node_at (vo_tree v) (base @ in_repository relative) = Some Directory" "vo_mode v (base @ in_repository relative) = 0x168"
proof -
  have "(in_repository relative, \<lparr>en_mode = 0x168, en_node = Directory\<rparr>) \<in> set d"
    using assms(3) bundle_disk_entries(1) [OF assms(1)] by (auto simp: repository_disk_def)
  from mounted_entry [OF assms(2) this]
  show "node_at (vo_tree v) (base @ in_repository relative) = Some Directory" "vo_mode v (base @ in_repository relative) = 0x168" by simp_all
qed

lemma bundle_ordinary:
  assumes "bundle_disk mc payload mtext ctext d" and "mounted v base d"
  obtains files where "ordinary_files v (base @ [''repository'']) = Inr files" "set files = set repository_names"
proof -
  note entry = bundle_file_entry [OF assms] bundle_directories [OF assms]
  let ?g = "\<lambda>relative. if relative \<in> set repository_names then [relative] else []"
  have "(in_repository [], \<lparr>en_mode = 0x168, en_node = Directory\<rparr>) \<in> set d"
    using bundle_disk_entries(1) [OF assms(1)] by (auto simp: repository_disk_def)
  then have listed: "set (vo_below v (base @ [''repository''])) = {[MODEL_ID], [MODEL_ID, ''1'']} \<union> set repository_names"
    using mounted_entry(3) [OF assms(2)] bundle_disk_entries(2) [OF assms(1)] by auto
  have dirs: "[MODEL_ID] \<notin> set repository_names" "[MODEL_ID, ''1''] \<notin> set repository_names"
    by (simp_all add: repository_names_def bundle_paths)
  have "ordinary_files v (base @ [''repository'']) = Inr (concat (map ?g (vo_below v (base @ [''repository'']))))"
    unfolding ordinary_files_def
  proof (subst mapM_all_Inr [where g = ?g])
    fix relative assume "relative \<in> set (vo_below v (base @ [''repository'']))"
    then consider "relative \<in> set repository_names" | "relative \<in> {[], [MODEL_ID], [MODEL_ID, ''1'']}" "relative \<notin> set repository_names"
      using listed dirs by auto
    then show "(case node_at (vo_tree v) ((base @ [''repository'']) @ relative) of
         Some (Symlink _ _) \<Rightarrow> Inl (Invalid ''output_symlink'' (join ''/'' relative))
       | Some (Regular _) \<Rightarrow>
           if vo_mode v ((base @ [''repository'']) @ relative) AND 0x49 \<noteq> 0 then Inl (Invalid ''output_executable'' (join ''/'' relative)) else Inr [relative]
       | Some Directory \<Rightarrow> Inr []
       | Some Special \<Rightarrow> Inl (Invalid ''output_special_file'' (join ''/'' relative))
       | None \<Rightarrow> Inl MFileNotFoundError) = Inr (?g relative)"
    proof cases
      case 1
      from entry(1) [OF this] entry(3) [OF this] 1 show ?thesis by auto
    next
      case 2
      from entry(4) [OF this(1)] 2(2) show ?thesis by auto
    qed
  qed simp
  moreover have "set (concat (map ?g (vo_below v (base @ [''repository''])))) = set repository_names" using listed by auto
  ultimately show ?thesis using that by blast
qed

text \<open>One member: it is where its name says, and its digest is recomputed.\<close>

lemma verify_member_ok:
  assumes "plain_file (vo_tree v) (repository @ path) raw" and "length raw \<le> 10 * 1024 * 1024 * 1024"
    and "path_parts (mb_rel_path m) = path" "path \<noteq> []" "\<not> starts_with ''/'' (mb_rel_path m)"
    and "mb_member_digest m = sha256_bytes (ck_env ck) raw" "mb_role m \<in> set allowed_roles" "mb_rel_path m \<notin> set seen" "repository \<noteq> []"
  shows "verify_member ck v repository seen (sort_json (member_document m)) = Inr (mb_rel_path m, closure_line m)"
proof -
  have get: "indexed (sort_json (member_document m)) ''role'' = Inr (JStr (mb_role m))"
    "indexed (sort_json (member_document m)) ''rel_path'' = Inr (JStr (mb_rel_path m))"
    "indexed (sort_json (member_document m)) ''member_digest'' = Inr (JStr (mb_member_digest m))"
    unfolding member_document_def sort_json_obj indexed_def by (simp_all add: json_get_sorted json_get_simps)
  have str: "text_of (ck_env ck) (JStr s) = s" for s by (simp add: text_of_def)
  have place: "join_path repository (mb_rel_path m) = repository @ path" using assms(3,5) by (simp add: join_path_def)
  note read = plain_file_read(1) [OF assms(1,2)] plain_file_read(3) [OF assms(1)]
  have inside: "butlast (repository @ path) \<noteq> butlast repository"
  proof
    assume "butlast (repository @ path) = butlast repository"
    moreover have "0 < length path" "0 < length repository" using assms(4,9) by simp_all
    ultimately show False using arg_cong [of "butlast (repository @ path)" "butlast repository" length] unfolding length_butlast length_append by linarith
  qed
  show ?thesis
    using assms(4,6-8) inside unfolding verify_member_def Let_def get rbind_Inr str place sha256_file_eq read
    by (simp add: closure_line_def)
qed


lemma winner_paths: "path_parts (MODEL_ID @ ''/1/model.onnx'') = MODEL_PATH" "path_parts (MODEL_ID @ ''/config.pbtxt'') = CONFIG_PATH"
  "path_parts ''bundle-manifest.json'' = [''bundle-manifest.json'']"
  by code_simp+

lemma bundle_members:
  assumes "bundle_disk mc payload mtext ctext d" and "mounted v base d"
    and "length payload \<le> 10 * 1024 * 1024 * 1024" "length mtext \<le> 10 * 1024 * 1024 * 1024"
  shows "verify_members ck v (base @ [''repository'']) (map (sort_json \<circ> member_document) (winner_members (ck_env ck) payload mtext)) [] []
    = Inr (map mb_rel_path (winner_members (ck_env ck) payload mtext), map closure_line (winner_members (ck_env ck) payload mtext))"
proof -
  let ?rep = "base @ [''repository'']"
  note plain = bundle_files_plain [OF assms(1,2)]
  have config: "length (config_pbtxt MODEL_ID) \<le> 10 * 1024 * 1024 * 1024"
  proof -
    have "length (config_pbtxt MODEL_ID) \<le> 2000" by code_simp
    then show ?thesis by simp
  qed
  have steps: "verify_member ck v ?rep [] (sort_json (member_document (winner_members (ck_env ck) payload mtext ! 0)))
      = Inr (''bundle-manifest.json'', closure_line (winner_members (ck_env ck) payload mtext ! 0))"
    "verify_member ck v ?rep [''bundle-manifest.json''] (sort_json (member_document (winner_members (ck_env ck) payload mtext ! 1)))
      = Inr (MODEL_ID @ ''/1/model.onnx'', closure_line (winner_members (ck_env ck) payload mtext ! 1))"
    "verify_member ck v ?rep [''bundle-manifest.json'', MODEL_ID @ ''/1/model.onnx''] (sort_json (member_document (winner_members (ck_env ck) payload mtext ! 2)))
      = Inr (MODEL_ID @ ''/config.pbtxt'', closure_line (winner_members (ck_env ck) payload mtext ! 2))"
    using verify_member_ok [of v ?rep "[''bundle-manifest.json'']" mtext "winner_members (ck_env ck) payload mtext ! 0" ck "[]"]
      verify_member_ok [of v ?rep MODEL_PATH payload "winner_members (ck_env ck) payload mtext ! 1" ck "[''bundle-manifest.json'']"]
      verify_member_ok [of v ?rep CONFIG_PATH "config_pbtxt MODEL_ID" "winner_members (ck_env ck) payload mtext ! 2" ck
        "[''bundle-manifest.json'', MODEL_ID @ ''/1/model.onnx'']"]
      plain assms(3,4) config winner_paths
    by (simp_all add: winner_members_def allowed_roles_def bundle_paths)
  then show ?thesis by (simp add: winner_members_def)
qed

lemma closure_get:
  "indexed (sort_json (closure_manifest identity digest members)) ''members'' = Inr (JArr (map (sort_json \<circ> member_document) members))"
  "indexed (sort_json (closure_manifest identity digest members)) ''closure_digest'' = Inr (JStr digest)"
  "indexed (sort_json (closure_manifest identity digest members)) ''identity'' = Inr (JStr identity)"
  unfolding closure_manifest_def sort_json_obj indexed_def by (simp_all add: json_get_sorted json_get_simps comp_def)

lemma bundle_closure:
  assumes "bundle_disk mc payload mtext ctext d" and "mounted v base d"
    and "length payload \<le> 10 * 1024 * 1024 * 1024" "length mtext \<le> 10 * 1024 * 1024 * 1024"
    and "ck_loads ck ctext = Inr (sort_json (closure_document (ck_env ck) revision payload mtext))" "length ctext \<le> 4 * 1024 * 1024"
    and "set files = set repository_names"
  shows "verify_closure ck v (base @ [''repository'']) files
    = Inr (sort_json (closure_document (ck_env ck) revision payload mtext), map mb_rel_path (winner_members (ck_env ck) payload mtext),
        repository_closure_digest (ck_env ck) (winner_members (ck_env ck) payload mtext))"
proof -
  note plain = bundle_files_plain(4) [OF assms(1,2)]
  have loaded: "load_json (ck_loads ck) (vo_tree v) ((base @ [''repository'']) @ [''closure-manifest.json'']) (4 * 1024 * 1024)
      = Inr (sort_json (closure_document (ck_env ck) revision payload mtext))"
    using plain_file_read(1) [OF plain assms(6)] assms(5) by (simp add: load_json_def)
  have names: "set (map (join ''/'') files) = set (''closure-manifest.json'' # map mb_rel_path (winner_members (ck_env ck) payload mtext))"
    using assms(7) by (auto simp: repository_names_def winner_members_def bundle_paths)
  show ?thesis
    unfolding verify_closure_def loaded rbind_Inr closure_document_def closure_get iterated_def json.case Let_def
    using bundle_members [OF assms(1-4), of ck] names by (simp add: repository_closure_digest_def)
qed


lemma compose_bundle_parts:
  assumes "compose_bundle env t repo winner selection dataset_manifest explanation = Inr parts"
  obtains ct identity data_id data_revision where "bp_model_digest parts = sha256_bytes env (cn_onnx_payload winner)"
    "json_digest env identity = Inr (bp_model_revision_digest parts)" "indexed (sort_json identity) ''model_digest'' = Inr (JStr (bp_model_digest parts))"
    "bp_manifest parts = bundle_manifest winner ct (bp_revision parts) (bp_model_digest parts) (bp_model_revision_digest parts) identity data_id data_revision
      (bp_selection_digest parts) (bp_explanation_digest parts)"
proof -
  obtain ct revision wire_digest optimization_digest runtime_digest model_revision_digest data_id data_revision selection_digest explanation_digest where
    digest: "json_digest env (binding_identity ct wire_digest (sha256_bytes env (cn_onnx_payload winner)) optimization_digest revision runtime_digest)
      = Inr model_revision_digest"
    and parts: "parts = \<lparr>bp_contracts = ct, bp_revision = revision, bp_model_digest = sha256_bytes env (cn_onnx_payload winner),
       bp_model_revision_digest = model_revision_digest, bp_runtime_digest = runtime_digest, bp_selection_digest = selection_digest,
       bp_explanation_digest = explanation_digest,
       bp_manifest = bundle_manifest winner ct revision (sha256_bytes env (cn_onnx_payload winner)) model_revision_digest
         (binding_identity ct wire_digest (sha256_bytes env (cn_onnx_payload winner)) optimization_digest revision runtime_digest)
         data_id data_revision selection_digest explanation_digest\<rparr>"
    using assms unfolding compose_bundle_def Let_def by (elim rbindE) auto
  have "indexed (sort_json (binding_identity ct wire_digest model_digest optimization_digest revision runtime_digest)) ''model_digest''
      = Inr (JStr model_digest)" for model_digest
    unfolding binding_identity_def sort_json_obj indexed_def by (simp add: json_get_sorted json_get_simps)
  then show ?thesis using that digest by (simp add: parts)
qed

lemma json_digest_sort: "json_digest env (sort_json v) = json_digest env v"
  by (simp add: json_digest_def canonical_json_bytes_def sort_json_idem sort_json_nonfinite)

lemma bundle_manifest_get:
  "indexed (sort_json (bundle_manifest winner ct revision model_digest model_revision_digest identity a b c e)) ''model_digest'' = Inr (JStr model_digest)"
  "indexed (sort_json (bundle_manifest winner ct revision model_digest model_revision_digest identity a b c e)) ''model_revision_digest''
    = Inr (JStr model_revision_digest)"
  "indexed (sort_json (bundle_manifest winner ct revision model_digest model_revision_digest identity a b c e)) ''binding_identity'' = Inr (sort_json identity)"
  unfolding bundle_manifest_def sort_json_obj indexed_def by (simp_all add: json_get_sorted json_get_simps)

lemma bundle_model:
  assumes "bundle_disk mc (cn_onnx_payload winner) mtext ctext d" and "mounted v base d"
    and "length (cn_onnx_payload winner) \<le> 10 * 1024 * 1024 * 1024"
    and "compose_bundle (ck_env ck) t repo winner selection dataset_manifest explanation = Inr parts"
    and "ck_loads ck mtext = Inr (sort_json (bp_manifest parts))" "length mtext \<le> 4 * 1024 * 1024"
    and "\<And>xs. set (ck_order ck xs) = set xs"
  shows "verify_model ck v (base @ [''repository'']) (map mb_rel_path (winner_members (ck_env ck) (cn_onnx_payload winner) mtext))
    = Inr (sha256_bytes (ck_env ck) (cn_onnx_payload winner), cn_onnx_payload winner)"
proof -
  let ?seen = "map mb_rel_path (winner_members (ck_env ck) (cn_onnx_payload winner) mtext)" and ?model = "MODEL_ID @ ''/1/model.onnx''"
  note plain = bundle_files_plain [OF assms(1,2)]
  obtain ct identity data_id data_revision where m: "bp_model_digest parts = sha256_bytes (ck_env ck) (cn_onnx_payload winner)"
    "json_digest (ck_env ck) identity = Inr (bp_model_revision_digest parts)"
    "indexed (sort_json identity) ''model_digest'' = Inr (JStr (bp_model_digest parts))"
    "bp_manifest parts = bundle_manifest winner ct (bp_revision parts) (bp_model_digest parts) (bp_model_revision_digest parts) identity data_id data_revision
      (bp_selection_digest parts) (bp_explanation_digest parts)"
    using assms(4) by (rule compose_bundle_parts)
  have loaded: "load_json (ck_loads ck) (vo_tree v) ((base @ [''repository'']) @ [''bundle-manifest.json'']) (4 * 1024 * 1024) = Inr (sort_json (bp_manifest parts))"
    using plain_file_read(1) [OF plain(3) assms(6)] assms(5) by (simp add: load_json_def)
  have ends: "ends_with ''/model.onnx'' x \<longleftrightarrow> x = ?model" if "x \<in> set ?seen" for x
    using that by (auto simp: winner_members_def ends_with_def MODEL_ID_def)
  have "?model \<in> set (ck_order ck ?seen)" by (simp add: assms(7) winner_members_def)
  moreover have "filter (\<lambda>x. ends_with ''/model.onnx'' x) (ck_order ck ?seen) = filter (\<lambda>x. x = ?model) (ck_order ck ?seen)"
    using ends by (intro filter_cong) (simp_all add: assms(7))
  ultimately obtain others where first: "filter (\<lambda>x. ends_with ''/model.onnx'' x) (ck_order ck ?seen) = ?model # others"
    by (cases "filter (\<lambda>x. x = ?model) (ck_order ck ?seen)") (auto simp: filter_empty_conv filter_eq_Cons_iff)
  have "join_path (base @ [''repository'']) ?model = base @ in_repository MODEL_PATH"
    using winner_paths(1) by (simp add: join_path_def MODEL_ID_def)
  then show ?thesis
    using plain_file_read(1) [OF plain(1) assms(3)] m(1-3)
    unfolding verify_model_def Let_def loaded rbind_Inr first list.case m(4) bundle_manifest_get sha256_file_eq json_digest_sort
    by simp
qed

lemma bundle_built:
  assumes "build_winner_bundle env t repo mc made winner selection dataset_manifest explanation candidate_manifests = Inr (result, d)"
  obtains parts mtext ctext digest where "compose_bundle env t repo winner selection dataset_manifest explanation = Inr parts"
    "pretty_json (me_py env) (bp_manifest parts) = Inr mtext"
    "pretty_json (me_py env) (closure_document env (bp_revision parts) (cn_onnx_payload winner) mtext) = Inr ctext"
    "bundle_disk mc (cn_onnx_payload winner) mtext ctext d" "length (cn_onnx_payload winner) \<le> 10 * 1024 * 1024 * 1024"
    "length mtext \<le> 10 * 1024 * 1024 * 1024"
    "result = bundle_result (bp_contracts parts) (bp_revision parts) (bp_model_digest parts) (bp_model_revision_digest parts)
       (repository_identity (bp_revision parts)) (repository_closure_digest env (winner_members env (cn_onnx_payload winner) mtext))
       (bp_runtime_digest parts) (bp_selection_digest parts) digest (bp_explanation_digest parts)"
proof -
  obtain parts where parts: "compose_bundle env t repo winner selection dataset_manifest explanation = Inr parts"
    using assms by (auto simp: build_winner_bundle_def rbind_eq_Inr split: if_splits)
  from assms obtain d0 identity closure_digest d1 d2 digest where
    steps: "repository_directories mc = Inr d0"
      "fill_repository env mc winner (bp_manifest parts) (bp_revision parts) d0 = Inr (identity, closure_digest, d1)"
      "put_jsons (me_py env) mc (bundle_documents selection dataset_manifest explanation candidate_manifests) d1 = Inr d2"
      "put_json (me_py env) mc [''bundle-result.json''] (JObj result) d2 = Inr d"
    and result: "result = bundle_result (bp_contracts parts) (bp_revision parts) (bp_model_digest parts) (bp_model_revision_digest parts)
            identity closure_digest (bp_runtime_digest parts) (bp_selection_digest parts) digest (bp_explanation_digest parts)"
    unfolding build_winner_bundle_def Let_def parts by (auto simp: rbind_eq_Inr split: if_splits prod.splits)
  obtain mtext ctext where found: "pretty_json (me_py env) (bp_manifest parts) = Inr mtext"
    "pretty_json (me_py env) (closure_document env (bp_revision parts) (cn_onnx_payload winner) mtext) = Inr ctext"
    "identity = repository_identity (bp_revision parts)" "closure_digest = repository_closure_digest env (winner_members env (cn_onnx_payload winner) mtext)"
    "d1 = repository_disk mc (cn_onnx_payload winner) mtext ctext" "length (cn_onnx_payload winner) \<le> 10 * 1024 * 1024 * 1024"
    "length mtext \<le> 10 * 1024 * 1024 * 1024"
    using steps(1,2) by (rule repository_filled)
  obtain later where later: "d2 = d1 @ later" "map fst later = map fst (bundle_documents selection dataset_manifest explanation candidate_manifests)"
    using put_jsons_Inr [OF steps(3)] by blast
  obtain e where "d = d1 @ later @ [([''bundle-result.json''], e)]" using put_json_Inr [OF steps(4)] later(1) by auto
  then have "bundle_disk mc (cn_onnx_payload winner) mtext ctext d"
    unfolding bundle_disk_def found(5) using later(2) by (intro exI [of _ "later @ [([''bundle-result.json''], e)]"]) (simp add: bundle_documents_def)
  then show ?thesis using that parts found(1,2,6,7) result found(3,4) by blast
qed

lemma bundle_accepted:
  assumes "build_winner_bundle (ck_env ck) t repo mc made winner selection dataset_manifest explanation candidate_manifests = Inr (result, d)"
    and "compose_bundle (ck_env ck) t repo winner selection dataset_manifest explanation = Inr parts"
    and "pretty_json (me_py (ck_env ck)) (bp_manifest parts) = Inr mtext" "length mtext \<le> 4 * 1024 * 1024"
    and "ck_loads ck mtext = Inr (sort_json (bp_manifest parts))"
    and "pretty_json (me_py (ck_env ck)) (closure_document (ck_env ck) (bp_revision parts) (cn_onnx_payload winner) mtext) = Inr ctext"
      "length ctext \<le> 4 * 1024 * 1024"
    and "ck_loads ck ctext = Inr (sort_json (closure_document (ck_env ck) (bp_revision parts) (cn_onnx_payload winner) mtext))"
    and "mounted v base d" and "\<And>xs. set (ck_order ck xs) = set xs"
    and "blind = take 64 (split_indices dataset ''blind_test'')" and "ck_inspect ck (cn_onnx_payload winner) = Inr operators"
    and "ck_run_ort ck (cn_onnx_payload winner) (map ((!) (dd_features dataset)) blind) = Inr (length blind, 2)"
  shows "\<exists>vf. verify_repository ck v (base @ [''repository'']) dataset = Inr vf
    \<and> json_get result ''repository_identity'' = Some (vf_identity vf)
    \<and> json_get result ''repository_closure_digest'' = Some (JStr (vf_closure_digest vf))
    \<and> json_get result ''model_digest'' = Some (JStr (vf_model_digest vf))
    \<and> vf_model_digest vf = sha256_bytes (ck_env ck) (cn_onnx_payload winner)
    \<and> vf_operator_count vf = operators \<and> vf_numeric_records vf = length blind"
proof -
  let ?env = "ck_env ck" and ?payload = "cn_onnx_payload winner" and ?rep = "base @ [''repository'']"
  have disk: "bundle_disk mc ?payload mtext ctext d" and sizes: "length ?payload \<le> 10 * 1024 * 1024 * 1024" "length mtext \<le> 10 * 1024 * 1024 * 1024"
    using bundle_built [OF assms(1)] assms(2,3,6) by (metis sum.inject(2))+
  obtain digest where result: "result = bundle_result (bp_contracts parts) (bp_revision parts) (bp_model_digest parts) (bp_model_revision_digest parts)
      (repository_identity (bp_revision parts)) (repository_closure_digest ?env (winner_members ?env ?payload mtext))
      (bp_runtime_digest parts) (bp_selection_digest parts) digest (bp_explanation_digest parts)"
    using bundle_built [OF assms(1)] assms(2,3) by (metis sum.inject(2))
  obtain files where files: "ordinary_files v ?rep = Inr files" "set files = set repository_names"
    using disk assms(9) by (rule bundle_ordinary)
  have writable: "vo_mode v ?rep AND 0x92 = 0" using bundle_directories(2) [OF disk assms(9), of "[]"] bundle_modes(1) by simp
  have members: "mapM (\<lambda>relative. raise_if (vo_mode v (?rep @ relative) AND 0x92 \<noteq> 0) (Invalid ''repository_member_writable'' (join ''/'' relative))) files
      = Inr (map (\<lambda>_. ()) files)"
    using bundle_file_entry(2) [OF disk assms(9)] files(2) by (intro mapM_all_Inr) (simp add: raise_if_def)
  note closure = bundle_closure [OF disk assms(9) sizes assms(8,7) files(2)]
  have "verify_repository ck v ?rep dataset = Inr \<lparr>vf_identity = JStr (repository_identity (bp_revision parts)),
      vf_closure_digest = repository_closure_digest ?env (winner_members ?env ?payload mtext), vf_model_digest = sha256_bytes ?env ?payload, vf_operator_count = operators, vf_numeric_records = length blind\<rparr>"
    using writable unfolding verify_repository_def files(1) rbind_Inr members closure prod.case
      bundle_model [OF disk assms(9) sizes(1) assms(2,5,4,10)] assms(11) [symmetric] Let_def assms(12,13) closure_document_def closure_get
    by (simp add: raise_if_def)
  moreover have "bp_model_digest parts = sha256_bytes ?env ?payload" using assms(2) by (rule compose_bundle_parts)
  ultimately show ?thesis by (simp add: result bundle_result_def json_get_simps)
qed


text \<open>
  C31: a published repository passes its verification. When the bundle of a winner was built, and the two manifests in it
  are read back as they were written, \<open>_verify_repository\<close> accepts the repository wherever the output is mounted,
  whatever the mask of the process was and whatever order the member set is iterated in; it finds the identity, the
  closure digest and the model digest that the result of the build records.\<close>

theorem bundle_verifies:
  assumes "build_winner_bundle (ck_env ck) t repo mc made winner selection dataset_manifest explanation candidate_manifests = Inr (result, d)"
    and "compose_bundle (ck_env ck) t repo winner selection dataset_manifest explanation = Inr parts"
    and "pretty_json (me_py (ck_env ck)) (bp_manifest parts) = Inr mtext" "length mtext \<le> 4 * 1024 * 1024"
    and "ck_loads ck mtext = Inr (sort_json (bp_manifest parts))"
    and "pretty_json (me_py (ck_env ck)) (closure_document (ck_env ck) (bp_revision parts) (cn_onnx_payload winner) mtext) = Inr ctext"
      "length ctext \<le> 4 * 1024 * 1024"
    and "ck_loads ck ctext = Inr (sort_json (closure_document (ck_env ck) (bp_revision parts) (cn_onnx_payload winner) mtext))"
    and "mounted v base d" and "\<And>xs. set (ck_order ck xs) = set xs"
    and "blind = take 64 (split_indices dataset ''blind_test'')" and "ck_inspect ck (cn_onnx_payload winner) = Inr operators"
    and "ck_run_ort ck (cn_onnx_payload winner) (map ((!) (dd_features dataset)) blind) = Inr (length blind, 2)"
  shows "\<exists>vf. verify_repository ck v (base @ [''repository'']) dataset = Inr vf
    \<and> json_get result ''repository_identity'' = Some (vf_identity vf)
    \<and> json_get result ''repository_closure_digest'' = Some (JStr (vf_closure_digest vf))
    \<and> json_get result ''model_digest'' = Some (JStr (vf_model_digest vf))
    \<and> vf_model_digest vf = sha256_bytes (ck_env ck) (cn_onnx_payload winner)
    \<and> vf_operator_count vf = operators \<and> vf_numeric_records vf = length blind"
  using assms by (rule bundle_accepted)

section \<open>The archive verifies\<close>

definition archive_files :: "str \<Rightarrow> str \<Rightarrow> str \<Rightarrow> (str \<times> str) list" where
  "archive_files payload mtext ctext =
     [(''bundle-manifest.json'', mtext), (''closure-manifest.json'', ctext), (MODEL_ID @ ''/1/model.onnx'', payload),
      (MODEL_ID @ ''/config.pbtxt'', config_pbtxt MODEL_ID)]"

lemma bundle_files_below:
  assumes "bundle_disk mc payload mtext ctext d"
  shows "files_below [''repository''] d = archive_files payload mtext ctext"
proof -
  obtain later where d: "d = repository_disk mc payload mtext ctext @ later"
    and top: "\<forall>path \<in> fst ` set later. length path = 1 \<and> path \<noteq> [''repository'']"
    using assms by (auto simp: bundle_disk_def list_all_iff)
  let ?f = "\<lambda>(path, e). case en_node e of
        Regular raw \<Rightarrow> if take (length [''repository'']) path = [''repository''] \<and> length [''repository''] < length path
          then [(join ''/'' (drop (length [''repository'']) path), raw)] else []
      | _ \<Rightarrow> []"
  have "concat (map ?f later) = []" using top by (auto split: node.splits)
  moreover have "concat (map ?f (repository_disk mc payload mtext ctext))
      = [(MODEL_ID @ ''/1/model.onnx'', payload), (MODEL_ID @ ''/config.pbtxt'', config_pbtxt MODEL_ID), (''bundle-manifest.json'', mtext),
         (''closure-manifest.json'', ctext)]"
    by (simp add: repository_disk_def bundle_paths)
  ultimately have "files_below [''repository''] d = sort_key fst [(MODEL_ID @ ''/1/model.onnx'', payload), (MODEL_ID @ ''/config.pbtxt'', config_pbtxt MODEL_ID),
      (''bundle-manifest.json'', mtext), (''closure-manifest.json'', ctext)]"
    by (simp only: files_below_def d map_append concat_append append_Nil2)
  also have "\<dots> = archive_files payload mtext ctext"
    unfolding archive_files_def MODEL_ID_def by code_simp
  finally show ?thesis .
qed

lemma archive_names:
  "map tm_name (archive_members (archive_files payload mtext ctext)) = map fst (archive_files payload mtext ctext)"
  by (simp add: archive_members_def archive_files_def)

lemma archive_members_verify:
  assumes "int (length payload + length mtext + length ctext) \<le> 256 * 1024 * 1024"
  shows "verify_archive_members (archive_members (archive_files payload mtext ctext)) 0
    = Inr (int (length mtext + length ctext + length payload + length (config_pbtxt MODEL_ID)))"
proof -
  have config: "length (config_pbtxt MODEL_ID) \<le> 2000" by code_simp
  have paths: "list_all archive_path_ok (map fst (archive_files [] [] []))" by code_simp
  then have "archive_path_ok ''bundle-manifest.json''" "archive_path_ok ''closure-manifest.json''" "archive_path_ok (MODEL_ID @ ''/1/model.onnx'')"
    "archive_path_ok (MODEL_ID @ ''/config.pbtxt'')" by (simp_all add: archive_files_def)
  then show ?thesis using assms config
    by (simp add: archive_members_def archive_files_def verify_archive_member_def SOURCE_DATE_EPOCH_def)
qed


text \<open>
  The archive of a published repository passes its verification, with the digest that the build of the archive
  records: it has the four files of the repository, by name in the order of the bytes, each with fixed metadata. The
  encoder and the decoder of archives are inverse on these members, and the sizes are within the limits.\<close>

theorem archive_verifies:
  assumes "build_winner_bundle (ck_env ck) t repo mc made winner selection dataset_manifest explanation candidate_manifests = Inr (result, d)"
    and "deterministic_bundle_tar (ck_env ck) encode mc' [''repository''] d [name] staging = Inr (archive, staging')"
    and "ck_tar_open ck (encode (archive_members (files_below [''repository''] d))) = Inr (archive_members (files_below [''repository''] d))"
    and "length (encode (archive_members (files_below [''repository''] d))) \<le> 1024 * 1024 * 1024"
    and "sum_list (map (\<lambda>(name, raw). length raw) (files_below [''repository''] d)) \<le> 256 * 1024 * 1024"
    and "mounted v base staging'" "name \<noteq> ''..''"
  shows "\<exists>va. verify_repository_archive ck (vo_tree v) (base @ [name]) (Some (va_sha256 va)) = Inr va
    \<and> json_get archive ''sha256'' = Some (JStr (va_sha256 va))
    \<and> va_paths va = [''bundle-manifest.json'', ''closure-manifest.json'', ''masi-ids-window-v1/1/model.onnx'', ''masi-ids-window-v1/config.pbtxt'']"
proof -
  obtain mtext ctext where disk: "bundle_disk mc (cn_onnx_payload winner) mtext ctext d" using assms(1) by (rule bundle_built)
  let ?files = "archive_files (cn_onnx_payload winner) mtext ctext"
  let ?ms = "archive_members ?files"
  have files: "files_below [''repository''] d = ?files" using disk by (rule bundle_files_below)
  have staging: "([name], \<lparr>en_mode = 0x120 AND NOT (mc_umask mc'), en_node = Regular (encode ?ms)\<rparr>) \<in> set staging'"
    and sha: "json_get archive ''sha256'' = Some (JStr (sha256_bytes (ck_env ck) (encode ?ms)))"
    using assms(2) unfolding deterministic_bundle_tar_def files Let_def
    by (auto simp: rbind_eq_Inr json_get_simps dest!: put_file_Inr split: if_splits)
  have plain: "plain_file (vo_tree v) (base @ [name]) (encode ?ms)"
    by (rule mounted_plain [OF assms(6) staging]) (use assms(7) in auto)
  have size: "length (encode ?ms) \<le> 10 * 1024 * 1024 * 1024" "length (encode ?ms) \<le> 1024 * 1024 * 1024" using assms(4) by (simp_all add: files)
  have node: "node_at (vo_tree v) (base @ [name]) = Some (Regular (encode ?ms))" using plain by (simp add: plain_file_def)
  have digest: "sha256_file (ck_env ck) (vo_tree v) (base @ [name]) = Inr (sha256_bytes (ck_env ck) (encode ?ms))"
    using plain_file_read(1) [OF plain size(1)] by (simp add: sha256_file_eq)
  have total: "verify_archive_members ?ms 0 = Inr (int (length mtext + length ctext + length (cn_onnx_payload winner) + length (config_pbtxt MODEL_ID)))"
    using assms(5) unfolding files by (intro archive_members_verify) (simp add: archive_files_def)
  have order: "sort (map fst ?files) = map fst ?files \<and> distinct (map fst ?files)" "map fst ?files =
     [''bundle-manifest.json'', ''closure-manifest.json'', ''masi-ids-window-v1/1/model.onnx'', ''masi-ids-window-v1/config.pbtxt'']"
    unfolding archive_files_def MODEL_ID_def by code_simp+
  have count: "length ?ms = 4" by (simp add: archive_members_def archive_files_def)
  have "verify_repository_archive ck (vo_tree v) (base @ [name]) (Some (sha256_bytes (ck_env ck) (encode ?ms)))
      = Inr \<lparr>va_sha256 = sha256_bytes (ck_env ck) (encode ?ms),
          va_payload_bytes = int (length mtext + length ctext + length (cn_onnx_payload winner) + length (config_pbtxt MODEL_ID)), va_paths = map fst ?files\<rparr>"
    using size(2) order(1) unfolding verify_repository_archive_def plain_file_read(3) [OF plain] rbind_Inr node option.case node.case digest
      assms(3) [unfolded files] sum.case count total Let_def archive_names by simp
  then show ?thesis using sha order(2)
    by (intro exI [of _ "\<lparr>va_sha256 = sha256_bytes (ck_env ck) (encode ?ms),
      va_payload_bytes = int (length mtext + length ctext + length (cn_onnx_payload winner) + length (config_pbtxt MODEL_ID)), va_paths = map fst ?files\<rparr>"]) simp
qed


section \<open>An accepted repository is closed\<close>

text \<open>The member document names a file inside the repository with a role of the list, and has its digest.\<close>

definition member_holds :: "checker \<Rightarrow> volume \<Rightarrow> str list \<Rightarrow> json \<Rightarrow> str \<Rightarrow> bool" where
  "member_holds ck v repository member relative \<longleftrightarrow>
     (\<exists>path_value role_value digest real. indexed member ''rel_path'' = Inr path_value \<and> relative = text_of (ck_env ck) path_value
        \<and> indexed member ''role'' = Inr role_value \<and> text_of (ck_env ck) role_value \<in> set allowed_roles
        \<and> resolve (vo_tree v) (join_path repository relative) = Inr real \<and> length repository < length real \<and> take (length repository) real = repository
        \<and> indexed member ''member_digest'' = Inr (JStr digest) \<and> sha256_file (ck_env ck) (vo_tree v) (join_path repository relative) = Inr digest)"

lemma verify_member_holds:
  "verify_member ck v repository seen member = Inr (relative, line) \<Longrightarrow> member_holds ck v repository member relative \<and> relative \<notin> set seen"
  unfolding verify_member_def Let_def member_holds_def by (auto simp: rbind_eq_Inr split: if_splits)

lemma verify_members_hold:
  "verify_members ck v repository members seen lines = Inr (seen', lines') \<Longrightarrow>
     \<exists>new. seen' = seen @ new \<and> list_all2 (member_holds ck v repository) members new \<and> distinct new \<and> set new \<inter> set seen = {}"
proof (induction members arbitrary: seen lines)
  case (Cons member members)
  obtain relative line where step: "verify_member ck v repository seen member = Inr (relative, line)"
    and rest: "verify_members ck v repository members (seen @ [relative]) (lines @ [line]) = Inr (seen', lines')"
    using Cons.prems by (auto simp: rbind_eq_Inr)
  obtain new where "seen' = (seen @ [relative]) @ new" "list_all2 (member_holds ck v repository) members new" "distinct new"
    "set new \<inter> set (seen @ [relative]) = {}"
    using Cons.IH [OF rest] by blast
  then show ?case using verify_member_holds [OF step] by (intro exI [of _ "relative # new"]) auto
qed simp

lemma ordinary_files_Inr:
  assumes "ordinary_files v base = Inr files"
  shows "set files \<subseteq> set (vo_below v base)"
    "relative \<in> set (vo_below v base) \<Longrightarrow> node_at (vo_tree v) (base @ relative) = Some Directory
    \<or> (\<exists>raw. node_at (vo_tree v) (base @ relative) = Some (Regular raw) \<and> vo_mode v (base @ relative) AND 0x49 = 0 \<and> relative \<in> set files)"
proof -
  let ?f = "\<lambda>relative. case node_at (vo_tree v) (base @ relative) of
         Some (Symlink _ _) \<Rightarrow> Inl (Invalid ''output_symlink'' (join ''/'' relative))
       | Some (Regular _) \<Rightarrow>
           if vo_mode v (base @ relative) AND 0x49 \<noteq> 0 then Inl (Invalid ''output_executable'' (join ''/'' relative)) else Inr [relative]
       | Some Directory \<Rightarrow> Inr []
       | Some Special \<Rightarrow> Inl (Invalid ''output_special_file'' (join ''/'' relative))
       | None \<Rightarrow> Inl MFileNotFoundError"
  obtain found where found: "mapM ?f (vo_below v base) = Inr found" "files = concat found"
    using assms(1) unfolding ordinary_files_def by (auto simp: rbind_eq_Inr)
  have single: "xs = [x] \<or> xs = []" if "?f x = Inr xs" for x xs using that by (auto split: option.splits node.splits if_splits)
  show "set files \<subseteq> set (vo_below v base)" using mapM_set [OF found(1)] single found(2) by fastforce
  assume "relative \<in> set (vo_below v base)"
  then obtain i where i: "i < length (vo_below v base)" "vo_below v base ! i = relative" by (auto simp: in_set_conv_nth)
  obtain xs where xs: "found ! i = xs" by blast
  have "?f relative = Inr xs" using mapM_Inr_nth [OF found(1) i(1)] unfolding i(2) xs .
  moreover have "set (found ! i) \<subseteq> set files" using i(1) mapM_length [OF found(1)] nth_mem found(2) by fastforce
  ultimately show "node_at (vo_tree v) (base @ relative) = Some Directory
    \<or> (\<exists>raw. node_at (vo_tree v) (base @ relative) = Some (Regular raw) \<and> vo_mode v (base @ relative) AND 0x49 = 0 \<and> relative \<in> set files)"
    unfolding xs by (auto split: option.splits node.splits if_splits)
qed



section \<open>Building always completes\<close>

lemma put_json_ok:
  assumes "pretty_json env v = Inr raw" and "path \<noteq> []" "last path \<noteq> []" "hd (last path) \<noteq> CHR ''.''" "path \<notin> fst ` set d"
    and "\<forall>p \<in> fst ` set d. last p = [] \<or> hd (last p) \<noteq> CHR ''.''"
  shows "put_json env mc path v d = Inr (d @ [(path, \<lparr>en_mode = 0x1B6 AND NOT (mc_umask mc), en_node = Regular raw\<rparr>)])"
proof -
  have "map_of d path = None" using assms(5) by (simp add: map_of_eq_None_iff)
  moreover have "butlast path @ [''.'' @ last path @ ''.'' @ int_str (mc_pid mc) @ ''.tmp''] \<notin> fst ` set d" using assms(6) by force
  then have "map_of d (butlast path @ [''.'' @ last path @ ''.'' @ int_str (mc_pid mc) @ ''.tmp'']) = None" by (simp only: map_of_eq_None_iff not_False_eq_True)
  ultimately show ?thesis using assms(1) by (simp add: put_json_def put_file_def Let_def)
qed

lemma put_jsons_ok:
  assumes "list_all (\<lambda>(path, v). \<not> has_nonfinite v \<and> path \<noteq> [] \<and> last path \<noteq> [] \<and> hd (last path) \<noteq> CHR ''.'') docs" "distinct (map fst docs)"
    and "fst ` set docs \<inter> fst ` set d = {}" and "\<forall>p \<in> fst ` set d. last p = [] \<or> hd (last p) \<noteq> CHR ''.''"
  shows "\<exists>d'. put_jsons env mc docs d = Inr d'"
  using assms
proof (induction docs arbitrary: d)
  case (Cons doc docs)
  obtain path v where doc: "doc = (path, v)" by (cases doc)
  have "\<not> has_nonfinite v" using Cons.prems(1) by (simp add: doc)
  then obtain raw where raw: "pretty_json env v = Inr raw" by (simp add: pretty_json_def)
  let ?d = "d @ [(path, \<lparr>en_mode = 0x1B6 AND NOT (mc_umask mc), en_node = Regular raw\<rparr>)]"
  have "put_json env mc path v d = Inr ?d" by (rule put_json_ok [OF raw]) (use Cons.prems in \<open>auto simp: doc\<close>)
  moreover have "\<exists>d'. put_jsons env mc docs ?d = Inr d'"
    by (rule Cons.IH) (use Cons.prems in \<open>auto simp: doc image_iff\<close>)
  ultimately show ?case by (auto simp: doc)
qed simp

lemma repository_fills:
  assumes "repository_directories mc = Inr d0" and "pretty_json (me_py env) manifest = Inr mtext"
    and "pretty_json (me_py env) (closure_document env revision (cn_onnx_payload winner) mtext) = Inr ctext"
    and "length (cn_onnx_payload winner) \<le> 10 * 1024 * 1024 * 1024" "length mtext \<le> 10 * 1024 * 1024 * 1024"
  shows "\<exists>r. fill_repository env mc winner manifest revision d0 = Inr r"
proof -
  let ?u = "NOT (mc_umask mc)"
  let ?dirs = "map (\<lambda>(path, m). (path, \<lparr>en_mode = m AND ?u, en_node = Directory\<rparr>))
     [(in_repository [], 0x1E8), (in_repository [MODEL_ID], 0x1FF), (in_repository [MODEL_ID, ''1''], 0x1E8)]"
  have d0: "d0 = ?dirs" using assms(1) by (simp add: repository_directories_eq)
  let ?d2 = "?dirs @ [(in_repository MODEL_PATH, \<lparr>en_mode = 0x120 AND ?u, en_node = Regular (cn_onnx_payload winner)\<rparr>),
      (in_repository CONFIG_PATH, \<lparr>en_mode = 0x120 AND ?u, en_node = Regular (config_pbtxt MODEL_ID)\<rparr>)]"
  let ?d4 = "?d2 @ [(in_repository [''bundle-manifest.json''], \<lparr>en_mode = 0x120, en_node = Regular mtext\<rparr>)]"
  let ?d5 = "?d4 @ [(in_repository [''closure-manifest.json''], \<lparr>en_mode = 0x1B6 AND ?u, en_node = Regular ctext\<rparr>)]"
  have "put_file mc 0x120 (in_repository MODEL_PATH) (cn_onnx_payload winner) d0
      = Inr (?dirs @ [(in_repository MODEL_PATH, \<lparr>en_mode = 0x120 AND ?u, en_node = Regular (cn_onnx_payload winner)\<rparr>)])"
    by (simp add: put_file_def d0 bundle_paths)
  moreover have "put_file mc 0x120 (in_repository CONFIG_PATH) (config_pbtxt MODEL_ID)
      (?dirs @ [(in_repository MODEL_PATH, \<lparr>en_mode = 0x120 AND ?u, en_node = Regular (cn_onnx_payload winner)\<rparr>)]) = Inr ?d2"
    by (simp add: put_file_def bundle_paths)
  moreover have "put_json (me_py env) mc (in_repository [''bundle-manifest.json'']) manifest ?d2
      = Inr (?d2 @ [(in_repository [''bundle-manifest.json''], \<lparr>en_mode = 0x1B6 AND ?u, en_node = Regular mtext\<rparr>)])"
    by (rule put_json_ok [OF assms(2)]) (simp_all add: bundle_paths)
  moreover have "chmod (in_repository [''bundle-manifest.json'']) 0x120
      (?d2 @ [(in_repository [''bundle-manifest.json''], \<lparr>en_mode = 0x1B6 AND ?u, en_node = Regular mtext\<rparr>)]) = Inr ?d4"
    by (simp add: chmod_def bundle_paths)
  moreover have "repository_members env mc ?d4 = Inr (winner_members env (cn_onnx_payload winner) mtext)"
  proof -
    have "length (config_pbtxt MODEL_ID) \<le> 2000" by code_simp
    then show ?thesis using assms(4,5) by (simp add: repository_members_def digest_at_def content_at_def winner_members_def bundle_paths)
  qed
  moreover have "put_json (me_py env) mc (in_repository [''closure-manifest.json''])
      (closure_document env revision (cn_onnx_payload winner) mtext) ?d4 = Inr ?d5"
    by (rule put_json_ok [OF assms(3)]) (simp_all add: bundle_paths)
  moreover have "\<exists>d6 d7 d8 d9. chmod (in_repository [''closure-manifest.json'']) 0x120 ?d5 = Inr d6 \<and> chmod (in_repository [MODEL_ID, ''1'']) 0x168 d6 = Inr d7
      \<and> chmod (in_repository [MODEL_ID]) 0x168 d7 = Inr d8 \<and> chmod (in_repository []) 0x168 d8 = Inr d9"
    by (simp add: chmod_def bundle_paths)
  ultimately show ?thesis
    unfolding fill_repository_def closure_document_def repository_identity_def Let_def by (auto simp del: append.simps list.map)
qed


lemma bundle_completes:
  assumes "json_get selection ''winner'' = Some (JStr (cn_candidate_id winner))" "json_get selection ''winner_seed'' = Some (JInt (cn_seed winner))"
    and "create_fresh_directory made t (mc_base mc) = Inr path"
    and "compose_bundle env t repo winner selection dataset_manifest explanation = Inr parts"
    and "pretty_json (me_py env) (bp_manifest parts) = Inr mtext"
    and "pretty_json (me_py env) (closure_document env (bp_revision parts) (cn_onnx_payload winner) mtext) = Inr ctext"
    and "length (cn_onnx_payload winner) \<le> 10 * 1024 * 1024 * 1024" "length mtext \<le> 10 * 1024 * 1024 * 1024"
    and "\<not> has_nonfinite (JObj selection)" "\<not> has_nonfinite (JObj dataset_manifest)" "\<not> has_nonfinite explanation"
      "list_all (\<lambda>(key, v). \<not> has_nonfinite v) candidate_manifests"
  shows "\<exists>result d. build_winner_bundle env t repo mc made winner selection dataset_manifest explanation candidate_manifests = Inr (result, d)"
proof -
  obtain d0 where d0: "repository_directories mc = Inr d0" by (simp add: repository_directories_eq)
  obtain identity closure_digest d1 where fill: "fill_repository env mc winner (bp_manifest parts) (bp_revision parts) d0 = Inr (identity, closure_digest, d1)"
    using repository_fills [OF d0 assms(5-8)] by auto
  have "d1 = repository_disk mc (cn_onnx_payload winner) mtext ctext" using repository_filled [OF d0 fill] assms(5,6) by (metis sum.inject(2))
  then have keys: "fst ` set d1 = insert [''repository''] (in_repository ` ({[MODEL_ID], [MODEL_ID, ''1'']} \<union> set repository_names))"
    by (auto simp: repository_disk_def repository_names_def)
  let ?docs = "bundle_documents selection dataset_manifest explanation candidate_manifests"
  have plain: "\<forall>p \<in> fst ` set d1. last p = [] \<or> hd (last p) \<noteq> CHR ''.''" unfolding keys by (auto simp: repository_names_def bundle_paths)
  have manifests: "\<not> has_nonfinite (JObj (map (\<lambda>((candidate_id, seed), manifest). (candidate_id @ '':seed-'' @ int_str seed, manifest)) (sort_key fst candidate_manifests)))"
    using assms(12) by (auto simp: list_ex_iff list_all_iff)
  have "\<exists>d2. put_jsons (me_py env) mc ?docs d1 = Inr d2"
  proof (rule put_jsons_ok)
    show "list_all (\<lambda>(path, v). \<not> has_nonfinite v \<and> path \<noteq> [] \<and> last path \<noteq> [] \<and> hd (last path) \<noteq> CHR ''.'') ?docs"
      using assms(9-11) manifests by (simp add: bundle_documents_def del: has_nonfinite.simps)
  qed (use plain in \<open>auto simp: bundle_documents_def keys\<close>)
  then obtain d2 where d2: "put_jsons (me_py env) mc ?docs d1 = Inr d2" by blast
  have keys2: "fst ` set d2 = fst ` set d1 \<union> fst ` set ?docs" using put_jsons_Inr [OF d2] by (metis image_Un set_append set_map)
  obtain digest where digest: "json_digest env (JObj dataset_manifest) = Inr digest"
    using assms(10) by (simp add: json_digest_def canonical_json_bytes_def del: has_nonfinite.simps)
  let ?result = "bundle_result (bp_contracts parts) (bp_revision parts) (bp_model_digest parts) (bp_model_revision_digest parts)
            identity closure_digest (bp_runtime_digest parts) (bp_selection_digest parts) digest (bp_explanation_digest parts)"
  have "\<not> has_nonfinite (JObj ?result)" by (simp add: bundle_result_def NOT_APPLICABLE_def contract_digests_def)
  then obtain raw where raw: "pretty_json (me_py env) (JObj ?result) = Inr raw" by (simp add: pretty_json_def del: has_nonfinite.simps)
  have "\<exists>d. put_json (me_py env) mc [''bundle-result.json''] (JObj ?result) d2 = Inr d"
    by (rule exI, rule put_json_ok [OF raw]) (use plain in \<open>auto simp: keys2 keys bundle_documents_def\<close>)
  then show ?thesis
    using assms(1-4) d0 fill d2 digest by (auto simp: build_winner_bundle_def Let_def)
qed

text \<open>The disk alone in a volume.\<close>

definition mount :: "str list \<Rightarrow> disk \<Rightarrow> volume" where
  "mount base d = \<lparr>
     vo_tree = (\<lambda>path. if take (length path) base = path then Some Directory
       else if take (length base) path = base then map_option en_node (map_of d (drop (length base) path)) else None),
     vo_mode = (\<lambda>path. case map_of d (drop (length base) path) of None \<Rightarrow> 0x1ED | Some e \<Rightarrow> en_mode e),
     vo_below = (\<lambda>path. below (drop (length base) path) d)\<rparr>"

lemma mount_mounted:
  assumes "distinct (map fst d)" "[] \<notin> fst ` set d" "''..'' \<notin> set base"
  shows "mounted (mount base d) base d"
proof -
  have "vo_tree (mount base d) (base @ path) = Some (en_node e) \<and> vo_mode (mount base d) (base @ path) = en_mode e
      \<and> set (vo_below (mount base d) (base @ path)) = set (below path d)" if "(path, e) \<in> set d" for path e
  proof -
    have "path \<noteq> []" "map_of d path = Some e" using that assms by force+
    then show ?thesis by (simp add: mount_def)
  qed
  then show ?thesis using assms(3) by (auto simp: mounted_def list_all_iff mount_def node_at_def min_absorb2)
qed

lemma bundle_disk_keys:
  assumes "bundle_disk mc payload mtext ctext d"
  shows "distinct (map fst d)" "[] \<notin> fst ` set d"
proof -
  obtain later where d: "d = repository_disk mc payload mtext ctext @ later" and names: "distinct (map fst later)"
    and top: "\<forall>p \<in> fst ` set later. length p = 1 \<and> p \<noteq> [''repository'']"
    using assms by (auto simp: bundle_disk_def list_all_iff)
  have keys: "\<forall>p \<in> fst ` set (repository_disk mc payload mtext ctext). p = [''repository''] \<or> 1 < length p"
    "distinct (map fst (repository_disk mc payload mtext ctext))"
    by (simp_all add: repository_disk_def bundle_paths)
  have "fst ` set (repository_disk mc payload mtext ctext) \<inter> fst ` set later = {}" using top keys(1) by (metis disjoint_iff less_irrefl)
  then show "distinct (map fst d)" using keys(2) names unfolding d by simp
  show "[] \<notin> fst ` set d" using top keys(1) unfolding d by fastforce
qed

end
