(* ===== verification/Ml_Output.thy ===== *)
theory Ml_Output
  imports Ml_Published
begin

text \<open>
  Verification of a whole output (second half of \<open>pipeline.py\<close>): the directories of the nine candidates, and the
  composition of the checks of dataset, candidates, repository and archive, with the command line around it. The main
  results are that what \<open>write_candidate_artifacts\<close> leaves passes its check, and what an accepted output guarantees.
\<close>

section \<open>The candidates\<close>

text \<open>The text of a pair in a message; \<open>repr\<close> of a string is what a list of it shows between its brackets.\<close>

definition identity_text :: "ml_env \<Rightarrow> str \<times> int \<Rightarrow> str" where
  "identity_text env identity =
     ''('' @ butlast (tl (value_str (me_py env) (JArr [JStr (fst identity)]))) @ '', '' @ int_str (snd identity) @ '')''"

definition candidate_manifests :: "volume \<Rightarrow> str list \<Rightarrow> str list list" where
  "candidate_manifests v base =
     sort (filter (\<lambda>relative. length relative = 3 \<and> starts_with ''seed-'' (relative ! 1) \<and> relative ! 2 = ''candidate-manifest.json'') (vo_below v base))"

definition verify_candidate_file ::
  "checker \<Rightarrow> (str \<Rightarrow> int option) \<Rightarrow> volume \<Rightarrow> str list \<Rightarrow> str \<times> int \<Rightarrow> str \<times> json \<Rightarrow> ml_error + unit" where
  "verify_candidate_file ck ints v directory identity entry =
     (let env = ck_env ck; name = fst entry; expected = snd entry; path = join_path directory name;
          shown = identity_text env identity @ '':'' @ name in
      if butlast path \<noteq> directory then Inl (Invalid ''candidate_file_digest'' shown)
      else rbind (sha256_file env (vo_tree v) path) (\<lambda>observed.
        rbind (indexed expected ''sha256'') (\<lambda>digest.
        if JStr observed \<noteq> digest then Inl (Invalid ''candidate_file_digest'' shown)
        else rbind (ensure_ordinary_file (vo_tree v) path (10 * 1024 * 1024 * 1024)) (\<lambda>raw.
          rbind (rbind (indexed expected ''bytes'') (to_int ints)) (\<lambda>n.
          raise_if (int (length raw) \<noteq> n) (Invalid ''candidate_file_size'' shown))))))"

definition verify_candidate ::
  "checker \<Rightarrow> (str \<Rightarrow> int option) \<Rightarrow> volume \<Rightarrow> str list \<Rightarrow> (str \<times> int) list \<Rightarrow> ml_error + (str \<times> int)" where
  "verify_candidate ck ints v manifest_path identities =
     (let env = ck_env ck in
      rbind (load_json (ck_loads ck) (vo_tree v) manifest_path (4 * 1024 * 1024)) (\<lambda>manifest.
      rbind (indexed manifest ''candidate_id'') (\<lambda>candidate_id.
      rbind (rbind (indexed manifest ''seed'') (to_int ints)) (\<lambda>seed.
      let identity = (text_of env candidate_id, seed); colon = fst identity @ '':'' @ int_str seed in
      rbind (raise_if (identity \<in> set identities) (Invalid ''candidate_identity_duplicate'' colon)) (\<lambda>_.
      rbind (indexed manifest ''files'') (\<lambda>files.
      rbind (case files of
          JObj entries \<Rightarrow> mapM (verify_candidate_file ck ints v (butlast manifest_path) identity) entries
        | _ \<Rightarrow> Inl MAttributeError) (\<lambda>_.
      rbind (indexed manifest ''eligible'') (\<lambda>eligible.
      rbind (raise_if (\<not> truthy eligible) (Invalid ''candidate_not_eligible'' colon)) (\<lambda>_.
      Inr identity)))))))))"

fun verify_candidates ::
  "checker \<Rightarrow> (str \<Rightarrow> int option) \<Rightarrow> volume \<Rightarrow> str list list \<Rightarrow> (str \<times> int) list \<Rightarrow> ml_error + (str \<times> int) list" where
  "verify_candidates ck ints v [] identities = Inr identities"
| "verify_candidates ck ints v (path # later) identities =
     rbind (verify_candidate ck ints v path identities) (\<lambda>identity. verify_candidates ck ints v later (identities @ [identity]))"

definition verify_candidate_artifacts :: "checker \<Rightarrow> (str \<Rightarrow> int option) \<Rightarrow> volume \<Rightarrow> str list \<Rightarrow> ml_error + nat" where
  "verify_candidate_artifacts ck ints v base =
     (let manifests = candidate_manifests v base in
      rbind (raise_if (length manifests \<noteq> 9) (Invalid ''candidate_manifest_count'' (nat_str (length manifests)))) (\<lambda>_.
      rbind (verify_candidates ck ints v (map (\<lambda>relative. base @ relative) manifests) []) (\<lambda>identities. Inr (length identities))))"

section \<open>The dataset in the output\<close>

definition directory_at :: "tree \<Rightarrow> str list \<Rightarrow> dataset_directory" where
  "directory_at t directory relative =
     rbind (resolve t (join_path directory relative)) (\<lambda>place.
     Inr \<lparr>df_inside = length directory < length place \<and> take (length directory) place = directory, df_symlink = False,
       df_regular = (case node_at t place of Some (Regular _) \<Rightarrow> True | _ \<Rightarrow> False),
       df_bytes = (case node_at t place of Some (Regular raw) \<Rightarrow> raw | _ \<Rightarrow> [])\<rparr>)"

text \<open>\<open>load_dataset\<close> from its paths on; the schemas are read, the validation against them is a parameter.\<close>

definition load_dataset_at :: "checker \<Rightarrow> loader \<Rightarrow> tree \<Rightarrow> str list \<Rightarrow> str list \<Rightarrow> ml_error + dataset_data" where
  "load_dataset_at ck ld t repo directory =
     rbind (resolve t repo) (\<lambda>repo.
     rbind (resolve t directory) (\<lambda>directory.
     rbind (load_json (ck_loads ck) t (directory @ [''manifest.json'']) (4 * 1024 * 1024)) (\<lambda>manifest.
     rbind (load_json (ck_loads ck) t (repo @ [''contracts'', ''dataset'', ''v1'', ''schema.json'']) (4 * 1024 * 1024)) (\<lambda>_.
     rbind (load_json (ck_loads ck) t (repo @ [''contracts'', ''dataset'', ''v1'', ''sample-schema.json'']) (4 * 1024 * 1024)) (\<lambda>_.
     case manifest of
       JObj document \<Rightarrow> load_dataset ld (directory_at t directory) document
     | _ \<Rightarrow> Inl MTypeError)))))"

section \<open>The output\<close>

record output_report =
  or_dataset_revision :: json
  or_candidates :: nat
  or_repository :: verified
  or_archive :: verified_archive
  or_archive_digest :: json

definition verify_pipeline_output ::
  "checker \<Rightarrow> (str \<Rightarrow> int option) \<Rightarrow> loader \<Rightarrow> volume \<Rightarrow> str list \<Rightarrow> str list \<Rightarrow> ml_error + output_report" where
  "verify_pipeline_output ck ints ld v repo output =
     (let env = ck_env ck; t = vo_tree v in
      rbind (resolve t repo) (\<lambda>repo.
      rbind (resolve t output) (\<lambda>output.
      if node_at t output \<noteq> Some Directory then Inl (Invalid ''pipeline_output'' (path_str output))
      else rbind (ordinary_files v output) (\<lambda>_.
      rbind (load_json (ck_loads ck) t (output @ [''pipeline-result.json'']) (4 * 1024 * 1024)) (\<lambda>result_value.
      rbind (ensure_finite ''$'' result_value) (\<lambda>_.
      case result_value of
        JObj result \<Rightarrow>
          if json_get result ''result'' \<noteq> Some (JStr ''PASS'')
            \<or> \<not> (case json_get result ''candidate_executions'' of Some n \<Rightarrow> equals_int n 9 | None \<Rightarrow> False)
          then Inl (Invalid ''pipeline_result'' (optional_str env (json_get result ''result'')))
          else rbind (load_dataset_at ck ld t repo (output @ [''dataset''])) (\<lambda>dataset.
            rbind (verify_candidate_artifacts ck ints v (output @ [''candidates''])) (\<lambda>candidates.
            rbind (verify_repository ck v (output @ [''bundle'', ''repository'']) dataset) (\<lambda>repository.
            rbind (item_at result ''archive'') (\<lambda>archive.
            rbind (indexed archive ''path'') (\<lambda>path_value.
            let archive_path = join_path output (text_of env path_value) in
            rbind (indexed archive ''sha256'') (\<lambda>sha_value.
            rbind (verify_repository_archive ck t archive_path (Some (text_of env sha_value))) (\<lambda>archive_verification.
            rbind (rbind (resolve t archive_path) (\<lambda>place. case node_at t place of Some (Regular raw) \<Rightarrow> Inr (int (length raw)) | _ \<Rightarrow> Inl MOSError)) (\<lambda>archive_bytes.
            rbind (rbind (indexed archive ''bytes'') (to_int ints)) (\<lambda>n.
            rbind (raise_if (archive_bytes \<noteq> n) (Invalid ''repository_archive'' (path_str archive_path))) (\<lambda>_.
            rbind (rbind (item_at result ''bundle'') (\<lambda>bundle. indexed bundle ''repository_closure_digest'')) (\<lambda>closure_digest.
            rbind (raise_if (JStr (vf_closure_digest repository) \<noteq> closure_digest)
              (Invalid ''bundle_closure_binding'' (vf_closure_digest repository))) (\<lambda>_.
            rbind (item_at (dd_manifest dataset) ''dataset_revision'') (\<lambda>revision.
            rbind (ensure_finite ''$.dataset_revision'' revision) (\<lambda>_.
            rbind (ensure_finite ''$.repository.identity'' (vf_identity repository)) (\<lambda>_.
            Inr \<lparr>or_dataset_revision = revision, or_candidates = candidates, or_repository = repository, or_archive = archive_verification,
              or_archive_digest = sha_value\<rparr>)))))))))))))))
      | _ \<Rightarrow> Inl MAttributeError))))))"

text \<open>The exit code of the command line, and whether a result goes to the standard output.\<close>

definition main_verify ::
  "checker \<Rightarrow> (str \<Rightarrow> int option) \<Rightarrow> loader \<Rightarrow> volume \<Rightarrow> str list \<Rightarrow> str list \<Rightarrow> ml_error + nat" where
  "main_verify ck ints ld v repo output =
     (case verify_pipeline_output ck ints ld v repo output of
        Inr _ \<Rightarrow> Inr 0
      | Inl (Invalid _ _) \<Rightarrow> Inr 2
      | Inl MFileNotFoundError \<Rightarrow> Inr 2
      | Inl MOSError \<Rightarrow> Inr 2
      | Inl e \<Rightarrow> Inl e)"

section \<open>The directory of a candidate verifies\<close>

definition evidence_names :: "fitted_candidate \<Rightarrow> str list" where
  "evidence_names c = [''model.onnx'', ''training.json'', ''metrics.json'', ''onnx-evidence.json'', ''calibration.json'', ''thresholds.json'',
     ''feature-schema.json'', ''label-taxonomy.json'', ''output-adapter.json'', ''explanation.json''] @ (if cn_scaler c = None then [] else [''scaler.json''])"

lemma evidence_names_plain:
  assumes "name \<in> set (evidence_names c)"
  shows "path_parts name = [name]" "\<not> starts_with ''/'' name" "name \<noteq> ''..''" "name \<noteq> ''candidate-manifest.json''"
proof -
  let ?all = "[''model.onnx'', ''training.json'', ''metrics.json'', ''onnx-evidence.json'', ''calibration.json'', ''thresholds.json'',
     ''feature-schema.json'', ''label-taxonomy.json'', ''output-adapter.json'', ''explanation.json'', ''scaler.json'']"
  have "list_all (\<lambda>name. path_parts name = [name] \<and> \<not> starts_with ''/'' name \<and> name \<noteq> ''..'' \<and> name \<noteq> ''candidate-manifest.json'') ?all" by code_simp
  moreover have "name \<in> set ?all" using assms by (auto simp: evidence_names_def split: if_splits)
  ultimately show "path_parts name = [name]" "\<not> starts_with ''/'' name" "name \<noteq> ''..''" "name \<noteq> ''candidate-manifest.json''"
    unfolding list_all_iff by blast+
qed

text \<open>What the call leaves: the listed files, each with its entry, and then the manifest.\<close>

lemma candidate_written:
  assumes "write_candidate_artifacts env mc made t c dataset_manifest explanation = Inr (manifest, d)"
  obtains ct revision data_id data_revision passes d2 files mtext e where "map fst d2 = map (\<lambda>name. [name]) (evidence_names c)"
    "file_entries env mc d2 = Inr files" "json_get (cn_metrics c) ''passes_thresholds'' = Some passes"
    "manifest = candidate_manifest c ct revision data_id data_revision (truthy passes) files" "pretty_json (me_py env) (JObj manifest) = Inr mtext"
    "d = d2 @ [([''candidate-manifest.json''], e)]" "en_node e = Regular mtext"
proof -
  from assms obtain ct d1 d2 files revision data_id data_revision passes where
    steps: "put_file mc 0x120 [''model.onnx''] (cn_onnx_payload c) [] = Inr d1" "put_jsons (me_py env) mc (evidence_documents c ct explanation) d1 = Inr d2"
      "file_entries env mc d2 = Inr files" "json_get (cn_metrics c) ''passes_thresholds'' = Some passes"
      "manifest = candidate_manifest c ct revision data_id data_revision (truthy passes) files"
      "put_json (me_py env) mc [''candidate-manifest.json''] (JObj manifest) d2 = Inr d"
    unfolding write_candidate_artifacts_def Let_def by (auto simp: rbind_eq_Inr)
  obtain later where "d2 = d1 @ later" "map fst later = map fst (evidence_documents c ct explanation)" using put_jsons_Inr [OF steps(2)] by blast
  then have "map fst d2 = map (\<lambda>name. [name]) (evidence_names c)"
    using put_file_Inr [OF steps(1)] by (simp add: evidence_documents_def evidence_names_def split: option.splits)
  moreover obtain mtext where "pretty_json (me_py env) (JObj manifest) = Inr mtext"
    "d = d2 @ [([''candidate-manifest.json''], \<lparr>en_mode = 0x1B6 AND NOT (mc_umask mc), en_node = Regular mtext\<rparr>)]" using steps(6) by (rule put_json_Inr)
  ultimately show ?thesis using that steps(3-5) by (metis entry.select_convs(2))
qed

lemma file_entries_Inr:
  assumes "file_entries env mc d = Inr files" and "(name, v) \<in> set files"
  obtains path e raw where "(path, e) \<in> set d" "name = last path" "en_node e = Regular raw" "length raw \<le> 10 * 1024 * 1024 * 1024"
    "v = JObj [(''sha256'', JStr (sha256_bytes env raw)), (''bytes'', JInt (int (length raw)))]"
proof -
  obtain path where
    "rbind (digest_at env mc d path) (\<lambda>digest. rbind (content_at d path) (\<lambda>raw.
       Inr (last path, JObj [(''sha256'', JStr digest), (''bytes'', JInt (int (length raw)))]))) = Inr (name, v)"
    using mapM_set [OF assms(1) [unfolded file_entries_def] assms(2)] by auto
  then obtain digest raw where digest: "digest_at env mc d path = Inr digest" and raw: "content_at d path = Inr raw"
    and entry: "name = last path" "v = JObj [(''sha256'', JStr digest), (''bytes'', JInt (int (length raw)))]"
    by (auto simp: rbind_eq_Inr)
  obtain e where "map_of d path = Some e" "en_node e = Regular raw" "digest = sha256_bytes env raw" "length raw \<le> 10 * 1024 * 1024 * 1024"
    using digest_at_Inr [OF digest] raw by (auto simp: content_at_def)
  then show ?thesis using that map_of_SomeD entry by metis
qed


lemma candidate_manifest_get:
  "indexed (sort_json (JObj (candidate_manifest c ct revision data_id data_revision eligible files))) ''candidate_id'' = Inr (JStr (cn_candidate_id c))"
  "indexed (sort_json (JObj (candidate_manifest c ct revision data_id data_revision eligible files))) ''seed'' = Inr (JInt (cn_seed c))"
  "indexed (sort_json (JObj (candidate_manifest c ct revision data_id data_revision eligible files))) ''eligible'' = Inr (JBool eligible)"
  "indexed (sort_json (JObj (candidate_manifest c ct revision data_id data_revision eligible files))) ''files'' = Inr (sort_json (JObj files))"
  unfolding candidate_manifest_def sort_json_obj indexed_def by (simp_all add: json_get_sorted json_get_simps sort_json_obj del: sort_json.simps(2))

lemma candidate_file_verifies:
  assumes "plain_file (vo_tree v) (base @ [name]) raw" "length raw \<le> 10 * 1024 * 1024 * 1024" "path_parts name = [name]" "\<not> starts_with ''/'' name"
  shows "verify_candidate_file ck ints v base identity
    (name, sort_json (JObj [(''sha256'', JStr (sha256_bytes (ck_env ck) raw)), (''bytes'', JInt (int (length raw)))])) = Inr ()"
proof -
  have get: "indexed (sort_json (JObj [(''sha256'', JStr a), (''bytes'', JInt n)])) ''sha256'' = Inr (JStr a)"
    "indexed (sort_json (JObj [(''sha256'', JStr a), (''bytes'', JInt n)])) ''bytes'' = Inr (JInt n)" for a n
    unfolding sort_json_obj indexed_def by (simp_all add: json_get_sorted json_get_simps)
  have "join_path base name = base @ [name]" using assms(3,4) by (simp add: join_path_def)
  then show ?thesis
    using plain_file_read(1) [OF assms(1,2)] unfolding verify_candidate_file_def Let_def fst_conv snd_conv get sha256_file_eq by (simp add: raise_if_def)
qed

text \<open>
  The directory of evidence that a candidate leaves passes its verification: when the thresholds were met and the
  manifest is read back as it was written, the candidate is accepted under its own identity, wherever the directory is
  mounted. Every file the manifest lists is there with the recorded digest and size.\<close>

theorem candidate_verifies:
  assumes "write_candidate_artifacts (ck_env ck) mc made t c dataset_manifest explanation = Inr (manifest, d)"
    and "pretty_json (me_py (ck_env ck)) (JObj manifest) = Inr mtext" "length mtext \<le> 4 * 1024 * 1024"
    and "ck_loads ck mtext = Inr (sort_json (JObj manifest))"
    and "mounted v base d" and "json_get (cn_metrics c) ''passes_thresholds'' = Some passes" "truthy passes"
    and "(cn_candidate_id c, cn_seed c) \<notin> set identities"
  shows "verify_candidate ck ints v (base @ [''candidate-manifest.json'']) identities = Inr (cn_candidate_id c, cn_seed c)"
proof -
  obtain ct revision data_id data_revision passes' d2 files mtext' e where names: "map fst d2 = map (\<lambda>name. [name]) (evidence_names c)"
    and files: "file_entries (ck_env ck) mc d2 = Inr files" and passes': "json_get (cn_metrics c) ''passes_thresholds'' = Some passes'"
    and manifest: "manifest = candidate_manifest c ct revision data_id data_revision (truthy passes') files"
    and pretty: "pretty_json (me_py (ck_env ck)) (JObj manifest) = Inr mtext'" and d: "d = d2 @ [([''candidate-manifest.json''], e)]" "en_node e = Regular mtext'"
    using assms(1) by (rule candidate_written)
  have single: "plain_file (vo_tree v) (base @ [name]) raw" if "([name], x) \<in> set d" "en_node x = Regular raw" "name \<noteq> ''..''" for name x raw
    by (rule mounted_plain [OF assms(5) that(1,2)]) (use that(3) in auto)
  have "plain_file (vo_tree v) (base @ [''candidate-manifest.json'']) mtext" by (rule single [of _ e]) (use d pretty assms(2) in auto)
  then have loaded: "load_json (ck_loads ck) (vo_tree v) (base @ [''candidate-manifest.json'']) (4 * 1024 * 1024) = Inr (sort_json (JObj manifest))"
    using plain_file_read(1) assms(3,4) by (simp add: load_json_def del: sort_json.simps)
  have entry: "verify_candidate_file ck ints v base identity (name, sort_json w) = Inr ()" if listed: "(name, w) \<in> set files" for identity name w
  proof -
    obtain path x raw where x: "(path, x) \<in> set d2" "name = last path" "en_node x = Regular raw" "length raw \<le> 10 * 1024 * 1024 * 1024"
      "w = JObj [(''sha256'', JStr (sha256_bytes (ck_env ck) raw)), (''bytes'', JInt (int (length raw)))]"
      using files listed by (rule file_entries_Inr)
    have "path \<in> set (map fst d2)" using x(1) by force
    then have path: "path = [name]" "name \<in> set (evidence_names c)" using x(2) unfolding names by auto
    have "plain_file (vo_tree v) (base @ [name]) raw"
    proof (rule single [OF _ x(3) evidence_names_plain(3) [OF path(2)]])
      show "([name], x) \<in> set d" using x(1) unfolding d(1) path(1) by simp
    qed
    then show ?thesis unfolding x(5) by (rule candidate_file_verifies) (use x(4) evidence_names_plain [OF path(2)] in auto)
  qed
  have "\<exists>us. mapM (verify_candidate_file ck ints v base (cn_candidate_id c, cn_seed c)) (sorted_fields files) = Inr us"
    by (rule exI, rule mapM_all_Inr [where g = "\<lambda>_. ()"]) (use entry in \<open>auto simp: sorted_fields_def\<close>)
  then show ?thesis
    using assms(6-8) passes' unfolding verify_candidate_def Let_def loaded rbind_Inr manifest sort_json_obj
    by (auto simp: candidate_manifest_get [unfolded sort_json_obj] text_of_def raise_if_def)
qed


section \<open>What an accepted output guarantees\<close>

definition file_holds :: "checker \<Rightarrow> (str \<Rightarrow> int option) \<Rightarrow> volume \<Rightarrow> str list \<Rightarrow> str \<times> json \<Rightarrow> bool" where
  "file_holds ck ints v directory entry \<longleftrightarrow> butlast (join_path directory (fst entry)) = directory
     \<and> (\<exists>raw. ensure_ordinary_file (vo_tree v) (join_path directory (fst entry)) (10 * 1024 * 1024 * 1024) = Inr raw
          \<and> indexed (snd entry) ''sha256'' = Inr (JStr (sha256_bytes (ck_env ck) raw))
          \<and> rbind (indexed (snd entry) ''bytes'') (to_int ints) = Inr (int (length raw)))"

text \<open>An eligible candidate under its identity, whose listed files have the recorded digests and sizes.\<close>

definition candidate_holds :: "checker \<Rightarrow> (str \<Rightarrow> int option) \<Rightarrow> volume \<Rightarrow> str list \<Rightarrow> str \<times> int \<Rightarrow> bool" where
  "candidate_holds ck ints v manifest_path identity \<longleftrightarrow>
     (\<exists>manifest candidate_id entries eligible.
        load_json (ck_loads ck) (vo_tree v) manifest_path (4 * 1024 * 1024) = Inr manifest
        \<and> indexed manifest ''candidate_id'' = Inr candidate_id \<and> fst identity = text_of (ck_env ck) candidate_id
        \<and> rbind (indexed manifest ''seed'') (to_int ints) = Inr (snd identity)
        \<and> indexed manifest ''files'' = Inr (JObj entries) \<and> list_all (file_holds ck ints v (butlast manifest_path)) entries
        \<and> indexed manifest ''eligible'' = Inr eligible \<and> truthy eligible)"

lemma verify_candidate_file_holds: "verify_candidate_file ck ints v directory identity entry = Inr u \<Longrightarrow> file_holds ck ints v directory entry"
  unfolding verify_candidate_file_def file_holds_def Let_def sha256_file_eq
  by (auto simp: rbind_eq_Inr raise_if_def split: if_splits)

lemma verify_candidate_holds:
  assumes "verify_candidate ck ints v path identities = Inr identity"
  shows "candidate_holds ck ints v path identity \<and> identity \<notin> set identities"
proof -
  obtain manifest candidate_id seed files us eligible where m: "load_json (ck_loads ck) (vo_tree v) path (4 * 1024 * 1024) = Inr manifest"
    "indexed manifest ''candidate_id'' = Inr candidate_id" "rbind (indexed manifest ''seed'') (to_int ints) = Inr seed"
    "identity = (text_of (ck_env ck) candidate_id, seed)" "identity \<notin> set identities" "indexed manifest ''files'' = Inr files"
    "(case files of JObj entries \<Rightarrow> mapM (verify_candidate_file ck ints v (butlast path) identity) entries | _ \<Rightarrow> Inl MAttributeError) = Inr us"
    "indexed manifest ''eligible'' = Inr eligible" "truthy eligible"
    using assms unfolding verify_candidate_def Let_def by (elim rbindE) (auto simp: raise_if_def split: if_splits)
  then obtain entries where entries: "files = JObj entries" "mapM (verify_candidate_file ck ints v (butlast path) identity) entries = Inr us"
    by (cases files) auto
  then have "is_ok (mapM (verify_candidate_file ck ints v (butlast path) identity) entries)" by simp
  then have "\<forall>entry \<in> set entries. is_ok (verify_candidate_file ck ints v (butlast path) identity entry)" by (simp only: mapM_ok_iff)
  then have "list_all (file_holds ck ints v (butlast path)) entries"
    unfolding list_all_iff is_ok_iff using verify_candidate_file_holds by blast
  then show ?thesis using m entries(1) unfolding candidate_holds_def by auto
qed

lemma verify_candidates_hold:
  "verify_candidates ck ints v paths identities = Inr all \<Longrightarrow>
     \<exists>new. all = identities @ new \<and> list_all2 (candidate_holds ck ints v) paths new \<and> distinct new \<and> set new \<inter> set identities = {}"
proof (induction paths arbitrary: identities)
  case (Cons path paths)
  obtain identity where step: "verify_candidate ck ints v path identities = Inr identity"
    and rest: "verify_candidates ck ints v paths (identities @ [identity]) = Inr all"
    using Cons.prems by (auto simp: rbind_eq_Inr)
  obtain new where "all = (identities @ [identity]) @ new" "list_all2 (candidate_holds ck ints v) paths new" "distinct new"
    "set new \<inter> set (identities @ [identity]) = {}"
    using Cons.IH [OF rest] by blast
  then show ?case using verify_candidate_holds [OF step] by (intro exI [of _ "identity # new"]) auto
qed simp

lemma candidate_artifacts_hold:
  assumes "verify_candidate_artifacts ck ints v base = Inr n"
  shows "n = 9 \<and> (\<exists>identities. list_all2 (candidate_holds ck ints v) (map (\<lambda>relative. base @ relative) (candidate_manifests v base)) identities
    \<and> length identities = 9 \<and> distinct identities)"
proof -
  obtain identities where run: "verify_candidates ck ints v (map (\<lambda>relative. base @ relative) (candidate_manifests v base)) [] = Inr identities"
    and n: "length (candidate_manifests v base) = 9" "n = length identities"
    using assms unfolding verify_candidate_artifacts_def Let_def by (auto simp: rbind_eq_Inr raise_if_def split: if_splits)
  have holds: "list_all2 (candidate_holds ck ints v) (map (\<lambda>relative. base @ relative) (candidate_manifests v base)) identities" "distinct identities"
    using verify_candidates_hold [OF run] by auto
  have "length identities = 9" using list_all2_lengthD [OF holds(1)] n(1) by simp
  with holds n(2) show ?thesis by blast
qed

text \<open>The parts of an accepted output.\<close>

lemma accepted_output_parts:
  assumes "verify_pipeline_output ck ints ld v repo output = Inr report"
  obtains files place home result data archive path_value where "resolve (vo_tree v) repo = Inr home" "resolve (vo_tree v) output = Inr place"
    "ordinary_files v place = Inr files"
    "load_json (ck_loads ck) (vo_tree v) (place @ [''pipeline-result.json'']) (4 * 1024 * 1024) = Inr (JObj result)"
    "load_dataset_at ck ld (vo_tree v) home (place @ [''dataset'']) = Inr data"
    "verify_candidate_artifacts ck ints v (place @ [''candidates'']) = Inr (or_candidates report)"
    "verify_repository ck v (place @ [''bundle'', ''repository'']) data = Inr (or_repository report)"
    "json_get result ''archive'' = Some archive" "indexed archive ''path'' = Inr path_value" "indexed archive ''sha256'' = Inr (or_archive_digest report)"
    "verify_repository_archive ck (vo_tree v) (join_path place (text_of (ck_env ck) path_value)) (Some (text_of (ck_env ck) (or_archive_digest report)))
      = Inr (or_archive report)"
    "rbind (item_at result ''bundle'') (\<lambda>bundle. indexed bundle ''repository_closure_digest'') = Inr (JStr (vf_closure_digest (or_repository report)))"
proof -
  obtain home place files result_value where top: "resolve (vo_tree v) repo = Inr home" "resolve (vo_tree v) output = Inr place" "ordinary_files v place = Inr files"
    "load_json (ck_loads ck) (vo_tree v) (place @ [''pipeline-result.json'']) (4 * 1024 * 1024) = Inr result_value"
    using assms unfolding verify_pipeline_output_def Let_def by (auto simp: rbind_eq_Inr split: if_splits)
  obtain result where result: "result_value = JObj result"
    using assms unfolding verify_pipeline_output_def Let_def top rbind_Inr by (cases result_value) (auto simp: rbind_eq_Inr split: if_splits)
  show ?thesis
    using assms that [OF top(1-3) top(4) [unfolded result]]
    unfolding verify_pipeline_output_def Let_def top rbind_Inr result
    by (auto simp: rbind_eq_Inr raise_if_def split: if_splits)
qed


lemma archive_digest_checked:
  assumes "verify_repository_archive ck t path (Some digest) = Inr va"
  shows "va_sha256 va = digest"
proof -
  obtain place where place: "resolve t path = Inr place" using assms by (cases "resolve t path") (simp_all add: verify_repository_archive_def)
  then obtain raw where raw: "node_at t place = Some (Regular raw)"
    using assms by (auto simp: verify_repository_archive_def split: option.splits node.splits)
  show ?thesis
    using assms unfolding verify_repository_archive_def place rbind_Inr raw option.case node.case
    by (cases "ck_tar_open ck raw") (auto simp: rbind_eq_Inr Let_def split: if_splits)
qed

text \<open>
  C33: an output that \<open>verify_pipeline_output\<close> accepts is whole, without trust in its result document. It holds only
  directories and ordinary files that nobody may execute; its dataset loads; it has nine candidates under nine distinct
  identities, each eligible and with intact evidence files; its repository passes the closure check on that dataset and
  has the closure digest of the result; and its archive passes, with the digest that the result records.\<close>

theorem accepted_output_whole:
  assumes "verify_pipeline_output ck ints ld v repo output = Inr report"
  shows "\<exists>home place result data archive path_value identities.
    resolve (vo_tree v) repo = Inr home \<and> resolve (vo_tree v) output = Inr place
    \<and> (\<forall>relative \<in> set (vo_below v place). node_at (vo_tree v) (place @ relative) = Some Directory
        \<or> (\<exists>raw. node_at (vo_tree v) (place @ relative) = Some (Regular raw) \<and> vo_mode v (place @ relative) AND 0x49 = 0))
    \<and> load_json (ck_loads ck) (vo_tree v) (place @ [''pipeline-result.json'']) (4 * 1024 * 1024) = Inr (JObj result)
    \<and> load_dataset_at ck ld (vo_tree v) home (place @ [''dataset'']) = Inr data
    \<and> list_all2 (candidate_holds ck ints v) (map (\<lambda>relative. (place @ [''candidates'']) @ relative) (candidate_manifests v (place @ [''candidates'']))) identities
    \<and> length identities = 9 \<and> distinct identities \<and> or_candidates report = 9
    \<and> verify_repository ck v (place @ [''bundle'', ''repository'']) data = Inr (or_repository report)
    \<and> rbind (item_at result ''bundle'') (\<lambda>bundle. indexed bundle ''repository_closure_digest'') = Inr (JStr (vf_closure_digest (or_repository report)))
    \<and> json_get result ''archive'' = Some archive \<and> indexed archive ''path'' = Inr path_value \<and> indexed archive ''sha256'' = Inr (or_archive_digest report)
    \<and> verify_repository_archive ck (vo_tree v) (join_path place (text_of (ck_env ck) path_value)) (Some (text_of (ck_env ck) (or_archive_digest report)))
        = Inr (or_archive report)
    \<and> va_sha256 (or_archive report) = text_of (ck_env ck) (or_archive_digest report)"
proof -
  obtain files place home result data archive path_value where p: "resolve (vo_tree v) repo = Inr home" "resolve (vo_tree v) output = Inr place"
    "ordinary_files v place = Inr files"
    "load_json (ck_loads ck) (vo_tree v) (place @ [''pipeline-result.json'']) (4 * 1024 * 1024) = Inr (JObj result)"
    "load_dataset_at ck ld (vo_tree v) home (place @ [''dataset'']) = Inr data"
    "verify_candidate_artifacts ck ints v (place @ [''candidates'']) = Inr (or_candidates report)"
    "verify_repository ck v (place @ [''bundle'', ''repository'']) data = Inr (or_repository report)"
    "json_get result ''archive'' = Some archive" "indexed archive ''path'' = Inr path_value" "indexed archive ''sha256'' = Inr (or_archive_digest report)"
    "verify_repository_archive ck (vo_tree v) (join_path place (text_of (ck_env ck) path_value)) (Some (text_of (ck_env ck) (or_archive_digest report)))
      = Inr (or_archive report)"
    "rbind (item_at result ''bundle'') (\<lambda>bundle. indexed bundle ''repository_closure_digest'') = Inr (JStr (vf_closure_digest (or_repository report)))"
    using assms by (rule accepted_output_parts)
  have digest: "va_sha256 (or_archive report) = text_of (ck_env ck) (or_archive_digest report)"
    using p(11) by (rule archive_digest_checked)
  have kinds: "\<forall>relative \<in> set (vo_below v place). node_at (vo_tree v) (place @ relative) = Some Directory
      \<or> (\<exists>raw. node_at (vo_tree v) (place @ relative) = Some (Regular raw) \<and> vo_mode v (place @ relative) AND 0x49 = 0)"
    using ordinary_files_Inr(2) [OF p(3)] by blast
  show ?thesis using p(1,2) kinds p(4,5) candidate_artifacts_hold [OF p(6)] p(7) p(12) p(8-11) digest by blast
qed

end
