(* ===== verification/Ml_Bundle_Sample.thy ===== *)
theory Ml_Bundle_Sample
  imports Ml_Published
begin

text \<open>
  A small winner, whose bundle is built, mounted, archived and verified: the concrete instance for the theorems on
  published repositories. Digests are constant, and \<open>json.loads\<close> knows the two manifests.
\<close>

definition profile_paths :: "str list list" where
  "profile_paths = map (\<lambda>name. [''repo'', ''contracts'', ''inference'', ''v1'', name])
     [''model-runtime-central-cpu.json'', ''optimization-profile-central-cpu.json'', ''profile.json'']"

definition profile_tree :: tree where
  "profile_tree = map_of (map (\<lambda>path. (path, Directory)) [[''repo''], [''repo'', ''contracts''], [''repo'', ''contracts'', ''inference''],
       [''repo'', ''contracts'', ''inference'', ''v1'']]
     @ map (\<lambda>path. (path, Regular ''x'')) profile_paths)"

definition sample_winner :: fitted_candidate where
  "sample_winner = \<lparr>cn_candidate_id = ''lr-window-binary/v1'', cn_seed = 17, cn_slope = 1 / 2, cn_intercept = 1 / 2, cn_alert = 1 / 2, cn_confidence = 1 / 2,
     cn_scaler = None, cn_training_evidence = JObj [], cn_metrics = [(''passes_thresholds'', JBool True)], cn_onnx_payload = ''model'',
     cn_onnx_evidence = [(''model_digest'', JStr ''d'')]\<rparr>"

definition sample_selection :: "(str \<times> json) list" where
  "sample_selection = [(''winner'', JStr ''lr-window-binary/v1''), (''winner_seed'', JInt 17)]"

definition sample_dataset_manifest :: "(str \<times> json) list" where
  "sample_dataset_manifest = [(''dataset_id'', JStr ''d''), (''dataset_revision'', JStr ''r'')]"

definition sample_machine :: machine where
  "sample_machine = \<lparr>mc_pid = 7, mc_umask = 0x12, mc_base = [''out'']\<rparr>"

definition zero_digest :: str where "zero_digest = ''sha256:'' @ replicate 64 CHR ''0''"

definition sample_contracts :: contracts where
  "sample_contracts = \<lparr>ct_feature_schema = feature_schema, ct_label_taxonomy = label_taxonomy sample_winner zero_digest,
     ct_output_adapter = JObj (adapter_body sample_winner zero_digest @ [(''adapter_digest'', JStr zero_digest)]), ct_calibration = calibration_document sample_winner,
     ct_feature_digest = zero_digest, ct_label_digest = zero_digest, ct_adapter_digest = zero_digest, ct_calibration_digest = zero_digest\<rparr>"

definition sample_parts :: bundle_parts where
  "sample_parts = (let revision = replicate 40 CHR ''0'' in
     \<lparr>bp_contracts = sample_contracts, bp_revision = revision, bp_model_digest = zero_digest, bp_model_revision_digest = zero_digest,
       bp_runtime_digest = zero_digest, bp_selection_digest = zero_digest, bp_explanation_digest = zero_digest,
       bp_manifest = bundle_manifest sample_winner sample_contracts revision zero_digest zero_digest
         (binding_identity sample_contracts zero_digest zero_digest zero_digest revision zero_digest) (JStr ''d'') (JStr ''r'') zero_digest zero_digest\<rparr>)"

lemma sample_sha: "sha256_bytes sample_ml_env raw = zero_digest"
  by (simp add: sha256_bytes_def sample_ml_env_def zero_env_def zero_digest_def)

lemma sample_json_digest: "\<not> has_nonfinite v \<Longrightarrow> json_digest sample_ml_env v = Inr zero_digest"
  by (simp add: json_digest_def canonical_json_bytes_def sample_sha)

lemma profiles_plain: "list_all (\<lambda>path. plain_file profile_tree path ''x'') profile_paths"
  by code_simp

lemma profile_digests:
  "sha256_file sample_ml_env profile_tree [''repo'', ''contracts'', ''inference'', ''v1'', ''model-runtime-central-cpu.json''] = Inr zero_digest"
  "sha256_file sample_ml_env profile_tree [''repo'', ''contracts'', ''inference'', ''v1'', ''optimization-profile-central-cpu.json''] = Inr zero_digest"
  "sha256_file sample_ml_env profile_tree [''repo'', ''contracts'', ''inference'', ''v1'', ''profile.json''] = Inr zero_digest"
  using profiles_plain plain_file_read(1) [of profile_tree _ "''x''" "10 * 1024 * 1024 * 1024"]
  by (simp_all add: profile_paths_def sha256_file_eq sample_sha)

lemma sample_contracts_eq: "candidate_contracts sample_ml_env sample_winner = Inr sample_contracts"
proof -
  have "\<not> has_nonfinite (calibration_document sample_winner)" "\<not> has_nonfinite feature_schema" "\<not> has_nonfinite (label_taxonomy sample_winner zero_digest)"
    "\<not> has_nonfinite (JObj (adapter_body sample_winner zero_digest))" by code_simp+
  then show ?thesis unfolding candidate_contracts_def by (simp add: sample_json_digest sample_contracts_def del: has_nonfinite.simps)
qed

lemma sample_revision_eq: "candidate_revision sample_ml_env sample_winner = Inr (replicate 40 CHR ''0'')"
  unfolding candidate_revision_def
  by (simp add: sample_json_digest item_at_def json_get_simps sample_winner_def calibration_dict_def thresholds_dict_def zero_digest_def)

lemma sample_composed:
  "compose_bundle sample_ml_env profile_tree [''repo''] sample_winner sample_selection sample_dataset_manifest (JObj []) = Inr sample_parts"
  unfolding compose_bundle_def sample_contracts_eq sample_revision_eq rbind_Inr Let_def
  by (simp add: profile_digests sample_sha sample_json_digest binding_identity_def sample_dataset_manifest_def sample_selection_def item_at_def json_get_simps
      sample_parts_def Let_def)

definition manifest_text :: str where
  "manifest_text = json_indent zero_env 0 (sort_json (bp_manifest sample_parts)) @ [CHR 0x0A]"

definition closure_text :: str where
  "closure_text = json_indent zero_env 0 (sort_json (closure_document sample_ml_env (bp_revision sample_parts) ''model'' manifest_text)) @ [CHR 0x0A]"

lemma sample_py: "me_py sample_ml_env = zero_env"
  by (simp add: sample_ml_env_def)

lemma sample_texts:
  "pretty_json (me_py sample_ml_env) (bp_manifest sample_parts) = Inr manifest_text"
  "pretty_json (me_py sample_ml_env) (closure_document sample_ml_env (bp_revision sample_parts) (cn_onnx_payload sample_winner) manifest_text) = Inr closure_text"
proof -
  have "\<not> has_nonfinite (bp_manifest sample_parts)" by code_simp
  then show "pretty_json (me_py sample_ml_env) (bp_manifest sample_parts) = Inr manifest_text" by (simp add: pretty_json_def manifest_text_def sample_py)
  have "\<not> has_nonfinite (closure_document sample_ml_env r payload mtext)" for r payload mtext
    by (simp add: closure_document_def closure_manifest_def winner_members_def member_document_def)
  then show "pretty_json (me_py sample_ml_env) (closure_document sample_ml_env (bp_revision sample_parts) (cn_onnx_payload sample_winner) manifest_text) = Inr closure_text"
    by (simp add: pretty_json_def closure_text_def sample_py sample_winner_def)
qed

text \<open>The closure is the same whatever the manifest is, as digests are constant.\<close>

lemma closure_text_eq: "closure_text = json_indent zero_env 0 (sort_json (closure_document sample_ml_env (bp_revision sample_parts) ''model'' [])) @ [CHR 0x0A]"
  unfolding closure_text_def closure_document_def winner_members_def sample_sha by simp

lemma unfloat_indent:
  "(\<And>q. length (float_repr env q) = 3) \<Longrightarrow> \<not> has_nonfinite v \<Longrightarrow> length (json_indent env level (unfloat v)) = length (json_indent env level v)"
proof (induction v arbitrary: level rule: unfloat.induct)
  case (1 f)
  have "length (int_str 100) = 3" by code_simp
  with 1 show ?case by (auto simp: float_text_def split: pyfloat.splits)
next
  case (2 vs)
  have "map (\<lambda>v. length (json_indent env (Suc level) (unfloat v))) vs = map (\<lambda>v. length (json_indent env (Suc level) v)) vs"
    by (rule map_cong [OF refl]) (use 2 in \<open>auto simp: list_ex_iff\<close>)
  from arg_cong [OF this, of sum_list] show ?case by (simp add: length_join comp_def)
next
  case (3 kvs)
  have "map (\<lambda>kv. length (json_indent env (Suc level) (unfloat (snd kv)))) kvs = map (\<lambda>kv. length (json_indent env (Suc level) (snd kv))) kvs"
    by (rule map_cong [OF refl]) (use 3 in \<open>auto simp: list_ex_iff\<close>)
  then have "map (\<lambda>kv. Suc (Suc (length (json_str (fst kv)) + length (json_indent env (Suc level) (unfloat (snd kv)))))) kvs
      = map (\<lambda>kv. Suc (Suc (length (json_str (fst kv)) + length (json_indent env (Suc level) (snd kv))))) kvs"
    by (auto simp: list_eq_iff_nth_eq)
  from arg_cong [OF this, of sum_list] show ?case by (simp add: length_join comp_def)
qed simp_all

lemma indent_bound: "\<not> has_nonfinite v \<Longrightarrow> int (length (json_indent zero_env 0 v)) \<le> indent_weight 0 (unfloat v)"
  using json_indent_length [OF unfloat_free, of zero_env 0 v] unfloat_indent [of zero_env v 0] by (simp add: zero_env_def)

lemma sample_sizes: "length manifest_text \<le> 100000" "length closure_text \<le> 100000"
proof -
  have finite: "\<not> has_nonfinite (sort_json (bp_manifest sample_parts))"
    "\<not> has_nonfinite (sort_json (closure_document sample_ml_env (bp_revision sample_parts) ''model'' []))"
    by code_simp+
  have "indent_weight 0 (unfloat (sort_json (bp_manifest sample_parts))) \<le> 90000"
    "indent_weight 0 (unfloat (sort_json (closure_document sample_ml_env (bp_revision sample_parts) ''model'' []))) \<le> 90000"
    by code_simp+
  then show "length manifest_text \<le> 100000" "length closure_text \<le> 100000"
    using finite [THEN indent_bound] unfolding closure_text_eq manifest_text_def by simp_all
qed

lemma json_indent_first:
  assumes "sort_json v = JObj kvs" "kvs \<noteq> []" "fst (hd kvs) = c # key" "json_escape_char c = [c]"
  shows "json_indent env 0 (sort_json v) ! 5 = c"
proof -
  obtain w rest where kvs: "kvs = (c # key, w) # rest" using assms(2,3) by (cases kvs) auto
  show ?thesis by (cases rest) (simp_all add: assms(1,4) kvs line_at_def json_str_def numeral_eq_Suc)
qed

lemma sample_text_first: "manifest_text ! 5 = CHR ''b''" "closure_text ! 5 = CHR ''c''"
proof -
  let ?first = "\<lambda>v key. case sort_json v of JObj kvs \<Rightarrow> kvs \<noteq> [] \<and> fst (hd kvs) = key | _ \<Rightarrow> False"
  have letters: "json_escape_char CHR ''b'' = [CHR ''b'']" "json_escape_char CHR ''c'' = [CHR ''c'']" by code_simp+
  have first: "json_indent zero_env 0 (sort_json v) ! 5 = c" if "?first v (c # key)" "json_escape_char c = [c]" for v c key
    using that json_indent_first [of v _ c key zero_env] by (cases "sort_json v") auto
  have keys: "?first (bp_manifest sample_parts) ''binding_identity''"
    "?first (closure_document sample_ml_env (bp_revision sample_parts) ''model'' []) ''closure_digest''" by code_simp+
  have "5 < length (json_indent zero_env 0 (sort_json v))" if "?first v (c # key)" for v c key
    using that by (cases "sort_json v") (auto simp: line_at_def json_str_def)
  then show "manifest_text ! 5 = CHR ''b''" "closure_text ! 5 = CHR ''c''"
    using first [OF keys(1) letters(1)] first [OF keys(2) letters(2)] keys unfolding closure_text_eq manifest_text_def by (simp_all add: nth_append)
qed

definition sample_checker :: "tar_member list \<Rightarrow> checker" where
  "sample_checker members = \<lparr>ck_env = sample_ml_env,
     ck_loads = (\<lambda>raw. Inr (sort_json (if raw = manifest_text then bp_manifest sample_parts
       else closure_document sample_ml_env (bp_revision sample_parts) (cn_onnx_payload sample_winner) manifest_text))),
     ck_order = id, ck_inspect = (\<lambda>_. Inr 3), ck_run_ort = (\<lambda>_ rows. Inr (length rows, 2)), ck_tar_open = (\<lambda>_. Inr members)\<rparr>"

lemma sample_texts_load:
  "ck_loads (sample_checker members) manifest_text = Inr (sort_json (bp_manifest sample_parts))"
  "ck_loads (sample_checker members) closure_text
    = Inr (sort_json (closure_document sample_ml_env (bp_revision sample_parts) (cn_onnx_payload sample_winner) manifest_text))"
proof -
  have "closure_text \<noteq> manifest_text" using sample_text_first by auto
  then show "ck_loads (sample_checker members) manifest_text = Inr (sort_json (bp_manifest sample_parts))"
    "ck_loads (sample_checker members) closure_text
      = Inr (sort_json (closure_document sample_ml_env (bp_revision sample_parts) (cn_onnx_payload sample_winner) manifest_text))"
    by (simp_all add: sample_checker_def del: sort_json.simps)
qed

definition sample_build :: "ml_error + ((str \<times> json) list \<times> disk)" where
  "sample_build = build_winner_bundle sample_ml_env profile_tree [''repo''] sample_machine True sample_winner sample_selection sample_dataset_manifest (JObj []) []"

lemma sample_built: "\<exists>result d. sample_build = Inr (result, d)"
proof -
  have "\<not> is_ok (lstat profile_tree [''out''])"
    by (simp add: lstat_def resolve_def real_path_simps node_at_def profile_tree_def profile_paths_def)
  then have "create_fresh_directory True profile_tree (mc_base sample_machine) = Inr [''out'']" by (simp add: create_fresh_directory_def sample_machine_def)
  from bundle_completes [OF _ _ this sample_composed sample_texts] sample_sizes show ?thesis
    unfolding sample_build_def by (simp add: sample_selection_def sample_winner_def sample_dataset_manifest_def json_get_simps)
qed

definition sample_data :: dataset_data where
  "sample_data = \<lparr>dd_manifest = [], dd_records = [], dd_features = [[1, 2, 3, 4, 5, 6], [6, 5, 4, 3, 2, 1]], dd_labels = [0, 1],
     dd_weights = [], dd_splits = [''train'', ''blind_test'']\<rparr>"

lemma sample_mounted:
  assumes "sample_build = Inr (result, d)"
  shows "mounted (mount [''out''] d) [''out''] d"
proof -
  obtain mtext ctext where "bundle_disk sample_machine (cn_onnx_payload sample_winner) mtext ctext d" using assms unfolding sample_build_def by (rule bundle_built)
  from bundle_disk_keys [OF this] show ?thesis by (rule mount_mounted) simp
qed

theorem bundle_verifies_witness:
  "\<exists>result d vf. sample_build = Inr (result, d) \<and> verify_repository (sample_checker []) (mount [''out''] d) [''out'', ''repository''] sample_data = Inr vf
    \<and> json_get result ''repository_closure_digest'' = Some (JStr (vf_closure_digest vf)) \<and> vf_numeric_records vf = 1"
proof -
  obtain result d where run: "sample_build = Inr (result, d)" using sample_built by blast
  have env: "ck_env (sample_checker []) = sample_ml_env" by (simp add: sample_checker_def)
  have blind: "take 64 (split_indices sample_data ''blind_test'') = [1]" by (simp add: sample_data_def split_indices_def)
  show ?thesis
    using bundle_verifies [of "sample_checker []", unfolded env, OF run [unfolded sample_build_def] sample_composed sample_texts(1) _ sample_texts_load(1)
        sample_texts(2) _ sample_texts_load(2) sample_mounted [OF run], of "[1]" sample_data 3] sample_sizes run blind
    by (auto simp: sample_checker_def)
qed


lemma sample_accepted:
  assumes "sample_build = Inr (result, d)"
  shows "\<exists>vf. verify_repository (sample_checker []) (mount [''out''] d) [''out'', ''repository''] sample_data = Inr vf"
proof -
  have env: "ck_env (sample_checker []) = sample_ml_env" by (simp add: sample_checker_def)
  show ?thesis
    using bundle_accepted [of "sample_checker []", unfolded env, OF assms [unfolded sample_build_def] sample_composed sample_texts(1) _ sample_texts_load(1)
        sample_texts(2) _ sample_texts_load(2) sample_mounted [OF assms], of "take 64 (split_indices sample_data ''blind_test'')" sample_data 3] sample_sizes
    by (auto simp: sample_checker_def)
qed


definition sample_archive :: "tar_member list \<Rightarrow> disk \<Rightarrow> ml_error + ((str \<times> json) list \<times> disk)" where
  "sample_archive members d = deterministic_bundle_tar (ck_env (sample_checker members)) (\<lambda>_. ''tar'') sample_machine [''repository''] d [''model-repository.tar''] []"

theorem archive_verifies_witness:
  "\<exists>result d archive staging va members. sample_build = Inr (result, d) \<and> sample_archive members d = Inr (archive, staging)
    \<and> verify_repository_archive (sample_checker members) (vo_tree (mount [''out''] staging)) [''out'', ''model-repository.tar''] (Some (va_sha256 va)) = Inr va
    \<and> json_get archive ''sha256'' = Some (JStr (va_sha256 va))"
proof -
  obtain result d where run: "sample_build = Inr (result, d)" using sample_built by blast
  let ?members = "archive_members (files_below [''repository''] d)"
  have env: "ck_env (sample_checker ?members) = sample_ml_env" "ck_tar_open (sample_checker ?members) raw = Inr ?members" for raw
    by (simp_all add: sample_checker_def)
  obtain mtext ctext where "bundle_disk sample_machine (cn_onnx_payload sample_winner) mtext ctext d" "mtext = manifest_text" "ctext = closure_text"
    using bundle_built [OF run [unfolded sample_build_def]] sample_composed sample_texts by (metis sum.inject(2))
  then have "files_below [''repository''] d = archive_files ''model'' manifest_text closure_text" using bundle_files_below by (auto simp: sample_winner_def)
  moreover have "length (config_pbtxt MODEL_ID) \<le> 2000" by code_simp
  ultimately have size: "sum_list (map (\<lambda>(name, raw). length raw) (files_below [''repository''] d)) \<le> 256 * 1024 * 1024"
    using sample_sizes by (simp add: archive_files_def)
  let ?staging = "[([''model-repository.tar''], \<lparr>en_mode = 0x120 AND NOT (mc_umask sample_machine), en_node = Regular ''tar''\<rparr>)]"
  obtain archive where archive: "sample_archive ?members d = Inr (archive, ?staging)"
    by (simp add: sample_archive_def deterministic_bundle_tar_def put_file_def Let_def)
  have "mounted (mount [''out''] ?staging) [''out''] ?staging" by (rule mount_mounted) simp_all
  from archive_verifies [OF run [unfolded sample_build_def env(1) [symmetric]] archive [unfolded sample_archive_def] env(2) _ size this]
  obtain va where "verify_repository_archive (sample_checker ?members) (vo_tree (mount [''out''] ?staging)) [''out'', ''model-repository.tar''] (Some (va_sha256 va)) = Inr va"
    "json_get archive ''sha256'' = Some (JStr (va_sha256 va))" by auto
  then show ?thesis using run archive by blast
qed

end
