(* ===== verification/Ml_Output_Sample.thy ===== *)
theory Ml_Output_Sample
  imports Ml_Output Ml_Bundle_Sample
begin

text \<open>
  A small output that is accepted, and a candidate directory that is written and verified: the concrete instances for
  the theorems on whole outputs. Digests are constant; the content of a document is its own path, by which
  \<open>json.loads\<close> knows it.
\<close>

section \<open>The output\<close>

definition out_dirs :: "str list list" where
  "out_dirs = [[''repo''], [''repo'', ''contracts''], [''repo'', ''contracts'', ''dataset''], [''repo'', ''contracts'', ''dataset'', ''v1''],
     [''out''], [''out'', ''dataset''], [''out'', ''candidates''], [''out'', ''bundle''], [''out'', ''bundle'', ''repository''],
     [''out'', ''bundle'', ''repository'', ''m'']]
     @ concat (map (\<lambda>name. [[''out'', ''candidates'', [name]], [''out'', ''candidates'', [name], ''seed-17'']]) ''abcdefghi'')"

definition candidate_paths :: "str list list" where
  "candidate_paths = map (\<lambda>name. [''out'', ''candidates'', [name], ''seed-17'', ''candidate-manifest.json'']) ''abcdefghi''"

definition out_paths :: "str list list" where
  "out_paths = [[''repo'', ''contracts'', ''dataset'', ''v1'', ''schema.json''], [''repo'', ''contracts'', ''dataset'', ''v1'', ''sample-schema.json''],
     [''out'', ''pipeline-result.json''], [''out'', ''dataset'', ''manifest.json''], [''out'', ''dataset'', ''f''], [''out'', ''dataset'', ''i''],
     [''out'', ''dataset'', ''x''], [''out'', ''bundle'', ''repository'', ''closure-manifest.json''],
     [''out'', ''bundle'', ''repository'', ''bundle-manifest.json''], [''out'', ''bundle'', ''repository'', ''m'', ''model.onnx''],
     [''out'', ''model-repository.tar'']] @ candidate_paths"

definition out_content :: "str list \<Rightarrow> str" where
  "out_content path = (if path = [''out'', ''dataset'', ''f''] then tiny_features else if path = [''out'', ''dataset'', ''i''] then tiny_index
     else if path = [''out'', ''dataset'', ''x''] then [] else join ''/'' path)"

definition out_disk :: disk where
  "out_disk = map (\<lambda>path. (path, \<lparr>en_mode = 0x168, en_node = Directory\<rparr>)) out_dirs
     @ map (\<lambda>path. (path, \<lparr>en_mode = 0x120, en_node = Regular (out_content path)\<rparr>)) out_paths"

definition out_volume :: volume where "out_volume = mount [] out_disk"

lemma out_keys: "map fst out_disk = out_dirs @ out_paths"
  by (simp add: out_disk_def comp_def)

lemma out_mounted: "mounted out_volume [] out_disk"
proof -
  have "distinct (out_dirs @ out_paths)" "[] \<notin> set (out_dirs @ out_paths)" by code_simp+
  then show ?thesis unfolding out_volume_def by (intro mount_mounted) (simp_all add: out_keys flip: set_map)
qed

lemma out_closed: "list_all (\<lambda>path. path \<noteq> [] \<and> ''..'' \<notin> set path \<and> list_all (\<lambda>k. take k path \<in> set out_dirs) [1..<length path]) (out_dirs @ out_paths)"
  by code_simp

lemma out_directory:
  assumes "path \<in> set out_dirs"
  shows "node_at (vo_tree out_volume) path = Some Directory" "vo_mode out_volume path = 0x168" "resolve (vo_tree out_volume) path = Inr path"
proof -
  have node: "node_at (vo_tree out_volume) p = Some Directory \<and> vo_mode out_volume p = 0x168" if "p \<in> set out_dirs" for p
  proof -
    have "(p, \<lparr>en_mode = 0x168, en_node = Directory\<rparr>) \<in> set out_disk" using that by (simp add: out_disk_def)
    moreover have "p \<noteq> []" using out_closed that by (auto simp: list_all_iff)
    ultimately show ?thesis using mounted_entry [OF out_mounted] by fastforce
  qed
  then show "node_at (vo_tree out_volume) path = Some Directory" "vo_mode out_volume path = 0x168" using assms by blast+
  have "real_path (vo_tree out_volume) [] path = Some (Inr ([] @ path))"
  proof (rule real_path_plain)
    show "''..'' \<notin> set path" using out_closed assms by (auto simp: list_all_iff)
    fix k assume "k \<le> length path"
    then consider "k = 0" | "k = length path" | "k \<in> set [1..<length path]" by fastforce
    then show "node_at (vo_tree out_volume) ([] @ take k path) = Some Directory"
    proof cases
      case 3
      then have "take k path \<in> set out_dirs" using out_closed assms unfolding list_all_iff by auto
      then show ?thesis using node by simp
    qed (use node assms in \<open>auto simp: node_at_def\<close>)
  qed
  then show "resolve (vo_tree out_volume) path = Inr path" by (simp add: resolve_def)
qed

lemma out_file:
  assumes "path \<in> set out_paths"
  shows "plain_file (vo_tree out_volume) path (out_content path)" "vo_mode out_volume path = 0x120"
proof -
  have member: "(path, \<lparr>en_mode = 0x120, en_node = Regular (out_content path)\<rparr>) \<in> set out_disk" using assms by (simp add: out_disk_def)
  have closed: "path \<noteq> []" "''..'' \<notin> set path" "list_all (\<lambda>k. take k path \<in> set out_dirs) [1..<length path]"
    using out_closed assms by (auto simp: list_all_iff)
  have "plain_file (vo_tree out_volume) ([] @ path) (out_content path)"
  proof (rule mounted_plain [OF out_mounted member])
    fix k assume "0 < k" "k < length path"
    then have "take k path \<in> set out_dirs" using closed(3) by (auto simp: list_all_iff)
    then show "\<exists>m. (take k path, \<lparr>en_mode = m, en_node = Directory\<rparr>) \<in> set out_disk" by (auto simp: out_disk_def)
  qed (use closed in auto)
  then show "plain_file (vo_tree out_volume) path (out_content path)" by simp
  show "vo_mode out_volume path = 0x120" using mounted_entry(2) [OF out_mounted member closed(1)] by simp
qed

lemma out_below:
  assumes "path \<in> set out_dirs"
  shows "vo_below out_volume path = map (drop (length path)) (filter (\<lambda>p. take (length path) p = path \<and> length path < length p) (out_dirs @ out_paths))"
  by (simp add: out_volume_def mount_def below_def out_keys del: filter_append)

lemma out_ordinary:
  assumes "base \<in> set out_dirs"
  obtains files where "ordinary_files out_volume base = Inr files" "set files = {relative. base @ relative \<in> set out_paths \<and> relative \<noteq> []}"
proof -
  let ?g = "\<lambda>relative. if base @ relative \<in> set out_paths then [relative] else []"
  have apart: "list_all (\<lambda>p. p \<notin> set out_dirs) out_paths" by code_simp
  have listed: "relative \<in> set (vo_below out_volume base) \<longleftrightarrow> base @ relative \<in> set (out_dirs @ out_paths) \<and> relative \<noteq> []" for relative
    unfolding out_below [OF assms] by (auto simp: image_iff intro!: exI [of _ "base @ relative"]) (metis append_take_drop_id less_irrefl length_drop drop_all linorder_le_less_linear)+
  have "ordinary_files out_volume base = Inr (concat (map ?g (vo_below out_volume base)))"
    unfolding ordinary_files_def
  proof (subst mapM_all_Inr [where g = ?g])
    fix relative assume "relative \<in> set (vo_below out_volume base)"
    then consider "base @ relative \<in> set out_paths" | "base @ relative \<in> set out_dirs" "base @ relative \<notin> set out_paths"
      using listed apart by (auto simp: list_all_iff)
    then show "(case node_at (vo_tree out_volume) (base @ relative) of
         Some (Symlink _ _) \<Rightarrow> Inl (Invalid ''output_symlink'' (join ''/'' relative))
       | Some (Regular _) \<Rightarrow>
           if vo_mode out_volume (base @ relative) AND 0x49 \<noteq> 0 then Inl (Invalid ''output_executable'' (join ''/'' relative)) else Inr [relative]
       | Some Directory \<Rightarrow> Inr []
       | Some Special \<Rightarrow> Inl (Invalid ''output_special_file'' (join ''/'' relative))
       | None \<Rightarrow> Inl MFileNotFoundError) = Inr (?g relative)"
    proof cases
      case 1
      then show ?thesis using out_file [OF 1] by (simp add: plain_file_def)
    next
      case 2
      then show ?thesis using out_directory [OF 2(1)] by simp
    qed
  qed simp
  moreover have "set (concat (map ?g (vo_below out_volume base))) = {relative. base @ relative \<in> set out_paths \<and> relative \<noteq> []}"
    using listed by auto
  ultimately show ?thesis using that by blast
qed

section \<open>Its documents\<close>

definition member_of :: "str \<Rightarrow> str \<Rightarrow> json" where
  "member_of role name = JObj [(''role'', JStr role), (''rel_path'', JStr name), (''member_digest'', JStr zero_digest)]"

definition out_document :: "str \<Rightarrow> json" where
  "out_document raw =
     (if raw = ''out/pipeline-result.json'' then JObj [(''result'', JStr ''PASS''), (''candidate_executions'', JInt 9),
        (''archive'', JObj [(''path'', JStr ''model-repository.tar''), (''sha256'', JStr zero_digest), (''bytes'', JInt 24)]),
        (''bundle'', JObj [(''repository_closure_digest'', JStr zero_digest)])]
      else if raw = ''out/dataset/manifest.json'' then JObj (tiny_manifest tiny_index)
      else if raw = ''out/bundle/repository/closure-manifest.json'' then JObj [(''identity'', JStr ''i''), (''closure_digest'', JStr zero_digest),
        (''members'', JArr [member_of ''bundle-manifest'' ''bundle-manifest.json'', member_of ''model'' ''m/model.onnx''])]
      else if raw = ''out/bundle/repository/bundle-manifest.json'' then JObj [(''model_digest'', JStr zero_digest),
        (''binding_identity'', JObj [(''model_digest'', JStr zero_digest)]), (''model_revision_digest'', JStr zero_digest)]
      else JObj [(''candidate_id'', JStr raw), (''seed'', JInt 17), (''files'', JObj []), (''eligible'', JBool True)])"

definition out_checker :: checker where
  "out_checker = \<lparr>ck_env = sample_ml_env, ck_loads = (\<lambda>raw. Inr (out_document raw)), ck_order = id, ck_inspect = (\<lambda>_. Inr 3),
     ck_run_ort = (\<lambda>_ rows. Inr (length rows, 2)), ck_tar_open = (\<lambda>_. Inr (archive_members [(''m'', ''x'')]))\<rparr>"

lemma out_checker_parts: "ck_env out_checker = sample_ml_env" "ck_order out_checker xs = xs" "ck_inspect out_checker raw = Inr 3"
  "ck_run_ort out_checker raw rows = Inr (length rows, 2)" "ck_tar_open out_checker raw = Inr (archive_members [(''m'', ''x'')])"
  by (simp_all add: out_checker_def)

lemma out_small: "list_all (\<lambda>path. length (join ''/'' path) \<le> 1000) out_paths"
  by code_simp

lemma out_read:
  assumes "path \<in> set out_paths" "10000 \<le> n" "path \<noteq> [''out'', ''dataset'', ''i'']"
  shows "ensure_ordinary_file (vo_tree out_volume) path n = Inr (out_content path)"
proof -
  have "length (out_content path) \<le> 1000" using out_small assms(1,3) by (auto simp: out_content_def list_all_iff tiny_features_def)
  then show ?thesis using plain_file_read(1) [OF out_file(1) [OF assms(1)]] assms(2) by simp
qed

lemma out_load:
  assumes "path \<in> set out_paths" "10000 \<le> n" "path \<notin> {[''out'', ''dataset'', ''f''], [''out'', ''dataset'', ''i''], [''out'', ''dataset'', ''x'']}"
  shows "load_json (ck_loads out_checker) (vo_tree out_volume) path n = Inr (out_document (join ''/'' path))"
  using out_read [OF assms(1,2)] assms(3) by (simp add: load_json_def out_checker_def out_content_def)

lemma out_sha:
  assumes "path \<in> set out_paths" "path \<noteq> [''out'', ''dataset'', ''i'']"
  shows "sha256_file sample_ml_env (vo_tree out_volume) path = Inr zero_digest"
  using out_read [OF assms(1) _ assms(2)] by (simp add: sha256_file_eq sample_sha)

section \<open>The candidates\<close>

lemma out_candidates: "verify_candidate_artifacts out_checker (\<lambda>_. None) out_volume [''out'', ''candidates''] = Inr 9"
proof -
  have dir: "[''out'', ''candidates''] \<in> set out_dirs" by code_simp
  have manifests: "map (\<lambda>relative. [''out'', ''candidates''] @ relative) (candidate_manifests out_volume [''out'', ''candidates'']) = candidate_paths"
    unfolding candidate_manifests_def out_below [OF dir] by code_simp
  have step: "verify_candidate out_checker (\<lambda>_. None) out_volume path ids = Inr (join ''/'' path, 17)"
    if "path \<in> set candidate_paths" "(join ''/'' path, 17) \<notin> set ids" for path ids
  proof -
    have "path \<in> set out_paths" "join ''/'' path \<notin> {''out/pipeline-result.json'', ''out/dataset/manifest.json'',
        ''out/bundle/repository/closure-manifest.json'', ''out/bundle/repository/bundle-manifest.json''}"
      "path \<notin> {[''out'', ''dataset'', ''f''], [''out'', ''dataset'', ''i''], [''out'', ''dataset'', ''x'']}"
      using that(1) by (auto simp: out_paths_def candidate_paths_def)
    then show ?thesis
      using that(2) out_load [of path] by (simp add: verify_candidate_def Let_def out_document_def indexed_def item_at_def json_get_simps text_of_def
        out_checker_parts raise_if_def)
  qed
  have "verify_candidates out_checker (\<lambda>_. None) out_volume paths ids = Inr (ids @ map (\<lambda>path. (join ''/'' path, 17)) paths)"
    if "set paths \<subseteq> set candidate_paths" "distinct (map (join ''/'') paths)" "set ids \<inter> (\<lambda>path. (join ''/'' path, 17)) ` set paths = {}" for paths ids
    using that
  proof (induction paths arbitrary: ids)
    case (Cons path paths)
    have "verify_candidate out_checker (\<lambda>_. None) out_volume path ids = Inr (join ''/'' path, 17)" by (rule step) (use Cons.prems in auto)
    moreover have "verify_candidates out_checker (\<lambda>_. None) out_volume paths (ids @ [(join ''/'' path, 17)])
        = Inr ((ids @ [(join ''/'' path, 17)]) @ map (\<lambda>path. (join ''/'' path, 17)) paths)"
      by (rule Cons.IH) (use Cons.prems in auto)
    ultimately show ?case by simp
  qed simp
  note all = this [of candidate_paths "[]"]
  have "distinct (map (join ''/'') candidate_paths)" "length candidate_paths = 9" by code_simp+
  with all have run: "verify_candidates out_checker (\<lambda>_. None) out_volume candidate_paths [] = Inr (map (\<lambda>path. (join ''/'' path, 17)) candidate_paths)" by simp
  have "length (candidate_manifests out_volume [''out'', ''candidates'']) = 9"
    using arg_cong [OF manifests, of length] \<open>length candidate_paths = 9\<close> by simp
  then show ?thesis unfolding verify_candidate_artifacts_def Let_def manifests run using \<open>length candidate_paths = 9\<close> by (simp add: raise_if_def)
qed


section \<open>The other parts\<close>

lemma out_dataset: "\<exists>data. load_dataset_at out_checker tiny_loader (vo_tree out_volume) [''repo''] [''out'', ''dataset''] = Inr data
  \<and> dd_manifest data = tiny_manifest tiny_index"
proof -
  let ?t = "vo_tree out_volume"
  have dirs: "[''repo''] \<in> set out_dirs" "[''out'', ''dataset''] \<in> set out_dirs" by code_simp+
  have paths: "[''out'', ''dataset'', ''manifest.json''] \<in> set out_paths" "[''repo'', ''contracts'', ''dataset'', ''v1'', ''schema.json''] \<in> set out_paths"
    "[''repo'', ''contracts'', ''dataset'', ''v1'', ''sample-schema.json''] \<in> set out_paths" "[''out'', ''dataset'', ''f''] \<in> set out_paths"
    "[''out'', ''dataset'', ''i''] \<in> set out_paths" "[''out'', ''dataset'', ''x''] \<in> set out_paths" by code_simp+
  have parts: "path_parts ''f'' = [''f'']" "path_parts ''i'' = [''i'']" "path_parts ''x'' = [''x'']" by code_simp+
  have same: "directory_at ?t [''out'', ''dataset''] name = tiny_directory tiny_index name" if "name = ''f'' \<or> name = ''i'' \<or> name = ''x''" for name
  proof -
    have place: "join_path [''out'', ''dataset''] name = [''out'', ''dataset'', name]" using that parts by (auto simp: join_path_def)
    have path: "[''out'', ''dataset'', name] \<in> set out_paths" using that paths(4-6) by auto
    have content: "out_content [''out'', ''dataset'', name] = (if name = ''f'' then tiny_features else if name = ''i'' then tiny_index else [])"
      using that by (auto simp: out_content_def)
    have "node_at ?t [''out'', ''dataset'', name] = Some (Regular (out_content [''out'', ''dataset'', name]))" using out_file(1) [OF path] by (simp add: plain_file_def)
    then show ?thesis using plain_file_read(3) [OF out_file(1) [OF path]] by (simp add: directory_at_def place content tiny_directory_def)
  qed
  have files: "item_at (tiny_manifest tiny_index) ''files'' = Inr (JObj [(''features'', tiny_entry ''f'' tiny_features), (''sample_index'', tiny_entry ''i'' tiny_index),
        (''split_manifest'', tiny_entry ''x'' [])])" by (simp add: tiny_manifest_def json_get_simps)
  have "open_file sample_ml_env (directory_at ?t [''out'', ''dataset'']) (JObj [(''features'', tiny_entry ''f'' tiny_features), (''sample_index'', tiny_entry ''i'' tiny_index),
        (''split_manifest'', tiny_entry ''x'' [])]) name
     = open_file sample_ml_env (tiny_directory tiny_index) (JObj [(''features'', tiny_entry ''f'' tiny_features), (''sample_index'', tiny_entry ''i'' tiny_index),
        (''split_manifest'', tiny_entry ''x'' [])]) name" if "name \<in> {''features'', ''sample_index'', ''split_manifest''}" for name
    using that same by (auto simp: open_file_def indexed_def item_at_def json_get_simps tiny_entry_def text_of_def)
  then have "load_dataset tiny_loader (directory_at ?t [''out'', ''dataset'']) (tiny_manifest tiny_index)
      = load_dataset tiny_loader (tiny_directory tiny_index) (tiny_manifest tiny_index)"
    unfolding load_dataset_def Let_def files rbind_Inr by (simp add: tiny_loader_def)
  then obtain data where data: "load_dataset tiny_loader (directory_at ?t [''out'', ''dataset'']) (tiny_manifest tiny_index) = Inr data"
    using tiny_loads by (auto simp: is_ok_iff)
  then have "dd_manifest data = tiny_manifest tiny_index" unfolding load_dataset_def Let_def by (auto simp: rbind_eq_Inr)
  moreover have "load_dataset_at out_checker tiny_loader ?t [''repo''] [''out'', ''dataset''] = Inr data"
    using data out_directory(3) [OF dirs(1)] out_directory(3) [OF dirs(2)] out_load [OF paths(1)] out_load [OF paths(2)] out_load [OF paths(3)]
    by (simp add: load_dataset_at_def out_document_def)
  ultimately show ?thesis by blast
qed

abbreviation out_repository :: "str list" where
  "out_repository \<equiv> [''out'', ''bundle'', ''repository'']"

lemma repository_paths: "{relative. out_repository @ relative \<in> set out_paths \<and> relative \<noteq> []}
  = {[''closure-manifest.json''], [''bundle-manifest.json''], [''m'', ''model.onnx'']}"
  by (auto simp: out_paths_def candidate_paths_def)

lemma out_verified: "\<exists>vf. verify_repository out_checker out_volume out_repository data = Inr vf \<and> vf_closure_digest vf = zero_digest \<and> vf_identity vf = JStr ''i''"
proof -
  let ?t = "vo_tree out_volume"
  have dir: "out_repository \<in> set out_dirs" by code_simp
  obtain files where files: "ordinary_files out_volume out_repository = Inr files"
    "set files = {[''closure-manifest.json''], [''bundle-manifest.json''], [''m'', ''model.onnx'']}"
    using out_ordinary [OF dir] unfolding repository_paths .
  have paths: "out_repository @ [''closure-manifest.json''] \<in> set out_paths" "out_repository @ [''bundle-manifest.json''] \<in> set out_paths"
    "out_repository @ [''m'', ''model.onnx''] \<in> set out_paths" by code_simp+
  have modes: "vo_mode out_volume out_repository AND 0x92 = 0" by (simp add: out_directory(2) [OF dir] bundle_modes(1))
  have member_modes: "vo_mode out_volume (out_repository @ relative) AND 0x92 = 0" if "relative \<in> set files" for relative
  proof -
    have "out_repository @ relative \<in> set out_paths" using that files(2) repository_paths by blast
    from out_file(2) [OF this] show ?thesis by (simp add: bundle_modes(5))
  qed
  have writable: "mapM (\<lambda>relative. raise_if (vo_mode out_volume (out_repository @ relative) AND 0x92 \<noteq> 0)
      (Invalid ''repository_member_writable'' (join ''/'' relative))) files = Inr (map (\<lambda>_. ()) files)"
    using member_modes by (intro mapM_all_Inr) (simp add: raise_if_def)
  have parts: "path_parts ''bundle-manifest.json'' = [''bundle-manifest.json'']" "path_parts ''m/model.onnx'' = [''m'', ''model.onnx'']" by code_simp+
  have member: "verify_member out_checker out_volume out_repository seen (member_of role name) = Inr (name, role @ [CHR 0x09] @ name @ [CHR 0x09] @ zero_digest)"
    if "path_parts name = rel" "out_repository @ rel \<in> set out_paths" "rel \<noteq> []" "rel = [''bundle-manifest.json''] \<or> rel = [''m'', ''model.onnx'']"
      "role \<in> set allowed_roles" "name \<notin> set seen" "\<not> starts_with ''/'' name" for seen role name rel
    using that out_sha [OF that(2)] plain_file_read(3) [OF out_file(1) [OF that(2)]]
    by (auto simp: verify_member_def member_of_def indexed_def item_at_def json_get_simps text_of_def join_path_def out_checker_parts Let_def)
  have members: "verify_members out_checker out_volume out_repository [member_of ''bundle-manifest'' ''bundle-manifest.json'', member_of ''model'' ''m/model.onnx''] [] []
      = Inr ([''bundle-manifest.json'', ''m/model.onnx''], [''bundle-manifest'' @ [CHR 0x09] @ ''bundle-manifest.json'' @ [CHR 0x09] @ zero_digest,
          ''model'' @ [CHR 0x09] @ ''m/model.onnx'' @ [CHR 0x09] @ zero_digest])"
    using member [OF parts(1) paths(2), of "''bundle-manifest''" "[]"] member [OF parts(2) paths(3), of "''model''" "[''bundle-manifest.json'']"]
    by (simp add: allowed_roles_def)
  let ?closure = "JObj [(''identity'', JStr ''i''), (''closure_digest'', JStr zero_digest),
      (''members'', JArr [member_of ''bundle-manifest'' ''bundle-manifest.json'', member_of ''model'' ''m/model.onnx''])]"
  have closure: "verify_closure out_checker out_volume out_repository files = Inr (?closure, [''bundle-manifest.json'', ''m/model.onnx''], zero_digest)"
  proof -
    have loaded: "load_json (ck_loads out_checker) ?t (out_repository @ [''closure-manifest.json'']) (4 * 1024 * 1024) = Inr ?closure"
      using out_load [OF paths(1), of "4 * 1024 * 1024"] by (simp add: out_document_def)
    have names: "set (map (join ''/'') files) = set (''closure-manifest.json'' # [''bundle-manifest.json'', ''m/model.onnx''])" using files(2) by auto
    have get: "rbind (indexed ?closure ''members'') iterated
        = Inr [member_of ''bundle-manifest'' ''bundle-manifest.json'', member_of ''model'' ''m/model.onnx'']" "indexed ?closure ''closure_digest'' = Inr (JStr zero_digest)"
      by (simp_all add: indexed_def item_at_def json_get_simps iterated_def)
    show ?thesis unfolding verify_closure_def loaded rbind_Inr get members using names by (simp add: out_checker_parts sample_sha Let_def)
  qed
  have model: "verify_model out_checker out_volume out_repository [''bundle-manifest.json'', ''m/model.onnx''] = Inr (zero_digest, out_content (out_repository @ [''m'', ''model.onnx'']))"
  proof -
    have "join_path out_repository ''m/model.onnx'' = out_repository @ [''m'', ''model.onnx'']" using parts(2) by (simp add: join_path_def)
    then show ?thesis
      using out_load [OF paths(2), of "4 * 1024 * 1024"] out_sha [OF paths(3)] out_read [OF paths(3), of "10 * 1024 * 1024 * 1024"]
      by (simp add: verify_model_def out_document_def out_checker_parts ends_with_def indexed_def item_at_def json_get_simps Let_def raise_if_def sample_json_digest)
  qed
  show ?thesis
    using modes unfolding verify_repository_def files(1) rbind_Inr writable closure prod.case model
    by (simp add: out_checker_parts Let_def raise_if_def indexed_def item_at_def json_get_simps)
qed


lemma out_archive: "\<exists>va. verify_repository_archive out_checker (vo_tree out_volume) [''out'', ''model-repository.tar''] (Some zero_digest) = Inr va
  \<and> va_paths va = [''m'']"
proof -
  have path: "[''out'', ''model-repository.tar''] \<in> set out_paths" by code_simp
  note plain = out_file(1) [OF path]
  have content: "out_content [''out'', ''model-repository.tar''] = ''out/model-repository.tar''" by (simp add: out_content_def)
  have node: "node_at (vo_tree out_volume) [''out'', ''model-repository.tar''] = Some (Regular ''out/model-repository.tar'')"
    using plain by (simp add: plain_file_def content)
  have "archive_path_ok ''m''" by code_simp
  then have "verify_archive_members (archive_members [(''m'', ''x'')]) 0 = Inr 1"
    by (simp add: archive_members_def verify_archive_member_def SOURCE_DATE_EPOCH_def)
  moreover have "sha256_file sample_ml_env (vo_tree out_volume) [''out'', ''model-repository.tar''] = Inr zero_digest" by (rule out_sha [OF path]) simp
  ultimately show ?thesis
    unfolding verify_repository_archive_def plain_file_read(3) [OF plain] rbind_Inr node option.case node.case
    by (simp add: out_checker_parts Let_def archive_members_def)
qed

lemma out_accepted: "\<exists>report. verify_pipeline_output out_checker (\<lambda>_. None) tiny_loader out_volume [''repo''] [''out''] = Inr report
  \<and> va_paths (or_archive report) = [''m'']"
proof -
  let ?t = "vo_tree out_volume"
  have dirs: "[''repo''] \<in> set out_dirs" "[''out''] \<in> set out_dirs" by code_simp+
  have paths: "[''out'', ''pipeline-result.json''] \<in> set out_paths" "[''out'', ''model-repository.tar''] \<in> set out_paths" by code_simp+
  obtain files where files: "ordinary_files out_volume [''out''] = Inr files" using out_ordinary [OF dirs(2)] by blast
  obtain data where data: "load_dataset_at out_checker tiny_loader ?t [''repo''] [''out'', ''dataset''] = Inr data" "dd_manifest data = tiny_manifest tiny_index"
    using out_dataset by blast
  obtain vf where vf: "verify_repository out_checker out_volume out_repository data = Inr vf" "vf_closure_digest vf = zero_digest" "vf_identity vf = JStr ''i''"
    using out_verified by blast
  obtain va where va: "verify_repository_archive out_checker ?t [''out'', ''model-repository.tar''] (Some zero_digest) = Inr va"
    "va_paths va = [''m'']" using out_archive by blast
  have result: "load_json (ck_loads out_checker) ?t [''out'', ''pipeline-result.json''] (4 * 1024 * 1024) = Inr (out_document ''out/pipeline-result.json'')"
    using out_load [OF paths(1), of "4 * 1024 * 1024"] by simp
  have node: "node_at ?t [''out'', ''model-repository.tar''] = Some (Regular ''out/model-repository.tar'')"
    using out_file(1) [OF paths(2)] by (simp add: plain_file_def out_content_def)
  have place: "join_path [''out''] ''model-repository.tar'' = [''out'', ''model-repository.tar'']"
  proof -
    have "path_parts ''model-repository.tar'' = [''model-repository.tar'']" by code_simp
    then show ?thesis by (simp add: join_path_def)
  qed
  have finite: "ensure_finite ''$'' (out_document ''out/pipeline-result.json'') = Inr ()" unfolding ensure_finite_iff by (simp add: out_document_def)
  have revision: "item_at (dd_manifest data) ''dataset_revision'' = Inr (JStr ''r'')" by (simp add: data(2) tiny_manifest_def json_get_simps)
  show ?thesis
    unfolding verify_pipeline_output_def Let_def out_directory(3) [OF dirs(1)] out_directory(3) [OF dirs(2)] rbind_Inr out_directory(1) [OF dirs(2)] files
    using result finite data(1) out_candidates vf va place node revision plain_file_read(3) [OF out_file(1) [OF paths(2)]]
    by (simp add: out_document_def json_get_simps item_at_def indexed_def text_of_def raise_if_def)
qed


theorem accepted_output_whole_witness:
  "\<exists>report identities. verify_pipeline_output out_checker (\<lambda>_. None) tiny_loader out_volume [''repo''] [''out''] = Inr report
    \<and> length (identities :: (str \<times> int) list) = 9 \<and> distinct identities \<and> or_candidates report = 9
    \<and> va_sha256 (or_archive report) = text_of sample_ml_env (or_archive_digest report)"
proof -
  obtain report where run: "verify_pipeline_output out_checker (\<lambda>_. None) tiny_loader out_volume [''repo''] [''out''] = Inr report" using out_accepted by blast
  from accepted_output_whole [OF run] obtain identities :: "(str \<times> int) list" where "length identities = 9" "distinct identities" "or_candidates report = 9"
    "va_sha256 (or_archive report) = text_of sample_ml_env (or_archive_digest report)" unfolding out_checker_parts by blast
  with run show ?thesis by blast
qed


section \<open>A candidate directory\<close>

lemma put_jsons_contents:
  "put_jsons env mc docs d = Inr d' \<Longrightarrow> \<exists>later. d' = d @ later \<and> (\<forall>(path, e) \<in> set later. \<exists>v raw. (path, v) \<in> set docs \<and> pretty_json env v = Inr raw \<and> en_node e = Regular raw)"
proof (induction docs arbitrary: d)
  case (Cons doc docs)
  obtain path v where doc: "doc = (path, v)" by (cases doc)
  obtain d1 where step: "put_json env mc path v d = Inr d1" and rest: "put_jsons env mc docs d1 = Inr d'"
    using Cons.prems by (auto simp: doc rbind_eq_Inr)
  obtain raw where raw: "pretty_json env v = Inr raw" "d1 = d @ [(path, \<lparr>en_mode = 0x1B6 AND NOT (mc_umask mc), en_node = Regular raw\<rparr>)]"
    using step by (rule put_json_Inr)
  obtain later where later: "d' = d1 @ later" "\<forall>(path, e) \<in> set later. \<exists>v raw. (path, v) \<in> set docs \<and> pretty_json env v = Inr raw \<and> en_node e = Regular raw"
    using Cons.IH [OF rest] by blast
  show ?case
    by (rule exI [of _ "(path, \<lparr>en_mode = 0x1B6 AND NOT (mc_umask mc), en_node = Regular raw\<rparr>) # later"]) (use raw later in \<open>fastforce simp: doc\<close>)
qed simp

lemma evidence_small: "list_all (\<lambda>(path, v). \<not> has_nonfinite v \<and> indent_weight 0 (unfloat (sort_json v)) \<le> 90000)
  (evidence_documents sample_winner sample_contracts (JObj []))"
  by code_simp

lemma pretty_small:
  assumes "pretty_json zero_env v = Inr raw" "indent_weight 0 (unfloat (sort_json v)) \<le> 90000"
  shows "length raw \<le> 100000"
proof -
  have "\<not> has_nonfinite v" "raw = json_indent zero_env 0 (sort_json v) @ [CHR 0x0A]" using assms(1) by (auto simp: pretty_json_def split: if_splits)
  then show ?thesis using indent_bound [of "sort_json v"] assms(2) by (simp add: sort_json_nonfinite)
qed

lemma pretty_length: "pretty_json env v = Inr raw \<Longrightarrow> float_free v \<Longrightarrow> int (length raw) \<le> 1 + indent_weight 0 v"
  using json_indent_length [OF sort_json_float_free, of v env 0] by (auto simp: pretty_json_def indent_weight_sort split: if_splits)

lemma evidence_written:
  obtains d2 where "put_jsons zero_env sample_machine (evidence_documents sample_winner sample_contracts (JObj []))
      [([''model.onnx''], \<lparr>en_mode = 0x120 AND NOT (mc_umask sample_machine), en_node = Regular ''model''\<rparr>)] = Inr d2"
    "\<And>path e. (path, e) \<in> set d2 \<Longrightarrow> \<exists>raw. en_node e = Regular raw \<and> length raw \<le> 100000"
    "map fst d2 = map (\<lambda>name. [name]) (evidence_names sample_winner)"
proof -
  let ?docs = "evidence_documents sample_winner sample_contracts (JObj [])"
  let ?d1 = "[([''model.onnx''], \<lparr>en_mode = 0x120 AND NOT (mc_umask sample_machine), en_node = Regular ''model''\<rparr>)]"
  have names: "map fst ?docs = map (\<lambda>name. [name]) (tl (evidence_names sample_winner))"
    by (simp add: evidence_documents_def evidence_names_def sample_winner_def)
  have shape: "list_all (\<lambda>name. name \<noteq> [] \<and> hd name \<noteq> CHR ''.'' \<and> name \<noteq> ''model.onnx'') (tl (evidence_names sample_winner))"
    "distinct (evidence_names sample_winner)" by code_simp+
  have "\<exists>d2. put_jsons zero_env sample_machine ?docs ?d1 = Inr d2"
  proof (rule put_jsons_ok)
    have "path \<in> (\<lambda>name. [name]) ` set (tl (evidence_names sample_winner))" if "(path, v) \<in> set ?docs" for path v
      using that names by (metis fst_conv image_eqI image_set)
    then show "list_all (\<lambda>(path, v). \<not> has_nonfinite v \<and> path \<noteq> [] \<and> last path \<noteq> [] \<and> hd (last path) \<noteq> CHR ''.'') ?docs"
      using evidence_small shape(1) unfolding list_all_iff by fastforce
    show "distinct (map fst ?docs)" unfolding names using shape(2) by (simp add: distinct_map distinct_tl inj_on_def)
    have "fst ` set ?docs = (\<lambda>name. [name]) ` set (tl (evidence_names sample_winner))" using names by (metis image_set)
    then show "fst ` set ?docs \<inter> fst ` set ?d1 = {}" using shape(1) by (auto simp: list_all_iff)
  qed simp
  then obtain d2 where d2: "put_jsons zero_env sample_machine ?docs ?d1 = Inr d2" by blast
  obtain later where later: "d2 = ?d1 @ later" "\<forall>(path, e) \<in> set later. \<exists>v raw. (path, v) \<in> set ?docs \<and> pretty_json zero_env v = Inr raw \<and> en_node e = Regular raw"
    using put_jsons_contents [OF d2] by blast
  have "\<exists>raw. en_node e = Regular raw \<and> length raw \<le> 100000" if member: "(path, e) \<in> set d2" for path e
  proof (cases "(path, e) \<in> set later")
    case True
    then obtain v raw where "(path, v) \<in> set ?docs" "pretty_json zero_env v = Inr raw" "en_node e = Regular raw" using later(2) by blast
    then show ?thesis using pretty_small evidence_small unfolding list_all_iff by blast
  qed (use member later(1) in auto)
  moreover have "map fst d2 = map (\<lambda>name. [name]) (evidence_names sample_winner)"
    using put_jsons_Inr [OF d2] names by (auto simp: evidence_names_def sample_winner_def)
  ultimately show ?thesis using that d2 by blast
qed


lemma candidate_directory:
  obtains manifest d files ct revision where
    "write_candidate_artifacts sample_ml_env sample_machine True profile_tree sample_winner sample_dataset_manifest (JObj []) = Inr (manifest, d)"
    "manifest = candidate_manifest sample_winner ct revision (JStr ''d'') (JStr ''r'') True files" "ct = sample_contracts" "revision = replicate 40 CHR ''0''"
    "length files \<le> 10" "\<And>name v. (name, v) \<in> set files \<Longrightarrow> indent_weight 2 v \<le> 1000 \<and> length name \<le> 30 \<and> float_free v"
    "distinct (map fst d)" "[] \<notin> fst ` set d"
proof -
  obtain d2 where d2: "put_jsons zero_env sample_machine (evidence_documents sample_winner sample_contracts (JObj []))
      [([''model.onnx''], \<lparr>en_mode = 0x120 AND NOT (mc_umask sample_machine), en_node = Regular ''model''\<rparr>)] = Inr d2"
    "\<And>path e. (path, e) \<in> set d2 \<Longrightarrow> \<exists>raw. en_node e = Regular raw \<and> length raw \<le> 100000"
    "map fst d2 = map (\<lambda>name. [name]) (evidence_names sample_winner)" by (rule evidence_written) blast
  have names: "length (evidence_names sample_winner) = 10" "list_all (\<lambda>name. length name \<le> 30 \<and> name \<noteq> ''candidate-manifest.json'' \<and> name \<noteq> [] \<and> hd name \<noteq> CHR ''.'')
      (evidence_names sample_winner)" "distinct (evidence_names sample_winner)" by code_simp+
  have keys: "fst ` set d2 = (\<lambda>name. [name]) ` set (evidence_names sample_winner)" using d2(3) by (metis image_set)
  have found: "\<exists>e raw. map_of d2 path = Some e \<and> en_node e = Regular raw \<and> length raw \<le> 100000" if "path \<in> fst ` set d2" for path
  proof -
    have "map_of d2 path \<noteq> None" using that by (simp add: map_of_eq_None_iff)
    then obtain e where "map_of d2 path = Some e" by blast
    from d2(2) [OF map_of_SomeD [OF this]] this show ?thesis by auto
  qed
  have "is_ok (file_entries sample_ml_env sample_machine d2)"
    unfolding file_entries_def mapM_ok_iff using found by (fastforce simp: digest_at_def content_at_def)
  then obtain files where files: "file_entries sample_ml_env sample_machine d2 = Inr files" by (auto simp: is_ok_iff)
  let ?manifest = "candidate_manifest sample_winner sample_contracts (replicate 40 CHR ''0'') (JStr ''d'') (JStr ''r'') True files"
  have entry: "indent_weight 2 v \<le> 1000 \<and> length name \<le> 30 \<and> float_free v \<and> \<not> has_nonfinite v" if listed: "(name, v) \<in> set files" for name v
  proof -
    obtain path e raw where x: "(path, e) \<in> set d2" "name = last path" "en_node e = Regular raw" 
      "v = JObj [(''sha256'', JStr (sha256_bytes sample_ml_env raw)), (''bytes'', JInt (int (length raw)))]" using files listed by (rule file_entries_Inr)
    have "path \<in> fst ` set d2" using x(1) by force
    then have "length name \<le> 30" using names(2) x(2) unfolding keys by (auto simp: list_all_iff)
    moreover have "length raw \<le> 100000" using d2(2) [OF x(1)] x(3) by auto
    ultimately show ?thesis by (simp add: x(4) sample_sha zero_digest_def str_cost_length digits_bound_def)
  qed
  have "\<not> has_nonfinite (JObj files)" using entry by (auto simp: list_ex_iff)
  then have "\<not> has_nonfinite (JObj ?manifest)" by (simp add: candidate_manifest_def NOT_APPLICABLE_def sample_winner_def)
  then obtain mtext where pretty: "pretty_json zero_env (JObj ?manifest) = Inr mtext" by (simp add: pretty_json_def del: has_nonfinite.simps)
  let ?d = "d2 @ [([''candidate-manifest.json''], \<lparr>en_mode = 0x1B6 AND NOT (mc_umask sample_machine), en_node = Regular mtext\<rparr>)]"
  have "put_json zero_env sample_machine [''candidate-manifest.json''] (JObj ?manifest) d2 = Inr ?d"
    by (rule put_json_ok [OF pretty]) (use names(2) in \<open>auto simp: keys list_all_iff\<close>)
  moreover have "\<not> is_ok (lstat profile_tree [''out''])"
    by (simp add: lstat_def resolve_def real_path_simps node_at_def profile_tree_def profile_paths_def)
  then have "create_fresh_directory True profile_tree (mc_base sample_machine) = Inr [''out'']" by (simp add: create_fresh_directory_def sample_machine_def)
  moreover have "put_file sample_machine 0x120 [''model.onnx''] ''model'' []
      = Inr [([''model.onnx''], \<lparr>en_mode = 0x120 AND NOT (mc_umask sample_machine), en_node = Regular ''model''\<rparr>)]" by (simp add: put_file_def)
  moreover have "cn_onnx_payload sample_winner = ''model''" "json_get (cn_metrics sample_winner) ''passes_thresholds'' = Some (JBool True)"
    "json_get sample_dataset_manifest ''dataset_id'' = Some (JStr ''d'')" "json_get sample_dataset_manifest ''dataset_revision'' = Some (JStr ''r'')"
    by (simp_all add: sample_winner_def sample_dataset_manifest_def json_get_simps)
  ultimately have run: "write_candidate_artifacts sample_ml_env sample_machine True profile_tree sample_winner sample_dataset_manifest (JObj []) = Inr (?manifest, ?d)"
    using d2(1) files unfolding write_candidate_artifacts_def sample_contracts_eq sample_revision_eq by (simp add: sample_py Let_def item_at_def)
  have size: "length files \<le> 10"
    using mapM_length [OF files [unfolded file_entries_def]] length_filter_le [of _ d2] arg_cong [OF d2(3), of length] names(1)
    by (metis (no_types, lifting) length_map length_sort)
  have distinct: "distinct (map fst ?d)" "[] \<notin> fst ` set ?d"
    using names(2,3) d2(3) keys by (auto simp: distinct_map inj_on_def list_all_iff)
  show ?thesis using that [OF run refl refl refl size _ distinct] entry by blast
qed

theorem candidate_verifies_witness:
  "\<exists>manifest d. write_candidate_artifacts sample_ml_env sample_machine True profile_tree sample_winner sample_dataset_manifest (JObj []) = Inr (manifest, d)
    \<and> verify_candidate (out_checker\<lparr>ck_loads := (\<lambda>_. Inr (sort_json (JObj manifest)))\<rparr>) (\<lambda>_. None) (mount [''out''] d) [''out'', ''candidate-manifest.json''] []
        = Inr (''lr-window-binary/v1'', 17)"
proof -
  obtain manifest d files ct revision where
    run: "write_candidate_artifacts sample_ml_env sample_machine True profile_tree sample_winner sample_dataset_manifest (JObj []) = Inr (manifest, d)"
    and manifest: "manifest = candidate_manifest sample_winner ct revision (JStr ''d'') (JStr ''r'') True files" "ct = sample_contracts" "revision = replicate 40 CHR ''0''"
    and files: "length files \<le> 10" "\<And>name v. (name, v) \<in> set files \<Longrightarrow> indent_weight 2 v \<le> 1000 \<and> length name \<le> 30 \<and> float_free v"
    and keys: "distinct (map fst d)" "[] \<notin> fst ` set d" by (rule candidate_directory) blast
  let ?ck = "out_checker\<lparr>ck_loads := (\<lambda>_. Inr (sort_json (JObj manifest)))\<rparr>"
  have env: "ck_env ?ck = sample_ml_env" by (simp add: out_checker_def)
  obtain mtext where pretty: "pretty_json zero_env (JObj manifest) = Inr mtext" using candidate_written [OF run] by (metis sample_py)
  have weight: "sum_list (map (\<lambda>kv. 10 + 6 * int (length (fst kv)) + indent_weight 2 (snd kv)) files) \<le> 1200 * int (length files)"
    using files(2) by (induction files) (auto, fastforce)
  have free: "float_free (JObj manifest)"
    using files(2) by (auto simp: manifest candidate_manifest_def NOT_APPLICABLE_def sample_winner_def list_all_iff)
  have "indent_weight 0 (JObj manifest) \<le> 20000 + sum_list (map (\<lambda>kv. 10 + 6 * int (length (fst kv)) + indent_weight 2 (snd kv)) files)"
    by (simp add: manifest candidate_manifest_def NOT_APPLICABLE_def sample_winner_def sample_contracts_def zero_digest_def str_cost_length digits_bound_def
        numeral_2_eq_2)
  moreover have "int (length mtext) \<le> 1 + indent_weight 0 (JObj manifest)"
    using pretty free by (rule pretty_length)
  ultimately have size: "length mtext \<le> 4 * 1024 * 1024" using weight files(1) by linarith
  have mounted: "mounted (mount [''out''] d) [''out''] d" by (rule mount_mounted [OF keys]) simp
  have passes: "json_get (cn_metrics sample_winner) ''passes_thresholds'' = Some (JBool True)" by (simp add: sample_winner_def json_get_simps)
  have loads: "ck_loads ?ck mtext = Inr (sort_json (JObj manifest))" by (simp del: sort_json.simps)
  have "verify_candidate ?ck (\<lambda>_. None) (mount [''out''] d) ([''out''] @ [''candidate-manifest.json'']) [] = Inr (cn_candidate_id sample_winner, cn_seed sample_winner)"
    by (rule candidate_verifies [of ?ck, unfolded env sample_py, OF run pretty size loads mounted passes]) simp_all
  then show ?thesis using run by (auto simp: sample_winner_def simp del: sort_json.simps)
qed

end
