(* ===== verification/Spec2Isabelle.thy ===== *)
theory Spec2Isabelle
  imports Store Graph_Sample Server_Sample Health_Sample Ml_Sample Ml_Selection Ml_Output_Sample
begin

text \<open>
  A verification development of two Python programs of MASI-NIDS: the analysis plugin, package \<open>masi_analysis\<close>
  (\<open>src/analysis-py\<close>), and the offline training pipeline, package \<open>masi_offline_ml\<close> (\<open>src/ml-py\<close>).

  \<^bold>\<open>The analysis plugin.\<close> A manager submits a frozen security event over HTTP; the plugin stores it as a task, a worker
  runs a fixed plan of six nodes that asks a language-model provider for hypotheses, fetches evidence from MCP tools and
  A2A peers, accepts only statements grounded in the event, and stores the resulting artifact, which the same requester
  can poll. A binding file says which contract is in force; a reload may only move it forward.

  \<^item> \<open>Prelude\<close>: results \<open>'e + 'a\<close> with \<open>rbind\<close>, \<open>raise_if\<close>, \<open>mapM\<close>, text of numbers, and the locale
    \<open>invariant_machine\<close> (initial states, steps and an invariant; reachable states keep it), interpreted for the store,
    the binding and the service.
  \<^item> \<open>Errors\<close> (\<open>errors.py\<close>, \<open>constants.py\<close>): the exceptions as a datatype with code, status and retry flag, the ceilings.
  \<^item> \<open>Canonical\<close>, \<open>Canonical_Injective\<close>, \<open>Digests\<close>, \<open>Encoding_Bound\<close> (\<open>canonical.py\<close>): Python values, Go-compatible and
    sorted JSON encodings, digests of inputs, bindings, artifacts and trajectories. The encodings are injective on
    float-free values, so that a digest commits to its document as far as SHA-256 has no collision at the two inputs.
  \<^item> \<open>Models\<close>, \<open>Samples\<close> (\<open>models.py\<close>): one record per pydantic class with a boolean predicate for its constraints.
  \<^item> \<open>Regex\<close>, \<open>Security\<close> (\<open>security.py\<close>): the backtracking fragment of \<open>re\<close> that the patterns use, redaction, output
    safety, bounded file reading, endpoint admission. \<open>Regex\<close> is structurally recursive on the pattern and on the text.
  \<^item> \<open>Config\<close> (\<open>config.py\<close>): \<open>load_runtime_material\<close>, \<open>cross_validate\<close>, the reload fence and \<open>matches_input\<close>.
  \<^item> \<open>Store\<close> (\<open>store.py\<close>): the three tables as lists of rows, every method, transactions that roll back on error;
    the locale \<open>requester_view\<close> states what a requester may see, interpreted for polling and for traces.
  \<^item> \<open>Transport\<close>, \<open>Provider\<close>, \<open>Mcp\<close>, \<open>Peer\<close> (the files of the same names): pinned and bounded outbound requests and their
    three clients. The network is an oracle that maps the log of the requests sent so far to a reply.
  \<^item> \<open>Graph\<close>, \<open>Graph_Sound\<close>, \<open>Graph_Outage\<close>, \<open>Graph_Sample\<close> (\<open>graph.py\<close>): every node and the compiled plan; what an artifact
    can contain, the number of requests a run sends, a run in which nothing answers.
  \<^item> \<open>Metrics\<close> (\<open>metrics.py\<close>); \<open>Service\<close>, \<open>Service_Sound\<close>, \<open>Service_Lifecycle\<close>, \<open>Service_Sample\<close> (\<open>service.py\<close>): admission, the bounded
    queue, the segments of a worker between two awaits, reload, shutdown, health. Concurrency of asyncio is the
    interleaving of these segments, an inductive step relation; \<open>service_inv\<close> holds in every reachable state.
  \<^item> \<open>Calendar\<close>, \<open>Server\<close>, \<open>Server_Sound\<close>, \<open>Server_Sample\<close> (\<open>server.py\<close>): routes, identity gate, endpoints, bounded responses
    (\<open>json_response\<close> calls itself with an error document when the answer is too long: a \<open>partial_function\<close>, proved to
    return for every admissible bound), signals; the server refines the service.
  \<^item> \<open>Atomic_File\<close>: files as a map from names to contents, sequences of writes, and the contract of a writer that goes
    through a temporary file: the locale \<open>atomic_writer\<close> (a target is old or complete at every moment) and its
    extension \<open>fresh_writer\<close> (existing files stay). It is shared by both programs.
  \<^item> \<open>Health_File\<close>, \<open>Health_Sample\<close> (\<open>security.py\<close>, \<open>server.py\<close>, \<open>cli.py\<close>): the atomic write of the health document with the
    failure of any system call, the probe and the command line.

  \<^bold>\<open>The training pipeline.\<close> It generates or loads a dataset of traffic windows, trains three candidates with three seeds,
  selects thresholds, measures quality, selects a winner, and publishes it as an immutable repository with its archive,
  which a separate command verifies. Floating point is a rounding function of rationals, a
  parameter; scikit-learn, SHA-256, \<open>json.loads\<close> and the schema validator are parameters too.

  \<^item> \<open>Ml_Contracts\<close> (\<open>canonical.py\<close>, \<open>contracts.py\<close>): typed access, splits, feature tensors, the validators of manifests,
    samples and explanations. The feature file is read back exactly.
  \<^item> \<open>Ml_Dataset\<close>, \<open>Ml_Load\<close> (\<open>dataset.py\<close>): families, windows, records and loading. The search for families ends
    by its own counter of 100000 candidates, and is shown to succeed when the first candidates fill the quotas.
  \<^item> \<open>Ml_Files\<close> (file helpers of \<open>canonical.py\<close>): a tree with links, real paths (a \<open>partial_function\<close>, since links may form
    a cycle, which the system reports as an error), bounded reading inside the repository, and the two writers of
    fresh files, interpreted as \<open>fresh_writer\<close>.
  \<^item> \<open>Ml_Generate\<close>, \<open>Ml_Roundtrip\<close>, \<open>Ml_Complete\<close>, \<open>Ml_Sample\<close> (\<open>generate_module_dataset\<close> of \<open>dataset.py\<close>): the golden check, the
    three data files and the manifest; the order in which they appear on disk, that a generation completes, and that
    the loader reads back what was generated. The bounds of the loader (16384 bytes for a line, ten gibibytes for
    a file) are shown to be enough for every generated record and file.
  \<^item> \<open>Ml_Selection\<close> (\<open>metrics.py\<close>, \<open>select_winner\<close> of \<open>artifacts.py\<close>): thresholds, quality report, winner.
  \<^item> \<open>Ml_Bundle\<close> (the rest of \<open>artifacts.py\<close>): the contracts of a candidate, its directory of evidence, the bundle of the winner
    and the archive. A \<open>disk\<close> lists what is below a fresh directory, with permission bits as words of 16 bits.
  \<^item> \<open>Ml_Publish\<close>, \<open>Ml_Output\<close> (\<open>pipeline.py\<close>, \<open>cli.py\<close>): verification of the repository, the archive, the candidates and a whole
    output on a \<open>volume\<close> (a tree with permission bits and directory listings), and the recovery of abandoned staging
    directories, which spares every directory whose owner may be alive. An accepted repository is closed, an accepted
    output is whole.
  \<^item> \<open>Ml_Published\<close>, \<open>Ml_Bundle_Sample\<close>, \<open>Ml_Output_Sample\<close>: building a bundle completes, and the repository, the archive and
    the candidate directories it leaves pass the verification; concrete bundles and outputs. The output of the last
    theory is accepted with an archive that has none of the repository's files.

  \<^bold>\<open>Not modelled.\<close> aiohttp, httpx, SQLite, pydantic's decoder, LangGraph's scheduler, the MCP SDK and JSON schemas are
  libraries: parameters where the code depends on what they return. Training, ONNX export and SHAP
  explanations compute on floating-point arrays inside third-party libraries; \<open>run_pipeline\<close>, which strings them together
  with the modelled parts, and the check of the golden vectors (\<open>validate_public_contracts\<close>) are left out. The other directories of the repository are
  written in Rust, Go, C++, P4 and TypeScript; their Python files are build, test and evidence scripts.
\<close>

end
